(* ===== verification/Prelude.thy ===== *)
theory Prelude
  imports Main "HOL-Library.Word"
begin

text \<open>
  Shared vocabulary of the development: the machine integers of the C sources, the
  little-endian byte image of an integer, C strings, and the generic lemmas on lists and
  words that the component theories use. The collections declared here are
  \<^item> \<open>wire_simps\<close>: rewrite rules that decode what an encoder has just produced;
  \<^item> \<open>unat_simps\<close>: rules that move bounded 32-bit arithmetic to natural numbers.
\<close>

unbundle bit_operations_syntax

named_theorems wire_simps "decoding of encoded fields"
named_theorems unat_simps "bounded word arithmetic as arithmetic on nat"

section \<open>Machine integers\<close>

text \<open>
  \<open>uint8_t\<close>, \<open>uint32_t\<close>, \<open>size_t\<close> and \<open>int\<close> on the 64-bit Linux target of the
  Makefiles. A C \<open>int\<close> is kept as its 32 bits and read with \<open>sint\<close> where the code
  compares it.
\<close>

type_synonym byte = "8 word"
type_synonym u32 = "32 word"
type_synonym u64 = "64 word"
type_synonym i32 = "32 word"

text \<open>The byte image of an integer in memory (little endian), \<open>n\<close> bytes long, and back.\<close>

definition bytes_le :: "nat \<Rightarrow> 'a::len word \<Rightarrow> byte list" where
  "bytes_le n w = map (\<lambda>i. ucast (drop_bit (8 * i) w)) [0..<n]"

fun word_le :: "byte list \<Rightarrow> 'a::len word" where
  "word_le [] = 0"
| "word_le (b # bs) = ucast b OR push_bit 8 (word_le bs)"

lemma length_bytes_le [simp]: "length (bytes_le n w) = n"
  by (simp add: bytes_le_def)

lemma bit_word_le:
  "bit (word_le bs :: 'a::len word) k \<longleftrightarrow>
     k < LENGTH('a) \<and> k div 8 < length bs \<and> bit (bs ! (k div 8)) (k mod 8)"
proof (induction bs arbitrary: k)
  case Nil
  then show ?case by simp
next
  case (Cons b bs)
  show ?case
  proof (cases "k < 8")
    case True
    then show ?thesis by (auto simp: bit_simps)
  next
    case False
    then have "\<not> bit b k" by (auto dest: bit_imp_le_length)
    moreover have "k div 8 = Suc ((k - 8) div 8)" "(k - 8) mod 8 = k mod 8"
      using False by (simp_all add: le_div_geq le_mod_geq)
    ultimately show ?thesis
      using False Cons.IH [of "k - 8"] by (auto simp: bit_simps)
  qed
qed

lemma word_le_bytes_le [simp]:
  fixes w :: "'a::len word"
  assumes "LENGTH('a) \<le> 8 * n"
  shows "word_le (bytes_le n w) = w"
proof (rule bit_word_eqI)
  fix k
  assume k: "k < LENGTH('a)"
  then have "k div 8 < n" using assms by auto
  moreover have "8 * (k div 8) + k mod 8 = k" by simp
  ultimately show "bit (word_le (bytes_le n w) :: 'a word) k \<longleftrightarrow> bit w k"
    using k by (auto simp: bit_word_le bytes_le_def bit_simps)
qed

lemma bytes_le_word_le:
  fixes bs :: "byte list"
  assumes "8 * length bs \<le> LENGTH('a)" and "n = length bs"
  shows "bytes_le n (word_le bs :: 'a::len word) = bs"
proof (rule nth_equalityI)
  show "length (bytes_le n (word_le bs :: 'a word)) = length bs" using assms by simp
  fix i
  assume "i < length (bytes_le n (word_le bs :: 'a word))"
  then have i: "i < length bs" using assms by simp
  show "bytes_le n (word_le bs :: 'a word) ! i = bs ! i"
  proof (rule bit_word_eqI)
    fix k :: nat
    assume "k < LENGTH(8)"
    then have k: "k < 8" by simp
    have "(8 * i + k) div 8 = i" "(8 * i + k) mod 8 = k" using k by auto
    moreover have "8 * i + k < LENGTH('a)" using i k assms(1) by linarith
    ultimately show "bit (bytes_le n (word_le bs :: 'a word) ! i) k = bit (bs ! i) k"
      using i k assms(2) by (auto simp: bytes_le_def bit_simps bit_word_le)
  qed
qed

section \<open>Bounded arithmetic on 32-bit words\<close>

lemma unat_add_u32 [unat_simps]:
  fixes a b :: u32
  assumes "unat a + unat b < 2 ^ 32"
  shows "unat (a + b) = unat a + unat b"
  using assms by (simp add: unat_word_ariths)

lemma unat_sub_u32 [unat_simps]:
  fixes a b :: u32
  assumes "unat b \<le> unat a"
  shows "unat (a - b) = unat a - unat b"
  using assms by (simp add: unat_sub word_le_nat_alt)

lemma unat_u32_less: "unat (a :: u32) < 2 ^ 32"
  using unsigned_less [of a, where ?'a = nat] by simp

lemma unat_add_wrap:
  fixes a b :: u32
  assumes "2 ^ 32 \<le> unat a + unat b"
  shows "unat (a + b) = unat a + unat b - 2 ^ 32"
  using assms unat_u32_less [of a] unat_u32_less [of b]
  by (simp add: unat_word_ariths mod_if le_mod_geq)

text \<open>Truncation to a byte commutes with the arithmetic.\<close>

lemma ucast_byte_add: "(ucast (x + y :: u32) :: byte) = ucast x + ucast y"
  by (rule word_uint_eqI) (simp add: uint_word_ariths unsigned_ucast_eq take_bit_eq_mod mod_mod_cancel mod_simps)

lemma ucast_byte_diff: "(ucast (x - y :: u32) :: byte) = ucast x - ucast y"
  by (rule word_uint_eqI) (simp add: uint_word_ariths unsigned_ucast_eq take_bit_eq_mod mod_mod_cancel mod_simps)

lemma ucast_ucast_byte [simp]: "(ucast (ucast (b :: byte) :: u32) :: byte) = b"
  by (rule word_uint_eqI) (simp add: unsigned_ucast_eq take_bit_word_eq_self)

lemma unat_minus_one_u32 [simp]: "unat (- 1 :: u32) = 4294967295"
  by (simp add: unsigned_minus_1_eq_mask mask_eq_exp_minus_1)

lemma unat_eqD: "unat (a :: 'a::len word) = unat b \<Longrightarrow> a = b"
  by (simp add: word_unat_eq_iff)

lemma div_cotas:
  fixes x b :: nat
  assumes "0 < b"
  shows "x div b * b \<le> x \<and> x < Suc (x div b) * b"
proof -
  have "x = x div b * b + x mod b" by simp
  moreover have "x mod b < b" using assms by simp
  ultimately show ?thesis unfolding mult_Suc by linarith
qed

section \<open>C strings\<close>

text \<open>
  A \<open>char*\<close> of the sources is a HOL \<open>string\<close> without its terminator; the terminator
  is added where the code copies it. A character and the byte that holds it:
\<close>

definition byte_of_char :: "char \<Rightarrow> byte" where
  "byte_of_char c = of_nat (of_char c)"

definition char_of_byte :: "byte \<Rightarrow> char" where
  "char_of_byte b = char_of (unat b)"

abbreviation NUL :: char where
  "NUL \<equiv> CHR 0x00"

lemma char_of_byte_of_char [simp]: "char_of_byte (byte_of_char c) = c"
proof -
  have "(of_char c :: nat) < 256" by (rule nat_of_char_less_256)
  then have "unat (of_nat (of_char c) :: byte) = of_char c"
    by (simp add: unat_of_nat)
  then show ?thesis by (simp add: char_of_byte_def byte_of_char_def)
qed

lemma map_char_of_byte_of_char [simp]: "map char_of_byte (map byte_of_char cs) = cs"
  by (induction cs) simp_all

text \<open>The C string that starts at the head of a buffer: everything before the first NUL.\<close>

definition cstr :: "string \<Rightarrow> string" where
  "cstr cs = takeWhile (\<lambda>c. c \<noteq> NUL) cs"

abbreviation sin_nul :: "string \<Rightarrow> bool" where
  "sin_nul cs \<equiv> NUL \<notin> set cs"

lemma cstr_append_NUL [simp]: "sin_nul cs \<Longrightarrow> cstr (cs @ NUL # ds) = cs"
  by (induction cs) (auto simp: cstr_def)

lemma cstr_id [simp]: "sin_nul cs \<Longrightarrow> cstr cs = cs"
  by (auto simp: cstr_def takeWhile_eq_all_conv)

section \<open>Lists\<close>

text \<open>
  \<open>t_list\<close> and \<open>t_queue\<close> of the commons library appear as HOL lists, under the
  documented meaning of the calls the sources make: \<open>list_add\<close> and \<open>queue_push\<close>
  append at the end, \<open>queue_pop\<close> takes the head, \<open>list_add_in_index l 0\<close> puts an
  element in front, \<open>list_remove l i\<close> drops position \<open>i\<close>.
\<close>

definition list_remove :: "'a list \<Rightarrow> nat \<Rightarrow> 'a list" where
  "list_remove xs i = take i xs @ drop (Suc i) xs"

fun queue_pop :: "'a list \<Rightarrow> 'a option \<times> 'a list" where
  "queue_pop [] = (None, [])"
| "queue_pop (x # xs) = (Some x, xs)"

text \<open>The first element that satisfies a test, with its position: the search loops of the code.\<close>

fun buscar_idx :: "('a \<Rightarrow> bool) \<Rightarrow> 'a list \<Rightarrow> nat option" where
  "buscar_idx P [] = None"
| "buscar_idx P (x # xs) = (if P x then Some 0 else map_option Suc (buscar_idx P xs))"

lemma length_list_remove [simp]: "i < length xs \<Longrightarrow> length (list_remove xs i) = length xs - 1"
  by (simp add: list_remove_def)

lemma set_list_remove_subset: "set (list_remove xs i) \<subseteq> set xs"
  by (auto simp: list_remove_def dest: in_set_takeD in_set_dropD)

lemma buscar_idx_SomeD:
  "buscar_idx P xs = Some i \<Longrightarrow> i < length xs \<and> P (xs ! i) \<and> (\<forall>j < i. \<not> P (xs ! j))"
proof (induction xs arbitrary: i)
  case (Cons x xs)
  then show ?case by (auto split: if_splits simp: less_Suc_eq_0_disj)
qed simp

lemma buscar_idx_None [simp]: "buscar_idx P xs = None \<longleftrightarrow> (\<forall>x \<in> set xs. \<not> P x)"
  by (induction xs) auto

lemma buscar_idx_find: "find P xs = map_option (nth xs) (buscar_idx P xs)"
  by (induction xs) (auto simp: option.map_comp comp_def)

lemma find_SomeD: "find P xs = Some x \<Longrightarrow> x \<in> set xs \<and> P x"
  by (induction xs) (auto split: if_splits)

lemma find_NoneD: "find P xs = None \<Longrightarrow> x \<in> set xs \<Longrightarrow> \<not> P x"
  by (induction xs) (auto split: if_splits)

lemma list_remove_Cons_0 [simp]: "list_remove (x # xs) 0 = xs"
  by (simp add: list_remove_def)

lemma list_remove_Cons_Suc [simp]: "list_remove (x # xs) (Suc i) = x # list_remove xs i"
  by (simp add: list_remove_def)

lemma list_split_nth: "i < length xs \<Longrightarrow> xs = take i xs @ xs ! i # drop (Suc i) xs"
  by (rule id_take_nth_drop)

lemma sum_list_remove:
  "i < length xs \<Longrightarrow> (\<Sum>x\<leftarrow>list_remove xs i. f x) + f (xs ! i) = (\<Sum>x\<leftarrow>xs. f x :: nat)"
proof (induction xs arbitrary: i)
  case (Cons x xs)
  then show ?case by (cases i) auto
qed simp

lemma sum_list_update_nat:
  "i < length xs \<Longrightarrow> (\<Sum>x\<leftarrow>xs[i := y]. f x) + f (xs ! i) = (\<Sum>x\<leftarrow>xs. f x :: nat) + f y"
proof (induction xs arbitrary: i)
  case (Cons x xs)
  then show ?case by (cases i) auto
qed simp

section \<open>Byte buffers\<close>

text \<open>\<open>memcpy(buf + off, datos, n)\<close> and the \<open>n\<close> bytes at \<open>buf + off\<close>, inside the buffer.\<close>

definition copiar_en :: "'a list \<Rightarrow> nat \<Rightarrow> 'a list \<Rightarrow> 'a list" where
  "copiar_en buf off datos = take off buf @ datos @ drop (off + length datos) buf"

definition tramo_de :: "'a list \<Rightarrow> nat \<Rightarrow> nat \<Rightarrow> 'a list" where
  "tramo_de buf off n = take n (drop off buf)"

lemma length_copiar_en [simp]:
  "off + length datos \<le> length buf \<Longrightarrow> length (copiar_en buf off datos) = length buf"
  by (simp add: copiar_en_def)

lemma length_tramo_de [simp]: "off + n \<le> length buf \<Longrightarrow> length (tramo_de buf off n) = n"
  by (simp add: tramo_de_def)

lemma nth_copiar_en:
  "off + length datos \<le> length buf \<Longrightarrow> i < length buf \<Longrightarrow>
   copiar_en buf off datos ! i =
     (if off \<le> i \<and> i < off + length datos then datos ! (i - off) else buf ! i)"
  by (auto simp: copiar_en_def nth_append min_def)

lemma nth_tramo_de: "off + n \<le> length buf \<Longrightarrow> i < n \<Longrightarrow> tramo_de buf off n ! i = buf ! (off + i)"
  by (simp add: tramo_de_def)

lemma tramo_de_copiar_en:
  "off + length datos \<le> length buf \<Longrightarrow> tramo_de (copiar_en buf off datos) off (length datos) = datos"
  by (simp add: tramo_de_def copiar_en_def)

lemma tramo_de_otro:
  assumes "off + length datos \<le> length buf" "o' + n \<le> length buf"
    and "o' + n \<le> off \<or> off + length datos \<le> o'"
  shows "tramo_de (copiar_en buf off datos) o' n = tramo_de buf o' n"
  using assms by (auto intro!: nth_equalityI simp: nth_tramo_de nth_copiar_en)

lemma copiar_en_append:
  assumes "off + length xs + length ys \<le> length buf"
  shows "copiar_en (copiar_en buf off xs) (off + length xs) ys = copiar_en buf off (xs @ ys)"
  using assms by (auto intro!: nth_equalityI simp: nth_copiar_en nth_append)

lemma tramo_de_append: "tramo_de buf off (m + n) = tramo_de buf off m @ tramo_de buf (off + m) n"
  by (simp add: tramo_de_def take_add add.commute)

section \<open>C library\<close>

definition es_espacio :: "char \<Rightarrow> bool" where
  "es_espacio c \<longleftrightarrow> (let n = of_char c :: nat in n = 32 \<or> 9 \<le> n \<and> n \<le> 13)"

definition es_digito :: "char \<Rightarrow> bool" where
  "es_digito c \<longleftrightarrow> (let n = of_char c :: nat in 48 \<le> n \<and> n \<le> 57)"

definition valor_digitos :: "string \<Rightarrow> int" where
  "valor_digitos cs = foldl (\<lambda>a c. 10 * a + (int (of_char c) - 48)) 0 cs"

text \<open>\<open>(int) strtol(s, NULL, 10)\<close> with a 64-bit \<open>long\<close>, which saturates.\<close>

definition atoi :: "string \<Rightarrow> u32" where
  "atoi s =
     (let s1 = dropWhile es_espacio s;
          neg = (s1 \<noteq> [] \<and> hd s1 = CHR ''-'');
          s2 = (if s1 \<noteq> [] \<and> hd s1 \<in> {CHR ''-'', CHR ''+''} then tl s1 else s1);
          v = valor_digitos (takeWhile es_digito s2)
      in word_of_int (max (- (2 ^ 63)) (min (2 ^ 63 - 1) (if neg then - v else v))))"

fun digitos :: "nat \<Rightarrow> string" where
  "digitos n = (if n < 10 then [char_of (48 + n)] else digitos (n div 10) @ [char_of (48 + n mod 10)])"

declare digitos.simps [simp del]

section \<open>Transition systems\<close>

inductive alcanzable :: "('s \<Rightarrow> bool) \<Rightarrow> ('s \<Rightarrow> 's \<Rightarrow> bool) \<Rightarrow> 's \<Rightarrow> bool" for ini paso where
  inicio: "ini s \<Longrightarrow> alcanzable ini paso s"
| avance: "alcanzable ini paso s \<Longrightarrow> paso s t \<Longrightarrow> alcanzable ini paso t"

locale con_invariante =
  fixes ini :: "'s \<Rightarrow> bool" and paso :: "'s \<Rightarrow> 's \<Rightarrow> bool" and inv :: "'s \<Rightarrow> bool"
  assumes inv_inicio: "ini s \<Longrightarrow> inv s"
    and inv_paso: "inv s \<Longrightarrow> paso s t \<Longrightarrow> inv t"
begin

lemma inv_alcanzable: "alcanzable ini paso s \<Longrightarrow> inv s"
  by (induction rule: alcanzable.induct) (auto intro: inv_inicio inv_paso)

end

end
