(* ===== verification/Serializacion.thy ===== *)
theory Serializacion
  imports Prelude
begin

text \<open>
  The transport layer every module uses: \<open>utils/serializacion.c\<close> and the shared types of
  \<open>utils/utils.h\<close>. A socket is the sequence of bytes its peer has sent and this end has
  not read yet. A packet on the wire is the opcode (4 bytes), the payload size (8 bytes) and
  the payload. Reading is total on the model: the wire errors are \<open>BufferInvalido\<close> (the
  \<open>abort()\<close> of \<open>validar_buffer\<close>), \<open>LecturaIncompleta\<close> (a \<open>recv\<close> that
  returned less than asked, which leaves the variable indeterminate) and
  \<open>CadenaInvalida\<close> (a negative string length). The locale \<open>mensaje\<close> states what a
  sender/receiver pair promises; what follows from it for a whole stream of messages is
  proved once there.
\<close>

section \<open>Shared types\<close>

datatype op_code =
    HANDSHAKE_SCHEDULER_A_MEMORY | HANDSHAKE_CPU | HANDSHAKE_IO | HANDSHAKE_MEMORY_STICK
  | HANDSHAKE_SWAP
  | CREAR_PROCESO | FINALIZAR_PROCESO | SUSPENDER_PROCESO | DES_SUSPENDER_PROCESO
  | SOLICITAR_SEGMENTO | ELIMINAR_SEGMENTO | INICIAR_COMPACTACION | FINALIZAR_COMPACTACION
  | OBTENER_CONTEXTO | ACTUALIZAR_CONTEXTO | OBTENER_INSTRUCCION | INTERRUPCION
  | EJECUTAR_PROCESO | CONFIG_MMU_CPU
  | OBTENER_ESPACIO_LIBRE | LECTURA_MEMORIA | ESCRITURA_MEMORIA | LECTURA_BLOQUE_SWAP
  | ESCRITURA_BLOQUE_SWAP | RESPUESTA_SWAP
  | IO_STDIN | IO_STDOUT | IO_SLEEP | IO_FINALIZADA
  | MEMORIA_CORRUPTA_BSOD | NUEVA_MEMORIA_DISPONIBLE | MEMORIA_LIBERADA | SEGMENTATION_FAULT
  | DEVOLVER_PROCESO

definition lista_op_code :: "op_code list" where
  "lista_op_code =
    [HANDSHAKE_SCHEDULER_A_MEMORY, HANDSHAKE_CPU, HANDSHAKE_IO, HANDSHAKE_MEMORY_STICK,
     HANDSHAKE_SWAP,
     CREAR_PROCESO, FINALIZAR_PROCESO, SUSPENDER_PROCESO, DES_SUSPENDER_PROCESO,
     SOLICITAR_SEGMENTO, ELIMINAR_SEGMENTO, INICIAR_COMPACTACION, FINALIZAR_COMPACTACION,
     OBTENER_CONTEXTO, ACTUALIZAR_CONTEXTO, OBTENER_INSTRUCCION, INTERRUPCION,
     EJECUTAR_PROCESO, CONFIG_MMU_CPU,
     OBTENER_ESPACIO_LIBRE, LECTURA_MEMORIA, ESCRITURA_MEMORIA, LECTURA_BLOQUE_SWAP,
     ESCRITURA_BLOQUE_SWAP, RESPUESTA_SWAP,
     IO_STDIN, IO_STDOUT, IO_SLEEP, IO_FINALIZADA,
     MEMORIA_CORRUPTA_BSOD, NUEVA_MEMORIA_DISPONIBLE, MEMORIA_LIBERADA, SEGMENTATION_FAULT,
     DEVOLVER_PROCESO]"

text \<open>The value of an enumerator is its position; an \<open>op_code\<close> variable can hold any value.\<close>

definition op_num :: "op_code \<Rightarrow> u32" where
  "op_num c = of_nat (the (buscar_idx (\<lambda>d. d = c) lista_op_code))"

definition op_de_num :: "u32 \<Rightarrow> op_code option" where
  "op_de_num n = (if unat n < length lista_op_code then Some (lista_op_code ! unat n) else None)"

record t_registros =
  pc :: u32
  ax :: byte
  bx :: byte
  cx :: byte
  dx :: byte
  eax :: u32
  ebx :: u32
  ecx :: u32
  edx :: u32
  si :: u32
  di :: u32

record t_segmento =
  id_seg :: u32
  base :: u32
  limite :: u32
  swap_bloque_inicio :: u32

record t_contexto =
  pid_ctx :: u32
  registros_ctx :: t_registros
  tabla_segmentos :: "t_segmento list"

datatype t_motivo_devolucion =
    MOTIVO_QUANTUM | MOTIVO_SYSCALL | MOTIVO_EXIT | MOTIVO_ERROR | MOTIVO_SEGFAULT
  | MOTIVO_DESALOJO | MOTIVO_DESALOJO_COLA

fun motivo_num :: "t_motivo_devolucion \<Rightarrow> i32" where
  "motivo_num MOTIVO_QUANTUM = 0"
| "motivo_num MOTIVO_SYSCALL = 1"
| "motivo_num MOTIVO_EXIT = 2"
| "motivo_num MOTIVO_ERROR = 3"
| "motivo_num MOTIVO_SEGFAULT = 4"
| "motivo_num MOTIVO_DESALOJO = 5"
| "motivo_num MOTIVO_DESALOJO_COLA = 6"

section \<open>Writing a packet\<close>

record t_buffer =
  buf_size :: u64
  stream :: "byte list"

record t_paquete =
  codigo_operacion :: op_code
  buffer :: t_buffer

definition crear_buffer :: t_buffer where
  "crear_buffer = \<lparr>buf_size = 0, stream = []\<rparr>"

definition crear_paquete :: "op_code \<Rightarrow> t_paquete" where
  "crear_paquete c = \<lparr>codigo_operacion = c, buffer = crear_buffer\<rparr>"

text \<open>\<open>valor\<close> is the block of \<open>tamanio\<close> bytes the C call points to.\<close>

definition agregar_a_paquete :: "t_paquete \<Rightarrow> byte list \<Rightarrow> t_paquete" where
  "agregar_a_paquete p valor =
     p\<lparr>buffer := \<lparr>buf_size = buf_size (buffer p) + of_nat (length valor),
                   stream = stream (buffer p) @ valor\<rparr>\<rparr>"

text \<open>The loop \<open>while (cadena[longitud++] != '\0')\<close>: the length counts the terminator.\<close>

fun longitud_cadena :: "string \<Rightarrow> nat" where
  "longitud_cadena [] = 1"
| "longitud_cadena (c # cs) = (if c = NUL then 1 else Suc (longitud_cadena cs))"

definition bytes_int :: "i32 \<Rightarrow> byte list" where
  "bytes_int = bytes_le 4"

definition bytes_u32 :: "u32 \<Rightarrow> byte list" where
  "bytes_u32 = bytes_le 4"

definition agregar_cadena :: "t_paquete \<Rightarrow> string \<Rightarrow> t_paquete" where
  "agregar_cadena p cadena =
     (let longitud = longitud_cadena cadena
      in agregar_a_paquete (agregar_a_paquete p (bytes_int (of_nat longitud)))
           (take longitud (map byte_of_char (cadena @ [NUL]))))"

definition serializar_paquete :: "t_paquete \<Rightarrow> byte list" where
  "serializar_paquete p =
     bytes_le 4 (op_num (codigo_operacion p)) @ bytes_le 8 (buf_size (buffer p)) @ stream (buffer p)"

text \<open>
  \<open>int bytes\<close> truncates the 64-bit sum; a negative value makes \<open>malloc\<close> fail and nothing
  usable is sent.
\<close>

definition enviar_paquete :: "t_paquete \<Rightarrow> byte list" where
  "enviar_paquete p =
     (let bytes = ucast (4 + 8 + buf_size (buffer p)) :: i32
      in if sint bytes < 0 then [] else take (nat (sint bytes)) (serializar_paquete p))"

section \<open>Reading a packet\<close>

datatype wire_error = BufferInvalido | LecturaIncompleta | CadenaInvalida

type_synonym 'a recv = "byte list \<Rightarrow> wire_error + ('a \<times> byte list)"

definition recv_ret :: "'a \<Rightarrow> 'a recv" where
  "recv_ret a s = Inr (a, s)"

definition recv_bind :: "'a recv \<Rightarrow> ('a \<Rightarrow> 'b recv) \<Rightarrow> 'b recv" where
  "recv_bind m f s = (case m s of Inl e \<Rightarrow> Inl e | Inr (a, s') \<Rightarrow> f a s')"

text \<open>\<open>recv(socket, dest, n, MSG_WAITALL)\<close> on the bytes that will ever arrive.\<close>

definition recv_bytes :: "nat \<Rightarrow> byte list recv" where
  "recv_bytes n s =
     (if n \<le> length s then Inr (take n s, drop n s) else Inl LecturaIncompleta)"

definition recv_int :: "i32 recv" where
  "recv_int = recv_bind (recv_bytes 4) (\<lambda>bs. recv_ret (word_le bs))"

definition recv_u32 :: "u32 recv" where
  "recv_u32 = recv_bind (recv_bytes 4) (\<lambda>bs. recv_ret (word_le bs))"

definition recibir_codigo_operacion :: "byte list \<Rightarrow> u32 \<times> byte list" where
  "recibir_codigo_operacion s =
     (if length s < 4 then (- 1, []) else (word_le (take 4 s), drop 4 s))"

definition validar_buffer :: "unit recv" where
  "validar_buffer =
     recv_bind (recv_bytes 8)
       (\<lambda>bs s. if length s < unat (word_le bs :: u64) then Inl BufferInvalido else Inr ((), s))"

definition recibir_cadena :: "string recv" where
  "recibir_cadena =
     recv_bind recv_int
       (\<lambda>longitud. if sint longitud < 0 then (\<lambda>s. Inl CadenaInvalida)
          else recv_bind (recv_bytes (nat (sint longitud)))
                 (\<lambda>bs. recv_ret (cstr (map char_of_byte bs))))"

definition enviar_ok :: "op_code \<Rightarrow> byte list" where
  "enviar_ok c = enviar_paquete (agregar_a_paquete (crear_paquete c) (bytes_int (- 1)))"

definition recibir_ok :: "unit recv" where
  "recibir_ok = recv_bind validar_buffer (\<lambda>_. recv_bind recv_int (\<lambda>_. recv_ret ()))"

text \<open>\<open>recv_campo\<close> of the Kernel Memory handlers: a short read is reported, not ignored.\<close>

definition recv_campo :: "nat \<Rightarrow> byte list recv" where
  "recv_campo = recv_bytes"

text \<open>Reading consumes the stream; this is what bounds the listener loops.\<close>

definition acorta :: "'a recv \<Rightarrow> bool" where
  "acorta r \<longleftrightarrow> (\<forall>s a s'. r s = Inr (a, s') \<longrightarrow> length s' \<le> length s)"

lemma acortaD: "acorta r \<Longrightarrow> r s = Inr (a, s') \<Longrightarrow> length s' \<le> length s"
  unfolding acorta_def by blast

lemma acorta_basicas [simp]: "acorta (recv_ret a)" "acorta (recv_bytes n)"
  by (auto simp: acorta_def recv_ret_def recv_bytes_def split: if_splits)

lemma acorta_bind [intro]: "acorta m \<Longrightarrow> (\<And>a. acorta (f a)) \<Longrightarrow> acorta (recv_bind m f)"
  unfolding acorta_def recv_bind_def by (fastforce split: sum.splits prod.splits dest: order_trans)

lemma acorta_campos [simp]: "acorta recv_int" "acorta recv_u32" "acorta validar_buffer" "acorta recibir_cadena"
  unfolding recv_int_def recv_u32_def validar_buffer_def recibir_cadena_def
  by (auto simp: acorta_def recv_bind_def recv_bytes_def recv_ret_def split: if_splits)

lemma recibir_codigo_acorta:
  "recibir_codigo_operacion s = (c, s') \<Longrightarrow> c \<noteq> - 1 \<Longrightarrow> length s' < length s"
  by (auto simp: recibir_codigo_operacion_def split: if_splits)

section \<open>Opcodes\<close>

lemma op_de_num_op_num [simp]: "op_de_num (op_num c) = Some c"
  by (cases c) (simp_all add: op_num_def op_de_num_def lista_op_code_def)

lemma op_num_inject [simp]: "op_num c = op_num d \<longleftrightarrow> c = d"
  by (metis op_de_num_op_num option.inject)

lemma op_de_num_minus_one [simp]: "op_de_num (- 1) = None"
  by (simp add: op_de_num_def lista_op_code_def)

lemma op_num_not_minus_one [simp]: "op_num c \<noteq> - 1"
  using op_de_num_op_num [of c] by (auto simp del: op_de_num_op_num)

lemma minus_one_not_op_num [simp]: "- 1 \<noteq> op_num c"
  using op_num_not_minus_one [of c] by (simp add: eq_commute)

section \<open>Decoding what was encoded\<close>

lemma recv_ret_apply [wire_simps]: "recv_ret a s = Inr (a, s)"
  by (simp add: recv_ret_def)

lemma recv_bind_Inr [wire_simps]: "m s = Inr (a, s') \<Longrightarrow> recv_bind m f s = f a s'"
  by (simp add: recv_bind_def)

lemma recv_bytes_append [wire_simps]: "length bs = n \<Longrightarrow> recv_bytes n (bs @ s) = Inr (bs, s)"
  by (simp add: recv_bytes_def)

lemma recv_int_bytes_int [wire_simps]: "recv_int (bytes_int w @ s) = Inr (w, s)"
  by (simp add: recv_int_def bytes_int_def wire_simps)

lemma recv_u32_bytes_u32 [wire_simps]: "recv_u32 (bytes_u32 w @ s) = Inr (w, s)"
  by (simp add: recv_u32_def bytes_u32_def wire_simps)

lemma length_bytes_int_u32 [simp]: "length (bytes_int w) = 4" "length (bytes_u32 v) = 4"
  by (simp_all add: bytes_int_def bytes_u32_def)

definition corto :: "byte list \<Rightarrow> bool" where
  "corto bs \<longleftrightarrow> length bs < 2 ^ 31 - 12"

lemma validar_buffer_tam [wire_simps]:
  "corto bs \<Longrightarrow> validar_buffer (bytes_le 8 (of_nat (length bs) :: u64) @ bs @ s) = Inr ((), bs @ s)"
  by (simp add: validar_buffer_def wire_simps recv_bytes_append unat_of_nat corto_def)

lemma validado:
  "corto bs \<Longrightarrow>
   recv_bind validar_buffer (\<lambda>_. r) (bytes_le 8 (of_nat (length bs) :: u64) @ bs @ s) = r (bs @ s)"
  by (simp add: recv_bind_def validar_buffer_tam)

lemma longitud_cadena_sin_nul: "sin_nul cs \<Longrightarrow> longitud_cadena cs = Suc (length cs)"
  by (induction cs) auto

definition bytes_cadena :: "string \<Rightarrow> byte list" where
  "bytes_cadena cs = bytes_int (of_nat (Suc (length cs))) @ map byte_of_char (cs @ [NUL])"

definition cadena_ok :: "string \<Rightarrow> bool" where
  "cadena_ok cs \<longleftrightarrow> sin_nul cs \<and> length cs < 2 ^ 31 - 1"

lemma length_bytes_cadena [simp]: "length (bytes_cadena cs) = length cs + 5"
  by (simp add: bytes_cadena_def)

lemma sint_of_nat_small:
  assumes "n < 2 ^ 31"
  shows "sint (of_nat n :: i32) = int n"
proof -
  have "sint (of_nat n :: i32) = signed_take_bit 31 (int n)"
    by (simp add: signed_of_nat)
  also have "\<dots> = int n"
    using assms by (intro signed_take_bit_int_eq_self) simp_all
  finally show ?thesis .
qed

lemma recibir_cadena_bytes_cadena [wire_simps]:
  assumes "cadena_ok cs"
  shows "recibir_cadena (bytes_cadena cs @ s) = Inr (cs, s)"
proof -
  have n: "sint (of_nat (Suc (length cs)) :: i32) = int (Suc (length cs))"
    using assms by (intro sint_of_nat_small) (simp add: cadena_ok_def)
  have "recv_int (bytes_cadena cs @ s) =
      Inr (of_nat (Suc (length cs)), map byte_of_char (cs @ [NUL]) @ s)"
    by (simp only: bytes_cadena_def append_assoc recv_int_bytes_int)
  moreover have "recv_bytes (Suc (length cs)) (map byte_of_char (cs @ [NUL]) @ s) =
      Inr (map byte_of_char (cs @ [NUL]), s)"
    by (rule recv_bytes_append) simp
  moreover have "cstr (map char_of_byte (map byte_of_char (cs @ [NUL]))) = cs"
    unfolding map_char_of_byte_of_char using assms by (simp add: cadena_ok_def)
  moreover have "nat (sint (of_nat (Suc (length cs)) :: i32)) = Suc (length cs)"
    by (simp only: n nat_int)
  ultimately show ?thesis
    unfolding recibir_cadena_def recv_bind_def
    by (simp del: map_append of_nat_Suc add: n recv_ret_def)
qed

section \<open>Packets in closed form\<close>

definition paquete :: "op_code \<Rightarrow> byte list \<Rightarrow> t_paquete" where
  "paquete c bs = \<lparr>codigo_operacion = c, buffer = \<lparr>buf_size = of_nat (length bs), stream = bs\<rparr>\<rparr>"

lemma crear_paquete_paquete [wire_simps]: "crear_paquete c = paquete c []"
  by (simp add: crear_paquete_def crear_buffer_def paquete_def)

lemma agregar_a_paquete_paquete [wire_simps]:
  "agregar_a_paquete (paquete c bs) v = paquete c (bs @ v)"
  by (simp add: agregar_a_paquete_def paquete_def)

lemma agregar_cadena_paquete [wire_simps]:
  assumes "cadena_ok cs"
  shows "agregar_cadena (paquete c bs) cs = paquete c (bs @ bytes_cadena cs)"
proof -
  have "longitud_cadena cs = Suc (length cs)"
    using assms by (simp add: cadena_ok_def longitud_cadena_sin_nul)
  then show ?thesis
    by (simp add: agregar_cadena_def agregar_a_paquete_paquete bytes_cadena_def)
qed

lemma enviar_paquete_paquete [wire_simps]:
  assumes "corto bs"
  shows "enviar_paquete (paquete c bs) =
    bytes_le 4 (op_num c) @ bytes_le 8 (of_nat (length bs) :: u64) @ bs"
proof -
  have "sint (ucast (4 + 8 + of_nat (length bs) :: u64) :: i32) = int (12 + length bs)"
  proof -
    have "(ucast (4 + 8 + of_nat (length bs) :: u64) :: i32) = of_nat (12 + length bs)"
    proof (rule unat_eqD)
      show "unat (ucast (4 + 8 + of_nat (length bs) :: u64) :: i32) =
          unat (of_nat (12 + length bs) :: i32)"
        using assms by (simp add: unsigned_ucast_eq take_bit_eq_mod unat_word_ariths unat_of_nat corto_def)
    qed
    moreover have "sint (of_nat (12 + length bs) :: i32) = int (12 + length bs)"
      using assms by (intro sint_of_nat_small) (simp add: corto_def)
    ultimately show ?thesis by (simp only:)
  qed
  then show ?thesis
    unfolding enviar_paquete_def Let_def
    by (simp add: paquete_def serializar_paquete_def)
qed

lemma recibir_codigo_operacion_op [wire_simps]:
  "recibir_codigo_operacion (bytes_le 4 w @ s) = (w, s)"
  by (simp add: recibir_codigo_operacion_def)


section \<open>The contract of a sender/receiver pair\<close>

text \<open>One message as a receiver sees it: the opcode, then what its \<open>recibir_X\<close> returns.\<close>

definition recibir_mensaje :: "'a recv \<Rightarrow> byte list \<Rightarrow> u32 \<times> (wire_error + ('a \<times> byte list))" where
  "recibir_mensaje r s = (let (c, s') = recibir_codigo_operacion s in (c, r s'))"

text \<open>\<open>n\<close> messages in a row, as a listener loop reads them.\<close>

fun recibir_flujo :: "'a recv \<Rightarrow> nat \<Rightarrow> ('a list) recv" where
  "recibir_flujo r 0 = recv_ret []"
| "recibir_flujo r (Suc n) =
     (\<lambda>s. recv_bind (\<lambda>s. snd (recibir_mensaje r s))
            (\<lambda>a. recv_bind (recibir_flujo r n) (\<lambda>as. recv_ret (a # as))) s)"

locale mensaje =
  fixes op :: op_code
    and cuerpo :: "'a \<Rightarrow> byte list"
    and enviar :: "'a \<Rightarrow> byte list"
    and recibir :: "'a recv"
    and valido :: "'a \<Rightarrow> bool"
  assumes enviar_cuerpo: "valido a \<Longrightarrow> enviar a = enviar_paquete (paquete op (cuerpo a))"
    and cuerpo_corto: "valido a \<Longrightarrow> corto (cuerpo a)"
    and recibir_cuerpo: "valido a \<Longrightarrow>
      recibir (bytes_le 8 (of_nat (length (cuerpo a)) :: u64) @ cuerpo a @ s) = Inr (a, s)"
begin

lemma ida_y_vuelta:
  "valido a \<Longrightarrow> recibir_mensaje recibir (enviar a @ s) = (op_num op, Inr (a, s))"
  by (simp add: recibir_mensaje_def enviar_cuerpo enviar_paquete_paquete cuerpo_corto
      recibir_codigo_operacion_op recibir_cuerpo)

lemma flujo:
  "\<forall>a \<in> set as. valido a \<Longrightarrow>
    recibir_flujo recibir (length as) (concat (map enviar as) @ s) = Inr (as, s)"
proof (induction as)
  case Nil
  show ?case by (simp add: recv_ret_def)
next
  case (Cons a as)
  then show ?case by (simp add: recv_bind_def ida_y_vuelta recv_ret_def)
qed

lemma bytes_enviados: "valido a \<Longrightarrow> length (enviar a) = 12 + length (cuerpo a)"
  by (simp add: enviar_cuerpo enviar_paquete_paquete cuerpo_corto)

end

end
