(* ===== verification/Mensajes.thy ===== *)
theory Mensajes
  imports Serializacion
begin

text \<open>
  The message catalogue of \<open>utils/mensajes.c\<close>. Every \<open>enviar_X\<close> is the sequence of
  bytes it puts on its socket; every \<open>recibir_X\<close> reads the socket after the opcode. The
  struct images (\<open>t_registros\<close>, \<open>t_segmento\<close>) are the in-memory layout the code copies:
  both structs have no padding. Each pair interprets the locale \<open>mensaje\<close>, so that a
  stream of such messages is read back message by message with nothing left over.
\<close>

section \<open>Struct images\<close>

definition bytes_registros :: "t_registros \<Rightarrow> byte list" where
  "bytes_registros r =
     bytes_u32 (pc r) @ [ax r, bx r, cx r, dx r] @ bytes_u32 (eax r) @ bytes_u32 (ebx r)
     @ bytes_u32 (ecx r) @ bytes_u32 (edx r) @ bytes_u32 (si r) @ bytes_u32 (di r)"

definition agregar_registros :: "t_paquete \<Rightarrow> t_registros \<Rightarrow> t_paquete" where
  "agregar_registros p r = agregar_a_paquete p (bytes_registros r)"

definition registros_de_bytes :: "byte list \<Rightarrow> t_registros" where
  "registros_de_bytes bs =
     \<lparr>pc = word_le (take 4 bs), ax = bs ! 4, bx = bs ! 5, cx = bs ! 6, dx = bs ! 7,
      eax = word_le (take 4 (drop 8 bs)), ebx = word_le (take 4 (drop 12 bs)),
      ecx = word_le (take 4 (drop 16 bs)), edx = word_le (take 4 (drop 20 bs)),
      si = word_le (take 4 (drop 24 bs)), di = word_le (take 4 (drop 28 bs))\<rparr>"

definition recibir_registros :: "t_registros recv" where
  "recibir_registros = recv_bind (recv_bytes 32) (\<lambda>bs. recv_ret (registros_de_bytes bs))"

definition bytes_segmento :: "t_segmento \<Rightarrow> byte list" where
  "bytes_segmento g =
     bytes_u32 (id_seg g) @ bytes_u32 (base g) @ bytes_u32 (limite g)
     @ bytes_u32 (swap_bloque_inicio g)"

definition agregar_segmento :: "t_paquete \<Rightarrow> t_segmento \<Rightarrow> t_paquete" where
  "agregar_segmento p g = agregar_a_paquete p (bytes_segmento g)"

definition segmento_de_bytes :: "byte list \<Rightarrow> t_segmento" where
  "segmento_de_bytes bs =
     \<lparr>id_seg = word_le (take 4 bs), base = word_le (take 4 (drop 4 bs)),
      limite = word_le (take 4 (drop 8 bs)), swap_bloque_inicio = word_le (take 4 (drop 12 bs))\<rparr>"

definition recibir_segmento :: "t_segmento recv" where
  "recibir_segmento = recv_bind (recv_bytes 16) (\<lambda>bs. recv_ret (segmento_de_bytes bs))"

text \<open>The loops \<open>for (i = 0; i < cantidad; i++)\<close> over a received count.\<close>

fun recv_veces :: "nat \<Rightarrow> 'a recv \<Rightarrow> ('a list) recv" where
  "recv_veces 0 m = recv_ret []"
| "recv_veces (Suc n) m = recv_bind m (\<lambda>a. recv_bind (recv_veces n m) (\<lambda>as. recv_ret (a # as)))"

definition cuenta :: "i32 \<Rightarrow> nat" where
  "cuenta cantidad = nat (sint cantidad)"

section \<open>Instruction, context, process\<close>

definition enviar_obtener_instruccion :: "i32 \<Rightarrow> u32 \<Rightarrow> byte list" where
  "enviar_obtener_instruccion pid pcv =
     enviar_paquete (agregar_a_paquete (agregar_a_paquete
       (crear_paquete OBTENER_INSTRUCCION) (bytes_int pid)) (bytes_u32 pcv))"

definition recibir_instruccion :: "string recv" where
  "recibir_instruccion = recv_bind validar_buffer (\<lambda>_. recibir_cadena)"

definition enviar_solicitar_contexto :: "i32 \<Rightarrow> byte list" where
  "enviar_solicitar_contexto pid =
     enviar_paquete (agregar_a_paquete (crear_paquete OBTENER_CONTEXTO) (bytes_int pid))"

text \<open>\<open>recibir_contexto\<close> leaves \<open>pid\<close> unset; the caller fills it in.\<close>

definition recibir_contexto :: "(t_registros \<times> t_segmento list) recv" where
  "recibir_contexto =
     recv_bind validar_buffer (\<lambda>_.
     recv_bind recibir_registros (\<lambda>regs.
     recv_bind recv_int (\<lambda>cantidad.
     recv_bind (recv_veces (cuenta cantidad) recibir_segmento) (\<lambda>segs.
     recv_ret (regs, segs)))))"

definition enviar_actualizar_contexto :: "t_contexto \<Rightarrow> byte list" where
  "enviar_actualizar_contexto ctx =
     enviar_paquete (fold (\<lambda>g p. agregar_segmento p g) (tabla_segmentos ctx)
       (agregar_a_paquete
         (agregar_registros
           (agregar_a_paquete (crear_paquete ACTUALIZAR_CONTEXTO) (bytes_u32 (pid_ctx ctx)))
           (registros_ctx ctx))
         (bytes_int (of_nat (length (tabla_segmentos ctx))))))"

definition enviar_crear_proceso :: "i32 \<Rightarrow> string \<Rightarrow> byte list" where
  "enviar_crear_proceso pid path =
     enviar_paquete (agregar_cadena
       (agregar_a_paquete (crear_paquete CREAR_PROCESO) (bytes_int pid)) path)"

definition recibir_crear_proceso :: "(i32 \<times> string) recv" where
  "recibir_crear_proceso =
     recv_bind validar_buffer (\<lambda>_. recv_bind recv_int (\<lambda>pid.
     recv_bind recibir_cadena (\<lambda>path. recv_ret (pid, path))))"

text \<open>The many requests that carry one \<open>int\<close> or one \<open>uint32_t\<close>.\<close>

definition enviar_un_int :: "op_code \<Rightarrow> i32 \<Rightarrow> byte list" where
  "enviar_un_int c v = enviar_paquete (agregar_a_paquete (crear_paquete c) (bytes_int v))"

definition recibir_un_int :: "i32 recv" where
  "recibir_un_int = recv_bind validar_buffer (\<lambda>_. recv_int)"

definition enviar_un_u32 :: "op_code \<Rightarrow> u32 \<Rightarrow> byte list" where
  "enviar_un_u32 c v = enviar_paquete (agregar_a_paquete (crear_paquete c) (bytes_u32 v))"

definition recibir_un_u32 :: "u32 recv" where
  "recibir_un_u32 = recv_bind validar_buffer (\<lambda>_. recv_u32)"

definition enviar_pid :: "i32 \<Rightarrow> byte list" where
  "enviar_pid pid = enviar_un_int EJECUTAR_PROCESO pid"

definition recibir_pid :: "i32 recv" where
  "recibir_pid = recibir_un_int"

definition enviar_interrupcion :: "i32 \<Rightarrow> i32 \<Rightarrow> byte list" where
  "enviar_interrupcion pid motivo =
     enviar_paquete (agregar_a_paquete (agregar_a_paquete
       (crear_paquete INTERRUPCION) (bytes_int pid)) (bytes_int motivo))"

definition recibir_interrupcion :: "(i32 \<times> i32) recv" where
  "recibir_interrupcion =
     recv_bind validar_buffer (\<lambda>_. recv_bind recv_int (\<lambda>pid.
     recv_bind recv_int (\<lambda>motivo. recv_ret (pid, motivo))))"

text \<open>
  \<open>enviar_devolver_proceso\<close>: the sender adds the syscall part when the name is not
  \<open>NULL\<close>; a negative \<open>cant_params\<close> is taken as 0 and \<open>params\<close> holds the
  \<open>cant_params\<close> strings.
\<close>

definition enviar_devolver_proceso ::
  "i32 \<Rightarrow> t_motivo_devolucion \<Rightarrow> string option \<Rightarrow> string list \<Rightarrow> byte list" where
  "enviar_devolver_proceso pid motivo nombre params =
     (let p = agregar_a_paquete (agregar_a_paquete (crear_paquete DEVOLVER_PROCESO)
                (bytes_int pid)) (bytes_int (motivo_num motivo))
      in enviar_paquete
           (case nombre of
              None \<Rightarrow> p
            | Some n \<Rightarrow>
                fold (\<lambda>s q. agregar_cadena q s) params
                  (agregar_a_paquete (agregar_cadena p n)
                    (bytes_int (of_nat (length params))))))"

text \<open>The receiver decides on the syscall part by the reason, not by its presence.\<close>

definition recibir_devolver_proceso :: "(i32 \<times> i32 \<times> string option \<times> string list) recv" where
  "recibir_devolver_proceso =
     recv_bind validar_buffer (\<lambda>_. recv_bind recv_int (\<lambda>pid. recv_bind recv_int (\<lambda>motivo.
     if motivo \<noteq> motivo_num MOTIVO_SYSCALL then recv_ret (pid, motivo, None, [])
     else recv_bind recibir_cadena (\<lambda>nombre. recv_bind recv_int (\<lambda>cant.
          recv_bind (recv_veces (cuenta cant) recibir_cadena) (\<lambda>params.
          recv_ret (pid, motivo, Some nombre, params)))))))"

section \<open>Memory accesses, free space\<close>

definition enviar_int_u32_u32 :: "op_code \<Rightarrow> i32 \<Rightarrow> u32 \<Rightarrow> u32 \<Rightarrow> t_paquete" where
  "enviar_int_u32_u32 c pid a b =
     agregar_a_paquete (agregar_a_paquete (agregar_a_paquete (crear_paquete c)
       (bytes_int pid)) (bytes_u32 a)) (bytes_u32 b)"

definition enviar_lectura_memoria :: "i32 \<Rightarrow> u32 \<Rightarrow> u32 \<Rightarrow> byte list" where
  "enviar_lectura_memoria pid dir_logica tamanio =
     enviar_paquete (enviar_int_u32_u32 LECTURA_MEMORIA pid dir_logica tamanio)"

definition recibir_datos_memoria :: "u32 \<Rightarrow> byte list recv" where
  "recibir_datos_memoria tamanio = recv_bind validar_buffer (\<lambda>_. recv_bytes (unat tamanio))"

text \<open>\<open>datos\<close> is the block of \<open>tamanio\<close> bytes; a size beyond \<open>int\<close> is not sent.\<close>

definition enviar_escritura_memoria :: "i32 \<Rightarrow> u32 \<Rightarrow> byte list \<Rightarrow> byte list" where
  "enviar_escritura_memoria pid dir_logica datos =
     enviar_paquete (agregar_a_paquete
       (enviar_int_u32_u32 ESCRITURA_MEMORIA pid dir_logica (of_nat (length datos))) datos)"

definition enviar_obtener_espacio_libre :: "byte list" where
  "enviar_obtener_espacio_libre = enviar_paquete (crear_paquete OBTENER_ESPACIO_LIBRE)"

definition recibir_espacio_libre :: "u32 recv" where
  "recibir_espacio_libre = recibir_un_u32"

section \<open>Handshakes\<close>

definition enviar_handshake_scheduler_a_memory :: "byte list" where
  "enviar_handshake_scheduler_a_memory = enviar_ok HANDSHAKE_SCHEDULER_A_MEMORY"

definition enviar_handshake_cpu :: "i32 \<Rightarrow> byte list" where
  "enviar_handshake_cpu cpu_id = enviar_un_int HANDSHAKE_CPU cpu_id"

definition recibir_handshake_cpu :: "i32 recv" where
  "recibir_handshake_cpu = recibir_un_int"

definition enviar_handshake_io :: "string \<Rightarrow> byte list" where
  "enviar_handshake_io nombre =
     enviar_paquete (agregar_cadena (crear_paquete HANDSHAKE_IO) nombre)"

definition recibir_handshake_io :: "string recv" where
  "recibir_handshake_io = recv_bind validar_buffer (\<lambda>_. recibir_cadena)"

definition enviar_handshake_swap :: "u32 \<Rightarrow> u32 \<Rightarrow> byte list" where
  "enviar_handshake_swap block_size total_size =
     enviar_paquete (agregar_a_paquete (agregar_a_paquete
       (crear_paquete HANDSHAKE_SWAP) (bytes_u32 block_size)) (bytes_u32 total_size))"

definition recibir_handshake_swap :: "(u32 \<times> u32) recv" where
  "recibir_handshake_swap =
     recv_bind validar_buffer (\<lambda>_. recv_bind recv_u32 (\<lambda>bs.
     recv_bind recv_u32 (\<lambda>ts. recv_ret (bs, ts))))"

definition enviar_handshake_memory_stick :: "u32 \<Rightarrow> string \<Rightarrow> string \<Rightarrow> byte list" where
  "enviar_handshake_memory_stick memory_size ip puerto =
     enviar_paquete (agregar_cadena (agregar_cadena
       (agregar_a_paquete (crear_paquete HANDSHAKE_MEMORY_STICK) (bytes_u32 memory_size)) ip)
       puerto)"

definition recibir_handshake_memory_stick :: "(u32 \<times> string \<times> string) recv" where
  "recibir_handshake_memory_stick =
     recv_bind validar_buffer (\<lambda>_. recv_bind recv_u32 (\<lambda>tam.
     recv_bind recibir_cadena (\<lambda>ip. recv_bind recibir_cadena (\<lambda>puerto.
     recv_ret (tam, ip, puerto)))))"

section \<open>Physical accesses, memory notifications\<close>

definition enviar_lectura_fisica :: "i32 \<Rightarrow> u32 \<Rightarrow> u32 \<Rightarrow> byte list" where
  "enviar_lectura_fisica pid dir_fisica tamanio =
     enviar_paquete (enviar_int_u32_u32 LECTURA_MEMORIA pid dir_fisica tamanio)"

definition enviar_escritura_fisica :: "i32 \<Rightarrow> u32 \<Rightarrow> byte list \<Rightarrow> byte list" where
  "enviar_escritura_fisica pid dir_fisica datos =
     enviar_paquete (agregar_a_paquete
       (enviar_int_u32_u32 ESCRITURA_MEMORIA pid dir_fisica (of_nat (length datos))) datos)"

definition enviar_nueva_memoria_disponible :: "u32 \<Rightarrow> u32 \<Rightarrow> string \<Rightarrow> string \<Rightarrow> byte list" where
  "enviar_nueva_memoria_disponible tamanio base_fisica ip puerto =
     enviar_paquete (agregar_cadena (agregar_cadena
       (agregar_a_paquete (agregar_a_paquete (crear_paquete NUEVA_MEMORIA_DISPONIBLE)
         (bytes_u32 tamanio)) (bytes_u32 base_fisica)) ip) puerto)"

definition recibir_nueva_memoria_disponible :: "(u32 \<times> u32 \<times> string \<times> string) recv" where
  "recibir_nueva_memoria_disponible =
     recv_bind validar_buffer (\<lambda>_. recv_bind recv_u32 (\<lambda>tam. recv_bind recv_u32 (\<lambda>b.
     recv_bind recibir_cadena (\<lambda>ip. recv_bind recibir_cadena (\<lambda>puerto.
     recv_ret (tam, b, ip, puerto))))))"

definition enviar_config_mmu_cpu :: "u32 \<Rightarrow> byte list" where
  "enviar_config_mmu_cpu segment_max_size = enviar_un_u32 CONFIG_MMU_CPU segment_max_size"

definition recibir_config_mmu_cpu :: "u32 recv" where
  "recibir_config_mmu_cpu = recibir_un_u32"

definition enviar_memoria_corrupta :: "byte list" where
  "enviar_memoria_corrupta = enviar_ok MEMORIA_CORRUPTA_BSOD"

definition enviar_memoria_liberada :: "byte list" where
  "enviar_memoria_liberada = enviar_ok MEMORIA_LIBERADA"

section \<open>Swap\<close>

definition enviar_escritura_bloque_swap :: "u32 \<Rightarrow> byte list \<Rightarrow> byte list" where
  "enviar_escritura_bloque_swap bloque datos =
     enviar_paquete (agregar_a_paquete (agregar_a_paquete
       (crear_paquete ESCRITURA_BLOQUE_SWAP) (bytes_u32 bloque)) datos)"

definition recibir_escritura_bloque_swap :: "u32 \<Rightarrow> (u32 \<times> byte list) recv" where
  "recibir_escritura_bloque_swap tam =
     recv_bind validar_buffer (\<lambda>_. recv_bind recv_u32 (\<lambda>bloque.
     recv_bind (recv_bytes (unat tam)) (\<lambda>datos. recv_ret (bloque, datos))))"

definition enviar_resultado_swap :: "i32 \<Rightarrow> byte list" where
  "enviar_resultado_swap status = enviar_un_int RESPUESTA_SWAP status"

definition enviar_lectura_bloque_swap :: "u32 \<Rightarrow> byte list" where
  "enviar_lectura_bloque_swap bloque = enviar_un_u32 LECTURA_BLOQUE_SWAP bloque"

definition recibir_lectura_bloque_swap :: "u32 recv" where
  "recibir_lectura_bloque_swap = recibir_un_u32"

text \<open>The two receivers of swap replies drop the opcode themselves, whatever it is.\<close>

definition sin_codigo :: "'a recv \<Rightarrow> 'a recv" where
  "sin_codigo r s = r (snd (recibir_codigo_operacion s))"

definition recibir_resultado_swap :: "i32 recv" where
  "recibir_resultado_swap = sin_codigo recibir_un_int"

definition enviar_bloque_swap :: "i32 \<Rightarrow> byte list \<Rightarrow> byte list" where
  "enviar_bloque_swap status datos =
     (let p = agregar_a_paquete (crear_paquete RESPUESTA_SWAP) (bytes_int status)
      in enviar_paquete
           (if status = 0 \<and> length datos > 0 then agregar_a_paquete p datos else p))"

definition recibir_bloque_swap :: "u32 \<Rightarrow> (i32 \<times> byte list option) recv" where
  "recibir_bloque_swap tam =
     sin_codigo (recv_bind validar_buffer (\<lambda>_. recv_bind recv_int (\<lambda>status.
       if status \<noteq> 0 then recv_ret (status, None)
       else recv_bind (recv_bytes (unat tam)) (\<lambda>datos. recv_ret (status, Some datos)))))"

section \<open>IO\<close>

definition enviar_dos_int :: "op_code \<Rightarrow> i32 \<Rightarrow> i32 \<Rightarrow> byte list" where
  "enviar_dos_int c a b =
     enviar_paquete (agregar_a_paquete (agregar_a_paquete (crear_paquete c) (bytes_int a))
       (bytes_int b))"

definition enviar_io_sleep :: "i32 \<Rightarrow> i32 \<Rightarrow> byte list" where
  "enviar_io_sleep pid tiempo_ms = enviar_dos_int IO_SLEEP pid tiempo_ms"

definition enviar_io_stdin :: "i32 \<Rightarrow> i32 \<Rightarrow> byte list" where
  "enviar_io_stdin pid tam = enviar_dos_int IO_STDIN pid tam"

definition enviar_int_datos :: "op_code \<Rightarrow> i32 \<Rightarrow> byte list \<Rightarrow> byte list" where
  "enviar_int_datos c pid datos =
     enviar_paquete (agregar_a_paquete (agregar_a_paquete (crear_paquete c) (bytes_int pid)) datos)"

definition enviar_io_stdout :: "i32 \<Rightarrow> byte list \<Rightarrow> byte list" where
  "enviar_io_stdout pid datos = enviar_int_datos IO_STDOUT pid datos"

definition enviar_fin_io :: "i32 \<Rightarrow> byte list" where
  "enviar_fin_io pid = enviar_un_int IO_FINALIZADA pid"

definition recibir_fin_io :: "i32 recv" where
  "recibir_fin_io = recibir_un_int"

definition enviar_datos_stdin :: "i32 \<Rightarrow> byte list \<Rightarrow> byte list" where
  "enviar_datos_stdin pid datos = enviar_int_datos IO_FINALIZADA pid datos"

definition recibir_datos_stdin :: "i32 \<Rightarrow> (i32 \<times> byte list) recv" where
  "recibir_datos_stdin tam =
     recv_bind validar_buffer (\<lambda>_. recv_bind recv_int (\<lambda>pid.
     recv_bind (recv_bytes (cuenta tam)) (\<lambda>datos. recv_ret (pid, datos))))"

section \<open>Suspension, segments, end of a process\<close>

definition enviar_suspender_proceso :: "i32 \<Rightarrow> byte list" where
  "enviar_suspender_proceso pid = enviar_un_int SUSPENDER_PROCESO pid"

definition recibir_suspender_proceso :: "i32 recv" where
  "recibir_suspender_proceso = recibir_un_int"

definition enviar_des_suspender_proceso :: "i32 \<Rightarrow> byte list" where
  "enviar_des_suspender_proceso pid = enviar_un_int DES_SUSPENDER_PROCESO pid"

definition recibir_des_suspender_proceso :: "i32 recv" where
  "recibir_des_suspender_proceso = recibir_un_int"

definition enviar_solicitar_segmento :: "i32 \<Rightarrow> u32 \<Rightarrow> u32 \<Rightarrow> byte list" where
  "enviar_solicitar_segmento pid id_segmento tamanio =
     enviar_paquete (enviar_int_u32_u32 SOLICITAR_SEGMENTO pid id_segmento tamanio)"

definition recibir_respuesta_segmento :: "(u32 \<times> u32 \<times> u32) recv" where
  "recibir_respuesta_segmento =
     recv_bind validar_buffer (\<lambda>_. recv_bind recv_u32 (\<lambda>i. recv_bind recv_u32 (\<lambda>b.
     recv_bind recv_u32 (\<lambda>l. recv_ret (i, b, l)))))"

definition enviar_eliminar_segmento :: "i32 \<Rightarrow> u32 \<Rightarrow> byte list" where
  "enviar_eliminar_segmento pid id_segmento =
     enviar_paquete (agregar_a_paquete (agregar_a_paquete
       (crear_paquete ELIMINAR_SEGMENTO) (bytes_int pid)) (bytes_u32 id_segmento))"

definition enviar_finalizar_proceso_memory :: "i32 \<Rightarrow> byte list" where
  "enviar_finalizar_proceso_memory pid = enviar_un_int FINALIZAR_PROCESO pid"


section \<open>Decoding the struct images\<close>

lemma length_bytes_registros [simp]: "length (bytes_registros r) = 32"
  by (simp add: bytes_registros_def)

lemma length_bytes_segmento [simp]: "length (bytes_segmento g) = 16"
  by (simp add: bytes_segmento_def)

lemma registros_de_bytes_registros [simp]: "registros_de_bytes (bytes_registros r) = r"
  by (cases r) (simp add: registros_de_bytes_def bytes_registros_def bytes_u32_def nth_append)

lemma segmento_de_bytes_segmento [simp]: "segmento_de_bytes (bytes_segmento g) = g"
  by (cases g) (simp add: segmento_de_bytes_def bytes_segmento_def bytes_u32_def)

lemma recibir_registros_bytes [wire_simps]:
  "recibir_registros (bytes_registros r @ s) = Inr (r, s)"
  by (simp add: recibir_registros_def wire_simps)

lemma recibir_segmento_bytes [wire_simps]:
  "recibir_segmento (bytes_segmento g @ s) = Inr (g, s)"
  by (simp add: recibir_segmento_def wire_simps)

lemma recv_veces_concat:
  assumes "\<And>a s. a \<in> set as \<Longrightarrow> m (enc a @ s) = Inr (a, s)"
  shows "recv_veces (length as) m (concat (map enc as) @ s) = Inr (as, s)"
  using assms
proof (induction as)
  case Nil
  show ?case by (simp add: recv_ret_def)
next
  case (Cons a as)
  then show ?case by (simp add: recv_bind_def recv_ret_def)
qed

lemma acorta_veces [intro]: "acorta r \<Longrightarrow> acorta (recv_veces n r)"
  by (induction n) (auto intro!: acorta_bind)

lemma cuenta_of_nat [simp]: "n < 2 ^ 31 \<Longrightarrow> cuenta (of_nat n) = n"
  by (simp add: cuenta_def sint_of_nat_small)

lemma fold_agregar_segmento [wire_simps]:
  "fold (\<lambda>g p. agregar_segmento p g) gs (paquete c bs) =
     paquete c (bs @ concat (map bytes_segmento gs))"
  by (induction gs arbitrary: bs) (simp_all add: agregar_segmento_def wire_simps)

lemma fold_agregar_cadena [wire_simps]:
  "\<forall>cs \<in> set ps. cadena_ok cs \<Longrightarrow>
   fold (\<lambda>cs p. agregar_cadena p cs) ps (paquete c bs) =
     paquete c (bs @ concat (map bytes_cadena ps))"
  by (induction ps arbitrary: bs) (simp_all add: wire_simps)

text \<open>Every \<open>recibir_X\<close> starts with \<open>validar_buffer\<close>: decode the body, then frame it.\<close>

lemma recibir_validado:
  assumes "corto bs" and "r (bs @ s) = Inr (a, s)"
  shows "recv_bind validar_buffer (\<lambda>_. r) (bytes_le 8 (of_nat (length bs) :: u64) @ bs @ s) = Inr (a, s)"
  using assms by (simp add: recv_bind_def validar_buffer_tam)

section \<open>The pairs keep the contract\<close>

lemma corto_4 [simp]: "corto (bytes_int v)" "corto (bytes_u32 w)"
  by (simp_all add: corto_def)

lemma mensajeI:
  assumes "\<And>a. valido a \<Longrightarrow> enviar a = enviar_paquete (paquete c (cuerpo a))"
    and "\<And>a. valido a \<Longrightarrow> corto (cuerpo a)"
    and "recibir = recv_bind validar_buffer (\<lambda>_. r)"
    and "\<And>a s. valido a \<Longrightarrow> r (cuerpo a @ s) = Inr (a, s)"
  shows "mensaje c cuerpo enviar recibir valido"
  by unfold_locales (use assms in \<open>auto intro: recibir_validado\<close>)

lemma recibir_mensajeD:
  "recibir_mensaje r flujo = (op_num c, Inr (a, s)) \<Longrightarrow> \<exists>s1. recibir_codigo_operacion flujo = (op_num c, s1) \<and> r s1 = Inr (a, s)"
  by (auto simp: recibir_mensaje_def split: prod.splits)

lemma recibir_codigo_Nil [simp]: "recibir_codigo_operacion [] = (- 1, [])"
  by (simp add: recibir_codigo_operacion_def)

lemma ida_y_vuelta_ok: "recibir_mensaje recibir_ok (enviar_ok c @ s) = (op_num c, Inr ((), s))"
proof -
  have "recibir_ok (bytes_le 8 (of_nat (length (bytes_int (- 1))) :: u64) @ bytes_int (- 1) @ s) = Inr ((), s)"
    unfolding recibir_ok_def by (rule recibir_validado) (simp_all add: wire_simps)
  then show ?thesis by (simp add: recibir_mensaje_def enviar_ok_def wire_simps corto_def)
qed

lemma recibir_ack:
  obtains s1 where "recibir_codigo_operacion (enviar_ok c @ s) = (op_num c, s1)" "recibir_ok s1 = Inr ((), s)"
  using recibir_mensajeD [OF ida_y_vuelta_ok] by blast

lemma mensaje_un_int: "mensaje c bytes_int (enviar_un_int c) recibir_un_int (\<lambda>_. True)"
  by (rule mensajeI [OF _ _ recibir_un_int_def]) (simp_all add: enviar_un_int_def wire_simps)

lemma mensaje_un_u32: "mensaje c bytes_u32 (enviar_un_u32 c) recibir_un_u32 (\<lambda>_. True)"
  by (rule mensajeI [OF _ _ recibir_un_u32_def]) (simp_all add: enviar_un_u32_def wire_simps)

interpretation m_pid: mensaje EJECUTAR_PROCESO bytes_int enviar_pid recibir_pid "\<lambda>_. True"
  using mensaje_un_int [of EJECUTAR_PROCESO] by (simp add: enviar_pid_def [abs_def] recibir_pid_def)

interpretation m_handshake_cpu: mensaje HANDSHAKE_CPU bytes_int enviar_handshake_cpu
  recibir_handshake_cpu "\<lambda>_. True"
  using mensaje_un_int [of HANDSHAKE_CPU]
  by (simp add: enviar_handshake_cpu_def [abs_def] recibir_handshake_cpu_def)

interpretation m_fin_io: mensaje IO_FINALIZADA bytes_int enviar_fin_io recibir_fin_io "\<lambda>_. True"
  using mensaje_un_int [of IO_FINALIZADA]
  by (simp add: enviar_fin_io_def [abs_def] recibir_fin_io_def)

interpretation m_suspender: mensaje SUSPENDER_PROCESO bytes_int enviar_suspender_proceso
  recibir_suspender_proceso "\<lambda>_. True"
  using mensaje_un_int [of SUSPENDER_PROCESO]
  by (simp add: enviar_suspender_proceso_def [abs_def] recibir_suspender_proceso_def)

interpretation m_des_suspender: mensaje DES_SUSPENDER_PROCESO bytes_int
  enviar_des_suspender_proceso recibir_des_suspender_proceso "\<lambda>_. True"
  using mensaje_un_int [of DES_SUSPENDER_PROCESO]
  by (simp add: enviar_des_suspender_proceso_def [abs_def] recibir_des_suspender_proceso_def)

interpretation m_resultado_swap: mensaje RESPUESTA_SWAP bytes_int enviar_resultado_swap
    recibir_un_int "\<lambda>_. True"
  using mensaje_un_int [of RESPUESTA_SWAP] by (simp add: enviar_resultado_swap_def [abs_def])

interpretation m_config_mmu: mensaje CONFIG_MMU_CPU bytes_u32 enviar_config_mmu_cpu
  recibir_config_mmu_cpu "\<lambda>_. True"
  using mensaje_un_u32 [of CONFIG_MMU_CPU]
  by (simp add: enviar_config_mmu_cpu_def [abs_def] recibir_config_mmu_cpu_def)

interpretation m_lectura_bloque: mensaje LECTURA_BLOQUE_SWAP bytes_u32
  enviar_lectura_bloque_swap recibir_lectura_bloque_swap "\<lambda>_. True"
  using mensaje_un_u32 [of LECTURA_BLOQUE_SWAP]
  by (simp add: enviar_lectura_bloque_swap_def [abs_def] recibir_lectura_bloque_swap_def)

interpretation m_interrupcion: mensaje INTERRUPCION "\<lambda>(pid, m). bytes_int pid @ bytes_int m"
  "\<lambda>(pid, m). enviar_interrupcion pid m" recibir_interrupcion "\<lambda>_. True"
  by (rule mensajeI [OF _ _ recibir_interrupcion_def])
    (auto simp: enviar_interrupcion_def wire_simps corto_def)

interpretation m_handshake_swap: mensaje HANDSHAKE_SWAP "\<lambda>(b, t). bytes_u32 b @ bytes_u32 t"
  "\<lambda>(b, t). enviar_handshake_swap b t" recibir_handshake_swap "\<lambda>_. True"
  by (rule mensajeI [OF _ _ recibir_handshake_swap_def])
    (auto simp: enviar_handshake_swap_def wire_simps corto_def)

interpretation m_crear_proceso: mensaje CREAR_PROCESO
  "\<lambda>(pid, path). bytes_int pid @ bytes_cadena path"
  "\<lambda>(pid, path). enviar_crear_proceso pid path" recibir_crear_proceso
  "\<lambda>(pid, path). cadena_ok path \<and> length path < 2 ^ 31 - 100"
  by (rule mensajeI [OF _ _ recibir_crear_proceso_def])
    (auto simp: enviar_crear_proceso_def wire_simps corto_def)

interpretation m_handshake_io: mensaje HANDSHAKE_IO bytes_cadena enviar_handshake_io
  recibir_handshake_io "\<lambda>nombre. cadena_ok nombre \<and> length nombre < 2 ^ 31 - 100"
  by (rule mensajeI [OF _ _ recibir_handshake_io_def])
    (auto simp: enviar_handshake_io_def wire_simps corto_def)

interpretation m_handshake_stick: mensaje HANDSHAKE_MEMORY_STICK
  "\<lambda>(tam, ip, puerto). bytes_u32 tam @ bytes_cadena ip @ bytes_cadena puerto"
  "\<lambda>(tam, ip, puerto). enviar_handshake_memory_stick tam ip puerto"
  recibir_handshake_memory_stick
  "\<lambda>(tam, ip, puerto). cadena_ok ip \<and> cadena_ok puerto \<and> length ip + length puerto < 2 ^ 31 - 100"
  by (rule mensajeI [OF _ _ recibir_handshake_memory_stick_def])
    (auto simp: enviar_handshake_memory_stick_def wire_simps corto_def)

interpretation m_nueva_memoria: mensaje NUEVA_MEMORIA_DISPONIBLE
  "\<lambda>(tam, b, ip, puerto). bytes_u32 tam @ bytes_u32 b @ bytes_cadena ip @ bytes_cadena puerto"
  "\<lambda>(tam, b, ip, puerto). enviar_nueva_memoria_disponible tam b ip puerto"
  recibir_nueva_memoria_disponible
  "\<lambda>(tam, b, ip, puerto). cadena_ok ip \<and> cadena_ok puerto \<and> length ip + length puerto < 2 ^ 31 - 100"
  by (rule mensajeI [OF _ _ recibir_nueva_memoria_disponible_def])
    (auto simp: enviar_nueva_memoria_disponible_def wire_simps corto_def)

interpretation m_escritura_bloque: mensaje ESCRITURA_BLOQUE_SWAP
  "\<lambda>(b, datos). bytes_u32 b @ datos" "\<lambda>(b, datos). enviar_escritura_bloque_swap b datos"
  "recibir_escritura_bloque_swap tam"
  "\<lambda>(b, datos). length datos = unat tam \<and> unat tam < 2 ^ 31 - 100" for tam
  by (rule mensajeI [OF _ _ recibir_escritura_bloque_swap_def])
    (auto simp: enviar_escritura_bloque_swap_def wire_simps corto_def)

interpretation m_datos_stdin: mensaje IO_FINALIZADA
  "\<lambda>(pid, datos). bytes_int pid @ datos" "\<lambda>(pid, datos). enviar_datos_stdin pid datos"
  "recibir_datos_stdin tam"
  "\<lambda>(pid, datos). length datos = cuenta tam \<and> cuenta tam < 2 ^ 31 - 100" for tam
  by (rule mensajeI [OF _ _ recibir_datos_stdin_def])
    (auto simp: enviar_datos_stdin_def enviar_int_datos_def wire_simps corto_def)

text \<open>
  \<open>DEVOLVER_PROCESO\<close>: the two sides agree on the syscall part exactly when the name is
  present for \<open>MOTIVO_SYSCALL\<close> and absent for every other reason.
\<close>

definition cuerpo_devolver ::
  "i32 \<times> i32 \<times> string option \<times> string list \<Rightarrow> byte list" where
  "cuerpo_devolver = (\<lambda>(pid, m, nombre, params).
     bytes_int pid @ bytes_int m @
     (case nombre of None \<Rightarrow> []
      | Some n \<Rightarrow> bytes_cadena n @ bytes_int (of_nat (length params)) @ concat (map bytes_cadena params)))"

definition devolucion_ok ::
  "t_motivo_devolucion \<Rightarrow> string option \<Rightarrow> string list \<Rightarrow> bool" where
  "devolucion_ok motivo nombre params \<longleftrightarrow>
     (case nombre of None \<Rightarrow> motivo \<noteq> MOTIVO_SYSCALL \<and> params = []
      | Some n \<Rightarrow> motivo = MOTIVO_SYSCALL \<and> cadena_ok n \<and> (\<forall>p \<in> set params. cadena_ok p)) \<and>
     length (concat (map bytes_cadena ((case nombre of None \<Rightarrow> [] | Some n \<Rightarrow> [n]) @ params))) < 2 ^ 31 - 100"

lemma motivo_num_inject [simp]: "motivo_num m = motivo_num m' \<longleftrightarrow> m = m'"
  by (cases m; cases m') simp_all

lemma length_le_concat_cadenas: "length ps \<le> length (concat (map bytes_cadena ps))"
  by (induction ps) auto

lemma enviar_devolver_paquete:
  assumes "devolucion_ok motivo nombre params"
  shows "enviar_devolver_proceso pid motivo nombre params =
    enviar_paquete (paquete DEVOLVER_PROCESO (cuerpo_devolver (pid, motivo_num motivo, nombre, params)))"
  using assms
  by (cases nombre)
    (auto simp: enviar_devolver_proceso_def cuerpo_devolver_def devolucion_ok_def wire_simps)

lemma corto_cuerpo_devolver:
  assumes "devolucion_ok motivo nombre params"
  shows "corto (cuerpo_devolver (pid, motivo_num motivo, nombre, params))"
  using assms by (cases nombre) (auto simp: cuerpo_devolver_def devolucion_ok_def corto_def)

lemma recibir_cuerpo_devolver:
  assumes "devolucion_ok motivo nombre params"
  shows "recibir_devolver_proceso
    (bytes_le 8 (of_nat (length (cuerpo_devolver (pid, motivo_num motivo, nombre, params))) :: u64)
      @ cuerpo_devolver (pid, motivo_num motivo, nombre, params) @ s) =
    Inr ((pid, motivo_num motivo, nombre, params), s)"
  unfolding recibir_devolver_proceso_def
proof (rule recibir_validado [OF corto_cuerpo_devolver [OF assms]], cases nombre)
  case None
  then have "motivo \<noteq> MOTIVO_SYSCALL" "params = []"
    using assms by (auto simp: devolucion_ok_def)
  then have "motivo_num motivo \<noteq> motivo_num MOTIVO_SYSCALL" by (simp del: motivo_num.simps)
  then show "recv_bind recv_int (\<lambda>pid. recv_bind recv_int (\<lambda>motivo.
      if motivo \<noteq> motivo_num MOTIVO_SYSCALL then recv_ret (pid, motivo, None, [])
      else recv_bind recibir_cadena (\<lambda>nombre. recv_bind recv_int (\<lambda>cant.
           recv_bind (recv_veces (cuenta cant) recibir_cadena) (\<lambda>params.
           recv_ret (pid, motivo, Some nombre, params))))))
      (cuerpo_devolver (pid, motivo_num motivo, nombre, params) @ s) =
      Inr ((pid, motivo_num motivo, nombre, params), s)"
    using None \<open>params = []\<close> by (simp add: cuerpo_devolver_def wire_simps del: motivo_num.simps)
next
  case (Some n)
  then have ok: "motivo = MOTIVO_SYSCALL" "cadena_ok n" "\<forall>p \<in> set params. cadena_ok p"
    "length params < 2 ^ 31"
    using assms length_le_concat_cadenas [of params] by (auto simp: devolucion_ok_def)
  have "recv_veces (length params) recibir_cadena (concat (map bytes_cadena params) @ s) = Inr (params, s)"
    using ok(3) by (intro recv_veces_concat) (simp add: wire_simps)
  with Some ok show "recv_bind recv_int (\<lambda>pid. recv_bind recv_int (\<lambda>motivo.
      if motivo \<noteq> motivo_num MOTIVO_SYSCALL then recv_ret (pid, motivo, None, [])
      else recv_bind recibir_cadena (\<lambda>nombre. recv_bind recv_int (\<lambda>cant.
           recv_bind (recv_veces (cuenta cant) recibir_cadena) (\<lambda>params.
           recv_ret (pid, motivo, Some nombre, params))))))
      (cuerpo_devolver (pid, motivo_num motivo, nombre, params) @ s) =
      Inr ((pid, motivo_num motivo, nombre, params), s)"
    by (simp add: cuerpo_devolver_def wire_simps)
qed

text \<open>
  C1: a \<open>DEVOLVER_PROCESO\<close> that a CPU sends (any reason; the syscall name and all its
  parameters when the reason is \<open>MOTIVO_SYSCALL\<close>) is read back by the scheduler field by
  field, and the bytes that follow it on the socket are left untouched.
\<close>

theorem devolver_proceso_ida_y_vuelta:
  assumes "devolucion_ok motivo nombre params"
  shows "recibir_mensaje recibir_devolver_proceso (enviar_devolver_proceso pid motivo nombre params @ s)
    = (op_num DEVOLVER_PROCESO, Inr ((pid, motivo_num motivo, nombre, params), s))"
  using assms
  by (simp add: enviar_devolver_paquete corto_cuerpo_devolver recibir_cuerpo_devolver
      recibir_mensaje_def enviar_paquete_paquete recibir_codigo_operacion_op)

theorem devolver_proceso_ida_y_vuelta_witness:
  "recibir_mensaje recibir_devolver_proceso
     (enviar_devolver_proceso 3 MOTIVO_SYSCALL (Some ''MEM_ALLOC'') [''0'', ''64''] @ [7, 7]) =
   (op_num DEVOLVER_PROCESO, Inr ((3, 1, Some ''MEM_ALLOC'', [''0'', ''64'']), [7, 7]))"
proof -
  have "devolucion_ok MOTIVO_SYSCALL (Some ''MEM_ALLOC'') [''0'', ''64'']"
    by (simp add: devolucion_ok_def cadena_ok_def)
  from devolver_proceso_ida_y_vuelta [OF this, of 3 "[7, 7]"] show ?thesis by simp
qed

text \<open>
  Any sequence of \<open>NUEVA_MEMORIA_DISPONIBLE\<close> notifications (the pushes Kernel Memory
  makes when Memory Sticks are plugged) is read back in order by the receiver's loop, each
  with its size, base, ip and port, and the stream never desynchronises.
\<close>

theorem nueva_memoria_flujo:
  assumes "\<forall>(tam, b, ip, puerto) \<in> set ms.
    cadena_ok ip \<and> cadena_ok puerto \<and> length ip + length puerto < 2 ^ 31 - 100"
  shows "recibir_flujo recibir_nueva_memoria_disponible (length ms)
      (concat (map (\<lambda>(tam, b, ip, puerto). enviar_nueva_memoria_disponible tam b ip puerto) ms) @ s)
    = Inr (ms, s)"
  by (rule m_nueva_memoria.flujo) (use assms in auto)

theorem nueva_memoria_flujo_witness:
  "recibir_flujo recibir_nueva_memoria_disponible 2
     (concat (map (\<lambda>(tam, b, ip, puerto). enviar_nueva_memoria_disponible tam b ip puerto)
        [(1024, 0, ''10.0.0.1'', ''9001''), (512, 1024, ''10.0.0.2'', ''9002'')]) @ [])
   = Inr ([(1024, 0, ''10.0.0.1'', ''9001''), (512, 1024, ''10.0.0.2'', ''9002'')], [])"
proof -
  let ?ms = "[(1024, 0, ''10.0.0.1'', ''9001''), (512, 1024, ''10.0.0.2'', ''9002'')]
    :: (u32 \<times> u32 \<times> string \<times> string) list"
  have "\<forall>(tam, b, ip, puerto) \<in> set ?ms.
      cadena_ok ip \<and> cadena_ok puerto \<and> length ip + length puerto < 2 ^ 31 - 100"
    by (simp add: cadena_ok_def)
  moreover have "length ?ms = 2" by simp
  ultimately show ?thesis using nueva_memoria_flujo [of ?ms "[]"] by (simp only:)
qed


section \<open>Looking for the blue screen without waiting\<close>

text \<open>
  \<open>recv\<close> with \<open>MSG_DONTWAIT\<close>: nothing has arrived, or the connection is closed, when \<open>s\<close> is empty.
  The packet is read to its end whatever its opcode.
\<close>

definition recibir_memoria_corrupta_no_bloqueante :: "bool recv" where
  "recibir_memoria_corrupta_no_bloqueante s =
     (if s = [] then Inr (False, [])
      else recv_bind recv_u32 (\<lambda>codigo. recv_bind (recv_bytes 8) (\<lambda>t.
        let tamanio = word_le t :: u64
        in recv_bind (recv_bytes (unat tamanio)) (\<lambda>basura. recv_ret (codigo = op_num MEMORIA_CORRUPTA_BSOD)))) s)"

lemma sondeo_correcto:
  "recibir_memoria_corrupta_no_bloqueante (enviar_ok c @ s) = Inr (c = MEMORIA_CORRUPTA_BSOD, s)"
proof -
  have "enviar_ok c = bytes_u32 (op_num c) @ bytes_le 8 (4 :: u64) @ bytes_int (- 1)"
    by (simp add: enviar_ok_def wire_simps bytes_u32_def corto_def)
  moreover have "bytes_le 8 (4 :: u64) \<noteq> []"
    using length_bytes_le [of 8 "4 :: u64"] by (metis list.size(3) zero_neq_numeral)
  ultimately show ?thesis
    by (simp add: recibir_memoria_corrupta_no_bloqueante_def recv_bind_def wire_simps Let_def)
qed

end
