(* ===== verification/Memory_Stick.thy ===== *)
theory Memory_Stick
  imports Mensajes
begin

text \<open>
  The Memory Stick module, \<open>memory_stick/src/utils_memory_stick.c\<close>: a byte buffer served to
  Kernel Memory and the CPUs. A client connection is the stream of bytes the client sends; the
  handler thread reads it to its end and answers each request. The buffer is only touched
  under \<open>memoria_lock\<close>, one request at a time. An access outside the buffer is undefined
  behaviour in C and appears as the failure \<open>AccesoFuera\<close>.
\<close>

section \<open>The module\<close>

record t_stick =
  memoria_buffer :: "byte list"
  memoria_size :: u32

datatype stick_falla = Cable wire_error | AccesoFuera

definition inicializar_memoria_stick :: "byte list \<Rightarrow> u32 \<Rightarrow> t_stick" where
  "inicializar_memoria_stick buf tam = \<lparr>memoria_buffer = buf, memoria_size = tam\<rparr>"

text \<open>The three fields both handlers read after \<open>validar_buffer\<close>.\<close>

definition recibir_pid_dir_tam :: "(i32 \<times> u32 \<times> u32) recv" where
  "recibir_pid_dir_tam =
     recv_bind validar_buffer (\<lambda>_. recv_bind recv_int (\<lambda>pid. recv_bind recv_u32 (\<lambda>dir.
       recv_bind recv_u32 (\<lambda>tam. recv_ret (pid, dir, tam)))))"

definition en_buffer :: "t_stick \<Rightarrow> u32 \<Rightarrow> u32 \<Rightarrow> bool" where
  "en_buffer st dir tam \<longleftrightarrow> unat dir + unat tam \<le> length (memoria_buffer st)"

definition manejar_lectura :: "t_stick \<Rightarrow> byte list \<Rightarrow> stick_falla + (byte list \<times> byte list)" where
  "manejar_lectura st s =
     (case recibir_pid_dir_tam s of
        Inl e \<Rightarrow> Inl (Cable e)
      | Inr ((pid, dir, tam), s') \<Rightarrow>
          let p = crear_paquete LECTURA_MEMORIA
          in if dir + tam \<le> memoria_size st
             then if en_buffer st dir tam \<and> 0 \<le> sint tam
                  then Inr (enviar_paquete (agregar_a_paquete p
                         (tramo_de (memoria_buffer st) (unat dir) (unat tam))), s')
                  else Inl AccesoFuera
             else Inr (enviar_paquete p, s'))"

definition manejar_escritura ::
  "t_stick \<Rightarrow> byte list \<Rightarrow> stick_falla + (t_stick \<times> byte list \<times> byte list)" where
  "manejar_escritura st s =
     (case recv_bind recibir_pid_dir_tam (\<lambda>(pid, dir, tam). recv_bind (recv_bytes (unat tam))
             (\<lambda>datos. recv_ret (dir, tam, datos))) s of
        Inl e \<Rightarrow> Inl (Cable e)
      | Inr ((dir, tam, datos), s') \<Rightarrow>
          if dir + tam \<le> memoria_size st
          then if en_buffer st dir tam
               then Inr (st\<lparr>memoria_buffer := copiar_en (memoria_buffer st) (unat dir) datos\<rparr>,
                         enviar_ok ESCRITURA_MEMORIA, s')
               else Inl AccesoFuera
          else Inr (st, enviar_ok ESCRITURA_MEMORIA, s'))"

lemma acorta_pid_dir_tam [simp]: "acorta recibir_pid_dir_tam"
  unfolding recibir_pid_dir_tam_def by (intro acorta_bind) simp_all

lemma manejar_lectura_acorta: "manejar_lectura st s = Inr (r, s') \<Longrightarrow> length s' \<le> length s"
  using acorta_pid_dir_tam unfolding acorta_def manejar_lectura_def
  by (auto simp: Let_def split: sum.splits prod.splits if_splits)

lemma manejar_escritura_acorta: "manejar_escritura st s = Inr (st', r, s') \<Longrightarrow> length s' \<le> length s"
proof -
  have "acorta (recv_bind recibir_pid_dir_tam (\<lambda>(pid, dir, tam). recv_bind (recv_bytes (unat tam))
      (\<lambda>datos. recv_ret (dir, tam, datos))))"
    by (intro acorta_bind) (auto split: prod.splits)
  then show "manejar_escritura st s = Inr (st', r, s') \<Longrightarrow> length s' \<le> length s"
    unfolding acorta_def manejar_escritura_def by (auto split: sum.splits prod.splits if_splits)
qed

text \<open>
  The request loop of \<open>memory_stick_cpu_handler\<close>: the final buffer, the bytes sent back and
  the failure that stopped it, if any. Every turn consumes at least the opcode.
\<close>

function atender_pedidos :: "t_stick \<Rightarrow> byte list \<Rightarrow> t_stick \<times> byte list \<times> stick_falla option" where
  "atender_pedidos st s =
     (let (cod, s1) = recibir_codigo_operacion s
      in if cod = op_num LECTURA_MEMORIA
         then case manejar_lectura st s1 of
                Inl e \<Rightarrow> (st, [], Some e)
              | Inr (r, s2) \<Rightarrow>
                  let (st', out, f) = atender_pedidos st s2 in (st', r @ out, f)
         else if cod = op_num ESCRITURA_MEMORIA
         then case manejar_escritura st s1 of
                Inl e \<Rightarrow> (st, [], Some e)
              | Inr (st1, r, s2) \<Rightarrow>
                  let (st', out, f) = atender_pedidos st1 s2 in (st', r @ out, f)
         else (st, [], None))"
  by pat_completeness auto
termination
  by (relation "measure (\<lambda>(st, s). length s)")
    (auto dest!: recibir_codigo_acorta [OF sym] manejar_lectura_acorta manejar_escritura_acorta)

declare atender_pedidos.simps [simp del]

definition memory_stick_cpu_handler ::
  "t_stick \<Rightarrow> byte list \<Rightarrow> t_stick \<times> byte list \<times> stick_falla option" where
  "memory_stick_cpu_handler st s =
     (let (cod, s1) = recibir_codigo_operacion s
      in if cod \<noteq> op_num HANDSHAKE_CPU then (st, [], None)
         else case recibir_handshake_cpu s1 of
                Inl e \<Rightarrow> (st, [], Some (Cable e))
              | Inr (ident, s2) \<Rightarrow> atender_pedidos st s2)"

text \<open>\<open>crear_conexion\<close> of the sockets layer yields the socket, or \<open>None\<close> for \<open>-1\<close>.\<close>

definition conectar_a_kernel_memory ::
  "'s option \<Rightarrow> u32 \<Rightarrow> string \<Rightarrow> string \<Rightarrow> ('s \<times> byte list) option" where
  "conectar_a_kernel_memory conexion tam ip_propia puerto_propio =
     (case conexion of None \<Rightarrow> None
      | Some s \<Rightarrow> Some (s, enviar_handshake_memory_stick tam ip_propia puerto_propio))"

section \<open>Requests and answers\<close>

definition pedido_lectura :: "i32 \<Rightarrow> u32 \<Rightarrow> u32 \<Rightarrow> byte list" where
  "pedido_lectura pid dir tam =
     enviar_paquete (paquete LECTURA_MEMORIA (bytes_int pid @ bytes_u32 dir @ bytes_u32 tam))"

definition pedido_escritura :: "i32 \<Rightarrow> u32 \<Rightarrow> byte list \<Rightarrow> byte list" where
  "pedido_escritura pid dir datos =
     enviar_paquete (paquete ESCRITURA_MEMORIA
       (bytes_int pid @ bytes_u32 dir @ bytes_u32 (of_nat (length datos)) @ datos))"

text \<open>Both ends of the wire build the same request.\<close>

lemma pedido_fisica:
  "enviar_lectura_fisica pid dir tam = pedido_lectura pid dir tam"
  "enviar_escritura_fisica pid dir datos = pedido_escritura pid dir datos"
  by (simp_all add: enviar_lectura_fisica_def enviar_escritura_fisica_def enviar_int_u32_u32_def
      pedido_lectura_def pedido_escritura_def wire_simps)

lemma recibir_pid_dir_tam_bytes:
  assumes "corto (bytes_int pid @ bytes_u32 dir @ bytes_u32 tam @ resto)"
  shows "recibir_pid_dir_tam
     (bytes_le 8 (of_nat (length (bytes_int pid @ bytes_u32 dir @ bytes_u32 tam @ resto)) :: u64)
        @ (bytes_int pid @ bytes_u32 dir @ bytes_u32 tam @ resto) @ s) =
     Inr ((pid, dir, tam), resto @ s)"
  unfolding recibir_pid_dir_tam_def validado [OF assms]
  by (simp add: recv_bind_def wire_simps)

definition stick_ok :: "t_stick \<Rightarrow> bool" where
  "stick_ok st \<longleftrightarrow> length (memoria_buffer st) = unat (memoria_size st)"

lemma en_rango_palabra:
  fixes dir tam tope :: u32
  assumes "unat dir + unat tam < 2 ^ 32"
  shows "dir + tam \<le> tope \<longleftrightarrow> unat dir + unat tam \<le> unat tope"
  using assms by (simp add: word_le_nat_alt unat_add_u32)

lemma atender_lectura:
  assumes "stick_ok st" "unat dir + unat tam < 2 ^ 32" "unat tam < 2 ^ 31 - 100"
  shows "atender_pedidos st (pedido_lectura pid dir tam @ s) =
    (let (st', out, f) = atender_pedidos st s
     in (st', enviar_paquete (paquete LECTURA_MEMORIA
           (if unat dir + unat tam \<le> unat (memoria_size st)
            then tramo_de (memoria_buffer st) (unat dir) (unat tam) else [])) @ out, f))"
proof -
  let ?c = "bytes_int pid @ bytes_u32 dir @ bytes_u32 tam"
  have c: "corto ?c" by (simp add: corto_def)
  have "0 \<le> sint tam"
    using sint_of_nat_small [of "unat tam"] assms(3) by simp
  moreover have "recibir_pid_dir_tam (bytes_le 8 (of_nat (length ?c) :: u64) @ ?c @ s) = Inr ((pid, dir, tam), s)"
    using recibir_pid_dir_tam_bytes [of pid dir tam "[]" s] c by simp
  ultimately show ?thesis
    using assms(1,2) unfolding atender_pedidos.simps [of st "pedido_lectura pid dir tam @ s"]
    unfolding pedido_lectura_def enviar_paquete_paquete [OF c] append_assoc recibir_codigo_operacion_op
    by (auto simp: manejar_lectura_def en_rango_palabra en_buffer_def stick_ok_def wire_simps Let_def
        split: prod.splits)
qed

lemma atender_escritura:
  assumes "stick_ok st" "unat dir + length datos < 2 ^ 32" "length datos < 2 ^ 31 - 100"
  shows "atender_pedidos st (pedido_escritura pid dir datos @ s) =
    (let (st', out, f) = atender_pedidos
           (if unat dir + length datos \<le> unat (memoria_size st)
            then st\<lparr>memoria_buffer := copiar_en (memoria_buffer st) (unat dir) datos\<rparr> else st) s
     in (st', enviar_ok ESCRITURA_MEMORIA @ out, f))"
proof -
  let ?t = "of_nat (length datos) :: u32"
  let ?c = "bytes_int pid @ bytes_u32 dir @ bytes_u32 ?t @ datos"
  have c: "corto ?c" using assms(3) by (simp add: corto_def)
  have t: "unat ?t = length datos" using assms(3) by (simp add: unat_of_nat)
  have "recibir_pid_dir_tam (bytes_le 8 (of_nat (length ?c) :: u64) @ ?c @ s) =
      Inr ((pid, dir, ?t), datos @ s)"
    by (rule recibir_pid_dir_tam_bytes [OF c])
  then have "recv_bind recibir_pid_dir_tam (\<lambda>(pid, dir, tam). recv_bind (recv_bytes (unat tam))
      (\<lambda>datos. recv_ret (dir, tam, datos))) (bytes_le 8 (of_nat (length ?c) :: u64) @ ?c @ s) =
      Inr ((dir, ?t, datos), s)"
    by (simp add: recv_bind_def recv_bytes_append t recv_ret_def del: of_nat_add)
  then have man: "manejar_escritura st (bytes_le 8 (of_nat (length ?c) :: u64) @ ?c @ s) =
      Inr (if unat dir + length datos \<le> unat (memoria_size st)
           then st\<lparr>memoria_buffer := copiar_en (memoria_buffer st) (unat dir) datos\<rparr> else st,
           enviar_ok ESCRITURA_MEMORIA, s)"
    using assms(1,2) t
    by (simp add: manejar_escritura_def en_rango_palabra en_buffer_def stick_ok_def del: length_append append_assoc)
  have "recibir_codigo_operacion (pedido_escritura pid dir datos @ s) =
      (op_num ESCRITURA_MEMORIA, bytes_le 8 (of_nat (length ?c) :: u64) @ ?c @ s)"
    unfolding pedido_escritura_def enviar_paquete_paquete [OF c] append_assoc by (rule recibir_codigo_operacion_op)
  with man show ?thesis
    unfolding atender_pedidos.simps [of st "pedido_escritura pid dir datos @ s"]
    by (simp add: Let_def del: length_append append_assoc)
qed

lemma atender_fin [simp]: "atender_pedidos st [] = (st, [], None)"
  by (simp add: atender_pedidos.simps [of st "[]"] recibir_codigo_operacion_def)

lemma stick_ok_copiar:
  "stick_ok st \<Longrightarrow> off + length datos \<le> unat (memoria_size st) \<Longrightarrow>
   stick_ok (st\<lparr>memoria_buffer := copiar_en (memoria_buffer st) off datos\<rparr>)"
  by (simp add: stick_ok_def)

lemma manejador_handshake:
  "memory_stick_cpu_handler st (enviar_handshake_cpu ident @ s) = atender_pedidos st s"
  using m_handshake_cpu.ida_y_vuelta [of ident s]
  by (auto simp: memory_stick_cpu_handler_def recibir_mensaje_def Let_def split: prod.splits)

section \<open>Properties of the module\<close>

text \<open>
  C7. A client that connects, writes \<open>datos\<close> at \<open>dir\<close> and reads the same range back gets
  the acknowledgement and then exactly \<open>datos\<close>; the buffer keeps its size and every range
  disjoint from the written one keeps its bytes.
\<close>

theorem stick_escribir_leer:
  assumes "stick_ok st" "unat dir + length datos \<le> unat (memoria_size st)" "length datos < 2 ^ 31 - 100"
  shows "\<exists>st'. memory_stick_cpu_handler st
        (enviar_handshake_cpu ident @ enviar_escritura_fisica pid dir datos
           @ enviar_lectura_fisica pid dir (of_nat (length datos)))
      = (st', enviar_ok ESCRITURA_MEMORIA @ enviar_paquete (paquete LECTURA_MEMORIA datos), None) \<and>
    stick_ok st' \<and> memoria_size st' = memoria_size st \<and>
    (\<forall>o' n. o' + n \<le> unat (memoria_size st) \<and> (o' + n \<le> unat dir \<or> unat dir + length datos \<le> o') \<longrightarrow>
       tramo_de (memoria_buffer st') o' n = tramo_de (memoria_buffer st) o' n)"
proof -
  let ?st = "st\<lparr>memoria_buffer := copiar_en (memoria_buffer st) (unat dir) datos\<rparr>"
  have len: "unat (of_nat (length datos) :: u32) = length datos" using assms(3) by (simp add: unat_of_nat)
  have tope: "unat dir + length datos < 2 ^ 32"
    using assms(2) unat_u32_less [of "memoria_size st"] by linarith
  have ok: "stick_ok ?st" using assms by (simp add: stick_ok_copiar)
  have leer: "tramo_de (memoria_buffer ?st) (unat dir) (length datos) = datos"
    using assms by (simp add: stick_ok_def tramo_de_copiar_en)
  have "memory_stick_cpu_handler st (enviar_handshake_cpu ident @ enviar_escritura_fisica pid dir datos
           @ enviar_lectura_fisica pid dir (of_nat (length datos)))
      = (?st, enviar_ok ESCRITURA_MEMORIA @ enviar_paquete (paquete LECTURA_MEMORIA datos), None)"
    using atender_lectura [OF ok, of dir "of_nat (length datos)" pid "[]"] assms tope len leer
    by (simp add: manejador_handshake pedido_fisica atender_escritura)
  moreover have "tramo_de (memoria_buffer ?st) o' n = tramo_de (memoria_buffer st) o' n"
    if "o' + n \<le> unat (memoria_size st)" "o' + n \<le> unat dir \<or> unat dir + length datos \<le> o'" for o' n
    using that assms by (auto simp: stick_ok_def intro!: tramo_de_otro)
  ultimately show ?thesis using ok by auto
qed

lemma stick_escribir_leer_witness:
  "\<exists>st'. memory_stick_cpu_handler \<lparr>memoria_buffer = [0, 0, 0, 0], memoria_size = 4\<rparr>
        (enviar_handshake_cpu 1 @ enviar_escritura_fisica 7 1 [5, 6] @ enviar_lectura_fisica 7 1 (of_nat 2))
      = (st', enviar_ok ESCRITURA_MEMORIA @ enviar_paquete (paquete LECTURA_MEMORIA [5, 6]), None) \<and>
    stick_ok st' \<and> memoria_size st' = 4"
proof -
  let ?st = "\<lparr>memoria_buffer = [0, 0, 0, 0], memoria_size = 4\<rparr> :: t_stick"
  have "stick_ok ?st" "unat (1 :: u32) + length [5, 6 :: byte] \<le> unat (memoria_size ?st)"
    "length [5, 6 :: byte] < 2 ^ 31 - 100"
    by (simp_all add: stick_ok_def)
  from stick_escribir_leer [OF this, of 1 7] show ?thesis by auto
qed

text \<open>The two requests past the end: the handler only looks at the 32-bit sum.\<close>

lemma atender_fuera:
  assumes "stick_ok st" "unat (memoria_size st) < unat dir + length datos" "length datos < 2 ^ 31 - 100" "tam = of_nat (length datos)"
  shows "atender_pedidos st (pedido_escritura pid dir datos @ s) =
      (if memoria_size st < dir + tam
       then let (st', out, f) = atender_pedidos st s in (st', enviar_ok ESCRITURA_MEMORIA @ out, f)
       else (st, [], Some AccesoFuera))"
    "atender_pedidos st (pedido_lectura pid dir tam @ s) =
      (if memoria_size st < dir + tam
       then let (st', out, f) = atender_pedidos st s in (st', enviar_paquete (crear_paquete LECTURA_MEMORIA) @ out, f)
       else (st, [], Some AccesoFuera))"
proof -
  have t: "unat tam = length datos" using assms(3,4) by (simp add: unat_of_nat)
  have fuera: "\<not> en_buffer st dir tam" using assms(1,2) t by (simp add: en_buffer_def stick_ok_def)
  let ?c = "bytes_int pid @ bytes_u32 dir @ bytes_u32 tam @ datos"
  have c: "corto ?c" using assms(3) by (simp add: corto_def)
  have "recibir_pid_dir_tam (bytes_le 8 (of_nat (length ?c) :: u64) @ ?c @ s) = Inr ((pid, dir, tam), datos @ s)"
    by (rule recibir_pid_dir_tam_bytes [OF c])
  then have "recv_bind recibir_pid_dir_tam (\<lambda>(pid, dir, tam). recv_bind (recv_bytes (unat tam))
      (\<lambda>datos. recv_ret (dir, tam, datos))) (bytes_le 8 (of_nat (length ?c) :: u64) @ ?c @ s) = Inr ((dir, tam, datos), s)"
    by (simp add: recv_bind_def recv_bytes_append t recv_ret_def del: of_nat_add)
  then have man: "manejar_escritura st (bytes_le 8 (of_nat (length ?c) :: u64) @ ?c @ s) =
      (if memoria_size st < dir + tam then Inr (st, enviar_ok ESCRITURA_MEMORIA, s) else Inl AccesoFuera)"
    using fuera by (auto simp: manejar_escritura_def not_le simp del: length_append append_assoc)
  have "recibir_codigo_operacion (pedido_escritura pid dir datos @ s) =
      (op_num ESCRITURA_MEMORIA, bytes_le 8 (of_nat (length ?c) :: u64) @ ?c @ s)"
    using recibir_codigo_operacion_op unfolding pedido_escritura_def assms(4) enviar_paquete_paquete [OF c [unfolded assms(4)]] append_assoc by blast
  with man show "atender_pedidos st (pedido_escritura pid dir datos @ s) =
      (if memoria_size st < dir + tam
       then let (st', out, f) = atender_pedidos st s in (st', enviar_ok ESCRITURA_MEMORIA @ out, f)
       else (st, [], Some AccesoFuera))"
    unfolding atender_pedidos.simps [of st "pedido_escritura pid dir datos @ s"] by (simp add: Let_def del: length_append append_assoc)
  let ?d = "bytes_int pid @ bytes_u32 dir @ bytes_u32 tam"
  have d: "corto ?d" by (simp add: corto_def)
  have "recibir_pid_dir_tam (bytes_le 8 (of_nat (length ?d) :: u64) @ ?d @ s) = Inr ((pid, dir, tam), s)"
    using recibir_pid_dir_tam_bytes [of pid dir tam "[]" s] d by simp
  then have man: "manejar_lectura st (bytes_le 8 (of_nat (length ?d) :: u64) @ ?d @ s) =
      (if memoria_size st < dir + tam then Inr (enviar_paquete (crear_paquete LECTURA_MEMORIA), s) else Inl AccesoFuera)"
    using fuera by (auto simp: manejar_lectura_def not_le Let_def simp del: length_append append_assoc)
  have "recibir_codigo_operacion (pedido_lectura pid dir tam @ s) = (op_num LECTURA_MEMORIA, bytes_le 8 (of_nat (length ?d) :: u64) @ ?d @ s)"
    unfolding pedido_lectura_def enviar_paquete_paquete [OF d] append_assoc by (rule recibir_codigo_operacion_op)
  with man show "atender_pedidos st (pedido_lectura pid dir tam @ s) =
      (if memoria_size st < dir + tam
       then let (st', out, f) = atender_pedidos st s in (st', enviar_paquete (crear_paquete LECTURA_MEMORIA) @ out, f)
       else (st, [], Some AccesoFuera))"
    unfolding atender_pedidos.simps [of st "pedido_lectura pid dir tam @ s"] by (simp add: Let_def del: length_append append_assoc)
qed

text \<open>
  C8. A request beyond the end of the stick. The handler compares the 32-bit sum \<open>dir + tam\<close>
  with the size. When the sum is larger the request changes nothing: a read is answered with an
  empty packet, a write is acknowledged and dropped, and the handler goes on with the rest of the
  stream. That is so for every request past the end that does not wrap 32 bits. When the sum
  wraps to a value that is not larger, the request is let through and the handler leaves the buffer.
\<close>

theorem stick_fuera_de_rango:
  assumes "stick_ok st" "unat (memoria_size st) < unat dir + length datos" "length datos < 2 ^ 31 - 100"
  shows "memory_stick_cpu_handler st (enviar_handshake_cpu ident @ enviar_escritura_fisica pid dir datos @ s) =
      (if memoria_size st < dir + of_nat (length datos)
       then let (st', out, f) = atender_pedidos st s in (st', enviar_ok ESCRITURA_MEMORIA @ out, f)
       else (st, [], Some AccesoFuera)) \<and>
    memory_stick_cpu_handler st (enviar_handshake_cpu ident @ enviar_lectura_fisica pid dir (of_nat (length datos)) @ s) =
      (if memoria_size st < dir + of_nat (length datos)
       then let (st', out, f) = atender_pedidos st s in (st', enviar_paquete (crear_paquete LECTURA_MEMORIA) @ out, f)
       else (st, [], Some AccesoFuera)) \<and>
    (unat dir + length datos < 2 ^ 32 \<longrightarrow> memoria_size st < dir + of_nat (length datos))"
proof -
  have "unat (of_nat (length datos) :: u32) = length datos" using assms(3) by (simp add: unat_of_nat)
  then have "memoria_size st < dir + of_nat (length datos)" if "unat dir + length datos < 2 ^ 32"
    using assms(2) that unat_add_u32 [of dir "of_nat (length datos)"] by (simp add: word_less_nat_alt)
  then show ?thesis using atender_fuera [OF assms refl] by (simp add: manejador_handshake pedido_fisica)
qed

lemma stick_fuera_de_rango_witness:
  "memory_stick_cpu_handler \<lparr>memoria_buffer = [0, 0, 0, 0], memoria_size = 4\<rparr> (enviar_handshake_cpu 1 @ enviar_escritura_fisica 7 3 [5, 6] @ [])
     = (\<lparr>memoria_buffer = [0, 0, 0, 0], memoria_size = 4\<rparr>, enviar_ok ESCRITURA_MEMORIA, None) \<and>
   memory_stick_cpu_handler \<lparr>memoria_buffer = [0, 0, 0, 0], memoria_size = 4\<rparr> (enviar_handshake_cpu 1 @ enviar_lectura_fisica 7 4294967294 (of_nat 4) @ [])
     = (\<lparr>memoria_buffer = [0, 0, 0, 0], memoria_size = 4\<rparr>, [], Some AccesoFuera)"
proof -
  let ?st = "\<lparr>memoria_buffer = [0, 0, 0, 0], memoria_size = 4\<rparr> :: t_stick"
  have "stick_ok ?st" "unat (memoria_size ?st) < unat (3 :: u32) + length [5, 6 :: byte]" "length [5, 6 :: byte] < 2 ^ 31 - 100"
    "unat (memoria_size ?st) < unat (4294967294 :: u32) + length [5, 6, 7, 8 :: byte]" "length [5, 6, 7, 8 :: byte] < 2 ^ 31 - 100"
    by (simp_all add: stick_ok_def)
  from stick_fuera_de_rango [OF this(1-3), of 1 7 "[]"] stick_fuera_de_rango [OF this(1,4,5), of 1 7 "[]"] show ?thesis by simp
qed

text \<open>
  The bounds check adds in \<open>uint32_t\<close>: when \<open>dir + tam\<close> wraps around to a value not
  above the stick's size, the check passes and the handler reads outside the buffer.
\<close>

theorem stick_lectura_desborda:
  assumes "stick_ok st" "2 ^ 32 \<le> unat dir + unat tam" "unat dir + unat tam \<le> 2 ^ 32 + unat (memoria_size st)"
  shows "memory_stick_cpu_handler st (enviar_handshake_cpu ident @ enviar_lectura_fisica pid dir tam) =
    (st, [], Some AccesoFuera)"
proof -
  let ?c = "bytes_int pid @ bytes_u32 dir @ bytes_u32 tam"
  have c: "corto ?c" by (simp add: corto_def)
  have "unat (dir + tam) = unat dir + unat tam - 2 ^ 32"
    using assms(2) by (rule unat_add_wrap)
  then have pasa: "dir + tam \<le> memoria_size st" using assms(3) by (simp add: word_le_nat_alt)
  have fuera: "\<not> en_buffer st dir tam"
    using assms(1,2) unat_u32_less [of "memoria_size st"] by (simp add: en_buffer_def stick_ok_def)
  have "recibir_pid_dir_tam (bytes_le 8 (of_nat (length ?c) :: u64) @ ?c) = Inr ((pid, dir, tam), [])"
    using recibir_pid_dir_tam_bytes [of pid dir tam "[]" "[]"] c by simp
  moreover have "recibir_codigo_operacion (pedido_lectura pid dir tam) =
      (op_num LECTURA_MEMORIA, bytes_le 8 (of_nat (length ?c) :: u64) @ ?c)"
    unfolding pedido_lectura_def enviar_paquete_paquete [OF c] by (rule recibir_codigo_operacion_op)
  ultimately show ?thesis
    using pasa fuera unfolding manejador_handshake pedido_fisica atender_pedidos.simps [of st "pedido_lectura pid dir tam"]
    by (simp add: manejar_lectura_def Let_def del: length_append)
qed

lemma stick_lectura_desborda_witness:
  "memory_stick_cpu_handler \<lparr>memoria_buffer = [0, 0, 0, 0], memoria_size = 4\<rparr>
     (enviar_handshake_cpu 1 @ enviar_lectura_fisica 7 4294967294 4) =
   (\<lparr>memoria_buffer = [0, 0, 0, 0], memoria_size = 4\<rparr>, [], Some AccesoFuera)"
proof -
  let ?st = "\<lparr>memoria_buffer = [0, 0, 0, 0], memoria_size = 4\<rparr> :: t_stick"
  have "stick_ok ?st" "2 ^ 32 \<le> unat (4294967294 :: u32) + unat (4 :: u32)"
    "unat (4294967294 :: u32) + unat (4 :: u32) \<le> 2 ^ 32 + unat (memoria_size ?st)"
    by (simp_all add: stick_ok_def)
  from stick_lectura_desborda [OF this, of 1 7] show ?thesis by simp
qed

end
