(* ===== verification/Conexiones.thy ===== *)
theory Conexiones
  imports Prelude
begin

text \<open>
  The connection table of Kernel Memory, \<open>kernel_memory/src/memory_conexiones.c\<close>: the
  sockets of the scheduler, the swap, the CPUs and the Memory Sticks. Sockets and indices are
  C \<open>int\<close>s that are never computed with and appear as \<open>int\<close>; the counters
  \<open>cpu_count\<close> and \<open>stick_count\<close> are the lengths of the lists. Every function of the
  file holds \<open>active.lock\<close> for its whole body, so each is one atomic operation. The sticks
  are laid out one after the other in the physical address space; the second half shows that
  the lookup by address follows that layout.
\<close>

section \<open>The table\<close>

type_synonym sock = int

record t_cpu_entry =
  cpu_socket :: sock
  cpu_id :: i32

record t_memory_stick_entry =
  st_socket :: sock
  st_tamanio :: u32
  st_ip :: string
  st_puerto :: string
  outbound_socket :: sock
  base_fisica :: u32

record t_conexiones_activas =
  scheduler_socket :: sock
  cpus :: "t_cpu_entry list"
  sticks :: "t_memory_stick_entry list"
  swap_socket :: sock

definition MAX_CPUS :: nat where
  "MAX_CPUS = 1000"

definition MAX_MEMORY_STICKS :: nat where
  "MAX_MEMORY_STICKS = 1000"

definition conexiones_init :: t_conexiones_activas where
  "conexiones_init = \<lparr>scheduler_socket = - 1, cpus = [], sticks = [], swap_socket = - 1\<rparr>"

definition conexiones_set_scheduler_socket :: "sock \<Rightarrow> t_conexiones_activas \<Rightarrow> t_conexiones_activas" where
  "conexiones_set_scheduler_socket s c = c\<lparr>scheduler_socket := s\<rparr>"

definition conexiones_get_scheduler_socket :: "t_conexiones_activas \<Rightarrow> sock" where
  "conexiones_get_scheduler_socket c = scheduler_socket c"

definition conexiones_set_swap_socket :: "sock \<Rightarrow> t_conexiones_activas \<Rightarrow> t_conexiones_activas" where
  "conexiones_set_swap_socket s c = c\<lparr>swap_socket := s\<rparr>"

definition conexiones_get_swap_socket :: "t_conexiones_activas \<Rightarrow> sock" where
  "conexiones_get_swap_socket c = swap_socket c"

definition indice_valido :: "int \<Rightarrow> 'a list \<Rightarrow> bool" where
  "indice_valido i xs \<longleftrightarrow> 0 \<le> i \<and> i < int (length xs)"

definition conexiones_agregar_cpu ::
  "sock \<Rightarrow> i32 \<Rightarrow> t_conexiones_activas \<Rightarrow> int \<times> t_conexiones_activas" where
  "conexiones_agregar_cpu s ident c =
     (if length (cpus c) \<ge> MAX_CPUS then (- 1, c)
      else (int (length (cpus c)), c\<lparr>cpus := cpus c @ [\<lparr>cpu_socket = s, cpu_id = ident\<rparr>]\<rparr>))"

definition conexiones_invalidar_cpu_por_id ::
  "i32 \<Rightarrow> t_conexiones_activas \<Rightarrow> t_conexiones_activas" where
  "conexiones_invalidar_cpu_por_id ident c =
     (case buscar_idx (\<lambda>e. cpu_id e = ident) (cpus c) of
        None \<Rightarrow> c
      | Some i \<Rightarrow> c\<lparr>cpus := (cpus c)[i := (cpus c ! i)\<lparr>cpu_socket := - 1\<rparr>]\<rparr>)"

definition conexiones_cantidad_cpus :: "t_conexiones_activas \<Rightarrow> int" where
  "conexiones_cantidad_cpus c = int (length (cpus c))"

definition conexiones_cpu_socket_en :: "int \<Rightarrow> t_conexiones_activas \<Rightarrow> sock" where
  "conexiones_cpu_socket_en i c =
     (if indice_valido i (cpus c) then cpu_socket (cpus c ! nat i) else - 1)"

definition conexiones_cpu_id_en :: "int \<Rightarrow> t_conexiones_activas \<Rightarrow> i32" where
  "conexiones_cpu_id_en i c =
     (if indice_valido i (cpus c) then cpu_id (cpus c ! nat i) else - 1)"

definition conexiones_tamanio_total_ram :: "t_conexiones_activas \<Rightarrow> u32" where
  "conexiones_tamanio_total_ram c = fold (\<lambda>s total. total + st_tamanio s) (sticks c) 0"

text \<open>The result is the index and the base the code stores through \<open>out_base_fisica\<close>.\<close>

definition conexiones_agregar_stick ::
  "sock \<Rightarrow> u32 \<Rightarrow> string \<Rightarrow> string \<Rightarrow> t_conexiones_activas \<Rightarrow> int \<times> u32 option \<times> t_conexiones_activas" where
  "conexiones_agregar_stick s tam ip puerto c =
     (if length (sticks c) \<ge> MAX_MEMORY_STICKS then (- 1, None, c)
      else
        let b = fold (\<lambda>s total. total + st_tamanio s) (sticks c) 0
        in (int (length (sticks c)), Some b,
            c\<lparr>sticks := sticks c @
              [\<lparr>st_socket = s, st_tamanio = tam, st_ip = ip, st_puerto = puerto,
                outbound_socket = - 1, base_fisica = b\<rparr>]\<rparr>))"

definition conexiones_cantidad_sticks :: "t_conexiones_activas \<Rightarrow> int" where
  "conexiones_cantidad_sticks c = int (length (sticks c))"

definition conexiones_stick_outbound_socket :: "int \<Rightarrow> t_conexiones_activas \<Rightarrow> sock" where
  "conexiones_stick_outbound_socket i c =
     (if indice_valido i (sticks c) then outbound_socket (sticks c ! nat i) else - 1)"

definition conexiones_stick_set_outbound_socket ::
  "int \<Rightarrow> sock \<Rightarrow> t_conexiones_activas \<Rightarrow> t_conexiones_activas" where
  "conexiones_stick_set_outbound_socket i s c =
     (if indice_valido i (sticks c)
      then c\<lparr>sticks := (sticks c)[nat i := (sticks c ! nat i)\<lparr>outbound_socket := s\<rparr>]\<rparr>
      else c)"

definition conexiones_stick_invalidate_por_indice ::
  "int \<Rightarrow> t_conexiones_activas \<Rightarrow> string option \<times> string option \<times> t_conexiones_activas" where
  "conexiones_stick_invalidate_por_indice i c =
     (if indice_valido i (sticks c)
      then let e = sticks c ! nat i
           in (Some (st_ip e), Some (st_puerto e),
               c\<lparr>sticks := (sticks c)[nat i := e\<lparr>st_socket := - 1\<rparr>]\<rparr>)
      else (None, None, c))"

definition conexiones_stick_base_fisica :: "int \<Rightarrow> t_conexiones_activas \<Rightarrow> u32" where
  "conexiones_stick_base_fisica i c =
     (if indice_valido i (sticks c) then base_fisica (sticks c ! nat i) else 0)"

definition conexiones_stick_tamanio :: "int \<Rightarrow> t_conexiones_activas \<Rightarrow> u32" where
  "conexiones_stick_tamanio i c =
     (if indice_valido i (sticks c) then st_tamanio (sticks c ! nat i) else 0)"

definition conexiones_stick_ip :: "int \<Rightarrow> t_conexiones_activas \<Rightarrow> string option" where
  "conexiones_stick_ip i c =
     (if \<not> indice_valido i (sticks c) then None else Some (st_ip (sticks c ! nat i)))"

definition conexiones_stick_puerto :: "int \<Rightarrow> t_conexiones_activas \<Rightarrow> string option" where
  "conexiones_stick_puerto i c =
     (if \<not> indice_valido i (sticks c) then None else Some (st_puerto (sticks c ! nat i)))"

definition stick_contiene :: "u32 \<Rightarrow> t_memory_stick_entry \<Rightarrow> bool" where
  "stick_contiene d s \<longleftrightarrow>
     0 \<le> outbound_socket s \<and> base_fisica s \<le> d \<and> d < base_fisica s + st_tamanio s"

definition conexiones_buscar_stick_por_dir :: "u32 \<Rightarrow> t_conexiones_activas \<Rightarrow> int" where
  "conexiones_buscar_stick_por_dir d c =
     (case buscar_idx (stick_contiene d) (sticks c) of None \<Rightarrow> - 1 | Some i \<Rightarrow> int i)"

section \<open>Sticks are laid out one after the other\<close>

text \<open>The sizes before position \<open>i\<close>, as natural numbers, and the whole RAM.\<close>

definition suma_sticks :: "t_memory_stick_entry list \<Rightarrow> nat" where
  "suma_sticks ss = (\<Sum>s\<leftarrow>ss. unat (st_tamanio s))"

abbreviation ram :: "t_conexiones_activas \<Rightarrow> nat" where
  "ram c \<equiv> suma_sticks (sticks c)"

definition layout :: "t_conexiones_activas \<Rightarrow> bool" where
  "layout c \<longleftrightarrow> ram c < 2 ^ 32 - 1 \<and> length (sticks c) \<le> MAX_MEMORY_STICKS \<and>
     (\<forall>i < length (sticks c). unat (base_fisica (sticks c ! i)) = suma_sticks (take i (sticks c)))"

definition conectados :: "t_conexiones_activas \<Rightarrow> bool" where
  "conectados c \<longleftrightarrow> (\<forall>s \<in> set (sticks c). 0 \<le> outbound_socket s)"

lemma suma_sticks_simps [simp]:
  "suma_sticks [] = 0" "suma_sticks (s # ss) = unat (st_tamanio s) + suma_sticks ss"
  "suma_sticks (xs @ ys) = suma_sticks xs + suma_sticks ys"
  by (simp_all add: suma_sticks_def)

lemma suma_sticks_split:
  "i < length ss \<Longrightarrow>
   suma_sticks ss = suma_sticks (take i ss) + unat (st_tamanio (ss ! i)) + suma_sticks (drop (Suc i) ss)"
  by (subst id_take_nth_drop [of i ss]) simp_all

lemma suma_sticks_take_Suc:
  "i < length ss \<Longrightarrow> suma_sticks (take (Suc i) ss) = suma_sticks (take i ss) + unat (st_tamanio (ss ! i))"
  by (simp add: take_Suc_conv_app_nth)

lemma suma_sticks_take_mono:
  "i \<le> j \<Longrightarrow> suma_sticks (take i ss) \<le> suma_sticks (take j ss)"
  using take_add [of i "j - i" ss] by simp

lemma fold_tamanios:
  "unat a + suma_sticks ss < 2 ^ 32 \<Longrightarrow>
   unat (fold (\<lambda>s total. total + st_tamanio s) ss a) = unat a + suma_sticks ss"
proof (induction ss arbitrary: a)
  case (Cons s ss)
  then show ?case using Cons.IH [of "a + st_tamanio s"] by (simp add: unat_add_u32)
qed simp

lemma total_ram: "layout c \<Longrightarrow> unat (conexiones_tamanio_total_ram c) = ram c"
  by (simp add: conexiones_tamanio_total_ram_def fold_tamanios layout_def)

lemma layout_agregar:
  assumes "layout c" "ram c + unat tam < 2 ^ 32 - 1"
    and "conexiones_agregar_stick s tam ip puerto c = (i, b, c')"
  shows "layout c'"
  using assms fold_tamanios [of 0 "sticks c"]
  by (auto simp: layout_def conexiones_agregar_stick_def Let_def nth_append less_Suc_eq split: if_splits)

lemma layout_sticks_update:
  assumes "layout c" "i < length (sticks c)"
    and "base_fisica e = base_fisica (sticks c ! i)" "st_tamanio e = st_tamanio (sticks c ! i)"
  shows "layout (c\<lparr>sticks := (sticks c)[i := e]\<rparr>)"
proof -
  have mapa: "map st_tamanio ((sticks c)[i := e]) = map st_tamanio (sticks c)"
    using assms by (simp add: map_update) (metis list_update_id map_update)
  have suma: "suma_sticks xs = sum_list (map unat (map st_tamanio xs))" for xs
    by (simp add: suma_sticks_def comp_def)
  have "suma_sticks (take k ((sticks c)[i := e])) = suma_sticks (take k (sticks c))" for k
    unfolding suma take_map [symmetric] mapa by (rule refl)
  from this this [of "length (sticks c)"] show ?thesis
    using assms by (simp add: layout_def nth_list_update)
qed

lemma stick_contiene_iff:
  assumes "layout c" "i < length (sticks c)"
  shows "stick_contiene d (sticks c ! i) \<longleftrightarrow> 0 \<le> outbound_socket (sticks c ! i) \<and>
    suma_sticks (take i (sticks c)) \<le> unat d \<and> unat d < suma_sticks (take (Suc i) (sticks c))"
proof -
  have "suma_sticks (take (Suc i) (sticks c)) \<le> ram c"
    using suma_sticks_take_mono [of "Suc i" "length (sticks c)" "sticks c"] assms(2) by simp
  then show ?thesis
    using assms
    by (simp add: stick_contiene_def word_le_nat_alt word_less_nat_alt layout_def unat_add_u32
        suma_sticks_take_Suc)
qed

lemma suma_sticks_cubre:
  "n < suma_sticks ss \<Longrightarrow> \<exists>i < length ss. suma_sticks (take i ss) \<le> n \<and> n < suma_sticks (take (Suc i) ss)"
proof (induction ss rule: rev_induct)
  case (snoc s ss)
  show ?case
  proof (cases "n < suma_sticks ss")
    case True
    then obtain i where "i < length ss" "suma_sticks (take i ss) \<le> n" "n < suma_sticks (take (Suc i) ss)"
      using snoc.IH by auto
    then show ?thesis by (intro exI [of _ i]) simp
  next
    case False
    then show ?thesis using snoc.prems by (intro exI [of _ "length ss"]) simp
  qed
qed simp

lemma buscar_stick_cases:
  obtains (no) "conexiones_buscar_stick_por_dir d c = - 1" "\<forall>s \<in> set (sticks c). \<not> stick_contiene d s"
  | (si) i where "conexiones_buscar_stick_por_dir d c = int i" "i < length (sticks c)"
      "stick_contiene d (sticks c ! i)" "\<forall>j < i. \<not> stick_contiene d (sticks c ! j)"
proof (cases "buscar_idx (stick_contiene d) (sticks c)")
  case None
  moreover have "\<forall>s \<in> set (sticks c). \<not> stick_contiene d s" using None by simp
  ultimately show ?thesis by (intro no) (simp_all only: conexiones_buscar_stick_por_dir_def option.case)
next
  case (Some i)
  then show ?thesis
    using buscar_idx_SomeD [OF Some] by (intro si [of i]) (simp_all add: conexiones_buscar_stick_por_dir_def)
qed

text \<open>
  The slice of the stick that is left from \<open>d\<close> on is never empty, even when
  \<open>base + tamanio\<close> wraps: this is what makes the transfer loops advance.
\<close>

lemma stick_contiene_resto:
  assumes "stick_contiene d s"
  shows "0 < st_tamanio s - (d - base_fisica s)"
proof -
  have "base_fisica s \<le> d" "d < base_fisica s + st_tamanio s" using assms by (auto simp: stick_contiene_def)
  then have "st_tamanio s \<noteq> d - base_fisica s" by (metis add.commute diff_add_cancel less_irrefl)
  then show ?thesis by (simp add: word_neq_0_conv [symmetric])
qed

text \<open>
  With the sticks laid out in registration order and all of them reachable, the lookup
  by physical address finds a stick exactly for the addresses below the total RAM, and the
  stick found is the only one whose slice of the address space holds the address.
\<close>

theorem buscar_stick_correcto:
  assumes "layout c" "conectados c"
  shows "(conexiones_buscar_stick_por_dir d c = - 1 \<longleftrightarrow> conexiones_tamanio_total_ram c \<le> d) \<and>
    (\<forall>i < length (sticks c). conexiones_buscar_stick_por_dir d c = int i \<longleftrightarrow>
       unat (base_fisica (sticks c ! i)) \<le> unat d \<and>
       unat d < unat (base_fisica (sticks c ! i)) + unat (st_tamanio (sticks c ! i)))"
proof -
  let ?en = "\<lambda>i. suma_sticks (take i (sticks c)) \<le> unat d \<and> unat d < suma_sticks (take (Suc i) (sticks c))"
  have cont: "stick_contiene d (sticks c ! i) \<longleftrightarrow> ?en i" if "i < length (sticks c)" for i
    using stick_contiene_iff [OF assms(1) that] assms(2) that by (simp add: conectados_def)
  have base: "?en i \<longleftrightarrow> unat (base_fisica (sticks c ! i)) \<le> unat d \<and>
      unat d < unat (base_fisica (sticks c ! i)) + unat (st_tamanio (sticks c ! i))"
    if "i < length (sticks c)" for i
    using that assms(1) by (simp add: layout_def suma_sticks_take_Suc)
  have uno: "i = j" if "?en i" "?en j" for i j
    using that suma_sticks_take_mono [of "Suc i" j "sticks c"] suma_sticks_take_mono [of "Suc j" i "sticks c"]
    by (meson le_less_trans not_less not_less_eq_eq nat_neq_iff Suc_leI order.strict_trans2)
  have cota: "unat d < ram c" if "i < length (sticks c)" "?en i" for i
    using that suma_sticks_take_mono [of "Suc i" "length (sticks c)" "sticks c"] by simp
  have tot: "conexiones_tamanio_total_ram c \<le> d \<longleftrightarrow> ram c \<le> unat d"
    by (simp add: word_le_nat_alt total_ram assms(1))
  show ?thesis
  proof (cases rule: buscar_stick_cases [where d = d and c = c])
    case no
    then have "\<not> ?en i" if "i < length (sticks c)" for i using cont [OF that] that by simp
    then show ?thesis using no(1) suma_sticks_cubre [of "unat d" "sticks c"] tot base by fastforce
  next
    case (si i)
    then have "?en i" using cont by simp
    then show ?thesis
      using si cota [OF si(2)] tot base [symmetric] uno by auto
  qed
qed

lemma buscar_stick_correcto_witness:
  "conexiones_buscar_stick_por_dir 12
     \<lparr>scheduler_socket = 3, cpus = [],
      sticks = [\<lparr>st_socket = 4, st_tamanio = 10, st_ip = [], st_puerto = [], outbound_socket = 5, base_fisica = 0\<rparr>,
                \<lparr>st_socket = 6, st_tamanio = 6, st_ip = [], st_puerto = [], outbound_socket = 7, base_fisica = 10\<rparr>],
      swap_socket = - 1\<rparr> = 1"
proof -
  let ?c = "\<lparr>scheduler_socket = 3, cpus = [],
      sticks = [\<lparr>st_socket = 4, st_tamanio = 10, st_ip = [], st_puerto = [], outbound_socket = 5, base_fisica = 0\<rparr>,
                \<lparr>st_socket = 6, st_tamanio = 6, st_ip = [], st_puerto = [], outbound_socket = 7, base_fisica = 10\<rparr>],
      swap_socket = - 1\<rparr>"
  have "layout ?c" by (auto simp: layout_def MAX_MEMORY_STICKS_def less_Suc_eq)
  moreover have "conectados ?c" by (simp add: conectados_def)
  ultimately have "\<forall>i < length (sticks ?c). conexiones_buscar_stick_por_dir 12 ?c = int i \<longleftrightarrow>
       unat (base_fisica (sticks ?c ! i)) \<le> unat (12 :: u32) \<and>
       unat (12 :: u32) < unat (base_fisica (sticks ?c ! i)) + unat (st_tamanio (sticks ?c ! i))"
    using buscar_stick_correcto by blast
  then show ?thesis by (auto dest: spec [of _ 1])
qed

end
