(* ===== verification/Memory_IO.thy ===== *)
theory Memory_IO
  imports Memory_Stick Conexiones
begin

text \<open>
  Physical memory accesses of Kernel Memory, \<open>kernel_memory/src/memory_io.c\<close>. An access is
  cut at stick boundaries and each piece is exchanged with the stick's module over its
  outbound socket; the far ends of those sockets are part of the state (\<open>red\<close>), so that the
  bytes really go through the wire format and the stick's handler. What the code sends
  elsewhere, and the \<open>abort()\<close> of \<open>validar_buffer\<close>, are recorded as events. The result
  is that the sticks together behave as one flat array of bytes.
\<close>

section \<open>Events and the far ends of the sockets\<close>

datatype evento = Enviar sock "byte list" | Aborto

text \<open>The bytes that a list of events puts on one socket.\<close>

definition respuesta_en :: "sock \<Rightarrow> evento list \<Rightarrow> byte list" where
  "respuesta_en s evs = concat (map (\<lambda>e. case e of Enviar t bs \<Rightarrow> if t = s then bs else [] | Aborto \<Rightarrow> []) evs)"

lemma respuesta_en_simps [simp]:
  "respuesta_en s [] = []" "respuesta_en s (Enviar t b # evs) = (if t = s then b else []) @ respuesta_en s evs"
  "respuesta_en s (ev @ ev') = respuesta_en s ev @ respuesta_en s ev'"
  by (simp_all add: respuesta_en_def)

type_synonym red = "sock \<Rightarrow> t_stick option"

text \<open>One request on the outbound socket; a stick that fails closes its end.\<close>

definition pedir_stick :: "red \<Rightarrow> sock \<Rightarrow> byte list \<Rightarrow> byte list \<times> red" where
  "pedir_stick r s pedido =
     (case r s of
        None \<Rightarrow> ([], r)
      | Some st \<Rightarrow>
          let (st', respuesta, falla) = atender_pedidos st pedido
          in (respuesta, r(s := if falla = None then Some st' else None)))"

definition avisar_memoria_corrupta :: "t_conexiones_activas \<Rightarrow> evento list" where
  "avisar_memoria_corrupta c =
     (let sched = conexiones_get_scheduler_socket c
      in if sched \<ge> 0 then [Enviar sched enviar_memoria_corrupta] else [])"

definition chunk_en :: "t_conexiones_activas \<Rightarrow> int \<Rightarrow> u32 \<Rightarrow> u32 \<Rightarrow> u32" where
  "chunk_en c idx dir restante =
     (let local_offset = dir - conexiones_stick_base_fisica idx c;
          chunk = conexiones_stick_tamanio idx c - local_offset
      in if chunk > restante then restante else chunk)"

lemma chunk_positivo:
  assumes "\<not> conexiones_buscar_stick_por_dir dir c < 0" "restante \<noteq> 0"
  shows "0 < chunk_en c (conexiones_buscar_stick_por_dir dir c) dir restante"
    and "chunk_en c (conexiones_buscar_stick_por_dir dir c) dir restante \<le> restante"
proof -
  obtain i where i: "conexiones_buscar_stick_por_dir dir c = int i" "i < length (sticks c)"
      "stick_contiene dir (sticks c ! i)"
    using assms(1) by (cases rule: buscar_stick_cases [where d = dir and c = c]) auto
  then show "0 < chunk_en c (conexiones_buscar_stick_por_dir dir c) dir restante"
    "chunk_en c (conexiones_buscar_stick_por_dir dir c) dir restante \<le> restante"
    using stick_contiene_resto [OF i(3)] assms(2)
    by (auto simp: chunk_en_def Let_def conexiones_stick_tamanio_def conexiones_stick_base_fisica_def
        indice_valido_def word_neq_0_conv)
qed

lemma restante_baja:
  fixes chunk restante :: u32
  assumes "0 < chunk" "chunk \<le> restante"
  shows "unat (restante - chunk) < unat restante"
  using assms by (simp add: unat_sub_u32 word_le_nat_alt word_less_nat_alt)

section \<open>The transfer loops\<close>

text \<open>\<open>None\<close> is the null pointer the C function returns.\<close>

function leer_bucle ::
  "t_conexiones_activas \<Rightarrow> i32 \<Rightarrow> red \<Rightarrow> u32 \<Rightarrow> u32 \<Rightarrow> byte list \<Rightarrow> red \<times> evento list \<times> byte list option" where
  "leer_bucle c pid r restante dir_act resultado =
     (if restante = 0 then (r, [], Some resultado)
      else
        let idx = conexiones_buscar_stick_por_dir dir_act c
        in if idx < 0 then (r, [], None)
           else
             let local_offset = dir_act - conexiones_stick_base_fisica idx c;
                 chunk = chunk_en c idx dir_act restante;
                 p = agregar_a_paquete (agregar_a_paquete (agregar_a_paquete (crear_paquete LECTURA_MEMORIA)
                       (bytes_int pid)) (bytes_u32 local_offset)) (bytes_u32 chunk);
                 (respuesta, r') = pedir_stick r (conexiones_stick_outbound_socket idx c) (enviar_paquete p);
                 (cod, s1) = recibir_codigo_operacion respuesta
             in if cod = - 1 then (r', avisar_memoria_corrupta c, None)
                else case validar_buffer s1 of
                  Inl e \<Rightarrow> (r', [Aborto], None)
                | Inr (u, s2) \<Rightarrow>
                    (case recv_bytes (unat chunk) s2 of
                       Inl e \<Rightarrow> (r', avisar_memoria_corrupta c, None)
                     | Inr (datos, s3) \<Rightarrow>
                         leer_bucle c pid r' (restante - chunk) (dir_act + chunk) (resultado @ datos)))"
  by pat_completeness auto
termination
  by (relation "measure (\<lambda>(c, pid, r, restante, d, res). unat restante)")
    (auto intro!: restante_baja chunk_positivo)

declare leer_bucle.simps [simp del]

definition memory_io_leer ::
  "t_conexiones_activas \<Rightarrow> red \<Rightarrow> i32 \<Rightarrow> u32 \<Rightarrow> u32 \<Rightarrow> red \<times> evento list \<times> byte list option" where
  "memory_io_leer c r pid dir_fisica tamanio = leer_bucle c pid r tamanio dir_fisica []"

function escribir_bucle ::
  "t_conexiones_activas \<Rightarrow> i32 \<Rightarrow> byte list \<Rightarrow> red \<Rightarrow> u32 \<Rightarrow> u32 \<Rightarrow> u32 \<Rightarrow> red \<times> evento list \<times> i32" where
  "escribir_bucle c pid datos r restante dir_act offset_src =
     (if restante = 0 then (r, [], 0)
      else
        let idx = conexiones_buscar_stick_por_dir dir_act c
        in if idx < 0 then (r, [], - 1)
           else
             let local_offset = dir_act - conexiones_stick_base_fisica idx c;
                 chunk = chunk_en c idx dir_act restante;
                 p = agregar_a_paquete (agregar_a_paquete (agregar_a_paquete (agregar_a_paquete
                       (crear_paquete ESCRITURA_MEMORIA) (bytes_int pid)) (bytes_u32 local_offset))
                       (bytes_u32 chunk)) (tramo_de datos (unat offset_src) (unat chunk));
                 (respuesta, r') = pedir_stick r (conexiones_stick_outbound_socket idx c) (enviar_paquete p);
                 (cod, s1) = recibir_codigo_operacion respuesta
             in if cod = - 1 then (r', avisar_memoria_corrupta c, - 1)
                else case recibir_ok s1 of
                  Inl e \<Rightarrow> (r', [Aborto], - 1)
                | Inr (u, s2) \<Rightarrow>
                    escribir_bucle c pid datos r' (restante - chunk) (dir_act + chunk) (offset_src + chunk))"
  by pat_completeness auto
termination
  by (relation "measure (\<lambda>(c, pid, datos, r, restante, d, off). unat restante)")
    (auto intro!: restante_baja chunk_positivo)

declare escribir_bucle.simps [simp del]

definition memory_io_escribir ::
  "t_conexiones_activas \<Rightarrow> red \<Rightarrow> i32 \<Rightarrow> u32 \<Rightarrow> u32 \<Rightarrow> byte list \<Rightarrow> red \<times> evento list \<times> i32" where
  "memory_io_escribir c r pid dir_fisica tamanio datos = escribir_bucle c pid datos r tamanio dir_fisica 0"

section \<open>The flat memory the sticks implement\<close>

definition buffer_de :: "red \<Rightarrow> t_memory_stick_entry \<Rightarrow> byte list" where
  "buffer_de r e = (case r (outbound_socket e) of None \<Rightarrow> [] | Some st \<Rightarrow> memoria_buffer st)"

definition memoria_fisica :: "t_conexiones_activas \<Rightarrow> red \<Rightarrow> byte list" where
  "memoria_fisica c r = concat (map (buffer_de r) (sticks c))"

definition stick_en_linea :: "red \<Rightarrow> t_memory_stick_entry \<Rightarrow> bool" where
  "stick_en_linea r e \<longleftrightarrow>
     (case r (outbound_socket e) of None \<Rightarrow> False
      | Some st \<Rightarrow> stick_ok st \<and> memoria_size st = st_tamanio e) \<and>
     unat (st_tamanio e) < 2 ^ 31 - 100"

definition red_ok :: "t_conexiones_activas \<Rightarrow> red \<Rightarrow> bool" where
  "red_ok c r \<longleftrightarrow> layout c \<and> conectados c \<and> distinct (map outbound_socket (sticks c)) \<and>
     (\<forall>e \<in> set (sticks c). stick_en_linea r e)"

lemma length_buffer_de: "stick_en_linea r e \<Longrightarrow> length (buffer_de r e) = unat (st_tamanio e)"
  by (auto simp: stick_en_linea_def buffer_de_def stick_ok_def split: option.splits)

lemma length_concat_buffers:
  "\<forall>e \<in> set es. stick_en_linea r e \<Longrightarrow> length (concat (map (buffer_de r) es)) = suma_sticks es"
  by (induction es) (simp_all add: length_buffer_de)

lemma length_memoria_fisica: "red_ok c r \<Longrightarrow> length (memoria_fisica c r) = ram c"
  by (simp add: memoria_fisica_def red_ok_def length_concat_buffers)

text \<open>A piece that stays inside stick \<open>i\<close> is a piece of the flat memory.\<close>

lemma memoria_fisica_split:
  assumes "i < length (sticks c)"
  shows "memoria_fisica c r = concat (map (buffer_de r) (take i (sticks c))) @ buffer_de r (sticks c ! i)
    @ concat (map (buffer_de r) (drop (Suc i) (sticks c)))"
  unfolding memoria_fisica_def by (subst id_take_nth_drop [OF assms]) simp

lemma tramo_de_medio:
  "off + n \<le> length ys \<Longrightarrow> tramo_de (xs @ ys @ zs) (length xs + off) n = tramo_de ys off n"
  by (simp add: tramo_de_def)

lemma copiar_en_medio:
  "off + length d \<le> length ys \<Longrightarrow>
   copiar_en (xs @ ys @ zs) (length xs + off) d = xs @ copiar_en ys off d @ zs"
  by (simp add: copiar_en_def)

lemma tramo_stick:
  assumes "red_ok c r" "i < length (sticks c)" "off + n \<le> unat (st_tamanio (sticks c ! i))"
  shows "tramo_de (memoria_fisica c r) (suma_sticks (take i (sticks c)) + off) n =
    tramo_de (buffer_de r (sticks c ! i)) off n"
proof -
  have "length (concat (map (buffer_de r) (take i (sticks c)))) = suma_sticks (take i (sticks c))"
    using assms(1) by (intro length_concat_buffers) (auto simp: red_ok_def dest: in_set_takeD)
  moreover have "off + n \<le> length (buffer_de r (sticks c ! i))"
    using assms by (simp add: length_buffer_de red_ok_def)
  ultimately show ?thesis
    unfolding memoria_fisica_split [OF assms(2)] by (metis tramo_de_medio)
qed

lemma copiar_stick:
  assumes ok: "red_ok c r" and i: "i < length (sticks c)" and cabe: "off + length d \<le> unat (st_tamanio (sticks c ! i))"
    and st: "r (outbound_socket (sticks c ! i)) = Some st"
  defines "r' \<equiv> r(outbound_socket (sticks c ! i) \<mapsto> st\<lparr>memoria_buffer := copiar_en (memoria_buffer st) off d\<rparr>)"
  shows "red_ok c r' \<and>
    memoria_fisica c r' = copiar_en (memoria_fisica c r) (suma_sticks (take i (sticks c)) + off) d"
proof -
  let ?e = "sticks c ! i"
  have en: "stick_en_linea r ?e" using ok i by (simp add: red_ok_def)
  then have buf: "buffer_de r' ?e = copiar_en (buffer_de r ?e) off d" "off + length d \<le> length (buffer_de r ?e)"
    using st cabe by (simp_all add: buffer_de_def r'_def stick_en_linea_def stick_ok_def)
  have otro: "outbound_socket (sticks c ! j) \<noteq> outbound_socket ?e" if "j < length (sticks c)" "j \<noteq> i" for j
    using ok i that nth_eq_iff_index_eq [of "map outbound_socket (sticks c)" j i] by (auto simp: red_ok_def)
  have igual: "buffer_de r' (sticks c ! j) = buffer_de r (sticks c ! j)"
    if "j < length (sticks c)" "j \<noteq> i" for j
    using otro [OF that] by (simp add: buffer_de_def r'_def)
  have antes: "map (buffer_de r') (take i (sticks c)) = map (buffer_de r) (take i (sticks c))"
    by (rule nth_equalityI) (use i igual in auto)
  have despues: "map (buffer_de r') (drop (Suc i) (sticks c)) = map (buffer_de r) (drop (Suc i) (sticks c))"
    by (rule nth_equalityI) (use i igual in auto)
  have "length (concat (map (buffer_de r) (take i (sticks c)))) = suma_sticks (take i (sticks c))"
    using ok by (intro length_concat_buffers) (auto simp: red_ok_def dest: in_set_takeD)
  then have "memoria_fisica c r' = copiar_en (memoria_fisica c r) (suma_sticks (take i (sticks c)) + off) d"
    unfolding memoria_fisica_split [OF i] antes despues buf(1) using copiar_en_medio [OF buf(2)] by metis
  moreover have "stick_en_linea r' (sticks c ! j)" if "j < length (sticks c)" for j
  proof (cases "j = i")
    case True
    then show ?thesis using en st cabe by (auto simp: stick_en_linea_def r'_def stick_ok_copiar)
  next
    case False
    then show ?thesis using ok that otro [OF that False] by (auto simp: stick_en_linea_def r'_def red_ok_def)
  qed
  ultimately show ?thesis using ok by (auto simp: red_ok_def in_set_conv_nth)
qed

section \<open>One turn of the loops\<close>

text \<open>
  \<open>turno c r dir restante i st\<close> collects what one turn sees: the stick \<open>i\<close> that holds
  \<open>dir\<close>, its module \<open>st\<close>, and that the piece fits in it.
\<close>

definition turno :: "t_conexiones_activas \<Rightarrow> red \<Rightarrow> u32 \<Rightarrow> u32 \<Rightarrow> nat \<Rightarrow> t_stick \<Rightarrow> bool" where
  "turno c r dir restante i st \<longleftrightarrow>
     (let e = sticks c ! i; local_offset = dir - base_fisica e; chunk = chunk_en c (int i) dir restante
      in conexiones_buscar_stick_por_dir dir c = int i \<and> i < length (sticks c) \<and>
         conexiones_stick_outbound_socket (int i) c = outbound_socket e \<and>
         conexiones_stick_base_fisica (int i) c = base_fisica e \<and>
         r (outbound_socket e) = Some st \<and> stick_ok st \<and> memoria_size st = st_tamanio e \<and>
         unat dir = suma_sticks (take i (sticks c)) + unat local_offset \<and>
         unat local_offset + unat chunk \<le> unat (st_tamanio e) \<and>
         unat (st_tamanio e) < 2 ^ 31 - 100 \<and> 0 < chunk \<and> chunk \<le> restante)"

lemma turno_existe:
  assumes ok: "red_ok c r" and "restante \<noteq> 0" and cota: "unat dir < ram c"
  obtains i st where "turno c r dir restante i st"
proof -
  have lay: "layout c" and con: "conectados c" using ok by (auto simp: red_ok_def)
  obtain k where k: "k < length (sticks c)" "suma_sticks (take k (sticks c)) \<le> unat dir"
      "unat dir < suma_sticks (take (Suc k) (sticks c))"
    using suma_sticks_cubre cota by blast
  then have "stick_contiene dir (sticks c ! k)"
    using stick_contiene_iff [OF lay k(1)] con by (simp add: conectados_def)
  then obtain i where i: "conexiones_buscar_stick_por_dir dir c = int i" "i < length (sticks c)"
      "stick_contiene dir (sticks c ! i)"
    using k(1) by (cases rule: buscar_stick_cases [where d = dir and c = c]) auto
  let ?e = "sticks c ! i"
  have en: "stick_en_linea r ?e" using ok i(2) by (simp add: red_ok_def)
  then obtain st where st: "r (outbound_socket ?e) = Some st" "stick_ok st" "memoria_size st = st_tamanio ?e"
      "unat (st_tamanio ?e) < 2 ^ 31 - 100"
    by (auto simp: stick_en_linea_def split: option.splits)
  have rango: "suma_sticks (take i (sticks c)) \<le> unat dir"
      "unat dir < suma_sticks (take i (sticks c)) + unat (st_tamanio ?e)"
    using stick_contiene_iff [OF lay i(2)] i(3) suma_sticks_take_Suc [OF i(2)] by auto
  have base: "unat (base_fisica ?e) = suma_sticks (take i (sticks c))" using lay i(2) by (simp add: layout_def)
  have loc: "unat (dir - base_fisica ?e) = unat dir - suma_sticks (take i (sticks c))"
    using rango base by (simp add: unat_sub_u32)
  have iv: "indice_valido (int i) (sticks c)" using i(2) by (simp add: indice_valido_def)
  have "unat (dir - base_fisica ?e) + unat (chunk_en c (int i) dir restante) \<le> unat (st_tamanio ?e)"
  proof -
    have "unat (chunk_en c (int i) dir restante) \<le> unat (st_tamanio ?e - (dir - base_fisica ?e))"
      using iv by (auto simp: chunk_en_def Let_def conexiones_stick_tamanio_def conexiones_stick_base_fisica_def
          word_less_nat_alt)
    also have "\<dots> = unat (st_tamanio ?e) - unat (dir - base_fisica ?e)"
      using loc rango by (intro unat_sub_u32) linarith
    finally show ?thesis using loc rango by linarith
  qed
  moreover have "0 < chunk_en c (int i) dir restante" "chunk_en c (int i) dir restante \<le> restante"
    using chunk_positivo [of dir c restante] i(1) assms(2) by auto
  ultimately have "turno c r dir restante i st"
    using i(1,2) iv st loc rango
    by (simp add: turno_def Let_def conexiones_stick_outbound_socket_def conexiones_stick_base_fisica_def)
  then show thesis by (rule that)
qed

text \<open>The two exchanges with a stick, on the flat memory.\<close>

lemma recibir_lectura:
  assumes "corto d"
  shows "recibir_codigo_operacion (enviar_paquete (paquete LECTURA_MEMORIA d)) =
      (op_num LECTURA_MEMORIA, bytes_le 8 (of_nat (length d) :: u64) @ d)"
    "validar_buffer (bytes_le 8 (of_nat (length d) :: u64) @ d) = Inr ((), d)"
  using validar_buffer_tam [OF assms, of "[]"] by (simp_all add: enviar_paquete_paquete [OF assms] recibir_codigo_operacion_op)

lemma recibir_ack_escritura:
  "recibir_codigo_operacion (enviar_ok ESCRITURA_MEMORIA) =
      (op_num ESCRITURA_MEMORIA, bytes_le 8 (of_nat 4 :: u64) @ bytes_int (- 1))"
  "recibir_ok (bytes_le 8 (of_nat 4 :: u64) @ bytes_int (- 1)) = Inr ((), [])"
  using validado [of "bytes_int (- 1)" "recv_bind recv_int (\<lambda>_. recv_ret ())" "[]"]
    recv_int_bytes_int [of "- 1" "[]"]
  by (simp_all add: enviar_ok_def recibir_ok_def wire_simps corto_def)

lemma intercambio_lectura:
  assumes ok: "red_ok c r" and t: "turno c r dir restante i st"
  defines "chunk \<equiv> chunk_en c (int i) dir restante"
  defines "d \<equiv> tramo_de (memoria_fisica c r) (unat dir) (unat chunk)"
  shows "pedir_stick r (outbound_socket (sticks c ! i)) (pedido_lectura pid (dir - base_fisica (sticks c ! i)) chunk) =
      (enviar_paquete (paquete LECTURA_MEMORIA d), r)" "length d = unat chunk" "corto d"
proof -
  let ?e = "sticks c ! i" and ?lo = "dir - base_fisica (sticks c ! i)"
  note t' = t [unfolded turno_def Let_def, folded chunk_def]
  have datos: "tramo_de (memoria_buffer st) (unat ?lo) (unat chunk) = d"
    using tramo_stick [OF ok, of i "unat ?lo" "unat chunk"] t' by (simp add: buffer_de_def d_def)
  have len: "length (tramo_de (memoria_buffer st) (unat ?lo) (unat chunk)) = unat chunk"
    using t' by (simp add: stick_ok_def)
  then show "length d = unat chunk" "corto d" using t' by (simp_all add: corto_def datos)
  have "atender_pedidos st (pedido_lectura pid ?lo chunk @ []) = (st, enviar_paquete (paquete LECTURA_MEMORIA d), None)"
    using t' datos by (subst atender_lectura) simp_all
  then show "pedir_stick r (outbound_socket ?e) (pedido_lectura pid ?lo chunk) = (enviar_paquete (paquete LECTURA_MEMORIA d), r)"
    using t' by (simp add: pedir_stick_def fun_upd_idem)
qed

lemma leer_turno:
  assumes ok: "red_ok c r" and "restante \<noteq> 0" and t: "turno c r dir restante i st"
  defines "chunk \<equiv> chunk_en c (int i) dir restante"
  shows "leer_bucle c pid r restante dir acc =
    leer_bucle c pid r (restante - chunk) (dir + chunk)
      (acc @ tramo_de (memoria_fisica c r) (unat dir) (unat chunk))"
proof -
  note t' = t [unfolded turno_def Let_def, folded chunk_def]
  note x = intercambio_lectura(1) [OF ok t, of pid, folded chunk_def] intercambio_lectura(2,3) [OF ok t, folded chunk_def]
  have ped: "enviar_paquete (agregar_a_paquete (agregar_a_paquete (agregar_a_paquete (crear_paquete LECTURA_MEMORIA)
      (bytes_int pid)) (bytes_u32 lo)) (bytes_u32 chunk)) = pedido_lectura pid lo chunk" for lo
    by (simp add: pedido_lectura_def wire_simps)
  show ?thesis
    unfolding leer_bucle.simps [of c pid r restante dir acc] Let_def
    using assms(2) t' x recibir_lectura [OF x(3)] ped by (simp add: chunk_def recv_bytes_def)
qed

lemma leer_bucle_ok:
  assumes "red_ok c r" "unat dir + unat restante \<le> ram c"
  shows "leer_bucle c pid r restante dir acc =
    (r, [], Some (acc @ tramo_de (memoria_fisica c r) (unat dir) (unat restante)))"
  using assms(2)
proof (induction "unat restante" arbitrary: restante dir acc rule: less_induct)
  case less
  show ?case
  proof (cases "restante = 0")
    case True
    then show ?thesis by (simp add: leer_bucle.simps [of c pid r 0 dir acc] tramo_de_def)
  next
    case False
    then have "0 < unat restante" by (simp add: unat_gt_0)
    then have "unat dir < ram c" using less.prems by linarith
    then obtain i st where t: "turno c r dir restante i st" using turno_existe [OF assms(1) False] by blast
    let ?ch = "chunk_en c (int i) dir restante"
    have ch: "0 < ?ch" "?ch \<le> restante" using t by (auto simp: turno_def Let_def)
    have N: "ram c < 2 ^ 32" using assms(1) by (simp add: red_ok_def layout_def)
    have le: "unat ?ch \<le> unat restante" using ch by (simp add: word_le_nat_alt)
    then have suma: "unat (dir + ?ch) = unat dir + unat ?ch" "unat (restante - ?ch) = unat restante - unat ?ch"
      using less.prems N by (simp_all add: unat_simps)
    have "tramo_de (memoria_fisica c r) (unat dir) (unat ?ch) @
        tramo_de (memoria_fisica c r) (unat dir + unat ?ch) (unat restante - unat ?ch) =
        tramo_de (memoria_fisica c r) (unat dir) (unat restante)"
      using tramo_de_append [of "memoria_fisica c r" "unat dir" "unat ?ch" "unat restante - unat ?ch"] le by simp
    then show ?thesis
      using leer_turno [OF assms(1) False t] less.hyps [OF restante_baja [OF ch], of "dir + ?ch"] suma le less.prems
      by simp
  qed
qed

lemma intercambio_escritura:
  assumes ok: "red_ok c r" and t: "turno c r dir restante i st" and len: "length d = unat (chunk_en c (int i) dir restante)"
  obtains r' where "red_ok c r'" "memoria_fisica c r' = copiar_en (memoria_fisica c r) (unat dir) d"
    "pedir_stick r (outbound_socket (sticks c ! i)) (pedido_escritura pid (dir - base_fisica (sticks c ! i)) d) =
      (enviar_ok ESCRITURA_MEMORIA, r')"
proof -
  let ?e = "sticks c ! i" and ?lo = "dir - base_fisica (sticks c ! i)"
  note t' = t [unfolded turno_def Let_def]
  let ?st = "st\<lparr>memoria_buffer := copiar_en (memoria_buffer st) (unat ?lo) d\<rparr>"
  let ?r = "r(outbound_socket ?e \<mapsto> ?st)"
  have abs: "red_ok c ?r \<and> memoria_fisica c ?r = copiar_en (memoria_fisica c r) (unat dir) d"
    using copiar_stick [OF ok, of i "unat ?lo" d st] t' len by simp
  have "atender_pedidos st (pedido_escritura pid ?lo d @ []) = (?st, enviar_ok ESCRITURA_MEMORIA, None)"
    using t' len by (subst atender_escritura) simp_all
  then have "pedir_stick r (outbound_socket ?e) (pedido_escritura pid ?lo d) = (enviar_ok ESCRITURA_MEMORIA, ?r)"
    using t' by (simp add: pedir_stick_def)
  with abs show thesis using that by blast
qed

lemma escribir_turno:
  assumes ok: "red_ok c r" and "restante \<noteq> 0" and t: "turno c r dir restante i st"
    and hay: "unat off + unat (chunk_en c (int i) dir restante) \<le> length datos"
  defines "chunk \<equiv> chunk_en c (int i) dir restante"
  obtains r' where "red_ok c r'"
    "memoria_fisica c r' = copiar_en (memoria_fisica c r) (unat dir) (tramo_de datos (unat off) (unat chunk))"
    "escribir_bucle c pid datos r restante dir off =
      escribir_bucle c pid datos r' (restante - chunk) (dir + chunk) (off + chunk)"
proof -
  let ?d = "tramo_de datos (unat off) (unat chunk)"
  note t' = t [unfolded turno_def Let_def, folded chunk_def]
  have len: "length ?d = unat (chunk_en c (int i) dir restante)" using hay by (simp add: chunk_def)
  then have tam: "of_nat (length ?d) = chunk" by (simp add: chunk_def)
  obtain r' where r': "red_ok c r'" "memoria_fisica c r' = copiar_en (memoria_fisica c r) (unat dir) ?d"
      "pedir_stick r (outbound_socket (sticks c ! i)) (pedido_escritura pid (dir - base_fisica (sticks c ! i)) ?d) =
        (enviar_ok ESCRITURA_MEMORIA, r')"
    by (rule intercambio_escritura [OF ok t len, of pid])
  have ped: "enviar_paquete (agregar_a_paquete (agregar_a_paquete (agregar_a_paquete (agregar_a_paquete
      (crear_paquete ESCRITURA_MEMORIA) (bytes_int pid)) (bytes_u32 lo)) (bytes_u32 chunk)) ?d) =
      pedido_escritura pid lo ?d" for lo
    unfolding pedido_escritura_def tam by (simp add: wire_simps)
  have "escribir_bucle c pid datos r restante dir off =
      escribir_bucle c pid datos r' (restante - chunk) (dir + chunk) (off + chunk)"
    unfolding escribir_bucle.simps [of c pid datos r restante dir off] Let_def
    using assms(2) t' r'(3) recibir_ack_escritura ped by (simp add: chunk_def)
  with r' show thesis using that by blast
qed

lemma escribir_bucle_ok:
  assumes "red_ok c r" "unat dir + unat restante \<le> ram c" "unat off + unat restante \<le> length datos"
    and "length datos < 2 ^ 32"
  shows "\<exists>r'. escribir_bucle c pid datos r restante dir off = (r', [], 0) \<and> red_ok c r' \<and>
    memoria_fisica c r' = copiar_en (memoria_fisica c r) (unat dir) (tramo_de datos (unat off) (unat restante))"
  using assms(1-3)
proof (induction "unat restante" arbitrary: restante dir off r rule: less_induct)
  case less
  show ?case
  proof (cases "restante = 0")
    case True
    then show ?thesis
      using less.prems
      by (simp add: escribir_bucle.simps [of c pid datos r 0 dir off] tramo_de_def copiar_en_def)
  next
    case False
    then have "0 < unat restante" by (simp add: unat_gt_0)
    then have "unat dir < ram c" using less.prems by linarith
    then obtain i st where t: "turno c r dir restante i st" using turno_existe [OF less.prems(1) False] by blast
    let ?ch = "chunk_en c (int i) dir restante"
    have ch: "0 < ?ch" "?ch \<le> restante" using t by (auto simp: turno_def Let_def)
    have N: "ram c < 2 ^ 32" using less.prems(1) by (simp add: red_ok_def layout_def)
    have le: "unat ?ch \<le> unat restante" using ch by (simp add: word_le_nat_alt)
    then have suma: "unat (dir + ?ch) = unat dir + unat ?ch" "unat (restante - ?ch) = unat restante - unat ?ch"
        "unat (off + ?ch) = unat off + unat ?ch"
      using less.prems N assms(4) by (simp_all add: unat_simps)
    have hay: "unat off + unat ?ch \<le> length datos" using less.prems le by linarith
    from escribir_turno [OF less.prems(1) False t hay] obtain r1 where r1: "red_ok c r1"
      "memoria_fisica c r1 = copiar_en (memoria_fisica c r) (unat dir) (tramo_de datos (unat off) (unat ?ch))"
      "escribir_bucle c pid datos r restante dir off =
        escribir_bucle c pid datos r1 (restante - ?ch) (dir + ?ch) (off + ?ch)"
      by metis
    obtain r' where r': "escribir_bucle c pid datos r1 (restante - ?ch) (dir + ?ch) (off + ?ch) = (r', [], 0)"
      "red_ok c r'" "memoria_fisica c r' = copiar_en (memoria_fisica c r1) (unat dir + unat ?ch)
        (tramo_de datos (unat off + unat ?ch) (unat restante - unat ?ch))"
      using less.hyps [OF restante_baja [OF ch], of r1 "dir + ?ch" "off + ?ch"] suma le less.prems r1(1) by auto
    let ?a = "tramo_de datos (unat off) (unat ?ch)" and ?b = "tramo_de datos (unat off + unat ?ch) (unat restante - unat ?ch)"
    have ab: "?a @ ?b = tramo_de datos (unat off) (unat restante)" "length ?a = unat ?ch"
        "length ?b = unat restante - unat ?ch"
      using tramo_de_append [of datos "unat off" "unat ?ch" "unat restante - unat ?ch"] le hay less.prems by simp_all
    have "memoria_fisica c r' = copiar_en (memoria_fisica c r) (unat dir) (?a @ ?b)"
      using copiar_en_append [of "unat dir" ?a ?b "memoria_fisica c r"] r' r1(2) ab le less.prems
        length_memoria_fisica [OF less.prems(1)] by simp
    then show ?thesis using r' r1(3) ab by auto
  qed
qed

lemma memory_io_leer_ok:
  "red_ok c r \<Longrightarrow> unat dir + unat n \<le> ram c \<Longrightarrow>
   memory_io_leer c r pid dir n = (r, [], Some (tramo_de (memoria_fisica c r) (unat dir) (unat n)))"
  by (simp add: memory_io_leer_def leer_bucle_ok)

lemma memory_io_escribir_ok:
  assumes "red_ok c r" "unat dir + unat n \<le> ram c" "unat n \<le> length datos" "length datos < 2 ^ 32"
  obtains r' where "memory_io_escribir c r pid dir n datos = (r', [], 0)" "red_ok c r'"
    "memoria_fisica c r' = copiar_en (memoria_fisica c r) (unat dir) (take (unat n) datos)"
  using escribir_bucle_ok [of c r dir n 0 datos pid] assms by (auto simp: memory_io_escribir_def tramo_de_def)

section \<open>The contract of a flat memory\<close>

locale memoria_plana =
  fixes ok :: "'r \<Rightarrow> bool"
    and mem :: "'r \<Rightarrow> byte list"
    and leer :: "i32 \<Rightarrow> u32 \<Rightarrow> u32 \<Rightarrow> 'r \<Rightarrow> 'r \<times> evento list \<times> byte list option"
    and escribir :: "i32 \<Rightarrow> u32 \<Rightarrow> u32 \<Rightarrow> byte list \<Rightarrow> 'r \<Rightarrow> 'r \<times> evento list \<times> i32"
  assumes cota: "ok r \<Longrightarrow> length (mem r) < 2 ^ 32"
    and leer_ok: "ok r \<Longrightarrow> unat d + unat n \<le> length (mem r) \<Longrightarrow>
      leer pid d n r = (r, [], Some (tramo_de (mem r) (unat d) (unat n)))"
    and escribir_ok: "ok r \<Longrightarrow> unat d + unat n \<le> length (mem r) \<Longrightarrow> unat n \<le> length x \<Longrightarrow> length x < 2 ^ 32 \<Longrightarrow>
      \<exists>r'. escribir pid d n x r = (r', [], 0) \<and> ok r' \<and> mem r' = copiar_en (mem r) (unat d) (take (unat n) x)"
begin

text \<open>Reading a range and writing it elsewhere, the step of compaction.\<close>

lemma mover:
  assumes "ok r" "unat a + unat n \<le> length (mem r)" "unat b + unat n \<le> length (mem r)"
  obtains r' where "leer pid a n r = (r, [], Some (tramo_de (mem r) (unat a) (unat n)))"
    "escribir pid b n (tramo_de (mem r) (unat a) (unat n)) r = (r', [], 0)" "ok r'"
    "mem r' = copiar_en (mem r) (unat b) (tramo_de (mem r) (unat a) (unat n))"
proof -
  let ?x = "tramo_de (mem r) (unat a) (unat n)"
  have "length ?x = unat n" using assms(2) by simp
  then show thesis
    using escribir_ok [OF assms(1,3), of ?x pid] leer_ok [OF assms(1,2), of pid] unat_u32_less [of n] that by auto
qed

lemma leer_escrito:
  assumes "ok r" "unat d + length x \<le> length (mem r)" "n = of_nat (length x)"
  obtains r' where "escribir pid d n x r = (r', [], 0)" "ok r'"
    "mem r' = copiar_en (mem r) (unat d) x" "leer pid d n r' = (r', [], Some x)"
proof -
  have n: "unat n = length x" "length x < 2 ^ 32"
    using assms cota [OF assms(1)] by (simp_all add: unat_of_nat)
  obtain r' where r': "escribir pid d n x r = (r', [], 0)" "ok r'" "mem r' = copiar_en (mem r) (unat d) x"
    using escribir_ok [OF assms(1), of d n x pid] n assms(2) by auto
  moreover have "leer pid d n r' = (r', [], Some x)"
    using leer_ok [OF r'(2), of d n pid] r'(3) n assms(2) by (simp add: tramo_de_copiar_en)
  ultimately show thesis by (rule that)
qed

end

interpretation fisica: memoria_plana "red_ok c" "memoria_fisica c" "\<lambda>pid d n r. memory_io_leer c r pid d n"
  "\<lambda>pid d n x r. memory_io_escribir c r pid d n x" for c
proof (unfold_locales, goal_cases)
  case (1 r)
  then show ?case by (simp add: length_memoria_fisica red_ok_def layout_def)
next
  case (2 r d n pid)
  then show ?case by (simp add: memory_io_leer_ok length_memoria_fisica)
next
  case (3 r d n x pid)
  then show ?case using memory_io_escribir_ok [of c r d n x pid] by (auto simp: length_memoria_fisica)
qed

text \<open>Past the end of the RAM the loop finds no stick: the read gives the null pointer.\<close>

lemma leer_bucle_fuera:
  assumes "red_ok c r" "ram c < unat dir + unat restante" "unat dir \<le> ram c \<or> restante \<noteq> 0"
  shows "leer_bucle c pid r restante dir acc = (r, [], None)"
  using assms(2,3)
proof (induction "unat restante" arbitrary: restante dir acc rule: less_induct)
  case less
  then have nz: "restante \<noteq> 0" by auto
  have lay: "layout c" "conectados c" using assms(1) by (auto simp: red_ok_def)
  show ?case
  proof (cases "unat dir < ram c")
    case False
    have "conexiones_buscar_stick_por_dir dir c = - 1"
    proof (cases rule: buscar_stick_cases [where d = dir and c = c])
      case (si i)
      then have "unat dir < suma_sticks (take (Suc i) (sticks c))" using stick_contiene_iff [OF lay(1)] by simp
      also have "\<dots> \<le> ram c"
        using suma_sticks_take_mono [of "Suc i" "length (sticks c)" "sticks c"] si(2) by simp
      finally show ?thesis using False by simp
    qed simp
    then show ?thesis using nz by (simp add: leer_bucle.simps [of c pid r restante dir acc])
  next
    case True
    then obtain i st where t: "turno c r dir restante i st" using turno_existe [OF assms(1) nz] by blast
    let ?ch = "chunk_en c (int i) dir restante"
    have ch: "0 < ?ch" "?ch \<le> restante" using t by (auto simp: turno_def Let_def)
    have "unat dir + unat ?ch \<le> suma_sticks (take (Suc i) (sticks c))"
      using t by (auto simp: turno_def Let_def suma_sticks_take_Suc)
    also have "\<dots> \<le> ram c"
      using suma_sticks_take_mono [of "Suc i" "length (sticks c)" "sticks c"] t by (simp add: turno_def Let_def)
    finally have fin: "unat dir + unat ?ch \<le> ram c" .
    have N: "ram c < 2 ^ 32" using lay by (simp add: layout_def)
    have "unat ?ch \<le> unat restante" using ch by (simp add: word_le_nat_alt)
    then have "unat (dir + ?ch) = unat dir + unat ?ch" "unat (restante - ?ch) = unat restante - unat ?ch"
      using fin N by (simp_all add: unat_simps)
    then show ?thesis
      using leer_turno [OF assms(1) nz t] less.hyps [OF restante_baja [OF ch], of "dir + ?ch"] fin less.prems(1)
        \<open>unat ?ch \<le> unat restante\<close> by simp
  qed
qed

section \<open>Properties\<close>

text \<open>
  C10. The sticks implement one flat array of bytes: with every stick reachable, a read of
  any range inside the RAM returns the bytes of that range, whatever stick boundaries it
  crosses, and a range that ends past the RAM gives the null pointer; the sticks do not
  change and nothing else is sent.
\<close>

theorem memory_io_leer_plana:
  assumes "red_ok c r" "0 < n"
  shows "memory_io_leer c r pid dir n =
    (r, [], if unat dir + unat n \<le> length (memoria_fisica c r)
            then Some (tramo_de (memoria_fisica c r) (unat dir) (unat n)) else None)"
proof (cases "unat dir + unat n \<le> ram c")
  case True
  then show ?thesis using assms(1) by (simp add: length_memoria_fisica memory_io_leer_ok)
next
  case False
  have "n \<noteq> 0" using assms(2) by auto
  with False show ?thesis
    using leer_bucle_fuera [OF assms(1), of dir n pid "[]"] assms(1)
    by (simp add: length_memoria_fisica memory_io_leer_def)
qed

text \<open>Two sticks of three and two bytes, for the examples.\<close>

definition conexiones_ejemplo :: t_conexiones_activas where
  "conexiones_ejemplo =
     \<lparr>scheduler_socket = 3, cpus = [],
      sticks = [\<lparr>st_socket = 4, st_tamanio = 3, st_ip = [], st_puerto = [], outbound_socket = 5, base_fisica = 0\<rparr>,
                \<lparr>st_socket = 6, st_tamanio = 2, st_ip = [], st_puerto = [], outbound_socket = 7, base_fisica = 3\<rparr>],
      swap_socket = 8\<rparr>"

definition red_ejemplo :: red where
  "red_ejemplo = (\<lambda>_. None)(5 := Some \<lparr>memoria_buffer = [1, 2, 3], memoria_size = 3\<rparr>,
                             7 := Some \<lparr>memoria_buffer = [4, 5], memoria_size = 2\<rparr>)"

lemma red_ok_ejemplo: "red_ok conexiones_ejemplo red_ejemplo"
  by (auto simp: red_ok_def layout_def conectados_def conexiones_ejemplo_def red_ejemplo_def stick_en_linea_def
      stick_ok_def MAX_MEMORY_STICKS_def less_Suc_eq)

lemma memoria_ejemplo [simp]: "memoria_fisica conexiones_ejemplo red_ejemplo = [1, 2, 3, 4, 5]"
  by (simp add: memoria_fisica_def conexiones_ejemplo_def red_ejemplo_def buffer_de_def)

lemma memory_io_leer_plana_witness:
  "memory_io_leer conexiones_ejemplo red_ejemplo 9 1 3 = (red_ejemplo, [], Some [2, 3, 4]) \<and>
   memory_io_leer conexiones_ejemplo red_ejemplo 9 4 3 = (red_ejemplo, [], None)"
  using memory_io_leer_plana [OF red_ok_ejemplo, of 3 9 1] memory_io_leer_plana [OF red_ok_ejemplo, of 3 9 4]
  by (simp add: tramo_de_def)

text \<open>
  C11. A write of \<open>n\<close> bytes inside the RAM returns 0, updates exactly the cells of its
  range of the flat array, across stick boundaries too, and keeps every stick well formed;
  reading the range back gives the bytes written.
\<close>

theorem memory_io_escribir_plana:
  assumes "red_ok c r" "unat dir + length datos \<le> length (memoria_fisica c r)" "n = of_nat (length datos)"
  shows "\<exists>r'. memory_io_escribir c r pid dir n datos = (r', [], 0) \<and> red_ok c r' \<and>
    memoria_fisica c r' = copiar_en (memoria_fisica c r) (unat dir) datos \<and>
    memory_io_leer c r' pid dir n = (r', [], Some datos)"
  using fisica.leer_escrito [OF assms, of pid] by metis

lemma memory_io_escribir_plana_witness:
  "\<exists>r'. memory_io_escribir conexiones_ejemplo red_ejemplo 9 2 2 [8, 9] = (r', [], 0) \<and>
    memoria_fisica conexiones_ejemplo r' = [1, 2, 8, 9, 5]"
proof -
  have cota: "unat (2 :: u32) + length [8, 9 :: byte] \<le> length (memoria_fisica conexiones_ejemplo red_ejemplo)" by simp
  have n: "(2 :: u32) = of_nat (length [8, 9 :: byte])" by simp
  from memory_io_escribir_plana [OF red_ok_ejemplo cota n, of 9] show ?thesis
    by (auto simp: copiar_en_def)
qed

end
