(* ===== verification/Sched_Estado.thy ===== *)
theory Sched_Estado
  imports Memory_IO
begin

text \<open>
  State of the Kernel Scheduler and its shared structures: process control blocks, READY
  queues, system mutexes and priority inheritance
  (\<open>kernel_scheduler/src/globalesKernelScheduler.c\<close>) together with the queue operations of
  \<open>utils_kernel_scheduler.c\<close> that they call. A \<open>t_pcb*\<close> is the pid of the block, which is fixed
  at creation and never reused; \<open>pcbs\<close> is the heap. A pointer to a mutex is its name: mutexes
  are never destroyed. C \<open>int\<close>s on which nothing is computed (priorities, times, configuration
  values) are \<open>int\<close>. \<open>colas_prioridad\<close> holds the queues that exist, so that its length is
  \<open>cantidad_niveles_prioridad\<close>; the rest of the array is \<open>NULL\<close>, and an index outside the array,
  which \<open>reubicar_proceso_en_ready\<close> does not exclude, is read as \<open>NULL\<close> too. Each operation holds its locks
  for all of its work and is one step, so that the locks do not appear, except in
  \<open>liberar_mutexes_de_proceso\<close>, which calls a function that takes the same lock: there
  \<open>mutex_lista_mutexes\<close> is part of the model; \<open>reloj\<close> is \<open>time(NULL)\<close>. Logging is not modelled.
\<close>

section \<open>Data\<close>

datatype t_estado = NEW | READY | EXEC | BLOCK | SUSP_READY | SUSP_BLOCK | EXIT_STATE

datatype t_algoritmo_corto_plazo = ALGORITMO_FIFO | ALGORITMO_RR | ALGORITMO_CMN | ALGORITMO_DESCONOCIDO

record t_mutex_sistema =
  mut_nombre :: string
  asignado_a_pid :: i32
  cola_bloqueados :: "i32 list"

record t_seg_info =
  si_id :: u32
  si_tamanio :: u32

record t_pcb =
  prioridad :: int
  estado :: t_estado
  quantum_restante :: u32
  tiempo_llegada :: int
  tiempo_inicio_ejecucion :: int
  prioridad_dinamica :: int
  tiempo_total_cpu :: u32
  conteo_context_switch :: u32
  mutex_esperando :: "string option"
  suspendido_en_swap :: bool
  block_epoch :: u32
  total_memoria :: u32
  segmentos_info :: "t_seg_info list"
  stdin_pendiente :: "byte list option"
  stdin_pendiente_dir :: u32
  stdin_pendiente_size :: u32

record t_cpu =
  c_socket :: sock
  c_id :: i32
  disponible :: bool
  proceso_actual :: "i32 option"
  timer_activo :: bool
  timer_pid :: i32

datatype t_io_type = IO_TYPE_SLEEP | IO_TYPE_STDIN | IO_TYPE_STDOUT

record t_io_request =
  r_proceso :: i32
  r_tipo :: t_io_type
  tiempo_ms :: i32
  stdin_size :: i32
  stdin_dir_logica :: i32
  stdout_dir_logica :: i32
  stdout_size :: i32
  stdout_buffer :: "byte list option"

text \<open>The last field is the local variable \<open>req\<close> of the worker while it waits for the device.\<close>

record t_interfaz_io =
  io_socket :: sock
  io_nombre :: string
  io_tipo :: t_io_type
  io_cola :: "t_io_request list"
  sem_cola :: nat
  activa :: bool
  en_curso :: "t_io_request option"

record t_config_scheduler =
  planification_algorithm :: "string option"
  queue_preemption :: "string option"
  rr_quantum :: int
  suspension_timeout :: int
  algoritmos_colas :: "string option list"

record t_scheduler =
  config_scheduler :: t_config_scheduler
  pcbs :: "i32 \<Rightarrow> t_pcb option"
  todos_los_procesos :: "i32 list"
  lista_mutexes :: "t_mutex_sistema list"
  cola_procesos_new :: "i32 list option"
  cola_procesos_ready :: "i32 list option"
  colas_prioridad :: "i32 list list"
  sem_new :: nat
  sem_ready :: nat
  sem_cpu_disponible :: nat
  sem_reevaluar_suspendidos :: nat
  sc_cpus :: "t_cpu list"
  cola_procesos_block :: "i32 list"
  lista_suspendidos :: "(i32 \<times> int) list"
  sistema_corrupto :: bool
  compactacion_activa :: bool
  contador_pids :: i32
  reloj :: int
  tabla_ios :: "t_interfaz_io list"
  timers_suspension :: "(i32 \<times> u32) list"
  volcados_en_vuelo :: "i32 list"

definition cantidad_niveles_prioridad :: "t_scheduler \<Rightarrow> int" where
  "cantidad_niveles_prioridad S = int (length (colas_prioridad S))"

definition actualizar_pcb :: "i32 \<Rightarrow> (t_pcb \<Rightarrow> t_pcb) \<Rightarrow> t_scheduler \<Rightarrow> t_scheduler" where
  "actualizar_pcb p f S = S\<lparr>pcbs := (pcbs S)(p := map_option f (pcbs S p))\<rparr>"

text \<open>
  A block starts a suspension timer, a thread that knows the pid and the episode. The threads
  that are asleep are in \<open>timers_suspension\<close>, those that wait for Kernel Memory in
  \<open>volcados_en_vuelo\<close>.
\<close>

definition notificar_proceso_en_block :: "i32 \<Rightarrow> u32 \<Rightarrow> t_scheduler \<Rightarrow> t_scheduler" where
  "notificar_proceso_en_block p epoch S =
     (if pcbs S p = None \<or> suspension_timeout (config_scheduler S) \<le> 0 then S
      else S\<lparr>timers_suspension := timers_suspension S @ [(p, epoch)]\<rparr>)"

section \<open>Configuration\<close>

definition a_minuscula :: "char \<Rightarrow> char" where
  "a_minuscula c = (let n = of_char c :: nat in if 65 \<le> n \<and> n \<le> 90 then char_of (n + 32) else c)"

definition string_igual_ignora_mayusculas :: "string option \<Rightarrow> string option \<Rightarrow> bool" where
  "string_igual_ignora_mayusculas izq der =
     (case (izq, der) of (Some a, Some b) \<Rightarrow> map a_minuscula a = map a_minuscula b | _ \<Rightarrow> False)"

definition obtener_algoritmo_global :: "t_scheduler \<Rightarrow> t_algoritmo_corto_plazo" where
  "obtener_algoritmo_global S =
     (let a = planification_algorithm (config_scheduler S)
      in if a = None then ALGORITMO_DESCONOCIDO
         else if string_igual_ignora_mayusculas a (Some ''FIFO'') then ALGORITMO_FIFO
         else if string_igual_ignora_mayusculas a (Some ''RR'') then ALGORITMO_RR
         else if string_igual_ignora_mayusculas a (Some ''CMN'') then ALGORITMO_CMN
         else ALGORITMO_DESCONOCIDO)"

definition obtener_algoritmo_por_prioridad :: "int \<Rightarrow> t_scheduler \<Rightarrow> t_algoritmo_corto_plazo" where
  "obtener_algoritmo_por_prioridad p S =
     (if p < 0 \<or> p \<ge> int (length (algoritmos_colas (config_scheduler S))) then ALGORITMO_DESCONOCIDO
      else
        let a = algoritmos_colas (config_scheduler S) ! nat p
        in if a = None then ALGORITMO_DESCONOCIDO
           else if string_igual_ignora_mayusculas a (Some ''FIFO'') then ALGORITMO_FIFO
           else if string_igual_ignora_mayusculas a (Some ''RR'') then ALGORITMO_RR
           else ALGORITMO_DESCONOCIDO)"

definition queue_preemption_habilitada :: "t_scheduler \<Rightarrow> bool" where
  "queue_preemption_habilitada S \<longleftrightarrow>
     string_igual_ignora_mayusculas (queue_preemption (config_scheduler S)) (Some ''TRUE'')"

definition MAX_PRIORITY_LEVELS :: int where
  "MAX_PRIORITY_LEVELS = 10"

definition inicializar_colas_multinivel :: "int \<Rightarrow> t_scheduler \<Rightarrow> t_scheduler" where
  "inicializar_colas_multinivel cantidad_colas S =
     (if cantidad_colas \<le> 0 then S\<lparr>colas_prioridad := []\<rparr>
      else S\<lparr>colas_prioridad := replicate (nat (min cantidad_colas MAX_PRIORITY_LEVELS)) []\<rparr>)"

section \<open>Tables of processes and mutexes\<close>

definition buscar_pcb_por_pid :: "i32 \<Rightarrow> t_scheduler \<Rightarrow> i32 option" where
  "buscar_pcb_por_pid p S = find (\<lambda>q. q = p) (todos_los_procesos S)"

definition registrar_pcb :: "i32 \<Rightarrow> t_scheduler \<Rightarrow> t_scheduler" where
  "registrar_pcb p S = S\<lparr>todos_los_procesos := todos_los_procesos S @ [p]\<rparr>"

definition eliminar_pcb :: "i32 \<Rightarrow> t_scheduler \<Rightarrow> t_scheduler" where
  "eliminar_pcb p S =
     (case buscar_idx (\<lambda>q. q = p) (todos_los_procesos S) of
        None \<Rightarrow> S
      | Some i \<Rightarrow> actualizar_pcb p (\<lambda>b. b\<lparr>segmentos_info := []\<rparr>) (S\<lparr>todos_los_procesos := list_remove (todos_los_procesos S) i\<rparr>))"

definition liberar_pcb :: "i32 \<Rightarrow> t_scheduler \<Rightarrow> t_scheduler" where
  "liberar_pcb p S = S\<lparr>pcbs := (pcbs S)(p := None)\<rparr>"

definition buscar_mutex_por_nombre :: "string \<Rightarrow> t_scheduler \<Rightarrow> nat option" where
  "buscar_mutex_por_nombre n S = buscar_idx (\<lambda>m. mut_nombre m = n) (lista_mutexes S)"

definition registrar_mutex :: "t_mutex_sistema \<Rightarrow> t_scheduler \<Rightarrow> t_scheduler" where
  "registrar_mutex m S = S\<lparr>lista_mutexes := lista_mutexes S @ [m]\<rparr>"

definition actualizar_mutex :: "nat \<Rightarrow> (t_mutex_sistema \<Rightarrow> t_mutex_sistema) \<Rightarrow> t_scheduler \<Rightarrow> t_scheduler" where
  "actualizar_mutex i f S = S\<lparr>lista_mutexes := (lista_mutexes S)[i := f (lista_mutexes S ! i)]\<rparr>"

section \<open>READY queues\<close>

definition pop_ready :: "t_scheduler \<Rightarrow> i32 option \<times> t_scheduler" where
  "pop_ready S =
     (case cola_procesos_ready S of
        Some (p # ps) \<Rightarrow> (Some p, S\<lparr>cola_procesos_ready := Some ps\<rparr>)
      | _ \<Rightarrow> (None, S))"

text \<open>The queue of a level, if there is one.\<close>

definition cola_de :: "int \<Rightarrow> t_scheduler \<Rightarrow> i32 list option" where
  "cola_de p S = (if 0 \<le> p \<and> nat p < length (colas_prioridad S) then Some (colas_prioridad S ! nat p) else None)"

definition poner_cola :: "int \<Rightarrow> i32 list \<Rightarrow> t_scheduler \<Rightarrow> t_scheduler" where
  "poner_cola p q S = S\<lparr>colas_prioridad := (colas_prioridad S)[nat p := q]\<rparr>"

text \<open>The choice of the CPU to preempt: less urgent first, then the one that started earlier.\<close>

fun elegir_victima :: "t_scheduler \<Rightarrow> t_cpu list \<Rightarrow> (t_cpu \<times> i32 \<times> t_pcb) option \<Rightarrow> (t_cpu \<times> i32 \<times> t_pcb) option" where
  "elegir_victima S [] v = v"
| "elegir_victima S (c # cs) v =
     elegir_victima S cs
       (case proceso_actual c of
          None \<Rightarrow> v
        | Some p \<Rightarrow>
            if disponible c \<or> c_socket c = - 1 then v
            else case pcbs S p of
              None \<Rightarrow> v
            | Some b \<Rightarrow>
                (case v of
                   None \<Rightarrow> Some (c, p, b)
                 | Some (vc, vp, vb) \<Rightarrow>
                     if prioridad b > prioridad vb then Some (c, p, b)
                     else if prioridad b = prioridad vb \<and> tiempo_inicio_ejecucion b < tiempo_inicio_ejecucion vb then Some (c, p, b)
                     else v))"

definition verificar_y_desalojar_por_prioridad :: "i32 \<Rightarrow> t_scheduler \<Rightarrow> evento list" where
  "verificar_y_desalojar_por_prioridad nuevo S =
     (if \<not> queue_preemption_habilitada S \<or> compactacion_activa S then []
      else case (pcbs S nuevo, elegir_victima S (sc_cpus S) None) of
        (Some b, Some (c, vp, vb)) \<Rightarrow>
          if prioridad b < prioridad vb
          then [Enviar (c_socket c) (enviar_interrupcion vp (motivo_num MOTIVO_DESALOJO_COLA))] else []
      | _ \<Rightarrow> [])"

definition reencolar_proceso_ready_final :: "i32 \<Rightarrow> int \<Rightarrow> t_scheduler \<Rightarrow> t_scheduler \<times> evento list" where
  "reencolar_proceso_ready_final p prio S =
     (case cola_de prio S of
        None \<Rightarrow> (S, [])
      | Some q \<Rightarrow>
          let S' = (poner_cola prio (q @ [p]) S)\<lparr>sem_ready := sem_ready S + 1\<rparr>
          in (S', verificar_y_desalojar_por_prioridad p S'))"

definition reencolar_proceso_ready_inicio :: "i32 \<Rightarrow> int \<Rightarrow> t_scheduler \<Rightarrow> t_scheduler" where
  "reencolar_proceso_ready_inicio p prio S =
     (case cola_de prio S of
        None \<Rightarrow> S
      | Some q \<Rightarrow> (poner_cola prio (p # q) S)\<lparr>sem_ready := sem_ready S + 1\<rparr>)"

text \<open>A block whose priority has no queue is freed, but it stays in \<open>todos_los_procesos\<close>.\<close>

definition encolar_en_ready_por_prioridad :: "i32 \<Rightarrow> t_scheduler \<Rightarrow> t_scheduler \<times> evento list" where
  "encolar_en_ready_por_prioridad p S =
     (case pcbs S p of
        None \<Rightarrow> (S, [])
      | Some b \<Rightarrow>
          (case cola_de (prioridad b) S of
             None \<Rightarrow> (liberar_pcb p S, [])
           | Some q \<Rightarrow>
               let S' = (poner_cola (prioridad b) (q @ [p]) (actualizar_pcb p (\<lambda>b. b\<lparr>estado := READY\<rparr>) S))\<lparr>sem_ready := sem_ready S + 1\<rparr>
               in (S', verificar_y_desalojar_por_prioridad p S')))"

fun primera_cola :: "i32 list list \<Rightarrow> nat option" where
  "primera_cola [] = None"
| "primera_cola (q # qs) = (if q \<noteq> [] then Some 0 else map_option Suc (primera_cola qs))"

definition desencolar_proceso_ready :: "t_scheduler \<Rightarrow> i32 option \<times> t_scheduler" where
  "desencolar_proceso_ready S =
     (case primera_cola (colas_prioridad S) of
        None \<Rightarrow> (None, S)
      | Some i \<Rightarrow>
          (Some (hd (colas_prioridad S ! i)), S\<lparr>colas_prioridad := (colas_prioridad S)[i := tl (colas_prioridad S ! i)]\<rparr>))"

definition encolar_en_ready_y_notificar :: "i32 \<Rightarrow> t_scheduler \<Rightarrow> t_scheduler \<times> evento list" where
  "encolar_en_ready_y_notificar p S =
     (case pcbs S p of
        None \<Rightarrow> (S, [])
      | Some b \<Rightarrow>
          let S1 = actualizar_pcb p (\<lambda>b. b\<lparr>estado := READY\<rparr>) S
          in if cantidad_niveles_prioridad S > 0 then reencolar_proceso_ready_final p (prioridad b) S1
             else case cola_procesos_ready S1 of
               None \<Rightarrow> (S1, [])
             | Some q \<Rightarrow> (S1\<lparr>cola_procesos_ready := Some (q @ [p]), sem_ready := sem_ready S1 + 1\<rparr>, []))"

section \<open>Priority inheritance\<close>

definition reubicar_proceso_en_ready :: "i32 \<Rightarrow> int \<Rightarrow> int \<Rightarrow> t_scheduler \<Rightarrow> t_scheduler" where
  "reubicar_proceso_en_ready p anterior nueva S =
     (case pcbs S p of
        None \<Rightarrow> S
      | Some b \<Rightarrow>
          if estado b \<noteq> READY \<or> cantidad_niveles_prioridad S \<le> 0 \<or> anterior = nueva then S
          else case cola_de anterior S of
            None \<Rightarrow> S
          | Some q \<Rightarrow>
              (case buscar_idx (\<lambda>x. x = p) q of
                 None \<Rightarrow> S
               | Some i \<Rightarrow>
                   let S' = poner_cola anterior (list_remove q i) S
                   in case cola_de nueva S' of None \<Rightarrow> S' | Some q' \<Rightarrow> poner_cola nueva (q' @ [p]) S'))"

definition poner_prioridad_dinamica :: "i32 \<Rightarrow> int \<Rightarrow> t_scheduler \<Rightarrow> t_scheduler" where
  "poner_prioridad_dinamica p nueva S =
     (case pcbs S p of
        None \<Rightarrow> S
      | Some b \<Rightarrow> reubicar_proceso_en_ready p (prioridad_dinamica b) nueva (actualizar_pcb p (\<lambda>b. b\<lparr>prioridad_dinamica := nueva\<rparr>) S))"

text \<open>Who holds the mutex that \<open>p\<close> waits for.\<close>

definition poseedor_de :: "i32 \<Rightarrow> t_scheduler \<Rightarrow> (i32 \<times> t_pcb) option" where
  "poseedor_de p S =
     (case pcbs S p of
        None \<Rightarrow> None
      | Some b \<Rightarrow>
          (case mutex_esperando b of
             None \<Rightarrow> None
           | Some n \<Rightarrow>
               (case buscar_mutex_por_nombre n S of
                  None \<Rightarrow> None
                | Some i \<Rightarrow>
                    let q = asignado_a_pid (lista_mutexes S ! i)
                    in if q = - 1 then None
                       else case buscar_pcb_por_pid q S of
                         None \<Rightarrow> None
                       | Some q' \<Rightarrow> map_option (Pair q) (pcbs S q))))"

definition por_encima :: "int \<Rightarrow> t_scheduler \<Rightarrow> i32 list" where
  "por_encima h S = filter (\<lambda>x. case pcbs S x of None \<Rightarrow> False | Some b \<Rightarrow> h < prioridad_dinamica b) (todos_los_procesos S)"

lemma pcbs_reubicar [simp]:
  "pcbs (reubicar_proceso_en_ready p a n S) = pcbs S" "todos_los_procesos (reubicar_proceso_en_ready p a n S) = todos_los_procesos S"
  "lista_mutexes (reubicar_proceso_en_ready p a n S) = lista_mutexes S"
  by (simp_all add: reubicar_proceso_en_ready_def poner_cola_def Let_def split: option.splits)

lemma poner_prioridad_sel [simp]:
  "pcbs (poner_prioridad_dinamica p n S) = (pcbs S)(p := map_option (\<lambda>b. b\<lparr>prioridad_dinamica := n\<rparr>) (pcbs S p))"
  "todos_los_procesos (poner_prioridad_dinamica p n S) = todos_los_procesos S"
  "lista_mutexes (poner_prioridad_dinamica p n S) = lista_mutexes S"
  by (auto simp: poner_prioridad_dinamica_def actualizar_pcb_def split: option.splits)

lemma poseedor_de_SomeD:
  "poseedor_de p S = Some (q, b) \<Longrightarrow> q \<in> set (todos_los_procesos S) \<and> pcbs S q = Some b"
  by (auto simp: poseedor_de_def buscar_pcb_por_pid_def Let_def find_Some_iff split: option.splits if_splits)

lemma por_encima_baja:
  assumes "poseedor_de p S = Some (q, b)" "h < prioridad_dinamica b"
  shows "length (por_encima h (poner_prioridad_dinamica q h S)) < length (por_encima h S)"
proof -
  have q: "q \<in> set (todos_los_procesos S)" "pcbs S q = Some b" using poseedor_de_SomeD [OF assms(1)] by auto
  have "por_encima h (poner_prioridad_dinamica q h S) = filter (\<lambda>x. x \<noteq> q) (por_encima h S)"
    using q(2) by (auto simp: por_encima_def intro!: filter_cong)
  moreover have "q \<in> set (por_encima h S)" using q assms(2) by (simp add: por_encima_def)
  ultimately show ?thesis by (simp add: length_filter_less)
qed

function propagar_herencia_prioridad :: "i32 \<Rightarrow> int \<Rightarrow> t_scheduler \<Rightarrow> t_scheduler" where
  "propagar_herencia_prioridad p h S =
     (case poseedor_de p S of
        None \<Rightarrow> S
      | Some (q, b) \<Rightarrow>
          if h < prioridad_dinamica b
          then
            let S' = poner_prioridad_dinamica q h S
            in if mutex_esperando b \<noteq> None then propagar_herencia_prioridad q h S' else S'
          else S)"
  by pat_completeness auto
termination
  by (relation "measure (\<lambda>(p, h, S). length (por_encima h S))") (auto intro: por_encima_baja)

declare propagar_herencia_prioridad.simps [simp del]

definition heredada :: "i32 \<Rightarrow> int \<Rightarrow> t_scheduler \<Rightarrow> int" where
  "heredada p inicial S =
     fold (\<lambda>m acc. if asignado_a_pid m = p
             then fold (\<lambda>q acc. case pcbs S q of None \<Rightarrow> acc | Some b \<Rightarrow> if prioridad_dinamica b < acc then prioridad_dinamica b else acc)
                    (cola_bloqueados m) acc
             else acc)
       (lista_mutexes S) inicial"

definition recalcular_prioridad_dinamica :: "i32 \<Rightarrow> t_scheduler \<Rightarrow> t_scheduler" where
  "recalcular_prioridad_dinamica p S =
     (case pcbs S p of
        None \<Rightarrow> S
      | Some b \<Rightarrow>
          let nueva = heredada p (prioridad b) S
          in if nueva \<noteq> prioridad_dinamica b then poner_prioridad_dinamica p nueva S else S)"

section \<open>The lock of the mutex list\<close>

text \<open>
  \<open>liberar_mutexes_de_proceso\<close> and \<open>recalcular_prioridad_dinamica\<close> both take
  \<open>mutex_lista_mutexes\<close>, and the first calls the second. A thread inside them is a \<open>hilo\<close>:
  whether it holds the lock, the state of the scheduler and what it sent so far. The lock is a
  plain \<open>pthread_mutex_t\<close> (\<open>PTHREAD_MUTEX_INITIALIZER\<close>), so that a thread that takes it twice
  waits for itself: the run ends \<open>Trabado\<close>, with everything done until then still done.
  \<open>y_luego\<close> is the semicolon.
\<close>

type_synonym hilo = "bool \<times> t_scheduler \<times> evento list"

datatype corrida = Trabado hilo | Sigue hilo

fun y_luego :: "corrida \<Rightarrow> (hilo \<Rightarrow> corrida) \<Rightarrow> corrida" where
  "y_luego (Trabado h) f = Trabado h"
| "y_luego (Sigue h) f = f h"

fun lock_lista_mutexes :: "hilo \<Rightarrow> corrida" where
  "lock_lista_mutexes (tomado, S, ev) = (if tomado then Trabado (tomado, S, ev) else Sigue (True, S, ev))"

fun unlock_lista_mutexes :: "hilo \<Rightarrow> corrida" where
  "unlock_lista_mutexes (tomado, S, ev) = Sigue (False, S, ev)"

text \<open>
  \<open>recalcular_prioridad_dinamica\<close> with its lock: the list is read between lock and unlock, the
  priority is written after.
\<close>

definition recalcular_con_lock :: "i32 \<Rightarrow> hilo \<Rightarrow> corrida" where
  "recalcular_con_lock p h =
     y_luego (lock_lista_mutexes h) (\<lambda>(tomado, S, ev).
       case pcbs S p of
         None \<Rightarrow> unlock_lista_mutexes (tomado, S, ev)
       | Some b \<Rightarrow>
           let nueva = heredada p (prioridad b) S
           in y_luego (unlock_lista_mutexes (tomado, S, ev)) (\<lambda>(tomado, S, ev).
                Sigue (tomado, if nueva \<noteq> prioridad_dinamica b then poner_prioridad_dinamica p nueva S else S, ev)))"

text \<open>
  One turn of the loop of \<open>liberar_mutexes_de_proceso\<close>: a mutex that the process holds goes to
  its first waiter, which becomes READY, or is free; from the queue of any other the process is
  taken out.
\<close>

definition liberar_uno :: "i32 \<Rightarrow> nat \<Rightarrow> hilo \<Rightarrow> corrida" where
  "liberar_uno p i h =
     (case h of (tomado, S, ev) \<Rightarrow>
        let m = lista_mutexes S ! i
        in if asignado_a_pid m = p
           then case cola_bloqueados m of
               q # qs \<Rightarrow>
                 (let S1 = actualizar_mutex i (\<lambda>m. m\<lparr>asignado_a_pid := q, cola_bloqueados := qs\<rparr>) S;
                      S2 = actualizar_pcb q (\<lambda>b. b\<lparr>mutex_esperando := None, estado := READY\<rparr>) S1;
                      (S3, ev') = encolar_en_ready_y_notificar q S2
                  in recalcular_con_lock q (tomado, S3, ev @ ev'))
             | [] \<Rightarrow> Sigue (tomado, actualizar_mutex i (\<lambda>m. m\<lparr>asignado_a_pid := - 1\<rparr>) S, ev)
           else Sigue (tomado, actualizar_mutex i (\<lambda>m. m\<lparr>cola_bloqueados := filter (\<lambda>q. q \<noteq> p) (cola_bloqueados m)\<rparr>) S, ev))"

fun liberar_recorrido :: "i32 \<Rightarrow> nat list \<Rightarrow> hilo \<Rightarrow> corrida" where
  "liberar_recorrido p [] h = Sigue h"
| "liberar_recorrido p (i # is) h = y_luego (liberar_uno p i h) (liberar_recorrido p is)"

definition correr_liberar_mutexes :: "i32 \<Rightarrow> hilo \<Rightarrow> corrida" where
  "correr_liberar_mutexes p h =
     y_luego (lock_lista_mutexes h) (\<lambda>(tomado, S, ev).
       y_luego (liberar_recorrido p [0..<length (lista_mutexes S)] (tomado, S, ev)) unlock_lista_mutexes)"

text \<open>The call, by a thread that does not hold the lock; \<open>None\<close> is a call that never returns.\<close>

definition liberar_mutexes_de_proceso :: "i32 \<Rightarrow> t_scheduler \<Rightarrow> (t_scheduler \<times> evento list) option" where
  "liberar_mutexes_de_proceso p S =
     (case correr_liberar_mutexes p (False, S, []) of Trabado h \<Rightarrow> None | Sigue (tomado, S', ev) \<Rightarrow> Some (S', ev))"

text \<open>
  What the run does to the list of mutexes, by recursion on the list: it gets through the
  mutexes until the first that the process holds with somebody waiting.
\<close>

definition se_traba_en :: "i32 \<Rightarrow> t_mutex_sistema \<Rightarrow> bool" where
  "se_traba_en p m \<longleftrightarrow> asignado_a_pid m = p \<and> cola_bloqueados m \<noteq> []"

definition soltar :: "i32 \<Rightarrow> t_mutex_sistema \<Rightarrow> t_mutex_sistema" where
  "soltar p m =
     (if asignado_a_pid m = p then m\<lparr>asignado_a_pid := - 1\<rparr> else m\<lparr>cola_bloqueados := filter (\<lambda>q. q \<noteq> p) (cola_bloqueados m)\<rparr>)"

lemma liberar_uno_sigue:
  assumes "\<not> se_traba_en p (lista_mutexes S ! i)" "i < length (lista_mutexes S)"
  shows "liberar_uno p i (t, S, ev) = Sigue (t, S\<lparr>lista_mutexes := (lista_mutexes S)[i := soltar p (lista_mutexes S ! i)]\<rparr>, ev)"
  using assms by (simp add: liberar_uno_def se_traba_en_def soltar_def actualizar_mutex_def Let_def)

text \<open>A prefix in which the run is not stuck.\<close>

lemma liberar_recorrido_sigue:
  assumes "\<forall>m \<in> set ms. \<not> se_traba_en p m" "lista_mutexes S = xs @ ms @ zs"
  shows "liberar_recorrido p ([length xs..<length xs + length ms] @ is) (t, S, ev) =
    liberar_recorrido p is (t, S\<lparr>lista_mutexes := xs @ map (soltar p) ms @ zs\<rparr>, ev)"
  using assms
proof (induction ms arbitrary: xs S)
  case Nil
  then have "S\<lparr>lista_mutexes := xs @ zs\<rparr> = S" by (cases S) simp
  then show ?case by simp
next
  case (Cons m ms)
  let ?S = "S\<lparr>lista_mutexes := (xs @ [soltar p m]) @ ms @ zs\<rparr>"
  have u: "liberar_uno p (length xs) (t, S, ev) = Sigue (t, ?S, ev)"
    using Cons.prems liberar_uno_sigue [of p S "length xs" t ev] by (simp add: list_update_append)
  have "[length xs..<length xs + length (m # ms)] = length xs # [length (xs @ [soltar p m])..<length (xs @ [soltar p m]) + length ms]"
    by (simp add: upt_conv_Cons del: upt_Suc)
  then show ?case using u Cons.IH [of ?S "xs @ [soltar p m]"] Cons.prems(1) by simp
qed

text \<open>The first mutex that blocks the run: it is handed over, and the run stops with the lock taken.\<close>

definition traspasar :: "i32 \<Rightarrow> nat \<Rightarrow> t_scheduler \<Rightarrow> t_scheduler \<times> evento list" where
  "traspasar q i S =
     encolar_en_ready_y_notificar q
       (actualizar_pcb q (\<lambda>b. b\<lparr>mutex_esperando := None, estado := READY\<rparr>)
         (actualizar_mutex i (\<lambda>m. m\<lparr>asignado_a_pid := q, cola_bloqueados := tl (cola_bloqueados m)\<rparr>) S))"

lemma liberar_uno_traba:
  assumes "se_traba_en p (lista_mutexes S ! i)"
  shows "liberar_uno p i (True, S, ev) =
    (case traspasar (hd (cola_bloqueados (lista_mutexes S ! i))) i S of (S', ev') \<Rightarrow> Trabado (True, S', ev @ ev'))"
proof -
  obtain q qs where "cola_bloqueados (lista_mutexes S ! i) = q # qs" "asignado_a_pid (lista_mutexes S ! i) = p"
    using assms by (auto simp: se_traba_en_def neq_Nil_conv)
  then show ?thesis
    by (simp add: liberar_uno_def traspasar_def actualizar_mutex_def recalcular_con_lock_def Let_def split: prod.split)
qed

lemma correr_liberar_sigue:
  assumes "\<forall>m \<in> set (lista_mutexes S). \<not> se_traba_en p m"
  shows "correr_liberar_mutexes p (False, S, ev) = Sigue (False, S\<lparr>lista_mutexes := map (soltar p) (lista_mutexes S)\<rparr>, ev)"
  using liberar_recorrido_sigue [of "lista_mutexes S" p S "[]" "[]" "[]" True ev] assms by (simp add: correr_liberar_mutexes_def)

lemma correr_liberar_traba:
  assumes "lista_mutexes S = ms @ m # zs" "\<forall>m \<in> set ms. \<not> se_traba_en p m" "se_traba_en p m"
  shows "correr_liberar_mutexes p (False, S, ev) =
    (case traspasar (hd (cola_bloqueados m)) (length ms) (S\<lparr>lista_mutexes := map (soltar p) ms @ m # zs\<rparr>) of
       (S', ev') \<Rightarrow> Trabado (True, S', ev @ ev'))"
proof -
  let ?S = "S\<lparr>lista_mutexes := map (soltar p) ms @ m # zs\<rparr>"
  have i: "[0..<length (lista_mutexes S)] = [0..<length ms] @ length ms # [Suc (length ms)..<length (lista_mutexes S)]"
    using upt_add_eq_append [of 0 "length ms" "Suc (length zs)"] assms(1) by (simp add: upt_conv_Cons del: upt_Suc)
  have "liberar_recorrido p [0..<length (lista_mutexes S)] (True, S, ev) =
      y_luego (liberar_uno p (length ms) (True, ?S, ev)) (liberar_recorrido p [Suc (length ms)..<length (lista_mutexes S)])"
    unfolding i using liberar_recorrido_sigue [of ms p S "[]" "m # zs" "length ms # [Suc (length ms)..<length (lista_mutexes S)]" True ev] assms(1,2)
    by simp
  moreover have "lista_mutexes ?S ! length ms = m" by (simp add: nth_append)
  ultimately show ?thesis
    using liberar_uno_traba [of p ?S "length ms" ev] assms(3) by (simp add: correr_liberar_mutexes_def split: prod.split)
qed

text \<open>So the clean-up returns exactly when the process holds no mutex that somebody waits for, and then it sends nothing.\<close>

lemma liberar_mutexes_eq:
  "liberar_mutexes_de_proceso p S =
     (if \<exists>m \<in> set (lista_mutexes S). se_traba_en p m then None
      else Some (S\<lparr>lista_mutexes := map (soltar p) (lista_mutexes S)\<rparr>, []))"
proof (cases "\<exists>m \<in> set (lista_mutexes S). se_traba_en p m")
  case True
  then obtain ms m zs where "lista_mutexes S = ms @ m # zs" "\<forall>m \<in> set ms. \<not> se_traba_en p m" "se_traba_en p m"
    using split_list_first_prop [of "lista_mutexes S" "se_traba_en p"] by blast
  then show ?thesis using True correr_liberar_traba [of S ms m zs p "[]"] by (auto simp: liberar_mutexes_de_proceso_def split: prod.split)
next
  case False
  then show ?thesis using correr_liberar_sigue [of S p "[]"] by (auto simp: liberar_mutexes_de_proceso_def)
qed

end
