(* ===== verification/Sched_Mutex.thy ===== *)
theory Sched_Mutex
  imports Sched_Estado
begin

text \<open>
  The mutex system calls of \<open>kernel_scheduler/src/utils_kernel_scheduler.c\<close> and what they keep:
  the tables of mutexes and of waiting processes agree, and a holder is at least as urgent as
  everyone who waits for it. A process is its pid.
\<close>

section \<open>System calls\<close>

definition mutex_nuevo :: "string \<Rightarrow> t_mutex_sistema" where
  "mutex_nuevo n = \<lparr>mut_nombre = n, asignado_a_pid = - 1, cola_bloqueados = []\<rparr>"

definition manejar_syscall_mutex_create :: "i32 \<Rightarrow> string list \<Rightarrow> t_scheduler \<Rightarrow> t_scheduler" where
  "manejar_syscall_mutex_create p params S =
     (case params of
        [] \<Rightarrow> S
      | n # _ \<Rightarrow> if buscar_mutex_por_nombre n S = None then registrar_mutex (mutex_nuevo n) S else S)"

text \<open>A new block episode and its timer.\<close>

definition arrancar_timer :: "i32 \<Rightarrow> t_scheduler \<Rightarrow> t_scheduler" where
  "arrancar_timer p S =
     (let S' = actualizar_pcb p (\<lambda>b. b\<lparr>block_epoch := block_epoch b + 1\<rparr>) S
      in case pcbs S' p of None \<Rightarrow> S' | Some b \<Rightarrow> notificar_proceso_en_block p (block_epoch b) S')"

text \<open>The flag tells whether the process blocked.\<close>

definition manejar_syscall_mutex_lock :: "i32 \<Rightarrow> string list \<Rightarrow> t_scheduler \<Rightarrow> t_scheduler \<times> bool" where
  "manejar_syscall_mutex_lock p params S =
     (case params of
        [] \<Rightarrow> (S, False)
      | n # _ \<Rightarrow>
          let S0 = (if buscar_mutex_por_nombre n S = None then registrar_mutex (mutex_nuevo n) S else S)
          in case buscar_mutex_por_nombre n S0 of
               None \<Rightarrow> (S0, False)
             | Some i \<Rightarrow>
                 if asignado_a_pid (lista_mutexes S0 ! i) = - 1
                 then (actualizar_mutex i (\<lambda>m. m\<lparr>asignado_a_pid := p\<rparr>) S0, False)
                 else
                   let S1 = actualizar_mutex i (\<lambda>m. m\<lparr>cola_bloqueados := cola_bloqueados m @ [p]\<rparr>)
                              (actualizar_pcb p (\<lambda>b. b\<lparr>estado := BLOCK, mutex_esperando := Some n\<rparr>) S0);
                       S2 = (case pcbs S1 p of None \<Rightarrow> S1 | Some b \<Rightarrow> propagar_herencia_prioridad p (prioridad_dinamica b) S1)
                   in (arrancar_timer p S2, True))"

definition manejar_syscall_mutex_unlock :: "i32 \<Rightarrow> string list \<Rightarrow> t_scheduler \<Rightarrow> t_scheduler \<times> evento list" where
  "manejar_syscall_mutex_unlock p params S =
     (case params of
        [] \<Rightarrow> (S, [])
      | n # _ \<Rightarrow>
          (case buscar_mutex_por_nombre n S of
             None \<Rightarrow> (S, [])
           | Some i \<Rightarrow>
               if asignado_a_pid (lista_mutexes S ! i) \<noteq> p then (S, [])
               else
                 let (S1, ev) = (case cola_bloqueados (lista_mutexes S ! i) of
                        [] \<Rightarrow> (actualizar_mutex i (\<lambda>m. m\<lparr>asignado_a_pid := - 1\<rparr>) S, [])
                      | q # qs \<Rightarrow>
                          let Sa = actualizar_pcb q (\<lambda>b. b\<lparr>mutex_esperando := None, estado := READY\<rparr>)
                                     (actualizar_mutex i (\<lambda>m. m\<lparr>asignado_a_pid := q, cola_bloqueados := qs\<rparr>) S);
                              (Sb, ev) = encolar_en_ready_y_notificar q Sa
                          in (recalcular_prioridad_dinamica q Sb, ev))
                 in (recalcular_prioridad_dinamica p S1, ev)))"

section \<open>What the operations keep of the tables\<close>

text \<open>What a process waits for, and how urgent it is.\<close>

definition espera :: "t_scheduler \<Rightarrow> i32 \<Rightarrow> (t_estado \<times> string option) option" where
  "espera S p = map_option (\<lambda>b. (estado b, mutex_esperando b)) (pcbs S p)"

definition urgencia :: "t_scheduler \<Rightarrow> i32 \<Rightarrow> int option" where
  "urgencia S p = map_option prioridad_dinamica (pcbs S p)"

definition tablas_ok :: "t_mutex_sistema list \<Rightarrow> (i32 \<Rightarrow> (t_estado \<times> string option) option) \<Rightarrow> bool" where
  "tablas_ok ms e \<longleftrightarrow>
     e (- 1) = None \<and> distinct (map mut_nombre ms) \<and>
     (\<forall>m \<in> set ms. (asignado_a_pid m = - 1 \<longrightarrow> cola_bloqueados m = []) \<and> distinct (cola_bloqueados m) \<and>
        (\<forall>q \<in> set (cola_bloqueados m). e q = Some (BLOCK, Some (mut_nombre m)))) \<and>
     (\<forall>p s n. e p = Some (s, Some n) \<longrightarrow> (\<exists>m \<in> set ms. mut_nombre m = n \<and> p \<in> set (cola_bloqueados m)))"

definition mutex_inv :: "t_scheduler \<Rightarrow> bool" where
  "mutex_inv S \<longleftrightarrow> tablas_ok (lista_mutexes S) (espera S)"

named_theorems vistas

lemma vistas_pcb [vistas]:
  "espera (actualizar_pcb p f S) = (espera S)(p := map_option (\<lambda>b. (estado (f b), mutex_esperando (f b))) (pcbs S p))"
  "urgencia (actualizar_pcb p f S) = (urgencia S)(p := map_option (\<lambda>b. prioridad_dinamica (f b)) (pcbs S p))"
  "lista_mutexes (actualizar_pcb p f S) = lista_mutexes S" "todos_los_procesos (actualizar_pcb p f S) = todos_los_procesos S"
  by (auto simp: espera_def urgencia_def actualizar_pcb_def option.map_comp comp_def fun_eq_iff)

lemma vistas_mutex [vistas]:
  "espera (actualizar_mutex i f S) = espera S" "urgencia (actualizar_mutex i f S) = urgencia S"
  "lista_mutexes (actualizar_mutex i f S) = (lista_mutexes S)[i := f (lista_mutexes S ! i)]"
  "todos_los_procesos (actualizar_mutex i f S) = todos_los_procesos S" "pcbs (actualizar_mutex i f S) = pcbs S"
  "espera (registrar_mutex m S) = espera S" "urgencia (registrar_mutex m S) = urgencia S"
  "lista_mutexes (registrar_mutex m S) = lista_mutexes S @ [m]"
  "todos_los_procesos (registrar_mutex m S) = todos_los_procesos S" "pcbs (registrar_mutex m S) = pcbs S"
  by (auto simp: espera_def urgencia_def actualizar_mutex_def registrar_mutex_def fun_eq_iff)

lemma vistas_timer [vistas]:
  "espera (arrancar_timer p S) = espera S" "urgencia (arrancar_timer p S) = urgencia S" "lista_mutexes (arrancar_timer p S) = lista_mutexes S"
  "todos_los_procesos (arrancar_timer p S) = todos_los_procesos S"
  by (auto simp: arrancar_timer_def notificar_proceso_en_block_def actualizar_pcb_def espera_def urgencia_def fun_eq_iff Let_def split: option.splits)

lemma vistas_prioridad [vistas]:
  "espera (poner_prioridad_dinamica p n S) = espera S"
  "urgencia (poner_prioridad_dinamica p n S) = (urgencia S)(p := map_option (\<lambda>_. n) (pcbs S p))"
  by (auto simp: espera_def urgencia_def option.map_comp comp_def fun_eq_iff)

lemma vistas_encolar [vistas]:
  "espera (fst (encolar_en_ready_y_notificar p S)) = (espera S)(p := map_option (\<lambda>b. (READY, mutex_esperando b)) (pcbs S p))"
  "urgencia (fst (encolar_en_ready_y_notificar p S)) = urgencia S"
  "lista_mutexes (fst (encolar_en_ready_y_notificar p S)) = lista_mutexes S"
  "todos_los_procesos (fst (encolar_en_ready_y_notificar p S)) = todos_los_procesos S"
  by (auto simp: encolar_en_ready_y_notificar_def reencolar_proceso_ready_final_def poner_cola_def espera_def urgencia_def
      actualizar_pcb_def fun_eq_iff Let_def split: option.splits)

lemma vistas_recalcular [vistas]:
  "espera (recalcular_prioridad_dinamica p S) = espera S"
  "urgencia (recalcular_prioridad_dinamica p S) = (urgencia S)(p := map_option (\<lambda>b. heredada p (prioridad b) S) (pcbs S p))"
  "lista_mutexes (recalcular_prioridad_dinamica p S) = lista_mutexes S"
  "todos_los_procesos (recalcular_prioridad_dinamica p S) = todos_los_procesos S"
  by (auto simp: recalcular_prioridad_dinamica_def Let_def vistas urgencia_def fun_eq_iff split: option.splits)

lemma vistas_propagar [vistas]:
  "espera (propagar_herencia_prioridad p h S) = espera S \<and> lista_mutexes (propagar_herencia_prioridad p h S) = lista_mutexes S \<and>
   todos_los_procesos (propagar_herencia_prioridad p h S) = todos_los_procesos S"
proof (induction p h S rule: propagar_herencia_prioridad.induct)
  case (1 p h S)
  show ?case
  proof (cases "poseedor_de p S")
    case None
    then show ?thesis by (simp add: propagar_herencia_prioridad.simps [of p h S])
  next
    case (Some x)
    obtain q b where x: "x = (q, b)" by (cases x)
    let ?S = "poner_prioridad_dinamica q h S"
    have IH: "espera (propagar_herencia_prioridad q h ?S) = espera ?S \<and> lista_mutexes (propagar_herencia_prioridad q h ?S) = lista_mutexes ?S \<and>
        todos_los_procesos (propagar_herencia_prioridad q h ?S) = todos_los_procesos ?S"
      if "h < prioridad_dinamica b" "mutex_esperando b \<noteq> None"
      by (rule 1 [OF Some x [symmetric] that(1) refl that(2)])
    show ?thesis
    proof (cases "h < prioridad_dinamica b \<and> mutex_esperando b \<noteq> None")
      case True
      then have "propagar_herencia_prioridad p h S = propagar_herencia_prioridad q h ?S"
        using Some x by (simp add: propagar_herencia_prioridad.simps [of p h S])
      then show ?thesis using IH True by (simp add: vistas)
    next
      case False
      then have "propagar_herencia_prioridad p h S \<in> {S, ?S}"
        using Some x by (auto simp: propagar_herencia_prioridad.simps [of p h S])
      then show ?thesis by (auto simp: vistas)
    qed
  qed
qed


lemma en_update: "m \<in> set (ms[i := x]) \<longleftrightarrow> i < length ms \<and> m = x \<or> (\<exists>j < length ms. j \<noteq> i \<and> m = ms ! j)"
  unfolding in_set_conv_nth length_list_update by (metis nth_list_update_eq nth_list_update_neq)

lemma nombres_distintos:
  "distinct (map mut_nombre ms) \<Longrightarrow> i < length ms \<Longrightarrow> j < length ms \<Longrightarrow> mut_nombre (ms ! i) = mut_nombre (ms ! j) \<Longrightarrow> i = j"
  using nth_eq_iff_index_eq [of "map mut_nombre ms" i j] by simp

lemma nombres_update: "i < length ms \<Longrightarrow> mut_nombre x = mut_nombre (ms ! i) \<Longrightarrow> map mut_nombre (ms[i := x]) = map mut_nombre ms"
  using list_update_id [of "map mut_nombre ms" i] by (simp add: map_update)

lemma tablas_okD:
  assumes "tablas_ok ms e" "i < length ms"
  shows "asignado_a_pid (ms ! i) = - 1 \<Longrightarrow> cola_bloqueados (ms ! i) = []" "distinct (cola_bloqueados (ms ! i))"
    "q \<in> set (cola_bloqueados (ms ! i)) \<Longrightarrow> e q = Some (BLOCK, Some (mut_nombre (ms ! i)))"
  using assms by (auto simp: tablas_ok_def)

text \<open>Every operation replaces one entry, or adds one.\<close>

lemma tablas_ok_update:
  assumes ok: "tablas_ok ms e" and i: "i < length ms" and x: "mut_nombre x = mut_nombre (ms ! i)"
      "asignado_a_pid x = - 1 \<Longrightarrow> cola_bloqueados x = []" "distinct (cola_bloqueados x)"
    and e': "e' (- 1) = None" "\<And>q. q \<in> set (cola_bloqueados x) \<Longrightarrow> e' q = Some (BLOCK, Some (mut_nombre x))"
      "\<And>q. e' q \<noteq> e q \<Longrightarrow> (q \<in> set (cola_bloqueados x) \<or> (\<forall>s n. e' q \<noteq> Some (s, Some n))) \<and>
         (\<forall>j < length ms. j \<noteq> i \<longrightarrow> q \<notin> set (cola_bloqueados (ms ! j)))"
      "\<And>q. q \<in> set (cola_bloqueados (ms ! i)) \<Longrightarrow> q \<in> set (cola_bloqueados x) \<or> (\<forall>s n. e' q \<noteq> Some (s, Some n))"
  shows "tablas_ok (ms[i := x]) e'"
  unfolding tablas_ok_def
proof (intro conjI ballI allI impI)
  show "e' (- 1) = None" by (rule e'(1))
  show "distinct (map mut_nombre (ms[i := x]))" using ok nombres_update [OF i x(1)] by (simp add: tablas_ok_def)
next
  fix m assume m: "m \<in> set (ms[i := x])"
  then consider "m = x" | j where "j < length ms" "j \<noteq> i" "m = ms ! j" using en_update [of m ms i x] by blast
  then have "(asignado_a_pid m = - 1 \<longrightarrow> cola_bloqueados m = []) \<and> distinct (cola_bloqueados m) \<and>
      (\<forall>q \<in> set (cola_bloqueados m). e' q = Some (BLOCK, Some (mut_nombre m)))"
  proof cases
    case 1
    then show ?thesis using x(2,3) e'(2) by simp
  next
    case 2
    then have "e' q = e q" if "q \<in> set (cola_bloqueados m)" for q using e'(3) [of q] that by blast
    then show ?thesis using tablas_okD [OF ok 2(1)] 2(3) by auto
  qed
  then show "asignado_a_pid m = - 1 \<Longrightarrow> cola_bloqueados m = []" "distinct (cola_bloqueados m)"
    "\<And>q. q \<in> set (cola_bloqueados m) \<Longrightarrow> e' q = Some (BLOCK, Some (mut_nombre m))" by auto
next
  fix p s n assume p: "e' p = Some (s, Some n)"
  have xin: "x \<in> set (ms[i := x])" using i en_update [of x ms i x] by blast
  show "\<exists>m \<in> set (ms[i := x]). mut_nombre m = n \<and> p \<in> set (cola_bloqueados m)"
  proof (cases "p \<in> set (cola_bloqueados x)")
    case True
    then have "mut_nombre x = n" using e'(2) [OF True] p by simp
    then show ?thesis using xin True by blast
  next
    case False
    then have "e' p = e p" using e'(3) [of p] p by blast
    then have "e p = Some (s, Some n)" using p by simp
    then obtain m where "m \<in> set ms" "mut_nombre m = n" "p \<in> set (cola_bloqueados m)" using ok unfolding tablas_ok_def by blast
    then obtain j where j: "j < length ms" "mut_nombre (ms ! j) = n" "p \<in> set (cola_bloqueados (ms ! j))" by (auto simp: in_set_conv_nth)
    then have "j \<noteq> i" using e'(4) [of p] False p by blast
    then show ?thesis using j en_update [of "ms ! j" ms i x] by blast
  qed
qed

lemma tablas_ok_nuevo:
  "tablas_ok ms e \<Longrightarrow> n \<notin> mut_nombre ` set ms \<Longrightarrow> tablas_ok (ms @ [mutex_nuevo n]) e"
  by (fastforce simp: tablas_ok_def mutex_nuevo_def)


lemma buscar_mutex_SomeD:
  "buscar_mutex_por_nombre n S = Some i \<Longrightarrow> i < length (lista_mutexes S) \<and> mut_nombre (lista_mutexes S ! i) = n"
  by (auto simp: buscar_mutex_por_nombre_def dest: buscar_idx_SomeD)

lemma buscar_mutex_NoneD: "buscar_mutex_por_nombre n S = None \<Longrightarrow> n \<notin> mut_nombre ` set (lista_mutexes S)"
  by (auto simp: buscar_mutex_por_nombre_def)

section \<open>Preservation\<close>

lemma mutex_inv_registrar:
  "mutex_inv S \<Longrightarrow> buscar_mutex_por_nombre n S = None \<Longrightarrow> mutex_inv (registrar_mutex (mutex_nuevo n) S)"
  using tablas_ok_nuevo [OF _ buscar_mutex_NoneD] by (simp add: mutex_inv_def vistas)

text \<open>The four updates: take a free mutex, queue up, release with nobody waiting, hand over.\<close>

lemma mutex_inv_tomar:
  assumes "mutex_inv S" "i < length (lista_mutexes S)" "asignado_a_pid (lista_mutexes S ! i) = - 1" "p \<noteq> - 1"
  shows "mutex_inv (actualizar_mutex i (\<lambda>m. m\<lparr>asignado_a_pid := p\<rparr>) S)"
proof -
  have ok: "tablas_ok (lista_mutexes S) (espera S)" using assms(1) by (simp add: mutex_inv_def)
  show ?thesis
    unfolding mutex_inv_def vistas
    by (rule tablas_ok_update [OF ok assms(2)]) (use tablas_okD [OF ok assms(2)] assms ok in \<open>auto simp: tablas_ok_def\<close>)
qed

lemma mutex_inv_soltar:
  assumes "mutex_inv S" "i < length (lista_mutexes S)" "cola_bloqueados (lista_mutexes S ! i) = []"
  shows "mutex_inv (actualizar_mutex i (\<lambda>m. m\<lparr>asignado_a_pid := - 1\<rparr>) S)"
proof -
  have ok: "tablas_ok (lista_mutexes S) (espera S)" using assms(1) by (simp add: mutex_inv_def)
  show ?thesis
    unfolding mutex_inv_def vistas
    by (rule tablas_ok_update [OF ok assms(2)]) (use tablas_okD [OF ok assms(2)] assms ok in \<open>auto simp: tablas_ok_def\<close>)
qed

lemma tablas_bloquear:
  assumes ok: "tablas_ok ms e" and i: "i < length ms" "asignado_a_pid (ms ! i) \<noteq> - 1" and p: "e p = Some (s, None)"
  shows "tablas_ok (ms[i := (ms ! i)\<lparr>cola_bloqueados := cola_bloqueados (ms ! i) @ [p]\<rparr>]) (e(p := Some (BLOCK, Some (mut_nombre (ms ! i)))))"
proof -
  have libre: "p \<notin> set (cola_bloqueados (ms ! j))" if "j < length ms" for j
    using tablas_okD(3) [OF ok that, of p] p by auto
  have "p \<noteq> - 1" using p ok by (auto simp: tablas_ok_def)
  then show ?thesis
    by (intro tablas_ok_update [OF ok i(1)])
      (use tablas_okD [OF ok i(1)] libre i ok in \<open>auto simp: tablas_ok_def\<close>)
qed

lemma tablas_pasar:
  assumes ok: "tablas_ok ms e" and i: "i < length ms" "cola_bloqueados (ms ! i) = q # qs"
  shows "tablas_ok (ms[i := (ms ! i)\<lparr>asignado_a_pid := q, cola_bloqueados := qs\<rparr>]) (e(q := Some (READY, None)))"
proof -
  have q: "e q = Some (BLOCK, Some (mut_nombre (ms ! i)))" "q \<notin> set qs" "distinct qs"
    using tablas_okD [OF ok i(1)] i(2) by auto
  then have "q \<noteq> - 1" using ok by (auto simp: tablas_ok_def)
  moreover have "q \<notin> set (cola_bloqueados (ms ! j))" if "j < length ms" "j \<noteq> i" for j
  proof
    assume "q \<in> set (cola_bloqueados (ms ! j))"
    then have "mut_nombre (ms ! j) = mut_nombre (ms ! i)" using tablas_okD(3) [OF ok that(1)] q(1) by simp
    then show False using nombres_distintos [OF _ that(1) i(1)] ok that(2) by (simp add: tablas_ok_def)
  qed
  ultimately show ?thesis
    by (intro tablas_ok_update [OF ok i(1)]) (use tablas_okD [OF ok i(1)] q i ok in \<open>auto simp: tablas_ok_def\<close>)
qed


lemma corriendo:
  assumes "mutex_inv S" "espera S p = Some (s, None)"
  shows "p \<noteq> - 1" "\<exists>b. pcbs S p = Some b \<and> mutex_esperando b = None"
  using assms by (auto simp: mutex_inv_def tablas_ok_def espera_def)

text \<open>The three outcomes of \<open>MUTEX_LOCK\<close> with a name, after the mutex has been created if needed.\<close>

definition con_mutex :: "string \<Rightarrow> t_scheduler \<Rightarrow> t_scheduler" where
  "con_mutex n S = (if buscar_mutex_por_nombre n S = None then registrar_mutex (mutex_nuevo n) S else S)"

lemma vistas_con_mutex [vistas]:
  "espera (con_mutex n S) = espera S" "urgencia (con_mutex n S) = urgencia S" "todos_los_procesos (con_mutex n S) = todos_los_procesos S"
  "pcbs (con_mutex n S) = pcbs S"
  by (simp_all add: con_mutex_def vistas)

lemma con_mutex_esta: "\<exists>i. buscar_mutex_por_nombre n (con_mutex n S) = Some i"
proof (cases "buscar_mutex_por_nombre n (con_mutex n S)")
  case None
  then have "n \<notin> mut_nombre ` set (lista_mutexes (con_mutex n S))" by (rule buscar_mutex_NoneD)
  moreover have "n \<in> mut_nombre ` set (lista_mutexes (con_mutex n S))"
  proof (cases "buscar_mutex_por_nombre n S")
    case None
    then show ?thesis by (simp add: con_mutex_def vistas mutex_nuevo_def)
  next
    case (Some i)
    then show ?thesis using buscar_mutex_SomeD [OF Some] by (auto simp: con_mutex_def)
  qed
  ultimately show ?thesis by contradiction
qed simp

lemma mutex_inv_con_mutex: "mutex_inv S \<Longrightarrow> mutex_inv (con_mutex n S)"
  by (simp add: con_mutex_def mutex_inv_registrar)

definition bloqueado_en :: "nat \<Rightarrow> i32 \<Rightarrow> string \<Rightarrow> t_scheduler \<Rightarrow> t_scheduler" where
  "bloqueado_en i p n S = actualizar_mutex i (\<lambda>m. m\<lparr>cola_bloqueados := cola_bloqueados m @ [p]\<rparr>)
     (actualizar_pcb p (\<lambda>b. b\<lparr>estado := BLOCK, mutex_esperando := Some n\<rparr>) S)"

lemma lock_libre:
  assumes "buscar_mutex_por_nombre n (con_mutex n S) = Some i" "asignado_a_pid (lista_mutexes (con_mutex n S) ! i) = - 1"
  shows "manejar_syscall_mutex_lock p (n # xs) S = (actualizar_mutex i (\<lambda>m. m\<lparr>asignado_a_pid := p\<rparr>) (con_mutex n S), False)"
  using assms by (simp add: manejar_syscall_mutex_lock_def con_mutex_def Let_def)

lemma lock_ocupado:
  assumes "buscar_mutex_por_nombre n (con_mutex n S) = Some i" "asignado_a_pid (lista_mutexes (con_mutex n S) ! i) \<noteq> - 1"
    and "pcbs S p = Some b"
  shows "manejar_syscall_mutex_lock p (n # xs) S =
    (arrancar_timer p
       (propagar_herencia_prioridad p (prioridad_dinamica b) (bloqueado_en i p n (con_mutex n S))), True)"
proof -
  have "pcbs (bloqueado_en i p n (con_mutex n S)) p = Some (b\<lparr>estado := BLOCK, mutex_esperando := Some n\<rparr>)"
    using assms(3) by (simp add: bloqueado_en_def vistas) (simp add: actualizar_pcb_def vistas)
  then show ?thesis
    using assms by (simp add: manejar_syscall_mutex_lock_def con_mutex_def [symmetric] bloqueado_en_def [symmetric] Let_def)
qed

lemma mutex_inv_timer [simp]: "mutex_inv (arrancar_timer p S) = mutex_inv S"
  by (simp add: mutex_inv_def vistas)

lemma espera_bloqueado:
  "espera S p = Some (s, None) \<Longrightarrow> espera (bloqueado_en i p n S) = (espera S)(p := Some (BLOCK, Some n))"
  by (auto simp: bloqueado_en_def vistas espera_def fun_eq_iff)

lemma mutex_inv_lock:
  assumes inv: "mutex_inv S" and p: "espera S p = Some (s, None)"
  shows "mutex_inv (fst (manejar_syscall_mutex_lock p params S))"
proof (cases params)
  case Nil
  then show ?thesis using inv by (simp add: manejar_syscall_mutex_lock_def)
next
  case (Cons n xs)
  let ?S = "con_mutex n S"
  obtain i where i: "buscar_mutex_por_nombre n ?S = Some i" using con_mutex_esta by blast
  note i' = buscar_mutex_SomeD [OF i]
  have inv': "mutex_inv ?S" by (rule mutex_inv_con_mutex [OF inv])
  have p': "espera ?S p = Some (s, None)" using p by (simp add: vistas)
  obtain b where b: "pcbs S p = Some b" using corriendo(2) [OF inv p] by auto
  show ?thesis
  proof (cases "asignado_a_pid (lista_mutexes ?S ! i) = - 1")
    case True
    then show ?thesis
      using lock_libre [OF i True, of p xs] mutex_inv_tomar [OF inv' _ True corriendo(1) [OF inv p]] i' Cons by simp
  next
    case False
    have "tablas_ok (lista_mutexes (bloqueado_en i p n ?S)) (espera (bloqueado_en i p n ?S))"
      using tablas_bloquear [of "lista_mutexes ?S" "espera ?S" i p s] inv' i' False p' espera_bloqueado [OF p', of i n]
      by (simp add: mutex_inv_def bloqueado_en_def vistas)
    then have "mutex_inv (propagar_herencia_prioridad p h (bloqueado_en i p n ?S))" for h by (simp add: mutex_inv_def vistas)
    then show ?thesis using lock_ocupado [OF i False b, of xs] Cons by simp
  qed
qed

definition traspaso :: "nat \<Rightarrow> i32 \<Rightarrow> i32 list \<Rightarrow> t_scheduler \<Rightarrow> t_scheduler" where
  "traspaso i q qs S = fst (encolar_en_ready_y_notificar q (actualizar_pcb q (\<lambda>b. b\<lparr>mutex_esperando := None, estado := READY\<rparr>)
     (actualizar_mutex i (\<lambda>m. m\<lparr>asignado_a_pid := q, cola_bloqueados := qs\<rparr>) S)))"

lemma unlock_casos:
  assumes "buscar_mutex_por_nombre n S = Some i" "asignado_a_pid (lista_mutexes S ! i) = p"
  shows "fst (manejar_syscall_mutex_unlock p (n # xs) S) =
    recalcular_prioridad_dinamica p (case cola_bloqueados (lista_mutexes S ! i) of
        [] \<Rightarrow> actualizar_mutex i (\<lambda>m. m\<lparr>asignado_a_pid := - 1\<rparr>) S
      | q # qs \<Rightarrow> recalcular_prioridad_dinamica q (traspaso i q qs S))"
  using assms by (auto simp: manejar_syscall_mutex_unlock_def traspaso_def Let_def split: list.splits prod.splits)

lemma vistas_traspaso:
  assumes "pcbs S q = Some b"
  shows "espera (traspaso i q qs S) = (espera S)(q := Some (READY, None))" "urgencia (traspaso i q qs S) = urgencia S"
    "lista_mutexes (traspaso i q qs S) = (lista_mutexes S)[i := (lista_mutexes S ! i)\<lparr>asignado_a_pid := q, cola_bloqueados := qs\<rparr>]"
    "todos_los_procesos (traspaso i q qs S) = todos_los_procesos S"
  using assms by (auto simp: traspaso_def vistas urgencia_def fun_eq_iff) (auto simp: actualizar_pcb_def vistas)

lemma mutex_inv_unlock:
  assumes inv: "mutex_inv S"
  shows "mutex_inv (fst (manejar_syscall_mutex_unlock p params S))"
proof (cases "\<exists>n xs i. params = n # xs \<and> buscar_mutex_por_nombre n S = Some i \<and> asignado_a_pid (lista_mutexes S ! i) = p")
  case False
  then have "fst (manejar_syscall_mutex_unlock p params S) = S"
    by (auto simp: manejar_syscall_mutex_unlock_def split: list.splits option.splits)
  then show ?thesis using inv by simp
next
  case True
  then obtain n xs i where i: "params = n # xs" "buscar_mutex_por_nombre n S = Some i" "asignado_a_pid (lista_mutexes S ! i) = p" by blast
  note i' = buscar_mutex_SomeD [OF i(2)]
  have ok: "tablas_ok (lista_mutexes S) (espera S)" using inv by (simp add: mutex_inv_def)
  show ?thesis
  proof (cases "cola_bloqueados (lista_mutexes S ! i)")
    case Nil
    then show ?thesis
      using mutex_inv_soltar [OF inv _ Nil] i' unlock_casos [OF i(2,3), of xs] i(1) by (simp add: mutex_inv_def vistas)
  next
    case (Cons q qs)
    then have "espera S q = Some (BLOCK, Some (mut_nombre (lista_mutexes S ! i)))" using tablas_okD(3) [OF ok, of i q] i' by simp
    then obtain b where "pcbs S q = Some b" by (auto simp: espera_def)
    then show ?thesis
      using tablas_pasar [OF ok _ Cons] i' unlock_casos [OF i(2,3), of xs] i(1) Cons
      by (simp add: mutex_inv_def vistas vistas_traspaso)
  qed
qed


section \<open>Priority inheritance\<close>

definition poseedor :: "t_scheduler \<Rightarrow> i32 \<Rightarrow> i32 option" where
  "poseedor S p = map_option fst (poseedor_de p S)"

lemma find_igual: "find (\<lambda>q. q = p) xs = (if p \<in> set xs then Some p else None)"
  by (induction xs) auto

lemma poseedor_vistas:
  "poseedor S p =
     (case espera S p of
        Some (s, Some n) \<Rightarrow>
          (case buscar_idx (\<lambda>m. mut_nombre m = n) (lista_mutexes S) of
             None \<Rightarrow> None
           | Some i \<Rightarrow> let q = asignado_a_pid (lista_mutexes S ! i)
                       in if q \<noteq> - 1 \<and> q \<in> set (todos_los_procesos S) \<and> espera S q \<noteq> None then Some q else None)
      | _ \<Rightarrow> None)"
  by (auto simp: poseedor_def poseedor_de_def espera_def buscar_mutex_por_nombre_def buscar_pcb_por_pid_def find_igual Let_def
      split: option.splits simp del: buscar_idx_None)

lemma poseedor_cong:
  assumes "espera S' p = espera S p" "lista_mutexes S' = lista_mutexes S" "todos_los_procesos S' = todos_los_procesos S"
    and "\<forall>q. (espera S' q = None) = (espera S q = None)"
  shows "poseedor S' p = poseedor S p"
  unfolding poseedor_vistas assms(1-3) using assms(4) by (auto simp: Let_def split: option.splits simp del: buscar_idx_None)

lemma poseedor_prioridad [simp]: "poseedor (poner_prioridad_dinamica q h S) = poseedor S" "poseedor (recalcular_prioridad_dinamica q S) = poseedor S"
  by (intro ext poseedor_cong; simp add: vistas)+

lemma urgencia_espera: "urgencia S p = None \<longleftrightarrow> espera S p = None"
  by (simp add: urgencia_def espera_def)

text \<open>A holder is at least as urgent as everyone who waits for it (lower is more urgent).\<close>

definition herencia_ok :: "t_scheduler \<Rightarrow> bool" where
  "herencia_ok S \<longleftrightarrow> (\<forall>x y u v. poseedor S x = Some y \<longrightarrow> urgencia S x = Some u \<longrightarrow> urgencia S y = Some v \<longrightarrow> v \<le> u)"

lemma propagar_herencia:
  assumes "\<forall>x y u v. x \<noteq> p \<longrightarrow> poseedor S x = Some y \<longrightarrow> urgencia S x = Some u \<longrightarrow> urgencia S y = Some v \<longrightarrow> v \<le> u"
    and "urgencia S p = Some h"
  shows "herencia_ok (propagar_herencia_prioridad p h S)"
  using assms
proof (induction p h S rule: propagar_herencia_prioridad.induct)
  case (1 p h S)
  show ?case
  proof (cases "poseedor_de p S")
    case None
    then have "poseedor S p = None" by (simp add: poseedor_def)
    then have "herencia_ok S" using 1(2) by (metis herencia_ok_def option.distinct(1))
    then show ?thesis using None by (simp add: propagar_herencia_prioridad.simps [of p h S])
  next
    case (Some x)
    obtain q b where x: "x = (q, b)" by (cases x)
    let ?S = "poner_prioridad_dinamica q h S"
    have q: "poseedor S p = Some q" "pcbs S q = Some b" "urgencia S q = Some (prioridad_dinamica b)"
      using Some x poseedor_de_SomeD [of p S q b] by (auto simp: poseedor_def urgencia_def)
    show ?thesis
    proof (cases "h < prioridad_dinamica b")
      case False
      then have "herencia_ok S"
        unfolding herencia_ok_def using 1(2,3) q by (metis option.inject not_le)
      then show ?thesis using False Some x by (simp add: propagar_herencia_prioridad.simps [of p h S])
    next
      case True
      then have pq: "p \<noteq> q" using 1(3) q(3) by auto
      have u: "urgencia ?S = (urgencia S)(q := Some h)" using q(2) by (simp add: vistas)
      have salvo: "\<forall>x y u v. x \<noteq> q \<longrightarrow> poseedor ?S x = Some y \<longrightarrow> urgencia ?S x = Some u \<longrightarrow> urgencia ?S y = Some v \<longrightarrow> v \<le> u"
      proof (intro allI impI)
        fix x y u v assume a: "x \<noteq> q" "poseedor ?S x = Some y" "urgencia ?S x = Some u" "urgencia ?S y = Some v"
        show "v \<le> u"
        proof (cases "x = p")
          case True
          then show ?thesis using a q(1) u 1(3) pq by simp
        next
          case False
          then show ?thesis using 1(2) [rule_format, of x y u] a u q(3) True by (auto split: if_splits)
        qed
      qed
      show ?thesis
      proof (cases "mutex_esperando b")
        case None
        then have "espera S q = Some (estado b, None)" using q(2) by (simp add: espera_def)
        then have "poseedor ?S q = None" by (simp add: poseedor_vistas [of S q])
        then have "herencia_ok ?S" unfolding herencia_ok_def using salvo by (metis option.distinct(1))
        then show ?thesis using True Some x None by (simp add: propagar_herencia_prioridad.simps [of p h S])
      next
        case (Some n)
        then have n: "mutex_esperando b \<noteq> None" by simp
        have "propagar_herencia_prioridad p h S = propagar_herencia_prioridad q h ?S"
          using True \<open>poseedor_de p S = Some x\<close> x n by (simp add: propagar_herencia_prioridad.simps [of p h S])
        then show ?thesis
          using 1(1) [OF \<open>poseedor_de p S = Some x\<close> x [symmetric] True refl n salvo] u by simp
      qed
    qed
  qed
qed


lemma poseedor_iff:
  assumes "mutex_inv S"
  shows "poseedor S x = Some y \<longleftrightarrow>
    (\<exists>m \<in> set (lista_mutexes S). x \<in> set (cola_bloqueados m) \<and> asignado_a_pid m = y) \<and> y \<in> set (todos_los_procesos S) \<and> espera S y \<noteq> None"
proof -
  let ?ms = "lista_mutexes S"
  have ok: "tablas_ok ?ms (espera S)" using assms by (simp add: mutex_inv_def)
  have una: "m = ?ms ! i" if a: "m \<in> set ?ms" "i < length ?ms" "mut_nombre (?ms ! i) = mut_nombre m" for m i
  proof -
    obtain j where j: "j < length ?ms" "m = ?ms ! j" using a(1) by (auto simp: in_set_conv_nth)
    moreover have "distinct (map mut_nombre ?ms)" using ok by (simp add: tablas_ok_def)
    ultimately show ?thesis using nombres_distintos [of ?ms i j] a(2,3) by simp
  qed
  have wait: "espera S x = Some (BLOCK, Some (mut_nombre m))" if "m \<in> set ?ms" "x \<in> set (cola_bloqueados m)" for m
    using ok that by (auto simp: tablas_ok_def)
  have hay: "\<exists>i. buscar_idx (\<lambda>m'. mut_nombre m' = mut_nombre m) ?ms = Some i" if "m \<in> set ?ms" for m
    using that buscar_idx_None [of "\<lambda>m'. mut_nombre m' = mut_nombre m" ?ms] by (auto simp del: buscar_idx_None)
  show ?thesis
  proof
    assume l: "poseedor S x = Some y"
    then obtain s n i where n: "espera S x = Some (s, Some n)" "buscar_idx (\<lambda>m. mut_nombre m = n) ?ms = Some i"
        "asignado_a_pid (?ms ! i) = y" "y \<in> set (todos_los_procesos S)" "espera S y \<noteq> None"
      by (auto simp: poseedor_vistas Let_def split: option.splits if_splits simp del: buscar_idx_None)
    obtain m where m: "m \<in> set ?ms" "mut_nombre m = n" "x \<in> set (cola_bloqueados m)" using ok n(1) unfolding tablas_ok_def by blast
    have "m = ?ms ! i" using una [OF m(1)] buscar_idx_SomeD [OF n(2)] m(2) by auto
    then show "(\<exists>m \<in> set ?ms. x \<in> set (cola_bloqueados m) \<and> asignado_a_pid m = y) \<and> y \<in> set (todos_los_procesos S) \<and> espera S y \<noteq> None"
      using m n by blast
  next
    assume r: "(\<exists>m \<in> set ?ms. x \<in> set (cola_bloqueados m) \<and> asignado_a_pid m = y) \<and> y \<in> set (todos_los_procesos S) \<and> espera S y \<noteq> None"
    then obtain m where m: "m \<in> set ?ms" "x \<in> set (cola_bloqueados m)" "asignado_a_pid m = y" by blast
    obtain i where i: "buscar_idx (\<lambda>m'. mut_nombre m' = mut_nombre m) ?ms = Some i" using hay [OF m(1)] by blast
    have "m = ?ms ! i" using una [OF m(1)] buscar_idx_SomeD [OF i] by auto
    then have a: "asignado_a_pid (?ms ! i) = y" using m(3) by simp
    have y: "y \<noteq> - 1 \<and> y \<in> set (todos_los_procesos S) \<and> espera S y \<noteq> None" using r ok by (auto simp: tablas_ok_def)
    show "poseedor S x = Some y"
      unfolding poseedor_vistas [of S x] wait [OF m(1,2)] option.case prod.case i a Let_def using y by (rule if_P)
  qed
qed

lemma fold_minimo:
  "fold (\<lambda>q acc. case pcbs S q of None \<Rightarrow> acc | Some b \<Rightarrow> if prioridad_dinamica b < acc then prioridad_dinamica b else acc) qs acc \<le> acc \<and>
   (\<forall>q \<in> set qs. \<forall>b. pcbs S q = Some b \<longrightarrow>
      fold (\<lambda>q acc. case pcbs S q of None \<Rightarrow> acc | Some b \<Rightarrow> if prioridad_dinamica b < acc then prioridad_dinamica b else acc) qs acc \<le> prioridad_dinamica b)"
proof (induction qs arbitrary: acc)
  case (Cons q qs)
  show ?case
  proof (cases "pcbs S q")
    case None
    then show ?thesis using Cons [of acc] by simp
  next
    case (Some b)
    then show ?thesis using Cons [of "if prioridad_dinamica b < acc then prioridad_dinamica b else acc"] by (auto split: if_splits)
  qed
qed simp

lemma heredada_le:
  assumes "m \<in> set (lista_mutexes S)" "asignado_a_pid m = p" "q \<in> set (cola_bloqueados m)" "pcbs S q = Some b"
  shows "heredada p h S \<le> prioridad_dinamica b"
proof -
  let ?g = "\<lambda>m acc. if asignado_a_pid m = p
     then fold (\<lambda>q acc. case pcbs S q of None \<Rightarrow> acc | Some b \<Rightarrow> if prioridad_dinamica b < acc then prioridad_dinamica b else acc) (cola_bloqueados m) acc
     else acc"
  have baja: "fold ?g ms acc \<le> acc" for ms and acc :: int
  proof (induction ms arbitrary: acc)
    case (Cons m ms)
    have "?g m acc \<le> acc" using fold_minimo [of S "cola_bloqueados m" acc] by simp
    from order_trans [OF Cons [of "?g m acc"] this] show ?case by (simp only: fold_Cons comp_apply)
  qed simp
  have "fold ?g ms acc \<le> prioridad_dinamica b" if "m \<in> set ms" for ms and acc :: int
    using that
  proof (induction ms arbitrary: acc)
    case (Cons m' ms)
    show ?case
    proof (cases "m' = m")
      case True
      have "?g m acc \<le> prioridad_dinamica b" using fold_minimo [of S "cola_bloqueados m" acc] assms(2-) by simp
      from order_trans [OF baja [of ms "?g m acc"] this] show ?thesis unfolding True by (simp only: fold_Cons comp_apply)
    next
      case False
      then show ?thesis using Cons.IH [of "?g m' acc"] Cons.prems by simp
    qed
  qed simp
  then show ?thesis using assms(1) by (simp add: heredada_def)
qed

lemma recalcular_herencia:
  assumes inv: "mutex_inv S" and p: "espera S p = Some (s, None)"
    and salvo: "\<And>x y u v. y \<noteq> p \<Longrightarrow> poseedor S x = Some y \<Longrightarrow> urgencia S x = Some u \<Longrightarrow> urgencia S y = Some v \<Longrightarrow> v \<le> u"
  shows "herencia_ok (recalcular_prioridad_dinamica p S)"
  unfolding herencia_ok_def
proof (intro allI impI)
  fix x y u v
  assume a: "poseedor (recalcular_prioridad_dinamica p S) x = Some y" "urgencia (recalcular_prioridad_dinamica p S) x = Some u"
    "urgencia (recalcular_prioridad_dinamica p S) y = Some v"
  have e: "poseedor S x = Some y" using a(1) by simp
  have xp: "x \<noteq> p" using e p by (auto simp: poseedor_vistas)
  then have u: "urgencia S x = Some u" using a(2) by (simp add: vistas)
  show "v \<le> u"
  proof (cases "y = p")
    case False
    then show ?thesis using salvo [OF False e u] a(3) by (simp add: vistas)
  next
    case True
    obtain m where m: "m \<in> set (lista_mutexes S)" "x \<in> set (cola_bloqueados m)" "asignado_a_pid m = p" using e True poseedor_iff [OF inv] by blast
    obtain b where b: "pcbs S x = Some b" "prioridad_dinamica b = u" using u by (auto simp: urgencia_def)
    have "\<exists>h. v = heredada p h S" using a(3) True by (auto simp: vistas)
    then show ?thesis using heredada_le [OF m(1,3,2) b(1)] b(2) by blast
  qed
qed


text \<open>An operation keeps the inheritance when every edge it leaves was there before.\<close>

lemma herencia_menos_aristas:
  assumes "herencia_ok S" "mutex_inv S" "mutex_inv S'" "urgencia S' = urgencia S" "set (todos_los_procesos S') \<subseteq> set (todos_los_procesos S)"
    and "\<And>x m. m \<in> set (lista_mutexes S') \<Longrightarrow> x \<in> set (cola_bloqueados m) \<Longrightarrow> asignado_a_pid m = y \<Longrightarrow>
      P x y \<Longrightarrow> \<exists>m \<in> set (lista_mutexes S). x \<in> set (cola_bloqueados m) \<and> asignado_a_pid m = y"
    and "P x y" "poseedor S' x = Some y" "urgencia S' x = Some u" "urgencia S' y = Some v"
  shows "v \<le> u"
proof -
  have "\<exists>m \<in> set (lista_mutexes S). x \<in> set (cola_bloqueados m) \<and> asignado_a_pid m = y"
    using assms(6) [of _ x] assms(7,8) poseedor_iff [OF assms(3)] by blast
  moreover have "y \<in> set (todos_los_procesos S)" using assms(5,8) poseedor_iff [OF assms(3)] by blast
  moreover have "espera S y \<noteq> None" using assms(4,10) urgencia_espera [of S y] by auto
  ultimately have "poseedor S x = Some y" using poseedor_iff [OF assms(2)] by blast
  then show ?thesis using assms(1,4,9,10) unfolding herencia_ok_def by metis
qed

lemma herencia_con_mutex:
  assumes "herencia_ok S" "mutex_inv S"
  shows "herencia_ok (con_mutex n S)"
proof -
  have "\<exists>m \<in> set (lista_mutexes S). x \<in> set (cola_bloqueados m) \<and> asignado_a_pid m = y"
    if "m \<in> set (lista_mutexes (con_mutex n S))" "x \<in> set (cola_bloqueados m)" "asignado_a_pid m = y" for m x y
    using that by (auto simp: con_mutex_def vistas mutex_nuevo_def split: if_splits)
  then show ?thesis
    unfolding herencia_ok_def
    using herencia_menos_aristas [OF assms mutex_inv_con_mutex [OF assms(2)], where P = "\<lambda>_ _. True"] by (simp add: vistas) blast
qed

lemma herencia_sin_cola:
  assumes "herencia_ok S" "mutex_inv S" "mutex_inv (actualizar_mutex i (\<lambda>m. m\<lparr>asignado_a_pid := p\<rparr>) S)"
    and "i < length (lista_mutexes S)" "cola_bloqueados (lista_mutexes S ! i) = []"
  shows "herencia_ok (actualizar_mutex i (\<lambda>m. m\<lparr>asignado_a_pid := p\<rparr>) S)"
proof -
  let ?S = "actualizar_mutex i (\<lambda>m. m\<lparr>asignado_a_pid := p\<rparr>) S"
  have "\<exists>m \<in> set (lista_mutexes S). x \<in> set (cola_bloqueados m) \<and> asignado_a_pid m = y"
    if "m \<in> set (lista_mutexes ?S)" "x \<in> set (cola_bloqueados m)" "asignado_a_pid m = y" for m x y
    using that assms(5) unfolding vistas en_update by auto
  then show ?thesis
    unfolding herencia_ok_def using herencia_menos_aristas [OF assms(1-3), where P = "\<lambda>_ _. True"] by (simp add: vistas)
qed

lemma herencia_lock:
  assumes her: "herencia_ok S" and inv: "mutex_inv S" and p: "espera S p = Some (s, None)"
  shows "herencia_ok (fst (manejar_syscall_mutex_lock p params S))"
proof (cases params)
  case Nil
  then show ?thesis using her by (simp add: manejar_syscall_mutex_lock_def)
next
  case (Cons n xs)
  let ?S = "con_mutex n S"
  obtain i where i: "buscar_mutex_por_nombre n ?S = Some i" using con_mutex_esta by blast
  note i' = buscar_mutex_SomeD [OF i]
  have inv': "mutex_inv ?S" "herencia_ok ?S" using mutex_inv_con_mutex [OF inv] herencia_con_mutex [OF her inv] .
  have p': "espera ?S p = Some (s, None)" using p by (simp add: vistas)
  obtain b where b: "pcbs S p = Some b" using corriendo(2) [OF inv p] by auto
  show ?thesis
  proof (cases "asignado_a_pid (lista_mutexes ?S ! i) = - 1")
    case True
    then have "cola_bloqueados (lista_mutexes ?S ! i) = []" using inv'(1) i' tablas_okD(1) by (auto simp: mutex_inv_def)
    then show ?thesis
      using lock_libre [OF i True, of p xs] herencia_sin_cola [OF inv'(2,1) mutex_inv_tomar [OF inv'(1) _ True corriendo(1) [OF inv p]]] i' Cons by simp
  next
    case False
    let ?B = "bloqueado_en i p n ?S"
    have tb: "mutex_inv ?B"
      using tablas_bloquear [of "lista_mutexes ?S" "espera ?S" i p s] inv'(1) i' False p' espera_bloqueado [OF p', of i n]
      by (simp add: mutex_inv_def bloqueado_en_def vistas)
    have ub: "urgencia ?B = urgencia ?S" by (auto simp: bloqueado_en_def vistas urgencia_def fun_eq_iff)
    have "v \<le> u" if "x \<noteq> p" "poseedor ?B x = Some y" "urgencia ?B x = Some u" "urgencia ?B y = Some v" for x y u v
    proof (rule herencia_menos_aristas [OF inv'(2,1) tb ub _ _ _ that(2-4), where P = "\<lambda>x _. x \<noteq> p"])
      fix x m assume m: "m \<in> set (lista_mutexes ?B)" "x \<in> set (cola_bloqueados m)" "asignado_a_pid m = y" "x \<noteq> p"
      then show "\<exists>m \<in> set (lista_mutexes ?S). x \<in> set (cola_bloqueados m) \<and> asignado_a_pid m = y"
        using i' unfolding bloqueado_en_def vistas en_update by auto
    qed (use that(1) in \<open>simp_all add: bloqueado_en_def vistas\<close>)
    moreover have "urgencia ?B p = Some (prioridad_dinamica b)" using b by (simp add: ub vistas) (simp add: urgencia_def)
    ultimately have "herencia_ok (propagar_herencia_prioridad p (prioridad_dinamica b) ?B)" by (intro propagar_herencia) blast+
    moreover have "herencia_ok (arrancar_timer p T) = herencia_ok T" for T
      using poseedor_cong [of "arrancar_timer p T" _ T] unfolding herencia_ok_def vistas_timer by simp
    ultimately show ?thesis using lock_ocupado [OF i False b, of xs] Cons by simp
  qed
qed

lemma herencia_unlock:
  assumes her: "herencia_ok S" and inv: "mutex_inv S" and p: "espera S p = Some (s, None)"
  shows "herencia_ok (fst (manejar_syscall_mutex_unlock p params S))"
proof (cases "\<exists>n xs i. params = n # xs \<and> buscar_mutex_por_nombre n S = Some i \<and> asignado_a_pid (lista_mutexes S ! i) = p")
  case False
  then have "fst (manejar_syscall_mutex_unlock p params S) = S"
    by (auto simp: manejar_syscall_mutex_unlock_def split: list.splits option.splits)
  then show ?thesis using her by simp
next
  case True
  then obtain n xs i where i: "params = n # xs" "buscar_mutex_por_nombre n S = Some i" "asignado_a_pid (lista_mutexes S ! i) = p" by blast
  note i' = buscar_mutex_SomeD [OF i(2)]
  have ok: "tablas_ok (lista_mutexes S) (espera S)" using inv by (simp add: mutex_inv_def)
  show ?thesis
  proof (cases "cola_bloqueados (lista_mutexes S ! i)")
    case Nil
    let ?S = "actualizar_mutex i (\<lambda>m. m\<lparr>asignado_a_pid := - 1\<rparr>) S"
    have inv1: "mutex_inv ?S" using mutex_inv_soltar [OF inv _ Nil] i' by simp
    have "herencia_ok ?S" using herencia_sin_cola [OF her inv inv1 _ Nil] i' by simp
    then have "herencia_ok (recalcular_prioridad_dinamica p ?S)"
      by (intro recalcular_herencia [OF inv1, of p s]) (use p in \<open>auto simp: herencia_ok_def vistas\<close>)
    then show ?thesis using unlock_casos [OF i(2,3), of xs] i(1) Nil by simp
  next
    case (Cons q qs)
    let ?T = "traspaso i q qs S"
    have q: "espera S q = Some (BLOCK, Some n)" using tablas_okD(3) [OF ok, of i q] i' Cons by simp
    then obtain b where b: "pcbs S q = Some b" by (auto simp: espera_def)
    note vt = vistas_traspaso [OF b, of i qs]
    have inv1: "mutex_inv ?T" using tablas_pasar [OF ok _ Cons] i' by (simp add: mutex_inv_def vt)
    have "herencia_ok (recalcular_prioridad_dinamica q ?T)"
    proof (rule recalcular_herencia [OF inv1])
      show "espera ?T q = Some (READY, None)" by (simp add: vt)
      fix x y u v assume a: "y \<noteq> q" "poseedor ?T x = Some y" "urgencia ?T x = Some u" "urgencia ?T y = Some v"
      show "v \<le> u"
      proof (rule herencia_menos_aristas [OF her inv inv1 vt(2) _ _ _ a(2-4), where P = "\<lambda>_ y. y \<noteq> q"])
        fix x m assume m: "m \<in> set (lista_mutexes ?T)" "x \<in> set (cola_bloqueados m)" "asignado_a_pid m = y" "y \<noteq> q"
        then show "\<exists>m \<in> set (lista_mutexes S). x \<in> set (cola_bloqueados m) \<and> asignado_a_pid m = y"
          unfolding vt(3) en_update by auto
      qed (use a(1) in \<open>simp_all add: vt\<close>)
    qed
    moreover have "mutex_inv (recalcular_prioridad_dinamica q ?T)" using inv1 by (simp add: mutex_inv_def vistas)
    moreover have "espera (recalcular_prioridad_dinamica q ?T) p = Some (s, None)" using p q by (auto simp: vistas vt)
    ultimately have "herencia_ok (recalcular_prioridad_dinamica p (recalcular_prioridad_dinamica q ?T))"
      by (intro recalcular_herencia [where p = p]) (auto simp: herencia_ok_def)
    then show ?thesis using unlock_casos [OF i(2,3), of xs] i(1) Cons by simp
  qed
qed


section \<open>Properties\<close>

text \<open>
  C37. The mutex system calls of a running process keep the tables consistent (one entry per
  name, a free mutex has no queue, exactly the processes blocked on a mutex are in its queue)
  and keep the inheritance of priorities: along every chain of waiting, a holder is at least
  as urgent as those who wait for it. The propagation ends even when processes wait for each
  other in a circle, because \<open>propagar_herencia_prioridad\<close> is total.
\<close>

theorem mutex_conserva:
  assumes "mutex_inv S" "herencia_ok S" "espera S p = Some (s, None)"
  shows "(let S' = manejar_syscall_mutex_create p params S in mutex_inv S' \<and> herencia_ok S') \<and>
    (let S' = fst (manejar_syscall_mutex_lock p params S) in mutex_inv S' \<and> herencia_ok S') \<and>
    (let S' = fst (manejar_syscall_mutex_unlock p params S) in mutex_inv S' \<and> herencia_ok S')"
proof -
  have "manejar_syscall_mutex_create p params S = (case params of [] \<Rightarrow> S | n # _ \<Rightarrow> con_mutex n S)"
    by (simp add: manejar_syscall_mutex_create_def con_mutex_def split: list.splits)
  then have "mutex_inv (manejar_syscall_mutex_create p params S)" "herencia_ok (manejar_syscall_mutex_create p params S)"
    using assms(1,2) mutex_inv_con_mutex herencia_con_mutex by (simp_all split: list.splits)
  then show ?thesis
    using mutex_inv_lock [OF assms(1,3)] herencia_lock [OF assms(2,1,3)] mutex_inv_unlock [OF assms(1)] herencia_unlock [OF assms(2,1,3)]
    by simp
qed

definition pcb_ejemplo :: t_pcb where
  "pcb_ejemplo = \<lparr>prioridad = 1, estado = EXEC, quantum_restante = 0, tiempo_llegada = 0, tiempo_inicio_ejecucion = 0, prioridad_dinamica = 1,
     tiempo_total_cpu = 0, conteo_context_switch = 0, mutex_esperando = None, suspendido_en_swap = False, block_epoch = 0, total_memoria = 0,
     segmentos_info = [], stdin_pendiente = None, stdin_pendiente_dir = 0, stdin_pendiente_size = 0\<rparr>"

definition scheduler_ejemplo :: t_scheduler where
  "scheduler_ejemplo = \<lparr>config_scheduler = \<lparr>planification_algorithm = Some ''CMN'', queue_preemption = Some ''TRUE'', rr_quantum = 100,
        suspension_timeout = 0, algoritmos_colas = [Some ''RR'', Some ''FIFO'']\<rparr>,
     pcbs = (\<lambda>_. None)(1 := Some pcb_ejemplo, 2 := Some (pcb_ejemplo\<lparr>estado := BLOCK, prioridad_dinamica := 3, mutex_esperando := Some ''m''\<rparr>),
        3 := Some (pcb_ejemplo\<lparr>prioridad := 0, prioridad_dinamica := 0\<rparr>)),
     todos_los_procesos = [1, 2, 3], lista_mutexes = [\<lparr>mut_nombre = ''m'', asignado_a_pid = 1, cola_bloqueados = [2]\<rparr>],
     cola_procesos_new = Some [], cola_procesos_ready = Some [], colas_prioridad = [[], []], sem_new = 0, sem_ready = 0,
     sem_cpu_disponible = 0, sem_reevaluar_suspendidos = 0, sc_cpus = [], cola_procesos_block = [], lista_suspendidos = [],
     sistema_corrupto = False, compactacion_activa = False, contador_pids = 4, reloj = 0, tabla_ios = [], timers_suspension = [], volcados_en_vuelo = []\<rparr>"

lemma scheduler_ejemplo_ok:
  "mutex_inv scheduler_ejemplo" "herencia_ok scheduler_ejemplo" "espera scheduler_ejemplo 3 = Some (EXEC, None)" "espera scheduler_ejemplo 1 = Some (EXEC, None)"
proof -
  have e: "espera scheduler_ejemplo = (\<lambda>_. None)(1 := Some (EXEC, None), 2 := Some (BLOCK, Some ''m''), 3 := Some (EXEC, None))"
    "urgencia scheduler_ejemplo = (\<lambda>_. None)(1 := Some 1, 2 := Some 3, 3 := Some 0)"
    "lista_mutexes scheduler_ejemplo = [\<lparr>mut_nombre = ''m'', asignado_a_pid = 1, cola_bloqueados = [2]\<rparr>]"
    by (auto simp: scheduler_ejemplo_def espera_def urgencia_def pcb_ejemplo_def fun_eq_iff)
  show inv: "mutex_inv scheduler_ejemplo" by (auto simp: mutex_inv_def tablas_ok_def e split: if_splits)
  show "herencia_ok scheduler_ejemplo" unfolding herencia_ok_def poseedor_iff [OF inv] e by (auto split: if_splits)
  show "espera scheduler_ejemplo 3 = Some (EXEC, None)" "espera scheduler_ejemplo 1 = Some (EXEC, None)" by (simp_all add: e)
qed

lemma mutex_conserva_witness:
  "mutex_inv (fst (manejar_syscall_mutex_lock 3 [''m''] scheduler_ejemplo)) \<and> herencia_ok (fst (manejar_syscall_mutex_lock 3 [''m''] scheduler_ejemplo))"
  using mutex_conserva [OF scheduler_ejemplo_ok(1-3), of "[''m'']"] by (simp only: Let_def)

text \<open>
  C38. A mutex is handed over in order of arrival. Locking a held mutex appends the process to
  its queue and blocks it; when the holder unlocks, the first of the queue becomes the holder
  and is READY, or the mutex is free if nobody waits; the other mutexes keep holder and queue.
\<close>

theorem mutex_fifo:
  assumes inv: "mutex_inv S" and i: "buscar_mutex_por_nombre n S = Some i" "m = lista_mutexes S ! i" "asignado_a_pid m = p"
    and p: "espera S p = Some (s, None)" and r: "espera S r = Some (t, None)"
    and lock: "manejar_syscall_mutex_lock r (n # xs) S = (S1, bloqueo)" and unlock: "manejar_syscall_mutex_unlock p (n # ys) S = (S2, ev)"
  shows "bloqueo \<and> espera S1 r = Some (BLOCK, Some n) \<and>
    lista_mutexes S1 = (lista_mutexes S)[i := m\<lparr>cola_bloqueados := cola_bloqueados m @ [r]\<rparr>] \<and>
    (case cola_bloqueados m of
       [] \<Rightarrow> lista_mutexes S2 = (lista_mutexes S)[i := m\<lparr>asignado_a_pid := - 1\<rparr>]
     | q # qs \<Rightarrow> lista_mutexes S2 = (lista_mutexes S)[i := m\<lparr>asignado_a_pid := q, cola_bloqueados := qs\<rparr>] \<and> espera S2 q = Some (READY, None))"
proof -
  note i' = buscar_mutex_SomeD [OF i(1)]
  have con: "con_mutex n S = S" using i(1) by (simp add: con_mutex_def)
  have ocupado: "asignado_a_pid (lista_mutexes (con_mutex n S) ! i) \<noteq> - 1" using corriendo(1) [OF inv p] i con by simp
  obtain b where b: "pcbs S r = Some b" using corriendo(2) [OF inv r] by auto
  have "S1 = arrancar_timer r (propagar_herencia_prioridad r (prioridad_dinamica b) (bloqueado_en i r n S))"
    "bloqueo" using lock lock_ocupado [OF _ ocupado b, of xs] i(1) con by simp_all
  then have l: "espera S1 = espera (bloqueado_en i r n S)" "lista_mutexes S1 = lista_mutexes (bloqueado_en i r n S)" "bloqueo"
    by (simp_all only: vistas_timer vistas_pcb(3) vistas_propagar [THEN conjunct1] vistas_propagar [THEN conjunct2, THEN conjunct1])
  have ok: "tablas_ok (lista_mutexes S) (espera S)" using inv by (simp add: mutex_inv_def)
  have u: "S2 = fst (manejar_syscall_mutex_unlock p (n # ys) S)" using unlock by simp
  have "case cola_bloqueados m of
       [] \<Rightarrow> lista_mutexes S2 = (lista_mutexes S)[i := m\<lparr>asignado_a_pid := - 1\<rparr>]
     | q # qs \<Rightarrow> lista_mutexes S2 = (lista_mutexes S)[i := m\<lparr>asignado_a_pid := q, cola_bloqueados := qs\<rparr>] \<and> espera S2 q = Some (READY, None)"
  proof (cases "cola_bloqueados m")
    case Nil
    then show ?thesis using u unlock_casos [OF i(1), of p ys] i(2,3) by (simp add: vistas)
  next
    case (Cons q qs)
    then have "espera S q = Some (BLOCK, Some n)" using tablas_okD(3) [OF ok, of i q] i' i(2) by simp
    then obtain b where "pcbs S q = Some b" by (auto simp: espera_def)
    then show ?thesis using u unlock_casos [OF i(1), of p ys] i(2,3) Cons by (simp add: vistas vistas_traspaso)
  qed
  then show ?thesis using l espera_bloqueado [OF r, of i n] i(2) by (simp add: bloqueado_en_def vistas)
qed

lemma mutex_fifo_witness:
  "cola_bloqueados (lista_mutexes (fst (manejar_syscall_mutex_lock 3 [''m''] scheduler_ejemplo)) ! 0) = [2, 3] \<and>
   asignado_a_pid (lista_mutexes (fst (manejar_syscall_mutex_unlock 1 [''m''] scheduler_ejemplo)) ! 0) = 2"
proof -
  let ?l = "manejar_syscall_mutex_lock 3 [''m''] scheduler_ejemplo" and ?u = "manejar_syscall_mutex_unlock 1 [''m''] scheduler_ejemplo"
  have m: "lista_mutexes scheduler_ejemplo = [\<lparr>mut_nombre = ''m'', asignado_a_pid = 1, cola_bloqueados = [2]\<rparr>]" by (simp add: scheduler_ejemplo_def)
  have "buscar_mutex_por_nombre ''m'' scheduler_ejemplo = Some 0" by (simp add: buscar_mutex_por_nombre_def m)
  moreover have "?l = (fst ?l, snd ?l)" "?u = (fst ?u, snd ?u)" by simp_all
  ultimately show ?thesis
    using mutex_fifo [OF scheduler_ejemplo_ok(1) _ refl _ scheduler_ejemplo_ok(4,3)] m by fastforce
qed

lemma traspasar_campos:
  "lista_mutexes (fst (traspasar q i S)) = (lista_mutexes S)[i := (lista_mutexes S ! i)\<lparr>asignado_a_pid := q, cola_bloqueados := tl (cola_bloqueados (lista_mutexes S ! i))\<rparr>]"
  "pcbs (fst (traspasar q i S)) = (pcbs S)(q := map_option (\<lambda>b. b\<lparr>mutex_esperando := None, estado := READY\<rparr>) (pcbs S q))"
  by (auto simp: traspasar_def encolar_en_ready_y_notificar_def reencolar_proceso_ready_final_def poner_cola_def actualizar_pcb_def
      actualizar_mutex_def Let_def fun_eq_iff split: option.splits)

lemma soltar_libre: "\<not> se_traba_en p m \<Longrightarrow> p \<noteq> - 1 \<Longrightarrow> asignado_a_pid (soltar p m) \<noteq> p \<and> p \<notin> set (cola_bloqueados (soltar p m))"
  by (auto simp: soltar_def se_traba_en_def)

text \<open>With the lock free \<open>recalcular_prioridad_dinamica\<close> returns and leaves it free.\<close>

lemma recalcular_con_lock_libre: "recalcular_con_lock p (False, S, ev) = Sigue (False, recalcular_prioridad_dinamica p S, ev)"
  by (simp add: recalcular_con_lock_def recalcular_prioridad_dinamica_def Let_def split: option.split)

text \<open>
  C39. Ending a process that holds a mutex somebody waits for never finishes: the clean-up
  holds the lock of the mutex list when it recalculates the priority of the new holder, which
  takes the lock again. The run of the two functions over the lock is stuck exactly in that case.
  Then the lock stays taken; of the mutexes that the process holds the first with a waiter was
  handed to it, and it is READY, the ones before were cleaned up and the ones after were not
  looked at. Otherwise the run returns with the lock free, has sent nothing and has changed
  nothing but the mutexes, and the process holds none and waits for none.
\<close>

theorem liberar_mutexes_se_traba:
  "(liberar_mutexes_de_proceso p S = None) = (\<exists>m \<in> set (lista_mutexes S). asignado_a_pid m = p \<and> cola_bloqueados m \<noteq> []) \<and>
   (case correr_liberar_mutexes p (False, S, []) of
      Trabado (tomado, S', ev) \<Rightarrow>
        tomado \<and>
        (\<exists>ms m zs q qs. lista_mutexes S = ms @ m # zs \<and> asignado_a_pid m = p \<and> cola_bloqueados m = q # qs \<and>
          (\<forall>m' \<in> set ms. \<not> se_traba_en p m') \<and>
          lista_mutexes S' = map (soltar p) ms @ m\<lparr>asignado_a_pid := q, cola_bloqueados := qs\<rparr> # zs \<and>
          pcbs S' = (pcbs S)(q := map_option (\<lambda>b. b\<lparr>mutex_esperando := None, estado := READY\<rparr>) (pcbs S q)))
    | Sigue (tomado, S', ev) \<Rightarrow>
        \<not> tomado \<and> ev = [] \<and> S' = S\<lparr>lista_mutexes := lista_mutexes S'\<rparr> \<and>
        (p = - 1 \<or> (\<forall>m \<in> set (lista_mutexes S'). asignado_a_pid m \<noteq> p \<and> p \<notin> set (cola_bloqueados m))))"
    (is "?n \<and> ?c")
proof
  show ?n by (simp add: liberar_mutexes_eq se_traba_en_def)
  show ?c
  proof (cases "\<exists>m \<in> set (lista_mutexes S). se_traba_en p m")
    case True
    then obtain ms m zs where m: "lista_mutexes S = ms @ m # zs" "\<forall>m \<in> set ms. \<not> se_traba_en p m" "se_traba_en p m"
      using split_list_first_prop [of "lista_mutexes S" "se_traba_en p"] by blast
    obtain q qs where q: "cola_bloqueados m = q # qs" "asignado_a_pid m = p" using m(3) by (auto simp: se_traba_en_def neq_Nil_conv)
    let ?S = "S\<lparr>lista_mutexes := map (soltar p) ms @ m # zs\<rparr>"
    obtain S' ev where t: "traspasar q (length ms) ?S = (S', ev)" by fastforce
    have r: "correr_liberar_mutexes p (False, S, []) = Trabado (True, S', ev)" using correr_liberar_traba [OF m, of "[]"] q t by simp
    have "lista_mutexes S' = map (soltar p) ms @ m\<lparr>asignado_a_pid := q, cola_bloqueados := qs\<rparr> # zs"
      using traspasar_campos(1) [of q "length ms" ?S] t q by (simp add: nth_append list_update_append)
    moreover have "pcbs S' = (pcbs S)(q := map_option (\<lambda>b. b\<lparr>mutex_esperando := None, estado := READY\<rparr>) (pcbs S q))"
      using traspasar_campos(2) [of q "length ms" ?S] t by simp
    ultimately show ?thesis
      unfolding r corrida.case prod.case using m(1,2) q by (intro conjI TrueI exI [of _ ms] exI [of _ m] exI [of _ zs] exI [of _ q] exI [of _ qs])
  next
    case False
    then show ?thesis using correr_liberar_sigue [of S p "[]"] soltar_libre by auto
  qed
qed

lemma liberar_mutexes_se_traba_witness: "liberar_mutexes_de_proceso 1 scheduler_ejemplo = None"
proof -
  have "\<exists>m \<in> set (lista_mutexes scheduler_ejemplo). asignado_a_pid m = 1 \<and> cola_bloqueados m \<noteq> []" by (simp add: scheduler_ejemplo_def)
  then show ?thesis using liberar_mutexes_se_traba [of 1 scheduler_ejemplo] by blast
qed

section \<open>Depth of the inheritance\<close>

text \<open>The recursion of the code with a bound on its depth; \<open>None\<close> when the bound is reached.\<close>

fun propagar_con_tope :: "nat \<Rightarrow> i32 \<Rightarrow> int \<Rightarrow> t_scheduler \<Rightarrow> t_scheduler option" where
  "propagar_con_tope 0 p h S = None"
| "propagar_con_tope (Suc n) p h S =
     (case poseedor_de p S of
        None \<Rightarrow> Some S
      | Some (q, b) \<Rightarrow>
          if h < prioridad_dinamica b
          then
            let S' = poner_prioridad_dinamica q h S
            in if mutex_esperando b \<noteq> None then propagar_con_tope n q h S' else Some S'
          else Some S)"

lemma propagar_tope: "length (por_encima h S) < n \<Longrightarrow> propagar_con_tope n p h S = Some (propagar_herencia_prioridad p h S)"
proof (induction n arbitrary: p S)
  case (Suc n)
  show ?case
  proof (cases "poseedor_de p S")
    case None
    then show ?thesis by (simp add: propagar_herencia_prioridad.simps [of p h S])
  next
    case (Some x)
    obtain q b where x: "x = (q, b)" by (cases x)
    have "length (por_encima h (poner_prioridad_dinamica q h S)) < n" if "h < prioridad_dinamica b"
      using por_encima_baja [OF Some [unfolded x] that] Suc.prems by linarith
    then show ?thesis using Some x Suc.IH by (simp add: propagar_herencia_prioridad.simps [of p h S] Let_def)
  qed
qed simp

text \<open>
  C31. The recursion of \<open>propagar_herencia_prioridad\<close> ends, also when processes wait for each
  other in a cycle: every level lowers the dynamic priority of one more process, so that its
  depth is at most one more than the number of processes.
\<close>

theorem herencia_termina:
  "propagar_con_tope (Suc (length (todos_los_procesos S))) p h S = Some (propagar_herencia_prioridad p h S)"
proof (rule propagar_tope)
  have "length (por_encima h S) \<le> length (todos_los_procesos S)" unfolding por_encima_def by (rule length_filter_le)
  then show "length (por_encima h S) < Suc (length (todos_los_procesos S))" by simp
qed

end
