(* ===== verification/Sched_Pcp.thy ===== *)
theory Sched_Pcp
  imports Sched_Mutex
begin

text \<open>
  The CPUs of the scheduler, the quantum timer, preemption for compaction and the short-term
  scheduler: \<open>kernel_scheduler/src/planificadorCortoPlazo.c\<close> and its part of
  \<open>utils_kernel_scheduler.c\<close>. The loop of a thread is given as one turn; \<open>None\<close> is a turn that
  waits on a semaphore that nobody has posted. A turn is one step: the state does not change
  between the look at the CPUs and the dispatch.
\<close>

section \<open>CPUs\<close>

text \<open>The loops that look for a CPU stop at the first that fits.\<close>

definition actualizar_cpu :: "(t_cpu \<Rightarrow> bool) \<Rightarrow> (t_cpu \<Rightarrow> t_cpu) \<Rightarrow> t_scheduler \<Rightarrow> t_scheduler" where
  "actualizar_cpu P f S =
     (case buscar_idx P (sc_cpus S) of
        None \<Rightarrow> S
      | Some i \<Rightarrow> S\<lparr>sc_cpus := (sc_cpus S)[i := f (sc_cpus S ! i)]\<rparr>)"

definition cpu_libre :: "t_cpu \<Rightarrow> bool" where
  "cpu_libre c \<longleftrightarrow> disponible c \<and> c_socket c \<noteq> - 1"

definition hay_cpu_libre :: "t_scheduler \<Rightarrow> bool" where
  "hay_cpu_libre S = list_ex cpu_libre (sc_cpus S)"

text \<open>The result is the id of the CPU, \<open>-1\<close> when there is none.\<close>

definition enviar_proceso_a_cpu :: "i32 \<Rightarrow> t_scheduler \<Rightarrow> t_scheduler \<times> evento list \<times> i32" where
  "enviar_proceso_a_cpu p S =
     (case buscar_idx cpu_libre (sc_cpus S) of
        None \<Rightarrow> (S, [], - 1)
      | Some i \<Rightarrow>
          (S\<lparr>sc_cpus := (sc_cpus S)[i := (sc_cpus S ! i)\<lparr>disponible := False, proceso_actual := Some p\<rparr>]\<rparr>,
           [Enviar (c_socket (sc_cpus S ! i)) (enviar_pid p)], c_id (sc_cpus S ! i)))"

definition iniciar_quantum_timer :: "i32 \<Rightarrow> i32 \<Rightarrow> t_scheduler \<Rightarrow> t_scheduler" where
  "iniciar_quantum_timer ident p S =
     actualizar_cpu (\<lambda>c. c_id c = ident) (\<lambda>c. c\<lparr>timer_activo := True, timer_pid := p\<rparr>) S"

text \<open>What \<open>quantum_timer_thread\<close> does when the quantum is over.\<close>

definition quantum_timer_thread :: "i32 \<Rightarrow> i32 \<Rightarrow> t_scheduler \<Rightarrow> t_scheduler \<times> evento list" where
  "quantum_timer_thread ident p S =
     (case buscar_idx (\<lambda>c. c_id c = ident \<and> timer_activo c \<and> timer_pid c = p) (sc_cpus S) of
        None \<Rightarrow> (S, [])
      | Some i \<Rightarrow>
          (S\<lparr>sc_cpus := (sc_cpus S)[i := (sc_cpus S ! i)\<lparr>timer_activo := False\<rparr>]\<rparr>,
           [Enviar (c_socket (sc_cpus S ! i)) (enviar_interrupcion p (motivo_num MOTIVO_QUANTUM))]))"

definition cpu_con_id :: "i32 \<Rightarrow> t_scheduler \<Rightarrow> t_cpu option" where
  "cpu_con_id ident S = map_option (nth (sc_cpus S)) (buscar_idx (\<lambda>c. c_id c = ident) (sc_cpus S))"

definition retirar_proceso_de_cpu :: "i32 \<Rightarrow> t_scheduler \<Rightarrow> i32 option \<times> t_scheduler" where
  "retirar_proceso_de_cpu ident S =
     (case cpu_con_id ident S of None \<Rightarrow> None | Some c \<Rightarrow> proceso_actual c,
      (actualizar_cpu (\<lambda>c. c_id c = ident) (\<lambda>c. c\<lparr>proceso_actual := None, timer_activo := False, disponible := True\<rparr>) S)
        \<lparr>sem_cpu_disponible := sem_cpu_disponible S + 1\<rparr>)"

definition retirar_proceso_de_cpu_reservando :: "i32 \<Rightarrow> t_scheduler \<Rightarrow> i32 option \<times> t_scheduler" where
  "retirar_proceso_de_cpu_reservando ident S =
     (case cpu_con_id ident S of None \<Rightarrow> None | Some c \<Rightarrow> proceso_actual c,
      actualizar_cpu (\<lambda>c. c_id c = ident) (\<lambda>c. c\<lparr>proceso_actual := None, timer_activo := False\<rparr>) S)"

definition liberar_cpu_reservada :: "i32 \<Rightarrow> t_scheduler \<Rightarrow> t_scheduler" where
  "liberar_cpu_reservada ident S =
     (actualizar_cpu (\<lambda>c. c_id c = ident) (\<lambda>c. c\<lparr>disponible := True\<rparr>) S)\<lparr>sem_cpu_disponible := sem_cpu_disponible S + 1\<rparr>"

definition devolver_proceso_a_misma_cpu :: "i32 \<Rightarrow> i32 \<Rightarrow> t_scheduler \<Rightarrow> t_scheduler \<times> evento list \<times> bool" where
  "devolver_proceso_a_misma_cpu ident p S =
     (case cpu_con_id ident S of
        None \<Rightarrow> (S, [], False)
      | Some c \<Rightarrow>
          if c_socket c = - 1 then (S, [], False)
          else
            let S1 = actualizar_cpu (\<lambda>c. c_id c = ident) (\<lambda>c. c\<lparr>proceso_actual := Some p\<rparr>) S;
                q = (case pcbs S1 p of None \<Rightarrow> 0 | Some b \<Rightarrow> quantum_restante b)
            in (if q > 0 then iniciar_quantum_timer ident p S1 else S1, [Enviar (c_socket c) (enviar_pid p)], True))"

definition marcar_cpu_desconectada :: "i32 \<Rightarrow> t_scheduler \<Rightarrow> t_scheduler" where
  "marcar_cpu_desconectada ident S = actualizar_cpu (\<lambda>c. c_id c = ident) (\<lambda>c. c\<lparr>c_socket := - 1\<rparr>) S"

section \<open>Compaction\<close>

definition desalojar_todos_procesos :: "t_scheduler \<Rightarrow> evento list" where
  "desalojar_todos_procesos S =
     concat (map (\<lambda>c. case proceso_actual c of
         None \<Rightarrow> []
       | Some p \<Rightarrow> if disponible c \<or> c_socket c = - 1 then []
                   else [Enviar (c_socket c) (enviar_interrupcion p (motivo_num MOTIVO_DESALOJO))]) (sc_cpus S))"

definition manejar_compactacion_inicio :: "t_scheduler \<Rightarrow> t_scheduler \<times> evento list" where
  "manejar_compactacion_inicio S = (let S' = S\<lparr>compactacion_activa := True\<rparr> in (S', desalojar_todos_procesos S'))"

definition notificar_reevaluar_suspendidos :: "t_scheduler \<Rightarrow> t_scheduler" where
  "notificar_reevaluar_suspendidos S = S\<lparr>sem_reevaluar_suspendidos := sem_reevaluar_suspendidos S + 1\<rparr>"

definition manejar_compactacion_fin :: "t_scheduler \<Rightarrow> t_scheduler" where
  "manejar_compactacion_fin S = notificar_reevaluar_suspendidos (S\<lparr>compactacion_activa := False, sem_ready := sem_ready S + 1\<rparr>)"

section \<open>The short-term scheduler\<close>

definition obtener_proximo_proceso_ready :: "t_algoritmo_corto_plazo \<Rightarrow> t_scheduler \<Rightarrow> i32 option \<times> t_scheduler" where
  "obtener_proximo_proceso_ready alg S =
     (if alg = ALGORITMO_CMN
      then (if cantidad_niveles_prioridad S \<le> 0 then (None, S) else desencolar_proceso_ready S)
      else pop_ready S)"

definition reencolar_ready_final :: "i32 \<Rightarrow> t_scheduler \<Rightarrow> t_scheduler" where
  "reencolar_ready_final p S = S\<lparr>cola_procesos_ready := map_option (\<lambda>q. q @ [p]) (cola_procesos_ready S)\<rparr>"

definition reencolar_ready_inicio :: "i32 \<Rightarrow> t_scheduler \<Rightarrow> t_scheduler" where
  "reencolar_ready_inicio p S = S\<lparr>cola_procesos_ready := map_option (\<lambda>q. p # q) (cola_procesos_ready S)\<rparr>"

definition reencolar_por_fallo_de_envio :: "i32 \<Rightarrow> t_algoritmo_corto_plazo \<Rightarrow> t_scheduler \<Rightarrow> t_scheduler" where
  "reencolar_por_fallo_de_envio p alg S =
     (case pcbs S p of
        None \<Rightarrow> S
      | Some b \<Rightarrow>
          if alg = ALGORITMO_CMN then reencolar_proceso_ready_inicio p (prioridad b) S
          else if alg = ALGORITMO_RR then reencolar_ready_final p S
          else reencolar_ready_inicio p S)"

definition quantum_para_algoritmo :: "t_algoritmo_corto_plazo \<Rightarrow> int \<Rightarrow> t_scheduler \<Rightarrow> u32" where
  "quantum_para_algoritmo alg prio S =
     (if alg = ALGORITMO_RR \<or> alg = ALGORITMO_CMN \<and> obtener_algoritmo_por_prioridad prio S = ALGORITMO_RR
      then word_of_int (rr_quantum (config_scheduler S)) else 0)"

definition algoritmo_debe_usar_fifo :: "t_algoritmo_corto_plazo \<Rightarrow> int \<Rightarrow> t_scheduler \<Rightarrow> bool" where
  "algoritmo_debe_usar_fifo alg prio S \<longleftrightarrow>
     alg = ALGORITMO_FIFO \<or> alg = ALGORITMO_CMN \<and> obtener_algoritmo_por_prioridad prio S = ALGORITMO_FIFO"

text \<open>The unknown algorithm is \<open>FIFO\<close>.\<close>

definition algoritmo_del_planificador :: "t_scheduler \<Rightarrow> t_algoritmo_corto_plazo" where
  "algoritmo_del_planificador S =
     (if obtener_algoritmo_global S = ALGORITMO_DESCONOCIDO then ALGORITMO_FIFO else obtener_algoritmo_global S)"

text \<open>What happens to the process that was taken from READY; \<open>None\<close> when the send failed and no CPU is left.\<close>

definition despachar :: "t_algoritmo_corto_plazo \<Rightarrow> i32 \<Rightarrow> t_pcb \<Rightarrow> t_scheduler \<Rightarrow> (t_scheduler \<times> evento list) option" where
  "despachar alg p b S =
     (let quantum0 = quantum_para_algoritmo alg (prioridad b) S;
          fifo0 = algoritmo_debe_usar_fifo alg (prioridad b) S;
          sin_colas = (alg = ALGORITMO_CMN \<and> cantidad_niveles_prioridad S \<le> 0);
          (fifo1, rr1, quantum1) = (if sin_colas then (True, False, 0) else (fifo0, \<not> fifo0 \<and> quantum0 > 0, quantum0))
      in if alg = ALGORITMO_CMN \<and> (prioridad b < 0 \<or> prioridad b \<ge> cantidad_niveles_prioridad S) then Some (S, [])
         else
           let rr2 = (if alg = ALGORITMO_CMN \<and> \<not> fifo1 \<and> quantum1 = 0 then False else rr1);
               (fifo, rr, quantum) =
                 (if alg \<noteq> ALGORITMO_CMN \<and> \<not> fifo1 \<and> \<not> rr2
                  then (if alg = ALGORITMO_RR then (fifo1, True, word_of_int (rr_quantum (config_scheduler S))) else (True, rr2, quantum1))
                  else (fifo1, rr2, quantum1));
               (S1, ev, ident) = enviar_proceso_a_cpu p S
           in if ident <s 0
              then
                let S2 = reencolar_por_fallo_de_envio p alg S1; S3 = S2\<lparr>sem_ready := sem_ready S2 + 1\<rparr>
                in if sistema_corrupto S3 \<or> hay_cpu_libre S3 then Some (S3, ev) else None
              else
                let S2 = actualizar_pcb p (\<lambda>b. b\<lparr>estado := EXEC, tiempo_inicio_ejecucion := reloj S,
                           conteo_context_switch := conteo_context_switch b + 1, quantum_restante := quantum\<rparr>) S1
                in Some (if \<not> fifo \<and> rr then iniciar_quantum_timer ident p S2 else S2, ev))"

definition planificadorCortoPlazo :: "t_scheduler \<Rightarrow> (t_scheduler \<times> evento list) option" where
  "planificadorCortoPlazo S =
     (if sem_ready S = 0 then None
      else if compactacion_activa S then Some (S, [])
      else if \<not> hay_cpu_libre S
      then (if sem_cpu_disponible S = 0 then None else Some (S\<lparr>sem_cpu_disponible := sem_cpu_disponible S - 1\<rparr>, []))
      else
        let alg = algoritmo_del_planificador S;
            (proceso, S1) = obtener_proximo_proceso_ready alg (S\<lparr>sem_ready := sem_ready S - 1\<rparr>)
        in case proceso of
             None \<Rightarrow> Some (S1, [])
           | Some p \<Rightarrow> (case pcbs S1 p of None \<Rightarrow> Some (S1, []) | Some b \<Rightarrow> despachar alg p b S1))"


section \<open>Properties\<close>

lemma primera_cola_iff:
  "primera_cola qs = Some i \<longleftrightarrow> i < length qs \<and> qs ! i \<noteq> [] \<and> (\<forall>j < i. qs ! j = [])"
proof (induction qs arbitrary: i)
  case (Cons q qs)
  show ?case
  proof (cases i)
    case 0
    then show ?thesis by auto
  next
    case (Suc k)
    then show ?thesis using Cons [of k] by (auto simp: nth_Cons less_Suc_eq_0_disj)
  qed
qed simp

lemma buscar_idx_primero:
  "i < length xs \<Longrightarrow> P (xs ! i) \<Longrightarrow> \<forall>j < i. \<not> P (xs ! j) \<Longrightarrow> buscar_idx P xs = Some i"
proof (induction xs arbitrary: i)
  case (Cons x xs)
  then show ?case by (cases i) (fastforce simp: nth_Cons')+
qed simp

text \<open>
  C40. A turn of the short-term scheduler under multilevel queues (\<open>CMN\<close>), with a process in
  READY, a free CPU and no compaction under way: the process at the head of the most urgent
  non-empty queue goes to the first free CPU, with one \<open>EJECUTAR_PROCESO\<close>; it is EXEC, with
  the quantum and the timer of its queue when that queue is round robin and without them when
  it is not. The other queues, processes and CPUs do not change.
\<close>

theorem despacho_correcto:
  assumes alg: "obtener_algoritmo_global S = ALGORITMO_CMN" and listo: "0 < sem_ready S" "\<not> compactacion_activa S"
    and cola: "i < length (colas_prioridad S)" "\<forall>j < i. colas_prioridad S ! j = []" "colas_prioridad S ! i = p # ps"
    and b: "pcbs S p = Some b" "0 \<le> prioridad b" "prioridad b < int (length (colas_prioridad S))"
    and cpu: "k < length (sc_cpus S)" "cpu_libre (sc_cpus S ! k)" "\<forall>j < k. \<not> cpu_libre (sc_cpus S ! j)"
      "distinct (map c_id (sc_cpus S))" "\<not> c_id (sc_cpus S ! k) <s 0"
    and q: "q = (if obtener_algoritmo_por_prioridad (prioridad b) S = ALGORITMO_RR then word_of_int (rr_quantum (config_scheduler S)) else 0)"
  shows "planificadorCortoPlazo S =
    Some (S\<lparr>sem_ready := sem_ready S - 1, colas_prioridad := (colas_prioridad S)[i := ps],
            sc_cpus := (sc_cpus S)[k := if q > 0 then (sc_cpus S ! k)\<lparr>disponible := False, proceso_actual := Some p, timer_activo := True, timer_pid := p\<rparr>
                                        else (sc_cpus S ! k)\<lparr>disponible := False, proceso_actual := Some p\<rparr>],
            pcbs := (pcbs S)(p := Some (b\<lparr>estado := EXEC, tiempo_inicio_ejecucion := reloj S,
                           conteo_context_switch := conteo_context_switch b + 1, quantum_restante := q\<rparr>))\<rparr>,
          [Enviar (c_socket (sc_cpus S ! k)) (enviar_pid p)])"
proof -
  let ?c = "sc_cpus S ! k"
  have hay: "hay_cpu_libre S" using cpu(1,2) by (auto simp: hay_cpu_libre_def list_ex_iff)
  have prim: "primera_cola (colas_prioridad S) = Some i" using cola by (simp add: primera_cola_iff)
  have bk: "buscar_idx cpu_libre (sc_cpus S) = Some k" by (rule buscar_idx_primero [where P = cpu_libre]) (use cpu in simp_all)
  have bid: "buscar_idx (\<lambda>c. c_id c = c_id ?c) ((sc_cpus S)[k := x]) = Some k" if x: "c_id x = c_id ?c" for x
  proof (rule buscar_idx_primero)
    show "\<forall>j < k. \<not> c_id ((sc_cpus S)[k := x] ! j) = c_id ?c"
    proof (intro allI impI notI)
      fix j assume "j < k" "c_id ((sc_cpus S)[k := x] ! j) = c_id ?c"
      then show False using cpu(1,4) nth_eq_iff_index_eq [of "map c_id (sc_cpus S)" j k] by simp
    qed
  qed (use cpu(1) x in simp_all)
  have niv: "0 < cantidad_niveles_prioridad S" using cola(1) by (auto simp: cantidad_niveles_prioridad_def)
  let ?S1 = "S\<lparr>sem_ready := sem_ready S - 1, colas_prioridad := (colas_prioridad S)[i := ps]\<rparr>"
  have alg': "obtener_algoritmo_por_prioridad r (S\<lparr>sem_ready := n, colas_prioridad := c\<rparr>) = obtener_algoritmo_por_prioridad r S" for r n c
    by (simp add: obtener_algoritmo_por_prioridad_def)
  have "planificadorCortoPlazo S = despachar ALGORITMO_CMN p b ?S1"
    using listo hay alg prim cola(3) niv b(1)
    by (simp add: planificadorCortoPlazo_def algoritmo_del_planificador_def obtener_proximo_proceso_ready_def
        desencolar_proceso_ready_def cantidad_niveles_prioridad_def)
  also have "\<dots> = Some (S\<lparr>sem_ready := sem_ready S - 1, colas_prioridad := (colas_prioridad S)[i := ps],
            sc_cpus := (sc_cpus S)[k := if q > 0 then ?c\<lparr>disponible := False, proceso_actual := Some p, timer_activo := True, timer_pid := p\<rparr>
                                        else ?c\<lparr>disponible := False, proceso_actual := Some p\<rparr>],
            pcbs := (pcbs S)(p := Some (b\<lparr>estado := EXEC, tiempo_inicio_ejecucion := reloj S,
                           conteo_context_switch := conteo_context_switch b + 1, quantum_restante := q\<rparr>))\<rparr>,
          [Enviar (c_socket ?c) (enviar_pid p)])"
  proof (cases "obtener_algoritmo_por_prioridad (prioridad b) S = ALGORITMO_RR \<and> q > 0")
    case True
    then show ?thesis
      using b niv bk cpu(1,5) q
      by (simp add: despachar_def quantum_para_algoritmo_def algoritmo_debe_usar_fifo_def alg' enviar_proceso_a_cpu_def
          cantidad_niveles_prioridad_def iniciar_quantum_timer_def actualizar_cpu_def actualizar_pcb_def bid Let_def)
  next
    case False
    then have "\<not> 0 < q" using q by auto
    then have "q = 0" using word_neq_0_conv [of q] by blast
    then show ?thesis
      using b niv bk cpu(1,5) q False
      by (auto simp: despachar_def quantum_para_algoritmo_def algoritmo_debe_usar_fifo_def alg' enviar_proceso_a_cpu_def
          cantidad_niveles_prioridad_def actualizar_pcb_def Let_def split: if_splits)
  qed
  finally show ?thesis .
qed


definition scheduler_listo :: t_scheduler where
  "scheduler_listo = scheduler_ejemplo\<lparr>colas_prioridad := [[], [1]], sem_ready := 1,
     sc_cpus := [\<lparr>c_socket = 7, c_id = 1, disponible = False, proceso_actual = Some 3, timer_activo = False, timer_pid = 0\<rparr>,
                 \<lparr>c_socket = 8, c_id = 2, disponible = True, proceso_actual = None, timer_activo = False, timer_pid = 0\<rparr>]\<rparr>"

lemma despacho_correcto_witness:
  "\<exists>S'. planificadorCortoPlazo scheduler_listo = Some (S', [Enviar 8 (enviar_pid 1)]) \<and> colas_prioridad S' = [[], []] \<and>
    map_option estado (pcbs S' 1) = Some EXEC \<and> quantum_restante (the (pcbs S' 1)) = 0"
proof -
  have a: "obtener_algoritmo_global scheduler_listo = ALGORITMO_CMN"
    by (simp add: scheduler_listo_def scheduler_ejemplo_def obtener_algoritmo_global_def string_igual_ignora_mayusculas_def a_minuscula_def)
  have f: "obtener_algoritmo_por_prioridad (prioridad pcb_ejemplo) scheduler_listo = ALGORITMO_FIFO"
    by (simp add: scheduler_listo_def scheduler_ejemplo_def pcb_ejemplo_def obtener_algoritmo_por_prioridad_def string_igual_ignora_mayusculas_def)
  have c: "colas_prioridad scheduler_listo = [[], [1]]" "sem_ready scheduler_listo = 1" "\<not> compactacion_activa scheduler_listo"
    "pcbs scheduler_listo 1 = Some pcb_ejemplo" "prioridad pcb_ejemplo = 1"
    "sc_cpus scheduler_listo = [\<lparr>c_socket = 7, c_id = 1, disponible = False, proceso_actual = Some 3, timer_activo = False, timer_pid = 0\<rparr>,
                 \<lparr>c_socket = 8, c_id = 2, disponible = True, proceso_actual = None, timer_activo = False, timer_pid = 0\<rparr>]"
    by (simp_all add: scheduler_listo_def scheduler_ejemplo_def pcb_ejemplo_def)
  have "\<not> (2 :: i32) <s 0" by (simp add: word_sless_alt)
  then have "planificadorCortoPlazo scheduler_listo = Some (scheduler_listo\<lparr>sem_ready := 0, colas_prioridad := [[], []],
      sc_cpus := (sc_cpus scheduler_listo)[1 := (sc_cpus scheduler_listo ! 1)\<lparr>disponible := False, proceso_actual := Some 1\<rparr>],
      pcbs := (pcbs scheduler_listo)(1 := Some (pcb_ejemplo\<lparr>estado := EXEC, tiempo_inicio_ejecucion := reloj scheduler_listo,
                           conteo_context_switch := conteo_context_switch pcb_ejemplo + 1, quantum_restante := 0\<rparr>))\<rparr>,
      [Enviar 8 (enviar_pid 1)])"
    using despacho_correcto [of scheduler_listo 1 1 "[]" pcb_ejemplo 1 0] a f c by (simp add: cpu_libre_def)
  then show ?thesis by (simp add: pcb_ejemplo_def)
qed

end
