(* ===== verification/Sched_Memoria.thy ===== *)
theory Sched_Memoria
  imports Sched_Pcp
begin

text \<open>
  The conversation of the scheduler with Kernel Memory (\<open>kernel_scheduler/src/memory_protocol.c\<close>),
  the creation of processes (\<open>crearProceso.c\<close>), the long-term scheduler and the blue screen
  (\<open>planificadorLargoPlazo.c\<close>). The bytes that Kernel Memory sends are a stream that every
  exchange consumes; its end is a closed socket or the receive timeout, which the code treats
  alike. \<open>None\<close> is an exchange that does not return: \<open>exit()\<close> after corruption, or the
  \<open>abort()\<close> of a malformed packet. The timeout of the socket is not modelled.
\<close>

section \<open>Blue screen\<close>

definition marcar_exit :: "t_pcb \<Rightarrow> t_pcb" where
  "marcar_exit b = b\<lparr>estado := EXIT_STATE\<rparr>"

text \<open>The state in which the program exits.\<close>

definition manejar_bsod :: "t_scheduler \<Rightarrow> t_scheduler" where
  "manejar_bsod S =
     (if sistema_corrupto S then S
      else (fold (\<lambda>p S. actualizar_pcb p marcar_exit S) (todos_los_procesos S) S)
             \<lparr>sistema_corrupto := True, cola_procesos_new := None, cola_procesos_ready := None, colas_prioridad := []\<rparr>)"

section \<open>Notifications\<close>

text \<open>
  The outer option tells a notification from an answer; the inner one is \<open>None\<close> when the
  handler does not return. Corruption reported a second time returns, because the first report
  is already being handled.
\<close>

definition despachar_si_es_notificacion ::
  "sock \<Rightarrow> u32 \<Rightarrow> t_scheduler \<Rightarrow> byte list \<Rightarrow> (t_scheduler \<times> evento list \<times> byte list) option option" where
  "despachar_si_es_notificacion mem op S s =
     (let tras_ok = (\<lambda>f. case recibir_ok s of Inl e \<Rightarrow> None | Inr (u, s') \<Rightarrow> f s')
      in case op_de_num op of
           Some MEMORIA_CORRUPTA_BSOD \<Rightarrow> Some (tras_ok (\<lambda>s'. if sistema_corrupto S then Some (S, [], s') else None))
         | Some MEMORIA_LIBERADA \<Rightarrow> Some (tras_ok (\<lambda>s'. Some (notificar_reevaluar_suspendidos S, [], s')))
         | Some INICIAR_COMPACTACION \<Rightarrow>
             Some (tras_ok (\<lambda>s'. let (S', ev) = manejar_compactacion_inicio S
                                  in Some (S', ev @ [Enviar mem (enviar_ok INICIAR_COMPACTACION)], s')))
         | Some FINALIZAR_COMPACTACION \<Rightarrow> Some (tras_ok (\<lambda>s'. Some (manejar_compactacion_fin S, [], s')))
         | Some NUEVA_MEMORIA_DISPONIBLE \<Rightarrow>
             Some (case recibir_nueva_memoria_disponible s of
                     Inl e \<Rightarrow> None | Inr (u, s') \<Rightarrow> Some (notificar_reevaluar_suspendidos S, [], s'))
         | _ \<Rightarrow> None)"

lemma acorta_notificacion [simp]: "acorta recibir_ok" "acorta recibir_nueva_memoria_disponible"
  unfolding recibir_ok_def recibir_nueva_memoria_disponible_def by (auto intro!: acorta_bind)

lemmas acortan = acortaD [OF acorta_notificacion(1)] acortaD [OF acorta_notificacion(2)]

lemma despachar_notificacion_acorta:
  "despachar_si_es_notificacion mem op S s = Some (Some (S', ev, s')) \<Longrightarrow> length s' \<le> length s"
  by (auto simp: despachar_si_es_notificacion_def Let_def dest!: acortan
      split: option.splits op_code.splits sum.splits if_splits prod.splits)

function recibir_respuesta_de_memoria ::
  "sock \<Rightarrow> t_scheduler \<Rightarrow> byte list \<Rightarrow> (t_scheduler \<times> evento list \<times> u32 \<times> byte list) option" where
  "recibir_respuesta_de_memoria mem S s =
     (let (op, s1) = recibir_codigo_operacion s
      in if op = - 1 then Some (S, [], op, s1)
         else case despachar_si_es_notificacion mem op S s1 of
           None \<Rightarrow> Some (S, [], op, s1)
         | Some None \<Rightarrow> None
         | Some (Some (S', ev, s2)) \<Rightarrow>
             map_option (\<lambda>(S'', ev', op', s'). (S'', ev @ ev', op', s')) (recibir_respuesta_de_memoria mem S' s2))"
  by pat_completeness auto
termination
proof (relation "measure (\<lambda>(mem, S, s). length s)", goal_cases)
  case (2 mem S s x op s1 y z S' w ev s2)
  then show ?case
    using recibir_codigo_acorta [of s op s1] despachar_notificacion_acorta [of mem op S s1 S' ev s2] by simp
qed simp

declare recibir_respuesta_de_memoria.simps [simp del]

text \<open>Send, wait for the answer and drain its body if it came; what all the short requests do.\<close>

definition pedir_a_memoria :: "sock \<Rightarrow> byte list \<Rightarrow> t_scheduler \<Rightarrow> byte list \<Rightarrow> (t_scheduler \<times> evento list \<times> u32 \<times> byte list) option" where
  "pedir_a_memoria mem pedido S s =
     (case recibir_respuesta_de_memoria mem S s of
        None \<Rightarrow> None
      | Some (S', ev, ack, s1) \<Rightarrow>
          if ack = - 1 then Some (S', Enviar mem pedido # ev, ack, s1)
          else case recibir_ok s1 of Inl e \<Rightarrow> None | Inr (u, s2) \<Rightarrow> Some (S', Enviar mem pedido # ev, ack, s2))"

definition notificar_fin_a_memoria :: "sock \<Rightarrow> i32 \<Rightarrow> t_scheduler \<Rightarrow> byte list \<Rightarrow> (t_scheduler \<times> evento list \<times> byte list) option" where
  "notificar_fin_a_memoria mem p S s =
     (if mem < 0 then Some (S, [], s)
      else map_option (\<lambda>(S', ev, ack, s'). (S', ev, s')) (pedir_a_memoria mem (enviar_finalizar_proceso_memory p) S s))"

section \<open>Creation of processes\<close>

definition generar_pid :: "t_scheduler \<Rightarrow> i32 \<times> t_scheduler" where
  "generar_pid S = (contador_pids S, S\<lparr>contador_pids := contador_pids S + 1\<rparr>)"

definition enviar_creacion_proceso_a_memory ::
  "sock \<Rightarrow> i32 \<Rightarrow> string \<Rightarrow> t_scheduler \<Rightarrow> byte list \<Rightarrow> (t_scheduler \<times> evento list \<times> byte list \<times> bool) option" where
  "enviar_creacion_proceso_a_memory mem p path S s =
     (if mem = - 1 then Some (S, [], s, False)
      else case recibir_respuesta_de_memoria mem S s of
        None \<Rightarrow> None
      | Some (S', ev, codigo, s1) \<Rightarrow>
          let ev' = Enviar mem (enviar_crear_proceso p path) # ev
          in if codigo \<noteq> op_num CREAR_PROCESO then Some (S', ev', s1, False)
             else case recibir_ok s1 of Inl e \<Rightarrow> None | Inr (u, s2) \<Rightarrow> Some (S', ev', s2, True))"

definition pcb_nuevo :: "int \<Rightarrow> int \<Rightarrow> t_pcb" where
  "pcb_nuevo prio ahora = \<lparr>prioridad = prio, estado = NEW, quantum_restante = 0, tiempo_llegada = ahora, tiempo_inicio_ejecucion = 0,
     prioridad_dinamica = prio, tiempo_total_cpu = 0, conteo_context_switch = 0, mutex_esperando = None, suspendido_en_swap = False,
     block_epoch = 0, total_memoria = 0, segmentos_info = [], stdin_pendiente = None, stdin_pendiente_dir = 0, stdin_pendiente_size = 0\<rparr>"

text \<open>The result is the pid, or the \<open>NULL\<close> of the code.\<close>

definition crear_proceso ::
  "sock \<Rightarrow> string \<Rightarrow> int \<Rightarrow> t_scheduler \<Rightarrow> byte list \<Rightarrow> (t_scheduler \<times> evento list \<times> byte list \<times> i32 option) option" where
  "crear_proceso mem path prio S s =
     (if path = [] then Some (S, [], s, None)
      else
        let (p, S1) = generar_pid S;
            S2 = registrar_pcb p (S1\<lparr>pcbs := (pcbs S1)(p := Some (pcb_nuevo prio (reloj S1)))\<rparr>)
        in case enviar_creacion_proceso_a_memory mem p path S2 s of
             None \<Rightarrow> None
           | Some (S3, ev, s', ok) \<Rightarrow>
               (case cola_procesos_new S3 of
                  None \<Rightarrow> Some (liberar_pcb p S3, ev, s', None)
                | Some q \<Rightarrow> Some (S3\<lparr>cola_procesos_new := Some (q @ [p]), sem_new := sem_new S3 + 1\<rparr>, ev, s', Some p)))"

definition crear_proceso_inicial ::
  "sock \<Rightarrow> string \<Rightarrow> t_scheduler \<Rightarrow> byte list \<Rightarrow> (t_scheduler \<times> evento list \<times> byte list \<times> i32 option) option" where
  "crear_proceso_inicial mem path S s = (if path = [] then Some (S, [], s, None) else crear_proceso mem path 0 S s)"

section \<open>The long-term scheduler\<close>

text \<open>One turn; \<open>None\<close> waits on \<open>sem_new\<close>. A \<open>NULL\<close> queue would be dereferenced, which only happens after \<open>exit()\<close>.\<close>

definition planificadorLargoPlazo :: "t_scheduler \<Rightarrow> (t_scheduler \<times> evento list) option" where
  "planificadorLargoPlazo S =
     (if sem_new S = 0 then None
      else
        let S0 = S\<lparr>sem_new := sem_new S - 1\<rparr>
        in case cola_procesos_new S of
             None \<Rightarrow> None
           | Some [] \<Rightarrow> Some (S0, [])
           | Some (p # ps) \<Rightarrow>
               let S1 = actualizar_pcb p (\<lambda>b. b\<lparr>estado := READY, tiempo_llegada := reloj S\<rparr>) (S0\<lparr>cola_procesos_new := Some ps\<rparr>)
               in if cantidad_niveles_prioridad S1 > 0 then Some (encolar_en_ready_por_prioridad p S1)
                  else Some (S1\<lparr>cola_procesos_ready := map_option (\<lambda>q. q @ [p]) (cola_procesos_ready S1), sem_ready := sem_ready S1 + 1\<rparr>, []))"

section \<open>Acknowledgements\<close>

definition es_notificacion :: "op_code \<Rightarrow> bool" where
  "es_notificacion c \<longleftrightarrow>
     c \<in> {MEMORIA_CORRUPTA_BSOD, MEMORIA_LIBERADA, INICIAR_COMPACTACION, FINALIZAR_COMPACTACION, NUEVA_MEMORIA_DISPONIBLE}"

lemma respuesta_directa:
  assumes "recibir_codigo_operacion s = (op_num c, s1)" "\<not> es_notificacion c"
  shows "recibir_respuesta_de_memoria mem S s = Some (S, [], op_num c, s1)"
proof -
  have "despachar_si_es_notificacion mem (op_num c) S s1 = None"
    using assms(2) by (cases c) (simp_all add: despachar_si_es_notificacion_def es_notificacion_def)
  then show ?thesis using assms(1) by (simp add: recibir_respuesta_de_memoria.simps [of mem S s])
qed

lemma respuesta_avisada:
  assumes "recibir_codigo_operacion s = (op_num c, s1)" "despachar_si_es_notificacion mem (op_num c) S s1 = Some (Some (S', ev, s2))"
  shows "recibir_respuesta_de_memoria mem S s =
    map_option (\<lambda>(S'', ev', op', s'). (S'', ev @ ev', op', s')) (recibir_respuesta_de_memoria mem S' s2)"
  using assms by (simp add: recibir_respuesta_de_memoria.simps [of mem S s])

lemma pedir_ack:
  assumes "\<not> es_notificacion c"
  shows "pedir_a_memoria mem m S (enviar_ok c @ s) = Some (S, [Enviar mem m], op_num c, s)"
proof -
  obtain s1 where "recibir_codigo_operacion (enviar_ok c @ s) = (op_num c, s1)" "recibir_ok s1 = Inr ((), s)" by (rule recibir_ack)
  then show ?thesis using respuesta_directa [OF _ assms] by (simp add: pedir_a_memoria_def)
qed

end
