(* ===== verification/Sched_IO.thy ===== *)
theory Sched_IO
  imports Sched_Memoria
begin

text \<open>
  IO devices of the Kernel Scheduler (\<open>kernel_scheduler/src/colaIO.c\<close>) and the list of
  suspended processes of \<open>planificadorMedianoPlazo.c\<close> that it uses. A \<open>t_interfaz_io*\<close> is an
  index of \<open>tabla_ios\<close>, from which nothing is ever removed. The worker thread of a device is
  given as two steps, because the rest of the scheduler runs while it waits for the device:
  \<open>io_worker_tomar\<close> takes a request and sends it, \<open>io_worker_fin\<close> handles the answer.
  \<open>None\<close> is a step that cannot be taken: the worker waits, or the program aborts. Failures of
  \<open>malloc\<close> and \<open>pthread_create\<close> are not modelled.
\<close>

section \<open>Table of devices\<close>

definition MAX_IOS :: nat where
  "MAX_IOS = 1000"

definition inicializar_tabla_ios :: "t_scheduler \<Rightarrow> t_scheduler" where
  "inicializar_tabla_ios S = S\<lparr>tabla_ios := [], cola_procesos_block := []\<rparr>"

text \<open>\<open>strncasecmp(s, pre, strlen(pre)) == 0\<close>.\<close>

definition empieza_sin_caso :: "string \<Rightarrow> string \<Rightarrow> bool" where
  "empieza_sin_caso pre s \<longleftrightarrow> map a_minuscula (take (length pre) s) = map a_minuscula pre"

definition inferir_tipo_io :: "string option \<Rightarrow> t_io_type" where
  "inferir_tipo_io nombre =
     (case nombre of
        None \<Rightarrow> IO_TYPE_SLEEP
      | Some n \<Rightarrow>
          if empieza_sin_caso ''SLEEP'' n then IO_TYPE_SLEEP
          else if empieza_sin_caso ''STDIN'' n then IO_TYPE_STDIN
          else if empieza_sin_caso ''STDOUT'' n then IO_TYPE_STDOUT
          else IO_TYPE_SLEEP)"

definition registrar_interfaz_io :: "sock \<Rightarrow> string \<Rightarrow> t_scheduler \<Rightarrow> t_scheduler \<times> nat option" where
  "registrar_interfaz_io socket nombre S =
     (if length (tabla_ios S) \<ge> MAX_IOS then (S, None)
      else
        (S\<lparr>tabla_ios := tabla_ios S @ [\<lparr>io_socket = socket, io_nombre = nombre, io_tipo = inferir_tipo_io (Some nombre), io_cola = [],
             sem_cola = 0, activa = True, en_curso = None\<rparr>]\<rparr>,
         Some (length (tabla_ios S))))"

definition buscar_interfaz_io :: "string option \<Rightarrow> t_scheduler \<Rightarrow> nat option" where
  "buscar_interfaz_io nombre S =
     (if nombre = None then None
      else buscar_idx (\<lambda>io. activa io \<and> string_igual_ignora_mayusculas (Some (io_nombre io)) nombre) (tabla_ios S))"

definition buscar_interfaz_io_por_tipo :: "t_io_type \<Rightarrow> t_scheduler \<Rightarrow> nat option" where
  "buscar_interfaz_io_por_tipo tipo S = buscar_idx (\<lambda>io. activa io \<and> io_tipo io = tipo) (tabla_ios S)"

definition actualizar_io :: "nat \<Rightarrow> (t_interfaz_io \<Rightarrow> t_interfaz_io) \<Rightarrow> t_scheduler \<Rightarrow> t_scheduler" where
  "actualizar_io i f S = S\<lparr>tabla_ios := (tabla_ios S)[i := f (tabla_ios S ! i)]\<rparr>"

section \<open>Requests\<close>

text \<open>The fields that a constructor leaves uninitialised, and that no one reads, are 0.\<close>

definition crear_io_request_sleep :: "i32 \<Rightarrow> i32 \<Rightarrow> t_io_request" where
  "crear_io_request_sleep p ms = \<lparr>r_proceso = p, r_tipo = IO_TYPE_SLEEP, tiempo_ms = ms, stdin_size = 0, stdin_dir_logica = 0,
     stdout_dir_logica = 0, stdout_size = 0, stdout_buffer = None\<rparr>"

definition crear_io_request_stdin :: "i32 \<Rightarrow> i32 \<Rightarrow> i32 \<Rightarrow> t_io_request" where
  "crear_io_request_stdin p tam dir = \<lparr>r_proceso = p, r_tipo = IO_TYPE_STDIN, tiempo_ms = 0, stdin_size = tam, stdin_dir_logica = dir,
     stdout_dir_logica = 0, stdout_size = 0, stdout_buffer = None\<rparr>"

definition crear_io_request_stdout :: "i32 \<Rightarrow> i32 \<Rightarrow> i32 \<Rightarrow> byte list \<Rightarrow> t_io_request" where
  "crear_io_request_stdout p dir tam datos = \<lparr>r_proceso = p, r_tipo = IO_TYPE_STDOUT, tiempo_ms = 0, stdin_size = 0, stdin_dir_logica = 0,
     stdout_dir_logica = dir, stdout_size = tam, stdout_buffer = Some datos\<rparr>"

definition encolar_io_request :: "nat \<Rightarrow> t_io_request \<Rightarrow> t_scheduler \<Rightarrow> t_scheduler \<times> bool" where
  "encolar_io_request i req S =
     (if \<not> activa (tabla_ios S ! i) then (S, False)
      else
        let p = r_proceso req;
            S1 = actualizar_pcb p (\<lambda>b. b\<lparr>estado := BLOCK, block_epoch := block_epoch b + 1\<rparr>) S;
            S2 = S1\<lparr>cola_procesos_block := cola_procesos_block S1 @ [p]\<rparr>;
            S3 = (case pcbs S2 p of None \<Rightarrow> S2 | Some b \<Rightarrow> notificar_proceso_en_block p (block_epoch b) S2)
        in (actualizar_io i (\<lambda>io. io\<lparr>io_cola := io_cola io @ [req], sem_cola := sem_cola io + 1\<rparr>) S3, True))"

section \<open>Leaving BLOCK\<close>

definition agregar_a_lista_suspendidos :: "i32 \<Rightarrow> t_scheduler \<Rightarrow> t_scheduler" where
  "agregar_a_lista_suspendidos p S = S\<lparr>lista_suspendidos := lista_suspendidos S @ [(p, reloj S)]\<rparr>"

definition remover_de_lista_suspendidos :: "i32 \<Rightarrow> t_scheduler \<Rightarrow> t_scheduler" where
  "remover_de_lista_suspendidos p S =
     (case buscar_idx (\<lambda>(q, t). q = p) (lista_suspendidos S) of
        None \<Rightarrow> S
      | Some i \<Rightarrow> S\<lparr>lista_suspendidos := list_remove (lista_suspendidos S) i\<rparr>)"

text \<open>\<open>None\<close>: the copy to swap is under way and the caller waits. The flag tells whether the process was there.\<close>

definition extraer_de_block :: "i32 \<Rightarrow> t_scheduler \<Rightarrow> (t_scheduler \<times> bool) option" where
  "extraer_de_block p S =
     (case buscar_idx (\<lambda>q. q = p) (cola_procesos_block S) of
        None \<Rightarrow> Some (S, False)
      | Some i \<Rightarrow>
          (case pcbs S p of
             None \<Rightarrow> None
           | Some b \<Rightarrow>
               if estado b = SUSP_BLOCK \<and> \<not> suspendido_en_swap b then None
               else Some (S\<lparr>cola_procesos_block := list_remove (cola_procesos_block S) i\<rparr>, True)))"

definition desbloquear_proceso_por_io :: "i32 \<Rightarrow> t_scheduler \<Rightarrow> (t_scheduler \<times> evento list) option" where
  "desbloquear_proceso_por_io p S =
     (case extraer_de_block p S of
        None \<Rightarrow> None
      | Some (S1, esta) \<Rightarrow>
          if \<not> esta then Some (S1, [])
          else if map_option estado (pcbs S1 p) = Some SUSP_BLOCK
          then Some (notificar_reevaluar_suspendidos (actualizar_pcb p (\<lambda>b. b\<lparr>estado := SUSP_READY\<rparr>) S1), [])
          else Some (encolar_en_ready_y_notificar p S1))"

section \<open>End of a process\<close>

text \<open>What every end of a process does once its state is EXIT; the block goes with all its fields.\<close>

definition finalizar_pcb :: "sock \<Rightarrow> i32 \<Rightarrow> t_scheduler \<Rightarrow> byte list \<Rightarrow> (t_scheduler \<times> evento list \<times> byte list) option" where
  "finalizar_pcb mem p S s =
     (case liberar_mutexes_de_proceso p S of
        None \<Rightarrow> None
      | Some (S1, ev1) \<Rightarrow>
          map_option (\<lambda>(S2, ev, s'). (liberar_pcb p (eliminar_pcb p S2), ev1 @ ev, s'))
            (notificar_fin_a_memoria mem p S1 s))"

definition finalizar_pcb_por_seg_fault :: "sock \<Rightarrow> i32 \<Rightarrow> t_scheduler \<Rightarrow> byte list \<Rightarrow> (t_scheduler \<times> evento list \<times> byte list) option" where
  "finalizar_pcb_por_seg_fault mem p S s =
     finalizar_pcb mem p (remover_de_lista_suspendidos p (actualizar_pcb p marcar_exit S)) s"

text \<open>\<open>datos\<close> is the block of \<open>size\<close> bytes.\<close>

definition escribir_stdin_en_memoria ::
  "sock \<Rightarrow> i32 \<Rightarrow> u32 \<Rightarrow> byte list \<Rightarrow> t_scheduler \<Rightarrow> byte list \<Rightarrow> (t_scheduler \<times> evento list \<times> byte list \<times> bool) option" where
  "escribir_stdin_en_memoria mem p dir datos S s =
     map_option (\<lambda>(S', ev, ack, s'). (S', ev, s', ack = op_num ESCRITURA_MEMORIA))
       (pedir_a_memoria mem (enviar_escritura_memoria p dir datos) S s)"

section \<open>The worker of a device\<close>

definition pedido_io :: "t_interfaz_io \<Rightarrow> t_io_request \<Rightarrow> evento list" where
  "pedido_io io req =
     (case r_tipo req of
        IO_TYPE_SLEEP \<Rightarrow> [Enviar (io_socket io) (enviar_io_sleep (r_proceso req) (tiempo_ms req))]
      | IO_TYPE_STDIN \<Rightarrow> [Enviar (io_socket io) (enviar_io_stdin (r_proceso req) (stdin_size req))]
      | IO_TYPE_STDOUT \<Rightarrow>
          (case stdout_buffer req of None \<Rightarrow> [] | Some d \<Rightarrow> [Enviar (io_socket io) (enviar_io_stdout (r_proceso req) d)]))"

definition io_worker_tomar :: "nat \<Rightarrow> t_scheduler \<Rightarrow> (t_scheduler \<times> evento list) option" where
  "io_worker_tomar i S =
     (let io = tabla_ios S ! i
      in if i \<ge> length (tabla_ios S) \<or> \<not> activa io \<or> en_curso io \<noteq> None \<or> sem_cola io = 0 then None
         else case io_cola io of
           [] \<Rightarrow> Some (actualizar_io i (\<lambda>io. io\<lparr>sem_cola := sem_cola io - 1\<rparr>) S, [])
         | req # rs \<Rightarrow>
             Some (actualizar_io i (\<lambda>io. io\<lparr>sem_cola := sem_cola io - 1, io_cola := rs, en_curso := Some req\<rparr>) S, pedido_io io req))"

text \<open>The data of a STDIN: at once when the process is in RAM, kept in the block when it is in swap.\<close>

definition entregar_stdin ::
  "sock \<Rightarrow> t_io_request \<Rightarrow> byte list \<Rightarrow> t_scheduler \<Rightarrow> byte list \<Rightarrow> (t_scheduler \<times> evento list \<times> byte list) option" where
  "entregar_stdin mem req datos S s =
     (let p = r_proceso req
      in case extraer_de_block p S of
           None \<Rightarrow> None
         | Some (S1, esta) \<Rightarrow>
             if \<not> esta then Some (S1, [], s)
             else if map_option estado (pcbs S1 p) = Some SUSP_BLOCK
             then Some (notificar_reevaluar_suspendidos (actualizar_pcb p (\<lambda>b. b\<lparr>stdin_pendiente := Some datos,
                    stdin_pendiente_dir := stdin_dir_logica req, stdin_pendiente_size := stdin_size req, estado := SUSP_READY\<rparr>) S1), [], s)
             else case escribir_stdin_en_memoria mem p (stdin_dir_logica req) datos S1 s of
               None \<Rightarrow> None
             | Some (S2, ev, s', escrito) \<Rightarrow>
                 if \<not> escrito
                 then map_option (\<lambda>(S3, ev', s''). (S3, ev @ ev', s'')) (finalizar_pcb_por_seg_fault mem p S2 s')
                 else (let (S3, ev') = encolar_en_ready_y_notificar p S2 in Some (S3, ev @ ev', s')))"

text \<open>\<open>t\<close> are the bytes of the device, \<open>s\<close> those of Kernel Memory.\<close>

definition io_worker_fin ::
  "sock \<Rightarrow> nat \<Rightarrow> t_scheduler \<Rightarrow> byte list \<Rightarrow> byte list \<Rightarrow> (t_scheduler \<times> evento list \<times> byte list \<times> byte list) option" where
  "io_worker_fin mem i S t s =
     (case (if i < length (tabla_ios S) then en_curso (tabla_ios S ! i) else None) of
        None \<Rightarrow> None
      | Some req \<Rightarrow>
          let p = r_proceso req;
              S0 = actualizar_io i (\<lambda>io. io\<lparr>en_curso := None\<rparr>) S;
              (resp, t1) = recibir_codigo_operacion t
          in if r_tipo req = IO_TYPE_STDOUT \<and> stdout_buffer req = None
             then map_option (\<lambda>(S', ev). (S', ev, t, s)) (desbloquear_proceso_por_io p S0)
             else if resp \<noteq> op_num IO_FINALIZADA then Some (actualizar_io i (\<lambda>io. io\<lparr>activa := False\<rparr>) S0, [], t1, s)
             else if r_tipo req = IO_TYPE_STDIN
             then (case recibir_datos_stdin (stdin_size req) t1 of
                     Inl e \<Rightarrow> None
                   | Inr ((pid_respuesta, datos), t2) \<Rightarrow>
                       map_option (\<lambda>(S', ev, s'). (S', ev, t2, s')) (entregar_stdin mem req datos S0 s))
             else (case recibir_fin_io t1 of
                     Inl e \<Rightarrow> None
                   | Inr (pid, t2) \<Rightarrow> map_option (\<lambda>(S', ev). (S', ev, t2, s)) (desbloquear_proceso_por_io p S0)))"

end
