(* ===== verification/Sched_Pmp.thy ===== *)
theory Sched_Pmp
  imports Sched_IO
begin

text \<open>
  The medium-term scheduler (\<open>kernel_scheduler/src/planificadorMedianoPlazo.c\<close>). The thread of
  a suspension timer is two steps, before and after it waits for Kernel Memory; the other
  threads run in between. \<open>list_sort\<close> of the commons library is the parameter \<open>ordenar\<close>.
\<close>

section \<open>Suspension timer\<close>

text \<open>
  The timer \<open>tm\<close> fires: only the process of the same block episode is suspended. It is marked
  and put in the list before Kernel Memory is asked for the copy.
\<close>

definition suspension_timer_thread :: "i32 \<times> u32 \<Rightarrow> t_scheduler \<Rightarrow> t_scheduler" where
  "suspension_timer_thread tm S =
     (let S0 = S\<lparr>timers_suspension := remove1 tm (timers_suspension S)\<rparr>;
          p = fst tm
      in if sistema_corrupto S then S0
         else if list_ex (\<lambda>q. q = p \<and> (case pcbs S q of None \<Rightarrow> False | Some b \<Rightarrow> estado b = BLOCK \<and> block_epoch b = snd tm)) (cola_procesos_block S)
         then
           let S1 = agregar_a_lista_suspendidos p (actualizar_pcb p (\<lambda>b. b\<lparr>estado := SUSP_BLOCK, suspendido_en_swap := False\<rparr>) S0)
           in S1\<lparr>volcados_en_vuelo := volcados_en_vuelo S1 @ [p]\<rparr>
         else S0)"

text \<open>Kernel Memory has answered, or the connection is lost; the thread ends.\<close>

definition suspension_timer_responde :: "sock \<Rightarrow> i32 \<Rightarrow> t_scheduler \<Rightarrow> byte list \<Rightarrow> (t_scheduler \<times> evento list \<times> byte list) option" where
  "suspension_timer_responde mem p S s =
     (case pedir_a_memoria mem (enviar_suspender_proceso p) S s of
        None \<Rightarrow> None
      | Some (S1, ev, ack, s') \<Rightarrow>
          let S2 = (if p \<in> set (cola_procesos_block S1) then actualizar_pcb p (\<lambda>b. b\<lparr>suspendido_en_swap := True\<rparr>) S1 else S1)
          in Some (notificar_reevaluar_suspendidos (S2\<lparr>volcados_en_vuelo := remove1 p (volcados_en_vuelo S2)\<rparr>), ev, s'))"

section \<open>Resumption\<close>

definition comparar_suspendidos :: "t_scheduler \<Rightarrow> i32 \<times> int \<Rightarrow> i32 \<times> int \<Rightarrow> bool" where
  "comparar_suspendidos S a b =
     (case (pcbs S (fst a), pcbs S (fst b)) of
        (Some x, Some y) \<Rightarrow>
          if prioridad_dinamica x \<noteq> prioridad_dinamica y then prioridad_dinamica x < prioridad_dinamica y
          else snd a < snd b
      | _ \<Rightarrow> False)"

definition candidatos :: "t_scheduler \<Rightarrow> (i32 \<times> int) list" where
  "candidatos S = filter (\<lambda>(p, t). map_option estado (pcbs S p) = Some SUSP_READY) (lista_suspendidos S)"

text \<open>What follows a swap-in that succeeded: the pending STDIN first, then READY.\<close>

definition reactivar :: "sock \<Rightarrow> i32 \<Rightarrow> t_scheduler \<Rightarrow> byte list \<Rightarrow> (t_scheduler \<times> evento list \<times> byte list) option" where
  "reactivar mem p S s =
     (let S1 = remover_de_lista_suspendidos p S
      in case pcbs S1 p of
           None \<Rightarrow> None
         | Some b \<Rightarrow>
             (case stdin_pendiente b of
                None \<Rightarrow> (let (S2, ev) = encolar_en_ready_y_notificar p S1 in Some (S2, ev, s))
              | Some datos \<Rightarrow>
                  (case escribir_stdin_en_memoria mem p (stdin_pendiente_dir b) datos S1 s of
                     None \<Rightarrow> None
                   | Some (S2, ev, s', escrito) \<Rightarrow>
                       let S3 = actualizar_pcb p (\<lambda>b. b\<lparr>stdin_pendiente := None\<rparr>) S2
                       in if \<not> escrito
                          then map_option (\<lambda>(S4, ev', s''). (S4, ev @ ev', s'')) (finalizar_pcb_por_seg_fault mem p S3 s')
                          else let (S4, ev') = encolar_en_ready_y_notificar p S3 in Some (S4, ev @ ev', s'))))"

fun des_suspender_bucle :: "sock \<Rightarrow> i32 list \<Rightarrow> t_scheduler \<Rightarrow> byte list \<Rightarrow> (t_scheduler \<times> evento list \<times> byte list) option" where
  "des_suspender_bucle mem [] S s = Some (S, [], s)"
| "des_suspender_bucle mem (p # ps) S s =
     (if sistema_corrupto S then Some (S, [], s)
      else case pedir_a_memoria mem (enviar_des_suspender_proceso p) S s of
        None \<Rightarrow> None
      | Some (S1, ev, ack, s1) \<Rightarrow>
          (case (if ack \<noteq> op_num DES_SUSPENDER_PROCESO then Some (S1, [], s1) else reactivar mem p S1 s1) of
             None \<Rightarrow> None
           | Some (S2, ev', s2) \<Rightarrow>
               map_option (\<lambda>(S3, ev'', s3). (S3, ev @ ev' @ ev'', s3)) (des_suspender_bucle mem ps S2 s2)))"

type_synonym ordenar = "(i32 \<times> int \<Rightarrow> i32 \<times> int \<Rightarrow> bool) \<Rightarrow> (i32 \<times> int) list \<Rightarrow> (i32 \<times> int) list"

definition intentar_des_suspender_susp_ready :: "ordenar \<Rightarrow> sock \<Rightarrow> t_scheduler \<Rightarrow> byte list \<Rightarrow> (t_scheduler \<times> evento list \<times> byte list) option" where
  "intentar_des_suspender_susp_ready ordenar mem S s =
     (if lista_suspendidos S = [] then Some (S, [], s)
      else if candidatos S = [] then Some (S, [], s)
      else des_suspender_bucle mem (map fst (ordenar (comparar_suspendidos S) (candidatos S))) S s)"

text \<open>One turn of the thread; \<open>None\<close> waits.\<close>

definition planificadorMedianoPlazo :: "ordenar \<Rightarrow> sock \<Rightarrow> t_scheduler \<Rightarrow> byte list \<Rightarrow> (t_scheduler \<times> evento list \<times> byte list) option" where
  "planificadorMedianoPlazo ordenar mem S s =
     (if sem_reevaluar_suspendidos S = 0 then None
      else
        let S0 = S\<lparr>sem_reevaluar_suspendidos := sem_reevaluar_suspendidos S - 1\<rparr>
        in if sistema_corrupto S0 then Some (S0, [], s) else intentar_des_suspender_susp_ready ordenar mem S0 s)"

section \<open>A STDIN that ends while its process is in swap\<close>

lemma estado_encolado:
  "pcbs S p = Some b \<Longrightarrow> pcbs (fst (encolar_en_ready_y_notificar p S)) p = Some (b\<lparr>estado := READY\<rparr>)"
  "lista_suspendidos (fst (encolar_en_ready_y_notificar p S)) = lista_suspendidos S"
  by (auto simp: encolar_en_ready_y_notificar_def reencolar_proceso_ready_final_def poner_cola_def actualizar_pcb_def Let_def split: option.split)

lemma buscar_idx_unico:
  "p \<notin> fst ` set l \<Longrightarrow> buscar_idx (\<lambda>(q, t). q = p) (l @ (p, t0) # l') = Some (length l)"
  by (induction l) auto

lemma remover_unico:
  assumes "lista_suspendidos S = l @ (p, t0) # l'" "p \<notin> fst ` set (l @ l')"
  shows "remover_de_lista_suspendidos p S = S\<lparr>lista_suspendidos := l @ l'\<rparr>"
  using assms buscar_idx_unico [of p l t0 l'] by (simp add: remover_de_lista_suspendidos_def list_remove_def image_Un)

text \<open>The resumption of a process with data that wait for it, when Kernel Memory accepts both requests.\<close>

lemma reactivar_con_stdin:
  assumes "lista_suspendidos S = l @ (p, t0) # l'" "p \<notin> fst ` set (l @ l')"
    and "pcbs S p = Some b" "stdin_pendiente b = Some datos"
  obtains S' ev where "reactivar mem p S (enviar_ok ESCRITURA_MEMORIA @ s) =
      Some (S', Enviar mem (enviar_escritura_memoria p (stdin_pendiente_dir b) datos) # ev, s)"
    "pcbs S' p = Some (b\<lparr>stdin_pendiente := None, estado := READY\<rparr>)" "lista_suspendidos S' = l @ l'"
proof -
  let ?S1 = "S\<lparr>lista_suspendidos := l @ l'\<rparr>"
  let ?S3 = "actualizar_pcb p (\<lambda>b. b\<lparr>stdin_pendiente := None\<rparr>) ?S1"
  have e: "escribir_stdin_en_memoria mem p d datos ?S1 (enviar_ok ESCRITURA_MEMORIA @ s) =
      Some (?S1, [Enviar mem (enviar_escritura_memoria p d datos)], s, True)" for d
    by (simp add: escribir_stdin_en_memoria_def pedir_ack es_notificacion_def)
  obtain S' ev where r: "encolar_en_ready_y_notificar p ?S3 = (S', ev)" by (cases "encolar_en_ready_y_notificar p ?S3")
  have "pcbs S' p = Some (b\<lparr>stdin_pendiente := None, estado := READY\<rparr>)" "lista_suspendidos S' = l @ l'"
    using estado_encolado(1) [of ?S3 p "b\<lparr>stdin_pendiente := None\<rparr>"] estado_encolado(2) [of p ?S3] r assms(3)
    by (simp_all add: actualizar_pcb_def)
  moreover have "reactivar mem p S (enviar_ok ESCRITURA_MEMORIA @ s) =
      Some (S', Enviar mem (enviar_escritura_memoria p (stdin_pendiente_dir b) datos) # ev, s)"
    using remover_unico [OF assms(1,2)] assms(3,4) e r by (simp add: reactivar_def Let_def)
  ultimately show thesis using that by blast
qed

text \<open>The worker gets the data: the bytes go to the block, nothing goes to Kernel Memory.\<close>

definition con_stdin_pendiente :: "t_io_request \<Rightarrow> byte list \<Rightarrow> t_pcb \<Rightarrow> t_pcb" where
  "con_stdin_pendiente req datos b = b\<lparr>stdin_pendiente := Some datos, stdin_pendiente_dir := stdin_dir_logica req,
     stdin_pendiente_size := stdin_size req, estado := SUSP_READY\<rparr>"

lemma stdin_guardado:
  assumes "i < length (tabla_ios S)" "en_curso (tabla_ios S ! i) = Some req" "r_tipo req = IO_TYPE_STDIN"
    and b: "pcbs S (r_proceso req) = Some b" "estado b = SUSP_BLOCK" "suspendido_en_swap b"
    and k: "buscar_idx (\<lambda>q. q = r_proceso req) (cola_procesos_block S) = Some k"
    and datos: "length datos = cuenta (stdin_size req)" "cuenta (stdin_size req) < 2 ^ 31 - 100"
  shows "io_worker_fin mem i S (enviar_datos_stdin pid datos @ t) s =
    Some (S\<lparr>tabla_ios := (tabla_ios S)[i := (tabla_ios S ! i)\<lparr>en_curso := None\<rparr>],
            cola_procesos_block := list_remove (cola_procesos_block S) k,
            pcbs := (pcbs S)(r_proceso req := Some (con_stdin_pendiente req datos b)),
            sem_reevaluar_suspendidos := sem_reevaluar_suspendidos S + 1\<rparr>, [], t, s)"
proof -
  obtain t1 where t1: "recibir_codigo_operacion (enviar_datos_stdin pid datos @ t) = (op_num IO_FINALIZADA, t1)"
      "recibir_datos_stdin (stdin_size req) t1 = Inr ((pid, datos), t)"
    using recibir_mensajeD [OF m_datos_stdin.ida_y_vuelta [of "stdin_size req" "(pid, datos)" t]] datos by auto
  let ?S0 = "S\<lparr>tabla_ios := (tabla_ios S)[i := (tabla_ios S ! i)\<lparr>en_curso := None\<rparr>]\<rparr>"
  have "extraer_de_block (r_proceso req) ?S0 = Some (?S0\<lparr>cola_procesos_block := list_remove (cola_procesos_block S) k\<rparr>, True)"
    using b k by (simp add: extraer_de_block_def)
  then show ?thesis
    using assms t1 by (simp add: io_worker_fin_def Let_def actualizar_io_def entregar_stdin_def notificar_reevaluar_suspendidos_def
        actualizar_pcb_def con_stdin_pendiente_def)
qed

lemma candidatos_uno:
  assumes "lista_suspendidos S = l @ (p, t0) # l'" "map_option estado (pcbs S p) = Some SUSP_READY"
    and "\<forall>(q, t) \<in> set (l @ l'). map_option estado (pcbs S q) \<noteq> Some SUSP_READY"
  shows "candidatos S = [(p, t0)]"
proof -
  have "filter (\<lambda>(q, t). map_option estado (pcbs S q) = Some SUSP_READY) m = []" if "set m \<subseteq> set (l @ l')" for m
    using assms(3) that by (auto simp: filter_empty_conv)
  from this [of l] this [of l'] show ?thesis using assms(1,2) by (simp add: candidatos_def)
qed

text \<open>
  C32. The data of a STDIN that arrive while the process is in swap. The worker of the device
  sends nothing to Kernel Memory, since the pages of the process are not there: it keeps the
  bytes in the block and the process becomes SUSP\_READY. At the next turn of the medium-term
  scheduler (the process being the only one that can be resumed) the process is brought back
  first and the bytes are written after that, to the address that the process gave; only then it
  is READY, and it is no longer suspended. When Kernel Memory has no room the bytes stay in the
  block and nothing changes.
\<close>

theorem stdin_diferido:
  assumes io: "i < length (tabla_ios S)" "en_curso (tabla_ios S ! i) = Some req" "r_tipo req = IO_TYPE_STDIN" "r_proceso req = p"
    and b: "pcbs S p = Some b" "estado b = SUSP_BLOCK" "suspendido_en_swap b" "p \<in> set (cola_procesos_block S)" "\<not> sistema_corrupto S"
    and datos: "length datos = cuenta (stdin_size req)" "cuenta (stdin_size req) < 2 ^ 31 - 100"
    and lista: "lista_suspendidos S = l @ (p, t0) # l'" "p \<notin> fst ` set (l @ l')"
      "\<forall>(q, t) \<in> set (l @ l'). map_option estado (pcbs S q) \<noteq> Some SUSP_READY"
    and orden: "\<And>c x. ordenar c [x] = [x]"
    and fin: "io_worker_fin mem i S (enviar_datos_stdin pid datos @ t) s = Some (S1, ev, t', s')"
  shows "ev = [] \<and> s' = s \<and> t' = t \<and> map_option estado (pcbs S1 p) = Some SUSP_READY \<and>
    (\<exists>S2 ev2. planificadorMedianoPlazo ordenar mem S1 (enviar_ok DES_SUSPENDER_PROCESO @ enviar_ok ESCRITURA_MEMORIA @ r) =
        Some (S2, [Enviar mem (enviar_des_suspender_proceso p), Enviar mem (enviar_escritura_memoria p (stdin_dir_logica req) datos)] @ ev2, r) \<and>
      map_option estado (pcbs S2 p) = Some READY \<and> map_option stdin_pendiente (pcbs S2 p) = Some None \<and> lista_suspendidos S2 = l @ l') \<and>
    planificadorMedianoPlazo ordenar mem S1 (enviar_ok SEGMENTATION_FAULT @ r) =
      Some (S1\<lparr>sem_reevaluar_suspendidos := sem_reevaluar_suspendidos S\<rparr>, [Enviar mem (enviar_des_suspender_proceso p)], r)"
proof -
  obtain k where k: "buscar_idx (\<lambda>q. q = p) (cola_procesos_block S) = Some k"
    using b(4) buscar_idx_None [of "\<lambda>q. q = p" "cola_procesos_block S"] by (cases "buscar_idx (\<lambda>q. q = p) (cola_procesos_block S)") auto
  let ?b = "con_stdin_pendiente req datos b"
  have S1: "S1 = S\<lparr>tabla_ios := (tabla_ios S)[i := (tabla_ios S ! i)\<lparr>en_curso := None\<rparr>],
            cola_procesos_block := list_remove (cola_procesos_block S) k, pcbs := (pcbs S)(p := Some ?b),
            sem_reevaluar_suspendidos := sem_reevaluar_suspendidos S + 1\<rparr>" and r1: "ev = []" "s' = s" "t' = t"
    using stdin_guardado [OF io(1-3), of b k datos mem pid t s] io(4) b k datos fin by auto
  let ?S0 = "S1\<lparr>sem_reevaluar_suspendidos := sem_reevaluar_suspendidos S\<rparr>"
  have otros: "map_option estado (pcbs ?S0 q) \<noteq> Some SUSP_READY" if "(q, tq) \<in> set (l @ l')" for q tq
  proof -
    have "q \<noteq> p" using lista(2) that by force
    then show ?thesis using lista(3) that by (auto simp: S1)
  qed
  have "candidatos ?S0 = [(p, t0)]"
    by (rule candidatos_uno [where l = l and l' = l']) (use lista(1) otros in \<open>auto simp: S1 con_stdin_pendiente_def\<close>)
  then have turno: "planificadorMedianoPlazo ordenar mem S1 m = des_suspender_bucle mem [p] ?S0 m" for m
    using b(5) lista(1) orden by (simp add: planificadorMedianoPlazo_def intentar_des_suspender_susp_ready_def S1)
  have n: "\<not> sistema_corrupto ?S0" "\<not> es_notificacion DES_SUSPENDER_PROCESO" "\<not> es_notificacion SEGMENTATION_FAULT"
    using b(5) by (simp_all add: S1 es_notificacion_def)
  obtain S2 ev2 where "reactivar mem p ?S0 (enviar_ok ESCRITURA_MEMORIA @ r) =
      Some (S2, Enviar mem (enviar_escritura_memoria p (stdin_dir_logica req) datos) # ev2, r)"
    "pcbs S2 p = Some (?b\<lparr>stdin_pendiente := None, estado := READY\<rparr>)" "lista_suspendidos S2 = l @ l'"
    by (rule reactivar_con_stdin [of ?S0 l p t0 l' ?b datos mem r])
      (use lista(1,2) in \<open>auto simp: S1 con_stdin_pendiente_def\<close>)
  then have "\<exists>S2 ev2. planificadorMedianoPlazo ordenar mem S1 (enviar_ok DES_SUSPENDER_PROCESO @ enviar_ok ESCRITURA_MEMORIA @ r) =
        Some (S2, [Enviar mem (enviar_des_suspender_proceso p), Enviar mem (enviar_escritura_memoria p (stdin_dir_logica req) datos)] @ ev2, r) \<and>
      map_option estado (pcbs S2 p) = Some READY \<and> map_option stdin_pendiente (pcbs S2 p) = Some None \<and> lista_suspendidos S2 = l @ l'"
    using n by (simp add: turno pedir_ack)
  moreover have "op_num SEGMENTATION_FAULT \<noteq> op_num DES_SUSPENDER_PROCESO" by simp
  then have "planificadorMedianoPlazo ordenar mem S1 (enviar_ok SEGMENTATION_FAULT @ r) =
      Some (?S0, [Enviar mem (enviar_des_suspender_proceso p)], r)"
    using n by (simp add: turno pedir_ack)
  moreover have "map_option estado (pcbs S1 p) = Some SUSP_READY" by (simp add: S1 con_stdin_pendiente_def)
  ultimately show ?thesis using r1 by blast
qed

definition scheduler_stdin :: t_scheduler where
  "scheduler_stdin = scheduler_ejemplo\<lparr>cola_procesos_block := [1], lista_suspendidos := [(1, 5)],
     pcbs := (pcbs scheduler_ejemplo)(1 := Some (pcb_ejemplo\<lparr>estado := SUSP_BLOCK, suspendido_en_swap := True\<rparr>)),
     tabla_ios := [\<lparr>io_socket = 6, io_nombre = ''STDIN1'', io_tipo = IO_TYPE_STDIN, io_cola = [], sem_cola = 0, activa = True,
       en_curso = Some (crear_io_request_stdin 1 2 64)\<rparr>]\<rparr>"

lemma stdin_diferido_witness:
  "\<exists>S1 S2 ev. io_worker_fin 9 0 scheduler_stdin (enviar_datos_stdin 1 [104, 105] @ []) [] = Some (S1, [], [], []) \<and>
     planificadorMedianoPlazo (\<lambda>c xs. xs) 9 S1 (enviar_ok DES_SUSPENDER_PROCESO @ enviar_ok ESCRITURA_MEMORIA @ []) =
       Some (S2, [Enviar 9 (enviar_des_suspender_proceso 1), Enviar 9 (enviar_escritura_memoria 1 64 [104, 105])] @ ev, []) \<and>
     map_option estado (pcbs S2 1) = Some READY"
proof -
  let ?req = "crear_io_request_stdin 1 2 64" and ?b = "pcb_ejemplo\<lparr>estado := SUSP_BLOCK, suspendido_en_swap := True\<rparr>"
  have c: "cuenta 2 = 2" by (simp add: cuenta_def)
  have f: "length (tabla_ios scheduler_stdin) = 1" "en_curso (tabla_ios scheduler_stdin ! 0) = Some ?req" "pcbs scheduler_stdin 1 = Some ?b"
    "cola_procesos_block scheduler_stdin = [1]" "lista_suspendidos scheduler_stdin = [] @ (1, 5) # []" "\<not> sistema_corrupto scheduler_stdin"
    by (simp_all add: scheduler_stdin_def scheduler_ejemplo_def)
  have q: "r_tipo ?req = IO_TYPE_STDIN" "r_proceso ?req = 1" "stdin_size ?req = 2" "stdin_dir_logica ?req = 64"
    by (simp_all add: crear_io_request_stdin_def)
  obtain S1 where e: "io_worker_fin 9 0 scheduler_stdin (enviar_datos_stdin 1 [104, 105] @ []) [] = Some (S1, [], [], [])"
    using stdin_guardado [of 0 scheduler_stdin ?req ?b 0 "[104, 105]" 9 1 "[]" "[]"] f q c by simp
  from stdin_diferido [OF _ f(2) q(1,2) f(3) _ _ _ f(6) _ _ f(5) _ _ _ e, of "\<lambda>c xs. xs" "[]"] f q c
  show ?thesis using e by auto
qed

end
