(* ===== verification/Sched_Syscalls.thy ===== *)
theory Sched_Syscalls
  imports Sched_Pmp
begin

text \<open>
  The system calls that a CPU hands back, the thread that receives from a CPU and the
  handshakes (\<open>kernel_scheduler/src/utils_kernel_scheduler.c\<close>). A system call is one step: the
  exchange with Kernel Memory is part of it, under \<open>mutex_memory_socket\<close>, and \<open>s\<close> is the
  stream of what Kernel Memory sends. \<open>None\<close> does not return: a deadlock on the mutex list or
  an abort. The process is its pid and its block exists when a handler starts.
\<close>

section \<open>System calls\<close>

definition a_ready :: "i32 \<Rightarrow> t_scheduler \<Rightarrow> evento list \<Rightarrow> byte list \<Rightarrow> (t_scheduler \<times> evento list \<times> byte list) option" where
  "a_ready p S ev s = (let (S', ev') = encolar_en_ready_y_notificar p S in Some (S', ev @ ev', s))"

definition manejar_syscall_init_proc :: "sock \<Rightarrow> string list \<Rightarrow> t_scheduler \<Rightarrow> byte list \<Rightarrow> (t_scheduler \<times> evento list \<times> byte list) option" where
  "manejar_syscall_init_proc mem params S s =
     (case params of
        path # prio # _ \<Rightarrow> map_option (\<lambda>(S', ev, s', nuevo). (S', ev, s')) (crear_proceso mem path (sint (atoi prio)) S s)
      | _ \<Rightarrow> Some (S, [], s))"

text \<open>Queue a request on a device, or back to READY when there is none.\<close>

definition a_dispositivo :: "i32 \<Rightarrow> nat option \<Rightarrow> t_io_request \<Rightarrow> t_scheduler \<Rightarrow> byte list \<Rightarrow> (t_scheduler \<times> evento list \<times> byte list) option" where
  "a_dispositivo p io req S s =
     (case io of None \<Rightarrow> a_ready p S [] s | Some i \<Rightarrow> Some (fst (encolar_io_request i req S), [], s))"

definition syscall_sleep :: "i32 \<Rightarrow> string list \<Rightarrow> t_scheduler \<Rightarrow> byte list \<Rightarrow> (t_scheduler \<times> evento list \<times> byte list) option" where
  "syscall_sleep p params S s =
     (case params of
        t # _ \<Rightarrow> a_dispositivo p (buscar_interfaz_io_por_tipo IO_TYPE_SLEEP S) (crear_io_request_sleep p (atoi t)) S s
      | _ \<Rightarrow> a_ready p S [] s)"

definition syscall_io_sleep :: "i32 \<Rightarrow> string list \<Rightarrow> t_scheduler \<Rightarrow> byte list \<Rightarrow> (t_scheduler \<times> evento list \<times> byte list) option" where
  "syscall_io_sleep p params S s =
     (case params of
        n # t # _ \<Rightarrow> a_dispositivo p (buscar_interfaz_io (Some n) S) (crear_io_request_sleep p (atoi t)) S s
      | _ \<Rightarrow> a_ready p S [] s)"

definition syscall_stdin :: "i32 \<Rightarrow> string list \<Rightarrow> t_scheduler \<Rightarrow> byte list \<Rightarrow> (t_scheduler \<times> evento list \<times> byte list) option" where
  "syscall_stdin p params S s =
     (case params of
        d # n # _ \<Rightarrow> a_dispositivo p (buscar_interfaz_io_por_tipo IO_TYPE_STDIN S) (crear_io_request_stdin p (atoi n) (atoi d)) S s
      | _ \<Rightarrow> a_ready p S [] s)"

text \<open>The bytes are read before the process blocks.\<close>

definition syscall_stdout :: "sock \<Rightarrow> i32 \<Rightarrow> string list \<Rightarrow> t_scheduler \<Rightarrow> byte list \<Rightarrow> (t_scheduler \<times> evento list \<times> byte list) option" where
  "syscall_stdout mem p params S s =
     (case params of
        d # n # _ \<Rightarrow>
          (case buscar_interfaz_io_por_tipo IO_TYPE_STDOUT S of
             None \<Rightarrow> a_ready p S [] s
           | Some i \<Rightarrow>
               (case recibir_respuesta_de_memoria mem S s of
                  None \<Rightarrow> None
                | Some (S1, ev, ack, s1) \<Rightarrow>
                    let ev = Enviar mem (enviar_lectura_memoria p (atoi d) (atoi n)) # ev
                    in if ack = op_num SEGMENTATION_FAULT
                       then (case recibir_ok s1 of
                               Inl e \<Rightarrow> None
                             | Inr (u, s2) \<Rightarrow> map_option (\<lambda>(S', ev', s'). (S', ev @ ev', s')) (finalizar_pcb_por_seg_fault mem p S1 s2))
                       else if ack = - 1 then a_ready p S1 ev s1
                       else (case recibir_datos_memoria (atoi n) s1 of
                               Inl e \<Rightarrow> None
                             | Inr (datos, s2) \<Rightarrow> Some (fst (encolar_io_request i (crear_io_request_stdout p (atoi d) (atoi n) datos) S1), ev, s2))))
      | _ \<Rightarrow> a_ready p S [] s)"

definition terminar_y_liberar_cpu :: "sock \<Rightarrow> i32 \<Rightarrow> i32 \<Rightarrow> t_scheduler \<Rightarrow> evento list \<Rightarrow> byte list \<Rightarrow> (t_scheduler \<times> evento list \<times> byte list) option" where
  "terminar_y_liberar_cpu mem p cpu S ev s =
     map_option (\<lambda>(S', ev', s'). (liberar_cpu_reservada cpu S', ev @ ev', s')) (finalizar_pcb mem p (actualizar_pcb p marcar_exit S) s)"

definition volver_a_cpu :: "i32 \<Rightarrow> i32 \<Rightarrow> t_scheduler \<Rightarrow> evento list \<Rightarrow> byte list \<Rightarrow> (t_scheduler \<times> evento list \<times> byte list) option" where
  "volver_a_cpu p cpu S ev s =
     (let (S', ev', ok) = devolver_proceso_a_misma_cpu cpu p S
      in if ok then Some (S', ev @ ev', s) else a_ready p S' (ev @ ev') s)"

definition registrar_segmento :: "u32 \<Rightarrow> u32 \<Rightarrow> t_pcb \<Rightarrow> t_pcb" where
  "registrar_segmento i l b = b\<lparr>segmentos_info := segmentos_info b @ [\<lparr>si_id = i, si_tamanio = l\<rparr>], total_memoria := total_memoria b + l\<rparr>"

definition olvidar_segmento :: "u32 \<Rightarrow> t_pcb \<Rightarrow> t_pcb" where
  "olvidar_segmento i b =
     (case buscar_idx (\<lambda>g. si_id g = i) (segmentos_info b) of
        None \<Rightarrow> b
      | Some k \<Rightarrow>
          let l = si_tamanio (segmentos_info b ! k)
          in b\<lparr>total_memoria := (if total_memoria b \<ge> l then total_memoria b - l else 0), segmentos_info := list_remove (segmentos_info b) k\<rparr>)"

definition syscall_mem_alloc :: "sock \<Rightarrow> i32 \<Rightarrow> string list \<Rightarrow> i32 \<Rightarrow> t_scheduler \<Rightarrow> byte list \<Rightarrow> (t_scheduler \<times> evento list \<times> byte list) option" where
  "syscall_mem_alloc mem p params cpu S s =
     (case params of
        i # n # _ \<Rightarrow>
          (case recibir_respuesta_de_memoria mem S s of
             None \<Rightarrow> None
           | Some (S1, ev, ack, s1) \<Rightarrow>
               let ev = Enviar mem (enviar_solicitar_segmento p (atoi i) (atoi n)) # ev
               in if ack = - 1 then terminar_y_liberar_cpu mem p cpu S1 ev s1
                  else if ack = op_num SEGMENTATION_FAULT
                  then (case recibir_ok s1 of Inl e \<Rightarrow> None | Inr (u, s2) \<Rightarrow> terminar_y_liberar_cpu mem p cpu S1 ev s2)
                  else (case recibir_respuesta_segmento s1 of
                          Inl e \<Rightarrow> None
                        | Inr ((id_resp, base_resp, limite_resp), s2) \<Rightarrow>
                            volver_a_cpu p cpu (actualizar_pcb p (registrar_segmento id_resp limite_resp) S1) ev s2))
      | _ \<Rightarrow> terminar_y_liberar_cpu mem p cpu S [] s)"

definition syscall_mem_free :: "sock \<Rightarrow> i32 \<Rightarrow> string list \<Rightarrow> i32 \<Rightarrow> t_scheduler \<Rightarrow> byte list \<Rightarrow> (t_scheduler \<times> evento list \<times> byte list) option" where
  "syscall_mem_free mem p params cpu S s =
     (case params of
        i # _ \<Rightarrow>
          (case pedir_a_memoria mem (enviar_eliminar_segmento p (atoi i)) S s of
             None \<Rightarrow> None
           | Some (S1, ev, ack, s1) \<Rightarrow> volver_a_cpu p cpu (actualizar_pcb p (olvidar_segmento (atoi i)) S1) ev s1)
      | _ \<Rightarrow> terminar_y_liberar_cpu mem p cpu S [] s)"

definition manejar_syscall_io ::
  "sock \<Rightarrow> i32 \<Rightarrow> string option \<Rightarrow> string list \<Rightarrow> i32 \<Rightarrow> t_scheduler \<Rightarrow> byte list \<Rightarrow> (t_scheduler \<times> evento list \<times> byte list) option" where
  "manejar_syscall_io mem p nombre params cpu S s =
     (case nombre of
        None \<Rightarrow> Some (S, [], s)
      | Some n \<Rightarrow>
          if n = ''SLEEP'' then syscall_sleep p params S s
          else if n = ''IO_SLEEP'' then syscall_io_sleep p params S s
          else if n = ''STDIN'' then syscall_stdin p params S s
          else if n = ''STDOUT'' then syscall_stdout mem p params S s
          else if n = ''MEM_ALLOC'' then syscall_mem_alloc mem p params cpu S s
          else if n = ''MEM_FREE'' then syscall_mem_free mem p params cpu S s
          else if n = ''MUTEX_CREATE'' then a_ready p (manejar_syscall_mutex_create p params S) [] s
          else if n = ''MUTEX_LOCK''
          then (let (S', bloqueado) = manejar_syscall_mutex_lock p params S in if bloqueado then Some (S', [], s) else a_ready p S' [] s)
          else if n = ''MUTEX_UNLOCK'' then (let (S', ev) = manejar_syscall_mutex_unlock p params S in a_ready p S' ev s)
          else if n = ''INIT_PROC''
          then (case manejar_syscall_init_proc mem params S s of None \<Rightarrow> None | Some (S', ev, s') \<Rightarrow> a_ready p S' ev s')
          else a_ready p S [] s)"

section \<open>The thread that receives from a CPU\<close>

definition reencolar_desalojado :: "i32 \<Rightarrow> t_scheduler \<Rightarrow> t_scheduler" where
  "reencolar_desalojado p S =
     (let S1 = actualizar_pcb p (\<lambda>b. b\<lparr>estado := READY\<rparr>) S
      in if cantidad_niveles_prioridad S1 > 0
         then (case pcbs S1 p of None \<Rightarrow> S1 | Some b \<Rightarrow> reencolar_proceso_ready_inicio p (prioridad b) S1)
         else case cola_procesos_ready S1 of
           None \<Rightarrow> S1
         | Some q \<Rightarrow> S1\<lparr>cola_procesos_ready := Some (p # q), sem_ready := sem_ready S1 + 1\<rparr>)"

definition despachar_motivo ::
  "sock \<Rightarrow> i32 \<Rightarrow> i32 \<Rightarrow> string option \<Rightarrow> string list \<Rightarrow> i32 \<Rightarrow> t_scheduler \<Rightarrow> byte list \<Rightarrow> (t_scheduler \<times> evento list \<times> byte list) option" where
  "despachar_motivo mem p motivo nombre params cpu S s =
     (if motivo \<in> {motivo_num MOTIVO_EXIT, motivo_num MOTIVO_ERROR, motivo_num MOTIVO_SEGFAULT}
      then finalizar_pcb mem p (actualizar_pcb p marcar_exit S) s
      else if motivo = motivo_num MOTIVO_QUANTUM then a_ready p S [] s
      else if motivo = motivo_num MOTIVO_SYSCALL then manejar_syscall_io mem p nombre params cpu S s
      else if motivo \<in> {motivo_num MOTIVO_DESALOJO, motivo_num MOTIVO_DESALOJO_COLA} then Some (reencolar_desalojado p S, [], s)
      else a_ready p S [] s)"

definition es_syscall_de_memoria :: "i32 \<Rightarrow> string option \<Rightarrow> bool" where
  "es_syscall_de_memoria motivo nombre \<longleftrightarrow>
     motivo = motivo_num MOTIVO_SYSCALL \<and> nombre \<in> {Some ''MEM_ALLOC'', Some ''MEM_FREE''}"

text \<open>The body of the case \<open>DEVOLVER_PROCESO\<close>; the process is the one registered on the CPU, whatever pid it sent.\<close>

definition atender_devolucion ::
  "sock \<Rightarrow> i32 \<Rightarrow> i32 \<times> i32 \<times> string option \<times> string list \<Rightarrow> t_scheduler \<Rightarrow> byte list \<Rightarrow> (t_scheduler \<times> evento list \<times> byte list) option" where
  "atender_devolucion mem cpu = (\<lambda>(pid, motivo, nombre, params) S s.
     if pid <s 0 then Some (S, [], s)
     else
       let mem_sys = es_syscall_de_memoria motivo nombre;
           (proceso, S1) = (if mem_sys then retirar_proceso_de_cpu_reservando cpu S else retirar_proceso_de_cpu cpu S)
       in case proceso of
            None \<Rightarrow> Some (if mem_sys then liberar_cpu_reservada cpu S1 else S1, [], s)
          | Some p \<Rightarrow> despachar_motivo mem p motivo nombre params cpu S1 s)"

lemma acorta_devolver [simp]: "acorta recibir_devolver_proceso"
  unfolding recibir_devolver_proceso_def by (auto intro!: acorta_bind acorta_veces)

text \<open>The whole loop on the bytes \<open>t\<close> of the CPU; their end is a lost connection.\<close>

function scheduler_cpu_receptor_thread ::
  "sock \<Rightarrow> i32 \<Rightarrow> t_scheduler \<Rightarrow> byte list \<Rightarrow> byte list \<Rightarrow> (t_scheduler \<times> evento list \<times> byte list) option" where
  "scheduler_cpu_receptor_thread mem cpu S t s =
     (let (codigo, t1) = recibir_codigo_operacion t
      in if codigo = - 1 then Some (marcar_cpu_desconectada cpu S, [], s)
         else if codigo \<noteq> op_num DEVOLVER_PROCESO then Some (marcar_cpu_desconectada cpu S, [], s)
         else case recibir_devolver_proceso t1 of
           Inl e \<Rightarrow> None
         | Inr (d, t2) \<Rightarrow>
             (case atender_devolucion mem cpu d S s of
                None \<Rightarrow> None
              | Some (S1, ev, s1) \<Rightarrow>
                  map_option (\<lambda>(S2, ev', s2). (S2, ev @ ev', s2)) (scheduler_cpu_receptor_thread mem cpu S1 t2 s1)))"
  by pat_completeness auto
termination
proof (relation "measure (\<lambda>(mem, cpu, S, t, s). length t)", goal_cases)
  case (2 mem cpu S t s x codigo t1 y d t2 z S1 w ev s1)
  then show ?case
    using recibir_codigo_acorta [of t codigo t1] acortaD [OF acorta_devolver, of t1 d t2] by simp
qed simp

declare scheduler_cpu_receptor_thread.simps [simp del]

section \<open>Handshakes\<close>

definition SCHED_MAX_CPUS :: nat where
  "SCHED_MAX_CPUS = 1000"

definition registrar_cpu_sched :: "sock \<Rightarrow> i32 \<Rightarrow> t_scheduler \<Rightarrow> t_scheduler" where
  "registrar_cpu_sched socket cpu S =
     (let S1 = (if length (sc_cpus S) < SCHED_MAX_CPUS
                then S\<lparr>sc_cpus := sc_cpus S @ [\<lparr>c_socket = socket, c_id = cpu, disponible = True, proceso_actual = None,
                                                 timer_activo = False, timer_pid = 0\<rparr>]\<rparr> else S);
          S2 = S1\<lparr>sem_cpu_disponible := sem_cpu_disponible S1 + 1\<rparr>
      in if cola_procesos_ready S2 \<noteq> None \<and> cola_procesos_ready S2 \<noteq> Some [] then S2\<lparr>sem_ready := sem_ready S2 + 1\<rparr> else S2)"

text \<open>The result is the rest of the stream, or \<open>None\<close> when the socket is closed or the packet aborts the program.\<close>

definition scheduler_handshake_handler :: "sock \<Rightarrow> t_scheduler \<Rightarrow> byte list \<Rightarrow> t_scheduler \<times> byte list option" where
  "scheduler_handshake_handler socket S t =
     (let (codigo, t1) = recibir_codigo_operacion t
      in if codigo = op_num HANDSHAKE_CPU
         then (case recibir_handshake_cpu t1 of
                 Inl e \<Rightarrow> (S, None)
               | Inr (cpu, t2) \<Rightarrow> if cpu \<le>s 0 then (S, None) else (registrar_cpu_sched socket cpu S, Some t2))
         else if codigo = op_num HANDSHAKE_IO
         then (case recibir_handshake_io t1 of
                 Inl e \<Rightarrow> (S, None)
               | Inr (nombre, t2) \<Rightarrow> (fst (registrar_interfaz_io socket nombre S), Some t2))
         else (S, None))"

end
