(* ===== verification/Bloques.thy ===== *)
theory Bloques
  imports Prelude
begin

text \<open>
  The free list of Kernel Memory, \<open>kernel_memory/src/memory_bloques.c\<close>: first the list and
  its operations as the code has them (32-bit bases and sizes, the selection loop, the
  repeated merge passes), then the set of free cells the list stands for. The locale
  \<open>asignador\<close> is what the rest of Kernel Memory relies on; the list interprets it for both
  strategies.
\<close>

section \<open>The free list\<close>

record t_bloque_libre =
  b_base :: u32
  b_tamanio :: u32

definition bloques_init :: "t_bloque_libre list" where
  "bloques_init = []"

text \<open>\<open>strncmp(allocation_strategy, "WORST", 5) == 0\<close>; \<open>None\<close> is the null pointer.\<close>

definition es_worst_fit :: "string option \<Rightarrow> bool" where
  "es_worst_fit estrategia =
     (case estrategia of None \<Rightarrow> False | Some e \<Rightarrow> take 5 (cstr e) = ''WORST'')"

text \<open>
  The selection loop: position \<open>i\<close>, the blocks still to visit, and the best candidate so far
  (\<open>mejor_idx\<close>, \<open>mejor_tam\<close>), \<open>None\<close> while \<open>mejor_idx == -1\<close>.
\<close>

fun elegir_bloque ::
  "bool \<Rightarrow> u32 \<Rightarrow> nat \<Rightarrow> t_bloque_libre list \<Rightarrow> (nat \<times> u32) option \<Rightarrow> (nat \<times> u32) option" where
  "elegir_bloque worst t i [] mejor = mejor"
| "elegir_bloque worst t i (b # bs) mejor =
     (if b_tamanio b < t then elegir_bloque worst t (Suc i) bs mejor
      else case mejor of
        None \<Rightarrow> elegir_bloque worst t (Suc i) bs (Some (i, b_tamanio b))
      | Some (mi, mt) \<Rightarrow>
          if \<not> worst \<and> b_tamanio b < mt then elegir_bloque worst t (Suc i) bs (Some (i, b_tamanio b))
          else if worst \<and> b_tamanio b > mt then elegir_bloque worst t (Suc i) bs (Some (i, b_tamanio b))
          else elegir_bloque worst t (Suc i) bs mejor)"

definition bloques_asignar ::
  "bool \<Rightarrow> u32 \<Rightarrow> t_bloque_libre list \<Rightarrow> u32 \<times> t_bloque_libre list" where
  "bloques_asignar worst t bl =
     (case elegir_bloque worst t 0 bl None of
        None \<Rightarrow> (- 1, bl)
      | Some (i, _) \<Rightarrow>
          let e = bl ! i
          in (b_base e,
              if b_tamanio e = t then list_remove bl i
              else bl[i := e\<lparr>b_base := b_base e + t, b_tamanio := b_tamanio e - t\<rparr>]))"

definition contiguos :: "t_bloque_libre \<Rightarrow> t_bloque_libre \<Rightarrow> bool" where
  "contiguos a b \<longleftrightarrow> b_base a + b_tamanio a = b_base b"

text \<open>One pass of the two nested loops: the first pair \<open>i \<noteq> j\<close> that touches.\<close>

definition buscar_contiguos :: "t_bloque_libre list \<Rightarrow> (nat \<times> nat) option" where
  "buscar_contiguos bl =
     find (\<lambda>(i, j). i \<noteq> j \<and> contiguos (bl ! i) (bl ! j))
       (List.product [0..<length bl] [0..<length bl])"

definition fusionar_uno :: "t_bloque_libre list \<Rightarrow> t_bloque_libre list option" where
  "fusionar_uno bl =
     (case buscar_contiguos bl of
        None \<Rightarrow> None
      | Some (i, j) \<Rightarrow>
          Some (list_remove
            (bl[i := (bl ! i)\<lparr>b_tamanio := b_tamanio (bl ! i) + b_tamanio (bl ! j)\<rparr>]) j))"

lemma buscar_contiguos_SomeD:
  assumes "buscar_contiguos bl = Some (i, j)"
  shows "i < length bl \<and> j < length bl \<and> i \<noteq> j \<and> contiguos (bl ! i) (bl ! j)"
  using assms by (auto simp: buscar_contiguos_def dest: find_SomeD)

lemma fusionar_uno_length: "fusionar_uno bl = Some bl' \<Longrightarrow> length bl' < length bl"
  by (auto simp: fusionar_uno_def split: option.splits dest!: buscar_contiguos_SomeD)

text \<open>The \<open>while (mergeado)\<close> loop: every pass that merges removes a block.\<close>

function fusionar :: "t_bloque_libre list \<Rightarrow> t_bloque_libre list" where
  "fusionar bl = (case fusionar_uno bl of None \<Rightarrow> bl | Some bl' \<Rightarrow> fusionar bl')"
  by pat_completeness auto
termination
  by (relation "measure length") (auto dest: fusionar_uno_length)

declare fusionar.simps [simp del]

definition bloques_liberar :: "u32 \<Rightarrow> u32 \<Rightarrow> t_bloque_libre list \<Rightarrow> t_bloque_libre list" where
  "bloques_liberar bs tam bl = fusionar (bl @ [\<lparr>b_base = bs, b_tamanio = tam\<rparr>])"

definition bloques_agregar :: "u32 \<Rightarrow> u32 \<Rightarrow> t_bloque_libre list \<Rightarrow> t_bloque_libre list" where
  "bloques_agregar bs tam bl = bloques_liberar bs tam bl"

definition bloques_calcular_espacio_libre :: "t_bloque_libre list \<Rightarrow> u32" where
  "bloques_calcular_espacio_libre bl = fold (\<lambda>b total. total + b_tamanio b) bl 0"

definition bloques_reset_a_unico :: "u32 \<Rightarrow> u32 \<Rightarrow> t_bloque_libre list" where
  "bloques_reset_a_unico bs tam = (if tam > 0 then [\<lparr>b_base = bs, b_tamanio = tam\<rparr>] else [])"

section \<open>The cells a block stands for\<close>

definition rango :: "u32 \<Rightarrow> u32 \<Rightarrow> nat set" where
  "rango b t = {unat b ..< unat b + unat t}"

definition celdas_bloque :: "t_bloque_libre \<Rightarrow> nat set" where
  "celdas_bloque b = rango (b_base b) (b_tamanio b)"

definition celdas :: "t_bloque_libre list \<Rightarrow> nat set" where
  "celdas bl = (\<Union>b \<in> set bl. celdas_bloque b)"

text \<open>Well-formed free list of a RAM of \<open>N\<close> bytes: blocks inside it, pairwise disjoint.\<close>

definition bloque_en :: "nat \<Rightarrow> t_bloque_libre \<Rightarrow> bool" where
  "bloque_en N b \<longleftrightarrow> unat (b_base b) + unat (b_tamanio b) \<le> N"

definition bloques_inv :: "nat \<Rightarrow> t_bloque_libre list \<Rightarrow> bool" where
  "bloques_inv N bl \<longleftrightarrow>
     N < 2 ^ 32 - 1 \<and> (\<forall>b \<in> set bl. bloque_en N b) \<and>
     sorted_wrt (\<lambda>a b. celdas_bloque a \<inter> celdas_bloque b = {}) bl"

lemma finite_rango [simp]: "finite (rango b t)"
  by (simp add: rango_def)

lemma card_rango [simp]: "card (rango b t) = unat t"
  by (simp add: rango_def)

lemma celdas_simps [simp]:
  "celdas [] = {}" "celdas (b # bl) = celdas_bloque b \<union> celdas bl"
  "celdas (xs @ ys) = celdas xs \<union> celdas ys"
  by (auto simp: celdas_def)

lemma finite_celdas [simp]: "finite (celdas bl)"
  by (simp add: celdas_def celdas_bloque_def)

lemma disjuntos_set:
  "sorted_wrt (\<lambda>a b. celdas_bloque a \<inter> celdas_bloque b = {}) (b # bl) \<longleftrightarrow>
   celdas_bloque b \<inter> celdas bl = {} \<and>
   sorted_wrt (\<lambda>a b. celdas_bloque a \<inter> celdas_bloque b = {}) bl"
  by (auto simp: celdas_def)

text \<open>The invariant only depends on the blocks, not on their order.\<close>

lemma disjuntos_append:
  "sorted_wrt (\<lambda>a b. celdas_bloque a \<inter> celdas_bloque b = {}) (xs @ ys) \<longleftrightarrow>
   sorted_wrt (\<lambda>a b. celdas_bloque a \<inter> celdas_bloque b = {}) xs \<and>
   sorted_wrt (\<lambda>a b. celdas_bloque a \<inter> celdas_bloque b = {}) ys \<and>
   celdas xs \<inter> celdas ys = {}"
  by (auto simp: sorted_wrt_append celdas_def)

lemma bloques_inv_Nil [simp]: "bloques_inv N [] \<longleftrightarrow> N < 2 ^ 32 - 1"
  by (simp add: bloques_inv_def)

lemma bloques_inv_cota: "bloques_inv N bl \<Longrightarrow> N < 2 ^ 32 - 1"
  by (simp add: bloques_inv_def)

lemma bloques_inv_Cons [simp]:
  "bloques_inv N (b # bl) \<longleftrightarrow>
     bloque_en N b \<and> celdas_bloque b \<inter> celdas bl = {} \<and> bloques_inv N bl"
  by (auto simp: bloques_inv_def celdas_def)

lemma bloques_inv_append:
  "bloques_inv N (xs @ ys) \<longleftrightarrow>
     bloques_inv N xs \<and> bloques_inv N ys \<and> celdas xs \<inter> celdas ys = {}"
  by (auto simp: bloques_inv_def disjuntos_append)

lemma bloques_inv_nth:
  assumes "i < length bl"
  shows "bloques_inv N bl \<longleftrightarrow>
    bloque_en N (bl ! i) \<and> bloques_inv N (list_remove bl i) \<and>
    celdas_bloque (bl ! i) \<inter> celdas (list_remove bl i) = {}"
    (is "?L = ?R")
proof -
  have "bloques_inv N bl \<longleftrightarrow> bloques_inv N (take i bl @ bl ! i # drop (Suc i) bl)"
    using id_take_nth_drop [OF assms] by simp
  also have "\<dots> \<longleftrightarrow> ?R"
    unfolding list_remove_def bloques_inv_append bloques_inv_Cons celdas_simps by blast
  finally show ?thesis .
qed

lemma celdas_nth: "i < length bl \<Longrightarrow> celdas bl = celdas_bloque (bl ! i) \<union> celdas (list_remove bl i)"
proof -
  assume "i < length bl"
  then have "celdas bl = celdas (take i bl @ bl ! i # drop (Suc i) bl)"
    using id_take_nth_drop by metis
  then show ?thesis by (auto simp: list_remove_def)
qed

lemma list_remove_update_same [simp]: "list_remove (xs[i := x]) i = list_remove xs i"
  by (simp add: list_remove_def)

section \<open>Selection\<close>

lemma elegir_candidato: "\<exists>r. elegir_bloque worst t i bs (Some p) = Some r"
  by (induction bs arbitrary: i p) (auto split: prod.splits)

lemma elegir_None:
  "elegir_bloque worst t i bs m = None \<longleftrightarrow> m = None \<and> (\<forall>b \<in> set bs. b_tamanio b < t)"
proof (induction bs arbitrary: i m)
  case (Cons b bs)
  show ?case
  proof (cases m)
    case None
    show ?thesis
      using elegir_candidato [of worst t "Suc i" bs "(i, b_tamanio b)"]
      by (auto simp: None Cons.IH not_less)
  next
    case (Some p)
    then show ?thesis using elegir_candidato [of worst t i "b # bs" p] by auto
  qed
qed simp

lemma elegir_SomeD:
  "elegir_bloque worst t i bs m = Some (k, mt) \<Longrightarrow>
   m = Some (k, mt) \<or>
   (i \<le> k \<and> k < i + length bs \<and> b_tamanio (bs ! (k - i)) = mt \<and> t \<le> mt)"
proof (induction bs arbitrary: i m)
  case (Cons b bs)
  obtain m' where m': "elegir_bloque worst t (Suc i) bs m' = Some (k, mt)"
      "m' = m \<or> (m' = Some (i, b_tamanio b) \<and> t \<le> b_tamanio b)"
    using Cons.prems by (auto split: if_splits option.splits simp: not_less)
  from Cons.IH [OF m'(1)] m'(2) show ?case by (auto simp: nth_Cons' Suc_diff_le)
qed simp

lemma elegir_optimo:
  "elegir_bloque worst t i bs m = Some (k, mt) \<Longrightarrow>
   (\<forall>b \<in> set bs. t \<le> b_tamanio b \<longrightarrow> (if worst then b_tamanio b \<le> mt else mt \<le> b_tamanio b)) \<and>
   (\<forall>mi m0. m = Some (mi, m0) \<longrightarrow> (if worst then m0 \<le> mt else mt \<le> m0))"
proof (induction bs arbitrary: i m)
  case (Cons b bs)
  show ?case
  proof (cases "b_tamanio b < t")
    case True
    with Cons.prems Cons.IH [of "Suc i" m] show ?thesis by auto
  next
    case False
    note ih = Cons.IH [of "Suc i" m] Cons.IH [of "Suc i" "Some (i, b_tamanio b)"]
    show ?thesis
    proof (cases m)
      case None
      then show ?thesis using False Cons.prems ih(2) by auto
    next
      case (Some p)
      obtain mi m0 where p: "p = (mi, m0)" by (cases p)
      show ?thesis
        using False Cons.prems ih unfolding Some p by (auto split: if_splits)
    qed
  qed
qed simp

lemma bloques_asignar_cases:
  obtains (nada) "\<forall>b \<in> set bl. b_tamanio b < t" "bloques_asignar worst t bl = (- 1, bl)"
  | (bloque) i where "i < length bl" "t \<le> b_tamanio (bl ! i)"
      "elegir_bloque worst t 0 bl None = Some (i, b_tamanio (bl ! i))"
      "bloques_asignar worst t bl =
        (b_base (bl ! i),
         if b_tamanio (bl ! i) = t then list_remove bl i
         else bl[i := (bl ! i)\<lparr>b_base := b_base (bl ! i) + t, b_tamanio := b_tamanio (bl ! i) - t\<rparr>])"
proof (cases "elegir_bloque worst t 0 bl None")
  case None
  moreover from None have "\<forall>b \<in> set bl. b_tamanio b < t" by (simp add: elegir_None)
  ultimately show ?thesis by (intro nada) (simp_all add: bloques_asignar_def)
next
  case (Some r)
  obtain i mt where r: "r = (i, mt)" by (cases r)
  with elegir_SomeD [OF Some [unfolded r]] have "i < length bl" "b_tamanio (bl ! i) = mt" "t \<le> mt"
    by auto
  with Some r show ?thesis by (auto simp: bloques_asignar_def Let_def intro!: bloque)
qed

section \<open>Assignment takes exactly the cells it returns\<close>

lemma rango_prefijo:
  "unat t \<le> unat n \<Longrightarrow> unat b + unat n < 2 ^ 32 \<Longrightarrow>
   rango (b + t) (n - t) = rango b n - rango b t"
  by (auto simp: rango_def unat_simps)

lemma base_no_centinela:
  "bloques_inv N bl \<Longrightarrow> b \<in> set bl \<Longrightarrow> b_base b \<noteq> - 1"
  by (auto simp: bloques_inv_def bloque_en_def)

lemma bloques_asignar_fallo:
  assumes "bloques_inv N bl"
  shows "fst (bloques_asignar worst t bl) = - 1 \<longleftrightarrow> (\<forall>b \<in> set bl. b_tamanio b < t)"
proof (cases rule: bloques_asignar_cases [where bl = bl and t = t and worst = worst])
  case nada
  then show ?thesis by simp
next
  case (bloque i)
  then have "b_base (bl ! i) \<noteq> - 1" "bl ! i \<in> set bl" "\<not> b_tamanio (bl ! i) < t"
    using assms base_no_centinela by auto
  with bloque show ?thesis by auto
qed

lemma bloques_asignar_ok:
  assumes inv: "bloques_inv N bl" and asig: "bloques_asignar worst t bl = (r, bl')" and "r \<noteq> - 1"
  shows "rango r t \<subseteq> celdas bl" "celdas bl' = celdas bl - rango r t" "bloques_inv N bl'"
    "unat r + unat t \<le> N"
proof -
  obtain i where i: "i < length bl" "t \<le> b_tamanio (bl ! i)" and
    asig': "bloques_asignar worst t bl =
      (b_base (bl ! i),
       if b_tamanio (bl ! i) = t then list_remove bl i
       else bl[i := (bl ! i)\<lparr>b_base := b_base (bl ! i) + t, b_tamanio := b_tamanio (bl ! i) - t\<rparr>])"
    using asig \<open>r \<noteq> - 1\<close> by (cases rule: bloques_asignar_cases [where bl = bl and t = t and worst = worst]) auto
  let ?e = "bl ! i"
  have r: "r = b_base ?e" using asig asig' by simp
  have en: "unat (b_base ?e) + unat (b_tamanio ?e) \<le> N" and resto: "bloques_inv N (list_remove bl i)"
    and disj: "celdas_bloque ?e \<inter> celdas (list_remove bl i) = {}" and N: "N < 2 ^ 32 - 1"
    using inv bloques_inv_nth [OF i(1)] by (auto simp: bloque_en_def bloques_inv_def)
  have t: "unat t \<le> unat (b_tamanio ?e)" using i(2) by (simp add: word_le_nat_alt)
  show "unat r + unat t \<le> N" using en t r by simp
  have sub: "rango r t \<subseteq> celdas_bloque ?e" using t r by (auto simp: rango_def celdas_bloque_def)
  then show "rango r t \<subseteq> celdas bl" using celdas_nth [OF i(1)] by auto
  have "celdas bl' = celdas bl - rango r t \<and> bloques_inv N bl'"
  proof (cases "b_tamanio ?e = t")
    case True
    then have "bl' = list_remove bl i" "celdas_bloque ?e = rango r t"
      using asig asig' r by (auto simp: celdas_bloque_def)
    then show ?thesis using celdas_nth [OF i(1)] disj resto by auto
  next
    case False
    let ?e' = "?e\<lparr>b_base := b_base ?e + t, b_tamanio := b_tamanio ?e - t\<rparr>"
    have bl': "bl' = bl[i := ?e']" using False asig asig' by auto
    have cel: "celdas_bloque ?e' = celdas_bloque ?e - rango r t"
      using t en N r by (simp add: celdas_bloque_def rango_prefijo)
    have "bloque_en N ?e'" using t en N by (simp add: bloque_en_def unat_simps)
    moreover have "i < length bl'" "list_remove bl' i = list_remove bl i" "bl' ! i = ?e'"
      using bl' i by simp_all
    ultimately show ?thesis
      using celdas_nth [OF i(1)] celdas_nth [of i bl'] bloques_inv_nth [of i bl' N] cel disj resto sub
      by auto
  qed
  then show "celdas bl' = celdas bl - rango r t" "bloques_inv N bl'" by auto
qed

section \<open>Merging keeps the cells\<close>

lemma list_remove_update:
  assumes "i < length xs" "j < length xs" "i \<noteq> j"
  shows "list_remove (xs[i := x]) j = (list_remove xs j)[(if i < j then i else i - 1) := x]"
  using assms
  by (auto simp: list_remove_def list_eq_iff_nth_eq nth_append nth_list_update min_def)

lemma nth_list_remove:
  assumes "i < length xs" "j < length xs" "i \<noteq> j"
  shows "list_remove xs j ! (if i < j then i else i - 1) = xs ! i"
  using assms by (auto simp: list_remove_def nth_append min_def)

lemma fusionar_uno_ok:
  assumes inv: "bloques_inv N bl" and fus: "fusionar_uno bl = Some bl'"
  shows "bloques_inv N bl' \<and> celdas bl' = celdas bl"
proof -
  obtain i j where ij: "i < length bl" "j < length bl" "i \<noteq> j" "contiguos (bl ! i) (bl ! j)"
    and bl': "bl' = list_remove
      (bl[i := (bl ! i)\<lparr>b_tamanio := b_tamanio (bl ! i) + b_tamanio (bl ! j)\<rparr>]) j"
    using fus by (auto simp: fusionar_uno_def split: option.splits dest!: buscar_contiguos_SomeD)
  let ?a = "bl ! i" and ?b = "bl ! j"
  let ?a' = "?a\<lparr>b_tamanio := b_tamanio ?a + b_tamanio ?b\<rparr>"
  let ?k = "if i < j then i else i - 1"
  let ?r = "list_remove bl j"
  have k: "?k < length ?r" using ij by auto
  have rk: "?r ! ?k = ?a" using ij by (intro nth_list_remove) auto
  have bl'k: "bl' = ?r[?k := ?a']" unfolding bl' using ij by (intro list_remove_update) auto
  have N: "N < 2 ^ 32 - 1" using inv by (simp add: bloques_inv_def)
  note invj = inv [unfolded bloques_inv_nth [OF ij(2)]]
  from invj have "bloques_inv N ?r" by simp
  note invk = this [unfolded bloques_inv_nth [OF k] rk]
  have cb: "unat (b_base ?a) + unat (b_tamanio ?a) = unat (b_base ?b)"
    using ij(4) invk N by (auto simp: contiguos_def bloque_en_def unat_add_u32 dest!: sym [of _ "b_base ?b"])
  have ta: "unat (b_tamanio ?a + b_tamanio ?b) = unat (b_tamanio ?a) + unat (b_tamanio ?b)"
    using invj cb N by (intro unat_add_u32) (auto simp: bloque_en_def)
  have cel: "celdas_bloque ?a' = celdas_bloque ?a \<union> celdas_bloque ?b"
    using cb ta by (auto simp: celdas_bloque_def rango_def)
  have "bloque_en N ?a'" using invj cb ta by (simp add: bloque_en_def)
  moreover have "celdas_bloque ?b \<inter> (celdas_bloque ?a \<union> celdas (list_remove ?r ?k)) = {}"
    using invj celdas_nth [OF k] rk by auto
  moreover have "?k < length bl'" "bl' ! ?k = ?a'" "list_remove bl' ?k = list_remove ?r ?k"
    using bl'k k by auto
  ultimately show ?thesis
    using invk cel celdas_nth [OF ij(2)] celdas_nth [OF k] rk celdas_nth [of ?k bl']
      bloques_inv_nth [of ?k bl' N]
    by (simp add: Int_Un_distrib Int_Un_distrib2 Un_ac)
qed

lemma fusionar_ok:
  "bloques_inv N bl \<Longrightarrow> bloques_inv N (fusionar bl) \<and> celdas (fusionar bl) = celdas bl"
proof (induction bl rule: fusionar.induct)
  case (1 bl)
  show ?case
  proof (cases "fusionar_uno bl")
    case None
    then show ?thesis using "1.prems" by (simp add: fusionar.simps [of bl])
  next
    case (Some bl')
    then show ?thesis
      using "1.IH" [OF Some] fusionar_uno_ok [OF "1.prems" Some] by (simp add: fusionar.simps [of bl])
  qed
qed

lemma fusionar_fija: "fusionar_uno (fusionar bl) = None"
proof (induction bl rule: fusionar.induct)
  case (1 bl)
  then show ?case by (cases "fusionar_uno bl") (simp_all add: fusionar.simps [of bl])
qed

lemma sin_contiguos:
  assumes "fusionar_uno bl = None" and "i < length bl" "j < length bl" "i \<noteq> j"
  shows "\<not> contiguos (bl ! i) (bl ! j)"
proof -
  have "find (\<lambda>(i, j). i \<noteq> j \<and> contiguos (bl ! i) (bl ! j))
      (List.product [0..<length bl] [0..<length bl]) = None"
    using assms(1) by (auto simp: fusionar_uno_def buscar_contiguos_def split: option.splits)
  from find_NoneD [OF this, of "(i, j)"] assms show ?thesis by auto
qed

lemma bloques_liberar_ok:
  assumes "bloques_inv N bl" "unat b + unat t \<le> N" "rango b t \<inter> celdas bl = {}"
  shows "bloques_inv N (bloques_liberar b t bl)" "celdas (bloques_liberar b t bl) = celdas bl \<union> rango b t"
proof -
  let ?b = "\<lparr>b_base = b, b_tamanio = t\<rparr>"
  have "bloques_inv N (bl @ [?b])" "celdas (bl @ [?b]) = celdas bl \<union> rango b t"
    using assms bloques_inv_cota [OF assms(1)]
    by (auto simp: bloques_inv_append bloque_en_def celdas_bloque_def)
  then show "bloques_inv N (bloques_liberar b t bl)"
    "celdas (bloques_liberar b t bl) = celdas bl \<union> rango b t"
    using fusionar_ok by (auto simp: bloques_liberar_def)
qed

lemma bloques_reset_ok:
  "unat b + unat t \<le> N \<Longrightarrow> N < 2 ^ 32 - 1 \<Longrightarrow>
   bloques_inv N (bloques_reset_a_unico b t) \<and> celdas (bloques_reset_a_unico b t) = rango b t"
  by (auto simp: bloques_reset_a_unico_def bloques_inv_def bloque_en_def celdas_bloque_def
      rango_def word_greater_zero_iff)

section \<open>The contract of an allocator\<close>

text \<open>
  A \<open>tramo\<close> is the base and size of a live segment. Free cells and live segments
  partition the RAM: nothing overlaps and nothing is lost.
\<close>

type_synonym tramo = "u32 \<times> u32"

definition ocupadas :: "tramo list \<Rightarrow> nat set" where
  "ocupadas ts = (\<Union>(b, t) \<in> set ts. rango b t)"

fun separados :: "tramo list \<Rightarrow> bool" where
  "separados [] = True"
| "separados ((b, t) # ts) \<longleftrightarrow> rango b t \<inter> ocupadas ts = {} \<and> separados ts"

definition particion :: "nat \<Rightarrow> nat set \<Rightarrow> tramo list \<Rightarrow> bool" where
  "particion N L ts \<longleftrightarrow> L \<union> ocupadas ts = {..<N} \<and> L \<inter> ocupadas ts = {} \<and> separados ts"

lemma ocupadas_simps [simp]:
  "ocupadas [] = {}" "ocupadas ((b, t) # ts) = rango b t \<union> ocupadas ts"
  "ocupadas (xs @ ys) = ocupadas xs \<union> ocupadas ys"
  by (auto simp: ocupadas_def)

lemma separados_append:
  "separados (xs @ ys) \<longleftrightarrow> separados xs \<and> separados ys \<and> ocupadas xs \<inter> ocupadas ys = {}"
  by (induction xs rule: separados.induct) auto

lemma particion_agregar:
  "particion N L ts \<Longrightarrow> rango b t \<subseteq> L \<Longrightarrow> particion N (L - rango b t) (ts @ [(b, t)])"
  by (auto simp: particion_def separados_append)

lemma particion_quitar:
  assumes "particion N L ts" "i < length ts" "ts ! i = (b, t)"
  shows "particion N (L \<union> rango b t) (list_remove ts i) \<and> rango b t \<inter> L = {} \<and> rango b t \<subseteq> {..<N}"
proof -
  have "ts = take i ts @ (b, t) # drop (Suc i) ts" using assms list_split_nth by metis
  then have "particion N L (take i ts @ (b, t) # drop (Suc i) ts)" using assms(1) by simp
  then show ?thesis by (auto simp: particion_def separados_append list_remove_def)
qed

locale asignador =
  fixes inv :: "'s \<Rightarrow> bool"
    and libres :: "'s \<Rightarrow> nat set"
    and asignar :: "u32 \<Rightarrow> 's \<Rightarrow> u32 \<times> 's"
    and liberar :: "u32 \<Rightarrow> u32 \<Rightarrow> 's \<Rightarrow> 's"
    and N :: nat
  assumes asignar_falla: "inv s \<Longrightarrow> asignar t s = (- 1, s') \<Longrightarrow> s' = s"
    and asignar_exito: "inv s \<Longrightarrow> asignar t s = (r, s') \<Longrightarrow> r \<noteq> - 1 \<Longrightarrow>
      inv s' \<and> rango r t \<subseteq> libres s \<and> libres s' = libres s - rango r t \<and> unat r + unat t \<le> N"
    and liberar_exito: "inv s \<Longrightarrow> unat b + unat t \<le> N \<Longrightarrow> rango b t \<inter> libres s = {} \<Longrightarrow>
      inv (liberar b t s) \<and> libres (liberar b t s) = libres s \<union> rango b t"
begin

lemma asignar_inv: "inv s \<Longrightarrow> asignar t s = (r, s') \<Longrightarrow> inv s'"
  using asignar_falla asignar_exito by (cases "r = - 1") auto

lemma asignar_particion:
  "inv s \<Longrightarrow> particion N (libres s) ts \<Longrightarrow> asignar t s = (r, s') \<Longrightarrow> r \<noteq> - 1 \<Longrightarrow>
   particion N (libres s') (ts @ [(r, t)])"
  using asignar_exito particion_agregar by metis

lemma liberar_asignado:
  assumes "inv s" "asignar t s = (r, s')" "r \<noteq> - 1"
  shows "inv (liberar r t s') \<and> libres (liberar r t s') = libres s"
  using asignar_exito [OF assms] liberar_exito [of s' r t] by auto

lemma liberar_particion:
  assumes "inv s" "particion N (libres s) ts" "i < length ts" "ts ! i = (b, t)"
    and "unat b + unat t \<le> N"
  shows "inv (liberar b t s) \<and> particion N (libres (liberar b t s)) (list_remove ts i)"
  using particion_quitar [OF assms(2,3,4)] liberar_exito [of s b t] assms(1,5) by auto

end

lemma bloques_asignar_falla:
  "bloques_inv N bl \<Longrightarrow> bloques_asignar worst t bl = (- 1, bl') \<Longrightarrow> bl' = bl"
  by (cases rule: bloques_asignar_cases [where bl = bl and t = t and worst = worst])
    (auto dest: base_no_centinela [OF _ nth_mem])

interpretation memoria: asignador "bloques_inv N" celdas "bloques_asignar worst" bloques_liberar N
  for N worst
  by unfold_locales (auto simp: bloques_asignar_falla bloques_asignar_ok bloques_liberar_ok)

section \<open>Properties of the allocator\<close>

text \<open>
  C3. On a well-formed free list \<open>bloques_asignar\<close> either fails, and then no block is large
  enough and the list is unchanged, or returns the base of a range of \<open>t\<close> free cells that
  it removes from the free cells, leaving the list well formed. The block it cuts is the
  smallest of the large enough ones under best fit and the largest under worst fit.
\<close>

theorem bloques_asignar_correcto:
  assumes "bloques_inv N bl" "bloques_asignar worst t bl = (r, bl')"
  shows "if r = - 1 then bl' = bl \<and> (\<forall>b \<in> set bl. b_tamanio b < t)
    else bloques_inv N bl' \<and> rango r t \<subseteq> celdas bl \<and> celdas bl' = celdas bl - rango r t \<and>
      (\<exists>e \<in> set bl. b_base e = r \<and> t \<le> b_tamanio e \<and>
        (\<forall>b \<in> set bl. t \<le> b_tamanio b \<longrightarrow>
          (if worst then b_tamanio b \<le> b_tamanio e else b_tamanio e \<le> b_tamanio b)))"
proof (cases rule: bloques_asignar_cases [where bl = bl and t = t and worst = worst])
  case nada
  then show ?thesis using assms(2) by simp
next
  case (bloque i)
  from bloque(4) assms(2) have r: "r = b_base (bl ! i)" by simp
  have "bl ! i \<in> set bl" using bloque(1) by simp
  moreover from this have "r \<noteq> - 1" using base_no_centinela [OF assms(1)] r by simp
  ultimately show ?thesis
    using bloques_asignar_ok [OF assms] elegir_optimo [OF bloque(3)] bloque(2) r by auto
qed

lemma bloques_asignar_correcto_witness:
  "bloques_asignar False 3 [\<lparr>b_base = 0, b_tamanio = 9\<rparr>, \<lparr>b_base = 20, b_tamanio = 4\<rparr>]
     = (20, [\<lparr>b_base = 0, b_tamanio = 9\<rparr>, \<lparr>b_base = 23, b_tamanio = 1\<rparr>]) \<and>
   bloques_inv 24 [\<lparr>b_base = 0, b_tamanio = 9\<rparr>, \<lparr>b_base = 23, b_tamanio = 1\<rparr>]"
proof -
  let ?bl = "[\<lparr>b_base = 0, b_tamanio = 9\<rparr>, \<lparr>b_base = 20, b_tamanio = 4\<rparr>]"
  let ?bl' = "[\<lparr>b_base = 0, b_tamanio = 9\<rparr>, \<lparr>b_base = 23, b_tamanio = 1\<rparr>]"
  have inv: "bloques_inv 24 ?bl"
    by (auto simp: bloque_en_def celdas_bloque_def rango_def)
  have asig: "bloques_asignar False 3 ?bl = (20, ?bl')"
    by (simp add: bloques_asignar_def)
  show ?thesis using bloques_asignar_correcto [OF inv asig] asig by simp
qed

text \<open>
  C4. Freeing a range of the RAM that is not free keeps the list well formed, adds exactly
  its cells to the free cells, and leaves no two blocks that touch: the repeated merge pass
  has reached its fixed point.
\<close>

theorem bloques_liberar_correcto:
  assumes "bloques_inv N bl" "unat b + unat t \<le> N" "rango b t \<inter> celdas bl = {}"
    and "bl' = bloques_liberar b t bl"
  shows "bloques_inv N bl' \<and> celdas bl' = celdas bl \<union> rango b t \<and>
    (\<forall>i < length bl'. \<forall>j < length bl'. i \<noteq> j \<longrightarrow>
      b_base (bl' ! i) + b_tamanio (bl' ! i) \<noteq> b_base (bl' ! j))"
proof -
  have "fusionar_uno bl' = None" using assms(4) fusionar_fija by (simp add: bloques_liberar_def)
  then show ?thesis
    using bloques_liberar_ok [OF assms(1-3)] assms(4) sin_contiguos by (auto simp: contiguos_def)
qed

lemma bloques_liberar_correcto_witness:
  "bloques_liberar 4 6 [\<lparr>b_base = 10, b_tamanio = 2\<rparr>, \<lparr>b_base = 0, b_tamanio = 4\<rparr>]
     = [\<lparr>b_base = 0, b_tamanio = 12\<rparr>] \<and>
   celdas (bloques_liberar 4 6 [\<lparr>b_base = 10, b_tamanio = 2\<rparr>, \<lparr>b_base = 0, b_tamanio = 4\<rparr>]) = {0..<12}"
proof -
  let ?bl = "[\<lparr>b_base = 10, b_tamanio = 2\<rparr>, \<lparr>b_base = 0, b_tamanio = 4\<rparr>]"
  have "bloques_inv 16 ?bl" "unat (4 :: u32) + unat (6 :: u32) \<le> 16" "rango 4 6 \<inter> celdas ?bl = {}"
    by (auto simp: bloque_en_def celdas_bloque_def rango_def)
  from bloques_liberar_correcto [OF this refl]
  have "celdas (bloques_liberar 4 6 ?bl) = celdas ?bl \<union> rango 4 6" by blast
  moreover have "celdas ?bl \<union> rango 4 6 = {0..<12}"
    by (auto simp: celdas_bloque_def rango_def)
  moreover have "bloques_liberar 4 6 ?bl = [\<lparr>b_base = 0, b_tamanio = 12\<rparr>]" by code_simp
  ultimately show ?thesis by simp
qed

lemma espacio_libre_sum:
  "unat (bloques_calcular_espacio_libre bl) = (\<Sum>b\<leftarrow>bl. unat (b_tamanio b)) mod 2 ^ 32"
proof -
  have "unat (fold (\<lambda>b total. total + b_tamanio b) bl a) =
      (unat a + (\<Sum>b\<leftarrow>bl. unat (b_tamanio b))) mod 2 ^ 32" for a
  proof (induction bl arbitrary: a)
    case Nil
    then show ?case using unat_u32_less [of a] by simp
  next
    case (Cons b bl)
    have "unat (a + b_tamanio b) = (unat a + unat (b_tamanio b)) mod 2 ^ 32"
      by (simp add: unat_word_ariths)
    then show ?case using Cons.IH [of "a + b_tamanio b"] by (simp add: mod_add_left_eq add.assoc)
  qed
  then show ?thesis by (simp add: bloques_calcular_espacio_libre_def)
qed

lemma suma_tamanios: "bloques_inv N bl \<Longrightarrow> (\<Sum>b\<leftarrow>bl. unat (b_tamanio b)) = card (celdas bl)"
  by (induction bl) (simp_all add: card_Un_disjoint celdas_bloque_def)

lemma celdas_en: "bloques_inv N bl \<Longrightarrow> celdas bl \<subseteq> {..<N}"
  by (auto simp: bloques_inv_def celdas_def celdas_bloque_def rango_def bloque_en_def)

lemma espacio_libre:
  assumes "bloques_inv N bl"
  shows "unat (bloques_calcular_espacio_libre bl) = card (celdas bl)"
proof -
  have "card (celdas bl) \<le> N" using card_mono [OF _ celdas_en [OF assms]] by simp
  then show ?thesis
    using bloques_inv_cota [OF assms] suma_tamanios [OF assms] by (simp add: espacio_libre_sum)
qed

text \<open>
  C5. The free space that \<open>bloques_calcular_espacio_libre\<close> adds up in a \<open>uint32_t\<close> is the
  number of free cells: on a well-formed list the sum never wraps.
\<close>

theorem espacio_libre_exacto:
  assumes "bloques_inv N bl"
  shows "unat (bloques_calcular_espacio_libre bl) = card (celdas bl) \<and>
    unat (bloques_calcular_espacio_libre bl) \<le> N"
  using espacio_libre [OF assms] card_mono [OF _ celdas_en [OF assms]] by simp

lemma espacio_libre_exacto_witness:
  "card (celdas [\<lparr>b_base = 10, b_tamanio = 2\<rparr>, \<lparr>b_base = 0, b_tamanio = 4\<rparr>]) = 6"
proof -
  let ?bl = "[\<lparr>b_base = 10, b_tamanio = 2\<rparr>, \<lparr>b_base = 0, b_tamanio = 4\<rparr>]"
  have "bloques_inv 16 ?bl"
    by (auto simp: bloque_en_def celdas_bloque_def rango_def)
  from espacio_libre_exacto [OF this] show ?thesis
    by (simp add: bloques_calcular_espacio_libre_def)
qed

lemma asignar_implica_espacio:
  assumes "bloques_inv N bl" "bloques_asignar worst t bl = (b, bl')" "b \<noteq> - 1"
  shows "\<not> bloques_calcular_espacio_libre bl < t"
proof -
  have "card (rango b t) \<le> card (celdas bl)"
    using bloques_asignar_ok(1) [OF assms] by (intro card_mono) simp_all
  then show ?thesis using espacio_libre [OF assms(1)] by (simp add: word_less_nat_alt not_less)
qed

end
