(* ===== verification/Procesos.thy ===== *)
theory Procesos
  imports Memory_IO Bloques
begin

text \<open>
  The process table of Kernel Memory, \<open>kernel_memory/src/memory_procesos.c\<close>: the table
  itself, the transfer of contexts, the script loader and the translation of logical
  addresses. A pointer to a process is its position in the list. Scripts are read with
  \<open>fgets\<close> into a buffer of 256 characters, which is modelled: a longer line is split.
  \<open>malloc\<close> never fails in the model.
\<close>

section \<open>The table\<close>

record t_contexto_ejecucion =
  ce_pid :: i32
  ce_registros :: t_registros
  segmentos :: "t_segmento list"
  instrucciones :: "string list"

text \<open>\<open>instrucciones == NULL\<close> is the empty list; \<open>cantidad_instrucciones\<close> is its length.\<close>

definition registros_cero :: t_registros where
  "registros_cero = \<lparr>pc = 0, ax = 0, bx = 0, cx = 0, dx = 0, eax = 0, ebx = 0, ecx = 0, edx = 0, si = 0, di = 0\<rparr>"

definition procesos_init :: "t_contexto_ejecucion list" where
  "procesos_init = []"

definition procesos_buscar :: "i32 \<Rightarrow> t_contexto_ejecucion list \<Rightarrow> nat option" where
  "procesos_buscar pid ps = buscar_idx (\<lambda>p. ce_pid p = pid) ps"

definition procesos_agregar :: "t_contexto_ejecucion \<Rightarrow> t_contexto_ejecucion list \<Rightarrow> t_contexto_ejecucion list" where
  "procesos_agregar p ps = ps @ [p]"

definition procesos_cantidad :: "t_contexto_ejecucion list \<Rightarrow> nat" where
  "procesos_cantidad ps = length ps"

definition procesos_quitar_en :: "nat \<Rightarrow> t_contexto_ejecucion list \<Rightarrow> t_contexto_ejecucion list" where
  "procesos_quitar_en i ps = list_remove ps i"

definition actualizar_proceso_desde_contexto ::
  "t_contexto_ejecucion \<Rightarrow> t_contexto \<Rightarrow> t_contexto_ejecucion" where
  "actualizar_proceso_desde_contexto proc ctx =
     proc\<lparr>ce_registros := registros_ctx ctx, segmentos := tabla_segmentos ctx\<rparr>"

section \<open>Contexts on the wire\<close>

definition enviar_contexto_proceso :: "t_contexto_ejecucion \<Rightarrow> byte list" where
  "enviar_contexto_proceso proc =
     enviar_paquete (fold (\<lambda>g p. agregar_segmento p g) (segmentos proc)
       (agregar_a_paquete (agregar_registros (crear_paquete OBTENER_CONTEXTO) (ce_registros proc))
         (bytes_int (of_nat (length (segmentos proc))))))"

definition recibir_contexto_actualizar :: "t_contexto recv" where
  "recibir_contexto_actualizar =
     recv_bind validar_buffer (\<lambda>_. recv_bind recv_u32 (\<lambda>pid. recv_bind recibir_registros (\<lambda>regs.
     recv_bind recv_int (\<lambda>cantidad. recv_bind (recv_veces (cuenta cantidad) recibir_segmento) (\<lambda>segs.
     recv_ret \<lparr>pid_ctx = pid, registros_ctx = regs, tabla_segmentos = segs\<rparr>)))))"

section \<open>Scripts\<close>

definition blanco :: "char \<Rightarrow> bool" where
  "blanco c \<longleftrightarrow> c = CHR '' '' \<or> c = CHR 0x09"

definition skip_blanco_y_comentario :: "string \<Rightarrow> string option" where
  "skip_blanco_y_comentario linea =
     (let p = dropWhile blanco linea
      in if p = [] \<or> hd p = CHR 0x0A \<or> hd p = CHR 0x0D \<or> hd p = CHR ''#'' then None else Some p)"

text \<open>\<open>fgets(linea, n + 1, f)\<close>: at most \<open>n\<close> characters, up to and including a newline.\<close>

fun fgets :: "nat \<Rightarrow> string \<Rightarrow> string \<times> string" where
  "fgets 0 s = ([], s)"
| "fgets (Suc n) [] = ([], [])"
| "fgets (Suc n) (c # s) =
     (if c = CHR 0x0A then ([c], s) else let (l, r) = fgets n s in (c # l, r))"

lemma fgets_resto: "length (snd (fgets n s)) \<le> length s"
  by (induction n s rule: fgets.induct) (auto split: prod.splits)

lemma fgets_acorta: "0 < n \<Longrightarrow> s \<noteq> [] \<Longrightarrow> fgets n s = (l, r) \<Longrightarrow> length r < length s"
  using fgets_resto [of "n - 1" "tl s"]
  by (cases n; cases s) (auto split: if_splits prod.splits)

function cargar_lineas :: "string \<Rightarrow> string list" where
  "cargar_lineas s =
     (if s = [] then []
      else let (linea, resto) = fgets 255 s
           in case skip_blanco_y_comentario (cstr linea) of
                None \<Rightarrow> cargar_lineas resto
              | Some contenido \<Rightarrow> takeWhile (\<lambda>c. c \<noteq> CHR 0x0A) contenido # cargar_lineas resto)"
  by pat_completeness auto
termination
  by (relation "measure length") (auto intro: fgets_acorta [of 255] sym)

declare cargar_lineas.simps [simp del]

text \<open>\<open>fopen\<close>: the content of the file at a path, \<open>None\<close> when it cannot be opened.\<close>

definition cargar_script :: "(string \<Rightarrow> string option) \<Rightarrow> string option \<Rightarrow> string list" where
  "cargar_script fopen path =
     (case path of None \<Rightarrow> []
      | Some p \<Rightarrow> (case fopen p of None \<Rightarrow> [] | Some contenido \<Rightarrow> cargar_lineas contenido))"

section \<open>Translation\<close>

definition segfault_a :: "sock \<Rightarrow> evento list" where
  "segfault_a s = (if s \<ge> 0 then [Enviar s (enviar_ok SEGMENTATION_FAULT)] else [])"

text \<open>The configured \<open>segment_max_size\<close> is positive; 0 would trap on the division.\<close>

definition traducir_dir_logica ::
  "u32 \<Rightarrow> t_contexto_ejecucion \<Rightarrow> u32 \<Rightarrow> u32 \<Rightarrow> sock \<Rightarrow> u32 \<times> evento list" where
  "traducir_dir_logica segment_max_size proc dir_logica tamanio s =
     (let num_seg = dir_logica div segment_max_size;
          desplazamiento = dir_logica mod segment_max_size
      in case find (\<lambda>g. id_seg g = num_seg) (segmentos proc) of
           None \<Rightarrow> (- 1, segfault_a s)
         | Some seg \<Rightarrow>
             if desplazamiento + tamanio > limite seg then (- 1, segfault_a s)
             else if base seg = - 1 then (- 1, segfault_a s)
             else (base seg + desplazamiento, []))"

section \<open>The table as a map from pids\<close>

definition proceso_de :: "i32 \<Rightarrow> t_contexto_ejecucion list \<Rightarrow> t_contexto_ejecucion option" where
  "proceso_de pid ps = map_option (nth ps) (procesos_buscar pid ps)"

lemma procesos_buscar_SomeD:
  "procesos_buscar pid ps = Some i \<Longrightarrow> i < length ps \<and> ce_pid (ps ! i) = pid"
  unfolding procesos_buscar_def by (drule buscar_idx_SomeD) simp

lemma proceso_de_find: "proceso_de pid ps = find (\<lambda>p. ce_pid p = pid) ps"
  by (simp add: proceso_de_def procesos_buscar_def buscar_idx_find)

lemma proceso_de_agregar:
  "proceso_de pid (procesos_agregar p ps) =
     (case proceso_de pid ps of None \<Rightarrow> if ce_pid p = pid then Some p else None | Some q \<Rightarrow> Some q)"
  unfolding proceso_de_find procesos_agregar_def by (induction ps) auto

lemma proceso_de_update:
  assumes "procesos_buscar pid ps = Some i" "ce_pid q = pid"
  shows "proceso_de pid' (ps[i := q]) = (if pid' = pid then Some q else proceso_de pid' ps)"
  using assms
proof (induction ps arbitrary: i)
  case (Cons p ps)
  then show ?case
    unfolding proceso_de_find procesos_buscar_def by (auto split: if_splits nat.splits)
qed (simp add: procesos_buscar_def)

lemma proceso_de_quitar:
  assumes "distinct (map ce_pid ps)" "procesos_buscar pid ps = Some i"
  shows "proceso_de pid' (procesos_quitar_en i ps) = (if pid' = pid then None else proceso_de pid' ps)"
  using assms
proof (induction ps arbitrary: i)
  case (Cons p ps)
  then show ?case
    unfolding proceso_de_find procesos_buscar_def procesos_quitar_en_def
    by (cases i) (auto simp: find_None_iff split: if_splits dest: image_eqI [OF sym])
qed (simp add: procesos_buscar_def)

section \<open>Context transfer\<close>

definition cuerpo_contexto :: "t_registros \<Rightarrow> t_segmento list \<Rightarrow> byte list" where
  "cuerpo_contexto regs segs =
     bytes_registros regs @ bytes_int (of_nat (length segs)) @ concat (map bytes_segmento segs)"

lemma length_concat_segmentos [simp]: "length (concat (map bytes_segmento segs)) = 16 * length segs"
  by (induction segs) simp_all

lemma corto_contexto: "length segs < 2 ^ 26 \<Longrightarrow> corto (cuerpo_contexto regs segs)"
  by (simp add: corto_def cuerpo_contexto_def)

lemma corto_contexto_pid: "length segs < 2 ^ 26 \<Longrightarrow> corto (bytes_u32 pid @ cuerpo_contexto regs segs)"
  by (simp add: corto_def cuerpo_contexto_def)

lemma recibir_cuerpo_contexto:
  assumes "length segs < 2 ^ 26"
  shows "recv_bind recibir_registros (\<lambda>regs. recv_bind recv_int (\<lambda>cantidad.
      recv_bind (recv_veces (cuenta cantidad) recibir_segmento) (\<lambda>segs. recv_ret (f regs segs))))
      (cuerpo_contexto regs segs @ s) = Inr (f regs segs, s)"
proof -
  have "recv_veces (length segs) recibir_segmento (concat (map bytes_segmento segs) @ s) = Inr (segs, s)"
    by (rule recv_veces_concat) (rule recibir_segmento_bytes)
  then show ?thesis
    using assms
    by (simp add: cuerpo_contexto_def recv_bind_def recibir_registros_bytes recv_int_bytes_int recv_ret_def)
qed

text \<open>The reply to \<open>OBTENER_CONTEXTO\<close>, read by the CPU's \<open>recibir_contexto\<close>.\<close>

interpretation m_contexto: mensaje OBTENER_CONTEXTO "\<lambda>(regs, segs). cuerpo_contexto regs segs"
  "\<lambda>(regs, segs). enviar_contexto_proceso \<lparr>ce_pid = pid, ce_registros = regs, segmentos = segs, instrucciones = ins\<rparr>"
  recibir_contexto "\<lambda>(regs, segs). length segs < 2 ^ 26" for pid ins
proof (rule mensajeI [OF _ _ recibir_contexto_def], goal_cases)
  case (3 a s)
  then show ?case using recibir_cuerpo_contexto [of "snd a" Pair "fst a" s] by (auto split: prod.splits)
next
  case (1 a)
  then show ?case
    by (auto simp: enviar_contexto_proceso_def agregar_registros_def cuerpo_contexto_def wire_simps)
qed (auto simp: corto_contexto)

text \<open>\<open>ACTUALIZAR_CONTEXTO\<close>, sent by the CPU and the scheduler.\<close>

interpretation m_actualizar: mensaje ACTUALIZAR_CONTEXTO
  "\<lambda>ctx. bytes_u32 (pid_ctx ctx) @ cuerpo_contexto (registros_ctx ctx) (tabla_segmentos ctx)"
  enviar_actualizar_contexto recibir_contexto_actualizar "\<lambda>ctx. length (tabla_segmentos ctx) < 2 ^ 26"
proof (rule mensajeI [OF _ _ recibir_contexto_actualizar_def], goal_cases)
  case (3 ctx s)
  then show ?case
    using recibir_cuerpo_contexto [of "tabla_segmentos ctx"
        "\<lambda>regs segs. \<lparr>pid_ctx = pid_ctx ctx, registros_ctx = regs, tabla_segmentos = segs\<rparr>" "registros_ctx ctx" s]
    by (simp add: recv_bind_Inr [where m = recv_u32] recv_u32_bytes_u32)
next
  case (1 ctx)
  then show ?case
    by (simp add: enviar_actualizar_contexto_def agregar_registros_def cuerpo_contexto_def wire_simps)
qed (simp add: corto_contexto_pid)

section \<open>Properties\<close>

lemma fgets_linea:
  "CHR 0x0A \<notin> set l \<Longrightarrow> length l < n \<Longrightarrow> fgets n (l @ CHR 0x0A # s) = (l @ [CHR 0x0A], s)"
proof (induction l arbitrary: n)
  case Nil
  then show ?case by (cases n) simp_all
next
  case (Cons c l)
  then show ?case by (cases n) auto
qed

lemma takeWhile_salto: "CHR 0x0A \<notin> set l \<Longrightarrow> takeWhile (\<lambda>c. c \<noteq> CHR 0x0A) (l @ [CHR 0x0A]) = l"
  by (induction l) auto

lemma dropWhile_blanco_salto:
  "dropWhile blanco (l @ [CHR 0x0A]) = dropWhile blanco l @ [CHR 0x0A]"
  by (induction l) (auto simp: blanco_def)

lemma skip_salto:
  "skip_blanco_y_comentario (l @ [CHR 0x0A]) = map_option (\<lambda>p. p @ [CHR 0x0A]) (skip_blanco_y_comentario l)"
proof -
  obtain p where p: "dropWhile blanco l = p" by simp
  show ?thesis
    unfolding skip_blanco_y_comentario_def dropWhile_blanco_salto p by (cases p) simp_all
qed

lemma skip_subset: "skip_blanco_y_comentario l = Some p \<Longrightarrow> set p \<subseteq> set l"
  by (auto simp: skip_blanco_y_comentario_def Let_def split: if_splits dest: set_dropWhileD)

text \<open>
  A script whose lines have fewer than 255 characters loads as the list of its
  instructions: the lines in their order, without the blank ones and those whose first
  visible character is \<open>#\<close>, without leading blanks and without the newline.
\<close>

theorem cargar_script_lineas:
  assumes "\<forall>l \<in> set ls. CHR 0x0A \<notin> set l \<and> sin_nul l \<and> length l < 255"
    and "fopen path = Some (concat (map (\<lambda>l. l @ [CHR 0x0A]) ls))"
  shows "cargar_script fopen (Some path) = List.map_filter skip_blanco_y_comentario ls"
proof -
  have "cargar_lineas (concat (map (\<lambda>l. l @ [CHR 0x0A]) ls)) = List.map_filter skip_blanco_y_comentario ls"
    using assms(1)
  proof (induction ls)
    case Nil
    then show ?case by (simp add: cargar_lineas.simps [of "[]"] map_filter_simps)
  next
    case (Cons l ls)
    let ?s = "concat (map (\<lambda>l. l @ [CHR 0x0A]) ls)"
    have "fgets 255 (l @ CHR 0x0A # ?s) = (l @ [CHR 0x0A], ?s)" using Cons.prems by (intro fgets_linea) auto
    moreover have "cstr (l @ [CHR 0x0A]) = l @ [CHR 0x0A]" using Cons.prems by (intro cstr_id) auto
    moreover have "takeWhile (\<lambda>c. c \<noteq> CHR 0x0A) (p @ [CHR 0x0A]) = p" if "skip_blanco_y_comentario l = Some p" for p
      using skip_subset [OF that] Cons.prems by (intro takeWhile_salto) auto
    ultimately show ?case
      using Cons by (auto simp: cargar_lineas.simps [of "l @ CHR 0x0A # ?s"] skip_salto map_filter_simps split: option.splits)
  qed
  then show ?thesis using assms(2) by (simp add: cargar_script_def)
qed

lemma cargar_script_lineas_witness:
  "cargar_script (\<lambda>p. if p = ''s'' then Some (concat (map (\<lambda>l. l @ [CHR 0x0A]) [''# x'', ''  SET AX 1'', '''', ''EXIT''])) else None)
     (Some ''s'') = [''SET AX 1'', ''EXIT'']"
proof -
  let ?ls = "[''# x'', ''  SET AX 1'', '''', ''EXIT'']"
  have "\<forall>l \<in> set ?ls. CHR 0x0A \<notin> set l \<and> sin_nul l \<and> length l < 255" by simp
  from cargar_script_lineas [OF this, where path = "''s''"] show ?thesis
    by (simp add: map_filter_simps skip_blanco_y_comentario_def blanco_def Let_def)
qed

text \<open>
  C15. Translation is safe when the access does not wrap 32 bits: it succeeds exactly for an
  access inside a resident segment of the process, and then the physical range lies inside
  that segment's cells; otherwise it returns \<open>(uint32_t)-1\<close> and, when there is a peer, sends
  it one \<open>SEGMENTATION_FAULT\<close>.
\<close>

theorem traducir_correcta:
  assumes "0 < smax" "unat (dir mod smax) + unat tam < 2 ^ 32"
    and "\<forall>g \<in> set (segmentos proc). base g \<noteq> - 1 \<longrightarrow> unat (base g) + unat (limite g) < 2 ^ 32 - 1"
    and "traducir_dir_logica smax proc dir tam s = (f, evs)"
  shows "if f = - 1
    then evs = segfault_a s \<and>
      (\<forall>g. find (\<lambda>g. id_seg g = dir div smax) (segmentos proc) = Some g \<longrightarrow>
         base g = - 1 \<or> unat (limite g) < unat (dir mod smax) + unat tam)
    else evs = [] \<and>
      (\<exists>g \<in> set (segmentos proc). id_seg g = dir div smax \<and> base g \<noteq> - 1 \<and>
         unat f = unat (base g) + unat (dir mod smax) \<and> rango f tam \<subseteq> rango (base g) (limite g))"
proof (cases "find (\<lambda>g. id_seg g = dir div smax) (segmentos proc)")
  case None
  then show ?thesis using assms(4) by (simp add: traducir_dir_logica_def Let_def)
next
  case (Some g)
  have g: "g \<in> set (segmentos proc)" "id_seg g = dir div smax" using find_SomeD [OF Some] by auto
  have cmp: "limite g < dir mod smax + tam \<longleftrightarrow> unat (limite g) < unat (dir mod smax) + unat tam"
    using assms(2) by (simp add: word_less_nat_alt unat_add_u32)
  show ?thesis
  proof (cases "limite g < dir mod smax + tam \<or> base g = - 1")
    case True
    then show ?thesis using assms(4) Some cmp by (auto simp: traducir_dir_logica_def Let_def)
  next
    case False
    then have cabe: "unat (dir mod smax) + unat tam \<le> unat (limite g)" using cmp by simp
    have tope: "unat (base g) + unat (limite g) < 2 ^ 32 - 1" using assms(3) g False by auto
    have f: "f = base g + dir mod smax" "evs = []"
      using False assms(4) Some by (auto simp: traducir_dir_logica_def Let_def)
    have uf: "unat f = unat (base g) + unat (dir mod smax)"
      unfolding f using cabe tope by (intro unat_add_u32) linarith
    then have "f \<noteq> - 1" using cabe tope by auto
    moreover have "rango f tam \<subseteq> rango (base g) (limite g)" using uf cabe by (auto simp: rango_def)
    ultimately show ?thesis using f uf g False by auto
  qed
qed

lemma traducir_correcta_witness:
  "traducir_dir_logica 64 \<lparr>ce_pid = 1, ce_registros = registros_cero,
       segmentos = [\<lparr>id_seg = 2, base = 100, limite = 16, swap_bloque_inicio = 0\<rparr>], instrucciones = []\<rparr> 130 4 5
     = (102, []) \<and>
   rango 102 4 \<subseteq> rango 100 16"
proof -
  let ?p = "\<lparr>ce_pid = 1, ce_registros = registros_cero,
       segmentos = [\<lparr>id_seg = 2, base = 100, limite = 16, swap_bloque_inicio = 0\<rparr>], instrucciones = []\<rparr>"
  have t: "traducir_dir_logica 64 ?p 130 4 5 = (102, [])" by (simp add: traducir_dir_logica_def)
  have "0 < (64 :: u32)" "unat ((130 :: u32) mod 64) + unat (4 :: u32) < 2 ^ 32"
    "\<forall>g \<in> set (segmentos ?p). base g \<noteq> - 1 \<longrightarrow> unat (base g) + unat (limite g) < 2 ^ 32 - 1"
    by simp_all
  from traducir_correcta [OF this t] t show ?thesis by auto
qed

text \<open>
  The limit check adds in \<open>uint32_t\<close>: when \<open>desplazamiento + tamanio\<close> wraps, an access
  that runs far past its segment is translated instead of being answered with a
  segmentation fault.
\<close>

theorem traducir_desborda:
  assumes "find (\<lambda>g. id_seg g = dir div smax) (segmentos proc) = Some g" "base g \<noteq> - 1"
    and "2 ^ 32 \<le> unat (dir mod smax) + unat tam"
    and "unat (dir mod smax) + unat tam \<le> 2 ^ 32 + unat (limite g)"
  shows "traducir_dir_logica smax proc dir tam s = (base g + dir mod smax, []) \<and>
    unat (limite g) < unat (dir mod smax) + unat tam"
proof -
  have "unat (dir mod smax + tam) = unat (dir mod smax) + unat tam - 2 ^ 32"
    using assms(3) by (rule unat_add_wrap)
  then have "\<not> limite g < dir mod smax + tam" using assms(4) by (simp add: word_less_nat_alt)
  moreover have "unat (limite g) < unat (dir mod smax) + unat tam"
    using assms(3) unat_u32_less [of "limite g"] by linarith
  ultimately show ?thesis using assms(1,2) by (simp add: traducir_dir_logica_def Let_def)
qed

lemma traducir_desborda_witness:
  "traducir_dir_logica 64 \<lparr>ce_pid = 1, ce_registros = registros_cero,
       segmentos = [\<lparr>id_seg = 0, base = 100, limite = 16, swap_bloque_inicio = 0\<rparr>], instrucciones = []\<rparr> 8 4294967290 5
     = (108, [])"
proof -
  let ?g = "\<lparr>id_seg = 0, base = 100, limite = 16, swap_bloque_inicio = 0\<rparr>"
  let ?p = "\<lparr>ce_pid = 1, ce_registros = registros_cero, segmentos = [?g], instrucciones = []\<rparr>"
  have "find (\<lambda>g. id_seg g = 8 div 64) (segmentos ?p) = Some ?g" "base ?g \<noteq> - 1"
    "2 ^ 32 \<le> unat ((8 :: u32) mod 64) + unat (4294967290 :: u32)"
    "unat ((8 :: u32) mod 64) + unat (4294967290 :: u32) \<le> 2 ^ 32 + unat (limite ?g)"
    by simp_all
  from traducir_desborda [OF this, of 5] show ?thesis by simp
qed

end
