(* ===== verification/Swap_Disco.thy ===== *)
theory Swap_Disco
  imports Mensajes
begin

text \<open>
  The SWAP module, \<open>swap/src/utils_swap.c\<close> and the checks of \<open>swap/src/swap_config.c\<close>: a
  file of fixed-size blocks served to Kernel Memory over one socket. The file is its bytes;
  \<open>pread\<close> and \<open>pwrite\<close> on a regular file are list operations (an error of the device is
  not modelled), and so is \<open>ftruncate\<close>. Offsets are natural numbers: a valid block number
  keeps the 64-bit product of the code below the 32-bit file size.
\<close>

section \<open>Configuration and state\<close>

record t_swap_config =
  log_level :: string
  memory_ip :: string
  memory_port :: string
  swap_file_path :: string
  swap_file_size :: u32
  block_size :: u32

text \<open>
  \<open>load_swap_config\<close>: \<open>cadena\<close> and \<open>entero\<close> are the lookups of the configuration
  library on the file, \<open>None\<close> for the null pointer.
\<close>

definition load_swap_config ::
  "(string \<Rightarrow> string option) \<Rightarrow> (string \<Rightarrow> i32) \<Rightarrow> t_swap_config option" where
  "load_swap_config cadena entero =
     (case (cadena ''LOG_LEVEL'', cadena ''MEMORY_IP'', cadena ''MEMORY_PORT'', cadena ''SWAP_FILE_PATH'') of
        (Some l, Some ip, Some port, Some path) \<Rightarrow>
          let fs = entero ''SWAP_FILE_SIZE''; bs = entero ''BLOCK_SIZE''
          in if fs = 0 \<or> bs = 0 \<or> bs > fs then None
             else Some \<lparr>log_level = l, memory_ip = ip, memory_port = port, swap_file_path = path,
                        swap_file_size = fs, block_size = bs\<rparr>
      | _ \<Rightarrow> None)"

record t_swap =
  SWAP_CONFIG :: t_swap_config
  SWAP_FILE :: "byte list"

definition ftruncate :: "byte list \<Rightarrow> nat \<Rightarrow> byte list" where
  "ftruncate f n = take n f @ replicate (n - length f) 0"

definition pwrite :: "byte list \<Rightarrow> byte list \<Rightarrow> nat \<Rightarrow> byte list" where
  "pwrite f datos off = copiar_en (f @ replicate (off + length datos - length f) 0) off datos"

definition pread :: "byte list \<Rightarrow> nat \<Rightarrow> nat \<Rightarrow> byte list" where
  "pread f n off = tramo_de f off n"

text \<open>\<open>previo\<close> is the content the path already had, \<open>None\<close> when \<open>open\<close> fails.\<close>

definition swap_abrir_archivo :: "t_swap_config \<Rightarrow> byte list option \<Rightarrow> t_swap option" where
  "swap_abrir_archivo cfg previo =
     (case previo of None \<Rightarrow> None
      | Some f \<Rightarrow> Some \<lparr>SWAP_CONFIG = cfg, SWAP_FILE = ftruncate f (unat (swap_file_size cfg))\<rparr>)"

definition is_valid_block :: "t_swap_config \<Rightarrow> u32 \<Rightarrow> bool" where
  "is_valid_block cfg block_number \<longleftrightarrow> block_number < swap_file_size cfg div block_size cfg"

definition block_offset :: "t_swap_config \<Rightarrow> u32 \<Rightarrow> nat" where
  "block_offset cfg b = unat b * unat (block_size cfg)"

section \<open>Operations\<close>

definition swap_write_block :: "t_swap \<Rightarrow> byte list \<Rightarrow> wire_error + (t_swap \<times> byte list \<times> byte list)" where
  "swap_write_block sw s =
     (let cfg = SWAP_CONFIG sw
      in case recibir_escritura_bloque_swap (block_size cfg) s of
           Inl e \<Rightarrow> Inl e
         | Inr ((block_number, block_data), s') \<Rightarrow>
             if \<not> is_valid_block cfg block_number then Inr (sw, enviar_resultado_swap (- 1), s')
             else Inr (sw\<lparr>SWAP_FILE := pwrite (SWAP_FILE sw) block_data (block_offset cfg block_number)\<rparr>,
                       enviar_resultado_swap 0, s'))"

definition swap_read_block :: "t_swap \<Rightarrow> byte list \<Rightarrow> wire_error + (byte list \<times> byte list)" where
  "swap_read_block sw s =
     (let cfg = SWAP_CONFIG sw; bs = unat (block_size cfg)
      in case recibir_lectura_bloque_swap s of
           Inl e \<Rightarrow> Inl e
         | Inr (block_number, s') \<Rightarrow>
             if \<not> is_valid_block cfg block_number
             then Inr (enviar_bloque_swap (- 1) (replicate bs 0), s')
             else let datos = pread (SWAP_FILE sw) bs (block_offset cfg block_number)
                  in if length datos \<noteq> bs
                     then Inr (enviar_bloque_swap (- 1) (datos @ replicate (bs - length datos) 0), s')
                     else Inr (enviar_bloque_swap 0 datos, s'))"

lemma swap_write_acorta: "swap_write_block sw s = Inr (sw', r, s') \<Longrightarrow> length s' \<le> length s"
proof -
  have "acorta (recibir_escritura_bloque_swap t)" for t
    unfolding recibir_escritura_bloque_swap_def by (intro acorta_bind) simp_all
  then show "swap_write_block sw s = Inr (sw', r, s') \<Longrightarrow> length s' \<le> length s"
    unfolding acorta_def swap_write_block_def
    by (auto simp: Let_def split: sum.splits prod.splits if_splits)
qed

lemma swap_read_acorta: "swap_read_block sw s = Inr (r, s') \<Longrightarrow> length s' \<le> length s"
proof -
  have "acorta recibir_lectura_bloque_swap"
    unfolding recibir_lectura_bloque_swap_def recibir_un_u32_def by (intro acorta_bind) simp_all
  then show "swap_read_block sw s = Inr (r, s') \<Longrightarrow> length s' \<le> length s"
    unfolding acorta_def swap_read_block_def
    by (auto simp: Let_def split: sum.splits prod.splits if_splits)
qed

text \<open>
  The loop of the module: the final file, the bytes sent back and the wire error that aborted
  it, if any. An unknown opcode is skipped and the loop goes on.
\<close>

function swap_atender_operaciones :: "t_swap \<Rightarrow> byte list \<Rightarrow> t_swap \<times> byte list \<times> wire_error option" where
  "swap_atender_operaciones sw s =
     (let (op, s1) = recibir_codigo_operacion s
      in if op = - 1 then (sw, [], None)
         else if op = op_num LECTURA_BLOQUE_SWAP
         then case swap_read_block sw s1 of
                Inl e \<Rightarrow> (sw, [], Some e)
              | Inr (r, s2) \<Rightarrow>
                  let (sw', out, f) = swap_atender_operaciones sw s2 in (sw', r @ out, f)
         else if op = op_num ESCRITURA_BLOQUE_SWAP
         then case swap_write_block sw s1 of
                Inl e \<Rightarrow> (sw, [], Some e)
              | Inr (sw1, r, s2) \<Rightarrow>
                  let (sw', out, f) = swap_atender_operaciones sw1 s2 in (sw', r @ out, f)
         else swap_atender_operaciones sw s1)"
  by pat_completeness auto
termination
  by (relation "measure (\<lambda>(sw, s). length s)")
    (auto dest!: recibir_codigo_acorta [OF sym] swap_read_acorta swap_write_acorta)

declare swap_atender_operaciones.simps [simp del]

definition swap_enviar_handshake :: "t_swap_config \<Rightarrow> byte list" where
  "swap_enviar_handshake cfg = enviar_handshake_swap (block_size cfg) (swap_file_size cfg)"

section \<open>Well-formed module and what a request does\<close>

definition swap_ok :: "t_swap \<Rightarrow> bool" where
  "swap_ok sw \<longleftrightarrow> 0 < block_size (SWAP_CONFIG sw) \<and> unat (block_size (SWAP_CONFIG sw)) < 2 ^ 31 - 100 \<and>
     length (SWAP_FILE sw) = unat (swap_file_size (SWAP_CONFIG sw))"

definition bloque_de :: "t_swap \<Rightarrow> u32 \<Rightarrow> byte list" where
  "bloque_de sw b =
     tramo_de (SWAP_FILE sw) (block_offset (SWAP_CONFIG sw) b) (unat (block_size (SWAP_CONFIG sw)))"

lemma load_abrir_ok:
  assumes "load_swap_config cadena entero = Some cfg" "swap_abrir_archivo cfg previo = Some sw"
    and "unat (block_size cfg) < 2 ^ 31 - 100"
  shows "swap_ok sw"
  using assms
  by (auto simp: load_swap_config_def swap_abrir_archivo_def swap_ok_def ftruncate_def Let_def word_neq_0_conv
      split: option.splits if_splits)

lemma bloque_valido_cota:
  assumes "is_valid_block cfg b"
  shows "block_offset cfg b + unat (block_size cfg) \<le> unat (swap_file_size cfg)"
proof -
  have "unat b < unat (swap_file_size cfg) div unat (block_size cfg)"
    using assms by (simp add: is_valid_block_def word_less_nat_alt unat_div)
  then have "Suc (unat b) * unat (block_size cfg) \<le>
      unat (swap_file_size cfg) div unat (block_size cfg) * unat (block_size cfg)"
    by (intro mult_le_mono1) simp
  also have "\<dots> \<le> unat (swap_file_size cfg)" by simp
  finally show ?thesis by (simp add: block_offset_def)
qed

lemma swap_write_bloque:
  assumes "swap_ok sw" "length datos = unat (block_size (SWAP_CONFIG sw))"
  shows "swap_atender_operaciones sw (enviar_escritura_bloque_swap b datos @ s) =
    (let v = is_valid_block (SWAP_CONFIG sw) b;
         (sw', out, f) = swap_atender_operaciones
           (if v then sw\<lparr>SWAP_FILE := copiar_en (SWAP_FILE sw) (block_offset (SWAP_CONFIG sw) b) datos\<rparr> else sw) s
     in (sw', enviar_resultado_swap (if v then 0 else - 1) @ out, f))"
proof -
  let ?cfg = "SWAP_CONFIG sw"
  have ida: "recibir_mensaje (recibir_escritura_bloque_swap (block_size ?cfg)) (enviar_escritura_bloque_swap b datos @ s)
      = (op_num ESCRITURA_BLOQUE_SWAP, Inr ((b, datos), s))"
    using m_escritura_bloque.ida_y_vuelta [of "block_size ?cfg" "(b, datos)" s] assms by (simp add: swap_ok_def)
  have "pwrite (SWAP_FILE sw) datos (block_offset ?cfg b) = copiar_en (SWAP_FILE sw) (block_offset ?cfg b) datos"
    if "is_valid_block ?cfg b"
    using bloque_valido_cota [OF that] assms by (simp add: pwrite_def swap_ok_def)
  then show ?thesis
    using ida unfolding swap_atender_operaciones.simps [of sw "enviar_escritura_bloque_swap b datos @ s"]
    by (auto simp: recibir_mensaje_def swap_write_block_def Let_def split: prod.splits)
qed

lemma swap_read_bloque:
  assumes "swap_ok sw"
  shows "swap_atender_operaciones sw (enviar_lectura_bloque_swap b @ s) =
    (let (sw', out, f) = swap_atender_operaciones sw s
     in (sw', (if is_valid_block (SWAP_CONFIG sw) b then enviar_bloque_swap 0 (bloque_de sw b)
               else enviar_bloque_swap (- 1) (replicate (unat (block_size (SWAP_CONFIG sw))) 0)) @ out, f))"
proof -
  let ?cfg = "SWAP_CONFIG sw"
  have ida: "recibir_mensaje recibir_lectura_bloque_swap (enviar_lectura_bloque_swap b @ s)
      = (op_num LECTURA_BLOQUE_SWAP, Inr (b, s))"
    using m_lectura_bloque.ida_y_vuelta by simp
  have "length (pread (SWAP_FILE sw) (unat (block_size ?cfg)) (block_offset ?cfg b)) = unat (block_size ?cfg)"
    if "is_valid_block ?cfg b"
    using bloque_valido_cota [OF that] assms by (simp add: pread_def swap_ok_def)
  then show ?thesis
    using ida unfolding swap_atender_operaciones.simps [of sw "enviar_lectura_bloque_swap b @ s"]
    by (auto simp: recibir_mensaje_def swap_read_block_def Let_def pread_def bloque_de_def split: prod.splits)
qed

lemma swap_fin [simp]: "swap_atender_operaciones sw [] = (sw, [], None)"
  by (simp add: swap_atender_operaciones.simps [of sw "[]"] recibir_codigo_operacion_def)

lemma swap_ok_copiar:
  "swap_ok sw \<Longrightarrow> off + length datos \<le> length (SWAP_FILE sw) \<Longrightarrow>
   swap_ok (sw\<lparr>SWAP_FILE := copiar_en (SWAP_FILE sw) off datos\<rparr>)"
  by (simp add: swap_ok_def)

lemma bloques_separados:
  assumes "b \<noteq> c"
  shows "block_offset cfg c + unat (block_size cfg) \<le> block_offset cfg b \<or>
    block_offset cfg b + unat (block_size cfg) \<le> block_offset cfg c"
proof -
  have "unat b \<noteq> unat c" using assms by (metis unat_eqD)
  then consider "Suc (unat c) \<le> unat b" | "Suc (unat b) \<le> unat c" by linarith
  then show ?thesis
  proof cases
    case 1
    then have "Suc (unat c) * unat (block_size cfg) \<le> unat b * unat (block_size cfg)" by (rule mult_le_mono1)
    then show ?thesis by (simp add: block_offset_def)
  next
    case 2
    then have "Suc (unat b) * unat (block_size cfg) \<le> unat c * unat (block_size cfg)" by (rule mult_le_mono1)
    then show ?thesis by (simp add: block_offset_def)
  qed
qed

lemma bloque_de_copiar:
  assumes "swap_ok sw" "is_valid_block (SWAP_CONFIG sw) b" "length datos = unat (block_size (SWAP_CONFIG sw))"
    and "is_valid_block (SWAP_CONFIG sw) c"
  shows "bloque_de (sw\<lparr>SWAP_FILE := copiar_en (SWAP_FILE sw) (block_offset (SWAP_CONFIG sw) b) datos\<rparr>) c =
    (if c = b then datos else bloque_de sw c)"
proof (cases "c = b")
  case True
  then show ?thesis
    using assms bloque_valido_cota [OF assms(2)] tramo_de_copiar_en [of "block_offset (SWAP_CONFIG sw) b" datos]
    by (simp add: bloque_de_def swap_ok_def)
next
  case False
  then show ?thesis
    using assms bloque_valido_cota [OF assms(2)] bloque_valido_cota [OF assms(4)]
      bloques_separados [of b c "SWAP_CONFIG sw"]
    by (auto simp: bloque_de_def swap_ok_def intro!: tramo_de_otro)
qed

end
