(* ===== verification/Memory_Swap.thy ===== *)
theory Memory_Swap
  imports Swap_Disco Memory_IO
begin

text \<open>
  Kernel Memory's side of the swap, \<open>kernel_memory/src/memory_swap.c\<close>: the counter that
  hands out swap blocks and the two block transfers, which talk to the SWAP module of
  \<open>Swap_Disco\<close> over the socket. The locale \<open>disco_bloques\<close> is what the suspension of
  processes relies on; the transfers over the wire interpret it.
\<close>

section \<open>Block reservation\<close>

record t_reserva =
  rs_block_size :: u32
  next_block :: u32
  total_blocks :: u32

definition swap_inicializar :: "u32 \<Rightarrow> u32 \<Rightarrow> t_reserva" where
  "swap_inicializar bs tb = \<lparr>rs_block_size = bs, next_block = 0, total_blocks = tb\<rparr>"

definition swap_block_size :: "t_reserva \<Rightarrow> u32" where
  "swap_block_size rs = rs_block_size rs"

definition swap_reservar_bloques :: "u32 \<Rightarrow> t_reserva \<Rightarrow> u32 \<times> t_reserva" where
  "swap_reservar_bloques n rs =
     (if next_block rs + n > total_blocks rs then (- 1, rs)
      else (next_block rs, rs\<lparr>next_block := next_block rs + n\<rparr>))"

section \<open>Block transfers\<close>

text \<open>
  A request on the swap socket and what the module answers. \<open>Inl\<close> is the \<open>abort()\<close> of
  \<open>validar_buffer\<close> or a read that got less than it asked for.
\<close>

definition pedir_swap :: "t_swap \<Rightarrow> byte list \<Rightarrow> byte list \<times> t_swap" where
  "pedir_swap sw pedido =
     (let (sw', respuesta, falla) = swap_atender_operaciones sw pedido in (respuesta, sw'))"

definition swap_escribir_bloque ::
  "sock \<Rightarrow> u32 \<Rightarrow> byte list \<Rightarrow> t_swap \<Rightarrow> wire_error + (i32 \<times> t_swap)" where
  "swap_escribir_bloque swap_sock bloque buf sw =
     (if swap_sock < 0 then Inr (- 1, sw)
      else
        let (respuesta, sw') = pedir_swap sw (enviar_escritura_bloque_swap bloque buf)
        in case recibir_resultado_swap respuesta of
             Inl e \<Rightarrow> Inl e
           | Inr (status, _) \<Rightarrow> Inr (status, sw'))"

definition swap_leer_bloque ::
  "sock \<Rightarrow> u32 \<Rightarrow> u32 \<Rightarrow> t_swap \<Rightarrow> wire_error + (i32 \<times> byte list option \<times> t_swap)" where
  "swap_leer_bloque swap_sock bs bloque sw =
     (if swap_sock < 0 then Inr (- 1, None, sw)
      else
        let (respuesta, sw') = pedir_swap sw (enviar_lectura_bloque_swap bloque)
        in case recibir_bloque_swap bs respuesta of
             Inl e \<Rightarrow> Inl e
           | Inr ((status, data), _) \<Rightarrow>
               if status \<noteq> 0 \<or> data = None then Inr (- 1, None, sw') else Inr (0, data, sw'))"

section \<open>Reservation hands out disjoint runs of blocks\<close>

definition reserva_ok :: "t_reserva \<Rightarrow> bool" where
  "reserva_ok rs \<longleftrightarrow> next_block rs \<le> total_blocks rs"

lemma reservar_cases:
  assumes "unat (next_block rs) + unat n < 2 ^ 32"
  obtains (lleno) "unat (total_blocks rs) < unat (next_block rs) + unat n" "swap_reservar_bloques n rs = (- 1, rs)"
  | (hay) rs' where "unat (next_block rs) + unat n \<le> unat (total_blocks rs)"
      "swap_reservar_bloques n rs = (next_block rs, rs')"
      "unat (next_block rs') = unat (next_block rs) + unat n"
      "total_blocks rs' = total_blocks rs" "rs_block_size rs' = rs_block_size rs" "reserva_ok rs'"
proof (cases "total_blocks rs < next_block rs + n")
  case True
  then show ?thesis
    using lleno assms by (simp add: swap_reservar_bloques_def word_less_nat_alt unat_add_u32)
next
  case False
  then show ?thesis
    using hay [of "rs\<lparr>next_block := next_block rs + n\<rparr>"] assms
    by (simp add: swap_reservar_bloques_def word_less_nat_alt unat_add_u32 reserva_ok_def word_le_nat_alt not_less)
qed

section \<open>The contract of a block device\<close>

locale disco_bloques =
  fixes ok :: "'d \<Rightarrow> bool"
    and tam :: nat
    and valido :: "'d \<Rightarrow> u32 \<Rightarrow> bool"
    and contenido :: "'d \<Rightarrow> u32 \<Rightarrow> byte list"
    and escribir :: "u32 \<Rightarrow> byte list \<Rightarrow> 'd \<Rightarrow> wire_error + (i32 \<times> 'd)"
    and leer :: "u32 \<Rightarrow> 'd \<Rightarrow> wire_error + (i32 \<times> byte list option \<times> 'd)"
  assumes escribir_valido: "ok d \<Longrightarrow> valido d b \<Longrightarrow> length x = tam \<Longrightarrow>
      \<exists>d'. escribir b x d = Inr (0, d') \<and> ok d' \<and> valido d' = valido d \<and>
        (\<forall>c. valido d c \<longrightarrow> contenido d' c = (if c = b then x else contenido d c))"
    and escribir_invalido: "ok d \<Longrightarrow> \<not> valido d b \<Longrightarrow> length x = tam \<Longrightarrow> escribir b x d = Inr (- 1, d)"
    and leer_valido: "ok d \<Longrightarrow> valido d b \<Longrightarrow> leer b d = Inr (0, Some (contenido d b), d)"
    and leer_invalido: "ok d \<Longrightarrow> \<not> valido d b \<Longrightarrow> leer b d = Inr (- 1, None, d)"
begin

lemma leer_tras_escribir:
  assumes "ok d" "valido d b" "length x = tam"
  obtains d' where "escribir b x d = Inr (0, d')" "leer b d' = Inr (0, Some x, d')"
proof -
  from escribir_valido [OF assms] obtain d' where d': "escribir b x d = Inr (0, d')" "ok d'"
      "valido d' = valido d" "contenido d' b = x"
    using assms(2) by auto
  then have "leer b d' = Inr (0, Some x, d')" using leer_valido [of d' b] assms(2) by simp
  with d'(1) show thesis by (rule that)
qed

text \<open>Writing another block does not disturb a block: the order of two writes is irrelevant to a reader.\<close>

lemma leer_otro_bloque:
  assumes "ok d" "valido d b" "valido d c" "b \<noteq> c" "length x = tam"
  obtains d' where "escribir b x d = Inr (0, d')" "leer c d' = Inr (0, Some (contenido d c), d')"
proof -
  from escribir_valido [OF assms(1,2,5)] obtain d' where d': "escribir b x d = Inr (0, d')" "ok d'"
      "valido d' = valido d" "contenido d' c = contenido d c"
    using assms(3,4) by auto
  then have "leer c d' = Inr (0, Some (contenido d c), d')" using leer_valido [of d' c] assms(3) by simp
  with d'(1) show thesis by (rule that)
qed

end

definition swap_de :: "u32 \<Rightarrow> t_swap \<Rightarrow> bool" where
  "swap_de bs sw \<longleftrightarrow> swap_ok sw \<and> block_size (SWAP_CONFIG sw) = bs"

lemma recibir_resultado_enviado: "recibir_resultado_swap (enviar_resultado_swap v) = Inr (v, [])"
  using m_resultado_swap.ida_y_vuelta [of v "[]"]
  by (auto simp: recibir_resultado_swap_def sin_codigo_def recibir_mensaje_def Let_def split: prod.splits)

lemma recibir_bloque_enviado:
  assumes "length datos = unat bs" "0 < bs" "unat bs < 2 ^ 31 - 100"
  shows "recibir_bloque_swap bs (enviar_bloque_swap 0 datos) = Inr ((0, Some datos), [])"
    and "v \<noteq> 0 \<Longrightarrow> recibir_bloque_swap bs (enviar_bloque_swap v datos) = Inr ((v, None), [])"
proof -
  let ?r = "recv_bind recv_int (\<lambda>status. if status \<noteq> 0 then recv_ret (status, None)
       else recv_bind (recv_bytes (unat bs)) (\<lambda>datos. recv_ret (status, Some datos)))"
  have corto: "corto (bytes_int 0 @ datos)" "corto (bytes_int v)" using assms by (simp_all add: corto_def)
  have env: "enviar_bloque_swap 0 datos = enviar_paquete (paquete RESPUESTA_SWAP (bytes_int 0 @ datos))"
    using assms by (auto simp: enviar_bloque_swap_def wire_simps word_less_nat_alt)
  have rec: "recibir_bloque_swap bs (enviar_paquete (paquete RESPUESTA_SWAP cuerpo)) = ?r cuerpo" if "corto cuerpo" for cuerpo
    using validado [OF that, of ?r "[]"] that
    by (simp add: recibir_bloque_swap_def sin_codigo_def enviar_paquete_paquete recibir_codigo_operacion_op)
  show "recibir_bloque_swap bs (enviar_bloque_swap 0 datos) = Inr ((0, Some datos), [])"
    unfolding env rec [OF corto(1)] using assms(1)
    by (simp add: recv_bind_def recv_int_bytes_int recv_bytes_def recv_ret_def)
  assume "v \<noteq> 0"
  then have env': "enviar_bloque_swap v datos = enviar_paquete (paquete RESPUESTA_SWAP (bytes_int v))"
    by (simp add: enviar_bloque_swap_def wire_simps)
  show "recibir_bloque_swap bs (enviar_bloque_swap v datos) = Inr ((v, None), [])"
    unfolding env' rec [OF corto(2)] using recv_int_bytes_int [of v "[]"] \<open>v \<noteq> 0\<close>
    by (simp add: recv_bind_def recv_ret_def)
qed

lemma escribir_bloque_cable:
  assumes "swap_de bs sw" "length x = unat bs" "0 \<le> s"
  shows "swap_escribir_bloque s b x sw =
    (if is_valid_block (SWAP_CONFIG sw) b
     then Inr (0, sw\<lparr>SWAP_FILE := copiar_en (SWAP_FILE sw) (block_offset (SWAP_CONFIG sw) b) x\<rparr>)
     else Inr (- 1, sw))"
  using assms swap_write_bloque [of sw x b "[]"]
  by (simp add: swap_escribir_bloque_def pedir_swap_def recibir_resultado_enviado swap_de_def Let_def)

lemma leer_bloque_cable:
  assumes "swap_de bs sw" "0 \<le> s"
  shows "swap_leer_bloque s bs b sw =
    (if is_valid_block (SWAP_CONFIG sw) b then Inr (0, Some (bloque_de sw b), sw) else Inr (- 1, None, sw))"
proof -
  have bs: "0 < bs" "unat bs < 2 ^ 31 - 100" "swap_ok sw" "block_size (SWAP_CONFIG sw) = bs"
    using assms(1) by (auto simp: swap_de_def swap_ok_def)
  have "length (bloque_de sw b) = unat bs" if "is_valid_block (SWAP_CONFIG sw) b"
    using bloque_valido_cota [OF that] bs by (simp add: bloque_de_def swap_ok_def)
  then show ?thesis
    using swap_read_bloque [OF bs(3), of b "[]"] assms(2) bs recibir_bloque_enviado [of "bloque_de sw b" bs]
      recibir_bloque_enviado(2) [of "replicate (unat bs) 0" bs "- 1"]
    by (simp add: swap_leer_bloque_def pedir_swap_def Let_def)
qed

lemma disco_cable:
  assumes "0 \<le> s"
  shows "disco_bloques (swap_de bs) (unat bs) (\<lambda>sw. is_valid_block (SWAP_CONFIG sw)) bloque_de
    (swap_escribir_bloque s) (swap_leer_bloque s bs)"
proof (unfold_locales, goal_cases)
  case (1 d b x)
  then show ?case
    using assms escribir_bloque_cable [OF 1(1,3) assms, of b] bloque_de_copiar [of d b x] bloque_valido_cota [of "SWAP_CONFIG d" b]
    by (auto simp: swap_de_def swap_ok_def)
qed (simp_all add: assms escribir_bloque_cable leer_bloque_cable)

text \<open>The socket of the handshake is never negative; \<open>nat\<close> indexes the interpretation.\<close>

interpretation disco: disco_bloques "swap_de bs" "unat bs" "\<lambda>sw. is_valid_block (SWAP_CONFIG sw)" bloque_de
    "swap_escribir_bloque (int s)" "swap_leer_bloque (int s) bs" for bs :: u32 and s :: nat
  by (rule disco_cable) simp

section \<open>Properties\<close>

text \<open>
  C12. Two successive reservations that succeed get runs of blocks that lie inside the swap
  file and do not overlap; a reservation fails exactly when the blocks left are fewer than
  asked, and then the counter does not move. (Block counts are those of a swap of less than
  \<open>2 ^ 31\<close> blocks, so that the 32-bit sum does not wrap.)
\<close>

theorem reservas_disjuntas:
  assumes "reserva_ok rs" "unat (total_blocks rs) < 2 ^ 31" "unat n < 2 ^ 31" "unat m < 2 ^ 31"
    and "swap_reservar_bloques n rs = (a, rs1)" "swap_reservar_bloques m rs1 = (b, rs2)"
  shows "reserva_ok rs2 \<and>
    (a = - 1 \<longleftrightarrow> unat (total_blocks rs) - unat (next_block rs) < unat n) \<and> (a = - 1 \<longrightarrow> rs1 = rs) \<and>
    (a \<noteq> - 1 \<and> b \<noteq> - 1 \<longrightarrow>
       {unat a ..< unat a + unat n} \<inter> {unat b ..< unat b + unat m} = {} \<and>
       {unat a ..< unat a + unat n} \<union> {unat b ..< unat b + unat m} \<subseteq> {..< unat (total_blocks rs)})"
proof -
  have nb: "unat (next_block rs) \<le> unat (total_blocks rs)" using assms(1) by (simp add: reserva_ok_def word_le_nat_alt)
  have nc: "next_block rs \<noteq> - 1" using nb assms(2) by auto
  have r1: "unat (next_block rs) + unat n < 2 ^ 32" using nb assms by simp
  show ?thesis
  proof (cases rule: reservar_cases [OF r1])
    case 1
    with assms(5) have a: "a = - 1" "rs1 = rs" by auto
    have "unat (next_block rs) + unat m < 2 ^ 32" using nb assms by simp
    then have "reserva_ok rs2"
      by (rule reservar_cases) (use a assms in auto)
    then show ?thesis using a 1 nb by auto
  next
    case (2 rs')
    with assms(5) have a: "a = next_block rs" "rs1 = rs'" by auto
    have r2: "unat (next_block rs') + unat m < 2 ^ 32" using 2 assms by simp
    show ?thesis
    proof (cases rule: reservar_cases [OF r2])
      case 1
      then show ?thesis using 2 a assms nc by auto
    next
      case (2 rs'')
      then show ?thesis
        using \<open>unat (next_block rs) + unat n \<le> unat (total_blocks rs)\<close> \<open>unat (next_block rs') = _\<close>
          \<open>total_blocks rs' = _\<close> a assms nc by auto
    qed
  qed
qed

lemma reservas_disjuntas_witness:
  "swap_reservar_bloques 3 (swap_inicializar 16 8) = (0, \<lparr>rs_block_size = 16, next_block = 3, total_blocks = 8\<rparr>) \<and>
   swap_reservar_bloques 5 \<lparr>rs_block_size = 16, next_block = 3, total_blocks = 8\<rparr> =
     (3, \<lparr>rs_block_size = 16, next_block = 8, total_blocks = 8\<rparr>) \<and>
   {0..<3} \<inter> {3..<8 :: nat} = {}"
proof -
  let ?rs = "swap_inicializar 16 8" and ?rs1 = "\<lparr>rs_block_size = 16, next_block = 3, total_blocks = 8\<rparr>"
  have a: "swap_reservar_bloques 3 ?rs = (0, ?rs1)"
    and b: "swap_reservar_bloques 5 ?rs1 = (3, \<lparr>rs_block_size = 16, next_block = 8, total_blocks = 8\<rparr>)"
    by (simp_all add: swap_reservar_bloques_def swap_inicializar_def)
  have "reserva_ok ?rs" "unat (total_blocks ?rs) < 2 ^ 31" "unat (3 :: u32) < 2 ^ 31" "unat (5 :: u32) < 2 ^ 31"
    by (simp_all add: reserva_ok_def swap_inicializar_def)
  from reservas_disjuntas [OF this a b] a b show ?thesis by simp
qed

text \<open>
  C13. A block written through the swap socket is read back unchanged, through the wire
  format of both ends and the file of the SWAP module, and every other valid block keeps its
  content; a block number past the end of the file is refused with status \<open>-1\<close> and changes
  nothing.
\<close>

theorem swap_bloque_ida_y_vuelta:
  assumes "swap_ok sw" "bs = block_size (SWAP_CONFIG sw)" "length x = unat bs" "0 \<le> s"
  shows "if is_valid_block (SWAP_CONFIG sw) b
    then \<exists>sw'. swap_escribir_bloque s b x sw = Inr (0, sw') \<and> swap_ok sw' \<and>
      (\<forall>c. is_valid_block (SWAP_CONFIG sw) c \<longrightarrow>
        swap_leer_bloque s bs c sw' = Inr (0, Some (if c = b then x else bloque_de sw c), sw'))
    else swap_escribir_bloque s b x sw = Inr (- 1, sw) \<and> swap_leer_bloque s bs b sw = Inr (- 1, None, sw)"
proof (cases "is_valid_block (SWAP_CONFIG sw) b")
  case True
  have de: "swap_de bs sw" using assms by (simp add: swap_de_def)
  from disco.escribir_valido [OF de True assms(3), of "nat s"] assms(4)
  obtain sw' where sw': "swap_escribir_bloque s b x sw = Inr (0, sw')" "swap_de bs sw'"
      "is_valid_block (SWAP_CONFIG sw') = is_valid_block (SWAP_CONFIG sw)"
      "\<forall>c. is_valid_block (SWAP_CONFIG sw) c \<longrightarrow> bloque_de sw' c = (if c = b then x else bloque_de sw c)"
    by auto
  then have "swap_leer_bloque s bs c sw' = Inr (0, Some (if c = b then x else bloque_de sw c), sw')"
    if "is_valid_block (SWAP_CONFIG sw) c" for c
    using disco.leer_valido [OF sw'(2), of c "nat s"] that assms(4) by simp
  then show ?thesis using True sw' by (auto simp: swap_de_def)
next
  case False
  have de: "swap_de bs sw" using assms by (simp add: swap_de_def)
  show ?thesis
    using False disco.escribir_invalido [OF de False assms(3), of "nat s"]
      disco.leer_invalido [OF de False, of "nat s"] assms(4) by simp
qed

lemma swap_bloque_ida_y_vuelta_witness:
  "\<exists>sw'. swap_escribir_bloque 4 1 [7, 8]
      \<lparr>SWAP_CONFIG = \<lparr>log_level = [], memory_ip = [], memory_port = [], swap_file_path = [], swap_file_size = 6, block_size = 2\<rparr>,
       SWAP_FILE = [1, 2, 3, 4, 5, 6]\<rparr> = Inr (0, sw') \<and>
    swap_leer_bloque 4 2 1 sw' = Inr (0, Some [7, 8], sw') \<and> swap_leer_bloque 4 2 2 sw' = Inr (0, Some [5, 6], sw')"
proof -
  let ?sw = "\<lparr>SWAP_CONFIG = \<lparr>log_level = [], memory_ip = [], memory_port = [], swap_file_path = [], swap_file_size = 6, block_size = 2\<rparr>,
       SWAP_FILE = [1, 2, 3, 4, 5, 6]\<rparr>"
  have h: "swap_ok ?sw" "2 = block_size (SWAP_CONFIG ?sw)" "length [7, 8 :: byte] = unat (2 :: u32)" "0 \<le> (4 :: int)"
    by (simp_all add: swap_ok_def)
  have "is_valid_block (SWAP_CONFIG ?sw) 1" "is_valid_block (SWAP_CONFIG ?sw) 2" "bloque_de ?sw 2 = [5, 6]"
    by (simp_all add: is_valid_block_def bloque_de_def block_offset_def tramo_de_def)
  with swap_bloque_ida_y_vuelta [OF h, of 1] show ?thesis by fastforce
qed

end
