(* ===== verification/Memoria.thy ===== *)
theory Memoria
  imports Procesos Memory_Swap "HOL-Library.Multiset"
begin

text \<open>
  The whole state of Kernel Memory: its modules' static variables (the process table, the free
  list, the connection table, the swap counter, the compaction flag), the configuration that
  the handlers read, and the far ends of the stick and swap sockets. The invariant says that
  the free list and the resident segments partition the RAM the sticks offer.
\<close>

section \<open>State\<close>

record t_config_memory =
  segment_max_size :: i32
  allocation_strategy :: "string option"
  scripts_basepath :: "string option"

text \<open>
  \<open>load_config_memory\<close>: \<open>cadena\<close> and \<open>entero\<close> are the lookups of the configuration
  library on the file. The delays, the log level and the port are not kept.
\<close>

definition load_config_memory ::
  "(string \<Rightarrow> string option) \<Rightarrow> (string \<Rightarrow> i32) \<Rightarrow> t_config_memory" where
  "load_config_memory cadena entero =
     \<lparr>segment_max_size = entero ''SEGMENT_MAX_SIZE'',
      allocation_strategy = cadena ''ALLOCATION_STRATEGY'',
      scripts_basepath = cadena ''SCRIPTS_BASEPATH''\<rparr>"

record t_memoria =
  config_memory :: t_config_memory
  conx :: t_conexiones_activas
  bloques_libres :: "t_bloque_libre list"
  procesos :: "t_contexto_ejecucion list"
  reserva :: t_reserva
  en_progreso :: bool
  red_sticks :: red
  disco :: t_swap

abbreviation worst_fit :: "t_memoria \<Rightarrow> bool" where
  "worst_fit M \<equiv> es_worst_fit (allocation_strategy (config_memory M))"

abbreviation memoria_de :: "t_memoria \<Rightarrow> byte list" where
  "memoria_de M \<equiv> memoria_fisica (conx M) (red_sticks M)"

section \<open>Resident segments\<close>

text \<open>A segment of a suspended process has base \<open>(uint32_t)-1\<close>.\<close>

definition residente :: "t_segmento \<Rightarrow> bool" where
  "residente g \<longleftrightarrow> base g \<noteq> - 1"

definition tramo_seg :: "t_segmento \<Rightarrow> tramo" where
  "tramo_seg g = (base g, limite g)"

lemma tramo_seg_sel [simp]: "fst (tramo_seg g) = base g" "snd (tramo_seg g) = limite g"
  by (simp_all add: tramo_seg_def)

definition tramos_segs :: "t_segmento list \<Rightarrow> tramo list" where
  "tramos_segs gs = map tramo_seg (filter residente gs)"

definition tramos :: "t_contexto_ejecucion list \<Rightarrow> tramo list" where
  "tramos ps = concat (map (\<lambda>p. tramos_segs (segmentos p)) ps)"

lemma tramos_simps [simp]:
  "tramos [] = []" "tramos (p # ps) = tramos_segs (segmentos p) @ tramos ps"
  "tramos (ps @ qs) = tramos ps @ tramos qs"
  by (simp_all add: tramos_def)

lemma tramos_segs_simps [simp]:
  "tramos_segs [] = []"
  "tramos_segs (g # gs) = (if residente g then [tramo_seg g] else []) @ tramos_segs gs"
  "tramos_segs (gs @ hs) = tramos_segs gs @ tramos_segs hs"
  by (simp_all add: tramos_segs_def)

lemma tramos_update:
  "i < length ps \<Longrightarrow> tramos (ps[i := p]) = tramos (take i ps) @ tramos_segs (segmentos p) @ tramos (drop (Suc i) ps)"
  by (simp add: upd_conv_take_nth_drop)

lemma tramos_split:
  "i < length ps \<Longrightarrow> tramos ps = tramos (take i ps) @ tramos_segs (segmentos (ps ! i)) @ tramos (drop (Suc i) ps)"
  by (subst id_take_nth_drop [of i ps]) simp_all

lemma tramos_quitar: "tramos (procesos_quitar_en i ps) = tramos (take i ps) @ tramos (drop (Suc i) ps)"
  by (simp add: procesos_quitar_en_def list_remove_def)

section \<open>The partition does not depend on the order of the segments\<close>

lemma ocupadas_set: "set ts = set us \<Longrightarrow> ocupadas ts = ocupadas us"
  by (simp add: ocupadas_def)

lemma separados_mset: "mset ts = mset us \<Longrightarrow> separados ts \<longleftrightarrow> separados us"
proof (induction ts arbitrary: us)
  case (Cons t ts)
  then obtain xs ys where us: "us = xs @ t # ys"
    by (metis list.set_intros(1) set_mset_mset split_list)
  then have m: "mset ts = mset (xs @ ys)" using Cons.prems by simp
  have "ocupadas ts = ocupadas (xs @ ys)" using m by (intro ocupadas_set) (metis set_mset_mset)
  then show ?case using Cons.IH [OF m] us by (cases t) (auto simp: separados_append)
qed simp

lemma particion_mset: "mset ts = mset us \<Longrightarrow> particion N L ts \<longleftrightarrow> particion N L us"
  using separados_mset [of ts us] ocupadas_set [of ts us] by (metis particion_def set_mset_mset)

section \<open>Invariant\<close>

definition cabe_en :: "nat \<Rightarrow> tramo \<Rightarrow> bool" where
  "cabe_en N t \<longleftrightarrow> unat (fst t) + unat (snd t) \<le> N"

definition mem_inv :: "t_memoria \<Rightarrow> bool" where
  "mem_inv M \<longleftrightarrow>
     red_ok (conx M) (red_sticks M) \<and> bloques_inv (ram (conx M)) (bloques_libres M) \<and>
     particion (ram (conx M)) (celdas (bloques_libres M)) (tramos (procesos M)) \<and>
     (\<forall>t \<in> set (tramos (procesos M)). cabe_en (ram (conx M)) t)"

lemma mem_inv_ram: "mem_inv M \<Longrightarrow> length (memoria_de M) = ram (conx M) \<and> ram (conx M) < 2 ^ 32 - 1"
  by (simp add: mem_inv_def length_memoria_fisica red_ok_def layout_def)

text \<open>
  A small memory for the examples: five bytes of RAM, two segments of process 1, holes before
  each of them, and a swap of four blocks of two bytes.
\<close>

definition swap_ejemplo :: t_swap where
  "swap_ejemplo =
     \<lparr>SWAP_CONFIG = \<lparr>log_level = [], memory_ip = [], memory_port = [], swap_file_path = [], swap_file_size = 8, block_size = 2\<rparr>,
      SWAP_FILE = [0, 0, 0, 0, 0, 0, 0, 0]\<rparr>"

definition proceso_ejemplo :: t_contexto_ejecucion where
  "proceso_ejemplo =
     \<lparr>ce_pid = 1, ce_registros = registros_cero,
      segmentos = [\<lparr>id_seg = 0, base = 1, limite = 2, swap_bloque_inicio = 0\<rparr>,
                   \<lparr>id_seg = 1, base = 4, limite = 1, swap_bloque_inicio = 0\<rparr>],
      instrucciones = [''EXIT'']\<rparr>"

definition memoria_chica :: t_memoria where
  "memoria_chica =
     \<lparr>config_memory = \<lparr>segment_max_size = 4, allocation_strategy = Some ''BEST'', scripts_basepath = None\<rparr>,
      conx = conexiones_ejemplo,
      bloques_libres = [\<lparr>b_base = 0, b_tamanio = 1\<rparr>, \<lparr>b_base = 3, b_tamanio = 1\<rparr>],
      procesos = [proceso_ejemplo],
      reserva = swap_inicializar 2 4, en_progreso = False,
      red_sticks = red_ejemplo, disco = swap_ejemplo\<rparr>"

lemma ram_ejemplo [simp]: "ram conexiones_ejemplo = 5"
  by (simp add: conexiones_ejemplo_def)

lemma mem_inv_chica: "mem_inv memoria_chica"
proof -
  have t: "tramos [proceso_ejemplo] = [(1, 2), (4, 1)]"
    by (simp add: proceso_ejemplo_def residente_def tramo_seg_def)
  have "celdas [\<lparr>b_base = 0, b_tamanio = 1\<rparr>, \<lparr>b_base = 3, b_tamanio = 1\<rparr>] = {0, 3}"
    by (auto simp: celdas_bloque_def rango_def)
  moreover have "rango 1 2 = {1, 2}" "rango 4 1 = {4}" by (auto simp: rango_def)
  ultimately show ?thesis
    unfolding mem_inv_def memoria_chica_def t_memoria.select_convs t ram_ejemplo
    by (auto simp: red_ok_ejemplo particion_def cabe_en_def bloque_en_def celdas_bloque_def rango_def)
qed

end
