(* ===== verification/Compactacion.thy ===== *)
theory Compactacion
  imports Memoria
begin

text \<open>
  Compaction, \<open>kernel_memory/src/memory_compactacion.c\<close>. An entry of the array the code
  sorts is a pair of positions (process, segment in its table), which stands for the two
  pointers of \<open>t_seg_entrada\<close>; \<open>qsort\<close> is a stable sort by base. Every segment is moved
  with \<open>memory_io_leer\<close> and \<open>memory_io_escribir\<close>, through the sticks. The theorem at the
  end says that compaction loses nothing: every resident segment keeps its bytes, the
  segments end up packed from address 0, and the rest of the RAM is one free block.
\<close>

section \<open>The code\<close>

definition compactacion_en_progreso :: "t_memoria \<Rightarrow> bool" where
  "compactacion_en_progreso M = en_progreso M"

definition compactacion_marcar_inicio :: "t_memoria \<Rightarrow> t_memoria" where
  "compactacion_marcar_inicio M = M\<lparr>en_progreso := True\<rparr>"

definition compactacion_marcar_fin :: "t_memoria \<Rightarrow> t_memoria" where
  "compactacion_marcar_fin M = M\<lparr>en_progreso := False\<rparr>"

type_synonym t_seg_entrada = "nat \<times> nat"

definition seg_en :: "t_contexto_ejecucion list \<Rightarrow> t_seg_entrada \<Rightarrow> t_segmento" where
  "seg_en ps e = segmentos (ps ! fst e) ! snd e"

definition poner_base :: "t_contexto_ejecucion list \<Rightarrow> t_seg_entrada \<Rightarrow> u32 \<Rightarrow> t_contexto_ejecucion list" where
  "poner_base ps e b =
     ps[fst e := (ps ! fst e)\<lparr>segmentos := (segmentos (ps ! fst e))[snd e := (seg_en ps e)\<lparr>base := b\<rparr>]\<rparr>]"

text \<open>All entries in table order, and those whose segment is in RAM.\<close>

definition posiciones :: "t_contexto_ejecucion list \<Rightarrow> t_seg_entrada list" where
  "posiciones ps =
     concat (map (\<lambda>i. map (Pair i) [0..<length (segmentos (ps ! i))]) [0..<length ps])"

definition entradas :: "t_contexto_ejecucion list \<Rightarrow> t_seg_entrada list" where
  "entradas ps = filter (\<lambda>e. base (seg_en ps e) \<noteq> - 1) (posiciones ps)"

definition ordenar_entradas :: "t_contexto_ejecucion list \<Rightarrow> t_seg_entrada list \<Rightarrow> t_seg_entrada list" where
  "ordenar_entradas ps es = sort_key (\<lambda>e. base (seg_en ps e)) es"

fun compactar_bucle ::
  "t_conexiones_activas \<Rightarrow> red \<Rightarrow> t_contexto_ejecucion list \<Rightarrow> u32 \<Rightarrow> t_seg_entrada list
    \<Rightarrow> red \<times> t_contexto_ejecucion list \<times> u32 \<times> evento list" where
  "compactar_bucle c r ps cursor [] = (r, ps, cursor, [])"
| "compactar_bucle c r ps cursor (e # es) =
     (let seg = seg_en ps e; old_base = base seg; pid = ce_pid (ps ! fst e)
      in if old_base \<noteq> cursor
         then
           let (r1, ev1, datos) = memory_io_leer c r pid old_base (limite seg);
               (r2, ev2) = (case datos of
                  None \<Rightarrow> (r1, [])
                | Some d \<Rightarrow> let (r', ev', _) = memory_io_escribir c r1 pid cursor (limite seg) d in (r', ev'));
               (r3, ps', cursor', ev3) = compactar_bucle c r2 (poner_base ps e cursor) (cursor + limite seg) es
           in (r3, ps', cursor', ev1 @ ev2 @ ev3)
         else compactar_bucle c r ps (cursor + limite seg) es)"

definition compactar_memoria :: "t_memoria \<Rightarrow> t_memoria \<times> evento list" where
  "compactar_memoria M =
     (let ps = procesos M; ram_total = conexiones_tamanio_total_ram (conx M)
      in if posiciones ps = [] then (M, [])
         else if entradas ps = [] then (M\<lparr>bloques_libres := bloques_reset_a_unico 0 ram_total\<rparr>, [])
         else
           let (r', ps', cursor, evs) =
                 compactar_bucle (conx M) (red_sticks M) ps 0 (ordenar_entradas ps (entradas ps))
           in (M\<lparr>red_sticks := r', procesos := ps',
                 bloques_libres := bloques_reset_a_unico cursor (if ram_total > cursor then ram_total - cursor else 0)\<rparr>,
               evs))"

section \<open>Entries and segments\<close>

lemma set_posiciones: "set (posiciones ps) = {(i, j). i < length ps \<and> j < length (segmentos (ps ! i))}"
  by (auto simp: posiciones_def)

lemma distinct_posiciones: "distinct (posiciones ps)"
proof -
  have "distinct is \<Longrightarrow> distinct (concat (map (\<lambda>i. map (Pair i) [0..<f i]) is))" for f :: "nat \<Rightarrow> nat" and "is"
    by (induction "is") (auto simp: distinct_map inj_on_def)
  then show ?thesis by (simp add: posiciones_def)
qed

lemma map_seg_posiciones: "map (seg_en ps) (posiciones ps) = concat (map segmentos ps)"
proof -
  have "map (\<lambda>i. map (seg_en ps) (map (Pair i) [0..<length (segmentos (ps ! i))])) [0..<length ps] = map segmentos ps"
    by (intro nth_equalityI) (auto simp: seg_en_def comp_def map_nth)
  then show ?thesis unfolding posiciones_def map_concat map_map comp_def by simp
qed

lemma tramos_concat: "tramos ps = tramos_segs (concat (map segmentos ps))"
  by (induction ps) simp_all

lemma tramos_entradas: "tramos ps = map (\<lambda>e. tramo_seg (seg_en ps e)) (entradas ps)"
proof -
  have "entradas ps = filter (residente \<circ> seg_en ps) (posiciones ps)"
    by (simp add: entradas_def residente_def comp_def)
  then show ?thesis
    unfolding tramos_concat map_seg_posiciones [symmetric] tramos_segs_def filter_map
    by (simp add: comp_def)
qed

lemma seg_poner_base:
  assumes "e \<in> set (posiciones ps)"
  shows "seg_en (poner_base ps e b) q = (if q = e then (seg_en ps e)\<lparr>base := b\<rparr> else seg_en ps q)"
proof -
  obtain i j k l where "e = (i, j)" "q = (k, l)" by (cases e, cases q) blast
  then show ?thesis using assms by (auto simp: seg_en_def poner_base_def set_posiciones nth_list_update)
qed

lemma posiciones_poner_base [simp]: "posiciones (poner_base ps e b) = posiciones ps"
proof -
  have "length (segmentos (poner_base ps e b ! i)) = length (segmentos (ps ! i))" for i
    by (cases "fst e < length ps"; cases "fst e = i") (simp_all add: poner_base_def nth_list_update list_update_beyond)
  then show ?thesis by (simp add: posiciones_def poner_base_def [of ps e b])
qed

text \<open>What a change of bases leaves alone.\<close>

definition sin_bases :: "t_contexto_ejecucion list \<Rightarrow> t_contexto_ejecucion list" where
  "sin_bases ps = map (\<lambda>p. p\<lparr>segmentos := map (\<lambda>g. g\<lparr>base := 0\<rparr>) (segmentos p)\<rparr>) ps"

lemma map_update_same: "f y = f (xs ! i) \<Longrightarrow> map f (xs[i := y]) = map f xs"
  by (metis list_update_id map_update)

lemma sin_bases_poner_base [simp]: "sin_bases (poner_base ps e b) = sin_bases ps"
  unfolding sin_bases_def poner_base_def
  by (rule map_update_same) (simp add: map_update_same seg_en_def)

section \<open>The order of the entries\<close>

text \<open>
  \<open>cadena fin ts\<close>: the non-empty ranges of the list start at or after \<open>fin\<close> and follow one
  another without overlap. An empty segment may sit anywhere.
\<close>

fun cadena :: "nat \<Rightarrow> tramo list \<Rightarrow> bool" where
  "cadena fin [] = True"
| "cadena fin ((b, t) # ts) =
     ((t = 0 \<or> fin \<le> unat b) \<and> cadena (if t = 0 then fin else unat b + unat t) ts)"

lemma cadena_ordenada:
  "sorted (map fst ts) \<Longrightarrow> separados ts \<Longrightarrow> \<forall>(b, t) \<in> set ts. t \<noteq> 0 \<longrightarrow> fin \<le> unat b \<Longrightarrow> cadena fin ts"
proof (induction ts arbitrary: fin)
  case (Cons x ts)
  obtain b t where x: "x = (b, t)" by (cases x)
  show ?case
  proof (cases "t = 0")
    case True
    then show ?thesis using Cons x by auto
  next
    case False
    then have "0 < unat t" by (simp add: unat_gt_0)
    have "unat b + unat t \<le> unat b'" if "(b', t') \<in> set ts" "t' \<noteq> 0" for b' t'
    proof -
      have "unat b \<le> unat b'" using Cons.prems(1) that x by (force simp: word_le_nat_alt)
      moreover have "unat b' \<in> rango b' t'" using that(2) by (simp add: rango_def unat_gt_0)
      then have "unat b' \<notin> rango b t" using Cons.prems(2) that x by (auto simp: ocupadas_def)
      ultimately show ?thesis by (auto simp: rango_def)
    qed
    then have "cadena (unat b + unat t) ts"
      using Cons.prems x by (intro Cons.IH) auto
    then show ?thesis using Cons.prems x False by auto
  qed
qed simp

lemma cadena_mono: "cadena fin ts \<Longrightarrow> fin' \<le> fin \<Longrightarrow> cadena fin' ts"
  by (induction ts arbitrary: fin fin' rule: cadena.induct) (auto split: if_splits)

lemma cadena_desde: "cadena fin ts \<Longrightarrow> (b, t) \<in> set ts \<Longrightarrow> t \<noteq> 0 \<Longrightarrow> fin \<le> unat b"
  by (induction fin ts rule: cadena.induct) (auto split: if_splits)

lemma cadena_suma:
  "cadena fin ts \<Longrightarrow> \<forall>t \<in> set ts. cabe_en N t \<Longrightarrow> fin \<le> N \<Longrightarrow> fin + (\<Sum>t\<leftarrow>ts. unat (snd t)) \<le> N"
proof (induction fin ts rule: cadena.induct)
  case (2 fin b t ts)
  then show ?case by (cases "t = 0") (auto simp: cabe_en_def)
qed simp

section \<open>The loop\<close>

text \<open>\<open>empaquetado c ts\<close>: the ranges follow one another from \<open>c\<close> on, without gaps.\<close>

fun empaquetado :: "nat \<Rightarrow> tramo list \<Rightarrow> bool" where
  "empaquetado c [] = True"
| "empaquetado c ((b, t) # ts) = (unat b = c \<and> empaquetado (c + unat t) ts)"

definition suma_tramos :: "tramo list \<Rightarrow> nat" where
  "suma_tramos ts = (\<Sum>t\<leftarrow>ts. unat (snd t))"

lemma suma_tramos_simps [simp]: "suma_tramos [] = 0" "suma_tramos (t # ts) = unat (snd t) + suma_tramos ts"
  by (simp_all add: suma_tramos_def)

definition contenido :: "byte list \<Rightarrow> t_segmento \<Rightarrow> byte list" where
  "contenido m g = tramo_de m (unat (base g)) (unat (limite g))"

abbreviation tramos_en :: "t_contexto_ejecucion list \<Rightarrow> t_seg_entrada list \<Rightarrow> tramo list" where
  "tramos_en ps es \<equiv> map (\<lambda>e. tramo_seg (seg_en ps e)) es"

text \<open>What the loop guarantees of the entries it has moved.\<close>

definition movidas ::
  "byte list \<Rightarrow> t_contexto_ejecucion list \<Rightarrow> nat \<Rightarrow> t_seg_entrada list \<Rightarrow> byte list \<Rightarrow> t_contexto_ejecucion list \<Rightarrow> bool" where
  "movidas m ps cur es m' ps' \<longleftrightarrow>
     sin_bases ps' = sin_bases ps \<and> posiciones ps' = posiciones ps \<and> length m' = length m \<and>
     empaquetado cur (tramos_en ps' es) \<and>
     (\<forall>p. p \<notin> set es \<longrightarrow> seg_en ps' p = seg_en ps p) \<and>
     (\<forall>e \<in> set es. \<exists>b. seg_en ps' e = (seg_en ps e)\<lparr>base := b\<rparr> \<and>
        contenido m' (seg_en ps' e) = contenido m (seg_en ps e)) \<and>
     (\<forall>o' n. o' + n \<le> cur \<longrightarrow> tramo_de m' o' n = tramo_de m o' n)"

lemma movidas_otra: "movidas m ps cur es m' ps' \<Longrightarrow> p \<notin> set es \<Longrightarrow> seg_en ps' p = seg_en ps p"
  unfolding movidas_def by blast

lemma movidas_una:
  "movidas m ps cur es m' ps' \<Longrightarrow> e \<in> set es \<Longrightarrow>
   \<exists>b. seg_en ps' e = (seg_en ps e)\<lparr>base := b\<rparr> \<and> contenido m' (seg_en ps' e) = contenido m (seg_en ps e)"
  unfolding movidas_def by blast

lemma movidas_abajo: "movidas m ps cur es m' ps' \<Longrightarrow> o' + n \<le> cur \<Longrightarrow> tramo_de m' o' n = tramo_de m o' n"
  unfolding movidas_def by blast

lemma mover_turno:
  assumes "red_ok c r" "cabe_en (ram c) (tramo_seg (seg_en ps e))" "unat cursor + unat (limite (seg_en ps e)) \<le> ram c"
    and "e \<in> set (posiciones ps)"
  obtains r1 ps1 where "red_ok c r1"
    "compactar_bucle c r ps cursor (e # es) = compactar_bucle c r1 ps1 (cursor + limite (seg_en ps e)) es"
    "memoria_fisica c r1 = copiar_en (memoria_fisica c r) (unat cursor) (contenido (memoria_fisica c r) (seg_en ps e))"
    "ps1 = poner_base ps e cursor"
proof (cases "base (seg_en ps e) = cursor")
  case True
  have "seg_en ps e \<lparr>base := cursor\<rparr> = seg_en ps e" using True by simp
  then have "poner_base ps e cursor = ps" by (simp add: poner_base_def seg_en_def)
  moreover have "copiar_en (memoria_fisica c r) (unat cursor) (contenido (memoria_fisica c r) (seg_en ps e)) = memoria_fisica c r"
    using assms(1,3) True length_memoria_fisica [OF assms(1)]
    by (auto intro!: nth_equalityI simp: contenido_def nth_copiar_en nth_tramo_de)
  ultimately show ?thesis using that [of r ps] assms(1) True by (simp add: Let_def)
next
  case False
  let ?g = "seg_en ps e"
  have "unat (base ?g) + unat (limite ?g) \<le> length (memoria_fisica c r)"
    "unat cursor + unat (limite ?g) \<le> length (memoria_fisica c r)"
    using assms(1-3) by (simp_all add: length_memoria_fisica cabe_en_def tramo_seg_def)
  from fisica.mover [OF assms(1) this, of "ce_pid (ps ! fst e)"] obtain r1 where r1:
    "memory_io_leer c r (ce_pid (ps ! fst e)) (base ?g) (limite ?g) = (r, [], Some (contenido (memoria_fisica c r) ?g))"
    "memory_io_escribir c r (ce_pid (ps ! fst e)) cursor (limite ?g) (contenido (memoria_fisica c r) ?g) = (r1, [], 0)"
    "red_ok c r1" "memoria_fisica c r1 = copiar_en (memoria_fisica c r) (unat cursor) (contenido (memoria_fisica c r) ?g)"
    unfolding contenido_def by metis
  then show ?thesis using that [of r1 "poner_base ps e cursor"] False by (simp add: Let_def split: prod.splits)
qed

lemma movidas_Cons:
  assumes e: "e \<in> set (posiciones ps)" "e \<notin> set es" "cabe_en (length m) (tramo_seg (seg_en ps e))"
    and es: "\<forall>q \<in> set es. cabe_en (length m) (tramo_seg (seg_en ps q))"
    and cur: "unat cursor + unat (limite (seg_en ps e)) \<le> length m"
    and cad: "cadena fin (tramos_en ps es)" "unat cursor + unat (limite (seg_en ps e)) \<le> fin"
    and mov: "movidas (copiar_en m (unat cursor) (contenido m (seg_en ps e))) (poner_base ps e cursor)
      (unat cursor + unat (limite (seg_en ps e))) es m' ps'"
  shows "movidas m ps (unat cursor) (e # es) m' ps'"
proof -
  let ?g = "seg_en ps e" and ?ps1 = "poner_base ps e cursor"
  let ?m1 = "copiar_en m (unat cursor) (contenido m ?g)"
  have len: "length (contenido m ?g) = unat (limite ?g)" using e(3) by (simp add: contenido_def cabe_en_def tramo_seg_def)
  have lm: "length ?m1 = length m" using len cur by simp
  have seg1: "seg_en ?ps1 q = (if q = e then ?g\<lparr>base := cursor\<rparr> else seg_en ps q)" for q
    using e(1) by (rule seg_poner_base)
  have intactas: "contenido ?m1 (seg_en ps q) = contenido m (seg_en ps q)" if q: "q \<in> set es" for q
  proof (cases "limite (seg_en ps q) = 0")
    case True
    then show ?thesis by (simp add: contenido_def tramo_de_def)
  next
    case False
    have "tramo_seg (seg_en ps q) \<in> set (tramos_en ps es)" using q by simp
    then have "fin \<le> unat (base (seg_en ps q))" using cadena_desde [OF cad(1)] False by (auto simp: tramo_seg_def)
    then show ?thesis
      using cad(2) len cur es q by (auto simp: contenido_def cabe_en_def tramo_seg_def intro!: tramo_de_otro)
  qed
  have fr: "tramo_de m' o' n = tramo_de ?m1 o' n" if "o' + n \<le> unat cursor + unat (limite ?g)" for o' n
    using movidas_abajo [OF mov that] .
  have e': "seg_en ps' e = ?g\<lparr>base := cursor\<rparr>" using movidas_otra [OF mov e(2)] seg1 by simp
  have "contenido m' (seg_en ps' e) = contenido m ?g"
    using fr [of "unat cursor" "unat (limite ?g)"] tramo_de_copiar_en [of "unat cursor" "contenido m ?g" m] len cur
    by (simp add: e' contenido_def)
  moreover have "tramo_de m' o' n = tramo_de m o' n" if "o' + n \<le> unat cursor" for o' n
    using fr [of o' n] that len cur by (simp add: tramo_de_otro)
  moreover have "\<exists>b. seg_en ps' q = (seg_en ps q)\<lparr>base := b\<rparr> \<and> contenido m' (seg_en ps' q) = contenido m (seg_en ps q)"
    if "q \<in> set es" for q
    using movidas_una [OF mov that] seg1 [of q] e(2) intactas [OF that] that by auto
  moreover have "seg_en ps' p = seg_en ps p" if "p \<notin> set (e # es)" for p
    using movidas_otra [OF mov, of p] seg1 [of p] that by simp
  moreover have "sin_bases ps' = sin_bases ps" "posiciones ps' = posiciones ps" "length m' = length m"
      "empaquetado (unat cursor + unat (limite ?g)) (tramos_en ps' es)"
    using mov lm by (simp_all add: movidas_def)
  moreover have "tramo_seg (seg_en ps' e) = (cursor, limite ?g)" by (simp add: e' tramo_seg_def)
  ultimately show ?thesis using e' unfolding movidas_def by (simp del: split_paired_All) blast
qed

lemma compactar_bucle_ok:
  assumes "red_ok c r" "distinct es" "set es \<subseteq> set (posiciones ps)" "cadena fin (tramos_en ps es)" "unat cursor \<le> fin"
    and "\<forall>e \<in> set es. cabe_en (ram c) (tramo_seg (seg_en ps e))" "unat cursor + suma_tramos (tramos_en ps es) \<le> ram c"
  shows "\<exists>r' ps' cursor'. compactar_bucle c r ps cursor es = (r', ps', cursor', []) \<and> red_ok c r' \<and>
    unat cursor' = unat cursor + suma_tramos (tramos_en ps es) \<and>
    movidas (memoria_fisica c r) ps (unat cursor) es (memoria_fisica c r') ps'"
  using assms
proof (induction es arbitrary: r ps cursor fin)
  case Nil
  then show ?case by (simp add: movidas_def)
next
  case (Cons e es)
  let ?g = "seg_en ps e" and ?m = "memoria_fisica c r"
  have e: "e \<in> set (posiciones ps)" "e \<notin> set es" "cabe_en (ram c) (tramo_seg ?g)" using Cons.prems by auto
  have cota: "unat cursor + unat (limite ?g) \<le> ram c" using Cons.prems(7) by (simp add: tramo_seg_def)
  have N: "ram c < 2 ^ 32" "length ?m = ram c" using Cons.prems(1) by (simp_all add: red_ok_def layout_def length_memoria_fisica)
  have cur: "unat (cursor + limite ?g) = unat cursor + unat (limite ?g)" using cota N by (intro unat_add_u32) linarith
  from mover_turno [OF Cons.prems(1) e(3) cota e(1)] obtain r1 ps1 where r1: "red_ok c r1"
    "compactar_bucle c r ps cursor (e # es) = compactar_bucle c r1 ps1 (cursor + limite ?g) es"
    "memoria_fisica c r1 = copiar_en ?m (unat cursor) (contenido ?m ?g)" "ps1 = poner_base ps e cursor"
    by metis
  have lenc: "length (contenido ?m ?g) = unat (limite ?g)" using e(3) N by (simp add: contenido_def cabe_en_def tramo_seg_def)
  have segs: "seg_en ps1 q = seg_en ps q" if "q \<noteq> e" for q using that e(1) by (simp add: r1(4) seg_poner_base)
  have ts: "tramos_en ps1 es = tramos_en ps es" by (rule map_cong [OF refl]) (metis segs e(2))
  let ?fin = "if limite ?g = 0 then fin else unat (base ?g) + unat (limite ?g)"
  have cad: "cadena ?fin (tramos_en ps es)" using Cons.prems(4) by (simp add: tramo_seg_def)
  have fin: "unat (cursor + limite ?g) \<le> ?fin" using cur Cons.prems(4,5) by (auto simp: tramo_seg_def split: if_splits)
  have "\<exists>r' ps' cursor'. compactar_bucle c r1 ps1 (cursor + limite ?g) es = (r', ps', cursor', []) \<and> red_ok c r' \<and>
      unat cursor' = unat (cursor + limite ?g) + suma_tramos (tramos_en ps1 es) \<and>
      movidas (memoria_fisica c r1) ps1 (unat (cursor + limite ?g)) es (memoria_fisica c r') ps'"
  proof (rule Cons.IH [OF r1(1)])
    show "cadena ?fin (tramos_en ps1 es)" unfolding ts by (rule cad)
    show "\<forall>e \<in> set es. cabe_en (ram c) (tramo_seg (seg_en ps1 e))" using Cons.prems(6) segs e(2) by (metis list.set_intros(2))
    show "unat (cursor + limite ?g) + suma_tramos (tramos_en ps1 es) \<le> ram c"
      unfolding ts using Cons.prems(7) cur by simp
  qed (use Cons.prems fin r1(4) in auto)
  then obtain r' ps' cursor' where ih: "compactar_bucle c r1 ps1 (cursor + limite ?g) es = (r', ps', cursor', [])"
    "red_ok c r'" "unat cursor' = unat (cursor + limite ?g) + suma_tramos (tramos_en ps1 es)"
    "movidas (memoria_fisica c r1) ps1 (unat (cursor + limite ?g)) es (memoria_fisica c r') ps'"
    by blast
  have "movidas ?m ps (unat cursor) (e # es) (memoria_fisica c r') ps'"
    using ih(4) [unfolded r1(3,4)] cur e cad fin cota N Cons.prems(6)
    by (intro movidas_Cons [where fin = ?fin]) (simp_all add: tramo_seg_def cabe_en_def)
  then show ?case using ih(1,2) ih(3) [unfolded ts cur] r1(2) by (simp add: add.assoc)
qed

section \<open>Compaction as a whole\<close>

lemma empaquetado_ocupadas: "empaquetado c ts \<Longrightarrow> ocupadas ts = {c ..< c + suma_tramos ts}"
  by (induction c ts rule: empaquetado.induct) (auto simp: rango_def)

lemma empaquetado_separados: "empaquetado c ts \<Longrightarrow> separados ts"
  by (induction c ts rule: empaquetado.induct) (auto simp: empaquetado_ocupadas rango_def)

lemma empaquetado_cabe: "empaquetado c ts \<Longrightarrow> t \<in> set ts \<Longrightarrow> unat (fst t) + unat (snd t) \<le> c + suma_tramos ts"
  by (induction c ts rule: empaquetado.induct) auto

lemma suma_tramos_mset: "mset ts = mset us \<Longrightarrow> suma_tramos ts = suma_tramos us"
  unfolding suma_tramos_def sum_mset_sum_list [symmetric] mset_map by simp

lemma set_entradas: "set (entradas ps) \<subseteq> set (posiciones ps)" "distinct (entradas ps)"
  by (auto simp: entradas_def distinct_posiciones)

lemma ordenar_cadena:
  assumes "separados (tramos ps)"
  shows "cadena 0 (tramos_en ps (ordenar_entradas ps (entradas ps)))"
proof (rule cadena_ordenada)
  let ?es = "ordenar_entradas ps (entradas ps)"
  have "map fst (tramos_en ps ?es) = map (\<lambda>e. base (seg_en ps e)) ?es" by simp
  then show "sorted (map fst (tramos_en ps ?es))"
    using sorted_sort_key [of "\<lambda>e. base (seg_en ps e)"] unfolding ordenar_entradas_def by (simp only:)
  have "mset (tramos_en ps ?es) = mset (tramos ps)" by (simp add: ordenar_entradas_def tramos_entradas)
  from separados_mset [OF this] show "separados (tramos_en ps ?es)" using assms by simp
qed auto

lemma mismos_residentes:
  assumes "movidas m ps cur es m' ps'" "set es = set (entradas ps)"
    and "\<And>e. e \<in> set es \<Longrightarrow> base (seg_en ps' e) \<noteq> - 1"
  shows "\<forall>e \<in> set (posiciones ps). residente (seg_en ps' e) \<longleftrightarrow> residente (seg_en ps e)"
proof
  fix e
  assume "e \<in> set (posiciones ps)"
  show "residente (seg_en ps' e) \<longleftrightarrow> residente (seg_en ps e)"
  proof (cases "e \<in> set es")
    case True
    then have "base (seg_en ps e) \<noteq> - 1" using assms(2) by (simp add: entradas_def)
    with assms(3) [OF True] show ?thesis by (simp add: residente_def)
  next
    case False
    then show ?thesis using movidas_otra [OF assms(1) False] by simp
  qed
qed

lemma mismas_entradas:
  assumes "\<forall>e \<in> set (posiciones ps). residente (seg_en ps' e) \<longleftrightarrow> residente (seg_en ps e)"
    and "movidas m ps cur es m' ps'"
  shows "entradas ps' = entradas ps"
proof -
  have "posiciones ps' = posiciones ps" using assms(2) by (simp add: movidas_def)
  then show ?thesis unfolding entradas_def using assms(1) by (intro filter_cong) (auto simp: residente_def)
qed

text \<open>The loop on the whole table: new bases, same residents, packed from 0.\<close>

lemma compactar_tabla:
  assumes inv: "mem_inv M" and es: "es = ordenar_entradas (procesos M) (entradas (procesos M))"
    and bucle: "compactar_bucle (conx M) (red_sticks M) (procesos M) 0 es = (r', ps', cursor, evs)"
  shows "evs = []" "red_ok (conx M) r'" "unat cursor = suma_tramos (tramos (procesos M))"
    "movidas (memoria_de M) (procesos M) 0 es (memoria_fisica (conx M) r') ps'"
    "mset (tramos ps') = mset (tramos_en ps' es)" "unat cursor \<le> ram (conx M)"
    "suma_tramos (tramos_en ps' es) = unat cursor"
    "\<forall>e \<in> set (posiciones (procesos M)). residente (seg_en ps' e) \<longleftrightarrow> residente (seg_en (procesos M) e)"
proof -
  let ?ps = "procesos M" and ?c = "conx M"
  have m: "mset (tramos_en ?ps es) = mset (tramos ?ps)" by (simp add: es ordenar_entradas_def tramos_entradas)
  have set: "set es = set (entradas ?ps)" "distinct es" using set_entradas by (simp_all add: es ordenar_entradas_def)
  have cad: "cadena 0 (tramos_en ?ps es)"
    using inv ordenar_cadena by (simp add: es mem_inv_def particion_def)
  have cabe: "\<forall>t \<in> set (tramos_en ?ps es). cabe_en (ram ?c) t"
    using inv m by (metis mem_inv_def set_mset_mset)
  have suma: "suma_tramos (tramos_en ?ps es) \<le> ram ?c"
    using cadena_suma [OF cad cabe] by (simp add: suma_tramos_def)
  have red: "red_ok ?c (red_sticks M)" using inv by (simp add: mem_inv_def)
  have "\<exists>r' ps' cursor'. compactar_bucle ?c (red_sticks M) ?ps 0 es = (r', ps', cursor', []) \<and> red_ok ?c r' \<and>
      unat cursor' = unat (0 :: u32) + suma_tramos (tramos_en ?ps es) \<and>
      movidas (memoria_de M) ?ps (unat (0 :: u32)) es (memoria_fisica ?c r') ps'"
    by (rule compactar_bucle_ok [OF red set(2) _ cad]) (use set set_entradas cabe suma in auto)
  then show res: "evs = []" "red_ok ?c r'" "unat cursor = suma_tramos (tramos ?ps)"
    "movidas (memoria_de M) ?ps 0 es (memoria_fisica ?c r') ps'"
    using bucle suma_tramos_mset [OF m] by auto
  show cota: "unat cursor \<le> ram ?c" using suma suma_tramos_mset [OF m] res(3) by simp
  have lim: "limite (seg_en ps' e) = limite (seg_en ?ps e)" if "e \<in> set es" for e
    using movidas_una [OF res(4) that] by auto
  have "suma_tramos (tramos_en ps' es) = suma_tramos (tramos_en ?ps es)"
    unfolding suma_tramos_def using lim by (simp add: comp_def cong: map_cong)
  then show suma': "suma_tramos (tramos_en ps' es) = unat cursor"
    using suma_tramos_mset [OF m] res(3) by simp
  have emp: "empaquetado 0 (tramos_en ps' es)" using res(4) by (simp add: movidas_def)
  have nb: "base (seg_en ps' e) \<noteq> - 1" if "e \<in> set es" for e
    using empaquetado_cabe [OF emp, of "tramo_seg (seg_en ps' e)"] that suma' cota mem_inv_ram [OF inv]
    by (auto simp: tramo_seg_def)
  show res5: "\<forall>e \<in> set (posiciones ?ps). residente (seg_en ps' e) \<longleftrightarrow> residente (seg_en ?ps e)"
    by (rule mismos_residentes [OF res(4) set(1) nb])
  then have "entradas ps' = entradas ?ps" using res(4) by (rule mismas_entradas)
  then show "mset (tramos ps') = mset (tramos_en ps' es)"
    by (simp add: tramos_entradas es ordenar_entradas_def)
qed

lemma reset_resto:
  assumes "unat cursor \<le> N" "N < 2 ^ 32 - 1" "unat tot = N"
  defines "bl \<equiv> bloques_reset_a_unico cursor (if tot > cursor then tot - cursor else 0)"
  shows "bloques_inv N bl" "celdas bl = {unat cursor ..< N}" "length bl \<le> 1"
proof -
  have t: "unat (if tot > cursor then tot - cursor else 0) = N - unat cursor"
    using assms(1,3) by (auto simp: word_less_nat_alt unat_sub_u32)
  show "bloques_inv N bl" "celdas bl = {unat cursor ..< N}"
    using bloques_reset_ok [of cursor "if tot > cursor then tot - cursor else 0" N] t assms(1,2)
    by (auto simp: bl_def rango_def)
  show "length bl \<le> 1" by (simp add: bl_def bloques_reset_a_unico_def)
qed

text \<open>The two ways of \<open>compactar_memoria\<close> that move nothing, and the one that does.\<close>

definition compactada :: "t_memoria \<Rightarrow> t_memoria \<Rightarrow> bool" where
  "compactada M M' \<longleftrightarrow>
     mem_inv M' \<and> sin_bases (procesos M') = sin_bases (procesos M) \<and>
     (\<forall>e \<in> set (posiciones (procesos M)).
        (residente (seg_en (procesos M') e) \<longleftrightarrow> residente (seg_en (procesos M) e)) \<and>
        (residente (seg_en (procesos M) e) \<longrightarrow>
           contenido (memoria_de M') (seg_en (procesos M') e) = contenido (memoria_de M) (seg_en (procesos M) e))) \<and>
     celdas (bloques_libres M') = {suma_tramos (tramos (procesos M)) ..< ram (conx M)}"

lemma mem_inv_vacia:
  "mem_inv M \<Longrightarrow> tramos (procesos M) = [] \<Longrightarrow> celdas (bloques_libres M) = {0 ..< ram (conx M)}"
  by (simp add: mem_inv_def particion_def lessThan_atLeast0)

lemma compactada_reset:
  assumes inv: "mem_inv M" and ts: "tramos (procesos M) = []"
  shows "compactada M (M\<lparr>bloques_libres := bloques_reset_a_unico 0 (conexiones_tamanio_total_ram (conx M))\<rparr>)"
proof -
  let ?t = "conexiones_tamanio_total_ram (conx M)"
  have tot: "unat ?t = ram (conx M)" "ram (conx M) < 2 ^ 32 - 1"
    using inv by (simp_all add: mem_inv_def red_ok_def total_ram layout_def)
  have "bloques_inv (ram (conx M)) (bloques_reset_a_unico 0 ?t)" "celdas (bloques_reset_a_unico 0 ?t) = {0 ..< ram (conx M)}"
    using bloques_reset_ok [of 0 ?t "ram (conx M)"] tot by (simp_all add: rango_def)
  then show ?thesis using inv ts by (simp add: compactada_def mem_inv_def particion_def lessThan_atLeast0)
qed

lemma compactada_bucle:
  assumes inv: "mem_inv M" and es: "es = ordenar_entradas (procesos M) (entradas (procesos M))"
    and b: "compactar_bucle (conx M) (red_sticks M) (procesos M) 0 es = (r', ps', cursor, evs)"
    and tot: "tot = conexiones_tamanio_total_ram (conx M)"
  shows "compactada M (M\<lparr>red_sticks := r', procesos := ps',
    bloques_libres := bloques_reset_a_unico cursor (if tot > cursor then tot - cursor else 0)\<rparr>)"
proof -
  let ?bl = "bloques_reset_a_unico cursor (if tot > cursor then tot - cursor else 0)" and ?c = "conx M"
  have "unat tot = ram ?c" "ram ?c < 2 ^ 32 - 1"
    using inv by (simp_all add: tot mem_inv_def red_ok_def total_ram layout_def)
  note t = compactar_tabla [OF inv es b] and bl = reset_resto [OF compactar_tabla(6) [OF inv es b] this(2,1)]
  have emp: "empaquetado 0 (tramos_en ps' es)" using t(4) by (simp add: movidas_def)
  have "particion (ram ?c) (celdas ?bl) (tramos_en ps' es)"
    using empaquetado_ocupadas [OF emp] empaquetado_separados [OF emp] t(6,7) bl(2) by (auto simp: particion_def)
  then have part: "particion (ram ?c) (celdas ?bl) (tramos ps')" using particion_mset [OF t(5)] by simp
  have cabe: "\<forall>u \<in> set (tramos ps'). cabe_en (ram ?c) u"
  proof
    fix u
    assume "u \<in> set (tramos ps')"
    then have "u \<in> set (tramos_en ps' es)" using t(5) by (metis set_mset_mset)
    from empaquetado_cabe [OF emp this] show "cabe_en (ram ?c) u" using t(6,7) by (simp add: cabe_en_def)
  qed
  have igual: "contenido (memoria_fisica ?c r') (seg_en ps' e) = contenido (memoria_de M) (seg_en (procesos M) e)"
    if "e \<in> set (posiciones (procesos M))" "residente (seg_en (procesos M) e)" for e
  proof -
    have "e \<in> set es" using that by (simp add: es ordenar_entradas_def entradas_def residente_def)
    then show ?thesis using movidas_una [OF t(4)] by blast
  qed
  have sb: "sin_bases ps' = sin_bases (procesos M)" using t(4) by (simp add: movidas_def)
  from part cabe t(2) bl(1) have
    "mem_inv (M\<lparr>red_sticks := r', procesos := ps', bloques_libres := ?bl\<rparr>)" by (simp add: mem_inv_def)
  then show ?thesis unfolding compactada_def using sb igual t(3,8) bl(2) by simp
qed

lemma compactar_todo:
  assumes "mem_inv M" "compactar_memoria M = (M', evs)"
  shows "compactada M M' \<and> evs = [] \<and> (posiciones (procesos M) \<noteq> [] \<longrightarrow> length (bloques_libres M') \<le> 1)"
proof (cases "entradas (procesos M) = []")
  case True
  then have ts: "tramos (procesos M) = []" by (simp add: tramos_entradas)
  have "compactada M M" using assms(1) mem_inv_vacia [OF assms(1) ts] ts by (simp add: compactada_def)
  then show ?thesis
    using assms(2) True compactada_reset [OF assms(1) ts]
    by (auto simp: compactar_memoria_def Let_def bloques_reset_a_unico_def split: if_splits)
next
  case False
  let ?es = "ordenar_entradas (procesos M) (entradas (procesos M))"
  obtain r' ps' cursor ev where b: "compactar_bucle (conx M) (red_sticks M) (procesos M) 0 ?es = (r', ps', cursor, ev)"
    by (metis prod_cases4)
  have "posiciones (procesos M) \<noteq> []" using False by (auto simp: entradas_def)
  then show ?thesis
    using assms(2) False b compactada_bucle [OF assms(1) refl b refl] compactar_tabla(1) [OF assms(1) refl b]
    by (auto simp: compactar_memoria_def Let_def bloques_reset_a_unico_def)
qed

text \<open>
  C17. Compaction of a consistent memory loses nothing. It keeps the invariant and sends
  nothing to the scheduler; no field but the bases changes; a segment in swap stays there
  and a resident segment keeps its bytes at its new base; the free cells are exactly those
  after the last segment, and if any process has a segment they form at most one block.
\<close>

theorem compactar_correcta:
  assumes "mem_inv M" "compactar_memoria M = (M', evs)"
  shows "mem_inv M' \<and> evs = [] \<and> sin_bases (procesos M') = sin_bases (procesos M) \<and>
    (\<forall>e \<in> set (posiciones (procesos M)).
       (residente (seg_en (procesos M') e) \<longleftrightarrow> residente (seg_en (procesos M) e)) \<and>
       (residente (seg_en (procesos M) e) \<longrightarrow>
          contenido (memoria_de M') (seg_en (procesos M') e) = contenido (memoria_de M) (seg_en (procesos M) e))) \<and>
    celdas (bloques_libres M') = {suma_tramos (tramos (procesos M)) ..< ram (conx M)} \<and>
    (posiciones (procesos M) \<noteq> [] \<longrightarrow> length (bloques_libres M') \<le> 1)"
  using compactar_todo [OF assms] unfolding compactada_def by blast

lemma posiciones_chica: "posiciones (procesos memoria_chica) = [(0, 0), (0, 1)]"
  by (simp add: memoria_chica_def proceso_ejemplo_def posiciones_def upt_rec)

lemma compactar_correcta_witness:
  "mem_inv (fst (compactar_memoria memoria_chica)) \<and>
   celdas (bloques_libres (fst (compactar_memoria memoria_chica))) = {3 ..< 5} \<and>
   contenido (memoria_de (fst (compactar_memoria memoria_chica)))
     (seg_en (procesos (fst (compactar_memoria memoria_chica))) (0, 1)) = [5]"
proof -
  let ?M = "memoria_chica" and ?M' = "fst (compactar_memoria memoria_chica)"
  have s: "suma_tramos (tramos (procesos ?M)) = 3" "ram (conx ?M) = 5"
    by (simp_all add: memoria_chica_def proceso_ejemplo_def residente_def)
  have g: "residente (seg_en (procesos ?M) (0, 1))" "contenido (memoria_de ?M) (seg_en (procesos ?M) (0, 1)) = [5]"
    by (simp_all add: memoria_chica_def proceso_ejemplo_def residente_def seg_en_def contenido_def tramo_de_def)
  have "compactar_memoria ?M = (?M', snd (compactar_memoria ?M))" by simp
  from compactar_correcta [OF mem_inv_chica this] show ?thesis
    using s g posiciones_chica by simp
qed

lemma card_separados: "separados ts \<Longrightarrow> card (ocupadas ts) = suma_tramos ts \<and> finite (ocupadas ts)"
  by (induction ts rule: separados.induct) (simp_all add: card_Un_disjoint)

lemma libres_suma:
  assumes "mem_inv M"
  shows "card (celdas (bloques_libres M)) + suma_tramos (tramos (procesos M)) = ram (conx M)"
proof -
  have p: "particion (ram (conx M)) (celdas (bloques_libres M)) (tramos (procesos M))"
    using assms by (simp add: mem_inv_def)
  then have "card (celdas (bloques_libres M)) + card (ocupadas (tramos (procesos M))) =
      card (celdas (bloques_libres M) \<union> ocupadas (tramos (procesos M)))"
    using card_separados [of "tramos (procesos M)"] by (intro card_Un_disjoint [symmetric]) (simp_all add: particion_def)
  then show ?thesis using p card_separados [of "tramos (procesos M)"] by (simp add: particion_def)
qed

lemma asignar_tras_compactar:
  assumes "mem_inv M" "posiciones (procesos M) \<noteq> []" "compactar_memoria M = (M', evs)"
    and "0 < t" "t \<le> bloques_calcular_espacio_libre (bloques_libres M)"
  shows "fst (bloques_asignar worst t (bloques_libres M')) \<noteq> - 1"
proof -
  let ?s = "suma_tramos (tramos (procesos M))"
  have c: "mem_inv M'" "celdas (bloques_libres M') = {?s ..< ram (conx M)}" "length (bloques_libres M') \<le> 1"
    using compactar_todo [OF assms(1,3)] assms(2) by (auto simp: compactada_def)
  have inv: "bloques_inv (ram (conx M')) (bloques_libres M')" "bloques_inv (ram (conx M)) (bloques_libres M)"
    using c(1) assms(1) by (auto simp: mem_inv_def)
  have "unat t \<le> card (celdas (bloques_libres M))"
    using assms(5) espacio_libre [OF inv(2)] by (simp add: word_le_nat_alt)
  then have t: "unat t \<le> card (celdas (bloques_libres M'))" "0 < unat t"
    using libres_suma [OF assms(1)] c(2) assms(4) by (simp_all add: unat_gt_0)
  then obtain b where b: "bloques_libres M' = [b]" using c(3) by (cases "bloques_libres M'") auto
  then have "t \<le> b_tamanio b" using t(1) by (simp add: celdas_bloque_def word_le_nat_alt)
  then show ?thesis using bloques_asignar_fallo [OF inv(1), of worst t] b by (simp add: not_less)
qed

text \<open>
  C18. Compaction makes fragmentation irrelevant: a request that is not larger than the free
  space the code computes is granted after compaction, with either strategy.
\<close>

theorem compactar_alcanza:
  assumes "mem_inv M" "posiciones (procesos M) \<noteq> []" "compactar_memoria M = (M', evs)"
    and "0 < t" "t \<le> bloques_calcular_espacio_libre (bloques_libres M)"
  shows "fst (bloques_asignar worst t (bloques_libres M')) \<noteq> - 1"
  by (rule asignar_tras_compactar [OF assms])

lemma compactar_alcanza_witness:
  "fst (bloques_asignar False 2 (bloques_libres memoria_chica)) = - 1 \<and>
   fst (bloques_asignar False 2 (bloques_libres (fst (compactar_memoria memoria_chica)))) \<noteq> - 1"
proof -
  have "compactar_memoria memoria_chica = (fst (compactar_memoria memoria_chica), snd (compactar_memoria memoria_chica))"
    by simp
  from compactar_alcanza [OF mem_inv_chica _ this, of 2 False] show ?thesis
    by (simp add: posiciones_chica) (simp add: memoria_chica_def bloques_calcular_espacio_libre_def bloques_asignar_def)
qed

end
