(* ===== verification/Memory_Scheduler.thy ===== *)
theory Memory_Scheduler
  imports Compactacion
begin

text \<open>
  The requests Kernel Memory serves for the scheduler,
  \<open>kernel_memory/src/memory_scheduler.c\<close>. A handler gets the state, the scheduler's socket
  and the bytes that follow the opcode on that socket; it returns the new state, what it sent
  and the bytes it has not read. A truncated packet ends the stream; an \<open>abort()\<close> is the
  event \<open>Aborto\<close>. All of them run in one receptor thread, which also runs the compaction, so
  the \<open>while (compactacion_en_progreso()) usleep(...)\<close> at the top of the two access
  handlers never waits and is left out. Each handler is one step: the window in which
  \<open>manejar_suspender_proceso\<close> gives \<open>mutex_memoria\<close> back while it copies a segment is
  not interleaved with the CPU handlers here.
\<close>

section \<open>Plumbing\<close>

type_synonym t_paso = "t_memoria \<times> evento list \<times> byte list"

definition con_recv :: "'a recv \<Rightarrow> t_memoria \<Rightarrow> byte list \<Rightarrow> ('a \<Rightarrow> byte list \<Rightarrow> t_paso) \<Rightarrow> t_paso" where
  "con_recv r M s f =
     (case r s of
        Inl e \<Rightarrow> (M, if e = BufferInvalido then [Aborto] else [], [])
      | Inr (a, s') \<Rightarrow> f a s')"

definition actualizar_proceso :: "nat \<Rightarrow> (t_contexto_ejecucion \<Rightarrow> t_contexto_ejecucion) \<Rightarrow> t_memoria \<Rightarrow> t_memoria" where
  "actualizar_proceso i f M = M\<lparr>procesos := (procesos M)[i := f (procesos M ! i)]\<rparr>"

definition notificar_memoria_liberada :: "t_memoria \<Rightarrow> evento list" where
  "notificar_memoria_liberada M =
     (let sched_sock = conexiones_get_scheduler_socket (conx M)
      in if sched_sock \<ge> 0 then [Enviar sched_sock enviar_memoria_liberada] else [])"

definition registrar_scheduler :: "t_memoria \<Rightarrow> sock \<Rightarrow> byte list \<Rightarrow> t_paso" where
  "registrar_scheduler M client_socket s =
     con_recv recibir_ok M s (\<lambda>_ s'.
       (M\<lparr>conx := conexiones_set_scheduler_socket client_socket (conx M)\<rparr>,
        [Enviar client_socket (enviar_ok HANDSHAKE_SCHEDULER_A_MEMORY)], s'))"

section \<open>Processes and accesses\<close>

text \<open>\<open>snprintf(script_path, 512, "%s/%s", ...)\<close> keeps 511 characters.\<close>

definition resolver_path :: "t_config_memory \<Rightarrow> string \<Rightarrow> string" where
  "resolver_path cfg path =
     (case scripts_basepath cfg of
        None \<Rightarrow> path
      | Some bp \<Rightarrow> if path \<noteq> [] \<and> hd path = CHR ''/'' then path else take 511 (bp @ ''/'' @ path))"

definition manejar_crear_proceso ::
  "(string \<Rightarrow> string option) \<Rightarrow> t_memoria \<Rightarrow> sock \<Rightarrow> byte list \<Rightarrow> t_paso" where
  "manejar_crear_proceso fopen M socket s =
     con_recv recibir_crear_proceso M s (\<lambda>(pid, path) s'.
       let proc = \<lparr>ce_pid = pid, ce_registros = registros_cero, segmentos = [],
                   instrucciones = cargar_script fopen (Some (resolver_path (config_memory M) path))\<rparr>
       in (M\<lparr>procesos := procesos_agregar proc (procesos M)\<rparr>, [Enviar socket (enviar_ok CREAR_PROCESO)], s'))"

definition manejar_actualizar_contexto_scheduler :: "t_memoria \<Rightarrow> sock \<Rightarrow> byte list \<Rightarrow> t_paso" where
  "manejar_actualizar_contexto_scheduler M socket s =
     con_recv recibir_contexto_actualizar M s (\<lambda>ctx s'.
       (case procesos_buscar (pid_ctx ctx) (procesos M) of
          None \<Rightarrow> M
        | Some i \<Rightarrow> actualizar_proceso i (\<lambda>p. actualizar_proceso_desde_contexto p ctx) M,
        [Enviar socket (enviar_ok ACTUALIZAR_CONTEXTO)], s'))"

definition manejar_obtener_espacio_libre :: "t_memoria \<Rightarrow> sock \<Rightarrow> byte list \<Rightarrow> t_paso" where
  "manejar_obtener_espacio_libre M socket s =
     con_recv validar_buffer M s (\<lambda>_ s'.
       let espacio = bloques_calcular_espacio_libre (bloques_libres M)
       in (M, [Enviar socket (enviar_paquete (agregar_a_paquete (crear_paquete OBTENER_ESPACIO_LIBRE) (bytes_u32 espacio)))], s'))"

definition manejar_lectura_memoria :: "t_memoria \<Rightarrow> sock \<Rightarrow> byte list \<Rightarrow> t_paso" where
  "manejar_lectura_memoria M socket s =
     con_recv recibir_pid_dir_tam M s (\<lambda>(pid, dir, tamanio) s'.
       case procesos_buscar pid (procesos M) of
         None \<Rightarrow> (M, [Enviar socket (enviar_ok SEGMENTATION_FAULT)], s')
       | Some i \<Rightarrow>
           let (dir_fisica, ev) = traducir_dir_logica (segment_max_size (config_memory M)) (procesos M ! i) dir tamanio socket
           in if dir_fisica = - 1 then (M, ev, s')
              else
                let (r', ev', datos) = memory_io_leer (conx M) (red_sticks M) pid dir_fisica tamanio
                in (M\<lparr>red_sticks := r'\<rparr>,
                    ev @ ev' @ (case datos of
                      None \<Rightarrow> []
                    | Some d \<Rightarrow> [Enviar socket (enviar_paquete (agregar_a_paquete (crear_paquete LECTURA_MEMORIA) d))]),
                    s'))"

definition manejar_escritura_memoria :: "t_memoria \<Rightarrow> sock \<Rightarrow> byte list \<Rightarrow> t_paso" where
  "manejar_escritura_memoria M socket s =
     con_recv (recv_bind recibir_pid_dir_tam (\<lambda>(pid, dir, tamanio). recv_bind (recv_bytes (unat tamanio))
         (\<lambda>datos. recv_ret (pid, dir, tamanio, datos)))) M s (\<lambda>(pid, dir, tamanio, datos) s'.
       case procesos_buscar pid (procesos M) of
         None \<Rightarrow> (M, [Enviar socket (enviar_ok SEGMENTATION_FAULT)], s')
       | Some i \<Rightarrow>
           let (dir_fisica, ev) = traducir_dir_logica (segment_max_size (config_memory M)) (procesos M ! i) dir tamanio socket
           in if dir_fisica = - 1 then (M, ev, s')
              else
                let (r', ev', res) = memory_io_escribir (conx M) (red_sticks M) pid dir_fisica tamanio datos
                in (M\<lparr>red_sticks := r'\<rparr>, ev @ ev' @ [Enviar socket (enviar_ok ESCRITURA_MEMORIA)], s'))"

section \<open>Suspension\<close>

definition n_bloques :: "u32 \<Rightarrow> u32 \<Rightarrow> u32" where
  "n_bloques bs lim = (lim + bs - 1) div bs"

definition lista_bloques :: "u32 \<Rightarrow> u32 list" where
  "lista_bloques n = map of_nat [0..<unat n]"

definition chunk_bloque :: "u32 \<Rightarrow> t_segmento \<Rightarrow> u32 \<Rightarrow> u32" where
  "chunk_bloque bs seg b = (if b = n_bloques bs (limite seg) - 1 then limite seg - b * bs else bs)"

text \<open>The loop of \<open>volcar_segmento_a_swap\<close> over the blocks left.\<close>

fun volcar_bucle ::
  "t_conexiones_activas \<Rightarrow> u32 \<Rightarrow> sock \<Rightarrow> t_segmento \<Rightarrow> i32 \<Rightarrow> u32 list \<Rightarrow> red \<Rightarrow> t_swap
    \<Rightarrow> red \<times> t_swap \<times> evento list \<times> i32" where
  "volcar_bucle c bs swap_sock seg pid [] r d = (r, d, [], 0)"
| "volcar_bucle c bs swap_sock seg pid (b # resto) r d =
     (let (r1, ev1, chunk_data) = memory_io_leer c r pid (base seg + b * bs) (chunk_bloque bs seg b)
      in case chunk_data of
           None \<Rightarrow> (r1, d, ev1, - 1)
         | Some x \<Rightarrow>
             (case swap_escribir_bloque swap_sock (swap_bloque_inicio seg + b) (copiar_en (replicate (unat bs) 0) 0 x) d of
                Inl e \<Rightarrow> (r1, d, ev1 @ [Aborto], - 1)
              | Inr (res, d1) \<Rightarrow>
                  if res \<noteq> 0 then (r1, d1, ev1, - 1)
                  else let (r2, d2, ev2, res2) = volcar_bucle c bs swap_sock seg pid resto r1 d1
                       in (r2, d2, ev1 @ ev2, res2)))"

definition volcar_segmento_a_swap ::
  "t_memoria \<Rightarrow> sock \<Rightarrow> t_segmento \<Rightarrow> i32 \<Rightarrow> t_memoria \<times> evento list \<times> i32" where
  "volcar_segmento_a_swap M swap_sock seg pid =
     (let bs = swap_block_size (reserva M);
          (r', d', ev, res) = volcar_bucle (conx M) bs swap_sock seg pid
             (lista_bloques (n_bloques bs (limite seg))) (red_sticks M) (disco M)
      in (M\<lparr>red_sticks := r', disco := d'\<rparr>, ev, res))"

definition poner_segmento :: "t_seg_entrada \<Rightarrow> t_segmento \<Rightarrow> t_memoria \<Rightarrow> t_memoria" where
  "poner_segmento e g = actualizar_proceso (fst e) (\<lambda>p. p\<lparr>segmentos := (segmentos p)[snd e := g]\<rparr>)"

text \<open>
  The loop of \<open>manejar_suspender_proceso\<close> over the segments left of process \<open>i\<close>. The flag
  tells whether the handler answers: it does not when a block could not be copied.
\<close>

fun suspender_bucle ::
  "nat \<Rightarrow> i32 \<Rightarrow> sock \<Rightarrow> nat list \<Rightarrow> t_memoria \<Rightarrow> t_memoria \<times> evento list \<times> bool" where
  "suspender_bucle i pid swap_sock [] M = (M, [], True)"
| "suspender_bucle i pid swap_sock (j # js) M =
     (let seg = seg_en (procesos M) (i, j);
          (bloque_inicio, rs) = swap_reservar_bloques (n_bloques (swap_block_size (reserva M)) (limite seg)) (reserva M);
          M0 = M\<lparr>reserva := rs\<rparr>
      in if bloque_inicio = - 1 then (M0, [], True)
         else
           let seg1 = seg\<lparr>swap_bloque_inicio := bloque_inicio\<rparr>;
               M1 = poner_segmento (i, j) seg1 M0;
               (M2, ev, res) = volcar_segmento_a_swap M1 swap_sock seg1 pid
           in if res \<noteq> 0 then (M2, ev, False)
              else
                let M3 = poner_segmento (i, j) (seg1\<lparr>base := - 1\<rparr>)
                           (M2\<lparr>bloques_libres := bloques_liberar (base seg) (limite seg) (bloques_libres M2)\<rparr>);
                    (M4, ev', resp) = suspender_bucle i pid swap_sock js M3
                in (M4, ev @ ev', resp))"

definition manejar_suspender_proceso :: "t_memoria \<Rightarrow> sock \<Rightarrow> byte list \<Rightarrow> t_paso" where
  "manejar_suspender_proceso M socket s =
     con_recv recibir_suspender_proceso M s (\<lambda>pid s'.
       case procesos_buscar pid (procesos M) of
         None \<Rightarrow> (M, [Enviar socket (enviar_ok SUSPENDER_PROCESO)], s')
       | Some i \<Rightarrow>
           let swap_sock = conexiones_get_swap_socket (conx M)
           in if swap_sock < 0 then (M, [Enviar socket (enviar_ok SUSPENDER_PROCESO)], s')
              else
                let (M', ev, resp) = suspender_bucle i pid swap_sock [0..<length (segmentos (procesos M ! i))] M
                in (M', ev @ (if resp then [Enviar socket (enviar_ok SUSPENDER_PROCESO)] else []), s'))"

section \<open>Resumption\<close>

text \<open>
  \<open>reservar_segmentos_con_rollback\<close>: \<open>reservas\<close> lists the segments that already have a new
  base with the base they had before. \<open>False\<close> means that the rollback was done.
\<close>

fun rollback :: "(t_seg_entrada \<times> u32) list \<Rightarrow> t_memoria \<Rightarrow> t_memoria" where
  "rollback [] M = M"
| "rollback ((e, base_anterior) # rs) M =
     (let g = seg_en (procesos M) e
      in rollback rs (poner_segmento e (g\<lparr>base := base_anterior\<rparr>)
           (M\<lparr>bloques_libres := bloques_liberar (base g) (limite g) (bloques_libres M)\<rparr>)))"

fun reservar_bucle ::
  "nat \<Rightarrow> nat list \<Rightarrow> (t_seg_entrada \<times> u32) list \<Rightarrow> t_memoria \<Rightarrow> t_memoria \<times> bool" where
  "reservar_bucle i [] reservas M = (M, True)"
| "reservar_bucle i (j # js) reservas M =
     (let seg = seg_en (procesos M) (i, j);
          (nueva_base, bl) = bloques_asignar (worst_fit M) (limite seg) (bloques_libres M)
      in if nueva_base = - 1 then (rollback reservas M, False)
         else reservar_bucle i js (reservas @ [((i, j), base seg)])
                (poner_segmento (i, j) (seg\<lparr>base := nueva_base\<rparr>) (M\<lparr>bloques_libres := bl\<rparr>)))"

definition reservar_segmentos_con_rollback :: "t_memoria \<Rightarrow> nat \<Rightarrow> t_memoria \<times> bool" where
  "reservar_segmentos_con_rollback M i =
     reservar_bucle i [0..<length (segmentos (procesos M ! i))] [] M"

fun cargar_bucle ::
  "t_conexiones_activas \<Rightarrow> u32 \<Rightarrow> sock \<Rightarrow> t_segmento \<Rightarrow> i32 \<Rightarrow> u32 list \<Rightarrow> red \<Rightarrow> t_swap
    \<Rightarrow> red \<times> t_swap \<times> evento list \<times> i32" where
  "cargar_bucle c bs swap_sock seg pid [] r d = (r, d, [], 0)"
| "cargar_bucle c bs swap_sock seg pid (b # resto) r d =
     (case swap_leer_bloque swap_sock bs (swap_bloque_inicio seg + b) d of
        Inl e \<Rightarrow> (r, d, [Aborto], - 1)
      | Inr (res, datos, d1) \<Rightarrow>
          if res \<noteq> 0 then (r, d1, [], - 1)
          else
            let (r1, ev1, _) = memory_io_escribir c r pid (base seg + b * bs) (chunk_bloque bs seg b)
                  (case datos of None \<Rightarrow> [] | Some x \<Rightarrow> x);
                (r2, d2, ev2, res2) = cargar_bucle c bs swap_sock seg pid resto r1 d1
            in (r2, d2, ev1 @ ev2, res2))"

fun transferir_bucle ::
  "t_conexiones_activas \<Rightarrow> u32 \<Rightarrow> sock \<Rightarrow> i32 \<Rightarrow> t_segmento list \<Rightarrow> red \<Rightarrow> t_swap
    \<Rightarrow> red \<times> t_swap \<times> evento list \<times> i32" where
  "transferir_bucle c bs swap_sock pid [] r d = (r, d, [], 0)"
| "transferir_bucle c bs swap_sock pid (g # gs) r d =
     (let (r1, d1, ev1, res) = cargar_bucle c bs swap_sock g pid (lista_bloques (n_bloques bs (limite g))) r d
      in if res \<noteq> 0 then (r1, d1, ev1, - 1)
         else let (r2, d2, ev2, res2) = transferir_bucle c bs swap_sock pid gs r1 d1
              in (r2, d2, ev1 @ ev2, res2))"

definition transferir_swap_a_ram :: "t_memoria \<Rightarrow> sock \<Rightarrow> nat \<Rightarrow> i32 \<Rightarrow> t_memoria \<times> evento list \<times> i32" where
  "transferir_swap_a_ram M swap_sock i pid =
     (let (r', d', ev, res) = transferir_bucle (conx M) (swap_block_size (reserva M)) swap_sock pid
             (segmentos (procesos M ! i)) (red_sticks M) (disco M)
      in (M\<lparr>red_sticks := r', disco := d'\<rparr>, ev, res))"

definition manejar_des_suspender_proceso :: "t_memoria \<Rightarrow> sock \<Rightarrow> byte list \<Rightarrow> t_paso" where
  "manejar_des_suspender_proceso M socket s =
     con_recv recibir_des_suspender_proceso M s (\<lambda>pid s'.
       case procesos_buscar pid (procesos M) of
         None \<Rightarrow> (M, [Enviar socket (enviar_ok DES_SUSPENDER_PROCESO)], s')
       | Some i \<Rightarrow>
           let swap_sock = conexiones_get_swap_socket (conx M)
           in if swap_sock < 0 then (M, [Enviar socket (enviar_ok SEGMENTATION_FAULT)], s')
              else
                let (M1, hay) = reservar_segmentos_con_rollback M i
                in if \<not> hay then (M1, [Enviar socket (enviar_ok SEGMENTATION_FAULT)], s')
                   else
                     let (M2, ev, res) = transferir_swap_a_ram M1 swap_sock i pid
                     in (M2, ev @ [Enviar socket (enviar_ok
                          (if res \<noteq> 0 then SEGMENTATION_FAULT else DES_SUSPENDER_PROCESO))], s'))"

section \<open>Segments\<close>

text \<open>
  \<open>compactar_y_reasignar\<close>: the scheduler's acknowledgement is the next packet on its own
  socket. \<open>None\<close> means that the handler has already answered; the last component is what is
  left of the stream.
\<close>

definition compactar_y_reasignar ::
  "t_memoria \<Rightarrow> sock \<Rightarrow> i32 \<Rightarrow> u32 \<Rightarrow> byte list \<Rightarrow> t_memoria \<times> evento list \<times> (u32 \<times> nat) option \<times> byte list" where
  "compactar_y_reasignar M socket pid tamanio s =
     (let M0 = compactacion_marcar_inicio M;
          sched_sock = conexiones_get_scheduler_socket (conx M0);
          aviso = Enviar sched_sock (enviar_ok INICIAR_COMPACTACION);
          (cod, s1) = recibir_codigo_operacion s
      in case recibir_ok s1 of
           Inl e \<Rightarrow> (M0, [aviso, Aborto], None, [])
         | Inr (u, s2) \<Rightarrow>
             let (M1, ev) = compactar_memoria M0;
                 M2 = compactacion_marcar_fin M1;
                 evs = [aviso] @ ev @ [Enviar sched_sock (enviar_ok FINALIZAR_COMPACTACION)];
                 (b, bl) = bloques_asignar (worst_fit M2) tamanio (bloques_libres M2);
                 M3 = M2\<lparr>bloques_libres := bl\<rparr>
             in if b = - 1 then (M3, evs @ [Enviar socket (enviar_ok SEGMENTATION_FAULT)], None, s2)
                else case procesos_buscar pid (procesos M3) of
                       None \<Rightarrow> (M3, evs @ [Enviar socket (enviar_ok SEGMENTATION_FAULT)], None, s2)
                     | Some i \<Rightarrow> (M3, evs, Some (b, i), s2))"

definition responder_segmento :: "sock \<Rightarrow> u32 \<Rightarrow> u32 \<Rightarrow> u32 \<Rightarrow> evento" where
  "responder_segmento socket ident b tamanio =
     Enviar socket (enviar_paquete (agregar_a_paquete (agregar_a_paquete (agregar_a_paquete
       (crear_paquete SOLICITAR_SEGMENTO) (bytes_u32 ident)) (bytes_u32 b)) (bytes_u32 tamanio)))"

definition agregar_segmento_a :: "nat \<Rightarrow> u32 \<Rightarrow> u32 \<Rightarrow> u32 \<Rightarrow> t_memoria \<Rightarrow> t_memoria" where
  "agregar_segmento_a i ident b tamanio =
     actualizar_proceso i (\<lambda>p. p\<lparr>segmentos := segmentos p @
       [\<lparr>id_seg = ident, base = b, limite = tamanio, swap_bloque_inicio = 0\<rparr>]\<rparr>)"

definition manejar_solicitar_segmento :: "t_memoria \<Rightarrow> sock \<Rightarrow> byte list \<Rightarrow> t_paso" where
  "manejar_solicitar_segmento M socket s =
     con_recv recibir_pid_dir_tam M s (\<lambda>(pid, id_segmento, tamanio) s'.
       if tamanio > segment_max_size (config_memory M)
       then (M, [Enviar socket (enviar_ok SEGMENTATION_FAULT)], s')
       else case procesos_buscar pid (procesos M) of
         None \<Rightarrow> (M, [Enviar socket (enviar_ok SEGMENTATION_FAULT)], s')
       | Some i \<Rightarrow>
           let (b, bl) = bloques_asignar (worst_fit M) tamanio (bloques_libres M);
               M1 = M\<lparr>bloques_libres := bl\<rparr>
           in if b \<noteq> - 1
              then (agregar_segmento_a i id_segmento b tamanio M1, [responder_segmento socket id_segmento b tamanio], s')
              else if bloques_calcular_espacio_libre (bloques_libres M1) < tamanio
              then (M1, [Enviar socket (enviar_ok SEGMENTATION_FAULT)], s')
              else
                (case compactar_y_reasignar M1 socket pid tamanio s' of
                   (M2, evs, None, s2) \<Rightarrow> (M2, evs, s2)
                 | (M2, evs, Some (b', i'), s2) \<Rightarrow>
                     (agregar_segmento_a i' id_segmento b' tamanio M2,
                      evs @ [responder_segmento socket id_segmento b' tamanio], s2)))"

definition manejar_eliminar_segmento :: "t_memoria \<Rightarrow> sock \<Rightarrow> byte list \<Rightarrow> t_paso" where
  "manejar_eliminar_segmento M socket s =
     con_recv (recv_bind validar_buffer (\<lambda>_. recv_bind recv_int (\<lambda>pid. recv_bind recv_u32 (\<lambda>ident.
         recv_ret (pid, ident))))) M s (\<lambda>(pid, id_segmento) s'.
       case procesos_buscar pid (procesos M) of
         None \<Rightarrow> (M, [Enviar socket (enviar_ok ELIMINAR_SEGMENTO)], s')
       | Some i \<Rightarrow>
           (case buscar_idx (\<lambda>g. id_seg g = id_segmento) (segmentos (procesos M ! i)) of
              None \<Rightarrow> (M, [Enviar socket (enviar_ok ELIMINAR_SEGMENTO)], s')
            | Some j \<Rightarrow>
                let g = seg_en (procesos M) (i, j);
                    M1 = actualizar_proceso i (\<lambda>p. p\<lparr>segmentos := list_remove (segmentos p) j\<rparr>)
                           (M\<lparr>bloques_libres := bloques_liberar (base g) (limite g) (bloques_libres M)\<rparr>)
                in (M1, Enviar socket (enviar_ok ELIMINAR_SEGMENTO) # notificar_memoria_liberada M1, s')))"

text \<open>The release loop of \<open>manejar_finalizar_proceso\<close> over the segments of the process.\<close>

fun liberar_segmentos :: "t_segmento list \<Rightarrow> t_bloque_libre list \<Rightarrow> t_bloque_libre list" where
  "liberar_segmentos [] bl = bl"
| "liberar_segmentos (g # gs) bl =
     liberar_segmentos gs (if base g \<noteq> - 1 then bloques_liberar (base g) (limite g) bl else bl)"

definition manejar_finalizar_proceso :: "t_memoria \<Rightarrow> sock \<Rightarrow> byte list \<Rightarrow> t_paso" where
  "manejar_finalizar_proceso M socket s =
     con_recv (recv_bind validar_buffer (\<lambda>_. recv_int)) M s (\<lambda>pid s'.
       case procesos_buscar pid (procesos M) of
         None \<Rightarrow> (M, [Enviar socket (enviar_ok FINALIZAR_PROCESO)], s')
       | Some i \<Rightarrow>
           let gs = segmentos (procesos M ! i);
               libero = list_ex (\<lambda>g. base g \<noteq> - 1) gs;
               M1 = M\<lparr>bloques_libres := liberar_segmentos gs (bloques_libres M),
                      procesos := procesos_quitar_en i (procesos M)\<rparr>
           in (M1, Enviar socket (enviar_ok FINALIZAR_PROCESO) #
                   (if libero then notificar_memoria_liberada M1 else []), s'))"

section \<open>The receptor thread\<close>

text \<open>One request: the opcode decides; an unknown one is logged and skipped.\<close>

definition despachar_scheduler ::
  "(string \<Rightarrow> string option) \<Rightarrow> u32 \<Rightarrow> t_memoria \<Rightarrow> sock \<Rightarrow> byte list \<Rightarrow> t_paso" where
  "despachar_scheduler fopen codigo M socket s =
     (case op_de_num codigo of
        Some CREAR_PROCESO \<Rightarrow> manejar_crear_proceso fopen M socket s
      | Some ACTUALIZAR_CONTEXTO \<Rightarrow> manejar_actualizar_contexto_scheduler M socket s
      | Some OBTENER_ESPACIO_LIBRE \<Rightarrow> manejar_obtener_espacio_libre M socket s
      | Some LECTURA_MEMORIA \<Rightarrow> manejar_lectura_memoria M socket s
      | Some ESCRITURA_MEMORIA \<Rightarrow> manejar_escritura_memoria M socket s
      | Some SUSPENDER_PROCESO \<Rightarrow> manejar_suspender_proceso M socket s
      | Some DES_SUSPENDER_PROCESO \<Rightarrow> manejar_des_suspender_proceso M socket s
      | Some SOLICITAR_SEGMENTO \<Rightarrow> manejar_solicitar_segmento M socket s
      | Some ELIMINAR_SEGMENTO \<Rightarrow> manejar_eliminar_segmento M socket s
      | Some FINALIZAR_PROCESO \<Rightarrow> manejar_finalizar_proceso M socket s
      | _ \<Rightarrow> (M, [], s))"

definition atender_scheduler ::
  "(string \<Rightarrow> string option) \<Rightarrow> t_memoria \<Rightarrow> sock \<Rightarrow> byte list \<Rightarrow> t_paso" where
  "atender_scheduler fopen M socket s =
     (let (codigo, s1) = recibir_codigo_operacion s in despachar_scheduler fopen codigo M socket s1)"

text \<open>Every handler leaves no more than it was given.\<close>

lemma con_recv_acorta:
  assumes "acorta r" "\<And>a s1. length (snd (snd (f a s1))) \<le> length s1"
  shows "length (snd (snd (con_recv r M s f))) \<le> length s"
proof (cases "r s")
  case (Inr x)
  obtain a s' where "x = (a, s')" by (cases x)
  then have "length s' \<le> length s" "con_recv r M s f = f a s'" using assms(1) Inr by (auto simp: acorta_def con_recv_def)
  then show ?thesis using assms(2) [of a s'] by simp
qed (simp add: con_recv_def)

lemma acorta_recibidas [simp]:
  "acorta recibir_crear_proceso" "acorta recibir_ok" "acorta recibir_suspender_proceso" "acorta recibir_des_suspender_proceso"
  "acorta recibir_contexto_actualizar"
  unfolding recibir_crear_proceso_def recibir_ok_def recibir_suspender_proceso_def recibir_des_suspender_proceso_def
    recibir_un_int_def recibir_contexto_actualizar_def recibir_registros_def recibir_segmento_def
  by (auto intro!: acorta_bind acorta_veces)

lemma compactar_y_reasignar_acorta:
  "compactar_y_reasignar M socket pid tam s = (M', evs, res, s') \<Longrightarrow> length s' \<le> length s"
proof -
  obtain cod s1 where c: "recibir_codigo_operacion s = (cod, s1)" by (cases "recibir_codigo_operacion s")
  then have "length s1 \<le> length s" by (auto simp: recibir_codigo_operacion_def split: if_splits)
  moreover have "recibir_ok s1 = Inr (u, s2) \<Longrightarrow> length s2 \<le> length s1" for u s2
    using acorta_recibidas(2) by (auto simp: acorta_def)
  ultimately show "compactar_y_reasignar M socket pid tam s = (M', evs, res, s') \<Longrightarrow> length s' \<le> length s"
    by (fastforce simp: compactar_y_reasignar_def c Let_def split: sum.splits prod.splits if_splits option.splits)
qed

lemma solicitar_acorta: "length (snd (snd (manejar_solicitar_segmento M socket s))) \<le> length s"
  unfolding manejar_solicitar_segmento_def
  by (rule con_recv_acorta)
    (auto simp: Let_def split: prod.splits option.splits dest!: compactar_y_reasignar_acorta)

lemma despachar_acorta: "length (snd (snd (despachar_scheduler fopen codigo M socket s))) \<le> length s"
proof -
  note defs = manejar_crear_proceso_def manejar_actualizar_contexto_scheduler_def manejar_obtener_espacio_libre_def
    manejar_lectura_memoria_def manejar_escritura_memoria_def manejar_suspender_proceso_def
    manejar_des_suspender_proceso_def manejar_eliminar_segmento_def manejar_finalizar_proceso_def
  have "length (snd (snd (manejar_crear_proceso fopen M socket s))) \<le> length s"
    "length (snd (snd (manejar_actualizar_contexto_scheduler M socket s))) \<le> length s"
    "length (snd (snd (manejar_obtener_espacio_libre M socket s))) \<le> length s"
    "length (snd (snd (manejar_lectura_memoria M socket s))) \<le> length s"
    "length (snd (snd (manejar_escritura_memoria M socket s))) \<le> length s"
    "length (snd (snd (manejar_suspender_proceso M socket s))) \<le> length s"
    "length (snd (snd (manejar_des_suspender_proceso M socket s))) \<le> length s"
    "length (snd (snd (manejar_eliminar_segmento M socket s))) \<le> length s"
    "length (snd (snd (manejar_finalizar_proceso M socket s))) \<le> length s"
    unfolding defs
    by (rule con_recv_acorta; auto intro!: acorta_bind simp: Let_def split: prod.splits option.splits)+
  then show ?thesis
    using solicitar_acorta [of M socket s] by (simp add: despachar_scheduler_def split: option.splits op_code.splits)
qed

text \<open>
  The loop of \<open>memory_receptor_scheduler_thread\<close> until the scheduler disconnects, or until a
  packet aborts the process.
\<close>

function memory_receptor_scheduler_thread ::
  "(string \<Rightarrow> string option) \<Rightarrow> t_memoria \<Rightarrow> sock \<Rightarrow> byte list \<Rightarrow> t_memoria \<times> evento list" where
  "memory_receptor_scheduler_thread fopen M socket s =
     (let (codigo, s1) = recibir_codigo_operacion s
      in if codigo = - 1 then (M\<lparr>conx := conexiones_set_scheduler_socket (- 1) (conx M)\<rparr>, [])
         else
           let (M', evs, s2) = despachar_scheduler fopen codigo M socket s1
           in if Aborto \<in> set evs then (M', evs)
              else let (M'', evs') = memory_receptor_scheduler_thread fopen M' socket s2 in (M'', evs @ evs'))"
  by pat_completeness auto
termination
proof (relation "measure (\<lambda>(fopen, M, socket, s). length s)", goal_cases)
  case (2 fopen M socket s x codigo s1 y M' z evs s2)
  then have d: "despachar_scheduler fopen codigo M socket s1 = (M', evs, s2)" by simp
  have "length s2 \<le> length s1" using despachar_acorta [of fopen codigo M socket s1] unfolding d by simp
  moreover have "length s1 < length s" using recibir_codigo_acorta [of s codigo s1] 2 by simp
  ultimately show ?case by simp
qed simp

end
