(* ===== verification/Segmentos.thy ===== *)
theory Segmentos
  imports Memory_Scheduler
begin

text \<open>
  What the segment requests of \<open>Memory_Scheduler\<close> do to a consistent memory: creation (with
  the compaction it may start), removal and the end of a process. The allocator is used
  through its contract \<open>asignador\<close>, compaction through \<open>compactada\<close>.
\<close>

section \<open>Requests\<close>

interpretation m_pid_dir_tam: mensaje c "\<lambda>(pid, a, b). bytes_int pid @ bytes_u32 a @ bytes_u32 b"
    "\<lambda>(pid, a, b). enviar_paquete (enviar_int_u32_u32 c pid a b)" recibir_pid_dir_tam "\<lambda>_. True" for c
  by (rule mensajeI [OF _ _ recibir_pid_dir_tam_def])
    (auto simp: enviar_int_u32_u32_def wire_simps corto_def recv_bind_def)

lemma mensaje_eliminar:
  "mensaje ELIMINAR_SEGMENTO (\<lambda>(pid, a). bytes_int pid @ bytes_u32 a) (\<lambda>(pid, a). enviar_eliminar_segmento pid a)
     (recv_bind validar_buffer (\<lambda>_. recv_bind recv_int (\<lambda>pid. recv_bind recv_u32 (\<lambda>ident. recv_ret (pid, ident)))))
     (\<lambda>_. True)"
  by (rule mensajeI [OF _ _ refl]) (auto simp: enviar_eliminar_segmento_def wire_simps corto_def recv_bind_def)

interpretation m_eliminar: mensaje ELIMINAR_SEGMENTO "\<lambda>(pid, a). bytes_int pid @ bytes_u32 a"
    "\<lambda>(pid, a). enviar_eliminar_segmento pid a"
    "recv_bind validar_buffer (\<lambda>_. recv_bind recv_int (\<lambda>pid. recv_bind recv_u32 (\<lambda>ident. recv_ret (pid, ident))))"
    "\<lambda>_. True"
  by (rule mensaje_eliminar)

interpretation m_finalizar: mensaje FINALIZAR_PROCESO bytes_int enviar_finalizar_proceso_memory
    "recv_bind validar_buffer (\<lambda>_. recv_int)" "\<lambda>_. True"
  using mensaje_un_int [of FINALIZAR_PROCESO]
  by (simp add: enviar_finalizar_proceso_memory_def [abs_def] recibir_un_int_def)

lemma atender_mensaje:
  assumes "recibir_mensaje r flujo = (op_num c, Inr (a, s))"
    and "\<And>s1. r s1 = Inr (a, s) \<Longrightarrow> despachar_scheduler fopen (op_num c) M socket s1 = X"
  shows "atender_scheduler fopen M socket flujo = X"
  using assms by (auto simp: atender_scheduler_def recibir_mensaje_def Let_def split: prod.splits)

lemma con_recv_Inr: "r s = Inr (a, s') \<Longrightarrow> con_recv r M s f = f a s'"
  by (simp add: con_recv_def)

section \<open>Changing one process\<close>

lemma procesos_actualizar [simp]:
  "procesos (actualizar_proceso i f M) = (procesos M)[i := f (procesos M ! i)]"
  "conx (actualizar_proceso i f M) = conx M" "bloques_libres (actualizar_proceso i f M) = bloques_libres M"
  "red_sticks (actualizar_proceso i f M) = red_sticks M" "reserva (actualizar_proceso i f M) = reserva M"
  "disco (actualizar_proceso i f M) = disco M" "config_memory (actualizar_proceso i f M) = config_memory M"
  by (simp_all add: actualizar_proceso_def)

text \<open>A new segment takes its cells from the free list.\<close>

lemma mem_inv_agregar:
  assumes inv: "mem_inv M" and i: "i < length (procesos M)"
    and asig: "bloques_asignar worst t (bloques_libres M) = (b, bl)" "b \<noteq> - 1"
  shows "mem_inv (agregar_segmento_a i ident b t (M\<lparr>bloques_libres := bl\<rparr>))"
proof -
  let ?M = "agregar_segmento_a i ident b t (M\<lparr>bloques_libres := bl\<rparr>)" and ?N = "ram (conx M)"
  have inv': "bloques_inv ?N (bloques_libres M)" "particion ?N (celdas (bloques_libres M)) (tramos (procesos M))"
    using inv by (auto simp: mem_inv_def)
  note ok = memoria.asignar_exito [OF inv'(1) asig]
  have "particion ?N (celdas bl) (tramos (procesos M) @ [(b, t)])"
    by (rule memoria.asignar_particion [OF inv' asig])
  moreover have m: "mset (tramos (procesos ?M)) = mset (tramos (procesos M) @ [(b, t)])"
    using i asig(2)
    by (simp add: agregar_segmento_a_def tramos_update tramos_split [OF i] residente_def tramo_seg_def)
  ultimately have part: "particion ?N (celdas bl) (tramos (procesos ?M))" using particion_mset by metis
  have "\<forall>u \<in> set (tramos (procesos ?M)). cabe_en ?N u"
  proof
    fix u
    assume "u \<in> set (tramos (procesos ?M))"
    then have "u \<in> set (tramos (procesos M) @ [(b, t)])" using m by (metis set_mset_mset)
    then show "cabe_en ?N u" using inv ok by (auto simp: mem_inv_def cabe_en_def)
  qed
  with part show ?thesis using inv ok by (simp add: mem_inv_def agregar_segmento_a_def)
qed

lemma mem_inv_marcas [simp]:
  "mem_inv (M\<lparr>en_progreso := f\<rparr>) = mem_inv M" "mem_inv (M\<lparr>reserva := rs\<rparr>) = mem_inv M"
  "mem_inv (M\<lparr>disco := d\<rparr>) = mem_inv M" "mem_inv (M\<lparr>config_memory := cfg\<rparr>) = mem_inv M"
  by (simp_all add: mem_inv_def)

text \<open>\<open>reubicada M M'\<close>: only bases differ, and no resident segment has lost a byte.\<close>

definition reubicada :: "t_memoria \<Rightarrow> t_memoria \<Rightarrow> bool" where
  "reubicada M M' \<longleftrightarrow>
     sin_bases (procesos M') = sin_bases (procesos M) \<and>
     (\<forall>e \<in> set (posiciones (procesos M)).
        (residente (seg_en (procesos M') e) \<longleftrightarrow> residente (seg_en (procesos M) e)) \<and>
        (residente (seg_en (procesos M) e) \<longrightarrow>
           contenido (memoria_de M') (seg_en (procesos M') e) = contenido (memoria_de M) (seg_en (procesos M) e)))"

lemma reubicada_refl [simp]: "reubicada M M"
  by (simp add: reubicada_def)

lemma sin_bases_buscar:
  assumes "sin_bases ps' = sin_bases ps"
  shows "procesos_buscar pid ps' = procesos_buscar pid ps" "length ps' = length ps"
proof -
  have "procesos_buscar pid ps = procesos_buscar pid (sin_bases ps)" for ps
    unfolding procesos_buscar_def sin_bases_def by (induction ps) auto
  with assms show "procesos_buscar pid ps' = procesos_buscar pid ps" by metis
  show "length ps' = length ps" using arg_cong [OF assms, of length] by (simp add: sin_bases_def)
qed

lemma compactar_reubica:
  assumes "mem_inv M" "compactar_memoria M = (M', evs)"
  shows "mem_inv M'" "evs = []" "reubicada M M'" "conx M' = conx M" "config_memory M' = config_memory M"
    "posiciones (procesos M) = [] \<Longrightarrow> M' = M"
proof -
  show "mem_inv M'" "evs = []" "reubicada M M'"
    using compactar_todo [OF assms] by (auto simp: reubicada_def compactada_def)
  show "conx M' = conx M" "config_memory M' = config_memory M" "posiciones (procesos M) = [] \<Longrightarrow> M' = M"
    using assms(2) by (auto simp: compactar_memoria_def Let_def split: if_splits prod.splits)
qed

section \<open>Creating a segment\<close>

text \<open>The handler after the request has been read.\<close>

lemma atender_solicitar:
  "atender_scheduler fopen M socket (enviar_solicitar_segmento pid ident t @ s) =
    (if t > segment_max_size (config_memory M) then (M, [Enviar socket (enviar_ok SEGMENTATION_FAULT)], s)
     else case procesos_buscar pid (procesos M) of
       None \<Rightarrow> (M, [Enviar socket (enviar_ok SEGMENTATION_FAULT)], s)
     | Some i \<Rightarrow>
         let (b, bl) = bloques_asignar (worst_fit M) t (bloques_libres M); M1 = M\<lparr>bloques_libres := bl\<rparr>
         in if b \<noteq> - 1 then (agregar_segmento_a i ident b t M1, [responder_segmento socket ident b t], s)
            else if bloques_calcular_espacio_libre (bloques_libres M1) < t
            then (M1, [Enviar socket (enviar_ok SEGMENTATION_FAULT)], s)
            else (case compactar_y_reasignar M1 socket pid t s of
                    (M2, evs, None, s2) \<Rightarrow> (M2, evs, s2)
                  | (M2, evs, Some (b', i'), s2) \<Rightarrow>
                      (agregar_segmento_a i' ident b' t M2, evs @ [responder_segmento socket ident b' t], s2)))"
proof (rule atender_mensaje)
  show "recibir_mensaje recibir_pid_dir_tam (enviar_solicitar_segmento pid ident t @ s) =
      (op_num SOLICITAR_SEGMENTO, Inr ((pid, ident, t), s))"
    using m_pid_dir_tam.ida_y_vuelta [where a = "(pid, ident, t)"] by (simp add: enviar_solicitar_segmento_def)
qed (simp add: despachar_scheduler_def manejar_solicitar_segmento_def con_recv_Inr)

lemma compactar_y_reasignar_ok:
  assumes inv: "mem_inv M" and p: "procesos_buscar pid (procesos M) = Some i" and "posiciones (procesos M) \<noteq> []"
    and t: "0 < t" "t \<le> bloques_calcular_espacio_libre (bloques_libres M)"
  obtains M1 b bl where "compactar_y_reasignar M socket pid t (enviar_ok INICIAR_COMPACTACION @ s) =
      (M1\<lparr>bloques_libres := bl\<rparr>,
       [Enviar (scheduler_socket (conx M)) (enviar_ok INICIAR_COMPACTACION),
        Enviar (scheduler_socket (conx M)) (enviar_ok FINALIZAR_COMPACTACION)], Some (b, i), s)"
    "mem_inv M1" "reubicada M M1" "bloques_asignar (worst_fit M1) t (bloques_libres M1) = (b, bl)" "b \<noteq> - 1"
    "conx M1 = conx M"
proof -
  let ?M0 = "compactacion_marcar_inicio M"
  obtain s1 where ack: "recibir_codigo_operacion (enviar_ok INICIAR_COMPACTACION @ s) = (op_num INICIAR_COMPACTACION, s1)"
      "recibir_ok s1 = Inr ((), s)"
    by (rule recibir_ack)
  obtain M1 evs where c: "compactar_memoria ?M0 = (M1, evs)" by (cases "compactar_memoria ?M0")
  have inv0: "mem_inv ?M0" using inv by (simp add: compactacion_marcar_inicio_def)
  note r = compactar_reubica [OF inv0 c]
  let ?M2 = "compactacion_marcar_fin M1"
  obtain b bl where a: "bloques_asignar (worst_fit ?M2) t (bloques_libres ?M2) = (b, bl)"
    by (cases "bloques_asignar (worst_fit ?M2) t (bloques_libres ?M2)")
  have "b \<noteq> - 1"
    using asignar_tras_compactar [OF inv0 _ c t(1), of "worst_fit ?M2"] assms(3) t(2) a
    by (simp add: compactacion_marcar_inicio_def compactacion_marcar_fin_def)
  moreover have "procesos_buscar pid (procesos M1) = Some i"
    using sin_bases_buscar [of "procesos M1" "procesos ?M0"] r(3) p
    by (simp add: reubicada_def compactacion_marcar_inicio_def)
  ultimately have "compactar_y_reasignar M socket pid t (enviar_ok INICIAR_COMPACTACION @ s) =
      (?M2\<lparr>bloques_libres := bl\<rparr>,
       [Enviar (scheduler_socket (conx M)) (enviar_ok INICIAR_COMPACTACION),
        Enviar (scheduler_socket (conx M)) (enviar_ok FINALIZAR_COMPACTACION)], Some (b, i), s)"
    using c a r(2) ack
    by (simp add: compactar_y_reasignar_def Let_def conexiones_get_scheduler_socket_def
        compactacion_marcar_inicio_def compactacion_marcar_fin_def)
  moreover have "mem_inv ?M2" "reubicada M ?M2" "conx ?M2 = conx M"
    using r by (simp_all add: compactacion_marcar_fin_def compactacion_marcar_inicio_def reubicada_def)
  ultimately show thesis using that a \<open>b \<noteq> - 1\<close> by blast
qed

text \<open>The two outcomes of a request, with everything that is sent and what is left unread.\<close>

lemma solicitar_casos:
  assumes inv: "mem_inv M" and p: "procesos_buscar pid (procesos M) = Some i"
    and t: "0 < t" "t \<le> segment_max_size (config_memory M)"
    and paso: "atender_scheduler fopen M socket
      (enviar_solicitar_segmento pid ident t @ enviar_ok INICIAR_COMPACTACION @ s) = (M', evs, s')"
  shows "bloques_calcular_espacio_libre (bloques_libres M) < t \<Longrightarrow>
      M' = M \<and> evs = [Enviar socket (enviar_ok SEGMENTATION_FAULT)] \<and> s' = enviar_ok INICIAR_COMPACTACION @ s"
    and "t \<le> bloques_calcular_espacio_libre (bloques_libres M) \<Longrightarrow>
      posiciones (procesos M) \<noteq> [] \<or> (\<exists>e \<in> set (bloques_libres M). t \<le> b_tamanio e) \<Longrightarrow>
      \<exists>M1 b avisos. mem_inv M' \<and> reubicada M M1 \<and> memoria_de M1 = memoria_de M' \<and> b \<noteq> - 1 \<and> i < length (procesos M1) \<and>
        evs = avisos @ [responder_segmento socket ident b t] \<and>
        procesos M' = (procesos M1)[i := (procesos M1 ! i)\<lparr>segmentos := segmentos (procesos M1 ! i) @
            [\<lparr>id_seg = ident, base = b, limite = t, swap_bloque_inicio = 0\<rparr>]\<rparr>] \<and>
        (avisos = [] \<and> s' = enviar_ok INICIAR_COMPACTACION @ s \<or>
         avisos = [Enviar (scheduler_socket (conx M)) (enviar_ok INICIAR_COMPACTACION),
                   Enviar (scheduler_socket (conx M)) (enviar_ok FINALIZAR_COMPACTACION)] \<and> s' = s) \<and>
        (if \<exists>e \<in> set (bloques_libres M). t \<le> b_tamanio e then avisos = [] \<and> M1 = M else avisos \<noteq> [])"
proof -
  let ?fl = "enviar_ok INICIAR_COMPACTACION @ s" and ?libre = "bloques_calcular_espacio_libre (bloques_libres M)"
  have binv: "bloques_inv (ram (conx M)) (bloques_libres M)" using inv by (simp add: mem_inv_def)
  obtain b bl where a: "bloques_asignar (worst_fit M) t (bloques_libres M) = (b, bl)"
    by (cases "bloques_asignar (worst_fit M) t (bloques_libres M)")
  have i: "i < length (procesos M)" using procesos_buscar_SomeD [OF p] by simp
  have max: "\<not> segment_max_size (config_memory M) < t" using t(2) by simp
  have bl: "bl = bloques_libres M" if "b = - 1" using memoria.asignar_falla [OF binv] a that by blast
  have id: "M\<lparr>bloques_libres := bloques_libres M\<rparr> = M" by (cases M) simp
  show "M' = M \<and> evs = [Enviar socket (enviar_ok SEGMENTATION_FAULT)] \<and> s' = ?fl" if "?libre < t"
  proof -
    have "b = - 1" using asignar_implica_espacio [OF binv a] that by blast
    then show ?thesis using paso max a bl p that by (simp add: atender_solicitar Let_def id)
  qed
  assume libre: "t \<le> ?libre" and cabe: "posiciones (procesos M) \<noteq> [] \<or> (\<exists>e \<in> set (bloques_libres M). t \<le> b_tamanio e)"
  show "\<exists>M1 b avisos. mem_inv M' \<and> reubicada M M1 \<and> memoria_de M1 = memoria_de M' \<and> b \<noteq> - 1 \<and> i < length (procesos M1) \<and>
        evs = avisos @ [responder_segmento socket ident b t] \<and>
        procesos M' = (procesos M1)[i := (procesos M1 ! i)\<lparr>segmentos := segmentos (procesos M1 ! i) @
            [\<lparr>id_seg = ident, base = b, limite = t, swap_bloque_inicio = 0\<rparr>]\<rparr>] \<and>
        (avisos = [] \<and> s' = ?fl \<or>
         avisos = [Enviar (scheduler_socket (conx M)) (enviar_ok INICIAR_COMPACTACION),
                   Enviar (scheduler_socket (conx M)) (enviar_ok FINALIZAR_COMPACTACION)] \<and> s' = s) \<and>
        (if \<exists>e \<in> set (bloques_libres M). t \<le> b_tamanio e then avisos = [] \<and> M1 = M else avisos \<noteq> [])"
  proof (cases "b = - 1")
    case False
    then have q: "\<exists>e \<in> set (bloques_libres M). t \<le> b_tamanio e" using bloques_asignar_fallo [OF binv, of "worst_fit M" t] a by (auto simp: not_less)
    have "b \<noteq> - 1" by (rule False)
    then have "M' = agregar_segmento_a i ident b t (M\<lparr>bloques_libres := bl\<rparr>)" "evs = [responder_segmento socket ident b t]" "s' = ?fl"
      using paso max a p False by (simp_all add: atender_solicitar Let_def)
    then show ?thesis
      using mem_inv_agregar [OF inv i a False] i False q by (auto simp: agregar_segmento_a_def intro!: exI [of _ M])
  next
    case True
    then have q: "\<not> (\<exists>e \<in> set (bloques_libres M). t \<le> b_tamanio e)"
      using bloques_asignar_fallo [OF binv, of "worst_fit M" t] a by (auto simp: not_le)
    then have "posiciones (procesos M) \<noteq> []" using cabe by blast
    then obtain M1 b' bl' where c: "compactar_y_reasignar M socket pid t ?fl = (M1\<lparr>bloques_libres := bl'\<rparr>,
        [Enviar (scheduler_socket (conx M)) (enviar_ok INICIAR_COMPACTACION),
         Enviar (scheduler_socket (conx M)) (enviar_ok FINALIZAR_COMPACTACION)], Some (b', i), s)"
      "mem_inv M1" "reubicada M M1" "bloques_asignar (worst_fit M1) t (bloques_libres M1) = (b', bl')" "b' \<noteq> - 1"
      using compactar_y_reasignar_ok [OF inv p _ t(1) libre, of socket s] by blast
    have i1: "i < length (procesos M1)" using c(3) i sin_bases_buscar(2) by (metis reubicada_def)
    have "M' = agregar_segmento_a i ident b' t (M1\<lparr>bloques_libres := bl'\<rparr>)" "s' = s"
      "evs = [Enviar (scheduler_socket (conx M)) (enviar_ok INICIAR_COMPACTACION),
         Enviar (scheduler_socket (conx M)) (enviar_ok FINALIZAR_COMPACTACION)] @ [responder_segmento socket ident b' t]"
      using paso max a [unfolded bl [OF True]] p True c(1) by (auto simp: atender_solicitar Let_def id if_not_P [OF leD [OF libre]])
    then show ?thesis
      using mem_inv_agregar [OF c(2) i1 c(4,5)] i1 c(3,5) q by (auto simp: agregar_segmento_a_def intro!: exI [of _ M1])
  qed
qed

text \<open>The cells of a segment that was added: in the RAM, not free, and of no other segment.\<close>

lemma agregado_aparte:
  assumes inv: "mem_inv M'" and i: "i < length ps" and b: "b \<noteq> - 1"
    and ps: "procesos M' = ps[i := (ps ! i)\<lparr>segmentos := segmentos (ps ! i) @ [\<lparr>id_seg = ident, base = b, limite = t, swap_bloque_inicio = z\<rparr>]\<rparr>]"
  shows "unat b + unat t \<le> ram (conx M')" "rango b t \<inter> celdas (bloques_libres M') = {}" "rango b t \<inter> ocupadas (tramos ps) = {}"
proof -
  have m: "mset (tramos (procesos M')) = mset (tramos ps @ [(b, t)])"
    using i b by (simp add: ps tramos_update tramos_split [OF i] residente_def tramo_seg_def)
  then have "particion (ram (conx M')) (celdas (bloques_libres M')) (tramos ps @ [(b, t)])"
    using inv particion_mset [OF m] by (simp add: mem_inv_def)
  then show "rango b t \<inter> celdas (bloques_libres M') = {}" "rango b t \<inter> ocupadas (tramos ps) = {}"
    by (auto simp: particion_def separados_append)
  have "(b, t) \<in> set (tramos (procesos M'))" using m by (metis in_set_conv_decomp set_mset_mset)
  then show "unat b + unat t \<le> ram (conx M')" using inv by (auto simp: mem_inv_def cabe_en_def)
qed

text \<open>
  C19. A segment request of an existing process, for at least one byte and at most
  \<open>SEGMENT_MAX_SIZE\<close>, on a consistent memory. When the free space is smaller than the request
  the scheduler gets a \<open>SEGMENTATION_FAULT\<close> and nothing changes. Otherwise (with a block that
  fits, or with some segment to compact) the request is granted: the memory stays consistent, and
  the process gets a segment of the size it asked for at the base that is sent back, which is not
  the \<open>(uint32_t)-1\<close> of a suspended segment; its cells lie in the RAM, are not free any more and
  belong to no other segment. When a free block is large enough nothing moves and only the
  answer is sent. Otherwise there is one compaction, announced to the scheduler before and after:
  every other field of the table but the bases is as before and every resident segment has kept
  its bytes.
\<close>

theorem solicitar_segmento_correcto:
  assumes inv: "mem_inv M" and p: "procesos_buscar pid (procesos M) = Some i"
    and t: "0 < t" "t \<le> segment_max_size (config_memory M)"
    and paso: "atender_scheduler fopen M socket
      (enviar_solicitar_segmento pid ident t @ enviar_ok INICIAR_COMPACTACION @ s) = (M', evs, s')"
  shows "(bloques_calcular_espacio_libre (bloques_libres M) < t \<longrightarrow>
      M' = M \<and> evs = [Enviar socket (enviar_ok SEGMENTATION_FAULT)]) \<and>
    (t \<le> bloques_calcular_espacio_libre (bloques_libres M) \<and>
     (posiciones (procesos M) \<noteq> [] \<or> (\<exists>e \<in> set (bloques_libres M). t \<le> b_tamanio e)) \<longrightarrow>
       mem_inv M' \<and>
       (\<exists>M1 b. reubicada M M1 \<and> memoria_de M1 = memoria_de M' \<and> i < length (procesos M1) \<and>
          procesos M' = (procesos M1)[i := (procesos M1 ! i)\<lparr>segmentos := segmentos (procesos M1 ! i) @
            [\<lparr>id_seg = ident, base = b, limite = t, swap_bloque_inicio = 0\<rparr>]\<rparr>] \<and>
          b \<noteq> - 1 \<and> unat b + unat t \<le> ram (conx M') \<and>
          rango b t \<inter> celdas (bloques_libres M') = {} \<and> rango b t \<inter> ocupadas (tramos (procesos M1)) = {} \<and>
          (if \<exists>e \<in> set (bloques_libres M). t \<le> b_tamanio e
           then M1 = M \<and> evs = [responder_segmento socket ident b t]
           else evs = [Enviar (scheduler_socket (conx M)) (enviar_ok INICIAR_COMPACTACION),
                       Enviar (scheduler_socket (conx M)) (enviar_ok FINALIZAR_COMPACTACION),
                       responder_segmento socket ident b t])))"
proof (intro conjI impI)
  note casos = solicitar_casos [OF inv p t paso]
  show "M' = M" "evs = [Enviar socket (enviar_ok SEGMENTATION_FAULT)]" if "bloques_calcular_espacio_libre (bloques_libres M) < t"
    using casos(1) that by blast+
  assume "t \<le> bloques_calcular_espacio_libre (bloques_libres M) \<and>
     (posiciones (procesos M) \<noteq> [] \<or> (\<exists>e \<in> set (bloques_libres M). t \<le> b_tamanio e))"
  then obtain M1 b avisos where c: "mem_inv M'" "reubicada M M1" "memoria_de M1 = memoria_de M'" "b \<noteq> - 1" "i < length (procesos M1)"
      "evs = avisos @ [responder_segmento socket ident b t]"
      "procesos M' = (procesos M1)[i := (procesos M1 ! i)\<lparr>segmentos := segmentos (procesos M1 ! i) @
            [\<lparr>id_seg = ident, base = b, limite = t, swap_bloque_inicio = 0\<rparr>]\<rparr>]"
      "if \<exists>e \<in> set (bloques_libres M). t \<le> b_tamanio e then avisos = [] \<and> M1 = M else avisos \<noteq> []"
      "avisos = [] \<or> avisos = [Enviar (scheduler_socket (conx M)) (enviar_ok INICIAR_COMPACTACION),
                   Enviar (scheduler_socket (conx M)) (enviar_ok FINALIZAR_COMPACTACION)]"
    using casos(2) by blast
  then show "mem_inv M'" by blast
  note aparte = agregado_aparte [OF c(1,5,4,7)]
  show "\<exists>M1 b. reubicada M M1 \<and> memoria_de M1 = memoria_de M' \<and> i < length (procesos M1) \<and>
          procesos M' = (procesos M1)[i := (procesos M1 ! i)\<lparr>segmentos := segmentos (procesos M1 ! i) @
            [\<lparr>id_seg = ident, base = b, limite = t, swap_bloque_inicio = 0\<rparr>]\<rparr>] \<and>
          b \<noteq> - 1 \<and> unat b + unat t \<le> ram (conx M') \<and>
          rango b t \<inter> celdas (bloques_libres M') = {} \<and> rango b t \<inter> ocupadas (tramos (procesos M1)) = {} \<and>
          (if \<exists>e \<in> set (bloques_libres M). t \<le> b_tamanio e
           then M1 = M \<and> evs = [responder_segmento socket ident b t]
           else evs = [Enviar (scheduler_socket (conx M)) (enviar_ok INICIAR_COMPACTACION),
                       Enviar (scheduler_socket (conx M)) (enviar_ok FINALIZAR_COMPACTACION),
                       responder_segmento socket ident b t])"
    using c aparte by (intro exI [of _ M1] exI [of _ b]) (simp split: if_splits)
qed

lemma solicitar_segmento_correcto_witness:
  "\<exists>M' b. atender_scheduler (\<lambda>_. None) memoria_chica 3 (enviar_solicitar_segmento 1 2 2 @ enviar_ok INICIAR_COMPACTACION @ []) =
     (M', [Enviar (scheduler_socket (conx memoria_chica)) (enviar_ok INICIAR_COMPACTACION),
           Enviar (scheduler_socket (conx memoria_chica)) (enviar_ok FINALIZAR_COMPACTACION),
           responder_segmento 3 2 b 2], []) \<and> mem_inv M' \<and> b \<noteq> - 1 \<and> unat b + 2 \<le> ram (conx M')"
proof -
  let ?flujo = "enviar_solicitar_segmento 1 2 2 @ enviar_ok INICIAR_COMPACTACION @ []"
  obtain M' evs s' where r: "atender_scheduler (\<lambda>_. None) memoria_chica 3 ?flujo = (M', evs, s')" by (metis prod_cases3)
  have p: "procesos_buscar 1 (procesos memoria_chica) = Some 0"
    by (simp add: memoria_chica_def proceso_ejemplo_def procesos_buscar_def)
  have t: "0 < (2 :: u32)" "2 \<le> segment_max_size (config_memory memoria_chica)"
    by (simp_all add: memoria_chica_def)
  have e: "2 \<le> bloques_calcular_espacio_libre (bloques_libres memoria_chica)" "\<not> (\<exists>e \<in> set (bloques_libres memoria_chica). 2 \<le> b_tamanio e)"
    by (simp_all add: memoria_chica_def bloques_calcular_espacio_libre_def not_le)
  have "s' = []" using solicitar_casos(2) [OF mem_inv_chica p t r] e posiciones_chica by auto
  then show ?thesis using solicitar_segmento_correcto [OF mem_inv_chica p t r] e posiciones_chica r by auto
qed

section \<open>Removing segments\<close>

text \<open>Releasing a list of resident segments that are all part of the partition.\<close>

lemma liberar_segmentos_ok:
  assumes "bloques_inv N bl" "particion N (celdas bl) (tramos_segs gs @ ts)" "\<forall>t \<in> set (tramos_segs gs). cabe_en N t"
  shows "bloques_inv N (liberar_segmentos gs bl) \<and> particion N (celdas (liberar_segmentos gs bl)) ts \<and>
    celdas (liberar_segmentos gs bl) = celdas bl \<union> ocupadas (tramos_segs gs)"
  using assms
proof (induction gs arbitrary: bl)
  case (Cons g gs)
  show ?case
  proof (cases "residente g")
    case False
    then have "liberar_segmentos (g # gs) bl = liberar_segmentos gs bl" "tramos_segs (g # gs) = tramos_segs gs"
      by (simp_all add: residente_def)
    with Cons show ?thesis by metis
  next
    case True
    let ?bl = "bloques_liberar (base g) (limite g) bl"
    have p: "particion N (celdas bl) ((base g, limite g) # tramos_segs gs @ ts)"
      using Cons.prems(2) True by (simp add: tramo_seg_def)
    have c: "unat (base g) + unat (limite g) \<le> N" using Cons.prems(3) True by (simp add: cabe_en_def)
    from memoria.liberar_particion [OF Cons.prems(1) p, of 0 "base g" "limite g"] c
    have l: "bloques_inv N ?bl" "particion N (celdas ?bl) (tramos_segs gs @ ts)" by simp_all
    have "rango (base g) (limite g) \<inter> celdas bl = {}" using p by (auto simp: particion_def)
    note cel = bloques_liberar_ok(2) [OF Cons.prems(1) c this]
    have eqs: "liberar_segmentos (g # gs) bl = liberar_segmentos gs ?bl"
        "ocupadas (tramos_segs (g # gs)) = rango (base g) (limite g) \<union> ocupadas (tramos_segs gs)"
      using True by (simp_all add: residente_def tramo_seg_def)
    have "\<forall>t \<in> set (tramos_segs gs). cabe_en N t" using Cons.prems(3) by simp
    from Cons.IH [OF l this] show ?thesis unfolding eqs cel Un_assoc .
  qed
qed simp

lemma mem_inv_procesos:
  assumes inv: "mem_inv M" and bl: "bloques_inv (ram (conx M)) bl" "particion (ram (conx M)) (celdas bl) (tramos ps)"
    and sub: "set (tramos ps) \<subseteq> set (tramos (procesos M))"
  shows "mem_inv (M\<lparr>bloques_libres := bl, procesos := ps\<rparr>)"
  using assms by (auto simp: mem_inv_def)

lemma atender_finalizar:
  assumes p: "procesos_buscar pid (procesos M) = Some i" and gs: "gs = segmentos (procesos M ! i)"
  shows "atender_scheduler fopen M socket (enviar_finalizar_proceso_memory pid @ s) =
    (let M1 = M\<lparr>bloques_libres := liberar_segmentos gs (bloques_libres M), procesos := procesos_quitar_en i (procesos M)\<rparr>
     in (M1, Enviar socket (enviar_ok FINALIZAR_PROCESO) #
           (if list_ex residente gs then notificar_memoria_liberada M1 else []), s))"
  by (rule atender_mensaje [OF m_finalizar.ida_y_vuelta])
    (simp_all add: despachar_scheduler_def manejar_finalizar_proceso_def con_recv_Inr p gs Let_def residente_def [abs_def])

text \<open>
  Ending a process gives its memory back and nothing else: the memory stays consistent,
  the free cells grow by exactly the cells of the process's resident segments, the process
  leaves the table, the acknowledgement is sent, and the scheduler is told that memory was
  freed exactly when the process had a segment in RAM.
\<close>

theorem finalizar_proceso_correcto:
  assumes inv: "mem_inv M" and p: "procesos_buscar pid (procesos M) = Some i"
    and gs: "gs = segmentos (procesos M ! i)"
    and paso: "atender_scheduler fopen M socket (enviar_finalizar_proceso_memory pid @ s) = (M', evs, s')"
  shows "mem_inv M' \<and> s' = s \<and> procesos M' = procesos_quitar_en i (procesos M) \<and> memoria_de M' = memoria_de M \<and>
    celdas (bloques_libres M') = celdas (bloques_libres M) \<union> ocupadas (tramos_segs gs) \<and>
    evs = Enviar socket (enviar_ok FINALIZAR_PROCESO) #
      (if list_ex residente gs then notificar_memoria_liberada M' else [])"
proof -
  have i: "i < length (procesos M)" using procesos_buscar_SomeD [OF p] by simp
  let ?ps = "procesos_quitar_en i (procesos M)" and ?bl = "liberar_segmentos gs (bloques_libres M)"
  from paso have r: "M' = M\<lparr>bloques_libres := ?bl, procesos := ?ps\<rparr>" "s' = s"
    "evs = Enviar socket (enviar_ok FINALIZAR_PROCESO) #
       (if list_ex residente gs then notificar_memoria_liberada M' else [])"
    by (auto simp: atender_finalizar [OF p gs] Let_def)
  have m: "mset (tramos (procesos M)) = mset (tramos_segs gs @ tramos ?ps)"
    using i by (simp add: tramos_split [of i] tramos_quitar gs)
  then have sub: "set (tramos (procesos M)) = set (tramos_segs gs) \<union> set (tramos ?ps)"
    by (metis set_append set_mset_mset)
  have "particion (ram (conx M)) (celdas (bloques_libres M)) (tramos_segs gs @ tramos ?ps)"
    using inv particion_mset [OF m] by (simp add: mem_inv_def)
  then have l: "bloques_inv (ram (conx M)) ?bl \<and> particion (ram (conx M)) (celdas ?bl) (tramos ?ps) \<and>
      celdas ?bl = celdas (bloques_libres M) \<union> ocupadas (tramos_segs gs)"
    using inv sub by (intro liberar_segmentos_ok) (auto simp: mem_inv_def)
  then have "mem_inv M'" unfolding r(1) using inv sub by (intro mem_inv_procesos) auto
  then show ?thesis using l r by simp
qed

lemma finalizar_proceso_correcto_witness:
  "mem_inv (fst (atender_scheduler (\<lambda>_. None) memoria_chica 3 (enviar_finalizar_proceso_memory 1 @ []))) \<and>
   celdas (bloques_libres (fst (atender_scheduler (\<lambda>_. None) memoria_chica 3 (enviar_finalizar_proceso_memory 1 @ [])))) = {0 ..< 5}"
proof -
  let ?r = "atender_scheduler (\<lambda>_. None) memoria_chica 3 (enviar_finalizar_proceso_memory 1 @ [])"
  have p: "procesos_buscar 1 (procesos memoria_chica) = Some 0"
    by (simp add: memoria_chica_def proceso_ejemplo_def procesos_buscar_def)
  have "?r = (fst ?r, fst (snd ?r), snd (snd ?r))" by simp
  note f = finalizar_proceso_correcto [OF mem_inv_chica p refl this]
  have "celdas (bloques_libres memoria_chica) \<union> ocupadas (tramos_segs (segmentos (procesos memoria_chica ! 0))) = {0 ..< 5}"
    by (auto simp: memoria_chica_def proceso_ejemplo_def residente_def tramo_seg_def celdas_bloque_def rango_def)
  with f show ?thesis by simp
qed

lemma tramos_segs_quitar:
  "j < length gs \<Longrightarrow> residente (gs ! j) \<Longrightarrow> mset (tramos_segs gs) = mset (tramo_seg (gs ! j) # tramos_segs (list_remove gs j))"
  unfolding list_remove_def by (subst id_take_nth_drop [of j gs]) simp_all

lemma atender_eliminar:
  assumes "procesos_buscar pid (procesos M) = Some i"
    and "buscar_idx (\<lambda>g. id_seg g = ident) (segmentos (procesos M ! i)) = Some j"
    and "g = seg_en (procesos M) (i, j)"
    and "M1 = M\<lparr>bloques_libres := bloques_liberar (base g) (limite g) (bloques_libres M),
      procesos := (procesos M)[i := (procesos M ! i)\<lparr>segmentos := list_remove (segmentos (procesos M ! i)) j\<rparr>]\<rparr>"
  shows "atender_scheduler fopen M socket (enviar_eliminar_segmento pid ident @ s) =
    (M1, Enviar socket (enviar_ok ELIMINAR_SEGMENTO) # notificar_memoria_liberada M1, s)"
  by (rule atender_mensaje [OF m_eliminar.ida_y_vuelta [of "(pid, ident)", simplified]])
    (simp_all add: despachar_scheduler_def manejar_eliminar_segmento_def con_recv_Inr assms Let_def actualizar_proceso_def)

text \<open>
  Removing a segment that is in RAM keeps the memory consistent, gives back exactly its
  cells, drops it from the process's table, and acknowledges and notifies the scheduler.
\<close>

theorem eliminar_segmento_correcto:
  assumes inv: "mem_inv M" and p: "procesos_buscar pid (procesos M) = Some i"
    and j: "buscar_idx (\<lambda>g. id_seg g = ident) (segmentos (procesos M ! i)) = Some j"
    and g: "g = seg_en (procesos M) (i, j)" "residente g"
    and paso: "atender_scheduler fopen M socket (enviar_eliminar_segmento pid ident @ s) = (M', evs, s')"
  shows "mem_inv M' \<and> s' = s \<and> memoria_de M' = memoria_de M \<and>
    celdas (bloques_libres M') = celdas (bloques_libres M) \<union> rango (base g) (limite g) \<and>
    procesos M' = (procesos M)[i := (procesos M ! i)\<lparr>segmentos := list_remove (segmentos (procesos M ! i)) j\<rparr>] \<and>
    evs = Enviar socket (enviar_ok ELIMINAR_SEGMENTO) # notificar_memoria_liberada M'"
proof -
  have i: "i < length (procesos M)" using procesos_buscar_SomeD [OF p] by simp
  have jj: "j < length (segmentos (procesos M ! i))" "segmentos (procesos M ! i) ! j = g"
    using buscar_idx_SomeD [OF j] g by (auto simp: seg_en_def)
  let ?ps = "(procesos M)[i := (procesos M ! i)\<lparr>segmentos := list_remove (segmentos (procesos M ! i)) j\<rparr>]"
  let ?bl = "bloques_liberar (base g) (limite g) (bloques_libres M)"
  from atender_eliminar [OF p j g(1) refl, of fopen socket s] paso
  have r: "M' = M\<lparr>bloques_libres := ?bl, procesos := ?ps\<rparr>" "s' = s"
    "evs = Enviar socket (enviar_ok ELIMINAR_SEGMENTO) # notificar_memoria_liberada M'" by auto
  have m: "mset (tramos (procesos M)) = mset (tramos_segs [g] @ tramos ?ps)"
    using i tramos_segs_quitar [OF jj(1)] jj(2) g(2) by (simp add: tramos_split [of i] tramos_update)
  then have sub: "set (tramos (procesos M)) = set (tramos_segs [g]) \<union> set (tramos ?ps)"
    by (metis set_append set_mset_mset)
  have "particion (ram (conx M)) (celdas (bloques_libres M)) (tramos_segs [g] @ tramos ?ps)"
    using inv particion_mset [OF m] by (simp add: mem_inv_def)
  then have l: "bloques_inv (ram (conx M)) (liberar_segmentos [g] (bloques_libres M)) \<and>
      particion (ram (conx M)) (celdas (liberar_segmentos [g] (bloques_libres M))) (tramos ?ps) \<and>
      celdas (liberar_segmentos [g] (bloques_libres M)) = celdas (bloques_libres M) \<union> ocupadas (tramos_segs [g])"
    using inv sub by (intro liberar_segmentos_ok) (auto simp: mem_inv_def)
  have "liberar_segmentos [g] (bloques_libres M) = ?bl" using g(2) by (simp add: residente_def)
  note l = l [unfolded this]
  then have "mem_inv M'" unfolding r(1) using inv sub by (intro mem_inv_procesos) auto
  then show ?thesis using l r g(2) by (simp add: tramo_seg_def)
qed

lemma eliminar_segmento_correcto_witness:
  "mem_inv (fst (atender_scheduler (\<lambda>_. None) memoria_chica 3 (enviar_eliminar_segmento 1 1 @ [])))"
proof -
  let ?r = "atender_scheduler (\<lambda>_. None) memoria_chica 3 (enviar_eliminar_segmento 1 1 @ [])"
  have p: "procesos_buscar 1 (procesos memoria_chica) = Some 0"
    by (simp add: memoria_chica_def proceso_ejemplo_def procesos_buscar_def)
  have j: "buscar_idx (\<lambda>g. id_seg g = 1) (segmentos (procesos memoria_chica ! 0)) = Some 1"
    by (simp add: memoria_chica_def proceso_ejemplo_def)
  have g: "residente (seg_en (procesos memoria_chica) (0, 1))"
    by (simp add: memoria_chica_def proceso_ejemplo_def seg_en_def residente_def)
  have "?r = (fst ?r, fst (snd ?r), snd (snd ?r))" by simp
  from eliminar_segmento_correcto [OF mem_inv_chica p j refl g this] show ?thesis by simp
qed

text \<open>The small memory with the second segment of process 1 in swap.\<close>

definition memoria_suspendida :: t_memoria where
  "memoria_suspendida = memoria_chica
     \<lparr>bloques_libres := [\<lparr>b_base = 0, b_tamanio = 1\<rparr>, \<lparr>b_base = 3, b_tamanio = 2\<rparr>],
      procesos := [proceso_ejemplo\<lparr>segmentos :=
        [\<lparr>id_seg = 0, base = 1, limite = 2, swap_bloque_inicio = 0\<rparr>,
         \<lparr>id_seg = 1, base = - 1, limite = 1, swap_bloque_inicio = 0\<rparr>]\<rparr>]\<rparr>"

lemma mem_inv_suspendida: "mem_inv memoria_suspendida"
proof -
  have t: "tramos (procesos memoria_suspendida) = [(1, 2)]"
    by (simp add: memoria_suspendida_def residente_def tramo_seg_def)
  have "celdas (bloques_libres memoria_suspendida) = {0, 3, 4}"
    by (auto simp: memoria_suspendida_def celdas_bloque_def rango_def)
  moreover have "rango 1 2 = {1, 2}" by (auto simp: rango_def)
  moreover have "conx memoria_suspendida = conexiones_ejemplo" "red_sticks memoria_suspendida = red_ejemplo"
    by (simp_all add: memoria_suspendida_def memoria_chica_def)
  moreover have "bloques_inv 5 (bloques_libres memoria_suspendida)"
    by (auto simp: memoria_suspendida_def bloque_en_def celdas_bloque_def rango_def)
  ultimately show ?thesis
    unfolding mem_inv_def t by (auto simp: red_ok_ejemplo particion_def cabe_en_def)
qed

text \<open>
  \<open>manejar_eliminar_segmento\<close> does not test for a segment in swap (as
  \<open>manejar_finalizar_proceso\<close> does): removing one releases the range that starts at the
  sentinel base \<open>(uint32_t)-1\<close>, and the free list of a consistent memory stops being one.
\<close>

theorem eliminar_suspendido_corrompe:
  "mem_inv memoria_suspendida \<and>
   \<not> mem_inv (fst (atender_scheduler (\<lambda>_. None) memoria_suspendida 3 (enviar_eliminar_segmento 1 1 @ [])))"
proof -
  let ?M = memoria_suspendida
  let ?g = "\<lparr>id_seg = 1, base = - 1, limite = 1, swap_bloque_inicio = 0\<rparr>"
  have p: "procesos_buscar 1 (procesos ?M) = Some 0"
    by (simp add: memoria_suspendida_def proceso_ejemplo_def procesos_buscar_def)
  have j: "buscar_idx (\<lambda>g. id_seg g = 1) (segmentos (procesos ?M ! 0)) = Some 1" "?g = seg_en (procesos ?M) (0, 1)"
    by (simp_all add: memoria_suspendida_def seg_en_def)
  have "bloques_liberar (- 1) 1 [\<lparr>b_base = 0, b_tamanio = 1\<rparr>, \<lparr>b_base = 3, b_tamanio = 2\<rparr>] =
      [\<lparr>b_base = 3, b_tamanio = 2\<rparr>, \<lparr>b_base = - 1, b_tamanio = 2\<rparr>]" by code_simp
  then have "bloques_libres (fst (atender_scheduler (\<lambda>_. None) ?M 3 (enviar_eliminar_segmento 1 1 @ []))) =
      [\<lparr>b_base = 3, b_tamanio = 2\<rparr>, \<lparr>b_base = - 1, b_tamanio = 2\<rparr>]"
    unfolding atender_eliminar [OF p j refl] by (simp add: memoria_suspendida_def)
  moreover have "conx (fst (atender_scheduler (\<lambda>_. None) ?M 3 (enviar_eliminar_segmento 1 1 @ []))) = conexiones_ejemplo"
    unfolding atender_eliminar [OF p j refl] by (simp add: memoria_suspendida_def memoria_chica_def)
  ultimately have "\<not> mem_inv (fst (atender_scheduler (\<lambda>_. None) ?M 3 (enviar_eliminar_segmento 1 1 @ [])))"
    by (simp add: mem_inv_def bloque_en_def)
  then show ?thesis using mem_inv_suspendida by blast
qed

end
