(* ===== verification/Io_Modulo.thy ===== *)
theory Io_Modulo
  imports Mensajes
begin

text \<open>
  The IO module (\<open>io/src\<close>): its configuration, its handshake and the loop of \<open>main.c\<close>, which
  serves the requests of the scheduler one at a time. \<open>k\<close> is what is left to read on the
  standard input, a byte list; the answers are the bytes that go to the only socket. The device
  reads its requests with bare \<open>recv\<close>s, without looking at the length field: a connection that
  is lost in the middle of a request leaves variables uninitialised, and there the model is
  \<open>None\<close>. The sleep itself and what is printed are not modelled.
\<close>

section \<open>Configuration and handshake\<close>

record t_config_io =
  cio_log_level :: "string option"
  cio_scheduler_ip :: "string option"
  cio_scheduler_port :: "string option"
  cio_io_name :: string

text \<open>\<open>tiene\<close> and \<open>cadena\<close> are the lookups of the configuration library.\<close>

definition load_config_io :: "(string \<Rightarrow> bool) \<Rightarrow> (string \<Rightarrow> string option) \<Rightarrow> string \<Rightarrow> t_config_io option" where
  "load_config_io tiene cadena nombre =
     (if \<not> tiene ''LOG_LEVEL'' \<or> \<not> tiene ''SCHEDULER_IP'' \<or> \<not> tiene ''SCHEDULER_PORT'' then None
      else Some \<lparr>cio_log_level = cadena ''LOG_LEVEL'', cio_scheduler_ip = cadena ''SCHEDULER_IP'',
                 cio_scheduler_port = cadena ''SCHEDULER_PORT'', cio_io_name = nombre\<rparr>)"

text \<open>\<open>conexion\<close> is the result of \<open>crear_conexion\<close>. The name clashes with the one of the CPU module.\<close>

definition io_conectar_a_scheduler :: "i32 \<Rightarrow> string \<Rightarrow> byte list option" where
  "io_conectar_a_scheduler conexion nombre = (if conexion = - 1 then None else Some (enviar_handshake_io nombre))"

section \<open>Requests\<close>

definition recv_tam :: "u64 recv" where
  "recv_tam = recv_bind (recv_bytes 8) (\<lambda>bs. recv_ret (word_le bs))"

definition recv_dos_int :: "(i32 \<times> i32) recv" where
  "recv_dos_int = recv_bind recv_tam (\<lambda>_. recv_bind recv_int (\<lambda>a. recv_bind recv_int (\<lambda>b. recv_ret (a, b))))"

text \<open>\<open>fgets(linea, 4096, stdin)\<close>: at most 4095 bytes, up to and with the first end of line.\<close>

definition LINEA_MAX :: nat where
  "LINEA_MAX = 4095"

definition leer_linea :: "byte list \<Rightarrow> byte list option \<times> byte list" where
  "leer_linea k =
     (if k = [] then (None, [])
      else
        let l = takeWhile (\<lambda>b. b \<noteq> 10) k
        in if length l \<ge> LINEA_MAX then (Some (take LINEA_MAX k), drop LINEA_MAX k)
           else (Some (take (length l + 1) k), drop (length l + 1) k))"

text \<open>\<open>strlen\<close> stops at the first zero byte; a final end of line is dropped.\<close>

definition texto_de_linea :: "byte list \<Rightarrow> byte list" where
  "texto_de_linea linea =
     (let t = takeWhile (\<lambda>b. b \<noteq> 0) linea in if t \<noteq> [] \<and> last t = 10 then butlast t else t)"

text \<open>The buffer of \<open>cantidad\<close> zero bytes after the \<open>memcpy\<close>.\<close>

definition buffer_stdin :: "nat \<Rightarrow> byte list option \<Rightarrow> byte list" where
  "buffer_stdin n linea =
     (case linea of
        None \<Rightarrow> replicate n 0
      | Some l \<Rightarrow> (let t = take n (texto_de_linea l) in t @ replicate (n - length t) 0))"

definition atender_io_sleep :: "byte list \<Rightarrow> (byte list \<times> byte list) option" where
  "atender_io_sleep s = (case recv_dos_int s of Inl e \<Rightarrow> None | Inr ((pid, tiempo_ms), s') \<Rightarrow> Some (enviar_fin_io pid, s'))"

text \<open>A negative amount is a \<open>calloc\<close> of almost the whole address space, which fails: no answer.\<close>

definition atender_io_stdin :: "byte list \<Rightarrow> byte list \<Rightarrow> (byte list \<times> byte list \<times> byte list) option" where
  "atender_io_stdin k s =
     (case recv_dos_int s of
        Inl e \<Rightarrow> None
      | Inr ((pid, cantidad), s') \<Rightarrow>
          if cantidad <s 0 then Some (k, [], s')
          else let (linea, k') = leer_linea k in Some (k', enviar_datos_stdin pid (buffer_stdin (cuenta cantidad) linea), s'))"

text \<open>
  The length of the text is \<open>size - 4\<close> as an \<open>int\<close>. A negative one asks \<open>malloc\<close> for too much, no
  answer; \<open>-1\<close> and the largest \<open>int\<close>, where \<open>buffer_size + 1\<close> is 0 or overflows, are undefined.
\<close>

definition atender_io_stdout :: "byte list \<Rightarrow> (byte list \<times> byte list) option" where
  "atender_io_stdout s =
     (case recv_bind recv_tam (\<lambda>tam. recv_bind recv_int (\<lambda>pid. recv_ret (tam, pid))) s of
        Inl e \<Rightarrow> None
      | Inr ((tam, pid), s1) \<Rightarrow>
          let buffer_size = ucast (tam - 4) :: i32
          in if buffer_size = - 1 \<or> sint buffer_size = 2 ^ 31 - 1 then None
             else if buffer_size <s 0 then Some ([], s1)
             else case recv_bytes (cuenta buffer_size) s1 of Inl e \<Rightarrow> None | Inr (texto, s2) \<Rightarrow> Some (enviar_fin_io pid, s2))"

definition io_despachar :: "u32 \<Rightarrow> byte list \<Rightarrow> byte list \<Rightarrow> (byte list \<times> byte list \<times> byte list) option" where
  "io_despachar opcode k s =
     (case op_de_num opcode of
        Some IO_SLEEP \<Rightarrow> map_option (\<lambda>(r, s'). (k, r, s')) (atender_io_sleep s)
      | Some IO_STDIN \<Rightarrow> atender_io_stdin k s
      | Some IO_STDOUT \<Rightarrow> map_option (\<lambda>(r, s'). (k, r, s')) (atender_io_stdout s)
      | _ \<Rightarrow> Some (k, [], s))"

lemma acorta_io [simp]: "acorta recv_tam" "acorta recv_dos_int"
  unfolding recv_tam_def recv_dos_int_def by (auto intro!: acorta_bind simp: recv_tam_def)

lemma io_despachar_acorta: "io_despachar op k s = Some (k', r, s') \<Longrightarrow> length s' \<le> length s"
proof -
  have a: "acorta (recv_bind recv_tam (\<lambda>tam. recv_bind recv_int (\<lambda>pid. recv_ret (tam, pid))))" by (auto intro!: acorta_bind)
  assume "io_despachar op k s = Some (k', r, s')"
  then show ?thesis
    by (auto simp: io_despachar_def atender_io_sleep_def atender_io_stdin_def atender_io_stdout_def Let_def
        split: option.splits op_code.splits sum.splits if_splits prod.splits
        dest!: acortaD [OF acorta_io(2)] acortaD [OF a] acortaD [OF acorta_basicas(2)])
qed

text \<open>The loop of \<open>main\<close>, until the scheduler closes the socket.\<close>

function io_main :: "byte list \<Rightarrow> byte list \<Rightarrow> (byte list \<times> byte list) option" where
  "io_main k s =
     (let (opcode, s1) = recibir_codigo_operacion s
      in if opcode = - 1 then Some (k, [])
         else case io_despachar opcode k s1 of
           None \<Rightarrow> None
         | Some (k', r, s2) \<Rightarrow> map_option (\<lambda>(k'', r'). (k'', r @ r')) (io_main k' s2))"
  by pat_completeness auto
termination
proof (relation "measure (\<lambda>(k, s). length s)", goal_cases)
  case (2 k s x opcode s1 y k' z r s2)
  then show ?case using recibir_codigo_acorta [of s opcode s1] io_despachar_acorta [of opcode k s1 k' r s2] by simp
qed simp

declare io_main.simps [simp del]

section \<open>One request of the scheduler\<close>

lemma length_buffer_stdin [simp]: "length (buffer_stdin n l) = n"
  by (simp add: buffer_stdin_def Let_def split: option.split)

lemma recv_tam_bytes [wire_simps]: "recv_tam (bytes_le 8 (w :: u64) @ s) = Inr (w, s)"
  by (simp add: recv_tam_def recv_bind_def recv_ret_def recv_bytes_append)

lemma recv_dos_int_bytes [wire_simps]:
  "recv_dos_int (bytes_le 8 (w :: u64) @ bytes_int a @ bytes_int b @ s) = Inr ((a, b), s)"
  by (simp add: recv_dos_int_def wire_simps)

lemma recv_tam_pid_bytes:
  "recv_bind recv_tam (\<lambda>tam. recv_bind recv_int (\<lambda>pid. recv_ret (tam, pid))) (bytes_le 8 (w :: u64) @ bytes_int a @ s) = Inr ((w, a), s)"
  by (simp add: wire_simps)

lemma io_main_uno:
  assumes "recibir_codigo_operacion s = (op_num c, m)" "io_despachar (op_num c) k m = Some (k', r, [])"
  shows "io_main k s = Some (k', r)"
proof -
  have "io_main k' [] = Some (k', [])" by (simp add: io_main.simps [of k' "[]"])
  then show ?thesis using assms by (simp add: io_main.simps [of k s])
qed

lemma io_responde_sleep: "io_main k (enviar_io_sleep pid ms) = Some (k, enviar_fin_io pid)"
  by (rule io_main_uno [where c = IO_SLEEP and m = "bytes_le 8 (of_nat 8 :: u64) @ bytes_int pid @ bytes_int ms"])
    (use recv_dos_int_bytes [of "of_nat 8" pid ms "[]"] in
      \<open>simp_all add: enviar_io_sleep_def enviar_dos_int_def io_despachar_def atender_io_sleep_def wire_simps corto_def\<close>)

lemma io_responde_stdin:
  assumes "\<not> n <s 0"
  shows "io_main k (enviar_io_stdin pid n) = Some (snd (leer_linea k), enviar_datos_stdin pid (buffer_stdin (cuenta n) (fst (leer_linea k))))"
  by (rule io_main_uno [where c = IO_STDIN and m = "bytes_le 8 (of_nat 8 :: u64) @ bytes_int pid @ bytes_int n"])
    (use recv_dos_int_bytes [of "of_nat 8" pid n "[]"] assms in
      \<open>simp_all add: enviar_io_stdin_def enviar_dos_int_def io_despachar_def atender_io_stdin_def wire_simps corto_def split: prod.split\<close>)

lemma io_no_responde_stdin: "n <s 0 \<Longrightarrow> io_main k (enviar_io_stdin pid n) = Some (k, [])"
  by (rule io_main_uno [where c = IO_STDIN and m = "bytes_le 8 (of_nat 8 :: u64) @ bytes_int pid @ bytes_int n"])
    (use recv_dos_int_bytes [of "of_nat 8" pid n "[]"] in
      \<open>simp_all add: enviar_io_stdin_def enviar_dos_int_def io_despachar_def atender_io_stdin_def wire_simps corto_def\<close>)

lemma io_responde_stdout:
  assumes "length d < 2 ^ 31 - 100"
  shows "io_main k (enviar_io_stdout pid d) = Some (k, enviar_fin_io pid)"
proof (rule io_main_uno [where c = IO_STDOUT and m = "bytes_le 8 (of_nat (4 + length d) :: u64) @ bytes_int pid @ d"])
  have c: "corto (bytes_int pid @ d)" using assms by (simp add: corto_def)
  show "recibir_codigo_operacion (enviar_io_stdout pid d) = (op_num IO_STDOUT, bytes_le 8 (of_nat (4 + length d) :: u64) @ bytes_int pid @ d)"
    using c by (simp add: enviar_io_stdout_def enviar_int_datos_def wire_simps)
  have "ucast (of_nat (4 + length d) - 4 :: u64) = (of_nat (length d) :: i32)" using assms by (simp add: unsigned_of_nat take_bit_nat_eq_self)
  moreover have "sint (of_nat (length d) :: i32) = int (length d)" using assms by (simp add: sint_of_nat_small)
  moreover from this have "(of_nat (length d) :: i32) \<noteq> - 1" by auto
  moreover have "recv_bytes (length d) d = Inr (d, [])" by (simp add: recv_bytes_def)
  ultimately show "io_despachar (op_num IO_STDOUT) k (bytes_le 8 (of_nat (4 + length d) :: u64) @ bytes_int pid @ d) = Some (k, enviar_fin_io pid, [])"
    using assms by (simp add: io_despachar_def atender_io_stdout_def recv_tam_pid_bytes Let_def word_sless_alt del: of_nat_add)
qed

end
