(* ===== verification/Composicion.thy ===== *)
theory Composicion
  imports Sched_Syscalls Segmentos Io_Modulo
begin

text \<open>
  The Kernel Scheduler and Kernel Memory together: what \<open>memory_scheduler.c\<close> writes on the
  socket of the scheduler is what \<open>memory_protocol.c\<close> reads, and the other way round.
\<close>

section \<open>Notifications of a compaction\<close>

lemma respuesta_tras_inicio:
  "recibir_respuesta_de_memoria mem S (enviar_ok INICIAR_COMPACTACION @ s) =
    map_option (\<lambda>(S', ev, op, s'). (S', desalojar_todos_procesos S @ [Enviar mem (enviar_ok INICIAR_COMPACTACION)] @ ev, op, s'))
      (recibir_respuesta_de_memoria mem (S\<lparr>compactacion_activa := True\<rparr>) s)"
proof -
  obtain s1 where "recibir_codigo_operacion (enviar_ok INICIAR_COMPACTACION @ s) = (op_num INICIAR_COMPACTACION, s1)"
      "recibir_ok s1 = Inr ((), s)"
    by (rule recibir_ack)
  moreover have "desalojar_todos_procesos (S\<lparr>compactacion_activa := True\<rparr>) = desalojar_todos_procesos S"
    by (simp add: desalojar_todos_procesos_def)
  ultimately show ?thesis
    using respuesta_avisada [of "enviar_ok INICIAR_COMPACTACION @ s" INICIAR_COMPACTACION s1 mem S "S\<lparr>compactacion_activa := True\<rparr>"
        "desalojar_todos_procesos S @ [Enviar mem (enviar_ok INICIAR_COMPACTACION)]" s]
    by (simp add: despachar_si_es_notificacion_def manejar_compactacion_inicio_def)
qed

lemma respuesta_tras_fin:
  "recibir_respuesta_de_memoria mem S (enviar_ok FINALIZAR_COMPACTACION @ s) =
    recibir_respuesta_de_memoria mem (manejar_compactacion_fin S) s"
proof -
  obtain s1 where "recibir_codigo_operacion (enviar_ok FINALIZAR_COMPACTACION @ s) = (op_num FINALIZAR_COMPACTACION, s1)"
      "recibir_ok s1 = Inr ((), s)"
    by (rule recibir_ack)
  then show ?thesis
    using respuesta_avisada [of "enviar_ok FINALIZAR_COMPACTACION @ s" FINALIZAR_COMPACTACION s1 mem S "manejar_compactacion_fin S" "[]" s]
    by (simp add: despachar_si_es_notificacion_def option.map_ident case_prod_beta')
qed

section \<open>MEM\_ALLOC\<close>

interpretation m_respuesta_segmento: mensaje SOLICITAR_SEGMENTO "\<lambda>(i, b, l). bytes_u32 i @ bytes_u32 b @ bytes_u32 l"
    "\<lambda>(i, b, l). enviar_paquete (agregar_a_paquete (agregar_a_paquete (agregar_a_paquete
       (crear_paquete SOLICITAR_SEGMENTO) (bytes_u32 i)) (bytes_u32 b)) (bytes_u32 l))" recibir_respuesta_segmento "\<lambda>_. True"
  by (rule mensajeI [OF _ _ recibir_respuesta_segmento_def]) (auto simp: wire_simps corto_def)

lemma desalojos_no_a: "\<forall>c \<in> set (sc_cpus S). c_socket c \<noteq> mem \<Longrightarrow> respuesta_en mem (desalojar_todos_procesos S) = []"
proof -
  have "respuesta_en mem (concat (map f cs)) = []" if "\<forall>c \<in> set cs. respuesta_en mem (f c) = []" for f :: "t_cpu \<Rightarrow> evento list" and cs
    using that by (induction cs) auto
  then show "\<forall>c \<in> set (sc_cpus S). c_socket c \<noteq> mem \<Longrightarrow> respuesta_en mem (desalojar_todos_procesos S) = []"
    by (auto simp: desalojar_todos_procesos_def split: option.split)
qed

lemma buscar_idx_actualizar: "buscar_idx P xs = Some k \<Longrightarrow> P y \<Longrightarrow> buscar_idx P (xs[k := y]) = Some k"
proof (induction xs arbitrary: k)
  case (Cons x xs)
  then show ?case by (cases k) (auto split: if_splits)
qed simp

text \<open>A process whose CPU was reserved goes back to it.\<close>

lemma vuelta_a_cpu:
  assumes "cpu_con_id cpu S = Some c" "c_socket c \<noteq> - 1"
  obtains S' where "volver_a_cpu p cpu S ev s = Some (S', ev @ [Enviar (c_socket c) (enviar_pid p)], s)"
    "pcbs S' = pcbs S" "compactacion_activa S' = compactacion_activa S" "map_option proceso_actual (cpu_con_id cpu S') = Some (Some p)"
proof -
  obtain k where k: "buscar_idx (\<lambda>c. c_id c = cpu) (sc_cpus S) = Some k" "sc_cpus S ! k = c"
    using assms(1) by (auto simp: cpu_con_id_def)
  have kl: "k < length (sc_cpus S)" "c_id c = cpu" using buscar_idx_SomeD [OF k(1)] k(2) by auto
  obtain S' ev' where d: "devolver_proceso_a_misma_cpu cpu p S = (S', ev', True)" "ev' = [Enviar (c_socket c) (enviar_pid p)]"
    using assms by (simp add: devolver_proceso_a_misma_cpu_def Let_def)
  moreover have "pcbs S' = pcbs S" "compactacion_activa S' = compactacion_activa S" "map_option proceso_actual (cpu_con_id cpu S') = Some (Some p)"
    using d assms k kl
    by (auto simp: devolver_proceso_a_misma_cpu_def Let_def iniciar_quantum_timer_def actualizar_cpu_def cpu_con_id_def buscar_idx_actualizar
        split: if_splits)
  ultimately show thesis using that by (simp add: volver_a_cpu_def)
qed

text \<open>The answer, with or without the two notifications in front of it.\<close>

lemma alloc_respondido:
  assumes "cpu_con_id cpu S = Some c" "c_socket c \<noteq> - 1" "atoi x = ident" "atoi y = t" "pcbs S p = Some b"
    and "responder_segmento sock ident base0 t = Enviar sock resp"
    and "recibir_respuesta_de_memoria mem S0 s = map_option (\<lambda>(S', ev, op, s'). (S', av @ ev, op, s')) (recibir_respuesta_de_memoria mem S (resp @ r))"
  obtains S' where "syscall_mem_alloc mem p [x, y] cpu S0 s =
      Some (S', Enviar mem (enviar_solicitar_segmento p ident t) # av @ [Enviar (c_socket c) (enviar_pid p)], r)"
    "pcbs S' p = Some (registrar_segmento ident t b)" "compactacion_activa S' = compactacion_activa S"
    "map_option proceso_actual (cpu_con_id cpu S') = Some (Some p)"
proof -
  let ?S1 = "actualizar_pcb p (registrar_segmento ident t) S"
  obtain s1 where "recibir_codigo_operacion (resp @ r) = (op_num SOLICITAR_SEGMENTO, s1)"
      and s1: "recibir_respuesta_segmento s1 = Inr ((ident, base0, t), r)"
    using recibir_mensajeD [OF m_respuesta_segmento.ida_y_vuelta [of "(ident, base0, t)" r]] assms(6)
    by (auto simp: responder_segmento_def)
  then have rr: "recibir_respuesta_de_memoria mem S0 s = Some (S, av, op_num SOLICITAR_SEGMENTO, s1)"
    using respuesta_directa [of "resp @ r" SOLICITAR_SEGMENTO s1 mem S] assms(7) by (simp add: es_notificacion_def)
  have "cpu_con_id cpu ?S1 = Some c" using assms(1) by (simp add: cpu_con_id_def actualizar_pcb_def)
  then obtain S' where v: "volver_a_cpu p cpu ?S1 (Enviar mem (enviar_solicitar_segmento p ident t) # av) r =
      Some (S', (Enviar mem (enviar_solicitar_segmento p ident t) # av) @ [Enviar (c_socket c) (enviar_pid p)], r)"
      "pcbs S' = pcbs ?S1" "compactacion_activa S' = compactacion_activa ?S1" "map_option proceso_actual (cpu_con_id cpu S') = Some (Some p)"
    using vuelta_a_cpu assms(2) by blast
  have "op_num SOLICITAR_SEGMENTO \<noteq> op_num SEGMENTATION_FAULT" by simp
  then have "syscall_mem_alloc mem p [x, y] cpu S0 s =
      Some (S', Enviar mem (enviar_solicitar_segmento p ident t) # av @ [Enviar (c_socket c) (enviar_pid p)], r)"
    using rr s1 v(1) assms(3,4) by (simp add: syscall_mem_alloc_def Let_def)
  then show thesis using that v assms(5) by (simp add: actualizar_pcb_def)
qed

text \<open>
  C22. \<open>MEM_ALLOC\<close> from end to end. A process that is on a CPU asks for a segment; Kernel Memory,
  consistent and with enough space, serves the request, compacting the RAM first when no hole is
  large enough. The two ends understand each other: the scheduler reads all that Kernel Memory
  sends and no more, and what it writes to Kernel Memory (the request and, when there was a
  compaction, the acknowledgement of its start) is exactly what Kernel Memory consumed. At the end
  both have the same new segment, the process is back on the CPU that it had, and the scheduler is
  not left in a compaction.
\<close>

theorem mem_alloc_de_punta_a_punta:
  assumes mem: "mem_inv M" "procesos_buscar p (procesos M) = Some i" "0 < t" "t \<le> segment_max_size (config_memory M)"
      "t \<le> bloques_calcular_espacio_libre (bloques_libres M)"
      "posiciones (procesos M) \<noteq> [] \<or> (\<exists>e \<in> set (bloques_libres M). t \<le> b_tamanio e)" "sock = scheduler_socket (conx M)"
    and paso: "atender_scheduler fopen M sock (enviar_solicitar_segmento p ident t @ enviar_ok INICIAR_COMPACTACION @ s) = (M', evs, s')"
    and sched: "pcbs S p = Some b" "cpu_con_id cpu S = Some c" "c_socket c \<noteq> - 1" "\<not> compactacion_activa S"
      "\<forall>c \<in> set (sc_cpus S). c_socket c \<noteq> m" "atoi x = ident" "atoi y = t"
  shows "mem_inv M' \<and>
    (\<exists>S' ev b0. syscall_mem_alloc m p [x, y] cpu S (respuesta_en sock evs @ r) = Some (S', ev, r) \<and>
      respuesta_en m ev @ s' = enviar_solicitar_segmento p ident t @ enviar_ok INICIAR_COMPACTACION @ s \<and>
      last (segmentos (procesos M' ! i)) = \<lparr>id_seg = ident, base = b0, limite = t, swap_bloque_inicio = 0\<rparr> \<and>
      pcbs S' p = Some (registrar_segmento ident t b) \<and> map_option proceso_actual (cpu_con_id cpu S') = Some (Some p) \<and>
      last ev = Enviar (c_socket c) (enviar_pid p) \<and> \<not> compactacion_activa S')"
proof -
  obtain M1 :: t_memoria and b0 avisos where mem': "mem_inv M'" "i < length (procesos M1)" "evs = avisos @ [responder_segmento sock ident b0 t]"
      "procesos M' = (procesos M1)[i := (procesos M1 ! i)\<lparr>segmentos := segmentos (procesos M1 ! i) @
            [\<lparr>id_seg = ident, base = b0, limite = t, swap_bloque_inicio = 0\<rparr>]\<rparr>]"
    and av: "avisos = [] \<and> s' = enviar_ok INICIAR_COMPACTACION @ s \<or>
      avisos = [Enviar sock (enviar_ok INICIAR_COMPACTACION), Enviar sock (enviar_ok FINALIZAR_COMPACTACION)] \<and> s' = s"
    using solicitar_casos(2) [OF mem(1-4) paso mem(5,6), folded mem(7)] by blast
  obtain resp where resp: "responder_segmento sock ident b0 t = Enviar sock resp" by (simp add: responder_segmento_def)
  let ?S2 = "manejar_compactacion_fin (S\<lparr>compactacion_activa := True\<rparr>)"
  let ?d = "desalojar_todos_procesos S @ [Enviar m (enviar_ok INICIAR_COMPACTACION)]"
  have cc: "c_socket c \<noteq> m"
  proof -
    obtain k where "buscar_idx (\<lambda>c. c_id c = cpu) (sc_cpus S) = Some k" "sc_cpus S ! k = c" using sched(2) by (auto simp: cpu_con_id_def)
    then have "c \<in> set (sc_cpus S)" using buscar_idx_SomeD by (metis nth_mem)
    then show ?thesis using sched(5) by blast
  qed
  have "\<exists>S' av'. syscall_mem_alloc m p [x, y] cpu S (respuesta_en sock evs @ r) =
        Some (S', Enviar m (enviar_solicitar_segmento p ident t) # av' @ [Enviar (c_socket c) (enviar_pid p)], r) \<and>
      respuesta_en m av' @ s' = enviar_ok INICIAR_COMPACTACION @ s \<and> pcbs S' p = Some (registrar_segmento ident t b) \<and>
      \<not> compactacion_activa S' \<and> map_option proceso_actual (cpu_con_id cpu S') = Some (Some p)"
    using av
  proof (elim disjE conjE)
    assume n: "avisos = []" "s' = enviar_ok INICIAR_COMPACTACION @ s"
    then have "recibir_respuesta_de_memoria m S (respuesta_en sock evs @ r) =
        map_option (\<lambda>(S', ev, op, s'). (S', [] @ ev, op, s')) (recibir_respuesta_de_memoria m S (resp @ r))"
      by (simp add: mem'(3) resp option.map_ident case_prod_beta')
    from alloc_respondido [OF sched(2,3,6,7,1) resp this] show ?thesis using n(2) sched(4) by (metis append_Nil respuesta_en_simps(1))
  next
    assume n: "avisos = [Enviar sock (enviar_ok INICIAR_COMPACTACION), Enviar sock (enviar_ok FINALIZAR_COMPACTACION)]" "s' = s"
    then have rr: "recibir_respuesta_de_memoria m S (respuesta_en sock evs @ r) =
        map_option (\<lambda>(S', ev, op, s'). (S', ?d @ ev, op, s')) (recibir_respuesta_de_memoria m ?S2 (resp @ r))"
      by (simp add: mem'(3) resp respuesta_tras_inicio respuesta_tras_fin)
    have S2: "cpu_con_id cpu ?S2 = Some c" "pcbs ?S2 p = Some b" "\<not> compactacion_activa ?S2"
      using sched(1,2) by (simp_all add: manejar_compactacion_fin_def notificar_reevaluar_suspendidos_def cpu_con_id_def)
    have "respuesta_en m ?d @ s' = enviar_ok INICIAR_COMPACTACION @ s" using desalojos_no_a [OF sched(5)] n(2) by simp
    then show ?thesis using alloc_respondido [OF S2(1) sched(3,6,7) S2(2) resp rr] S2(3) by metis
  qed
  then obtain S' av' where f: "syscall_mem_alloc m p [x, y] cpu S (respuesta_en sock evs @ r) =
        Some (S', Enviar m (enviar_solicitar_segmento p ident t) # av' @ [Enviar (c_socket c) (enviar_pid p)], r)"
      "respuesta_en m av' @ s' = enviar_ok INICIAR_COMPACTACION @ s" "pcbs S' p = Some (registrar_segmento ident t b)"
      "\<not> compactacion_activa S'" "map_option proceso_actual (cpu_con_id cpu S') = Some (Some p)"
    by blast
  moreover have "last (segmentos (procesos M' ! i)) = \<lparr>id_seg = ident, base = b0, limite = t, swap_bloque_inicio = 0\<rparr>"
    using mem'(2,4) by simp
  ultimately show ?thesis using mem'(1) cc by (intro conjI exI [of _ S'] exI [of _ b0]) auto
qed

definition scheduler_en_syscall :: t_scheduler where
  "scheduler_en_syscall = scheduler_ejemplo\<lparr>sc_cpus := [\<lparr>c_socket = 7, c_id = 1, disponible = False, proceso_actual = None,
     timer_activo = False, timer_pid = 0\<rparr>]\<rparr>"

lemma mem_alloc_de_punta_a_punta_witness:
  "\<exists>M' evs s' S' ev. atender_scheduler (\<lambda>_. None) memoria_chica (scheduler_socket (conx memoria_chica))
       (enviar_solicitar_segmento 1 2 2 @ enviar_ok INICIAR_COMPACTACION @ []) = (M', evs, s') \<and> mem_inv M' \<and>
     syscall_mem_alloc 9 1 [''2'', ''2''] 1 scheduler_en_syscall (respuesta_en (scheduler_socket (conx memoria_chica)) evs @ []) = Some (S', ev, []) \<and>
     last ev = Enviar 7 (enviar_pid 1) \<and> map_option segmentos_info (pcbs S' 1) = Some [\<lparr>si_id = 2, si_tamanio = 2\<rparr>]"
proof -
  let ?sock = "scheduler_socket (conx memoria_chica)" and ?c = "\<lparr>c_socket = 7, c_id = 1, disponible = False, proceso_actual = None,
     timer_activo = False, timer_pid = 0\<rparr> :: t_cpu"
  obtain M' evs s' where e: "atender_scheduler (\<lambda>_. None) memoria_chica ?sock
       (enviar_solicitar_segmento 1 2 2 @ enviar_ok INICIAR_COMPACTACION @ []) = (M', evs, s')"
    by (cases "atender_scheduler (\<lambda>_. None) memoria_chica ?sock (enviar_solicitar_segmento 1 2 2 @ enviar_ok INICIAR_COMPACTACION @ [])") auto
  have p: "procesos_buscar 1 (procesos memoria_chica) = Some 0"
    by (simp add: memoria_chica_def proceso_ejemplo_def procesos_buscar_def)
  have t: "0 < (2 :: u32)" "2 \<le> segment_max_size (config_memory memoria_chica)"
    "2 \<le> bloques_calcular_espacio_libre (bloques_libres memoria_chica)"
    by (simp_all add: memoria_chica_def bloques_calcular_espacio_libre_def)
  have a: "atoi ''2'' = 2" by code_simp
  have s: "pcbs scheduler_en_syscall 1 = Some pcb_ejemplo" "cpu_con_id 1 scheduler_en_syscall = Some ?c"
    "\<not> compactacion_activa scheduler_en_syscall" "\<forall>c \<in> set (sc_cpus scheduler_en_syscall). c_socket c \<noteq> 9"
    by (simp_all add: scheduler_en_syscall_def scheduler_ejemplo_def cpu_con_id_def)
  have c: "c_socket ?c \<noteq> - 1" "c_socket ?c = 7" by simp_all
  have q: "posiciones (procesos memoria_chica) \<noteq> [] \<or> (\<exists>e \<in> set (bloques_libres memoria_chica). 2 \<le> b_tamanio e)"
    by (simp add: posiciones_chica)
  from mem_alloc_de_punta_a_punta [OF mem_inv_chica p t q refl e s(1,2) c(1) s(3,4) a a, of "[]"] e
  show ?thesis unfolding c(2) by (fastforce simp: registrar_segmento_def pcb_ejemplo_def)
qed

section \<open>A request to a device\<close>

text \<open>What fits in one message. A STDIN may ask for a negative size, as \<open>crear_io_request_stdin\<close> allows.\<close>

definition pedido_corto :: "t_io_request \<Rightarrow> bool" where
  "pedido_corto req \<longleftrightarrow>
     (case r_tipo req of
        IO_TYPE_SLEEP \<Rightarrow> True
      | IO_TYPE_STDIN \<Rightarrow> stdin_size req <s 0 \<or> cuenta (stdin_size req) < 2 ^ 31 - 100
      | IO_TYPE_STDOUT \<Rightarrow> (\<exists>d. stdout_buffer req = Some d \<and> length d < 2 ^ 31 - 100))"

lemma extraer_ok:
  assumes "pcbs S p = Some b" "p \<in> set (cola_procesos_block S)"
  shows "estado b = SUSP_BLOCK \<Longrightarrow> \<not> suspendido_en_swap b \<Longrightarrow> extraer_de_block p S = None"
    "estado b = SUSP_BLOCK \<longrightarrow> suspendido_en_swap b \<Longrightarrow> \<exists>S'. extraer_de_block p S = Some (S', True) \<and> pcbs S' = pcbs S"
proof -
  obtain k where k: "buscar_idx (\<lambda>q. q = p) (cola_procesos_block S) = Some k"
    using assms(2) by (cases "buscar_idx (\<lambda>q. q = p) (cola_procesos_block S)") auto
  show "estado b = SUSP_BLOCK \<Longrightarrow> \<not> suspendido_en_swap b \<Longrightarrow> extraer_de_block p S = None"
    using k assms(1) by (simp add: extraer_de_block_def)
  show "estado b = SUSP_BLOCK \<longrightarrow> suspendido_en_swap b \<Longrightarrow> \<exists>S'. extraer_de_block p S = Some (S', True) \<and> pcbs S' = pcbs S"
    using k assms(1) by (simp add: extraer_de_block_def)
qed

lemma desbloquear_ok:
  assumes "pcbs S p = Some b" "p \<in> set (cola_procesos_block S)" "estado b = BLOCK \<or> estado b = SUSP_BLOCK"
  shows "estado b = SUSP_BLOCK \<Longrightarrow> \<not> suspendido_en_swap b \<Longrightarrow> desbloquear_proceso_por_io p S = None"
    "estado b = SUSP_BLOCK \<Longrightarrow> suspendido_en_swap b \<Longrightarrow>
      \<exists>S'. desbloquear_proceso_por_io p S = Some (S', []) \<and> map_option estado (pcbs S' p) = Some SUSP_READY"
    "estado b = BLOCK \<Longrightarrow> \<exists>S' ev. desbloquear_proceso_por_io p S = Some (S', ev) \<and> map_option estado (pcbs S' p) = Some READY"
proof -
  show "estado b = SUSP_BLOCK \<Longrightarrow> \<not> suspendido_en_swap b \<Longrightarrow> desbloquear_proceso_por_io p S = None"
    using extraer_ok(1) [OF assms(1,2)] by (simp add: desbloquear_proceso_por_io_def)
  show "\<exists>S'. desbloquear_proceso_por_io p S = Some (S', []) \<and> map_option estado (pcbs S' p) = Some SUSP_READY"
    if "estado b = SUSP_BLOCK" "suspendido_en_swap b"
    using extraer_ok(2) [OF assms(1,2)] that assms(1)
    by (auto simp: desbloquear_proceso_por_io_def notificar_reevaluar_suspendidos_def actualizar_pcb_def)
  assume e: "estado b = BLOCK"
  obtain S1 where S1: "extraer_de_block p S = Some (S1, True)" "pcbs S1 = pcbs S" using extraer_ok(2) [OF assms(1,2)] e by auto
  obtain S2 ev where n: "encolar_en_ready_y_notificar p S1 = (S2, ev)" by (cases "encolar_en_ready_y_notificar p S1")
  have "map_option estado (pcbs S2 p) = Some READY" using estado_encolado(1) [of S1 p b] S1(2) assms(1) n by simp
  then show "\<exists>S' ev. desbloquear_proceso_por_io p S = Some (S', ev) \<and> map_option estado (pcbs S' p) = Some READY"
    using S1 assms(1) e n by (simp add: desbloquear_proceso_por_io_def)
qed

lemma entregar_ok:
  assumes "pcbs S (r_proceso req) = Some b" "r_proceso req \<in> set (cola_procesos_block S)"
  shows "estado b = SUSP_BLOCK \<Longrightarrow> \<not> suspendido_en_swap b \<Longrightarrow> entregar_stdin mem req datos S s = None"
    "estado b = SUSP_BLOCK \<Longrightarrow> suspendido_en_swap b \<Longrightarrow>
      \<exists>S'. entregar_stdin mem req datos S s = Some (S', [], s) \<and> map_option estado (pcbs S' (r_proceso req)) = Some SUSP_READY \<and>
        map_option stdin_pendiente (pcbs S' (r_proceso req)) = Some (Some datos) \<and>
        map_option stdin_pendiente_dir (pcbs S' (r_proceso req)) = Some (stdin_dir_logica req)"
    "estado b = BLOCK \<Longrightarrow> \<exists>S' ev. entregar_stdin mem req datos S (enviar_ok ESCRITURA_MEMORIA @ r) =
      Some (S', Enviar mem (enviar_escritura_memoria (r_proceso req) (stdin_dir_logica req) datos) # ev, r) \<and>
      map_option estado (pcbs S' (r_proceso req)) = Some READY"
proof -
  let ?p = "r_proceso req"
  show "estado b = SUSP_BLOCK \<Longrightarrow> \<not> suspendido_en_swap b \<Longrightarrow> entregar_stdin mem req datos S s = None"
    using extraer_ok(1) [OF assms] by (simp add: entregar_stdin_def)
  show "\<exists>S'. entregar_stdin mem req datos S s = Some (S', [], s) \<and> map_option estado (pcbs S' ?p) = Some SUSP_READY \<and>
        map_option stdin_pendiente (pcbs S' ?p) = Some (Some datos) \<and> map_option stdin_pendiente_dir (pcbs S' ?p) = Some (stdin_dir_logica req)"
    if "estado b = SUSP_BLOCK" "suspendido_en_swap b"
    using extraer_ok(2) [OF assms] that assms(1)
    by (auto simp: entregar_stdin_def Let_def notificar_reevaluar_suspendidos_def actualizar_pcb_def)
  assume b: "estado b = BLOCK"
  obtain S1 where S1: "extraer_de_block ?p S = Some (S1, True)" "pcbs S1 = pcbs S" using extraer_ok(2) [OF assms] b by auto
  obtain S2 ev where e: "encolar_en_ready_y_notificar ?p S1 = (S2, ev)" by (cases "encolar_en_ready_y_notificar ?p S1")
  have w: "escribir_stdin_en_memoria mem ?p d datos S1 (enviar_ok ESCRITURA_MEMORIA @ r) =
      Some (S1, [Enviar mem (enviar_escritura_memoria ?p d datos)], r, True)" for d
    by (simp add: escribir_stdin_en_memoria_def pedir_ack es_notificacion_def)
  have "map_option estado (pcbs S2 ?p) = Some READY" using estado_encolado(1) [of S1 ?p b] S1(2) assms(1) e by simp
  then show "\<exists>S' ev. entregar_stdin mem req datos S (enviar_ok ESCRITURA_MEMORIA @ r) =
      Some (S', Enviar mem (enviar_escritura_memoria ?p (stdin_dir_logica req) datos) # ev, r) \<and>
      map_option estado (pcbs S' ?p) = Some READY"
    using S1 assms(1) b e w by (simp add: entregar_stdin_def Let_def)
qed

text \<open>
  What the worker does with the answer \<open>resp\<close> of the device, given the bytes \<open>s\<close> of Kernel Memory
  that follow: \<open>datos\<close> are those of a STDIN.
\<close>

definition worker_termina :: "sock \<Rightarrow> nat \<Rightarrow> t_io_request \<Rightarrow> t_pcb \<Rightarrow> t_scheduler \<Rightarrow> byte list \<Rightarrow> byte list \<Rightarrow> bool" where
  "worker_termina mem i req b S resp datos \<longleftrightarrow>
     (let p = r_proceso req; stdin = (r_tipo req = IO_TYPE_STDIN)
      in if estado b = SUSP_BLOCK \<and> \<not> suspendido_en_swap b
         then (\<forall>t s. io_worker_fin mem i S (resp @ t) s = None)
         else if estado b = SUSP_BLOCK
         then (\<forall>t s. \<exists>S'. io_worker_fin mem i S (resp @ t) s = Some (S', [], t, s) \<and> map_option estado (pcbs S' p) = Some SUSP_READY \<and>
                (stdin \<longrightarrow> map_option stdin_pendiente (pcbs S' p) = Some (Some datos) \<and>
                          map_option stdin_pendiente_dir (pcbs S' p) = Some (stdin_dir_logica req)))
         else (\<forall>t r. \<exists>S' ev s'. io_worker_fin mem i S (resp @ t) (enviar_ok ESCRITURA_MEMORIA @ r) = Some (S', ev, t, s') \<and>
                map_option estado (pcbs S' p) = Some READY \<and>
                (if stdin then s' = r \<and> hd ev = Enviar mem (enviar_escritura_memoria p (stdin_dir_logica req) datos)
                 else s' = enviar_ok ESCRITURA_MEMORIA @ r)))"

lemma worker_desbloquea:
  assumes "pcbs S (r_proceso req) = Some b" "r_proceso req \<in> set (cola_procesos_block S)" "estado b = BLOCK \<or> estado b = SUSP_BLOCK"
    and "r_tipo req \<noteq> IO_TYPE_STDIN"
    and "\<And>t s. io_worker_fin mem i S (resp @ t) s =
      map_option (\<lambda>(S', ev). (S', ev, t, s)) (desbloquear_proceso_por_io (r_proceso req) (actualizar_io i (\<lambda>io. io\<lparr>en_curso := None\<rparr>) S))"
  shows "worker_termina mem i req b S resp datos"
proof -
  let ?S = "actualizar_io i (\<lambda>io. io\<lparr>en_curso := None\<rparr>) S"
  have S: "pcbs ?S (r_proceso req) = Some b" "r_proceso req \<in> set (cola_procesos_block ?S)" using assms(1,2) by (simp_all add: actualizar_io_def)
  note d = desbloquear_ok [OF S assms(3)]
  consider "estado b = SUSP_BLOCK" "\<not> suspendido_en_swap b" | "estado b = SUSP_BLOCK" "suspendido_en_swap b" | "estado b = BLOCK"
    using assms(3) by blast
  then show ?thesis
  proof cases
    case 1
    then show ?thesis using d(1) assms(5) by (simp add: worker_termina_def)
  next
    case 2
    then show ?thesis using d(2) assms(4,5) by (auto simp: worker_termina_def)
  next
    case 3
    then show ?thesis using d(3) assms(4,5) by (auto simp: worker_termina_def)
  qed
qed

lemma worker_entrega:
  assumes "pcbs S (r_proceso req) = Some b" "r_proceso req \<in> set (cola_procesos_block S)" "estado b = BLOCK \<or> estado b = SUSP_BLOCK"
    and "r_tipo req = IO_TYPE_STDIN"
    and "\<And>t s. io_worker_fin mem i S (resp @ t) s =
      map_option (\<lambda>(S', ev, s'). (S', ev, t, s')) (entregar_stdin mem req datos (actualizar_io i (\<lambda>io. io\<lparr>en_curso := None\<rparr>) S) s)"
  shows "worker_termina mem i req b S resp datos"
proof -
  let ?S = "actualizar_io i (\<lambda>io. io\<lparr>en_curso := None\<rparr>) S"
  have S: "pcbs ?S (r_proceso req) = Some b" "r_proceso req \<in> set (cola_procesos_block ?S)" using assms(1,2) by (simp_all add: actualizar_io_def)
  note d = entregar_ok [OF S, of mem datos]
  consider "estado b = SUSP_BLOCK" "\<not> suspendido_en_swap b" | "estado b = SUSP_BLOCK" "suspendido_en_swap b" | "estado b = BLOCK"
    using assms(3) by blast
  then show ?thesis
  proof cases
    case 1
    then show ?thesis using d(1) assms(5) by (simp add: worker_termina_def)
  next
    case 2
    then show ?thesis using d(2) assms(4,5) by (fastforce simp: worker_termina_def Let_def)
  next
    case 3
    then show ?thesis using d(3) assms(4,5) by (fastforce simp: worker_termina_def Let_def)
  qed
qed

text \<open>
  C33. A request to a device from end to end. The worker of the device has a request in progress,
  which it has sent, for a process of the BLOCK queue, and what the request transfers is shorter
  than \<open>2 ^ 31 - 100\<close> bytes. The device serves it, and its answer is exactly what the worker reads,
  so that what follows on the socket is left for the next request. A process in BLOCK becomes
  READY; for a STDIN the scheduler first writes to its memory as many bytes as it asked for, the
  line that was typed, cut or filled with zeros, and Kernel Memory is taken to acknowledge the
  write. A process that is suspended in swap becomes SUSP\_READY, and the data of a STDIN are kept
  in its block; while the copy to swap is under way the worker waits. The exception is a STDIN of
  a negative size: the device never answers it.
\<close>

theorem io_de_punta_a_punta:
  assumes io: "i < length (tabla_ios S)" "en_curso (tabla_ios S ! i) = Some req" "pedido_corto req"
    and b: "pcbs S (r_proceso req) = Some b" "r_proceso req \<in> set (cola_procesos_block S)" "estado b = BLOCK \<or> estado b = SUSP_BLOCK"
  shows "\<exists>pedido. pedido_io (tabla_ios S ! i) req = [Enviar (io_socket (tabla_ios S ! i)) pedido] \<and>
    (if r_tipo req = IO_TYPE_STDIN \<and> stdin_size req <s 0
     then io_main k pedido = Some (k, [])
     else \<exists>k' resp. io_main k pedido = Some (k', resp) \<and>
       worker_termina mem i req b S resp (buffer_stdin (cuenta (stdin_size req)) (fst (leer_linea k))))"
proof -
  let ?p = "r_proceso req" and ?S0 = "actualizar_io i (\<lambda>io. io\<lparr>en_curso := None\<rparr>) S"
  have fin: "\<exists>t1. recibir_codigo_operacion (enviar_fin_io ?p @ t) = (op_num IO_FINALIZADA, t1) \<and> recibir_fin_io t1 = Inr (?p, t)" for t
    using recibir_mensajeD [OF m_fin_io.ida_y_vuelta [of ?p t]] by auto
  show ?thesis
  proof (cases "r_tipo req")
    case IO_TYPE_SLEEP
    have "io_worker_fin mem i S (enviar_fin_io ?p @ t) s = map_option (\<lambda>(S', ev). (S', ev, t, s)) (desbloquear_proceso_por_io ?p ?S0)" for t s
      using io IO_TYPE_SLEEP fin [of t] by (auto simp: io_worker_fin_def Let_def)
    then show ?thesis using worker_desbloquea [OF b] IO_TYPE_SLEEP io_responde_sleep by (simp add: pedido_io_def)
  next
    case IO_TYPE_STDOUT
    then obtain dat where dat: "stdout_buffer req = Some dat" "length dat < 2 ^ 31 - 100" using io(3) by (auto simp: pedido_corto_def)
    have "io_worker_fin mem i S (enviar_fin_io ?p @ t) s = map_option (\<lambda>(S', ev). (S', ev, t, s)) (desbloquear_proceso_por_io ?p ?S0)" for t s
      using io IO_TYPE_STDOUT fin [of t] dat(1) by (auto simp: io_worker_fin_def Let_def)
    then show ?thesis using worker_desbloquea [OF b] IO_TYPE_STDOUT io_responde_stdout [OF dat(2)] dat(1) by (simp add: pedido_io_def)
  next
    case IO_TYPE_STDIN
    show ?thesis
    proof (cases "stdin_size req <s 0")
      case True
      then show ?thesis using IO_TYPE_STDIN io_no_responde_stdin by (simp add: pedido_io_def)
    next
      case False
      then have n: "cuenta (stdin_size req) < 2 ^ 31 - 100" using io(3) IO_TYPE_STDIN by (simp add: pedido_corto_def)
      let ?d = "buffer_stdin (cuenta (stdin_size req)) (fst (leer_linea k))"
      have t2: "\<exists>t2. recibir_codigo_operacion (enviar_datos_stdin ?p ?d @ t) = (op_num IO_FINALIZADA, t2) \<and>
          recibir_datos_stdin (stdin_size req) t2 = Inr ((?p, ?d), t)" for t
        using recibir_mensajeD [OF m_datos_stdin.ida_y_vuelta [of "stdin_size req" "(?p, ?d)" t]] n by auto
      have "io_worker_fin mem i S (enviar_datos_stdin ?p ?d @ t) s = map_option (\<lambda>(S', ev, s'). (S', ev, t, s')) (entregar_stdin mem req ?d ?S0 s)" for t s
        using io IO_TYPE_STDIN t2 [of t] by (auto simp: io_worker_fin_def Let_def)
      then have "worker_termina mem i req b S (enviar_datos_stdin ?p ?d) ?d" by (rule worker_entrega [OF b IO_TYPE_STDIN])
      then show ?thesis using False IO_TYPE_STDIN io_responde_stdin [OF False] by (simp add: pedido_io_def)
    qed
  qed
qed

definition scheduler_leyendo :: t_scheduler where
  "scheduler_leyendo = scheduler_stdin\<lparr>lista_suspendidos := [],
     pcbs := (pcbs scheduler_ejemplo)(1 := Some (pcb_ejemplo\<lparr>estado := BLOCK\<rparr>))\<rparr>"

lemma io_de_punta_a_punta_witness:
  "\<exists>k' resp S' ev. io_main [104, 105, 10, 33] (enviar_io_stdin 1 2) = Some (k', resp) \<and>
    io_worker_fin 9 0 scheduler_leyendo (resp @ []) (enviar_ok ESCRITURA_MEMORIA @ []) = Some (S', ev, [], []) \<and>
    hd ev = Enviar 9 (enviar_escritura_memoria 1 64 [104, 105]) \<and> map_option estado (pcbs S' 1) = Some READY"
proof -
  let ?req = "crear_io_request_stdin 1 2 64"
  have c: "cuenta 2 = 2" by (simp add: cuenta_def)
  have f: "length (tabla_ios scheduler_leyendo) = 1" "en_curso (tabla_ios scheduler_leyendo ! 0) = Some ?req"
    "pcbs scheduler_leyendo (r_proceso ?req) = Some (pcb_ejemplo\<lparr>estado := BLOCK\<rparr>)" "r_proceso ?req \<in> set (cola_procesos_block scheduler_leyendo)"
    by (simp_all add: scheduler_leyendo_def scheduler_stdin_def scheduler_ejemplo_def crear_io_request_stdin_def)
  have v: "pedido_corto ?req" by (simp add: pedido_corto_def crear_io_request_stdin_def c)
  have q: "r_tipo ?req = IO_TYPE_STDIN" "r_proceso ?req = 1" "stdin_size ?req = 2" "stdin_dir_logica ?req = 64" "\<not> (2 :: i32) <s 0"
    by (simp_all add: crear_io_request_stdin_def word_sless_alt)
  have l: "buffer_stdin 2 (fst (leer_linea [104, 105, 10, 33])) = [104, 105]"
    by (simp add: buffer_stdin_def leer_linea_def texto_de_linea_def LINEA_MAX_def Let_def)
  from io_de_punta_a_punta [OF _ f(2) v f(3) f(4), of "[104, 105, 10, 33]" 9] f(1)
  obtain k' resp where r: "io_main [104, 105, 10, 33] (enviar_io_stdin 1 2) = Some (k', resp)"
    "worker_termina 9 0 ?req (pcb_ejemplo\<lparr>estado := BLOCK\<rparr>) scheduler_leyendo resp [104, 105]"
    by (auto simp: q c l pedido_io_def)
  have e: "estado (pcb_ejemplo\<lparr>estado := BLOCK\<rparr>) \<noteq> SUSP_BLOCK" by simp
  obtain S' ev s' where "io_worker_fin 9 0 scheduler_leyendo (resp @ []) (enviar_ok ESCRITURA_MEMORIA @ []) = Some (S', ev, [], s')"
    "map_option estado (pcbs S' 1) = Some READY" "s' = [] \<and> hd ev = Enviar 9 (enviar_escritura_memoria 1 64 [104, 105])"
    using r(2) e unfolding worker_termina_def Let_def q(1-4) by (metis (no_types, lifting))
  then show ?thesis using r(1) by blast
qed

end
