(* ===== verification/Suspension.thy ===== *)
theory Suspension
  imports Segmentos
begin

text \<open>
  Suspending a process, on the handlers of \<open>Memory_Scheduler\<close>: its segments go to the SWAP
  module block by block. The proofs follow the loops: blocks of a segment, segments of the
  process. \<open>Reanudacion\<close> has the way back.
\<close>

section \<open>Blocks of a segment\<close>

text \<open>Block \<open>k\<close> of the bytes \<open>x\<close>, padded with zeros.\<close>

definition relleno :: "nat \<Rightarrow> byte list \<Rightarrow> byte list" where
  "relleno bs y = y @ replicate (bs - length y) 0"

definition bloque_k :: "nat \<Rightarrow> byte list \<Rightarrow> nat \<Rightarrow> byte list" where
  "bloque_k bs x k = relleno bs (tramo_de x (k * bs) bs)"

definition en_swap :: "u32 \<Rightarrow> t_swap \<Rightarrow> t_segmento \<Rightarrow> byte list \<Rightarrow> bool" where
  "en_swap bs d g x \<longleftrightarrow> length x = unat (limite g) \<and>
     (\<forall>k < unat (n_bloques bs (limite g)).
        is_valid_block (SWAP_CONFIG d) (swap_bloque_inicio g + of_nat k) \<and>
        bloque_de d (swap_bloque_inicio g + of_nat k) = bloque_k (unat bs) x k)"

text \<open>Sizes for which the 32-bit arithmetic of the loops is exact.\<close>

definition medidas :: "u32 \<Rightarrow> t_segmento \<Rightarrow> bool" where
  "medidas bs g \<longleftrightarrow> 0 < unat bs \<and> unat bs < 2 ^ 31 - 100 \<and> unat (limite g) < 2 ^ 31"

lemma length_relleno [simp]: "length y \<le> bs \<Longrightarrow> length (relleno bs y) = bs"
  by (simp add: relleno_def)

lemma length_bloque_k [simp]: "length (bloque_k bs x k) = bs"
  by (simp add: bloque_k_def tramo_de_def)

lemma copiar_en_ceros: "length y \<le> n \<Longrightarrow> copiar_en (replicate n 0) 0 y = relleno n y"
  by (simp add: copiar_en_def relleno_def)

lemma n_bloques_nat:
  assumes "medidas bs g"
  shows "unat (n_bloques bs (limite g)) = (unat (limite g) + unat bs - 1) div unat bs"
proof -
  have s: "unat (limite g + bs) = unat (limite g) + unat bs" using assms by (intro unat_add_u32) (simp add: medidas_def)
  have "unat (limite g + bs - 1) = unat (limite g) + unat bs - 1"
    using unat_sub_u32 [of 1 "limite g + bs"] s assms by (simp add: medidas_def)
  then show ?thesis by (simp add: n_bloques_def unat_div)
qed

lemma bloque_limites:
  assumes m: "medidas bs g" and k: "k < unat (n_bloques bs (limite g))"
  shows "k * unat bs < unat (limite g)" "unat (of_nat k * bs :: u32) = k * unat bs"
    "unat (chunk_bloque bs g (of_nat k)) = min (unat bs) (unat (limite g) - k * unat bs)"
    "unat (of_nat k :: u32) = k"
proof -
  let ?n = "unat (n_bloques bs (limite g))" and ?b = "unat bs" and ?L = "unat (limite g)"
  have b: "0 < ?b" using m by (simp add: medidas_def)
  have n: "?n = (?L + ?b - 1) div ?b" by (rule n_bloques_nat [OF m])
  have "Suc k * ?b \<le> ?n * ?b" using k by (intro mult_le_mono1) simp
  also have "?n * ?b \<le> ?L + ?b - 1" unfolding n using div_cotas [OF b] by blast
  finally show kb: "k * ?b < ?L" using b by simp
  have L: "?L < 2 ^ 31" using m by (simp add: medidas_def)
  have "k \<le> k * ?b" using b by simp
  then have "k < 2 ^ 31" using kb L by (meson le_less_trans less_trans)
  then show uk: "unat (of_nat k :: u32) = k" by (simp add: unat_of_nat)
  show kbs: "unat (of_nat k * bs :: u32) = k * ?b"
    using kb L by (simp add: unat_word_ariths uk)
  have last: "of_nat k = n_bloques bs (limite g) - 1 \<longleftrightarrow> Suc k = ?n"
  proof -
    have "unat (n_bloques bs (limite g) - 1) = ?n - 1" using k unat_sub_u32 [of 1 "n_bloques bs (limite g)"] by simp
    then show ?thesis using k uk by (metis Suc_pred' gr_implies_not0 diff_Suc_1 neq0_conv unat_eqD)
  qed
  show "unat (chunk_bloque bs g (of_nat k)) = min ?b (?L - k * ?b)"
  proof (cases "Suc k = ?n")
    case True
    have "?L + ?b - 1 < Suc (Suc k) * ?b" unfolding True n using div_cotas [OF b] by blast
    then have "?L - k * ?b \<le> ?b" unfolding mult_Suc using b by linarith
    moreover have "unat (limite g - of_nat k * bs) = ?L - k * ?b" using kb kbs by (simp add: unat_sub_u32)
    ultimately show ?thesis using True last by (simp add: chunk_bloque_def)
  next
    case False
    then have "Suc (Suc k) \<le> ?n" using k by simp
    then have "Suc (Suc k) * ?b \<le> ?n * ?b" by (rule mult_le_mono1)
    also have "?n * ?b \<le> ?L + ?b - 1" unfolding n using div_cotas [OF b] by blast
    finally have "?b \<le> ?L - k * ?b" using b by simp
    then show ?thesis using False last by (simp add: chunk_bloque_def)
  qed
qed

lemma bloques_cubren:
  assumes "medidas bs g"
  shows "unat (limite g) \<le> unat (n_bloques bs (limite g)) * unat bs"
proof -
  have b: "0 < unat bs" using assms by (simp add: medidas_def)
  have "unat (limite g) + unat bs - 1 < Suc ((unat (limite g) + unat bs - 1) div unat bs) * unat bs"
    using div_cotas [OF b] by blast
  then show ?thesis unfolding n_bloques_nat [OF assms] by simp
qed

section \<open>To the swap, block by block\<close>

lemma escribir_bloque_swap_ok:
  assumes "swap_de bs d" "is_valid_block (SWAP_CONFIG d) b" "length y = unat bs" "0 \<le> s"
  obtains d' where "swap_escribir_bloque s b y d = Inr (0, d')" "swap_de bs d'" "SWAP_CONFIG d' = SWAP_CONFIG d"
    "\<And>c. is_valid_block (SWAP_CONFIG d) c \<Longrightarrow> bloque_de d' c = (if c = b then y else bloque_de d c)"
proof -
  let ?d = "d\<lparr>SWAP_FILE := copiar_en (SWAP_FILE d) (block_offset (SWAP_CONFIG d) b) y\<rparr>"
  have de: "swap_ok d" "block_size (SWAP_CONFIG d) = bs" using assms(1) by (auto simp: swap_de_def)
  have "swap_ok ?d"
    using bloque_valido_cota [OF assms(2)] de assms(3) by (intro swap_ok_copiar) (simp_all add: swap_ok_def)
  then show thesis
    using escribir_bloque_cable [OF assms(1,3,4), of b] assms(2) bloque_de_copiar [OF de(1) assms(2)] assms(3) de
    by (intro that [of ?d]) (simp_all add: swap_de_def)
qed

text \<open>The blocks from \<open>k\<close> to \<open>n\<close> of a segment that starts at block \<open>b\<close> of the swap.\<close>

definition tramo_swap :: "u32 \<Rightarrow> nat \<Rightarrow> nat \<Rightarrow> u32 set" where
  "tramo_swap b k n = (\<lambda>j. b + of_nat j) ` {k..<n}"

lemma tramo_swap_inj:
  assumes "unat b + n < 2 ^ 32" "i < n" "j < n" "b + of_nat i = (b + of_nat j :: u32)"
  shows "i = j"
proof -
  have "unat (of_nat i :: u32) = i" "unat (of_nat j :: u32) = j" using assms(1-3) by (simp_all add: unat_of_nat)
  then show ?thesis using assms(4) by (metis add_left_cancel)
qed

lemma volcar_bucle_ok:
  assumes red: "red_ok c r" and m: "medidas bs g" and cabe: "unat (base g) + unat (limite g) \<le> ram c"
    and s: "0 \<le> s" and n: "n = unat (n_bloques bs (limite g))" and inj: "unat (swap_bloque_inicio g) + n < 2 ^ 32"
    and x: "x = contenido (memoria_fisica c r) g"
    and "swap_de bs d" "\<forall>j < n. is_valid_block (SWAP_CONFIG d) (swap_bloque_inicio g + of_nat j)" "k \<le> n"
  shows "\<exists>d'. volcar_bucle c bs s g pid (map of_nat [k..<n]) r d = (r, d', [], 0) \<and> swap_de bs d' \<and>
    SWAP_CONFIG d' = SWAP_CONFIG d \<and>
    (\<forall>j. k \<le> j \<and> j < n \<longrightarrow> bloque_de d' (swap_bloque_inicio g + of_nat j) = bloque_k (unat bs) x j) \<and>
    (\<forall>b. is_valid_block (SWAP_CONFIG d) b \<and> b \<notin> tramo_swap (swap_bloque_inicio g) k n \<longrightarrow> bloque_de d' b = bloque_de d b)"
  using assms(8-)
proof (induction "n - k" arbitrary: k d)
  case 0
  then show ?case by auto
next
  case (Suc q)
  let ?b = "swap_bloque_inicio g + of_nat k" and ?ch = "chunk_bloque bs g (of_nat k)"
  have k: "k < n" using Suc.hyps(2) by simp
  note lim = bloque_limites [OF m k [unfolded n]]
  let ?y = "tramo_de (memoria_fisica c r) (unat (base g) + k * unat bs) (unat ?ch)"
  have N: "ram c < 2 ^ 32" using red by (simp add: red_ok_def layout_def)
  have dir: "unat (base g + of_nat k * bs) = unat (base g) + k * unat bs"
    using lim cabe N by (subst unat_add_u32) simp_all
  have y: "?y = tramo_de x (k * unat bs) (unat bs)"
    using lim x by (simp add: contenido_def tramo_de_def drop_take min_def add.commute)
  have leer: "memory_io_leer c r pid (base g + of_nat k * bs) ?ch = (r, [], Some ?y)"
    using memory_io_leer_ok [OF red, of "base g + of_nat k * bs" ?ch pid] dir lim cabe by simp
  have buf: "copiar_en (replicate (unat bs) 0) 0 ?y = bloque_k (unat bs) x k"
    unfolding bloque_k_def y [symmetric] by (rule copiar_en_ceros) (simp add: tramo_de_def lim)
  obtain d1 where d1: "swap_escribir_bloque s ?b (bloque_k (unat bs) x k) d = Inr (0, d1)" "swap_de bs d1"
      "SWAP_CONFIG d1 = SWAP_CONFIG d"
      "\<And>c. is_valid_block (SWAP_CONFIG d) c \<Longrightarrow> bloque_de d1 c = (if c = ?b then bloque_k (unat bs) x k else bloque_de d c)"
    using escribir_bloque_swap_ok [OF Suc.prems(1) _ _ s, of ?b "bloque_k (unat bs) x k"] Suc.prems(2) k by auto
  have "\<exists>d'. volcar_bucle c bs s g pid (map of_nat [Suc k..<n]) r d1 = (r, d', [], 0) \<and> swap_de bs d' \<and>
      SWAP_CONFIG d' = SWAP_CONFIG d1 \<and>
      (\<forall>j. Suc k \<le> j \<and> j < n \<longrightarrow> bloque_de d' (swap_bloque_inicio g + of_nat j) = bloque_k (unat bs) x j) \<and>
      (\<forall>b. is_valid_block (SWAP_CONFIG d1) b \<and> b \<notin> tramo_swap (swap_bloque_inicio g) (Suc k) n \<longrightarrow> bloque_de d' b = bloque_de d1 b)"
    using Suc.hyps(2) Suc.prems(2) k d1(2,3) by (intro Suc.hyps(1)) auto
  then obtain d' where d': "volcar_bucle c bs s g pid (map of_nat [Suc k..<n]) r d1 = (r, d', [], 0)" "swap_de bs d'"
      "SWAP_CONFIG d' = SWAP_CONFIG d1"
      "\<forall>j. Suc k \<le> j \<and> j < n \<longrightarrow> bloque_de d' (swap_bloque_inicio g + of_nat j) = bloque_k (unat bs) x j"
      "\<forall>b. is_valid_block (SWAP_CONFIG d1) b \<and> b \<notin> tramo_swap (swap_bloque_inicio g) (Suc k) n \<longrightarrow> bloque_de d' b = bloque_de d1 b"
    by blast
  have paso: "volcar_bucle c bs s g pid (map of_nat [k..<n]) r d = (r, d', [], 0)"
    using k by (simp add: upt_rec [of k n] leer buf d1(1) d'(1))
  have "?b \<notin> tramo_swap (swap_bloque_inicio g) (Suc k) n"
    using tramo_swap_inj [OF inj k] by (fastforce simp: tramo_swap_def)
  then have "bloque_de d' ?b = bloque_k (unat bs) x k" using d'(5) d1(3,4) Suc.prems(2) k by simp
  then have todos: "\<forall>j. k \<le> j \<and> j < n \<longrightarrow> bloque_de d' (swap_bloque_inicio g + of_nat j) = bloque_k (unat bs) x j"
    using d'(4) by (metis Suc_leI le_neq_implies_less)
  have "bloque_de d' b = bloque_de d b"
    if "is_valid_block (SWAP_CONFIG d) b" "b \<notin> tramo_swap (swap_bloque_inicio g) k n" for b
  proof -
    have "b \<noteq> ?b" "b \<notin> tramo_swap (swap_bloque_inicio g) (Suc k) n" using that(2) k by (auto simp: tramo_swap_def)
    then show ?thesis using d'(5) d1(3,4) that(1) by simp
  qed
  with paso d'(2,3) d1(3) todos show ?case by auto
qed

section \<open>Suspending the segments of a process\<close>

text \<open>The swap side of a consistent memory: the module is the one of the handshake.\<close>

definition swap_listo :: "t_memoria \<Rightarrow> bool" where
  "swap_listo M \<longleftrightarrow> swap_de (rs_block_size (reserva M)) (disco M) \<and> reserva_ok (reserva M) \<and>
     total_blocks (reserva M) = swap_file_size (SWAP_CONFIG (disco M)) div block_size (SWAP_CONFIG (disco M)) \<and>
     unat (total_blocks (reserva M)) < 2 ^ 31"

abbreviation bs_de :: "t_memoria \<Rightarrow> u32" where
  "bs_de M \<equiv> rs_block_size (reserva M)"

definition bloques_seg :: "t_memoria \<Rightarrow> t_seg_entrada \<Rightarrow> nat" where
  "bloques_seg M e = unat (n_bloques (bs_de M) (limite (seg_en (procesos M) e)))"

lemma swap_listo_valido: "swap_listo M \<Longrightarrow> b < total_blocks (reserva M) \<Longrightarrow> is_valid_block (SWAP_CONFIG (disco M)) b"
  by (simp add: swap_listo_def is_valid_block_def)

lemma seg_poner_segmento:
  assumes "e \<in> set (posiciones (procesos M))"
  shows "seg_en (procesos (poner_segmento e g M)) q = (if q = e then g else seg_en (procesos M) q)"
proof -
  obtain i j k l where "e = (i, j)" "q = (k, l)" by (cases e, cases q) blast
  then show ?thesis using assms by (auto simp: seg_en_def poner_segmento_def set_posiciones nth_list_update)
qed

lemma posiciones_poner_segmento [simp]: "posiciones (procesos (poner_segmento e g M)) = posiciones (procesos M)"
proof -
  have "length (segmentos (procesos (poner_segmento e g M) ! i)) = length (segmentos (procesos M ! i))" for i
    by (cases "fst e < length (procesos M)"; cases "fst e = i")
      (simp_all add: poner_segmento_def nth_list_update list_update_beyond)
  then show ?thesis by (simp add: posiciones_def) (simp add: poner_segmento_def)
qed

text \<open>The process table without its segments: what no segment operation changes.\<close>

definition sin_segmentos :: "t_contexto_ejecucion list \<Rightarrow> t_contexto_ejecucion list" where
  "sin_segmentos ps = map (\<lambda>p. p\<lparr>segmentos := []\<rparr>) ps"

lemma sin_segmentos_poner [simp]: "sin_segmentos (procesos (poner_segmento e g M)) = sin_segmentos (procesos M)"
  by (cases "fst e < length (procesos M)")
    (auto simp: sin_segmentos_def poner_segmento_def list_update_beyond nth_list_update intro!: nth_equalityI)

lemma sin_segmentos_buscar:
  assumes "sin_segmentos ps' = sin_segmentos ps"
  shows "procesos_buscar pid ps' = procesos_buscar pid ps"
proof -
  have "procesos_buscar pid ps = procesos_buscar pid (sin_segmentos ps)" for ps
    unfolding procesos_buscar_def sin_segmentos_def by (induction ps) auto
  with assms show ?thesis by metis
qed

lemma poner_segmento_sel [simp]:
  "conx (poner_segmento e g M) = conx M" "bloques_libres (poner_segmento e g M) = bloques_libres M"
  "red_sticks (poner_segmento e g M) = red_sticks M" "reserva (poner_segmento e g M) = reserva M"
  "disco (poner_segmento e g M) = disco M" "config_memory (poner_segmento e g M) = config_memory M"
  "poner_segmento e g (M\<lparr>bloques_libres := bl\<rparr>) = (poner_segmento e g M)\<lparr>bloques_libres := bl\<rparr>"
  by (simp_all add: poner_segmento_def actualizar_proceso_def)

lemma tramos_segs_update:
  "j < length gs \<Longrightarrow> tramos_segs (gs[j := g]) =
    tramos_segs (take j gs) @ tramos_segs [g] @ tramos_segs (drop (Suc j) gs)"
  by (simp add: upd_conv_take_nth_drop)

lemma tramos_poner_segmento:
  assumes "e \<in> set (posiciones (procesos M))"
  shows "mset (tramos (procesos (poner_segmento e g M))) + mset (tramos_segs [seg_en (procesos M) e]) =
    mset (tramos (procesos M)) + mset (tramos_segs [g])"
proof -
  obtain i j where e: "e = (i, j)" "i < length (procesos M)" "j < length (segmentos (procesos M ! i))"
    using assms by (auto simp: set_posiciones)
  have "tramos_segs (segmentos (procesos M ! i)) = tramos_segs (take j (segmentos (procesos M ! i)))
      @ tramos_segs [seg_en (procesos M) e] @ tramos_segs (drop (Suc j) (segmentos (procesos M ! i)))"
    using tramos_segs_update [OF e(3), of "seg_en (procesos M) e"] e by (simp add: seg_en_def)
  then show ?thesis
    using tramos_segs_update [OF e(3), of g] e
    by (simp add: poner_segmento_def tramos_update tramos_split [of i "procesos M"])
qed

text \<open>Releasing a resident segment and marking it as swapped keeps the memory consistent.\<close>

lemma mem_inv_soltar:
  assumes inv: "mem_inv M" and e: "e \<in> set (posiciones (procesos M))" "residente (seg_en (procesos M) e)"
    and g: "g = seg_en (procesos M) e" and g': "\<not> residente g'"
  shows "mem_inv (poner_segmento e g' (M\<lparr>bloques_libres := bloques_liberar (base g) (limite g) (bloques_libres M)\<rparr>))"
proof -
  let ?ps = "procesos (poner_segmento e g' M)"
  have "tramos_segs [g'] = []" using g' by simp
  then have m: "mset (tramos (procesos M)) = mset (tramos_segs [g] @ tramos ?ps)"
    using tramos_poner_segmento [OF e(1), of g'] unfolding g mset_append by (simp only: mset.simps add_0_right add_0_left union_commute)
  then have sub: "set (tramos (procesos M)) = set (tramos_segs [g]) \<union> set (tramos ?ps)"
    by (metis set_append set_mset_mset)
  have "particion (ram (conx M)) (celdas (bloques_libres M)) (tramos_segs [g] @ tramos ?ps)"
    using inv particion_mset [OF m] by (simp add: mem_inv_def)
  then have l: "bloques_inv (ram (conx M)) (liberar_segmentos [g] (bloques_libres M)) \<and>
      particion (ram (conx M)) (celdas (liberar_segmentos [g] (bloques_libres M))) (tramos ?ps) \<and>
      celdas (liberar_segmentos [g] (bloques_libres M)) = celdas (bloques_libres M) \<union> ocupadas (tramos_segs [g])"
    using inv sub by (intro liberar_segmentos_ok) (auto simp: mem_inv_def)
  have "liberar_segmentos [g] (bloques_libres M) = bloques_liberar (base g) (limite g) (bloques_libres M)"
    using e(2) g by (simp add: residente_def)
  with l show ?thesis using inv sub by (auto simp: mem_inv_def)
qed

lemma mem_inv_mismo_tramo:
  assumes "mem_inv M" "e \<in> set (posiciones (procesos M))"
    and "base g = base (seg_en (procesos M) e)" "limite g = limite (seg_en (procesos M) e)"
  shows "mem_inv (poner_segmento e g M)"
proof -
  have "mset (tramos (procesos (poner_segmento e g M))) = mset (tramos (procesos M))"
    using tramos_poner_segmento [OF assms(2), of g] assms(3,4) by (simp add: residente_def tramo_seg_def split: if_splits)
  from this particion_mset [OF this] show ?thesis
    using assms(1) by (auto simp: mem_inv_def) (metis set_mset_mset)
qed

lemma residente_cabe:
  assumes "mem_inv M" "e \<in> set (posiciones (procesos M))" "residente (seg_en (procesos M) e)"
  shows "unat (base (seg_en (procesos M) e)) + unat (limite (seg_en (procesos M) e)) \<le> ram (conx M)"
proof -
  have "tramo_seg (seg_en (procesos M) e) \<in> set (tramos (procesos M))"
    using assms(2,3) by (auto simp: tramos_entradas entradas_def residente_def)
  then show ?thesis using assms(1) by (auto simp: mem_inv_def cabe_en_def)
qed

text \<open>
  One turn of the loop: the segment's bytes are in the swap blocks it was given, its cells
  are free, and nothing else has changed.
\<close>

lemma suspender_turno:
  assumes inv: "mem_inv M" and sw: "swap_listo M" and ram: "ram (conx M) < 2 ^ 31" and s: "0 \<le> s"
    and e: "(i, j) \<in> set (posiciones (procesos M))" "residente (seg_en (procesos M) (i, j))"
    and hay: "unat (next_block (reserva M)) + bloques_seg M (i, j) \<le> unat (total_blocks (reserva M))"
  defines "g \<equiv> seg_en (procesos M) (i, j)"
  defines "g' \<equiv> g\<lparr>swap_bloque_inicio := next_block (reserva M), base := - 1\<rparr>"
  obtains M' where "suspender_bucle i pid s (j # js) M =
      (let (M4, ev', resp) = suspender_bucle i pid s js M' in (M4, ev', resp))"
    "mem_inv M'" "swap_listo M'" "conx M' = conx M" "red_sticks M' = red_sticks M" "config_memory M' = config_memory M"
    "posiciones (procesos M') = posiciones (procesos M)" "bs_de M' = bs_de M"
    "\<And>q. seg_en (procesos M') q = (if q = (i, j) then g' else seg_en (procesos M) q)"
    "unat (next_block (reserva M')) = unat (next_block (reserva M)) + bloques_seg M (i, j)"
    "total_blocks (reserva M') = total_blocks (reserva M)" "SWAP_CONFIG (disco M') = SWAP_CONFIG (disco M)"
    "en_swap (bs_de M) (disco M') g' (contenido (memoria_de M) g)"
    "\<And>b. b < next_block (reserva M) \<Longrightarrow> bloque_de (disco M') b = bloque_de (disco M) b"
    "sin_segmentos (procesos M') = sin_segmentos (procesos M)"
proof -
  let ?bs = "bs_de M" and ?n = "bloques_seg M (i, j)" and ?nb = "next_block (reserva M)"
  let ?g1 = "g\<lparr>swap_bloque_inicio := ?nb\<rparr>"
  have n: "?n = unat (n_bloques ?bs (limite g))" by (simp add: bloques_seg_def g_def)
  have tot: "unat (total_blocks (reserva M)) < 2 ^ 31" "swap_de ?bs (disco M)" using sw by (auto simp: swap_listo_def)
  have suma: "unat ?nb + unat (n_bloques ?bs (limite g)) < 2 ^ 32" using hay tot(1) n by simp
  from reservar_cases [OF suma] hay n obtain rs where rs:
    "swap_reservar_bloques (n_bloques ?bs (limite g)) (reserva M) = (?nb, rs)" "unat (next_block rs) = unat ?nb + ?n"
    "total_blocks rs = total_blocks (reserva M)" "rs_block_size rs = ?bs" "reserva_ok rs"
    by (metis not_less)
  have nc: "?nb \<noteq> - 1" using hay tot(1) by auto
  have m: "medidas ?bs ?g1"
    using tot(2) residente_cabe [OF inv e] ram by (auto simp: medidas_def swap_de_def swap_ok_def g_def word_less_nat_alt)
  have val: "\<forall>k < ?n. is_valid_block (SWAP_CONFIG (disco M)) (swap_bloque_inicio ?g1 + of_nat k)"
  proof (intro allI impI)
    fix k
    assume k: "k < ?n"
    then have "unat (?nb + of_nat k) = unat ?nb + k" using hay tot(1) by (simp add: unat_add_u32 unat_of_nat)
    then show "is_valid_block (SWAP_CONFIG (disco M)) (swap_bloque_inicio ?g1 + of_nat k)"
      using hay k by (intro swap_listo_valido [OF sw]) (simp add: word_less_nat_alt)
  qed
  have red: "red_ok (conx M) (red_sticks M)" using inv by (simp add: mem_inv_def)
  have cabe: "unat (base ?g1) + unat (limite ?g1) \<le> ram (conx M)" using residente_cabe [OF inv e] by (simp add: g_def)
  have x: "contenido (memoria_de M) g = contenido (memoria_de M) ?g1" by (simp add: contenido_def)
  from volcar_bucle_ok [OF red m cabe s _ _ x tot(2) val, of 0 pid] n suma
  obtain d' where d': "volcar_bucle (conx M) ?bs s ?g1 pid (map of_nat [0..<?n]) (red_sticks M) (disco M) = (red_sticks M, d', [], 0)"
    "swap_de ?bs d'" "SWAP_CONFIG d' = SWAP_CONFIG (disco M)"
    "\<forall>k < ?n. bloque_de d' (?nb + of_nat k) = bloque_k (unat ?bs) (contenido (memoria_de M) g) k"
    "\<forall>b. is_valid_block (SWAP_CONFIG (disco M)) b \<and> b \<notin> tramo_swap ?nb 0 ?n \<longrightarrow> bloque_de d' b = bloque_de (disco M) b"
    by auto
  define M' where "M' = poner_segmento (i, j) g' (M\<lparr>reserva := rs, disco := d',
    bloques_libres := bloques_liberar (base g) (limite g) (bloques_libres M)\<rparr>)"
  have M': "conx M' = conx M" "red_sticks M' = red_sticks M" "config_memory M' = config_memory M" "reserva M' = rs"
      "disco M' = d'" "posiciones (procesos M') = posiciones (procesos M)"
      "\<And>q. seg_en (procesos M') q = (if q = (i, j) then g' else seg_en (procesos M) q)"
    using e(1) by (simp_all add: M'_def seg_poner_segmento)
  have paso: "suspender_bucle i pid s (j # js) M = (let (M4, ev', resp) = suspender_bucle i pid s js M' in (M4, ev', resp))"
  proof -
    have "volcar_segmento_a_swap (poner_segmento (i, j) ?g1 (M\<lparr>reserva := rs\<rparr>)) s ?g1 pid =
        ((poner_segmento (i, j) ?g1 (M\<lparr>reserva := rs\<rparr>))\<lparr>red_sticks := red_sticks M, disco := d'\<rparr>, [], 0)"
      using d'(1) n by (simp add: volcar_segmento_a_swap_def swap_block_size_def rs(4) lista_bloques_def)
    moreover have "poner_segmento (i, j) (?g1\<lparr>base := - 1\<rparr>)
        (((poner_segmento (i, j) ?g1 (M\<lparr>reserva := rs\<rparr>))\<lparr>red_sticks := red_sticks M, disco := d'\<rparr>)
         \<lparr>bloques_libres := bloques_liberar (base g) (limite g) (bloques_libres M)\<rparr>) = M'"
      using e(1) by (cases M) (simp add: M'_def g'_def poner_segmento_def actualizar_proceso_def set_posiciones)
    ultimately show ?thesis
      using rs(1) nc by (simp add: g_def [symmetric] swap_block_size_def Let_def split: prod.splits)
  qed
  have inv': "mem_inv M'"
    using mem_inv_soltar [of "M\<lparr>reserva := rs, disco := d'\<rparr>" "(i, j)" g g'] inv e
    by (simp add: M'_def g_def g'_def residente_def)
  have sw': "swap_listo M'"
    unfolding swap_listo_def M'(4,5) rs(3,4) d'(3) using sw [unfolded swap_listo_def] d'(2) rs(5) by blast
  have "limite g' = limite g" "swap_bloque_inicio g' = ?nb" by (simp_all add: g'_def)
  then have en: "en_swap ?bs (disco M') g' (contenido (memoria_de M) g)"
    using d'(3,4) val n M' cabe length_memoria_fisica [OF red] by (simp add: en_swap_def contenido_def)
  have marco: "bloque_de (disco M') b = bloque_de (disco M) b" if "b < ?nb" for b
  proof -
    have "b \<notin> tramo_swap ?nb 0 ?n"
    proof
      assume "b \<in> tramo_swap ?nb 0 ?n"
      then obtain k where k: "k < ?n" "b = ?nb + of_nat k" by (auto simp: tramo_swap_def)
      then have "unat b = unat ?nb + k" using hay tot(1) by (simp add: unat_add_u32 unat_of_nat)
      then show False using that by (simp add: word_less_nat_alt)
    qed
    moreover have "b < total_blocks (reserva M)" using that hay by (simp add: word_less_nat_alt)
    ultimately show ?thesis using d'(5) swap_listo_valido [OF sw] M' by simp
  qed
  have "sin_segmentos (procesos M') = sin_segmentos (procesos M)" by (simp add: M'_def)
  then show thesis
    by (intro that [of M']) (use paso inv' sw' M' rs d'(3) en marco in auto)
qed

text \<open>What the loop leaves of the segments \<open>js\<close> of process \<open>i\<close>.\<close>

definition suspendidas :: "t_memoria \<Rightarrow> nat \<Rightarrow> nat list \<Rightarrow> t_memoria \<Rightarrow> bool" where
  "suspendidas M i js M' \<longleftrightarrow>
     mem_inv M' \<and> swap_listo M' \<and> conx M' = conx M \<and> red_sticks M' = red_sticks M \<and>
     config_memory M' = config_memory M \<and> posiciones (procesos M') = posiciones (procesos M) \<and> bs_de M' = bs_de M \<and>
     sin_segmentos (procesos M') = sin_segmentos (procesos M) \<and>
     (\<forall>q. fst q \<noteq> i \<or> snd q \<notin> set js \<longrightarrow> seg_en (procesos M') q = seg_en (procesos M) q) \<and>
     (\<forall>j \<in> set js. \<exists>b. seg_en (procesos M') (i, j) = (seg_en (procesos M) (i, j))\<lparr>swap_bloque_inicio := b, base := - 1\<rparr> \<and>
        en_swap (bs_de M) (disco M') (seg_en (procesos M') (i, j)) (contenido (memoria_de M) (seg_en (procesos M) (i, j)))) \<and>
     SWAP_CONFIG (disco M') = SWAP_CONFIG (disco M) \<and>
     (\<forall>b. b < next_block (reserva M) \<longrightarrow> bloque_de (disco M') b = bloque_de (disco M) b) \<and>
     unat (next_block (reserva M)) \<le> unat (next_block (reserva M')) \<and>
     (\<forall>j \<in> set js. unat (swap_bloque_inicio (seg_en (procesos M') (i, j))) + bloques_seg M (i, j) \<le> unat (next_block (reserva M')))"

lemma en_swap_marco:
  assumes "en_swap bs d g x" "SWAP_CONFIG d' = SWAP_CONFIG d"
    and "unat (swap_bloque_inicio g) + unat (n_bloques bs (limite g)) \<le> unat tope"
    and "\<And>b. b < tope \<Longrightarrow> bloque_de d' b = bloque_de d b"
  shows "en_swap bs d' g x"
proof -
  have "swap_bloque_inicio g + of_nat k < tope" if k: "k < unat (n_bloques bs (limite g))" for k
  proof -
    have "unat (swap_bloque_inicio g) + k < 2 ^ 32" using assms(3) k unat_u32_less [of tope] by linarith
    then show ?thesis using assms(3) k by (simp add: word_less_nat_alt unat_add_u32 unat_of_nat)
  qed
  then show ?thesis using assms(1,2,4) by (simp add: en_swap_def)
qed

lemma suspender_bucle_ok:
  assumes "mem_inv M" "swap_listo M" "ram (conx M) < 2 ^ 31" "0 \<le> s" "distinct js"
    and "\<forall>j \<in> set js. (i, j) \<in> set (posiciones (procesos M)) \<and> residente (seg_en (procesos M) (i, j))"
    and "unat (next_block (reserva M)) + (\<Sum>j\<leftarrow>js. bloques_seg M (i, j)) \<le> unat (total_blocks (reserva M))"
  shows "\<exists>M'. suspender_bucle i pid s js M = (M', [], True) \<and> suspendidas M i js M'"
  using assms
proof (induction js arbitrary: M)
  case Nil
  then show ?case by (simp add: suspendidas_def)
next
  case (Cons j js)
  let ?g = "seg_en (procesos M) (i, j)"
  let ?g' = "?g\<lparr>swap_bloque_inicio := next_block (reserva M), base := - 1\<rparr>"
  have e: "(i, j) \<in> set (posiciones (procesos M))" "residente ?g" "j \<notin> set js" using Cons.prems(5,6) by auto
  have hay: "unat (next_block (reserva M)) + bloques_seg M (i, j) \<le> unat (total_blocks (reserva M))" using Cons.prems(7) by simp
  obtain M1 where M1: "suspender_bucle i pid s (j # js) M =
      (let (M4, ev', resp) = suspender_bucle i pid s js M1 in (M4, ev', resp))"
    "mem_inv M1" "swap_listo M1" "conx M1 = conx M" "red_sticks M1 = red_sticks M" "config_memory M1 = config_memory M"
    "posiciones (procesos M1) = posiciones (procesos M)" "bs_de M1 = bs_de M"
    "\<And>q. seg_en (procesos M1) q = (if q = (i, j) then ?g' else seg_en (procesos M) q)"
    "unat (next_block (reserva M1)) = unat (next_block (reserva M)) + bloques_seg M (i, j)"
    "total_blocks (reserva M1) = total_blocks (reserva M)" "SWAP_CONFIG (disco M1) = SWAP_CONFIG (disco M)"
    "en_swap (bs_de M) (disco M1) ?g' (contenido (memoria_de M) ?g)"
    "\<And>b. b < next_block (reserva M) \<Longrightarrow> bloque_de (disco M1) b = bloque_de (disco M) b"
    "sin_segmentos (procesos M1) = sin_segmentos (procesos M)"
    by (rule suspender_turno [OF Cons.prems(1-4) e(1,2) hay, of pid js]) blast
  have otros: "seg_en (procesos M1) (i, k) = seg_en (procesos M) (i, k)" if "k \<in> set js" for k
    using M1(9) e(3) that by auto
  have "(\<Sum>k\<leftarrow>js. bloques_seg M1 (i, k)) = (\<Sum>k\<leftarrow>js. bloques_seg M (i, k))"
    using otros M1(8) by (intro arg_cong [of _ _ sum_list] map_cong) (auto simp: bloques_seg_def)
  then have "unat (next_block (reserva M1)) + (\<Sum>k\<leftarrow>js. bloques_seg M1 (i, k)) \<le> unat (total_blocks (reserva M1))"
    using Cons.prems(7) M1(10,11) by simp
  then have "\<exists>M'. suspender_bucle i pid s js M1 = (M', [], True) \<and> suspendidas M1 i js M'"
    using Cons.prems M1(2-4,7) otros by (intro Cons.IH) auto
  then obtain M' where M': "suspender_bucle i pid s js M1 = (M', [], True)" "suspendidas M1 i js M'" by blast
  note sus = M'(2) [unfolded suspendidas_def]
  have fuera: "seg_en (procesos M') q = seg_en (procesos M1) q" if "fst q \<noteq> i \<or> snd q \<notin> set js" for q
    using sus that by blast
  have gj: "seg_en (procesos M') (i, j) = ?g'" using fuera [of "(i, j)"] e(3) M1(9) by simp
  have "en_swap (bs_de M) (disco M') ?g' (contenido (memoria_de M) ?g)"
  proof (rule en_swap_marco [OF M1(13), of _ "next_block (reserva M1)"])
    show "unat (swap_bloque_inicio ?g') + unat (n_bloques (bs_de M) (limite ?g')) \<le> unat (next_block (reserva M1))"
      using M1(10) by (simp add: bloques_seg_def)
  qed (use sus in auto)
  with gj have prim: "\<exists>b. seg_en (procesos M') (i, j) = ?g\<lparr>swap_bloque_inicio := b, base := - 1\<rparr> \<and>
      en_swap (bs_de M) (disco M') (seg_en (procesos M') (i, j)) (contenido (memoria_de M) ?g)" by auto
  have resto: "\<exists>b. seg_en (procesos M') (i, k) = (seg_en (procesos M) (i, k))\<lparr>swap_bloque_inicio := b, base := - 1\<rparr> \<and>
      en_swap (bs_de M) (disco M') (seg_en (procesos M') (i, k)) (contenido (memoria_de M) (seg_en (procesos M) (i, k)))"
    if "k \<in> set js" for k
  proof -
    have "memoria_de M1 = memoria_de M" using M1(4,5) by simp
    moreover have "\<exists>b. seg_en (procesos M') (i, k) = (seg_en (procesos M1) (i, k))\<lparr>swap_bloque_inicio := b, base := - 1\<rparr> \<and>
      en_swap (bs_de M1) (disco M') (seg_en (procesos M') (i, k)) (contenido (memoria_de M1) (seg_en (procesos M1) (i, k)))"
      using sus that by blast
    ultimately show ?thesis using otros [OF that] M1(8) by simp
  qed
  have igual: "seg_en (procesos M') q = seg_en (procesos M) q" if "fst q \<noteq> i \<or> snd q \<notin> set (j # js)" for q
    using fuera [of q] M1(9) [of q] that by auto
  have marco: "bloque_de (disco M') b = bloque_de (disco M) b" if "b < next_block (reserva M)" for b
  proof -
    have "b < next_block (reserva M1)" using that M1(10) by (simp add: word_less_nat_alt)
    then show ?thesis using sus M1(14) that by auto
  qed
  have tope: "unat (next_block (reserva M)) \<le> unat (next_block (reserva M'))"
      "unat (next_block (reserva M)) + bloques_seg M (i, j) \<le> unat (next_block (reserva M'))"
    using sus M1(10) by simp_all
  have topes: "unat (swap_bloque_inicio (seg_en (procesos M') (i, k))) + bloques_seg M (i, k) \<le> unat (next_block (reserva M'))"
    if "k \<in> set (j # js)" for k
  proof (cases "k = j")
    case True
    then show ?thesis using gj tope(2) by simp
  next
    case False
    then have k: "k \<in> set js" using that by simp
    then have "unat (swap_bloque_inicio (seg_en (procesos M') (i, k))) + bloques_seg M1 (i, k) \<le> unat (next_block (reserva M'))"
      using sus by blast
    then show ?thesis using otros [OF k] M1(8) by (simp add: bloques_seg_def)
  qed
  have "mem_inv M'" "swap_listo M'" "conx M' = conx M" "red_sticks M' = red_sticks M" "config_memory M' = config_memory M"
      "posiciones (procesos M') = posiciones (procesos M)" "bs_de M' = bs_de M" "SWAP_CONFIG (disco M') = SWAP_CONFIG (disco M)"
      "sin_segmentos (procesos M') = sin_segmentos (procesos M)"
    using sus M1(4-8,12,15) by simp_all
  then have "suspendidas M i (j # js) M'"
    unfolding suspendidas_def using prim resto igual marco tope(1) topes by (intro conjI ballI) auto
  then show ?case using M1(1) M'(1) by auto
qed


lemma atender_suspender:
  assumes "procesos_buscar pid (procesos M) = Some i" "0 \<le> swap_socket (conx M)"
  shows "atender_scheduler fopen M socket (enviar_suspender_proceso pid @ s) =
    (let (M', ev, resp) = suspender_bucle i pid (swap_socket (conx M)) [0..<length (segmentos (procesos M ! i))] M
     in (M', ev @ (if resp then [Enviar socket (enviar_ok SUSPENDER_PROCESO)] else []), s))"
  by (rule atender_mensaje [OF m_suspender.ida_y_vuelta])
    (use assms in \<open>simp_all add: despachar_scheduler_def manejar_suspender_proceso_def con_recv_Inr conexiones_get_swap_socket_def\<close>)

text \<open>
  C23. Suspending a process whose segments are all in RAM, when the swap has enough blocks
  left: the scheduler gets the acknowledgement and, as \<open>suspendidas\<close> says, every segment of
  the process has base \<open>(uint32_t)-1\<close> and its bytes are in the consecutive swap blocks that
  start at its \<open>swap_bloque_inicio\<close>, its RAM is free again (the memory is consistent), and the
  segments of the other processes, the RAM and the swap blocks used before are untouched.
\<close>

theorem suspender_proceso_correcto:
  assumes inv: "mem_inv M" "swap_listo M" "ram (conx M) < 2 ^ 31" "0 \<le> swap_socket (conx M)"
    and p: "procesos_buscar pid (procesos M) = Some i" and n: "n = length (segmentos (procesos M ! i))"
    and res: "list_all residente (segmentos (procesos M ! i))"
    and hay: "unat (next_block (reserva M)) + (\<Sum>j\<leftarrow>[0..<n]. bloques_seg M (i, j)) \<le> unat (total_blocks (reserva M))"
  shows "\<exists>M'. atender_scheduler fopen M socket (enviar_suspender_proceso pid @ s) =
      (M', [Enviar socket (enviar_ok SUSPENDER_PROCESO)], s) \<and> suspendidas M i [0..<n] M'"
proof -
  have i: "i < length (procesos M)" using procesos_buscar_SomeD [OF p] by simp
  have "\<forall>j \<in> set [0..<n]. (i, j) \<in> set (posiciones (procesos M)) \<and> residente (seg_en (procesos M) (i, j))"
    using i n res by (auto simp: set_posiciones seg_en_def list_all_length)
  from suspender_bucle_ok [OF inv distinct_upt this hay, of pid]
  obtain M' where "suspender_bucle i pid (swap_socket (conx M)) [0..<n] M = (M', [], True)" "suspendidas M i [0..<n] M'"
    by blast
  then show ?thesis using n by (simp add: atender_suspender [OF p inv(4)])
qed

lemma chica_lista:
  "swap_listo memoria_chica" "ram (conx memoria_chica) < 2 ^ 31" "0 \<le> swap_socket (conx memoria_chica)"
  "procesos_buscar 1 (procesos memoria_chica) = Some 0" "length (segmentos (procesos memoria_chica ! 0)) = 2"
  "list_all residente (segmentos (procesos memoria_chica ! 0))"
  "unat (next_block (reserva memoria_chica)) + (\<Sum>j\<leftarrow>[0..<2]. bloques_seg memoria_chica (0, j)) \<le> unat (total_blocks (reserva memoria_chica))"
proof -
  show "swap_listo memoria_chica"
    by (simp add: swap_listo_def memoria_chica_def swap_ejemplo_def swap_inicializar_def swap_de_def swap_ok_def reserva_ok_def)
  show "0 \<le> swap_socket (conx memoria_chica)" by (simp add: memoria_chica_def conexiones_ejemplo_def)
  show "unat (next_block (reserva memoria_chica)) + (\<Sum>j\<leftarrow>[0..<2]. bloques_seg memoria_chica (0, j)) \<le> unat (total_blocks (reserva memoria_chica))"
    by (simp add: upt_rec bloques_seg_def seg_en_def memoria_chica_def proceso_ejemplo_def swap_inicializar_def n_bloques_def)
qed (simp_all add: memoria_chica_def proceso_ejemplo_def procesos_buscar_def residente_def)

lemma suspender_proceso_correcto_witness:
  "\<exists>M'. atender_scheduler (\<lambda>_. None) memoria_chica 3 (enviar_suspender_proceso 1 @ []) =
      (M', [Enviar 3 (enviar_ok SUSPENDER_PROCESO)], []) \<and> suspendidas memoria_chica 0 [0..<2] M'"
  using suspender_proceso_correcto [OF mem_inv_chica chica_lista(1-4) chica_lista(5) [symmetric] chica_lista(6,7)] by blast

end
