(* ===== verification/Reanudacion.thy ===== *)
theory Reanudacion
  imports Suspension
begin

text \<open>
  Bringing a suspended process back, on the handlers of \<open>Memory_Scheduler\<close>: every segment gets
  a new base, or all of them are rolled back, and its blocks are copied from the SWAP module
  to the new place.
\<close>

section \<open>Back from the swap, block by block\<close>

lemma copiar_en_Nil [simp]: "copiar_en m off [] = m"
  by (simp add: copiar_en_def)

lemma cargar_bucle_ok:
  assumes m: "medidas bs g" and cabe: "unat (base g) + unat (limite g) \<le> ram c"
    and s: "0 \<le> s" and n: "n = unat (n_bloques bs (limite g))" and sw: "swap_de bs d" "en_swap bs d g x"
    and "red_ok c r" "k \<le> n"
  shows "\<exists>r'. cargar_bucle c bs s g pid (map of_nat [k..<n]) r d = (r', d, [], 0) \<and> red_ok c r' \<and>
    memoria_fisica c r' = copiar_en (memoria_fisica c r) (unat (base g) + k * unat bs) (drop (k * unat bs) x)"
  using assms(7-)
proof (induction "n - k" arbitrary: k r)
  case 0
  then have "drop (k * unat bs) x = []" using bloques_cubren [OF m] n sw(2) by (simp add: en_swap_def)
  then show ?case using 0 by auto
next
  case (Suc q)
  let ?b = "swap_bloque_inicio g + of_nat k" and ?ch = "chunk_bloque bs g (of_nat k)"
  let ?off = "unat (base g) + k * unat bs" and ?y = "bloque_k (unat bs) x k"
  have k: "k < n" using Suc.hyps(2) by simp
  note lim = bloque_limites [OF m k [unfolded n]]
  have N: "ram c < 2 ^ 32" using Suc.prems(1) by (simp add: red_ok_def layout_def)
  have lx: "length x = unat (limite g)" and val: "is_valid_block (SWAP_CONFIG d) ?b" "bloque_de d ?b = ?y"
    using sw(2) k n by (auto simp: en_swap_def)
  have leer: "swap_leer_bloque s bs ?b d = Inr (0, Some ?y, d)" using leer_bloque_cable [OF sw(1) s] val by simp
  have dir: "unat (base g + of_nat k * bs) = ?off" using lim cabe N by (subst unat_add_u32) simp_all
  let ?a = "tramo_de x (k * unat bs) (unat bs)"
  have a: "take (unat ?ch) ?y = ?a" "length ?a = unat ?ch"
    using lim(3) lx by (simp_all add: bloque_k_def relleno_def tramo_de_def min_def)
  have "unat (base g + of_nat k * bs) + unat ?ch \<le> ram c" "unat ?ch \<le> length ?y" "length ?y < 2 ^ 32"
    using dir lim cabe m by (auto simp: medidas_def)
  from memory_io_escribir_ok [OF Suc.prems(1) this, of pid] obtain r1 where r1:
    "memory_io_escribir c r pid (base g + of_nat k * bs) ?ch ?y = (r1, [], 0)" "red_ok c r1"
    "memoria_fisica c r1 = copiar_en (memoria_fisica c r) ?off ?a" unfolding dir a by metis
  have "q = n - Suc k" using Suc.hyps(2) by simp
  from Suc.hyps(1) [OF this r1(2)] k obtain r' where r':
    "cargar_bucle c bs s g pid (map of_nat [Suc k..<n]) r1 d = (r', d, [], 0)" "red_ok c r'"
    "memoria_fisica c r' = copiar_en (memoria_fisica c r1) (?off + unat bs) (drop (k * unat bs + unat bs) x)"
    by (auto simp: algebra_simps)
  have "copiar_en (memoria_fisica c r1) (?off + unat bs) (drop (k * unat bs + unat bs) x) =
      copiar_en (memoria_fisica c r) ?off (drop (k * unat bs) x)"
  proof -
    have x: "drop (k * unat bs) x = ?a @ drop (k * unat bs + unat bs) x"
      by (metis append_take_drop_id drop_drop add.commute tramo_de_def)
    have "?off + length ?a \<le> length (memoria_fisica c r)"
      using a(2) lim cabe length_memoria_fisica [OF Suc.prems(1)] by simp
    note ap = copiar_en_append [of ?off ?a "drop (k * unat bs + unat bs) x" "memoria_fisica c r"]
    show ?thesis
    proof (cases "length ?a = unat bs")
      case True
      then show ?thesis using ap a(2) lim cabe lx length_memoria_fisica [OF Suc.prems(1)] r1(3) x by simp
    next
      case False
      then have "drop (k * unat bs + unat bs) x = []" using a(2) lim(3) lx by (simp add: min_def split: if_splits)
      then show ?thesis using r1(3) x by simp
    qed
  qed
  with r' have "memoria_fisica c r' = copiar_en (memoria_fisica c r) ?off (drop (k * unat bs) x)" by simp
  moreover have "cargar_bucle c bs s g pid (map of_nat [k..<n]) r d = (r', d, [], 0)"
    using k by (simp add: upt_rec [of k n] leer r1(1) r'(1))
  ultimately show ?case using r'(2) by blast
qed

section \<open>The segments of a process\<close>

lemma tramo_seg_Cons [simp]:
  "separados (tramo_seg g # ts) \<longleftrightarrow> rango (base g) (limite g) \<inter> ocupadas ts = {} \<and> separados ts"
  "ocupadas (tramo_seg g # ts) = rango (base g) (limite g) \<union> ocupadas ts"
  by (simp_all add: tramo_seg_def)

lemma contenido_otro:
  assumes "unat b + length y \<le> length m" "cabe_en (length m) (tramo_seg h)"
    and "rango (base h) (limite h) \<inter> {unat b ..< unat b + length y} = {}"
  shows "contenido (copiar_en m (unat b) y) h = contenido m h"
proof (cases "limite h = 0 \<or> y = []")
  case True
  then show ?thesis by (auto simp: contenido_def tramo_de_def)
next
  case False
  then have "0 < unat (limite h)" "0 < length y" by (simp_all add: unat_gt_0)
  then have "unat (base h) + unat (limite h) \<le> unat b \<or> unat b + length y \<le> unat (base h)"
    using assms(3) by (auto simp: rango_def ivl_disj_int_two split: if_splits)
  then show ?thesis using assms(1,2) by (simp add: contenido_def tramo_de_otro cabe_en_def)
qed

lemma transferir_bucle_ok:
  assumes "0 \<le> s" "swap_de bs d" "list_all2 (en_swap bs d) gs xs"
    and "\<forall>g \<in> set gs. medidas bs g \<and> cabe_en (ram c) (tramo_seg g)" "separados (map tramo_seg gs)" "red_ok c r"
  shows "\<exists>r'. transferir_bucle c bs s pid gs r d = (r', d, [], 0) \<and> red_ok c r' \<and>
    list_all2 (\<lambda>g x. contenido (memoria_fisica c r') g = x) gs xs \<and>
    (\<forall>h. cabe_en (ram c) (tramo_seg h) \<and> rango (base h) (limite h) \<inter> ocupadas (map tramo_seg gs) = {} \<longrightarrow>
       contenido (memoria_fisica c r') h = contenido (memoria_fisica c r) h)"
  using assms(3-)
proof (induction gs xs arbitrary: r rule: list_all2_induct)
  case Nil
  then show ?case by simp
next
  case (Cons g gs x xs)
  have g: "medidas bs g" "unat (base g) + unat (limite g) \<le> ram c" using Cons.prems(1) by (auto simp: cabe_en_def)
  have lx: "length x = unat (limite g)" using Cons.hyps(1) by (simp add: en_swap_def)
  from cargar_bucle_ok [OF g assms(1) refl assms(2) Cons.hyps(1) Cons.prems(3), of 0 pid]
  obtain r1 where r1: "cargar_bucle c bs s g pid (lista_bloques (n_bloques bs (limite g))) r d = (r1, d, [], 0)" "red_ok c r1"
      "memoria_fisica c r1 = copiar_en (memoria_fisica c r) (unat (base g)) x"
    by (auto simp: lista_bloques_def)
  have sep: "rango (base g) (limite g) \<inter> ocupadas (map tramo_seg gs) = {}" "separados (map tramo_seg gs)"
    using Cons.prems(2) by simp_all
  obtain r' where r': "transferir_bucle c bs s pid gs r1 d = (r', d, [], 0)" "red_ok c r'"
      "list_all2 (\<lambda>g x. contenido (memoria_fisica c r') g = x) gs xs"
      "\<And>h. cabe_en (ram c) (tramo_seg h) \<Longrightarrow> rango (base h) (limite h) \<inter> ocupadas (map tramo_seg gs) = {} \<Longrightarrow>
         contenido (memoria_fisica c r') h = contenido (memoria_fisica c r1) h"
    using Cons.IH [of r1] Cons.prems(1) sep(2) r1(2) by (metis list.set_intros(2))
  note len = length_memoria_fisica [OF Cons.prems(3)]
  have "contenido (memoria_fisica c r') g = contenido (memoria_fisica c r1) g"
    using r'(4) [of g] g sep(1) by (simp add: cabe_en_def)
  also have "\<dots> = x"
    using tramo_de_copiar_en [of "unat (base g)" x "memoria_fisica c r"] g(2) len lx by (simp add: r1(3) contenido_def)
  finally have "contenido (memoria_fisica c r') g = x" .
  moreover have "contenido (memoria_fisica c r') h = contenido (memoria_fisica c r) h"
    if h: "cabe_en (ram c) (tramo_seg h)" "rango (base h) (limite h) \<inter> ocupadas (map tramo_seg (g # gs)) = {}" for h
  proof -
    have d: "rango (base h) (limite h) \<inter> ocupadas (map tramo_seg gs) = {}" "rango (base h) (limite h) \<inter> rango (base g) (limite g) = {}"
      using h(2) by auto
    then show ?thesis
      using r'(4) [OF h(1) d(1)] contenido_otro [of "base g" x "memoria_fisica c r" h] g(2) h(1) len lx r1(3)
      by (simp add: rango_def)
  qed
  ultimately show ?case using r1(1) r'(1-3) by (auto split: prod.splits)
qed


section \<open>New bases\<close>

lemma poner_segmento_base:
  "poner_segmento e ((seg_en (procesos M) e)\<lparr>base := b\<rparr>) M = M\<lparr>procesos := poner_base (procesos M) e b\<rparr>"
  by (simp add: poner_segmento_def actualizar_proceso_def poner_base_def)

text \<open>A swapped segment that gets a base takes its cells from the free list.\<close>

lemma mem_inv_tomar:
  assumes inv: "mem_inv M" and e: "e \<in> set (posiciones (procesos M))" "\<not> residente (seg_en (procesos M) e)"
    and asig: "bloques_asignar w (limite (seg_en (procesos M) e)) (bloques_libres M) = (b, bl)" "b \<noteq> - 1"
  shows "mem_inv (M\<lparr>bloques_libres := bl, procesos := poner_base (procesos M) e b\<rparr>)"
proof -
  let ?g = "(seg_en (procesos M) e)\<lparr>base := b\<rparr>" and ?N = "ram (conx M)" and ?ps = "poner_base (procesos M) e b"
  have inv': "bloques_inv ?N (bloques_libres M)" "particion ?N (celdas (bloques_libres M)) (tramos (procesos M))"
    using inv by (auto simp: mem_inv_def)
  note ok = memoria.asignar_exito [OF inv'(1) asig]
  have m: "mset (tramos ?ps) = mset (tramos (procesos M) @ [(b, limite (seg_en (procesos M) e))])"
    using tramos_poner_segmento [OF e(1), of ?g] e(2) asig(2) by (simp add: poner_segmento_base residente_def tramo_seg_def)
  have part: "particion ?N (celdas bl) (tramos ?ps)"
    using memoria.asignar_particion [OF inv' asig] particion_mset [OF m] by simp
  have "set (tramos ?ps) = set (tramos (procesos M) @ [(b, limite (seg_en (procesos M) e))])" using m by (metis set_mset_mset)
  with part show ?thesis using inv ok by (auto simp: mem_inv_def cabe_en_def)
qed

lemma mem_inv_devolver:
  assumes "mem_inv M" "e \<in> set (posiciones (procesos M))" "residente (seg_en (procesos M) e)" "g = seg_en (procesos M) e"
  shows "mem_inv (M\<lparr>bloques_libres := bloques_liberar (base g) (limite g) (bloques_libres M),
    procesos := poner_base (procesos M) e (- 1)\<rparr>)"
proof -
  have "poner_segmento e (g\<lparr>base := - 1\<rparr>) (M\<lparr>bloques_libres := bl\<rparr>) =
      M\<lparr>bloques_libres := bl, procesos := poner_base (procesos M) e (- 1)\<rparr>" for bl
    using poner_segmento_base [of e "- 1" "M\<lparr>bloques_libres := bl\<rparr>"] by (simp add: assms(4))
  then show ?thesis using mem_inv_soltar [OF assms, of "g\<lparr>base := - 1\<rparr>"] by (simp add: residente_def)
qed

text \<open>\<open>rebasada i js M M'\<close>: only the free list and the bases of the segments \<open>js\<close> of process \<open>i\<close> differ.\<close>

definition rebasada :: "nat \<Rightarrow> nat set \<Rightarrow> t_memoria \<Rightarrow> t_memoria \<Rightarrow> bool" where
  "rebasada i js M M' \<longleftrightarrow>
     M' = M\<lparr>bloques_libres := bloques_libres M', procesos := procesos M'\<rparr> \<and>
     sin_bases (procesos M') = sin_bases (procesos M) \<and> posiciones (procesos M') = posiciones (procesos M) \<and>
     (\<forall>q. fst q \<noteq> i \<or> snd q \<notin> js \<longrightarrow> seg_en (procesos M') q = seg_en (procesos M) q) \<and>
     (\<forall>j \<in> js. \<exists>b. seg_en (procesos M') (i, j) = (seg_en (procesos M) (i, j))\<lparr>base := b\<rparr>)"

lemma rebasada_refl [simp]: "rebasada i {} M M"
  by (simp add: rebasada_def)

lemma rebasada_paso:
  assumes "(i, j) \<in> set (posiciones (procesos M))" "rebasada i js (M\<lparr>bloques_libres := bl, procesos := poner_base (procesos M) (i, j) b\<rparr>) M'"
  shows "rebasada i (insert j js) M M'"
proof -
  let ?M = "M\<lparr>bloques_libres := bl, procesos := poner_base (procesos M) (i, j) b\<rparr>"
  have r: "M' = M\<lparr>bloques_libres := bloques_libres M', procesos := procesos M'\<rparr>"
     "sin_bases (procesos M') = sin_bases (procesos M)" "posiciones (procesos M') = posiciones (procesos M)"
     "\<And>q. fst q \<noteq> i \<or> snd q \<notin> js \<Longrightarrow> seg_en (procesos M') q = seg_en (procesos ?M) q"
     "\<And>k. k \<in> js \<Longrightarrow> \<exists>b'. seg_en (procesos M') (i, k) = (seg_en (procesos ?M) (i, k))\<lparr>base := b'\<rparr>"
    using assms(2) unfolding rebasada_def by (simp_all del: split_paired_All)
  have p: "seg_en (procesos ?M) q = (if q = (i, j) then (seg_en (procesos M) q)\<lparr>base := b\<rparr> else seg_en (procesos M) q)" for q
    using seg_poner_base [OF assms(1), of b q] by auto
  have j: "\<exists>b'. seg_en (procesos M') (i, k) = (seg_en (procesos M) (i, k))\<lparr>base := b'\<rparr>" if "k \<in> insert j js" for k
  proof (cases "k \<in> js")
    case True
    then show ?thesis using r(5) [OF True] p [of "(i, k)"] by (auto split: if_splits)
  next
    case False
    then show ?thesis using r(4) [of "(i, k)"] p [of "(i, k)"] that by auto
  qed
  have o: "seg_en (procesos M') q = seg_en (procesos M) q" if "fst q \<noteq> i \<or> snd q \<notin> insert j js" for q
    using r(4) [of q] p [of q] that by (cases q) auto
  then show ?thesis unfolding rebasada_def using r(1-3) j o by blast
qed

lemma reservar_bucle_ok:
  assumes "mem_inv M" "distinct js" "reservar_bucle i js rs M = (M', True)"
    and "\<forall>j \<in> set js. (i, j) \<in> set (posiciones (procesos M)) \<and> \<not> residente (seg_en (procesos M) (i, j))"
  shows "mem_inv M' \<and> rebasada i (set js) M M' \<and> (\<forall>j \<in> set js. residente (seg_en (procesos M') (i, j)))"
  using assms
proof (induction js arbitrary: M rs)
  case (Cons j js)
  let ?g = "seg_en (procesos M) (i, j)"
  obtain b bl where a: "bloques_asignar (worst_fit M) (limite ?g) (bloques_libres M) = (b, bl)"
    by (cases "bloques_asignar (worst_fit M) (limite ?g) (bloques_libres M)")
  let ?M = "M\<lparr>bloques_libres := bl, procesos := poner_base (procesos M) (i, j) b\<rparr>"
  have b: "b \<noteq> - 1" using Cons.prems(3) a by auto
  have j: "(i, j) \<in> set (posiciones (procesos M))" "\<not> residente ?g" "j \<notin> set js" "distinct js"
    using Cons.prems(2,4) by auto
  have paso: "reservar_bucle i js (rs @ [((i, j), base ?g)]) ?M = (M', True)"
    using Cons.prems(3) a b poner_segmento_base [of "(i, j)" b "M\<lparr>bloques_libres := bl\<rparr>"] by simp
  have otros: "seg_en (procesos ?M) (i, k) = seg_en (procesos M) (i, k)" if "k \<in> set js" for k
    using seg_poner_base [OF j(1), of b "(i, k)"] j(3) that by auto
  have "mem_inv M' \<and> rebasada i (set js) ?M M' \<and> (\<forall>k \<in> set js. residente (seg_en (procesos M') (i, k)))"
    using Cons.prems(4) otros by (intro Cons.IH [OF mem_inv_tomar [OF Cons.prems(1) j(1,2) a b] j(4) paso]) auto
  moreover from this have "seg_en (procesos M') (i, j) = ?g\<lparr>base := b\<rparr>"
    using j(3) seg_poner_base [OF j(1), of b "(i, j)"] unfolding rebasada_def by auto
  ultimately show ?case using rebasada_paso [OF j(1)] b by (auto simp: residente_def)
qed simp


text \<open>The rollback gives every new base back.\<close>

lemma rollback_ok:
  assumes "mem_inv M" "distinct js"
    and "\<forall>j \<in> set js. (i, j) \<in> set (posiciones (procesos M)) \<and> residente (seg_en (procesos M) (i, j))"
  shows "mem_inv (rollback (map (\<lambda>j. ((i, j), - 1)) js) M) \<and>
    rebasada i (set js) M (rollback (map (\<lambda>j. ((i, j), - 1)) js) M) \<and>
    (\<forall>j \<in> set js. \<not> residente (seg_en (procesos (rollback (map (\<lambda>j. ((i, j), - 1)) js) M)) (i, j)))"
  using assms
proof (induction js arbitrary: M)
  case (Cons j js)
  let ?g = "seg_en (procesos M) (i, j)" and ?rs = "map (\<lambda>j. ((i, j), - 1)) js"
  let ?M = "M\<lparr>bloques_libres := bloques_liberar (base ?g) (limite ?g) (bloques_libres M), procesos := poner_base (procesos M) (i, j) (- 1)\<rparr>"
  have j: "(i, j) \<in> set (posiciones (procesos M))" "residente ?g" "j \<notin> set js" "distinct js"
    using Cons.prems(2,3) by auto
  have paso: "rollback (map (\<lambda>j. ((i, j), - 1)) (j # js)) M = rollback ?rs ?M"
    using poner_segmento_base [of "(i, j)" "- 1" "M\<lparr>bloques_libres := bloques_liberar (base ?g) (limite ?g) (bloques_libres M)\<rparr>"]
    by (simp add: Let_def)
  have otros: "seg_en (procesos ?M) (i, k) = seg_en (procesos M) (i, k)" if "k \<in> set js" for k
    using seg_poner_base [OF j(1), of "- 1" "(i, k)"] j(3) that by auto
  have "mem_inv (rollback ?rs ?M) \<and> rebasada i (set js) ?M (rollback ?rs ?M) \<and>
      (\<forall>j \<in> set js. \<not> residente (seg_en (procesos (rollback ?rs ?M)) (i, j)))"
    using Cons.prems(3) otros by (intro Cons.IH [OF mem_inv_devolver [OF Cons.prems(1) j(1,2) refl] j(4)]) auto
  moreover from this have "seg_en (procesos (rollback ?rs ?M)) (i, j) = ?g\<lparr>base := - 1\<rparr>"
    using j(3) seg_poner_base [OF j(1), of "- 1" "(i, j)"] unfolding rebasada_def by auto
  ultimately show ?case unfolding paso using rebasada_paso [OF j(1)] by (auto simp: residente_def)
qed simp

lemma rebasada_mono:
  assumes "rebasada i js M M'" "js \<subseteq> ks"
  shows "rebasada i ks M M'"
proof -
  have "\<exists>b. seg_en (procesos M') (i, k) = (seg_en (procesos M) (i, k))\<lparr>base := b\<rparr>" for k
  proof (cases "k \<in> js")
    case True
    then show ?thesis using assms(1) unfolding rebasada_def by blast
  next
    case False
    then have "seg_en (procesos M') (i, k) = (seg_en (procesos M) (i, k))\<lparr>base := base (seg_en (procesos M) (i, k))\<rparr>"
      using assms(1) unfolding rebasada_def by (cases "seg_en (procesos M) (i, k)") simp
    then show ?thesis by blast
  qed
  then show ?thesis using assms unfolding rebasada_def by blast
qed

lemma reservar_bucle_falla:
  assumes "mem_inv M" "distinct (hechas @ js)" "reservar_bucle i js (map (\<lambda>j. ((i, j), - 1)) hechas) M = (M', False)"
    and "\<forall>j \<in> set (hechas @ js). (i, j) \<in> set (posiciones (procesos M))"
    and "\<forall>j \<in> set hechas. residente (seg_en (procesos M) (i, j))"
    and "\<forall>j \<in> set js. \<not> residente (seg_en (procesos M) (i, j))"
  shows "mem_inv M' \<and> rebasada i (set (hechas @ js)) M M' \<and> (\<forall>j \<in> set (hechas @ js). \<not> residente (seg_en (procesos M') (i, j)))"
  using assms
proof (induction js arbitrary: M hechas)
  case (Cons j js)
  let ?g = "seg_en (procesos M) (i, j)"
  have j: "(i, j) \<in> set (posiciones (procesos M))" "\<not> residente ?g" "j \<notin> set js" "j \<notin> set hechas"
    using Cons.prems(2,4,6) by auto
  obtain b bl where a: "bloques_asignar (worst_fit M) (limite ?g) (bloques_libres M) = (b, bl)"
    by (cases "bloques_asignar (worst_fit M) (limite ?g) (bloques_libres M)")
  show ?case
  proof (cases "b = - 1")
    case True
    then have M': "M' = rollback (map (\<lambda>j. ((i, j), - 1)) hechas) M" using Cons.prems(3) a by simp
    have r: "mem_inv M' \<and> rebasada i (set hechas) M M' \<and> (\<forall>j \<in> set hechas. \<not> residente (seg_en (procesos M') (i, j)))"
      unfolding M' using Cons.prems by (intro rollback_ok) auto
    have "\<not> residente (seg_en (procesos M') (i, k))" if "k \<in> set (j # js)" for k
    proof -
      have "k \<notin> set hechas" using that Cons.prems(2) by auto
      then have "seg_en (procesos M') (i, k) = seg_en (procesos M) (i, k)" using r unfolding rebasada_def by simp
      then show ?thesis using Cons.prems(6) that by auto
    qed
    then show ?thesis using r rebasada_mono [of i "set hechas" M M' "set (hechas @ j # js)"] by auto
  next
    case False
    let ?M = "M\<lparr>bloques_libres := bl, procesos := poner_base (procesos M) (i, j) b\<rparr>"
    have "reservar_bucle i js (map (\<lambda>j. ((i, j), - 1)) (hechas @ [j])) ?M = (M', False)"
      using Cons.prems(3) a False j(2) poner_segmento_base [of "(i, j)" b "M\<lparr>bloques_libres := bl\<rparr>"] by (simp add: residente_def)
    moreover have "seg_en (procesos ?M) (i, k) = (if k = j then ?g\<lparr>base := b\<rparr> else seg_en (procesos M) (i, k))" for k
      using seg_poner_base [OF j(1), of b "(i, k)"] by simp
    ultimately have r: "mem_inv M' \<and> rebasada i (set ((hechas @ [j]) @ js)) ?M M' \<and>
        (\<forall>k \<in> set ((hechas @ [j]) @ js). \<not> residente (seg_en (procesos M') (i, k)))"
      using Cons.prems j False mem_inv_tomar [OF Cons.prems(1) j(1,2) a False]
      by (intro Cons.IH) (auto simp: residente_def)
    have "insert j (set ((hechas @ [j]) @ js)) = set (hechas @ j # js)" by auto
    then show ?thesis using r rebasada_paso [OF j(1), where js = "set ((hechas @ [j]) @ js)" and bl = bl and b = b and M' = M'] by simp
  qed
qed simp

lemma sin_bases_seg:
  assumes "sin_bases ps' = sin_bases ps" "\<And>e. e \<in> set (posiciones ps) \<Longrightarrow> seg_en ps' e = seg_en ps e"
  shows "ps' = ps"
proof (rule nth_equalityI)
  show len: "length ps' = length ps" using sin_bases_buscar(2) [OF assms(1)] .
  fix i
  assume i: "i < length ps'"
  have s: "(ps' ! i)\<lparr>segmentos := map (\<lambda>g. g\<lparr>base := 0\<rparr>) (segmentos (ps' ! i))\<rparr> =
      (ps ! i)\<lparr>segmentos := map (\<lambda>g. g\<lparr>base := 0\<rparr>) (segmentos (ps ! i))\<rparr>"
    using arg_cong [OF assms(1), of "\<lambda>xs. xs ! i"] i len by (simp add: sin_bases_def)
  from arg_cong [OF s, of "\<lambda>p. length (segmentos p)"] have "length (segmentos (ps' ! i)) = length (segmentos (ps ! i))" by simp
  then have "segmentos (ps' ! i) = segmentos (ps ! i)"
    using assms(2) [of "(i, k)" for k] i len by (intro nth_equalityI) (auto simp: set_posiciones seg_en_def)
  moreover have "ce_pid (ps' ! i) = ce_pid (ps ! i)" "ce_registros (ps' ! i) = ce_registros (ps ! i)"
      "instrucciones (ps' ! i) = instrucciones (ps ! i)"
    using arg_cong [OF s, of ce_pid] arg_cong [OF s, of ce_registros] arg_cong [OF s, of instrucciones] by simp_all
  ultimately show "ps' ! i = ps ! i" by simp
qed

lemma mem_inv_celdas:
  "mem_inv M \<Longrightarrow> mem_inv M' \<Longrightarrow> conx M' = conx M \<Longrightarrow> procesos M' = procesos M \<Longrightarrow>
   celdas (bloques_libres M') = celdas (bloques_libres M)"
  unfolding mem_inv_def particion_def by (metis Diff_cancel Diff_triv Un_Diff Un_empty_right)


section \<open>When the reservation succeeds\<close>

lemma reservar_bucle_espacio:
  assumes "mem_inv M" "distinct js" "reservar_bucle i js rs M = (M', True)"
    and "\<forall>j \<in> set js. (i, j) \<in> set (posiciones (procesos M)) \<and> \<not> residente (seg_en (procesos M) (i, j))"
  shows "(\<Sum>j\<leftarrow>js. unat (limite (seg_en (procesos M) (i, j)))) \<le> card (celdas (bloques_libres M))"
  using assms
proof (induction js arbitrary: M rs)
  case (Cons j js)
  let ?g = "seg_en (procesos M) (i, j)"
  obtain b bl where a: "bloques_asignar (worst_fit M) (limite ?g) (bloques_libres M) = (b, bl)"
    by (cases "bloques_asignar (worst_fit M) (limite ?g) (bloques_libres M)")
  let ?M = "M\<lparr>bloques_libres := bl, procesos := poner_base (procesos M) (i, j) b\<rparr>"
  have b: "b \<noteq> - 1" using Cons.prems(3) a by auto
  have j: "(i, j) \<in> set (posiciones (procesos M))" "\<not> residente ?g" "j \<notin> set js" "distinct js"
    using Cons.prems(2,4) by auto
  have paso: "reservar_bucle i js (rs @ [((i, j), base ?g)]) ?M = (M', True)"
    using Cons.prems(3) a b poner_segmento_base [of "(i, j)" b "M\<lparr>bloques_libres := bl\<rparr>"] by simp
  have otros: "seg_en (procesos ?M) (i, k) = seg_en (procesos M) (i, k)" if "k \<in> set js" for k
    using seg_poner_base [OF j(1), of b "(i, k)"] j(3) that by auto
  have "bloques_inv (ram (conx M)) (bloques_libres M)" using Cons.prems(1) by (simp add: mem_inv_def)
  note ok = memoria.asignar_exito [OF this a b]
  then have "card (celdas (bloques_libres M)) = card (celdas bl) + unat (limite ?g)"
    by (metis card_Diff_subset card_mono card_rango finite_celdas finite_rango le_add_diff_inverse2)
  moreover have "(\<Sum>k\<leftarrow>js. unat (limite (seg_en (procesos ?M) (i, k)))) \<le> card (celdas (bloques_libres ?M))"
    using Cons.prems(4) otros by (intro Cons.IH [OF mem_inv_tomar [OF Cons.prems(1) j(1,2) a b] j(4) paso]) auto
  moreover have "(\<Sum>k\<leftarrow>js. unat (limite (seg_en (procesos ?M) (i, k)))) = (\<Sum>k\<leftarrow>js. unat (limite (seg_en (procesos M) (i, k))))"
    using otros by (intro arg_cong [of _ _ sum_list] map_cong) auto
  ultimately show ?case by simp
qed simp

text \<open>One block that holds all of them is enough, whichever blocks the strategy picks.\<close>

lemma asignar_conserva_bloque:
  assumes "bloques_inv N bl" "b \<in> set bl" "unat t + T \<le> unat (b_tamanio b)"
  obtains r bl' where "bloques_asignar w t bl = (r, bl')" "r \<noteq> - 1" "T = 0 \<or> (\<exists>b' \<in> set bl'. T \<le> unat (b_tamanio b'))"
proof (cases rule: bloques_asignar_cases [where bl = bl and t = t and worst = w])
  case nada
  then show ?thesis using assms by (auto simp: word_less_nat_alt)
next
  case (bloque i)
  obtain k where k: "k < length bl" "bl ! k = b" using assms(2) by (auto simp: in_set_conv_nth)
  have r: "b_base (bl ! i) \<noteq> - 1" using base_no_centinela [OF assms(1)] bloque(1) by simp
  let ?bl = "if b_tamanio (bl ! i) = t then list_remove bl i
         else bl[i := (bl ! i)\<lparr>b_base := b_base (bl ! i) + t, b_tamanio := b_tamanio (bl ! i) - t\<rparr>]"
  have "T = 0 \<or> (\<exists>b' \<in> set ?bl. T \<le> unat (b_tamanio b'))"
  proof (cases "k = i")
    case True
    have "unat (b_tamanio b - t) = unat (b_tamanio b) - unat t"
      using assms(3) by (intro unat_sub_u32) simp
    then show ?thesis
      using True assms(3) k bloque(1) set_update_memI [OF bloque(1)] by (cases "b_tamanio (bl ! i) = t") force+
  next
    case False
    have "b \<in> set (take i bl) \<or> b \<in> set (drop (Suc i) bl)"
      using False k nth_mem [of k "take i bl"] nth_mem [of "k - Suc i" "drop (Suc i) bl"] by (cases "k < i") auto
    then have "b \<in> set (list_remove bl i)" by (auto simp: list_remove_def)
    moreover have "b \<in> set (bl[i := y])" for y using False k by (metis length_list_update nth_list_update_neq nth_mem)
    ultimately show ?thesis using assms(3) by (auto intro: add_leD2)
  qed
  then show ?thesis using that [OF bloque(4) r] by simp
qed


lemma reservar_bucle_alcanza:
  assumes "mem_inv M" "distinct js" "\<forall>j \<in> set js. (i, j) \<in> set (posiciones (procesos M)) \<and> \<not> residente (seg_en (procesos M) (i, j))"
    and "\<forall>j \<in> set js. limite (seg_en (procesos M) (i, j)) \<noteq> 0"
    and "js = [] \<or> (\<exists>b \<in> set (bloques_libres M). (\<Sum>j\<leftarrow>js. unat (limite (seg_en (procesos M) (i, j)))) \<le> unat (b_tamanio b))"
  shows "snd (reservar_bucle i js rs M)"
  using assms
proof (induction js arbitrary: M rs)
  case (Cons j js)
  let ?g = "seg_en (procesos M) (i, j)" and ?T = "\<Sum>k\<leftarrow>js. unat (limite (seg_en (procesos M) (i, k)))"
  have j: "(i, j) \<in> set (posiciones (procesos M))" "\<not> residente ?g" "j \<notin> set js" "distinct js"
    using Cons.prems(2,3) by auto
  obtain b where b: "b \<in> set (bloques_libres M)" "unat (limite ?g) + ?T \<le> unat (b_tamanio b)" using Cons.prems(5) by auto
  have "bloques_inv (ram (conx M)) (bloques_libres M)" using Cons.prems(1) by (simp add: mem_inv_def)
  from asignar_conserva_bloque [OF this b] obtain r bl where
    a: "bloques_asignar (worst_fit M) (limite ?g) (bloques_libres M) = (r, bl)" "r \<noteq> - 1"
      "?T = 0 \<or> (\<exists>b' \<in> set bl. ?T \<le> unat (b_tamanio b'))" .
  let ?M = "M\<lparr>bloques_libres := bl, procesos := poner_base (procesos M) (i, j) r\<rparr>"
  have otros: "seg_en (procesos ?M) (i, k) = seg_en (procesos M) (i, k)" if "k \<in> set js" for k
    using seg_poner_base [OF j(1), of r "(i, k)"] j(3) that by auto
  have T: "(\<Sum>k\<leftarrow>js. unat (limite (seg_en (procesos ?M) (i, k)))) = ?T"
    using otros by (intro arg_cong [of _ _ sum_list] map_cong) auto
  have "js = []" if "?T = 0" using that Cons.prems(4) by (cases js) (auto simp: unat_eq_0)
  then have "snd (reservar_bucle i js (rs @ [((i, j), base ?g)]) ?M)"
    using Cons.prems(3,4) otros T a(3) by (intro Cons.IH [OF mem_inv_tomar [OF Cons.prems(1) j(1,2) a(1,2)] j(4)]) auto
  then show ?case using a poner_segmento_base [of "(i, j)" r "M\<lparr>bloques_libres := bl\<rparr>"] by simp
qed simp

section \<open>Resuming a process\<close>

text \<open>
  \<open>restaurada M i xs M'\<close>: process \<open>i\<close> is back in RAM with the contents \<open>xs\<close>, only bases differ
  in the table, and the segments of the others have kept their place and their bytes.
\<close>

definition restaurada :: "t_memoria \<Rightarrow> nat \<Rightarrow> byte list list \<Rightarrow> t_memoria \<Rightarrow> bool" where
  "restaurada M i xs M' \<longleftrightarrow>
     mem_inv M' \<and> sin_bases (procesos M') = sin_bases (procesos M) \<and>
     conx M' = conx M \<and> reserva M' = reserva M \<and> disco M' = disco M \<and> config_memory M' = config_memory M \<and>
     list_all2 (\<lambda>g x. residente g \<and> contenido (memoria_de M') g = x) (segmentos (procesos M' ! i)) xs \<and>
     (\<forall>e \<in> set (posiciones (procesos M)). fst e \<noteq> i \<longrightarrow>
        seg_en (procesos M') e = seg_en (procesos M) e \<and>
        (residente (seg_en (procesos M) e) \<longrightarrow>
           contenido (memoria_de M') (seg_en (procesos M) e) = contenido (memoria_de M) (seg_en (procesos M) e)))"

lemma tramo_ajeno:
  assumes "mem_inv M" "i < length (procesos M)" "e \<in> set (posiciones (procesos M))" "fst e \<noteq> i" "residente (seg_en (procesos M) e)"
  shows "rango (base (seg_en (procesos M) e)) (limite (seg_en (procesos M) e)) \<inter> ocupadas (tramos_segs (segmentos (procesos M ! i))) = {}"
proof -
  let ?ps = "procesos M" and ?g = "seg_en (procesos M) e"
  have sep: "separados (tramos (take i ?ps) @ tramos_segs (segmentos (?ps ! i)) @ tramos (drop (Suc i) ?ps))"
    using assms(1) tramos_split [OF assms(2)] by (simp add: mem_inv_def particion_def)
  obtain k l where e: "e = (k, l)" "k < length ?ps" "l < length (segmentos (?ps ! k))" using assms(3) by (auto simp: set_posiciones)
  have "?ps ! k \<in> set (take i ?ps) \<or> ?ps ! k \<in> set (drop (Suc i) ?ps)"
    using assms(4) e nth_mem [of k "take i ?ps"] nth_mem [of "k - Suc i" "drop (Suc i) ?ps"] by (cases "k < i") auto
  moreover have "tramo_seg ?g \<in> set (tramos_segs (segmentos (?ps ! k)))"
    using e assms(5) by (auto simp: tramos_segs_def seg_en_def)
  ultimately have "(base ?g, limite ?g) \<in> set (tramos (take i ?ps)) \<union> set (tramos (drop (Suc i) ?ps))"
    by (auto simp: tramos_def tramo_seg_def)
  then have "rango (base ?g) (limite ?g) \<subseteq> ocupadas (tramos (take i ?ps)) \<union> ocupadas (tramos (drop (Suc i) ?ps))"
    by (auto simp: ocupadas_def)
  then show ?thesis using sep by (auto simp: separados_append)
qed


lemma transferir_ok:
  assumes inv: "mem_inv M" "swap_listo M" "ram (conx M) < 2 ^ 31" "0 \<le> sw" and i: "i < length (procesos M)"
    and gs: "list_all residente (segmentos (procesos M ! i))" "list_all2 (en_swap (bs_de M) (disco M)) (segmentos (procesos M ! i)) xs"
  obtains M' where "transferir_swap_a_ram M sw i pid = (M', [], 0)" "restaurada M i xs M'"
proof -
  let ?gs = "segmentos (procesos M ! i)" and ?c = "conx M"
  have de: "swap_de (bs_de M) (disco M)" using inv(2) by (simp add: swap_listo_def)
  have red: "red_ok ?c (red_sticks M)" using inv(1) by (simp add: mem_inv_def)
  have ts: "tramos_segs ?gs = map tramo_seg ?gs" using gs(1) by (simp add: tramos_segs_def list_all_iff filter_id_conv)
  have "separados (map tramo_seg ?gs)"
    using inv(1) unfolding mem_inv_def particion_def tramos_split [OF i] separados_append ts by blast
  moreover have "medidas (bs_de M) g \<and> cabe_en (ram ?c) (tramo_seg g)" if g: "g \<in> set ?gs" for g
  proof -
    obtain j where "j < length ?gs" "?gs ! j = g" using g by (auto simp: in_set_conv_nth)
    then have "unat (base g) + unat (limite g) \<le> ram ?c"
      using residente_cabe [OF inv(1), of "(i, j)"] i gs(1) g by (auto simp: set_posiciones seg_en_def list_all_iff)
    then show ?thesis using inv(3) de by (auto simp: cabe_en_def medidas_def swap_de_def swap_ok_def word_less_nat_alt)
  qed
  ultimately obtain r' where r': "transferir_bucle ?c (bs_de M) sw pid ?gs (red_sticks M) (disco M) = (r', disco M, [], 0)"
      "red_ok ?c r'" "list_all2 (\<lambda>g x. contenido (memoria_fisica ?c r') g = x) ?gs xs"
      "\<And>h. cabe_en (ram ?c) (tramo_seg h) \<Longrightarrow> rango (base h) (limite h) \<inter> ocupadas (map tramo_seg ?gs) = {} \<Longrightarrow>
         contenido (memoria_fisica ?c r') h = contenido (memoria_de M) h"
    using transferir_bucle_ok [OF inv(4) de gs(2) _ _ red, of pid] by metis
  let ?M = "M\<lparr>red_sticks := r', disco := disco M\<rparr>"
  have "transferir_swap_a_ram M sw i pid = (?M, [], 0)" using r'(1) by (simp add: transferir_swap_a_ram_def swap_block_size_def)
  moreover have "mem_inv ?M" using inv(1) r'(2) by (simp add: mem_inv_def)
  moreover have "contenido (memoria_fisica ?c r') (seg_en (procesos M) e) = contenido (memoria_de M) (seg_en (procesos M) e)"
    if "e \<in> set (posiciones (procesos M))" "fst e \<noteq> i" "residente (seg_en (procesos M) e)" for e
    using r'(4) [of "seg_en (procesos M) e"] residente_cabe [OF inv(1) that(1,3)] tramo_ajeno [OF inv(1) i that] ts
    by (simp add: cabe_en_def)
  moreover have "list_all2 (\<lambda>g x. residente g \<and> contenido (memoria_fisica ?c r') g = x) ?gs xs"
    using r'(3) gs(1) by (auto simp: list_all2_conv_all_nth list_all_length)
  ultimately show thesis using that [of ?M] by (simp add: restaurada_def)
qed

lemma rebasada_sel:
  assumes "rebasada i js M M'"
  shows "conx M' = conx M" "red_sticks M' = red_sticks M" "reserva M' = reserva M" "disco M' = disco M"
    "config_memory M' = config_memory M" "length (procesos M') = length (procesos M)"
    "k < length (procesos M) \<Longrightarrow> length (segmentos (procesos M' ! k)) = length (segmentos (procesos M ! k))"
proof -
  have M': "M' = M\<lparr>bloques_libres := bloques_libres M', procesos := procesos M'\<rparr>" and s: "sin_bases (procesos M') = sin_bases (procesos M)"
    using assms by (simp_all add: rebasada_def)
  show "conx M' = conx M" "red_sticks M' = red_sticks M" "reserva M' = reserva M" "disco M' = disco M"
    "config_memory M' = config_memory M" by (subst M'; simp)+
  show "length (procesos M') = length (procesos M)" by (rule sin_bases_buscar(2) [OF s])
  then show "k < length (procesos M) \<Longrightarrow> length (segmentos (procesos M' ! k)) = length (segmentos (procesos M ! k))"
    using arg_cong [OF s, of "\<lambda>xs. length (segmentos (xs ! k))"] by (simp add: sin_bases_def)
qed


lemma atender_des_suspender:
  assumes "procesos_buscar pid (procesos M) = Some i" "0 \<le> swap_socket (conx M)"
  shows "atender_scheduler fopen M socket (enviar_des_suspender_proceso pid @ s) =
    (let (M1, hay) = reservar_bucle i [0..<length (segmentos (procesos M ! i))] [] M
     in if \<not> hay then (M1, [Enviar socket (enviar_ok SEGMENTATION_FAULT)], s)
        else let (M2, ev, res) = transferir_swap_a_ram M1 (swap_socket (conx M)) i pid
             in (M2, ev @ [Enviar socket (enviar_ok (if res \<noteq> 0 then SEGMENTATION_FAULT else DES_SUSPENDER_PROCESO))], s))"
  by (rule atender_mensaje [OF m_des_suspender.ida_y_vuelta])
    (use assms in \<open>simp_all add: despachar_scheduler_def manejar_des_suspender_proceso_def con_recv_Inr
      conexiones_get_swap_socket_def reservar_segmentos_con_rollback_def\<close>)

lemma reanudar_hay:
  assumes inv: "mem_inv M" "swap_listo M" "ram (conx M) < 2 ^ 31" "0 \<le> swap_socket (conx M)"
    and p: "procesos_buscar pid (procesos M) = Some i" and n: "n = length (segmentos (procesos M ! i))"
    and js: "\<forall>j \<in> set [0..<n]. (i, j) \<in> set (posiciones (procesos M)) \<and> \<not> residente (seg_en (procesos M) (i, j))"
    and xs: "list_all2 (en_swap (bs_de M) (disco M)) (segmentos (procesos M ! i)) xs"
    and hay: "reservar_bucle i [0..<n] [] M = (M1, True)"
  shows "\<exists>M'. atender_scheduler fopen M socket (enviar_des_suspender_proceso pid @ s) =
      (M', [Enviar socket (enviar_ok DES_SUSPENDER_PROCESO)], s) \<and> restaurada M i xs M'"
proof -
  have i: "i < length (procesos M)" using procesos_buscar_SomeD [OF p] by simp
  from reservar_bucle_ok [OF inv(1) distinct_upt hay js] have M1: "mem_inv M1" "rebasada i (set [0..<n]) M M1"
    "\<forall>j \<in> set [0..<n]. residente (seg_en (procesos M1) (i, j))" by auto
  note sel = rebasada_sel [OF M1(2)]
  let ?gs = "segmentos (procesos M1 ! i)"
  have len: "length ?gs = n" using sel(7) [OF i] n by simp
  have res: "list_all residente ?gs" using M1(3) len by (simp add: list_all_length seg_en_def)
  have "en_swap (bs_de M) (disco M) (?gs ! j) (xs ! j)" if j: "j < n" for j
  proof -
    have "\<exists>b. seg_en (procesos M1) (i, j) = (seg_en (procesos M) (i, j))\<lparr>base := b\<rparr>"
      using M1(2) j unfolding rebasada_def by (simp del: split_paired_All)
    then obtain b where "?gs ! j = (segmentos (procesos M ! i) ! j)\<lparr>base := b\<rparr>" by (auto simp: seg_en_def)
    moreover have "en_swap (bs_de M) (disco M) (segmentos (procesos M ! i) ! j) (xs ! j)"
      using xs j n by (simp add: list_all2_conv_all_nth)
    ultimately show ?thesis by (simp add: en_swap_def)
  qed
  then have "list_all2 (en_swap (bs_de M1) (disco M1)) ?gs xs"
    using xs len n sel(3,4) by (simp add: list_all2_conv_all_nth)
  moreover have "swap_listo M1" using inv(2) unfolding swap_listo_def sel .
  moreover have "ram (conx M1) < 2 ^ 31" "i < length (procesos M1)" using inv i sel by simp_all
  ultimately obtain M' where M': "transferir_swap_a_ram M1 (swap_socket (conx M)) i pid = (M', [], 0)" "restaurada M1 i xs M'"
    using transferir_ok [OF M1(1) _ _ inv(4) _ res] by metis
  have "restaurada M i xs M'"
    using M'(2) M1(2) sel unfolding restaurada_def rebasada_def by (auto simp del: split_paired_All)
  then show ?thesis using M'(1) hay n by (simp add: atender_des_suspender [OF p inv(4)])
qed


lemma reanudar_no_hay:
  assumes inv: "mem_inv M" and js: "\<forall>j \<in> set [0..<n]. (i, j) \<in> set (posiciones (procesos M)) \<and> \<not> residente (seg_en (procesos M) (i, j))"
    and r: "reservar_bucle i [0..<n] [] M = (M1, False)"
  shows "mem_inv M1 \<and> rebasada i (set [0..<n]) M M1 \<and> procesos M1 = procesos M"
proof -
  let ?js = "[0..<n]"
  have "mem_inv M1 \<and> rebasada i (set ([] @ ?js)) M M1 \<and> (\<forall>j \<in> set ([] @ ?js). \<not> residente (seg_en (procesos M1) (i, j)))"
    using r js by (intro reservar_bucle_falla [OF inv]) auto
  then have f: "mem_inv M1" "rebasada i (set ?js) M M1" "\<And>j. j \<in> set ?js \<Longrightarrow> base (seg_en (procesos M1) (i, j)) = - 1"
    by (simp_all add: residente_def)
  have "seg_en (procesos M1) e = seg_en (procesos M) e" for e
  proof (cases "fst e = i \<and> snd e \<in> set ?js")
    case True
    then obtain j where e: "e = (i, j)" "j \<in> set ?js" by (metis prod.collapse)
    then obtain b where "seg_en (procesos M1) e = (seg_en (procesos M) e)\<lparr>base := b\<rparr>"
      using f(2) unfolding rebasada_def by blast
    moreover have "base (seg_en (procesos M1) e) = - 1" "base (seg_en (procesos M) e) = - 1"
      using f(3) [OF e(2)] js e by (simp_all add: residente_def)
    ultimately show ?thesis by simp
  next
    case False
    then show ?thesis using f(2) unfolding rebasada_def by blast
  qed
  moreover have "sin_bases (procesos M1) = sin_bases (procesos M)" using f(2) unfolding rebasada_def by blast
  ultimately have "procesos M1 = procesos M" by (rule sin_bases_seg [rotated])
  then show ?thesis using f by blast
qed

text \<open>
  C24. Resuming a process whose segments are all in the swap with the bytes \<open>xs\<close>, on a
  consistent memory. Either the scheduler is told \<open>DES_SUSPENDER_PROCESO\<close> and the process is
  back in RAM with exactly those bytes, the others untouched; or it is told
  \<open>SEGMENTATION_FAULT\<close>, every base assigned on the way has been given back, and processes,
  free cells and RAM are as before. The second is what happens when the free space is smaller
  than the process, the first when one free block could hold all of it.
\<close>

theorem des_suspender_correcto:
  assumes inv: "mem_inv M" "swap_listo M" "ram (conx M) < 2 ^ 31" "0 \<le> swap_socket (conx M)"
    and p: "procesos_buscar pid (procesos M) = Some i" and gs: "gs = segmentos (procesos M ! i)"
    and susp: "\<forall>g \<in> set gs. \<not> residente g" "list_all2 (en_swap (bs_de M) (disco M)) gs xs"
    and paso: "atender_scheduler fopen M socket (enviar_des_suspender_proceso pid @ s) = (M', evs, s')"
  shows "s' = s \<and>
    (evs = [Enviar socket (enviar_ok DES_SUSPENDER_PROCESO)] \<and> restaurada M i xs M' \<or>
     evs = [Enviar socket (enviar_ok SEGMENTATION_FAULT)] \<and> mem_inv M' \<and> procesos M' = procesos M \<and>
       celdas (bloques_libres M') = celdas (bloques_libres M) \<and> memoria_de M' = memoria_de M) \<and>
    (card (celdas (bloques_libres M)) < (\<Sum>g\<leftarrow>gs. unat (limite g)) \<longrightarrow>
       evs = [Enviar socket (enviar_ok SEGMENTATION_FAULT)]) \<and>
    ((\<exists>b \<in> set (bloques_libres M). (\<Sum>g\<leftarrow>gs. unat (limite g)) \<le> unat (b_tamanio b)) \<and> (\<forall>g \<in> set gs. limite g \<noteq> 0) \<longrightarrow>
       evs = [Enviar socket (enviar_ok DES_SUSPENDER_PROCESO)])"
proof -
  let ?js = "[0..<length gs]"
  have i: "i < length (procesos M)" using procesos_buscar_SomeD [OF p] by simp
  have js: "\<forall>j \<in> set ?js. (i, j) \<in> set (posiciones (procesos M)) \<and> \<not> residente (seg_en (procesos M) (i, j))"
    using i gs susp(1) by (auto simp: set_posiciones seg_en_def)
  have T: "(\<Sum>j\<leftarrow>?js. unat (limite (seg_en (procesos M) (i, j)))) = (\<Sum>g\<leftarrow>gs. unat (limite g))"
    using gs by (intro arg_cong [of _ _ sum_list] nth_equalityI) (simp_all add: seg_en_def)
  have lim: "\<forall>j \<in> set ?js. limite (seg_en (procesos M) (i, j)) \<noteq> 0" if "\<forall>g \<in> set gs. limite g \<noteq> 0"
    using that gs by (auto simp: seg_en_def)
  obtain M1 hay where r: "reservar_bucle i ?js [] M = (M1, hay)" by (cases "reservar_bucle i ?js [] M")
  show ?thesis
  proof (cases hay)
    case True
    have "(\<Sum>g\<leftarrow>gs. unat (limite g)) \<le> card (celdas (bloques_libres M))"
      using reservar_bucle_espacio [OF inv(1) distinct_upt _ js] r True T by simp
    moreover have "evs = [Enviar socket (enviar_ok DES_SUSPENDER_PROCESO)] \<and> restaurada M i xs M' \<and> s' = s"
      using reanudar_hay [OF inv p _ js, of xs M1 fopen socket s] r True susp(2) gs paso by auto
    ultimately show ?thesis by simp
  next
    case False
    from reanudar_no_hay [OF inv(1) js] r False
    have f: "mem_inv M1" "rebasada i (set ?js) M M1" "procesos M1 = procesos M" by auto
    have M': "M' = M1" "evs = [Enviar socket (enviar_ok SEGMENTATION_FAULT)]" "s' = s"
      using paso r False gs by (simp_all add: atender_des_suspender [OF p inv(4)])
    have "\<not> ((\<exists>b \<in> set (bloques_libres M). (\<Sum>g\<leftarrow>gs. unat (limite g)) \<le> unat (b_tamanio b)) \<and> (\<forall>g \<in> set gs. limite g \<noteq> 0))"
      using reservar_bucle_alcanza [OF inv(1) distinct_upt js lim, of "[]"] r False T by auto
    then show ?thesis
      using M' f(1,3) rebasada_sel [OF f(2)] mem_inv_celdas [OF inv(1) f(1) _ f(3)] by auto
  qed
qed


text \<open>The small memory after its process was suspended.\<close>

definition memoria_en_swap :: t_memoria where
  "memoria_en_swap = memoria_chica
     \<lparr>bloques_libres := [\<lparr>b_base = 0, b_tamanio = 5\<rparr>],
      procesos := [proceso_ejemplo\<lparr>segmentos :=
        [\<lparr>id_seg = 0, base = - 1, limite = 2, swap_bloque_inicio = 0\<rparr>,
         \<lparr>id_seg = 1, base = - 1, limite = 1, swap_bloque_inicio = 1\<rparr>]\<rparr>],
      reserva := (swap_inicializar 2 4)\<lparr>next_block := 2\<rparr>,
      disco := swap_ejemplo\<lparr>SWAP_FILE := [2, 3, 5, 0, 0, 0, 0, 0]\<rparr>\<rparr>"

lemma suspendida_lista:
  "mem_inv memoria_en_swap" "swap_listo memoria_en_swap" "ram (conx memoria_en_swap) < 2 ^ 31"
  "0 \<le> swap_socket (conx memoria_en_swap)" "procesos_buscar 1 (procesos memoria_en_swap) = Some 0"
  "\<forall>g \<in> set (segmentos (procesos memoria_en_swap ! 0)). \<not> residente g"
  "list_all2 (en_swap (bs_de memoria_en_swap) (disco memoria_en_swap)) (segmentos (procesos memoria_en_swap ! 0)) [[2, 3], [5]]"
proof -
  show "mem_inv memoria_en_swap"
    by (auto simp: mem_inv_def memoria_en_swap_def memoria_chica_def red_ok_ejemplo residente_def particion_def
        bloque_en_def celdas_bloque_def rango_def)
  show "swap_listo memoria_en_swap"
    by (simp add: swap_listo_def memoria_en_swap_def memoria_chica_def swap_ejemplo_def swap_inicializar_def swap_de_def
        swap_ok_def reserva_ok_def)
  show "list_all2 (en_swap (bs_de memoria_en_swap) (disco memoria_en_swap)) (segmentos (procesos memoria_en_swap ! 0)) [[2, 3], [5]]"
    by (simp add: en_swap_def memoria_en_swap_def memoria_chica_def swap_ejemplo_def swap_inicializar_def n_bloques_def
        is_valid_block_def bloque_de_def block_offset_def tramo_de_def bloque_k_def relleno_def)
qed (simp_all add: memoria_en_swap_def memoria_chica_def conexiones_ejemplo_def proceso_ejemplo_def procesos_buscar_def residente_def)

lemma des_suspender_correcto_witness:
  "\<exists>M'. atender_scheduler (\<lambda>_. None) memoria_en_swap 3 (enviar_des_suspender_proceso 1 @ []) =
      (M', [Enviar 3 (enviar_ok DES_SUSPENDER_PROCESO)], []) \<and> restaurada memoria_en_swap 0 [[2, 3], [5]] M'"
proof -
  let ?r = "atender_scheduler (\<lambda>_. None) memoria_en_swap 3 (enviar_des_suspender_proceso 1 @ [])"
  obtain M' evs s' where r: "?r = (M', evs, s')" by (metis prod_cases3)
  have b: "(\<exists>b \<in> set (bloques_libres memoria_en_swap). (\<Sum>g\<leftarrow>segmentos (procesos memoria_en_swap ! 0). unat (limite g)) \<le> unat (b_tamanio b)) \<and>
      (\<forall>g \<in> set (segmentos (procesos memoria_en_swap ! 0)). limite g \<noteq> 0)"
    by (simp add: memoria_en_swap_def memoria_chica_def)
  note c = des_suspender_correcto [OF suspendida_lista(1-5) refl suspendida_lista(6,7) r]
  have "enviar_ok DES_SUSPENDER_PROCESO \<noteq> enviar_ok SEGMENTATION_FAULT"
    by (simp add: enviar_ok_def) code_simp
  then show ?thesis using c b r by auto
qed

text \<open>A process that was just suspended is one that can be resumed.\<close>

lemma suspendida_lista_para:
  assumes sus: "suspendidas M i [0..<n] M'" and inv: "ram (conx M) < 2 ^ 31" "0 \<le> swap_socket (conx M)"
    and p: "procesos_buscar pid (procesos M) = Some i" and n: "n = length (segmentos (procesos M ! i))"
  shows "mem_inv M'" "swap_listo M'" "ram (conx M') < 2 ^ 31" "0 \<le> swap_socket (conx M')"
    "procesos_buscar pid (procesos M') = Some i" "n = length (segmentos (procesos M' ! i))"
    "\<forall>j \<in> set [0..<n]. (i, j) \<in> set (posiciones (procesos M')) \<and> \<not> residente (seg_en (procesos M') (i, j))"
    "list_all2 (en_swap (bs_de M') (disco M')) (segmentos (procesos M' ! i))
       (map (\<lambda>j. contenido (memoria_de M) (seg_en (procesos M) (i, j))) [0..<n])"
    "\<And>j. j < n \<Longrightarrow> limite (seg_en (procesos M') (i, j)) = limite (seg_en (procesos M) (i, j))"
proof -
  note sus' = sus [unfolded suspendidas_def]
  have i: "i < length (procesos M)" using procesos_buscar_SomeD [OF p] by simp
  show "mem_inv M'" "swap_listo M'" "ram (conx M') < 2 ^ 31" "0 \<le> swap_socket (conx M')" using sus' inv by auto
  have pos: "posiciones (procesos M') = posiciones (procesos M)" and bs: "bs_de M' = bs_de M"
    and ss: "sin_segmentos (procesos M') = sin_segmentos (procesos M)" using sus' by auto
  show "procesos_buscar pid (procesos M') = Some i" using sin_segmentos_buscar [OF ss] p by simp
  have "i < length (procesos M')" using arg_cong [OF ss, of length] i by (simp add: sin_segmentos_def)
  then have "{j. j < length (segmentos (procesos M' ! i))} = {j. j < n}"
    using arg_cong [OF pos, of "\<lambda>l. {j. (i, j) \<in> set l}"] i n by (simp add: set_posiciones)
  then show len: "n = length (segmentos (procesos M' ! i))" by (metis card_Collect_less_nat)
  have seg: "\<exists>b. seg_en (procesos M') (i, j) = (seg_en (procesos M) (i, j))\<lparr>swap_bloque_inicio := b, base := - 1\<rparr> \<and>
        en_swap (bs_de M) (disco M') (seg_en (procesos M') (i, j)) (contenido (memoria_de M) (seg_en (procesos M) (i, j)))"
    if "j < n" for j
    using sus' that by simp
  show "\<forall>j \<in> set [0..<n]. (i, j) \<in> set (posiciones (procesos M')) \<and> \<not> residente (seg_en (procesos M') (i, j))"
    using seg i n unfolding pos by (fastforce simp: set_posiciones residente_def)
  show "limite (seg_en (procesos M') (i, j)) = limite (seg_en (procesos M) (i, j))" if "j < n" for j
    using seg [OF that] by auto
  show "list_all2 (en_swap (bs_de M') (disco M')) (segmentos (procesos M' ! i))
       (map (\<lambda>j. contenido (memoria_de M) (seg_en (procesos M) (i, j))) [0..<n])"
    using seg len bs by (auto simp: list_all2_conv_all_nth seg_en_def)
qed

text \<open>
  Suspending a process and asking for it back: the first request is acknowledged and the
  second either restores every segment with the bytes it had before the suspension, at some
  base in RAM, or is refused with the process still in the swap; it is not refused when some
  free block could hold the whole process.
\<close>

theorem suspender_y_reanudar:
  assumes inv: "mem_inv M" "swap_listo M" "ram (conx M) < 2 ^ 31" "0 \<le> swap_socket (conx M)"
    and p: "procesos_buscar pid (procesos M) = Some i" and n: "n = length (segmentos (procesos M ! i))"
    and res: "list_all residente (segmentos (procesos M ! i))" "\<forall>g \<in> set (segmentos (procesos M ! i)). limite g \<noteq> 0"
    and hay: "unat (next_block (reserva M)) + (\<Sum>j\<leftarrow>[0..<n]. bloques_seg M (i, j)) \<le> unat (total_blocks (reserva M))"
  shows "\<exists>M' M'' op.
    atender_scheduler fopen M socket (enviar_suspender_proceso pid @ enviar_des_suspender_proceso pid) =
      (M', [Enviar socket (enviar_ok SUSPENDER_PROCESO)], enviar_des_suspender_proceso pid) \<and>
    atender_scheduler fopen M' socket (enviar_des_suspender_proceso pid) = (M'', [Enviar socket (enviar_ok op)], []) \<and>
    mem_inv M'' \<and>
    (op = DES_SUSPENDER_PROCESO \<and> (\<forall>j < n. residente (seg_en (procesos M'') (i, j)) \<and>
         contenido (memoria_de M'') (seg_en (procesos M'') (i, j)) = contenido (memoria_de M) (seg_en (procesos M) (i, j))) \<or>
     op = SEGMENTATION_FAULT \<and> suspendidas M i [0..<n] M' \<and> procesos M'' = procesos M' \<and> disco M'' = disco M') \<and>
    ((\<exists>b \<in> set (bloques_libres M'). (\<Sum>g\<leftarrow>segmentos (procesos M ! i). unat (limite g)) \<le> unat (b_tamanio b)) \<longrightarrow>
       op = DES_SUSPENDER_PROCESO)"
proof -
  let ?ps = "procesos M ! i" and ?gs = "segmentos (procesos M ! i)" and ?x = "\<lambda>j. contenido (memoria_de M) (seg_en (procesos M) (i, j))"
  have i: "i < length (procesos M)" using procesos_buscar_SomeD [OF p] by simp
  have "\<forall>j \<in> set [0..<n]. (i, j) \<in> set (posiciones (procesos M)) \<and> residente (seg_en (procesos M) (i, j))"
    using i n res by (auto simp: set_posiciones seg_en_def list_all_length)
  from suspender_bucle_ok [OF inv distinct_upt this hay, of pid]
  obtain M' where M': "suspender_bucle i pid (swap_socket (conx M)) [0..<n] M = (M', [], True)" "suspendidas M i [0..<n] M'"
    by blast
  have s1: "atender_scheduler fopen M socket (enviar_suspender_proceso pid @ enviar_des_suspender_proceso pid) =
      (M', [Enviar socket (enviar_ok SUSPENDER_PROCESO)], enviar_des_suspender_proceso pid)"
    using M'(1) n by (simp add: atender_suspender [OF p inv(4)])
  note sus = suspendida_lista_para [OF M'(2) inv(3,4) p n]
  obtain M1 h where r: "reservar_bucle i [0..<n] [] M' = (M1, h)" by (cases "reservar_bucle i [0..<n] [] M'")
  show ?thesis
  proof (cases h)
    case True
    from reanudar_hay [OF sus(1-5) sus(6) sus(7) sus(8), of M1 fopen socket "[]"] r True sus(6) obtain M'' where M'':
      "atender_scheduler fopen M' socket (enviar_des_suspender_proceso pid) = (M'', [Enviar socket (enviar_ok DES_SUSPENDER_PROCESO)], [])"
      "restaurada M' i (map ?x [0..<n]) M''" by auto
    have "\<forall>j < n. residente (seg_en (procesos M'') (i, j)) \<and> contenido (memoria_de M'') (seg_en (procesos M'') (i, j)) = ?x j"
      using M''(2) by (auto simp: restaurada_def list_all2_conv_all_nth seg_en_def)
    moreover have "mem_inv M''" using M''(2) by (simp add: restaurada_def)
    ultimately show ?thesis using s1 M''(1) by blast
  next
    case False
    from reanudar_no_hay [OF sus(1) sus(7)] r False have f: "mem_inv M1" "rebasada i (set [0..<n]) M' M1" "procesos M1 = procesos M'"
      by auto
    have "atender_scheduler fopen M' socket (enviar_des_suspender_proceso pid) = (M1, [Enviar socket (enviar_ok SEGMENTATION_FAULT)], [])"
      using atender_des_suspender [OF sus(5,4), of fopen socket "[]"] r False sus(6) by simp
    moreover have "(\<Sum>j\<leftarrow>[0..<n]. unat (limite (seg_en (procesos M') (i, j)))) = (\<Sum>g\<leftarrow>?gs. unat (limite g))"
      using sus(9) n by (intro arg_cong [of _ _ sum_list] nth_equalityI) (simp_all add: seg_en_def)
    then have "\<not> (\<exists>b \<in> set (bloques_libres M'). (\<Sum>g\<leftarrow>?gs. unat (limite g)) \<le> unat (b_tamanio b))"
      using reservar_bucle_alcanza [OF sus(1) distinct_upt sus(7), of "[]"] sus(9) res(2) r False n by (auto simp: seg_en_def)
    ultimately show ?thesis using s1 f M'(2) rebasada_sel(4) [OF f(2)] by blast
  qed
qed

lemma suspender_y_reanudar_witness:
  "\<exists>M' M'' op.
    atender_scheduler (\<lambda>_. None) memoria_chica 3 (enviar_suspender_proceso 1 @ enviar_des_suspender_proceso 1) =
      (M', [Enviar 3 (enviar_ok SUSPENDER_PROCESO)], enviar_des_suspender_proceso 1) \<and>
    atender_scheduler (\<lambda>_. None) M' 3 (enviar_des_suspender_proceso 1) = (M'', [Enviar 3 (enviar_ok op)], []) \<and> mem_inv M''"
proof -
  have "\<forall>g \<in> set (segmentos (procesos memoria_chica ! 0)). limite g \<noteq> 0"
    by (simp add: memoria_chica_def proceso_ejemplo_def)
  from suspender_y_reanudar [OF mem_inv_chica chica_lista(1-4) chica_lista(5) [symmetric] chica_lista(6) this chica_lista(7)]
  show ?thesis by blast
qed

end
