(* ===== verification/Memory_Cpu.thy ===== *)
theory Memory_Cpu
  imports Segmentos
begin

text \<open>
  The other clients of Kernel Memory: the CPUs, the Memory Sticks and the swap module,
  \<open>kernel_memory/src/memory_cpu.c\<close> and \<open>memory_servidor.c\<close>. As in \<open>Memory_Scheduler\<close>
  a handler gets the state and the bytes that follow the opcode and returns the new state, what
  was sent and what is left of the stream. \<open>crear_conexion\<close> is the parameter \<open>conectar\<close>:
  it gives the new socket and the stick at its other end, or nothing. \<open>close\<close> and the delays
  are not modelled; the division by a zero block size is the event \<open>Aborto\<close>.
\<close>

section \<open>Requests of a CPU\<close>

definition manejar_obtener_instruccion :: "t_memoria \<Rightarrow> sock \<Rightarrow> byte list \<Rightarrow> t_paso" where
  "manejar_obtener_instruccion M socket s =
     con_recv (recv_bind validar_buffer (\<lambda>_. recv_bind recv_int (\<lambda>pid. recv_bind recv_u32 (\<lambda>pc.
         recv_ret (pid, pc))))) M s (\<lambda>(pid, pc) s'.
       let linea = (case procesos_buscar pid (procesos M) of
              None \<Rightarrow> ''''
            | Some i \<Rightarrow> if pc < of_nat (length (instrucciones (procesos M ! i)))
                        then instrucciones (procesos M ! i) ! unat pc else '''')
       in (M, [Enviar socket (enviar_paquete (agregar_cadena (crear_paquete OBTENER_INSTRUCCION) linea))], s'))"

definition manejar_obtener_contexto_cpu :: "t_memoria \<Rightarrow> sock \<Rightarrow> byte list \<Rightarrow> t_paso" where
  "manejar_obtener_contexto_cpu M socket s =
     con_recv (recv_bind validar_buffer (\<lambda>_. recv_int)) M s (\<lambda>pid s'.
       case procesos_buscar pid (procesos M) of
         None \<Rightarrow> (M, [], s')
       | Some i \<Rightarrow> (M, [Enviar socket (enviar_contexto_proceso (procesos M ! i))], s'))"

definition manejar_actualizar_contexto_cpu :: "t_memoria \<Rightarrow> sock \<Rightarrow> byte list \<Rightarrow> t_paso" where
  "manejar_actualizar_contexto_cpu M socket s =
     con_recv recibir_contexto_actualizar M s (\<lambda>ctx s'.
       (case procesos_buscar (pid_ctx ctx) (procesos M) of
          None \<Rightarrow> M
        | Some i \<Rightarrow> actualizar_proceso i (\<lambda>p. actualizar_proceso_desde_contexto p ctx) M,
        [Enviar socket (enviar_ok ACTUALIZAR_CONTEXTO)], s'))"

definition despachar_cpu :: "u32 \<Rightarrow> t_memoria \<Rightarrow> sock \<Rightarrow> byte list \<Rightarrow> t_paso" where
  "despachar_cpu codigo M socket s =
     (case op_de_num codigo of
        Some OBTENER_INSTRUCCION \<Rightarrow> manejar_obtener_instruccion M socket s
      | Some OBTENER_CONTEXTO \<Rightarrow> manejar_obtener_contexto_cpu M socket s
      | Some ACTUALIZAR_CONTEXTO \<Rightarrow> manejar_actualizar_contexto_cpu M socket s
      | _ \<Rightarrow> (M, [], s))"

definition atender_cpu :: "t_memoria \<Rightarrow> sock \<Rightarrow> byte list \<Rightarrow> t_paso" where
  "atender_cpu M socket s =
     (let (codigo, s1) = recibir_codigo_operacion s in despachar_cpu codigo M socket s1)"

lemma despachar_cpu_acorta: "length (snd (snd (despachar_cpu codigo M socket s))) \<le> length s"
proof -
  have "length (snd (snd (manejar_obtener_instruccion M socket s))) \<le> length s"
    "length (snd (snd (manejar_obtener_contexto_cpu M socket s))) \<le> length s"
    "length (snd (snd (manejar_actualizar_contexto_cpu M socket s))) \<le> length s"
    unfolding manejar_obtener_instruccion_def manejar_obtener_contexto_cpu_def manejar_actualizar_contexto_cpu_def
    by (rule con_recv_acorta; auto intro!: acorta_bind simp: Let_def split: prod.splits option.splits)+
  then show ?thesis by (simp add: despachar_cpu_def split: option.splits op_code.splits)
qed

text \<open>The loop of \<open>memory_receptor_cpu_thread\<close> on the whole stream of a CPU.\<close>

function memory_receptor_cpu_thread :: "i32 \<Rightarrow> t_memoria \<Rightarrow> sock \<Rightarrow> byte list \<Rightarrow> t_memoria \<times> evento list" where
  "memory_receptor_cpu_thread ident M socket s =
     (let (codigo, s1) = recibir_codigo_operacion s
      in if codigo = - 1 then (M\<lparr>conx := conexiones_invalidar_cpu_por_id ident (conx M)\<rparr>, [])
         else
           let (M', evs, s2) = despachar_cpu codigo M socket s1
           in if Aborto \<in> set evs then (M', evs)
              else let (M'', evs') = memory_receptor_cpu_thread ident M' socket s2 in (M'', evs @ evs'))"
  by pat_completeness auto
termination
proof (relation "measure (\<lambda>(ident, M, socket, s). length s)", goal_cases)
  case (2 ident M socket s x codigo s1 y M' z evs s2)
  then have d: "despachar_cpu codigo M socket s1 = (M', evs, s2)" by simp
  have "length s2 \<le> length s1" using despachar_cpu_acorta [of codigo M socket s1] unfolding d by simp
  moreover have "length s1 < length s" using recibir_codigo_acorta [of s codigo s1] 2 by simp
  ultimately show ?case by simp
qed simp

section \<open>Registration\<close>

definition texto :: "string option \<Rightarrow> string" where
  "texto o' = (case o' of None \<Rightarrow> [] | Some s \<Rightarrow> s)"

definition notificar_sticks_a_cpu :: "t_memoria \<Rightarrow> sock \<Rightarrow> evento list" where
  "notificar_sticks_a_cpu M destino =
     map (\<lambda>i. Enviar destino (enviar_nueva_memoria_disponible
            (conexiones_stick_tamanio (int i) (conx M)) (conexiones_stick_base_fisica (int i) (conx M))
            (texto (conexiones_stick_ip (int i) (conx M))) (texto (conexiones_stick_puerto (int i) (conx M)))))
       [0..<nat (conexiones_cantidad_sticks (conx M))]"

definition notificar_cpus_de_nuevo_stick ::
  "t_conexiones_activas \<Rightarrow> u32 \<Rightarrow> u32 \<Rightarrow> string \<Rightarrow> string \<Rightarrow> evento list" where
  "notificar_cpus_de_nuevo_stick c tamanio b ip puerto =
     concat (map (\<lambda>i. let destino = conexiones_cpu_socket_en (int i) c
                      in if destino = - 1 then []
                         else [Enviar destino (enviar_nueva_memoria_disponible tamanio b ip puerto)])
       [0..<nat (conexiones_cantidad_cpus c)])"

definition registrar_cpu :: "t_memoria \<Rightarrow> sock \<Rightarrow> byte list \<Rightarrow> t_paso" where
  "registrar_cpu M client_socket s =
     con_recv recibir_handshake_cpu M s (\<lambda>ident s'.
       let (idx, c) = conexiones_agregar_cpu client_socket ident (conx M); M' = M\<lparr>conx := c\<rparr>
       in if idx < 0 then (M', [], s')
          else (M', Enviar client_socket (enviar_config_mmu_cpu (segment_max_size (config_memory M'))) #
                    notificar_sticks_a_cpu M' client_socket, s'))"

definition registrar_memory_stick ::
  "(string \<Rightarrow> string \<Rightarrow> (sock \<times> t_stick) option) \<Rightarrow> t_memoria \<Rightarrow> sock \<Rightarrow> byte list \<Rightarrow> t_paso" where
  "registrar_memory_stick conectar M client_socket s =
     con_recv recibir_handshake_memory_stick M s (\<lambda>(tamanio, ip, puerto) s'.
       case conexiones_agregar_stick client_socket tamanio ip puerto (conx M) of
         (idx, None, c) \<Rightarrow> (M\<lparr>conx := c\<rparr>, [], s')
       | (idx, Some b, c) \<Rightarrow>
           let M1 = M\<lparr>conx := c, bloques_libres := bloques_agregar b tamanio (bloques_libres M)\<rparr>;
               (M2, ev) = (case conectar ip puerto of
                  None \<Rightarrow> (M1, [])
                | Some (out_sock, st) \<Rightarrow>
                    (M1\<lparr>conx := conexiones_stick_set_outbound_socket idx out_sock (conx M1),
                        red_sticks := (red_sticks M1)(out_sock := Some st)\<rparr>,
                     [Enviar out_sock (enviar_handshake_cpu (- 999))]));
               sched = conexiones_get_scheduler_socket (conx M2)
           in (M2, notificar_cpus_de_nuevo_stick c tamanio b ip puerto @ ev @
                   (if sched \<noteq> - 1 then [Enviar sched (enviar_nueva_memoria_disponible tamanio b ip puerto)] else []), s'))"

definition memory_stick_monitor_thread :: "int \<Rightarrow> t_memoria \<Rightarrow> t_memoria \<times> evento list" where
  "memory_stick_monitor_thread stick_index M =
     (let (ip, puerto, c) = conexiones_stick_invalidate_por_indice stick_index (conx M);
          sched = conexiones_get_scheduler_socket c
      in (M\<lparr>conx := c\<rparr>, if sched \<noteq> - 1 then [Enviar sched enviar_memoria_corrupta] else []))"

definition registrar_swap :: "t_swap \<Rightarrow> t_memoria \<Rightarrow> sock \<Rightarrow> byte list \<Rightarrow> t_paso" where
  "registrar_swap otro M client_socket s =
     con_recv recibir_handshake_swap M s (\<lambda>(bs, total_size) s'.
       if bs = 0 then (M, [Aborto], s')
       else (M\<lparr>reserva := swap_inicializar bs (total_size div bs),
               conx := conexiones_set_swap_socket client_socket (conx M), disco := otro\<rparr>, [], s'))"

text \<open>The handshake of a new connection; \<open>otro\<close> is the swap module, if it is the one that connects.\<close>

definition memory_handshake_handler ::
  "(string \<Rightarrow> string \<Rightarrow> (sock \<times> t_stick) option) \<Rightarrow> t_swap \<Rightarrow> t_memoria \<Rightarrow> sock \<Rightarrow> byte list \<Rightarrow> t_paso" where
  "memory_handshake_handler conectar otro M client_socket s =
     (let (cod_op, s1) = recibir_codigo_operacion s
      in if cod_op = - 1 then (M, [], s1)
         else case op_de_num cod_op of
           Some HANDSHAKE_SCHEDULER_A_MEMORY \<Rightarrow> registrar_scheduler M client_socket s1
         | Some HANDSHAKE_CPU \<Rightarrow> registrar_cpu M client_socket s1
         | Some HANDSHAKE_MEMORY_STICK \<Rightarrow> registrar_memory_stick conectar M client_socket s1
         | Some HANDSHAKE_SWAP \<Rightarrow> registrar_swap otro M client_socket s1
         | _ \<Rightarrow> (M, [], s1))"

section \<open>A new stick\<close>

lemma bloques_inv_mono: "bloques_inv N bl \<Longrightarrow> N \<le> N' \<Longrightarrow> N' < 2 ^ 32 - 1 \<Longrightarrow> bloques_inv N' bl"
  by (auto simp: bloques_inv_def bloque_en_def)

lemma atender_handshake_stick:
  assumes "cadena_ok ip" "cadena_ok puerto" "length ip + length puerto < 2 ^ 31 - 100"
    and "conexiones_agregar_stick client tam ip puerto (conx M) = (idx, Some b, c)" "conectar ip puerto = Some (out, st)"
  shows "memory_handshake_handler conectar otro M client (enviar_handshake_memory_stick tam ip puerto @ s) =
    (M\<lparr>conx := conexiones_stick_set_outbound_socket idx out c,
       bloques_libres := bloques_agregar b tam (bloques_libres M), red_sticks := (red_sticks M)(out := Some st)\<rparr>,
     notificar_cpus_de_nuevo_stick c tam b ip puerto @ [Enviar out (enviar_handshake_cpu (- 999))] @
       (if scheduler_socket (conexiones_stick_set_outbound_socket idx out c) \<noteq> - 1
        then [Enviar (scheduler_socket (conexiones_stick_set_outbound_socket idx out c)) (enviar_nueva_memoria_disponible tam b ip puerto)]
        else []), s)"
proof -
  have "recibir_mensaje recibir_handshake_memory_stick (enviar_handshake_memory_stick tam ip puerto @ s) =
      (op_num HANDSHAKE_MEMORY_STICK, Inr ((tam, ip, puerto), s))"
    using m_handshake_stick.ida_y_vuelta [of "(tam, ip, puerto)" s] assms(1-3) by simp
  then obtain s1 where s1: "recibir_codigo_operacion (enviar_handshake_memory_stick tam ip puerto @ s) = (op_num HANDSHAKE_MEMORY_STICK, s1)"
      "recibir_handshake_memory_stick s1 = Inr ((tam, ip, puerto), s)"
    by (auto simp: recibir_mensaje_def Let_def split: prod.splits)
  then have "registrar_memory_stick conectar M client s1 = memory_handshake_handler conectar otro M client (enviar_handshake_memory_stick tam ip puerto @ s)"
    by (simp add: memory_handshake_handler_def)
  then show ?thesis
    using assms(4,5) s1(2)
    by (cases M) (simp add: registrar_memory_stick_def con_recv_Inr conexiones_get_scheduler_socket_def Let_def cong: if_cong)
qed

lemma agregar_stick_conectado:
  assumes red: "red_ok c r" and tam: "ram c + unat tam < 2 ^ 32 - 1" "unat tam < 2 ^ 31 - 100"
    and ag: "conexiones_agregar_stick client tam ip puerto c = (idx, Some b, c1)"
    and out: "0 \<le> out" "out \<notin> outbound_socket ` set (sticks c)" and st: "stick_ok st" "memoria_size st = tam"
  defines "c2 \<equiv> conexiones_stick_set_outbound_socket idx out c1"
  shows "red_ok c2 (r(out := Some st))" "ram c2 = ram c + unat tam" "unat b = ram c"
    "memoria_fisica c2 (r(out := Some st)) = memoria_fisica c r @ memoria_buffer st"
    "scheduler_socket c2 = scheduler_socket c" "cpus c2 = cpus c" "swap_socket c2 = swap_socket c"
proof -
  let ?e = "\<lparr>st_socket = client, st_tamanio = tam, st_ip = ip, st_puerto = puerto, outbound_socket = out, base_fisica = b\<rparr>"
  let ?r = "r(out := Some st)"
  have lay: "layout c" "conectados c" "distinct (map outbound_socket (sticks c))" "\<forall>e \<in> set (sticks c). stick_en_linea r e"
    using red by (auto simp: red_ok_def)
  have c1: "idx = int (length (sticks c))" "b = fold (\<lambda>s total. total + st_tamanio s) (sticks c) 0"
      "c1 = c\<lparr>sticks := sticks c @ [?e\<lparr>outbound_socket := - 1\<rparr>]\<rparr>" "length (sticks c) < MAX_MEMORY_STICKS"
    using ag by (auto simp: conexiones_agregar_stick_def Let_def split: if_splits)
  have c2: "c2 = c\<lparr>sticks := sticks c @ [?e]\<rparr>"
    by (simp add: c2_def conexiones_stick_set_outbound_socket_def indice_valido_def c1(1,3))
  show b: "unat b = ram c" using fold_tamanios [of 0 "sticks c"] tam(1) by (simp add: c1(2))
  show "ram c2 = ram c + unat tam" "scheduler_socket c2 = scheduler_socket c" "cpus c2 = cpus c" "swap_socket c2 = swap_socket c"
    by (simp_all add: c2)
  have same: "?r (outbound_socket e) = r (outbound_socket e)" if "e \<in> set (sticks c)" for e using out(2) that by auto
  have "layout c2"
    using lay(1) b tam(1) c1(4) by (auto simp: c2 layout_def nth_append less_Suc_eq)
  moreover have "stick_en_linea ?r e" if "e \<in> set (sticks c2)" for e
  proof (cases "e = ?e")
    case False
    then have "e \<in> set (sticks c)" using that by (simp add: c2)
    then show ?thesis using lay(4) unfolding stick_en_linea_def same [OF \<open>e \<in> set (sticks c)\<close>] by blast
  qed (use tam(2) st in \<open>simp add: stick_en_linea_def\<close>)
  moreover have "conectados c2" "distinct (map outbound_socket (sticks c2))"
    using lay(2,3) out by (auto simp: c2 conectados_def)
  ultimately show "red_ok c2 ?r" by (simp add: red_ok_def)
  have "map (buffer_de ?r) (sticks c) = map (buffer_de r) (sticks c)" using same by (intro map_cong refl) (simp only: buffer_de_def)
  then have "concat (map (buffer_de ?r) (sticks c)) = memoria_fisica c r" unfolding memoria_fisica_def by (rule arg_cong)
  moreover have "memoria_fisica c2 ?r = concat (map (buffer_de ?r) (sticks c)) @ buffer_de ?r ?e"
    by (simp add: memoria_fisica_def c2)
  moreover have "buffer_de ?r ?e = memoria_buffer st" by (simp add: buffer_de_def)
  ultimately show "memoria_fisica c2 ?r = memoria_fisica c r @ memoria_buffer st" by (simp only:)
qed

lemma mem_inv_crecer:
  assumes inv: "mem_inv M" and red: "red_ok c r" "ram c = ram (conx M) + unat tam" and b: "unat b = ram (conx M)"
  shows "mem_inv (M\<lparr>conx := c, bloques_libres := bloques_agregar b tam (bloques_libres M), red_sticks := r\<rparr>) \<and>
    celdas (bloques_agregar b tam (bloques_libres M)) = celdas (bloques_libres M) \<union> {ram (conx M) ..< ram c}"
proof -
  let ?N = "ram (conx M)" and ?bl = "bloques_libres M"
  have N: "ram c < 2 ^ 32 - 1" using red(1) by (simp add: red_ok_def layout_def)
  have inv': "bloques_inv ?N ?bl" "particion ?N (celdas ?bl) (tramos (procesos M))" "\<forall>t \<in> set (tramos (procesos M)). cabe_en ?N t"
    using inv by (auto simp: mem_inv_def)
  have bl: "bloques_inv (ram c) ?bl" by (rule bloques_inv_mono [OF inv'(1)]) (use red(2) N in simp_all)
  have rng: "rango b tam = {?N ..< ram c}" using b red(2) by (simp add: rango_def)
  have "rango b tam \<inter> celdas ?bl = {}" using celdas_en [OF inv'(1)] by (auto simp: rng)
  moreover have "unat b + unat tam \<le> ram c" using b red(2) by simp
  ultimately have l: "bloques_inv (ram c) (bloques_agregar b tam ?bl)"
      "celdas (bloques_agregar b tam ?bl) = celdas ?bl \<union> {?N ..< ram c}"
    using bloques_liberar_ok [OF bl, of b tam] rng by (simp_all add: bloques_agregar_def)
  have p: "celdas ?bl \<union> ocupadas (tramos (procesos M)) = {..<?N}" "celdas ?bl \<inter> ocupadas (tramos (procesos M)) = {}"
    using inv'(2) by (simp_all add: particion_def)
  have "celdas ?bl \<union> {?N ..< ram c} \<union> ocupadas (tramos (procesos M)) = {..<?N} \<union> {?N ..< ram c}"
    unfolding p(1) [symmetric] by (simp add: ac_simps)
  also have "\<dots> = {..<ram c}" using red(2) by auto
  finally have u: "celdas ?bl \<union> {?N ..< ram c} \<union> ocupadas (tramos (procesos M)) = {..<ram c}" .
  have "ocupadas (tramos (procesos M)) \<subseteq> {..<?N}" unfolding p(1) [symmetric] by simp
  then have "(celdas ?bl \<union> {?N ..< ram c}) \<inter> ocupadas (tramos (procesos M)) = {}" using p(2) by fastforce
  then have "particion (ram c) (celdas ?bl \<union> {?N ..< ram c}) (tramos (procesos M))"
    using u inv'(2) unfolding particion_def by blast
  moreover have "\<forall>t \<in> set (tramos (procesos M)). cabe_en (ram c) t" using inv'(3) red(2) by (auto simp: cabe_en_def)
  ultimately show ?thesis using l red(1) by (simp add: mem_inv_def)
qed


text \<open>
  C26. A Memory Stick that connects extends a consistent memory: the RAM grows by its size at
  the end, its cells are the new free cells, no byte and no segment moves, and every connected
  CPU and the scheduler are told about it. \<open>conectar\<close> is the outgoing connection; its
  contract is that it reaches the stick that announced itself, on a socket not in use.
\<close>

theorem registrar_stick_correcto:
  assumes inv: "mem_inv M" and ip: "cadena_ok ip" "cadena_ok puerto" "length ip + length puerto < 2 ^ 31 - 100"
    and hay: "length (sticks (conx M)) < MAX_MEMORY_STICKS"
    and tam: "ram (conx M) + unat tam < 2 ^ 32 - 1" "unat tam < 2 ^ 31 - 100"
    and con: "conectar ip puerto = Some (out, st)" "0 \<le> out" "out \<notin> outbound_socket ` set (sticks (conx M))"
      "stick_ok st" "memoria_size st = tam"
    and paso: "memory_handshake_handler conectar otro M client (enviar_handshake_memory_stick tam ip puerto @ s) = (M', evs, s')"
  shows "mem_inv M' \<and> s' = s \<and> procesos M' = procesos M \<and>
    memoria_de M' = memoria_de M @ memoria_buffer st \<and>
    celdas (bloques_libres M') = celdas (bloques_libres M) \<union> {ram (conx M) ..< ram (conx M) + unat tam} \<and>
    (\<forall>e \<in> set (cpus (conx M)). cpu_socket e \<noteq> - 1 \<longrightarrow>
       Enviar (cpu_socket e) (enviar_nueva_memoria_disponible tam (of_nat (ram (conx M))) ip puerto) \<in> set evs) \<and>
    (scheduler_socket (conx M) \<noteq> - 1 \<longrightarrow>
       Enviar (scheduler_socket (conx M)) (enviar_nueva_memoria_disponible tam (of_nat (ram (conx M))) ip puerto) \<in> set evs)"
proof -
  obtain idx b c where ag: "conexiones_agregar_stick client tam ip puerto (conx M) = (idx, Some b, c)"
    using hay by (auto simp: conexiones_agregar_stick_def Let_def)
  let ?c = "conexiones_stick_set_outbound_socket idx out c" and ?r = "(red_sticks M)(out := Some st)"
  have red: "red_ok (conx M) (red_sticks M)" using inv by (simp add: mem_inv_def)
  note a = agregar_stick_conectado [OF red tam ag con(2-5)]
  have b: "b = of_nat (ram (conx M))" using a(3) tam(1) by (intro unat_eqD) (simp add: unat_of_nat)
  have c: "cpus c = cpus (conx M)" using ag by (auto simp: conexiones_agregar_stick_def Let_def split: if_splits)
  have r: "M' = M\<lparr>conx := ?c, bloques_libres := bloques_agregar b tam (bloques_libres M), red_sticks := ?r\<rparr>" "s' = s"
      "evs = notificar_cpus_de_nuevo_stick c tam b ip puerto @ [Enviar out (enviar_handshake_cpu (- 999))] @
       (if scheduler_socket ?c \<noteq> - 1 then [Enviar (scheduler_socket ?c) (enviar_nueva_memoria_disponible tam b ip puerto)] else [])"
    using atender_handshake_stick [where conectar = conectar, OF ip ag con(1), of otro s] paso by simp_all
  have cpu: "Enviar (cpu_socket e) (enviar_nueva_memoria_disponible tam b ip puerto) \<in> set (notificar_cpus_de_nuevo_stick c tam b ip puerto)"
    if e: "e \<in> set (cpus (conx M))" "cpu_socket e \<noteq> - 1" for e
  proof -
    obtain k where "k < length (cpus c)" "cpus c ! k = e" using e(1) c by (auto simp: in_set_conv_nth)
    then show ?thesis
      using e(2) by (force simp: notificar_cpus_de_nuevo_stick_def conexiones_cpu_socket_en_def conexiones_cantidad_cpus_def
          indice_valido_def Let_def)
  qed
  show ?thesis
    using mem_inv_crecer [OF inv a(1,2,3)] a(2,4,5) cpu unfolding r(1,2,3) b by auto
qed

definition stick_nuevo :: t_stick where
  "stick_nuevo = inicializar_memoria_stick [9, 9] 2"

lemma registrar_stick_correcto_witness:
  "mem_inv (fst (memory_handshake_handler (\<lambda>_ _. Some (11, stick_nuevo)) swap_ejemplo memoria_chica 10
     (enviar_handshake_memory_stick 2 ''a'' ''b'' @ []))) \<and>
   memoria_de (fst (memory_handshake_handler (\<lambda>_ _. Some (11, stick_nuevo)) swap_ejemplo memoria_chica 10
     (enviar_handshake_memory_stick 2 ''a'' ''b'' @ []))) = [1, 2, 3, 4, 5, 9, 9]"
proof -
  let ?r = "memory_handshake_handler (\<lambda>_ _. Some (11, stick_nuevo)) swap_ejemplo memoria_chica 10
     (enviar_handshake_memory_stick 2 ''a'' ''b'' @ [])"
  have r: "?r = (fst ?r, fst (snd ?r), snd (snd ?r))" by simp
  have c: "conx memoria_chica = conexiones_ejemplo" "memoria_de memoria_chica = [1, 2, 3, 4, 5]"
    by (simp_all add: memoria_chica_def)
  have "length (sticks (conx memoria_chica)) < MAX_MEMORY_STICKS" "11 \<notin> outbound_socket ` set (sticks (conx memoria_chica))"
    by (simp_all add: c(1) conexiones_ejemplo_def MAX_MEMORY_STICKS_def)
  moreover have "stick_ok stick_nuevo" "memoria_size stick_nuevo = 2" "memoria_buffer stick_nuevo = [9, 9]"
    by (simp_all add: stick_nuevo_def inicializar_memoria_stick_def stick_ok_def)
  ultimately show ?thesis
    using registrar_stick_correcto [OF mem_inv_chica _ _ _ _ _ _ _ _ _ _ _ r, where st = stick_nuevo and out = 11] c
    by (simp add: cadena_ok_def)
qed

section \<open>Contexts and instructions\<close>

interpretation m_solicitar_contexto: mensaje OBTENER_CONTEXTO bytes_int enviar_solicitar_contexto
    "recv_bind validar_buffer (\<lambda>_. recv_int)" "\<lambda>_. True"
  using mensaje_un_int [of OBTENER_CONTEXTO]
  by (simp add: enviar_solicitar_contexto_def [abs_def] recibir_un_int_def enviar_un_int_def [abs_def])

interpretation m_obtener_instruccion: mensaje OBTENER_INSTRUCCION "\<lambda>(pid, a). bytes_int pid @ bytes_u32 a"
    "\<lambda>(pid, a). enviar_obtener_instruccion pid a"
    "recv_bind validar_buffer (\<lambda>_. recv_bind recv_int (\<lambda>pid. recv_bind recv_u32 (\<lambda>pc. recv_ret (pid, pc))))"
    "\<lambda>_. True"
  by (rule mensajeI [OF _ _ refl]) (auto simp: enviar_obtener_instruccion_def wire_simps corto_def recv_bind_def)

interpretation m_instruccion: mensaje OBTENER_INSTRUCCION bytes_cadena
    "\<lambda>linea. enviar_paquete (agregar_cadena (crear_paquete OBTENER_INSTRUCCION) linea)" recibir_instruccion
    "\<lambda>linea. cadena_ok linea \<and> length linea < 2 ^ 31 - 100"
  by (rule mensajeI [OF _ _ recibir_instruccion_def]) (auto simp: wire_simps corto_def)

lemma atender_cpu_mensaje:
  assumes "recibir_mensaje r flujo = (op_num c, Inr (a, s))"
    and "\<And>s1. r s1 = Inr (a, s) \<Longrightarrow> despachar_cpu (op_num c) M socket s1 = X"
  shows "atender_cpu M socket flujo = X"
  using assms by (auto simp: atender_cpu_def recibir_mensaje_def Let_def split: prod.splits)

lemma atender_cpu_actualizar:
  assumes "procesos_buscar (pid_ctx ctx) (procesos M) = Some i" "length (tabla_segmentos ctx) < 2 ^ 26"
  shows "atender_cpu M socket (enviar_actualizar_contexto ctx @ s) =
    (actualizar_proceso i (\<lambda>p. actualizar_proceso_desde_contexto p ctx) M, [Enviar socket (enviar_ok ACTUALIZAR_CONTEXTO)], s)"
  by (rule atender_cpu_mensaje [OF m_actualizar.ida_y_vuelta])
    (use assms in \<open>simp_all add: despachar_cpu_def manejar_actualizar_contexto_cpu_def con_recv_Inr\<close>)

lemma atender_cpu_contexto:
  assumes "procesos_buscar pid (procesos M) = Some i"
  shows "atender_cpu M socket (enviar_solicitar_contexto pid @ s) =
    (M, [Enviar socket (enviar_contexto_proceso (procesos M ! i))], s)"
  by (rule atender_cpu_mensaje [OF m_solicitar_contexto.ida_y_vuelta])
    (use assms in \<open>simp_all add: despachar_cpu_def manejar_obtener_contexto_cpu_def con_recv_Inr\<close>)

lemma procesos_buscar_update:
  assumes "procesos_buscar pid ps = Some i" "ce_pid (f (ps ! i)) = ce_pid (ps ! i)"
  shows "procesos_buscar q (ps[i := f (ps ! i)]) = procesos_buscar q ps"
proof -
  have "map ce_pid (ps[i := f (ps ! i)]) = map ce_pid ps"
    using assms by (simp add: map_update) (metis list_update_id map_update)
  moreover have "procesos_buscar q ps = buscar_idx (\<lambda>x. x = q) (map ce_pid ps)" for ps
    unfolding procesos_buscar_def by (induction ps) auto
  ultimately show ?thesis by simp
qed

text \<open>
  A context that a CPU saves is the context the next CPU gets: after
  \<open>ACTUALIZAR_CONTEXTO\<close> the answer to \<open>OBTENER_CONTEXTO\<close> decodes to the same registers and
  segment table, whatever follows on the wire, and the other processes are untouched. The
  memory stays consistent when the CPU returns the table it was given.
\<close>

theorem contexto_guardado:
  assumes p: "procesos_buscar (pid_ctx ctx) (procesos M) = Some i" and n: "length (tabla_segmentos ctx) < 2 ^ 26"
    and r1: "atender_cpu M socket (enviar_actualizar_contexto ctx @ s) = (M', evs, s')"
    and r2: "atender_cpu M' socket2 (enviar_solicitar_contexto (pid_ctx ctx) @ t) = (M'', evs'', t'')"
  shows "evs = [Enviar socket (enviar_ok ACTUALIZAR_CONTEXTO)] \<and> s' = s \<and> M'' = M' \<and> t'' = t \<and>
    (\<exists>b. evs'' = [Enviar socket2 b] \<and>
      (\<forall>u. recibir_mensaje recibir_contexto (b @ u) =
         (op_num OBTENER_CONTEXTO, Inr ((registros_ctx ctx, tabla_segmentos ctx), u)))) \<and>
    (\<forall>j. j \<noteq> i \<longrightarrow> procesos M' ! j = procesos M ! j) \<and>
    (mem_inv M \<and> tabla_segmentos ctx = segmentos (procesos M ! i) \<longrightarrow> mem_inv M')"
proof -
  let ?f = "\<lambda>p. actualizar_proceso_desde_contexto p ctx" and ?p = "procesos M ! i"
  have i: "i < length (procesos M)" using procesos_buscar_SomeD [OF p] by simp
  have M': "M' = actualizar_proceso i ?f M" "evs = [Enviar socket (enviar_ok ACTUALIZAR_CONTEXTO)]" "s' = s"
    using r1 atender_cpu_actualizar [OF p n, of socket s] by auto
  have "procesos_buscar (pid_ctx ctx) (procesos M') = Some i"
    using procesos_buscar_update [OF p, of ?f] p by (simp add: M'(1) actualizar_proceso_desde_contexto_def)
  note c = atender_cpu_contexto [OF this, of socket2 t]
  have f: "procesos M' ! i = \<lparr>ce_pid = ce_pid ?p, ce_registros = registros_ctx ctx, segmentos = tabla_segmentos ctx,
      instrucciones = instrucciones ?p\<rparr>"
    using i by (simp add: M'(1) actualizar_proceso_desde_contexto_def)
  have "recibir_mensaje recibir_contexto (enviar_contexto_proceso (procesos M' ! i) @ u) =
      (op_num OBTENER_CONTEXTO, Inr ((registros_ctx ctx, tabla_segmentos ctx), u))" for u
    using m_contexto.ida_y_vuelta [of "(registros_ctx ctx, tabla_segmentos ctx)" "ce_pid ?p" "instrucciones ?p" u] n
    unfolding f by simp
  moreover have "mem_inv M'" if "mem_inv M" "tabla_segmentos ctx = segmentos ?p"
  proof -
    have "tramos (procesos M') = tramos (procesos M)"
      using that(2) i tramos_split [OF i] by (simp add: M'(1) tramos_update actualizar_proceso_desde_contexto_def)
    then show ?thesis using that(1) by (simp add: mem_inv_def M'(1))
  qed
  ultimately show ?thesis using M' c r2 by (auto simp: nth_list_update)
qed

lemma contexto_guardado_witness:
  "\<exists>b. snd (atender_cpu (fst (atender_cpu memoria_chica 3 (enviar_actualizar_contexto \<lparr>pid_ctx = 1, registros_ctx = registros_cero\<lparr>ax := 7\<rparr>,
        tabla_segmentos = []\<rparr> @ []))) 4 (enviar_solicitar_contexto 1 @ [])) = ([Enviar 4 b], []) \<and>
     recibir_mensaje recibir_contexto (b @ []) = (op_num OBTENER_CONTEXTO, Inr ((registros_cero\<lparr>ax := 7\<rparr>, []), []))"
proof -
  let ?ctx = "\<lparr>pid_ctx = 1, registros_ctx = registros_cero\<lparr>ax := 7\<rparr>, tabla_segmentos = []\<rparr>"
  let ?r = "atender_cpu memoria_chica 3 (enviar_actualizar_contexto ?ctx @ [])"
  let ?q = "atender_cpu (fst ?r) 4 (enviar_solicitar_contexto (pid_ctx ?ctx) @ [])"
  have p: "procesos_buscar (pid_ctx ?ctx) (procesos memoria_chica) = Some 0" "length (tabla_segmentos ?ctx) < 2 ^ 26"
    by (simp_all add: memoria_chica_def proceso_ejemplo_def procesos_buscar_def)
  have r: "?r = (fst ?r, fst (snd ?r), snd (snd ?r))" "?q = (fst ?q, fst (snd ?q), snd (snd ?q))" by simp_all
  from contexto_guardado [OF p r] obtain b where b: "fst (snd ?q) = [Enviar 4 b]" "snd (snd ?q) = []"
      "recibir_mensaje recibir_contexto (b @ []) = (op_num OBTENER_CONTEXTO, Inr ((registros_ctx ?ctx, tabla_segmentos ?ctx), []))"
    by blast
  then have "snd ?q = ([Enviar 4 b], [])" by (simp only: prod_eq_iff fst_conv snd_conv)
  then show ?thesis using b(3) by (intro exI [of _ b]) simp
qed


lemma procesos_buscar_nuevo:
  "procesos_buscar pid ps = None \<Longrightarrow> ce_pid p = pid \<Longrightarrow> procesos_buscar pid (ps @ [p]) = Some (length ps)"
  unfolding procesos_buscar_def by (induction ps) auto

lemma atender_crear:
  assumes "cadena_ok path" "length path < 2 ^ 31 - 100"
  shows "atender_scheduler fopen M socket (enviar_crear_proceso pid path @ s) =
    (M\<lparr>procesos := procesos M @ [\<lparr>ce_pid = pid, ce_registros = registros_cero, segmentos = [],
        instrucciones = cargar_script fopen (Some (resolver_path (config_memory M) path))\<rparr>]\<rparr>,
     [Enviar socket (enviar_ok CREAR_PROCESO)], s)"
proof (rule atender_mensaje)
  show "recibir_mensaje recibir_crear_proceso (enviar_crear_proceso pid path @ s) = (op_num CREAR_PROCESO, Inr ((pid, path), s))"
    using m_crear_proceso.ida_y_vuelta [of "(pid, path)" s] assms by simp
qed (simp add: despachar_scheduler_def manejar_crear_proceso_def con_recv_Inr procesos_agregar_def)

lemma atender_cpu_instruccion:
  assumes "procesos_buscar pid (procesos M) = Some i" "length (instrucciones (procesos M ! i)) < 2 ^ 32"
  shows "atender_cpu M socket (enviar_obtener_instruccion pid pcv @ s) =
    (M, [Enviar socket (enviar_paquete (agregar_cadena (crear_paquete OBTENER_INSTRUCCION)
       (if unat pcv < length (instrucciones (procesos M ! i)) then instrucciones (procesos M ! i) ! unat pcv else '''')))], s)"
proof (rule atender_cpu_mensaje)
  show "recibir_mensaje (recv_bind validar_buffer (\<lambda>_. recv_bind recv_int (\<lambda>pid. recv_bind recv_u32 (\<lambda>pc. recv_ret (pid, pc)))))
      (enviar_obtener_instruccion pid pcv @ s) = (op_num OBTENER_INSTRUCCION, Inr ((pid, pcv), s))"
    using m_obtener_instruccion.ida_y_vuelta [of "(pid, pcv)" s] by simp
  have "unat (of_nat (length (instrucciones (procesos M ! i))) :: u32) = length (instrucciones (procesos M ! i))"
    using assms(2) by (simp add: unat_of_nat)
  then show "despachar_cpu (op_num OBTENER_INSTRUCCION) M socket s1 =
    (M, [Enviar socket (enviar_paquete (agregar_cadena (crear_paquete OBTENER_INSTRUCCION)
       (if unat pcv < length (instrucciones (procesos M ! i)) then instrucciones (procesos M ! i) ! unat pcv else '''')))], s)"
    if "recv_bind validar_buffer (\<lambda>_. recv_bind recv_int (\<lambda>pid. recv_bind recv_u32 (\<lambda>pc. recv_ret (pid, pc)))) s1 = Inr ((pid, pcv), s)" for s1
    using assms(1) that by (simp add: despachar_cpu_def manejar_obtener_instruccion_def word_less_nat_alt con_recv_Inr)
qed

text \<open>
  C28. From the scheduler's request to the CPU's fetch: after \<open>CREAR_PROCESO\<close> with a new pid,
  a CPU that asks for instruction \<open>pc\<close> of the process decodes line \<open>pc\<close> of the loaded script,
  and the empty line when \<open>pc\<close> is past its end. Creating the process keeps the memory
  consistent.
\<close>

theorem crear_y_obtener_instruccion:
  assumes path: "cadena_ok path" "length path < 2 ^ 31 - 100" and nuevo: "procesos_buscar pid (procesos M) = None"
    and ins: "ins = cargar_script fopen (Some (resolver_path (config_memory M) path))" "length ins < 2 ^ 32"
      "\<forall>l \<in> set ins. cadena_ok l \<and> length l < 2 ^ 31 - 100"
    and r: "atender_scheduler fopen M socket (enviar_crear_proceso pid path @ s) = (M', evs, s')"
  shows "evs = [Enviar socket (enviar_ok CREAR_PROCESO)] \<and> s' = s \<and> (mem_inv M \<longrightarrow> mem_inv M') \<and>
    (\<exists>b. atender_cpu M' cpu (enviar_obtener_instruccion pid pcv @ t) = (M', [Enviar cpu b], t) \<and>
       recibir_mensaje recibir_instruccion (b @ u) =
         (op_num OBTENER_INSTRUCCION, Inr (if unat pcv < length ins then ins ! unat pcv else '''', u)))"
proof -
  let ?p = "\<lparr>ce_pid = pid, ce_registros = registros_cero, segmentos = [], instrucciones = ins\<rparr>"
  have M': "M' = M\<lparr>procesos := procesos M @ [?p]\<rparr>" "evs = [Enviar socket (enviar_ok CREAR_PROCESO)]" "s' = s"
    using r atender_crear [OF path, of fopen M socket pid s] ins(1) by auto
  have b: "procesos_buscar pid (procesos M') = Some (length (procesos M))"
    using nuevo procesos_buscar_nuevo [of pid "procesos M" ?p] by (simp add: M'(1))
  have l: "(if unat pcv < length ins then ins ! unat pcv else '''') = l \<Longrightarrow> cadena_ok l \<and> length l < 2 ^ 31 - 100" for l
    using ins(3) by (auto simp: cadena_ok_def split: if_splits)
  have "mem_inv M'" if "mem_inv M" using that by (simp add: M'(1) mem_inv_def)
  moreover have "instrucciones (procesos M' ! length (procesos M)) = ins" by (simp add: M'(1))
  ultimately show ?thesis
    using M'(2,3) atender_cpu_instruccion [OF b, of cpu pcv t] ins(2) m_instruccion.ida_y_vuelta [OF l [OF refl], of u]
    by (cases "unat pcv < length ins") simp_all
qed

lemma crear_y_obtener_instruccion_witness:
  "\<exists>b. snd (atender_cpu (fst (atender_scheduler (\<lambda>_. Some (''NOOP'' @ [CHR 0x0A] @ ''EXIT'' @ [CHR 0x0A])) memoria_chica 3
        (enviar_crear_proceso 2 ''p'' @ []))) 4 (enviar_obtener_instruccion 2 1 @ [])) = ([Enviar 4 b], []) \<and>
     recibir_mensaje recibir_instruccion (b @ []) = (op_num OBTENER_INSTRUCCION, Inr (''EXIT'', []))"
proof -
  let ?f = "\<lambda>_ :: string. Some (''NOOP'' @ [CHR 0x0A] @ ''EXIT'' @ [CHR 0x0A])"
  let ?r = "atender_scheduler ?f memoria_chica 3 (enviar_crear_proceso 2 ''p'' @ [])"
  have ins: "[''NOOP'', ''EXIT''] = cargar_script ?f (Some (resolver_path (config_memory memoria_chica) ''p''))"
    by (simp add: memoria_chica_def resolver_path_def) code_simp
  have "procesos_buscar 2 (procesos memoria_chica) = None"
    by (simp add: memoria_chica_def proceso_ejemplo_def procesos_buscar_def)
  moreover have "cadena_ok ''p''" "\<forall>l \<in> set [''NOOP'', ''EXIT'']. cadena_ok l \<and> length l < 2 ^ 31 - 100"
    by (simp_all add: cadena_ok_def)
  moreover have "?r = (fst ?r, fst (snd ?r), snd (snd ?r))" by simp
  ultimately show ?thesis
    using crear_y_obtener_instruccion [OF _ _ _ ins, of 2 3 "[]" "fst ?r" "fst (snd ?r)" "snd (snd ?r)" 4 1 "[]" "[]"] by auto
qed

end
