(* ===== verification/Cpu_Mmu.thy ===== *)
theory Cpu_Mmu
  imports Memory_IO
begin

text \<open>
  The memory side of a CPU: its table of Memory Sticks and the exchanges with them
  (\<open>cpu/src/cpu_memory.c\<close>), the MMU (\<open>cpu/src/cpu_mmu.c\<close>) and the accesses that the
  instructions use (\<open>mmu_leer\<close>, \<open>mmu_escribir\<close> of \<open>cpu/src/cpu_ciclo.c\<close>). The CPU talks to
  the sticks over sockets of its own; as in \<open>Memory_IO\<close> their far ends are the state \<open>red\<close>.
  \<open>Aborto\<close> is the \<open>abort()\<close> of \<open>validar_buffer\<close> or a receive that waits for bytes that never
  come. The output array \<open>resultado\<close> is the returned list.
\<close>

section \<open>Sticks of a CPU\<close>

record t_cpu_stick =
  cs_socket :: sock
  cs_base :: u32
  cs_size :: u32

definition cpu_get_memory_stick_count :: "t_cpu_stick list \<Rightarrow> int" where
  "cpu_get_memory_stick_count ms = int (length ms)"

definition cpu_get_memory_stick_socket :: "int \<Rightarrow> t_cpu_stick list \<Rightarrow> sock" where
  "cpu_get_memory_stick_socket i ms = (if indice_valido i ms then cs_socket (ms ! nat i) else - 1)"

definition cpu_get_memory_stick_base :: "int \<Rightarrow> t_cpu_stick list \<Rightarrow> u32" where
  "cpu_get_memory_stick_base i ms = (if indice_valido i ms then cs_base (ms ! nat i) else 0)"

definition cpu_get_memory_stick_size :: "int \<Rightarrow> t_cpu_stick list \<Rightarrow> u32" where
  "cpu_get_memory_stick_size i ms = (if indice_valido i ms then cs_size (ms ! nat i) else 0)"

definition cpu_stick_contiene :: "u32 \<Rightarrow> t_cpu_stick \<Rightarrow> bool" where
  "cpu_stick_contiene d m \<longleftrightarrow> cs_base m \<le> d \<and> d < cs_base m + cs_size m"

definition cpu_buscar_stick_por_dir :: "u32 \<Rightarrow> t_cpu_stick list \<Rightarrow> int" where
  "cpu_buscar_stick_por_dir d ms =
     (case buscar_idx (cpu_stick_contiene d) ms of None \<Rightarrow> - 1 | Some i \<Rightarrow> int i)"

text \<open>\<open>conectar\<close> is \<open>crear_conexion\<close>; the result tells whether the stick was added.\<close>

definition conectar_a_memory_stick ::
  "(string \<Rightarrow> string \<Rightarrow> (sock \<times> t_stick) option) \<Rightarrow> i32 \<Rightarrow> string \<Rightarrow> string \<Rightarrow> u32 \<Rightarrow> u32
    \<Rightarrow> t_cpu_stick list \<times> red \<Rightarrow> (t_cpu_stick list \<times> red) \<times> evento list \<times> bool" where
  "conectar_a_memory_stick conectar ident ip puerto b tam mr =
     (case conectar ip puerto of
        None \<Rightarrow> (mr, [], False)
      | Some (s, st) \<Rightarrow>
          let ev = [Enviar s (enviar_handshake_cpu ident)]
          in if length (fst mr) < MAX_MEMORY_STICKS
             then ((fst mr @ [\<lparr>cs_socket = s, cs_base = b, cs_size = tam\<rparr>], (snd mr)(s := Some st)), ev, True)
             else (mr, ev, False))"

definition cpu_stick_leer ::
  "t_cpu_stick list \<Rightarrow> red \<Rightarrow> int \<Rightarrow> i32 \<Rightarrow> u32 \<Rightarrow> u32 \<Rightarrow> red \<times> evento list \<times> byte list option" where
  "cpu_stick_leer ms r stick_idx pid dir_local tam =
     (let stick = cpu_get_memory_stick_socket stick_idx ms
      in if stick = - 1 then (r, [], None)
         else
           let (respuesta, r') = pedir_stick r stick (enviar_lectura_fisica pid dir_local tam);
               (cod, s1) = recibir_codigo_operacion respuesta
           in if cod \<noteq> op_num LECTURA_MEMORIA then (r', [], None)
              else case recibir_datos_memoria tam s1 of
                Inl e \<Rightarrow> (r', [Aborto], None)
              | Inr (datos, s2) \<Rightarrow> (r', [], Some datos))"

definition cpu_stick_escribir ::
  "t_cpu_stick list \<Rightarrow> red \<Rightarrow> int \<Rightarrow> i32 \<Rightarrow> u32 \<Rightarrow> byte list \<Rightarrow> red \<times> evento list \<times> bool" where
  "cpu_stick_escribir ms r stick_idx pid dir_local datos =
     (let stick = cpu_get_memory_stick_socket stick_idx ms
      in if stick = - 1 then (r, [], False)
         else
           let (respuesta, r') = pedir_stick r stick (enviar_escritura_fisica pid dir_local datos);
               (cod, s1) = recibir_codigo_operacion respuesta
           in if cod \<noteq> op_num ESCRITURA_MEMORIA then (r', [], False)
              else case recibir_ok s1 of
                Inl e \<Rightarrow> (r', [Aborto], False)
              | Inr (u, s2) \<Rightarrow> (r', [], True))"

section \<open>The MMU\<close>

record t_traduccion_fisica =
  stick_index :: int
  dir_fisica :: u32
  bytes_en_stick :: u32

definition buscar_segmento :: "t_contexto \<Rightarrow> u32 \<Rightarrow> t_segmento option" where
  "buscar_segmento contexto num_segmento = find (\<lambda>g. id_seg g = num_segmento) (tabla_segmentos contexto)"

definition mmu_descomponer_dir_logica :: "u32 \<Rightarrow> u32 \<Rightarrow> u32 \<times> u32" where
  "mmu_descomponer_dir_logica tam dir_logica = (dir_logica div tam, dir_logica mod tam)"

definition mmu_chunk :: "t_cpu_stick list \<Rightarrow> int \<Rightarrow> u32 \<Rightarrow> u32 \<Rightarrow> u32" where
  "mmu_chunk ms idx dir_actual bytes_restantes =
     (let dir_local = dir_actual - cpu_get_memory_stick_base idx ms;
          espacio_en_stick = cpu_get_memory_stick_size idx ms - dir_local
      in if bytes_restantes < espacio_en_stick then bytes_restantes else espacio_en_stick)"

lemma cpu_buscar_SomeD:
  assumes "\<not> cpu_buscar_stick_por_dir d ms < 0"
  obtains i where "cpu_buscar_stick_por_dir d ms = int i" "i < length ms" "cpu_stick_contiene d (ms ! i)"
  using assms by (auto simp: cpu_buscar_stick_por_dir_def split: option.splits dest: buscar_idx_SomeD)

lemma mmu_chunk_positivo:
  assumes "\<not> cpu_buscar_stick_por_dir d ms < 0" "n \<noteq> 0"
  shows "0 < mmu_chunk ms (cpu_buscar_stick_por_dir d ms) d n" "mmu_chunk ms (cpu_buscar_stick_por_dir d ms) d n \<le> n"
proof -
  obtain i where i: "cpu_buscar_stick_por_dir d ms = int i" "i < length ms" "cpu_stick_contiene d (ms ! i)"
    by (rule cpu_buscar_SomeD [OF assms(1)])
  have "cs_size (ms ! i) - (d - cs_base (ms ! i)) \<noteq> 0"
  proof
    assume "cs_size (ms ! i) - (d - cs_base (ms ! i)) = 0"
    then have "cs_base (ms ! i) + cs_size (ms ! i) = d" by (simp add: algebra_simps)
    then show False using i(3) by (simp add: cpu_stick_contiene_def)
  qed
  then have "0 < cs_size (ms ! i) - (d - cs_base (ms ! i))" by (simp only: word_neq_0_conv)
  then show "0 < mmu_chunk ms (cpu_buscar_stick_por_dir d ms) d n" "mmu_chunk ms (cpu_buscar_stick_por_dir d ms) d n \<le> n"
    using i assms(2)
    by (auto simp: mmu_chunk_def Let_def cpu_get_memory_stick_size_def cpu_get_memory_stick_base_def indice_valido_def
        word_neq_0_conv)
qed

text \<open>The loop of \<open>mmu_traducir\<close>; \<open>None\<close> when an address belongs to no stick.\<close>

function mmu_bucle :: "t_cpu_stick list \<Rightarrow> u32 \<Rightarrow> u32 \<Rightarrow> t_traduccion_fisica list option" where
  "mmu_bucle ms bytes_restantes dir_actual =
     (if bytes_restantes = 0 then Some []
      else
        let idx = cpu_buscar_stick_por_dir dir_actual ms
        in if idx < 0 then None
           else
             let dir_local = dir_actual - cpu_get_memory_stick_base idx ms;
                 chunk = mmu_chunk ms idx dir_actual bytes_restantes
             in map_option (\<lambda>ts. \<lparr>stick_index = idx, dir_fisica = dir_local, bytes_en_stick = chunk\<rparr> # ts)
                  (mmu_bucle ms (bytes_restantes - chunk) (dir_actual + chunk)))"
  by pat_completeness auto
termination
  by (relation "measure (\<lambda>(ms, n, d). unat n)") (auto intro!: restante_baja mmu_chunk_positivo)

declare mmu_bucle.simps [simp del]

definition mmu_traducir ::
  "t_cpu_stick list \<Rightarrow> t_contexto \<Rightarrow> u32 \<Rightarrow> u32 \<Rightarrow> u32 \<Rightarrow> (t_traduccion_fisica list \<times> u32) option" where
  "mmu_traducir ms contexto num_segmento desplazamiento tamanio =
     (case buscar_segmento contexto num_segmento of
        None \<Rightarrow> None
      | Some seg \<Rightarrow>
          if desplazamiento + tamanio > limite seg then None
          else
            let dir_fisica_global = base seg + desplazamiento
            in map_option (\<lambda>ts. (ts, dir_fisica_global)) (mmu_bucle ms tamanio dir_fisica_global))"

definition mmu_traducir_dir_logica ::
  "u32 \<Rightarrow> t_cpu_stick list \<Rightarrow> t_contexto \<Rightarrow> u32 \<Rightarrow> u32 \<Rightarrow> (t_traduccion_fisica list \<times> u32) option" where
  "mmu_traducir_dir_logica smax ms contexto dir_logica tamanio =
     (let (num_segmento, desplazamiento) = mmu_descomponer_dir_logica smax dir_logica
      in mmu_traducir ms contexto num_segmento desplazamiento tamanio)"

section \<open>Accesses through the MMU\<close>

datatype t_resultado_execute = CONTINUAR | SYSCALL | EXIT_PROCESO | SEG_FAULT | ERROR

fun leer_partes ::
  "t_cpu_stick list \<Rightarrow> i32 \<Rightarrow> t_traduccion_fisica list \<Rightarrow> red \<Rightarrow> red \<times> evento list \<times> byte list option" where
  "leer_partes ms pid [] r = (r, [], Some [])"
| "leer_partes ms pid (t # ts) r =
     (let (r1, ev, parte) = cpu_stick_leer ms r (stick_index t) pid (dir_fisica t) (bytes_en_stick t)
      in case parte of
           None \<Rightarrow> (r1, ev, None)
         | Some x \<Rightarrow>
             let (r2, ev2, resto) = leer_partes ms pid ts r1 in (r2, ev @ ev2, map_option ((@) x) resto))"

text \<open>The bytes of \<open>buffer_out\<close> and the address of \<open>dir_fisica_out\<close> come with \<open>CONTINUAR\<close>.\<close>

definition mmu_leer ::
  "u32 \<Rightarrow> t_cpu_stick list \<Rightarrow> red \<Rightarrow> t_contexto \<Rightarrow> u32 \<Rightarrow> u32
    \<Rightarrow> red \<times> evento list \<times> t_resultado_execute \<times> byte list" where
  "mmu_leer smax ms r ctx dir_logica tam =
     (case mmu_traducir_dir_logica smax ms ctx dir_logica tam of
        None \<Rightarrow> (r, [], SEG_FAULT, [])
      | Some (trad, dir) \<Rightarrow>
          (case leer_partes ms (pid_ctx ctx) trad r of
             (r', ev, None) \<Rightarrow> (r', ev, ERROR, [])
           | (r', ev, Some buf) \<Rightarrow> (r', ev, CONTINUAR, buf)))"

fun escribir_partes ::
  "t_cpu_stick list \<Rightarrow> i32 \<Rightarrow> t_traduccion_fisica list \<Rightarrow> byte list \<Rightarrow> red \<Rightarrow> red \<times> evento list \<times> bool" where
  "escribir_partes ms pid [] datos r = (r, [], True)"
| "escribir_partes ms pid (t # ts) datos r =
     (let n = unat (bytes_en_stick t);
          (r1, ev, ok) = cpu_stick_escribir ms r (stick_index t) pid (dir_fisica t) (take n datos)
      in if \<not> ok then (r1, ev, False)
         else let (r2, ev2, ok2) = escribir_partes ms pid ts (drop n datos) r1 in (r2, ev @ ev2, ok2))"

definition mmu_escribir ::
  "u32 \<Rightarrow> t_cpu_stick list \<Rightarrow> red \<Rightarrow> t_contexto \<Rightarrow> u32 \<Rightarrow> byte list \<Rightarrow> u32
    \<Rightarrow> red \<times> evento list \<times> t_resultado_execute" where
  "mmu_escribir smax ms r ctx dir_logica datos tam =
     (case mmu_traducir_dir_logica smax ms ctx dir_logica tam of
        None \<Rightarrow> (r, [], SEG_FAULT)
      | Some (trad, dir) \<Rightarrow>
          let (r', ev, ok) = escribir_partes ms (pid_ctx ctx) trad datos r
          in (r', ev, if ok then CONTINUAR else ERROR))"

section \<open>The CPU and Kernel Memory cut accesses at the same places\<close>

text \<open>The CPU's table as a connection table of Kernel Memory.\<close>

definition como_entrada :: "t_cpu_stick \<Rightarrow> t_memory_stick_entry" where
  "como_entrada m = \<lparr>st_socket = - 1, st_tamanio = cs_size m, st_ip = [], st_puerto = [],
     outbound_socket = cs_socket m, base_fisica = cs_base m\<rparr>"

definition como_conexiones :: "t_cpu_stick list \<Rightarrow> t_conexiones_activas" where
  "como_conexiones ms = \<lparr>scheduler_socket = - 1, cpus = [], sticks = map como_entrada ms, swap_socket = - 1\<rparr>"

lemma sticks_como_conexiones [simp]: "sticks (como_conexiones ms) = map como_entrada ms"
  by (simp add: como_conexiones_def)

lemma como_entrada_sel [simp]:
  "st_tamanio (como_entrada m) = cs_size m" "outbound_socket (como_entrada m) = cs_socket m" "base_fisica (como_entrada m) = cs_base m"
  by (simp_all add: como_entrada_def)

lemma buscar_idx_map: "buscar_idx P (map f xs) = buscar_idx (\<lambda>x. P (f x)) xs"
  by (induction xs) simp_all

lemma buscar_idx_cong: "(\<And>x. x \<in> set xs \<Longrightarrow> P x = Q x) \<Longrightarrow> buscar_idx P xs = buscar_idx Q xs"
  by (induction xs) auto

lemma cpu_buscar_como:
  assumes "conectados (como_conexiones ms)"
  shows "cpu_buscar_stick_por_dir d ms = conexiones_buscar_stick_por_dir d (como_conexiones ms)"
proof -
  have "buscar_idx (cpu_stick_contiene d) ms = buscar_idx (\<lambda>m. stick_contiene d (como_entrada m)) ms"
    using assms by (intro buscar_idx_cong) (auto simp: cpu_stick_contiene_def stick_contiene_def conectados_def)
  then show ?thesis by (simp add: cpu_buscar_stick_por_dir_def conexiones_buscar_stick_por_dir_def buscar_idx_map)
qed

lemma mmu_chunk_como: "mmu_chunk ms (int i) d n = chunk_en (como_conexiones ms) (int i) d n"
  by (simp add: mmu_chunk_def chunk_en_def Let_def cpu_get_memory_stick_base_def cpu_get_memory_stick_size_def
      conexiones_stick_base_fisica_def conexiones_stick_tamanio_def indice_valido_def not_less) auto

lemma cpu_turno:
  assumes ok: "red_ok (como_conexiones ms) r" and t: "turno (como_conexiones ms) r d n i st"
  shows "cpu_buscar_stick_por_dir d ms = int i" "i < length ms" "cpu_get_memory_stick_socket (int i) ms = cs_socket (ms ! i)"
    "cpu_get_memory_stick_base (int i) ms = cs_base (ms ! i)" "cs_socket (ms ! i) \<noteq> - 1"
proof -
  have i: "i < length ms" using t by (simp add: turno_def Let_def)
  have c: "conectados (como_conexiones ms)" using ok by (simp add: red_ok_def)
  show "cpu_buscar_stick_por_dir d ms = int i" using t cpu_buscar_como [OF c] by (simp add: turno_def Let_def)
  have "0 \<le> cs_socket (ms ! i)" using c i by (simp add: conectados_def)
  then show "cs_socket (ms ! i) \<noteq> - 1" by simp
  show "i < length ms" "cpu_get_memory_stick_socket (int i) ms = cs_socket (ms ! i)"
    "cpu_get_memory_stick_base (int i) ms = cs_base (ms ! i)"
    using i by (simp_all add: cpu_get_memory_stick_socket_def cpu_get_memory_stick_base_def indice_valido_def)
qed

lemma cpu_leer_turno:
  assumes ok: "red_ok (como_conexiones ms) r" and t: "turno (como_conexiones ms) r d n i st"
  shows "cpu_stick_leer ms r (int i) pid (d - cs_base (ms ! i)) (mmu_chunk ms (int i) d n) =
    (r, [], Some (tramo_de (memoria_fisica (como_conexiones ms) r) (unat d) (unat (mmu_chunk ms (int i) d n))))"
proof -
  note c = cpu_turno [OF ok t]
  note x = intercambio_lectura(1) [OF ok t, of pid] intercambio_lectura(2,3) [OF ok t]
  let ?d = "tramo_de (memoria_fisica (como_conexiones ms) r) (unat d) (unat (mmu_chunk ms (int i) d n))"
  have "recibir_datos_memoria (mmu_chunk ms (int i) d n) (bytes_le 8 (of_nat (length ?d) :: u64) @ ?d) = Inr (?d, [])"
    using recibir_lectura(2) [OF x(3)] x(2) by (simp add: recibir_datos_memoria_def recv_bind_def recv_bytes_def mmu_chunk_como)
  then show ?thesis
    using x(1) c recibir_lectura(1) [OF x(3)]
    by (simp add: cpu_stick_leer_def mmu_chunk_como pedido_fisica)
qed

lemma cpu_escribir_turno:
  assumes ok: "red_ok (como_conexiones ms) r" and t: "turno (como_conexiones ms) r d n i st"
    and len: "length x = unat (mmu_chunk ms (int i) d n)"
  obtains r' where "red_ok (como_conexiones ms) r'"
    "memoria_fisica (como_conexiones ms) r' = copiar_en (memoria_fisica (como_conexiones ms) r) (unat d) x"
    "cpu_stick_escribir ms r (int i) pid (d - cs_base (ms ! i)) x = (r', [], True)"
proof -
  note c = cpu_turno [OF ok t]
  from intercambio_escritura [OF ok t len [unfolded mmu_chunk_como], of pid] obtain r' where r':
    "red_ok (como_conexiones ms) r'" "memoria_fisica (como_conexiones ms) r' = copiar_en (memoria_fisica (como_conexiones ms) r) (unat d) x"
    "pedir_stick r (cs_socket (ms ! i)) (pedido_escritura pid (d - cs_base (ms ! i)) x) = (enviar_ok ESCRITURA_MEMORIA, r')"
    using c(2) by auto
  then have "cpu_stick_escribir ms r (int i) pid (d - cs_base (ms ! i)) x = (r', [], True)"
    using c recibir_ack_escritura by (simp add: cpu_stick_escribir_def pedido_fisica)
  with r' show thesis using that by blast
qed


text \<open>One turn of the translation loop, and what is left after it.\<close>

lemma mmu_turno:
  assumes ok: "red_ok (como_conexiones ms) r" and n: "n \<noteq> 0" and cota: "unat d + unat n \<le> ram (como_conexiones ms)"
  obtains i st ch where "turno (como_conexiones ms) r d n i st" "ch = mmu_chunk ms (int i) d n" "0 < ch" "ch \<le> n"
    "mmu_bucle ms n d = map_option ((#) \<lparr>stick_index = int i, dir_fisica = d - cs_base (ms ! i), bytes_en_stick = ch\<rparr>)
       (mmu_bucle ms (n - ch) (d + ch))"
    "unat (d + ch) = unat d + unat ch" "unat (n - ch) = unat n - unat ch" "unat (n - ch) < unat n"
    "unat (d + ch) + unat (n - ch) \<le> ram (como_conexiones ms)"
proof -
  have "0 < unat n" using n by (simp add: unat_gt_0)
  then have "unat d < ram (como_conexiones ms)" using cota by linarith
  then obtain i st where t: "turno (como_conexiones ms) r d n i st" using turno_existe [OF ok n] by blast
  let ?ch = "mmu_chunk ms (int i) d n"
  have ch: "0 < ?ch" "?ch \<le> n" using t by (auto simp: turno_def Let_def mmu_chunk_como)
  have N: "ram (como_conexiones ms) < 2 ^ 32" using ok by (simp add: red_ok_def layout_def)
  have le: "unat ?ch \<le> unat n" using ch by (simp add: word_le_nat_alt)
  have suma: "unat (d + ?ch) = unat d + unat ?ch" "unat (n - ?ch) = unat n - unat ?ch"
    using cota N le by (simp_all add: unat_simps)
  have "mmu_bucle ms n d = map_option ((#) \<lparr>stick_index = int i, dir_fisica = d - cs_base (ms ! i), bytes_en_stick = ?ch\<rparr>)
       (mmu_bucle ms (n - ?ch) (d + ?ch))"
    unfolding mmu_bucle.simps [of ms n d] using n cpu_turno [OF ok t] by (simp add: Let_def)
  then show thesis using that [OF t refl ch] suma restante_baja [OF ch] cota le by simp
qed

lemma mmu_bucle_lee:
  assumes "red_ok (como_conexiones ms) r" "unat d + unat n \<le> ram (como_conexiones ms)"
  shows "\<exists>ts. mmu_bucle ms n d = Some ts \<and>
    leer_partes ms pid ts r = (r, [], Some (tramo_de (memoria_fisica (como_conexiones ms) r) (unat d) (unat n)))"
  using assms(2)
proof (induction "unat n" arbitrary: n d rule: less_induct)
  case less
  let ?m = "memoria_fisica (como_conexiones ms) r"
  show ?case
  proof (cases "n = 0")
    case True
    then show ?thesis by (simp add: mmu_bucle.simps [of ms 0 d] tramo_de_def)
  next
    case False
    obtain i st ch where c: "turno (como_conexiones ms) r d n i st" "ch = mmu_chunk ms (int i) d n" "0 < ch" "ch \<le> n"
      "mmu_bucle ms n d = map_option ((#) \<lparr>stick_index = int i, dir_fisica = d - cs_base (ms ! i), bytes_en_stick = ch\<rparr>)
         (mmu_bucle ms (n - ch) (d + ch))"
      "unat (d + ch) = unat d + unat ch" "unat (n - ch) = unat n - unat ch" "unat (n - ch) < unat n"
      "unat (d + ch) + unat (n - ch) \<le> ram (como_conexiones ms)"
      by (rule mmu_turno [OF assms(1) False less.prems])
    from less.hyps [OF c(8,9)] obtain ts where ts: "mmu_bucle ms (n - ch) (d + ch) = Some ts"
      "leer_partes ms pid ts r = (r, [], Some (tramo_de ?m (unat d + unat ch) (unat n - unat ch)))"
      unfolding c(6,7) by blast
    have "unat ch \<le> unat n" using c(4) by (simp add: word_le_nat_alt)
    then have "tramo_de ?m (unat d) (unat ch) @ tramo_de ?m (unat d + unat ch) (unat n - unat ch) = tramo_de ?m (unat d) (unat n)"
      using tramo_de_append [of ?m "unat d" "unat ch" "unat n - unat ch"] by simp
    then show ?thesis using c(2,5) ts cpu_leer_turno [OF assms(1) c(1), of pid] by simp
  qed
qed

lemma mmu_bucle_escribe:
  assumes "red_ok (como_conexiones ms) r" "unat d + unat n \<le> ram (como_conexiones ms)" "length x = unat n"
  shows "\<exists>ts r'. mmu_bucle ms n d = Some ts \<and> escribir_partes ms pid ts x r = (r', [], True) \<and>
    red_ok (como_conexiones ms) r' \<and>
    memoria_fisica (como_conexiones ms) r' = copiar_en (memoria_fisica (como_conexiones ms) r) (unat d) x"
  using assms
proof (induction "unat n" arbitrary: n d x r rule: less_induct)
  case less
  let ?m = "memoria_fisica (como_conexiones ms)"
  show ?case
  proof (cases "n = 0")
    case True
    then show ?thesis using less.prems by (simp add: mmu_bucle.simps [of ms 0 d] copiar_en_def)
  next
    case False
    obtain i st ch where c: "turno (como_conexiones ms) r d n i st" "ch = mmu_chunk ms (int i) d n" "0 < ch" "ch \<le> n"
      "mmu_bucle ms n d = map_option ((#) \<lparr>stick_index = int i, dir_fisica = d - cs_base (ms ! i), bytes_en_stick = ch\<rparr>)
         (mmu_bucle ms (n - ch) (d + ch))"
      "unat (d + ch) = unat d + unat ch" "unat (n - ch) = unat n - unat ch" "unat (n - ch) < unat n"
      "unat (d + ch) + unat (n - ch) \<le> ram (como_conexiones ms)"
      by (rule mmu_turno [OF less.prems(1) False less.prems(2)])
    let ?a = "take (unat ch) x" and ?b = "drop (unat ch) x"
    have le: "unat ch \<le> unat n" using c(4) by (simp add: word_le_nat_alt)
    have a: "length ?a = unat ch" "length ?b = unat (n - ch)" using less.prems(3) c(7) le by simp_all
    obtain r1 where r1: "red_ok (como_conexiones ms) r1" "?m r1 = copiar_en (?m r) (unat d) ?a"
      "cpu_stick_escribir ms r (int i) pid (d - cs_base (ms ! i)) ?a = (r1, [], True)"
      using cpu_escribir_turno [OF less.prems(1) c(1), of ?a pid] a(1) c(2) by metis
    from less.hyps [OF c(8) r1(1) c(9) a(2)] obtain ts r' where ts: "mmu_bucle ms (n - ch) (d + ch) = Some ts"
      "escribir_partes ms pid ts ?b r1 = (r', [], True)" "red_ok (como_conexiones ms) r'"
      "?m r' = copiar_en (?m r1) (unat d + unat ch) ?b" unfolding c(6) by blast
    have "?m r' = copiar_en (?m r) (unat d) x"
      using copiar_en_append [of "unat d" ?a ?b "?m r"] ts(4) r1(2) a less.prems length_memoria_fisica [OF less.prems(1)] c(7) le
      by simp
    then show ?thesis using c(5) ts r1(3) by simp
  qed
qed


lemma mmu_bucle_cuenta:
  assumes "red_ok (como_conexiones ms) r" "unat d + unat n \<le> ram (como_conexiones ms)" "mmu_bucle ms n d = Some ts"
    and "k \<le> length ms" "suma_sticks (take k (sticks (como_conexiones ms))) \<le> unat d"
  shows "length ts + k \<le> length ms"
  using assms(2-)
proof (induction "unat n" arbitrary: n d ts k rule: less_induct)
  case less
  let ?c = "como_conexiones ms"
  show ?case
  proof (cases "n = 0")
    case True
    then show ?thesis using less.prems by (simp add: mmu_bucle.simps [of ms 0 d])
  next
    case False
    obtain i st ch where c: "turno ?c r d n i st" "ch = mmu_chunk ms (int i) d n" "0 < ch" "ch \<le> n"
      "mmu_bucle ms n d = map_option ((#) \<lparr>stick_index = int i, dir_fisica = d - cs_base (ms ! i), bytes_en_stick = ch\<rparr>)
         (mmu_bucle ms (n - ch) (d + ch))"
      "unat (d + ch) = unat d + unat ch" "unat (n - ch) = unat n - unat ch" "unat (n - ch) < unat n"
      "unat (d + ch) + unat (n - ch) \<le> ram ?c"
      by (rule mmu_turno [OF assms(1) False less.prems(1)])
    obtain ts' where ts': "mmu_bucle ms (n - ch) (d + ch) = Some ts'" "length ts = Suc (length ts')"
      using c(5) less.prems(2) by (cases "mmu_bucle ms (n - ch) (d + ch)") auto
    have t: "i < length ms" "unat d = suma_sticks (take i (sticks ?c)) + unat (d - cs_base (ms ! i))"
        "unat (d - cs_base (ms ! i)) + unat ch \<le> unat (cs_size (ms ! i))"
      using c(1,2) by (auto simp: turno_def Let_def mmu_chunk_como)
    have "unat d < suma_sticks (take (Suc i) (sticks ?c))"
      using t c(3) suma_sticks_take_Suc [of i "sticks ?c"] by (simp add: word_less_nat_alt)
    then have k: "k \<le> i"
      using less.prems(4) suma_sticks_take_mono [of "Suc i" k "sticks ?c"] by (cases "k \<le> i") simp_all
    show ?thesis
    proof (cases "n < cs_size (ms ! i) - (d - cs_base (ms ! i))")
      case True
      then have "ch = n" using t(1) by (simp add: c(2) mmu_chunk_def Let_def cpu_get_memory_stick_size_def
            cpu_get_memory_stick_base_def indice_valido_def)
      then have "ts' = []" using ts'(1) by (simp add: mmu_bucle.simps [of ms 0 "d + n"])
      then show ?thesis using ts'(2) k t(1) by simp
    next
      case False
      then have "ch = cs_size (ms ! i) - (d - cs_base (ms ! i))"
        using t(1) by (simp add: c(2) mmu_chunk_def Let_def cpu_get_memory_stick_size_def cpu_get_memory_stick_base_def indice_valido_def)
      then have "unat ch = unat (cs_size (ms ! i)) - unat (d - cs_base (ms ! i))" using t(3) by (simp add: unat_sub_u32)
      then have "suma_sticks (take (Suc i) (sticks ?c)) \<le> unat (d + ch)"
        using t c(6) suma_sticks_take_Suc [of i "sticks ?c"] by simp
      then have "length ts' + Suc i \<le> length ms" using less.hyps [OF c(8,9) ts'(1), of "Suc i"] t(1) by simp
      then show ?thesis using ts'(2) k by simp
    qed
  qed
qed

section \<open>Properties\<close>

lemma mmu_traducir_seg:
  assumes "buscar_segmento ctx (dir div smax) = Some g" "unat (dir mod smax) + unat tam < 2 ^ 32"
    and "unat (base g) + unat (limite g) \<le> ram (como_conexiones ms)" "red_ok (como_conexiones ms) r"
    and "unat (dir mod smax) + unat tam \<le> unat (limite g)"
  shows "mmu_traducir_dir_logica smax ms ctx dir tam =
      map_option (\<lambda>ts. (ts, base g + dir mod smax)) (mmu_bucle ms tam (base g + dir mod smax))"
    "unat (base g + dir mod smax) = unat (base g) + unat (dir mod smax)"
    "unat (base g + dir mod smax) + unat tam \<le> ram (como_conexiones ms)"
proof -
  have N: "ram (como_conexiones ms) < 2 ^ 32" using assms(4) by (simp add: red_ok_def layout_def)
  have "\<not> limite g < dir mod smax + tam" using assms(2,5) by (simp add: word_less_nat_alt unat_add_u32)
  then show "mmu_traducir_dir_logica smax ms ctx dir tam =
      map_option (\<lambda>ts. (ts, base g + dir mod smax)) (mmu_bucle ms tam (base g + dir mod smax))"
    using assms(1) by (simp add: mmu_traducir_dir_logica_def mmu_descomponer_dir_logica_def mmu_traducir_def Let_def)
  show u: "unat (base g + dir mod smax) = unat (base g) + unat (dir mod smax)" using assms(3,5) N by (subst unat_add_u32) simp_all
  show "unat (base g + dir mod smax) + unat tam \<le> ram (como_conexiones ms)" using u assms(3,5) by simp
qed

text \<open>
  C29. A read through the MMU, when the segments of the table lie inside the RAM. Without a
  segment it is a \<open>SEG_FAULT\<close>. An access inside its segment succeeds and gives the bytes of the
  flat memory at \<open>base + desplazamiento\<close>: the same bytes that Kernel Memory's \<open>memory_io_leer\<close>
  gives for that physical address, also when the access crosses sticks. When the 32-bit sum
  \<open>desplazamiento + tamanio\<close> is above the limit it is a \<open>SEG_FAULT\<close> and no stick is contacted; that
  is every access that is not inside its segment, but for those whose sum wraps to a value within
  the limit, which the check lets through.
\<close>

theorem mmu_leer_equivale:
  assumes ok: "red_ok (como_conexiones ms) r"
    and cabe: "\<forall>g \<in> set (tabla_segmentos ctx). unat (base g) + unat (limite g) \<le> ram (como_conexiones ms)"
  shows "case buscar_segmento ctx (dir div smax) of
      None \<Rightarrow> mmu_leer smax ms r ctx dir tam = (r, [], SEG_FAULT, [])
    | Some g \<Rightarrow>
        (unat (dir mod smax) + unat tam \<le> unat (limite g) \<longrightarrow>
           mmu_leer smax ms r ctx dir tam =
             (r, [], CONTINUAR, the (snd (snd (memory_io_leer (como_conexiones ms) r (pid_ctx ctx) (base g + dir mod smax) tam))))) \<and>
        (limite g < dir mod smax + tam \<longrightarrow> mmu_leer smax ms r ctx dir tam = (r, [], SEG_FAULT, [])) \<and>
        (unat (limite g) < unat (dir mod smax) + unat tam \<longrightarrow>
           limite g < dir mod smax + tam \<or>
           2 ^ 32 \<le> unat (dir mod smax) + unat tam \<and> unat (dir mod smax) + unat tam \<le> 2 ^ 32 + unat (limite g))"
proof (cases "buscar_segmento ctx (dir div smax)")
  case None
  then show ?thesis
    by (simp add: mmu_leer_def mmu_traducir_dir_logica_def mmu_descomponer_dir_logica_def mmu_traducir_def)
next
  case (Some g)
  have g: "unat (base g) + unat (limite g) \<le> ram (como_conexiones ms)"
    using cabe Some find_SomeD [of _ "tabla_segmentos ctx" g] by (auto simp: buscar_segmento_def)
  let ?d = "dir mod smax"
  have "mmu_leer smax ms r ctx dir tam =
      (r, [], CONTINUAR, the (snd (snd (memory_io_leer (como_conexiones ms) r (pid_ctx ctx) (base g + ?d) tam))))"
    if d: "unat ?d + unat tam \<le> unat (limite g)"
  proof -
    have "unat ?d + unat tam < 2 ^ 32" using d unat_u32_less [of "limite g"] by linarith
    note s = mmu_traducir_seg [OF Some this g ok d]
    from mmu_bucle_lee [OF ok s(3), of "pid_ctx ctx"] show ?thesis
      using Some d s(1) memory_io_leer_ok [OF ok s(3), of "pid_ctx ctx"] by (auto simp: mmu_leer_def)
  qed
  moreover have "mmu_leer smax ms r ctx dir tam = (r, [], SEG_FAULT, [])" if "limite g < ?d + tam"
    using Some that by (simp add: mmu_leer_def mmu_traducir_dir_logica_def mmu_descomponer_dir_logica_def mmu_traducir_def)
  moreover have "limite g < ?d + tam \<or> 2 ^ 32 \<le> unat ?d + unat tam \<and> unat ?d + unat tam \<le> 2 ^ 32 + unat (limite g)"
    if "unat (limite g) < unat ?d + unat tam"
  proof (cases "unat ?d + unat tam < 2 ^ 32")
    case True
    then show ?thesis using that by (simp add: word_less_nat_alt unat_add_u32)
  next
    case False
    then show ?thesis using unat_add_wrap [of ?d tam] by (auto simp: word_less_nat_alt)
  qed
  ultimately show ?thesis using Some by simp
qed

definition sticks_cpu_ejemplo :: "t_cpu_stick list" where
  "sticks_cpu_ejemplo = [\<lparr>cs_socket = 5, cs_base = 0, cs_size = 3\<rparr>, \<lparr>cs_socket = 7, cs_base = 3, cs_size = 2\<rparr>]"

definition contexto_ejemplo :: t_contexto where
  "contexto_ejemplo = \<lparr>pid_ctx = 1, registros_ctx = \<lparr>pc = 0, ax = 0, bx = 0, cx = 0, dx = 0, eax = 513, ebx = 0, ecx = 0, edx = 0, si = 0, di = 0\<rparr>,
     tabla_segmentos = [\<lparr>id_seg = 0, base = 1, limite = 4, swap_bloque_inicio = 0\<rparr>]\<rparr>"

lemma red_ok_cpu_ejemplo: "red_ok (como_conexiones sticks_cpu_ejemplo) red_ejemplo" "ram (como_conexiones sticks_cpu_ejemplo) = 5"
  by (auto simp: red_ok_def layout_def conectados_def sticks_cpu_ejemplo_def red_ejemplo_def stick_en_linea_def
      stick_ok_def MAX_MEMORY_STICKS_def less_Suc_eq)

lemma memoria_cpu_ejemplo: "memoria_fisica (como_conexiones sticks_cpu_ejemplo) red_ejemplo = [1, 2, 3, 4, 5]"
  by (simp add: memoria_fisica_def sticks_cpu_ejemplo_def red_ejemplo_def buffer_de_def)

lemma mmu_leer_equivale_witness:
  "mmu_leer 8 sticks_cpu_ejemplo red_ejemplo contexto_ejemplo 1 2 = (red_ejemplo, [], CONTINUAR, [3, 4]) \<and>
   mmu_leer 8 sticks_cpu_ejemplo red_ejemplo contexto_ejemplo 1 4 = (red_ejemplo, [], SEG_FAULT, [])"
proof -
  have c: "\<forall>g \<in> set (tabla_segmentos contexto_ejemplo). unat (base g) + unat (limite g) \<le> ram (como_conexiones sticks_cpu_ejemplo)"
    unfolding red_ok_cpu_ejemplo(2) by (simp add: contexto_ejemplo_def)
  have "buscar_segmento contexto_ejemplo (1 div 8) = Some \<lparr>id_seg = 0, base = 1, limite = 4, swap_bloque_inicio = 0\<rparr>"
    by (simp add: buscar_segmento_def contexto_ejemplo_def)
  moreover have "memory_io_leer (como_conexiones sticks_cpu_ejemplo) red_ejemplo 1 2 2 = (red_ejemplo, [], Some [3, 4])"
    using memory_io_leer_ok [OF red_ok_cpu_ejemplo(1), of 2 2 1] unfolding red_ok_cpu_ejemplo(2) memoria_cpu_ejemplo by (simp add: tramo_de_def)
  moreover have "pid_ctx contexto_ejemplo = 1" by (simp add: contexto_ejemplo_def)
  ultimately show ?thesis
    using mmu_leer_equivale [OF red_ok_cpu_ejemplo(1) c, where dir = 1 and smax = 8 and tam = 2] mmu_leer_equivale [OF red_ok_cpu_ejemplo(1) c, where dir = 1 and smax = 8 and tam = 4] by simp
qed


lemma mmu_escribir_leer:
  assumes ok: "red_ok (como_conexiones ms) r" and seg: "buscar_segmento ctx (dir div smax) = Some g"
    and lim: "unat (dir mod smax) + unat tam \<le> unat (limite g)" "unat (base g) + unat (limite g) \<le> ram (como_conexiones ms)"
    and x: "length x = unat tam"
  shows "\<exists>r'. mmu_escribir smax ms r ctx dir x tam = (r', [], CONTINUAR) \<and> red_ok (como_conexiones ms) r' \<and>
    memoria_fisica (como_conexiones ms) r' =
      copiar_en (memoria_fisica (como_conexiones ms) r) (unat (base g) + unat (dir mod smax)) x \<and>
    mmu_leer smax ms r' ctx dir tam = (r', [], CONTINUAR, x)"
proof -
  have wrap: "unat (dir mod smax) + unat tam < 2 ^ 32" using lim(1) unat_u32_less [of "limite g"] by linarith
  note s = mmu_traducir_seg [OF seg wrap lim(2) ok lim(1)]
  obtain ts r' where w: "mmu_bucle ms tam (base g + dir mod smax) = Some ts" "escribir_partes ms (pid_ctx ctx) ts x r = (r', [], True)"
    "red_ok (como_conexiones ms) r'"
    "memoria_fisica (como_conexiones ms) r' = copiar_en (memoria_fisica (como_conexiones ms) r) (unat (base g) + unat (dir mod smax)) x"
    using mmu_bucle_escribe [OF ok s(3) x, of "pid_ctx ctx"] unfolding s(2) by blast
  have "tramo_de (memoria_fisica (como_conexiones ms) r') (unat (base g) + unat (dir mod smax)) (unat tam) = x"
    using tramo_de_copiar_en [of "unat (base g) + unat (dir mod smax)" x "memoria_fisica (como_conexiones ms) r"] x s(2,3)
      length_memoria_fisica [OF ok] by (simp add: w(4))
  then have "leer_partes ms (pid_ctx ctx) ts r' = (r', [], Some x)"
    using mmu_bucle_lee [OF w(3) s(3), of "pid_ctx ctx"] w(1) s(2) by simp
  then show ?thesis using w s(1) by (simp add: mmu_escribir_def mmu_leer_def)
qed

text \<open>
  C30. A write through the MMU, inside a segment that lies in the RAM, stores exactly its
  bytes in the flat memory, at \<open>base + desplazamiento\<close>, and a later read of the same logical
  address gives them back.
\<close>

theorem mmu_escribir_y_leer:
  assumes ok: "red_ok (como_conexiones ms) r" and seg: "buscar_segmento ctx (dir div smax) = Some g"
    and lim: "unat (dir mod smax) + unat tam \<le> unat (limite g)" "unat (base g) + unat (limite g) \<le> ram (como_conexiones ms)"
    and x: "length x = unat tam"
  shows "\<exists>r'. mmu_escribir smax ms r ctx dir x tam = (r', [], CONTINUAR) \<and> red_ok (como_conexiones ms) r' \<and>
    memoria_fisica (como_conexiones ms) r' =
      copiar_en (memoria_fisica (como_conexiones ms) r) (unat (base g) + unat (dir mod smax)) x \<and>
    mmu_leer smax ms r' ctx dir tam = (r', [], CONTINUAR, x)"
  by (rule mmu_escribir_leer [OF assms])

lemma mmu_escribir_y_leer_witness:
  "\<exists>r'. mmu_escribir 8 sticks_cpu_ejemplo red_ejemplo contexto_ejemplo 1 [8, 9] 2 = (r', [], CONTINUAR) \<and>
    memoria_fisica (como_conexiones sticks_cpu_ejemplo) r' = [1, 2, 8, 9, 5] \<and>
    mmu_leer 8 sticks_cpu_ejemplo r' contexto_ejemplo 1 2 = (r', [], CONTINUAR, [8, 9])"
proof -
  let ?g = "\<lparr>id_seg = 0, base = 1, limite = 4, swap_bloque_inicio = 0\<rparr> :: t_segmento"
  have "buscar_segmento contexto_ejemplo (1 div 8) = Some ?g" by (simp add: buscar_segmento_def contexto_ejemplo_def)
  moreover have "unat (1 mod 8 :: u32) + unat (2 :: u32) \<le> unat (limite ?g)" by simp
  moreover have "unat (base ?g) + unat (limite ?g) \<le> ram (como_conexiones sticks_cpu_ejemplo)"
    unfolding red_ok_cpu_ejemplo(2) by simp
  moreover have "length [8, 9 :: byte] = unat (2 :: u32)" by simp
  ultimately have "\<exists>r'. mmu_escribir 8 sticks_cpu_ejemplo red_ejemplo contexto_ejemplo 1 [8, 9] 2 = (r', [], CONTINUAR) \<and>
      red_ok (como_conexiones sticks_cpu_ejemplo) r' \<and>
      memoria_fisica (como_conexiones sticks_cpu_ejemplo) r' =
        copiar_en (memoria_fisica (como_conexiones sticks_cpu_ejemplo) red_ejemplo) (unat (base ?g) + unat (1 mod 8 :: u32)) [8, 9] \<and>
      mmu_leer 8 sticks_cpu_ejemplo r' contexto_ejemplo 1 2 = (r', [], CONTINUAR, [8, 9])"
    by (rule mmu_escribir_y_leer [OF red_ok_cpu_ejemplo(1)])
  then show ?thesis unfolding memoria_cpu_ejemplo by (auto simp: copiar_en_def)
qed

text \<open>
  The MMU never produces more pieces than there are sticks, so the array of
  \<open>MAX_MEMORY_STICKS + 1\<close> pieces that \<open>mmu_leer\<close> and \<open>mmu_escribir\<close> keep on the stack cannot
  overflow, however the access falls on the sticks.
\<close>

theorem mmu_traducciones_acotadas:
  assumes ok: "red_ok (como_conexiones ms) r" and trad: "mmu_traducir_dir_logica smax ms ctx dir tam = Some (ts, d)"
    and seg: "\<forall>g \<in> set (tabla_segmentos ctx). unat (base g) + unat (limite g) \<le> ram (como_conexiones ms)"
    and wrap: "unat (dir mod smax) + unat tam < 2 ^ 32"
  shows "length ts \<le> length ms \<and> length ts \<le> MAX_MEMORY_STICKS"
proof -
  obtain g where g: "buscar_segmento ctx (dir div smax) = Some g" "\<not> limite g < dir mod smax + tam"
    using trad by (auto simp: mmu_traducir_dir_logica_def mmu_descomponer_dir_logica_def mmu_traducir_def split: option.splits if_splits)
  have cabe: "unat (base g) + unat (limite g) \<le> ram (como_conexiones ms)"
    using seg g(1) find_SomeD [of _ "tabla_segmentos ctx" g] by (auto simp: buscar_segmento_def)
  have "unat (dir mod smax) + unat tam \<le> unat (limite g)" using g(2) wrap by (simp add: word_less_nat_alt unat_add_u32)
  note s = mmu_traducir_seg [OF g(1) wrap cabe ok this]
  have "mmu_bucle ms tam (base g + dir mod smax) = Some ts" using trad s(1) by auto
  then have "length ts \<le> length ms" using mmu_bucle_cuenta [OF ok s(3), of ts 0] by simp
  moreover have "length ms \<le> MAX_MEMORY_STICKS" using ok by (simp add: red_ok_def layout_def)
  ultimately show ?thesis by simp
qed

lemma mmu_traducciones_acotadas_witness:
  "\<exists>ts. mmu_traducir_dir_logica 8 sticks_cpu_ejemplo contexto_ejemplo 1 2 = Some (ts, 2) \<and> length ts \<le> length sticks_cpu_ejemplo"
proof -
  let ?g = "\<lparr>id_seg = 0, base = 1, limite = 4, swap_bloque_inicio = 0\<rparr> :: t_segmento"
  have g: "buscar_segmento contexto_ejemplo (1 div 8) = Some ?g" by (simp add: buscar_segmento_def contexto_ejemplo_def)
  have "unat (base ?g) + unat (limite ?g) \<le> ram (como_conexiones sticks_cpu_ejemplo)" unfolding red_ok_cpu_ejemplo(2) by simp
  note s = mmu_traducir_seg [OF g _ this red_ok_cpu_ejemplo(1), of 2]
  obtain ts where "mmu_bucle sticks_cpu_ejemplo 2 2 = Some ts"
    using mmu_bucle_lee [OF red_ok_cpu_ejemplo(1), of 2 2] unfolding red_ok_cpu_ejemplo(2) by auto
  then have t: "mmu_traducir_dir_logica 8 sticks_cpu_ejemplo contexto_ejemplo 1 2 = Some (ts, 2)" using s(1) by simp
  have "\<forall>g \<in> set (tabla_segmentos contexto_ejemplo). unat (base g) + unat (limite g) \<le> ram (como_conexiones sticks_cpu_ejemplo)"
    unfolding red_ok_cpu_ejemplo(2) by (simp add: contexto_ejemplo_def)
  from mmu_traducciones_acotadas [OF red_ok_cpu_ejemplo(1) t this] t show ?thesis by simp
qed


section \<open>The same exchanges on a socket\<close>

text \<open>\<open>leer_de_memoria_fisica\<close> and \<open>escribir_en_memoria_fisica\<close> take the socket instead of the index.\<close>

definition leer_de_memoria_fisica :: "red \<Rightarrow> sock \<Rightarrow> i32 \<Rightarrow> u32 \<Rightarrow> u32 \<Rightarrow> red \<times> evento list \<times> byte list option" where
  "leer_de_memoria_fisica r stick_socket pid dir tamanio =
     (if stick_socket = - 1 then (r, [], None)
      else
        let (respuesta, r') = pedir_stick r stick_socket (enviar_lectura_fisica pid dir tamanio);
            (cod, s1) = recibir_codigo_operacion respuesta
        in if cod \<noteq> op_num LECTURA_MEMORIA then (r', [], None)
           else case recibir_datos_memoria tamanio s1 of
             Inl e \<Rightarrow> (r', [Aborto], None)
           | Inr (datos, s2) \<Rightarrow> (r', [], Some datos))"

definition escribir_en_memoria_fisica :: "red \<Rightarrow> sock \<Rightarrow> i32 \<Rightarrow> u32 \<Rightarrow> byte list \<Rightarrow> red \<times> evento list \<times> bool" where
  "escribir_en_memoria_fisica r stick_socket pid dir datos =
     (if stick_socket = - 1 then (r, [], False)
      else
        let (respuesta, r') = pedir_stick r stick_socket (enviar_escritura_fisica pid dir datos);
            (cod, s1) = recibir_codigo_operacion respuesta
        in if cod \<noteq> op_num ESCRITURA_MEMORIA then (r', [], False)
           else case recibir_ok s1 of
             Inl e \<Rightarrow> (r', [Aborto], False)
           | Inr (u, s2) \<Rightarrow> (r', [], True))"

text \<open>The accesses by index are these on the socket of the table.\<close>

lemma accesos_por_indice:
  "cpu_stick_leer ms r i pid dir tam = leer_de_memoria_fisica r (cpu_get_memory_stick_socket i ms) pid dir tam"
  "cpu_stick_escribir ms r i pid dir datos = escribir_en_memoria_fisica r (cpu_get_memory_stick_socket i ms) pid dir datos"
  by (simp_all add: cpu_stick_leer_def leer_de_memoria_fisica_def cpu_stick_escribir_def escribir_en_memoria_fisica_def Let_def)

end
