(* ===== verification/Memory_Abstracta.thy ===== *)
theory Memory_Abstracta
  imports Reanudacion Memory_Cpu Cpu_Mmu
begin

text \<open>
  What the processes see of Kernel Memory: a list of processes, each with its private segments,
  each segment with an identifier and its bytes: no RAM, no bases, no sticks, no swap. \<open>abs_mem\<close>
  reads it from the state, and every section says what one of the handlers does to it, and that
  the handler keeps the invariant \<open>inv_sis\<close>. \<open>Memory_Sistema\<close> puts them together.
\<close>

section \<open>The abstract memory\<close>

type_synonym t_abstracta = "(i32 \<times> (u32 \<times> byte list) list) list"

definition bytes_swap :: "u32 \<Rightarrow> t_swap \<Rightarrow> t_segmento \<Rightarrow> byte list" where
  "bytes_swap bs d g = take (unat (limite g))
     (concat (map (\<lambda>k. bloque_de d (swap_bloque_inicio g + of_nat k)) [0..<unat (n_bloques bs (limite g))]))"

text \<open>The bytes of a segment are in RAM or in its swap blocks.\<close>

definition bytes_seg :: "t_memoria \<Rightarrow> t_segmento \<Rightarrow> byte list" where
  "bytes_seg M g =
     (if residente g then contenido (memoria_de M) g else bytes_swap (bs_de M) (disco M) g)"

definition segs_abs :: "t_memoria \<Rightarrow> t_segmento list \<Rightarrow> (u32 \<times> byte list) list" where
  "segs_abs M gs = map (\<lambda>g. (id_seg g, bytes_seg M g)) gs"

definition abs_mem :: "t_memoria \<Rightarrow> t_abstracta" where
  "abs_mem M = map (\<lambda>p. (ce_pid p, segs_abs M (segmentos p))) (procesos M)"

definition en_proceso ::
  "i32 \<Rightarrow> ((u32 \<times> byte list) list \<Rightarrow> (u32 \<times> byte list) list) \<Rightarrow> t_abstracta \<Rightarrow> t_abstracta" where
  "en_proceso pid f A = map (\<lambda>(q, ss). (q, if q = pid then f ss else ss)) A"

definition quitar_seg :: "u32 \<Rightarrow> (u32 \<times> byte list) list \<Rightarrow> (u32 \<times> byte list) list" where
  "quitar_seg ident ss =
     (case buscar_idx (\<lambda>s. fst s = ident) ss of None \<Rightarrow> ss | Some j \<Rightarrow> list_remove ss j)"

definition escribir_seg ::
  "u32 \<Rightarrow> nat \<Rightarrow> byte list \<Rightarrow> (u32 \<times> byte list) list \<Rightarrow> (u32 \<times> byte list) list" where
  "escribir_seg ident off x ss =
     (case buscar_idx (\<lambda>s. fst s = ident) ss of
        None \<Rightarrow> ss
      | Some j \<Rightarrow> if off + length x \<le> length (snd (ss ! j))
                  then ss[j := (ident, copiar_en (snd (ss ! j)) off x)] else ss)"

lemma bytes_swap_bloques:
  "take (length x) (concat (map (bloque_k bs x) [0..<n])) = take (n * bs) x"
proof (induction n)
  case (Suc n)
  let ?y = "tramo_de x (n * bs) bs" and ?A = "concat (map (bloque_k bs x) [0..<n])"
  have lA: "length ?A = n * bs" by (induction n) simp_all
  have ly: "length ?y = min bs (length x - n * bs)" by (simp add: tramo_de_def)
  have "take (length x - n * bs) (bloque_k bs x n) = ?y"
    using ly by (cases "length x - n * bs \<le> bs") (simp_all add: bloque_k_def relleno_def)
  moreover have "take (Suc n * bs) x = take (n * bs) x @ ?y"
    unfolding tramo_de_def mult_Suc add.commute [of bs] take_add ..
  ultimately show ?case using Suc lA by simp
qed simp

lemma bytes_swap_en_swap:
  assumes "en_swap bs d g x" "medidas bs g"
  shows "bytes_swap bs d g = x"
proof -
  let ?n = "unat (n_bloques bs (limite g))"
  have lx: "length x = unat (limite g)" using assms(1) by (simp add: en_swap_def)
  have bl: "map (\<lambda>k. bloque_de d (swap_bloque_inicio g + of_nat k)) [0..<?n] = map (bloque_k (unat bs) x) [0..<?n]"
    using assms(1) by (intro map_cong refl) (simp add: en_swap_def)
  show ?thesis
    using bytes_swap_bloques [of x "unat bs" ?n] bloques_cubren [OF assms(2)] lx
    unfolding bytes_swap_def bl by simp
qed

lemma en_proceso_nth:
  assumes "distinct (map fst A)" "i < length A" "fst (A ! i) = pid"
  shows "en_proceso pid f A = A[i := (pid, f (snd (A ! i)))]"
proof (rule nth_equalityI)
  fix k
  assume k: "k < length (en_proceso pid f A)"
  then have "fst (A ! k) = pid \<longleftrightarrow> k = i"
    using assms by (auto simp: en_proceso_def distinct_conv_nth)
  then show "en_proceso pid f A ! k = A[i := (pid, f (snd (A ! i)))] ! k"
    using k assms(3) by (simp add: en_proceso_def nth_list_update case_prod_beta prod_eq_iff)
qed (simp add: en_proceso_def)

lemma en_proceso_ajeno: "pid \<notin> fst ` set A \<Longrightarrow> en_proceso pid f A = A"
  by (auto simp: en_proceso_def intro!: map_idI) (metis fst_conv image_eqI)

section \<open>The invariant\<close>

text \<open>
  A process is all in RAM or all in the swap; the blocks of a process in the swap lie below the
  counter of reserved blocks, where no later suspension writes.
\<close>

definition en_disco :: "t_memoria \<Rightarrow> t_segmento \<Rightarrow> bool" where
  "en_disco M g \<longleftrightarrow> \<not> residente g \<and> unat (limite g) < 2 ^ 31 \<and>
     unat (swap_bloque_inicio g) + unat (n_bloques (bs_de M) (limite g)) \<le> unat (next_block (reserva M)) \<and>
     (\<exists>x. en_swap (bs_de M) (disco M) g x)"

definition proceso_ok :: "t_memoria \<Rightarrow> t_segmento list \<Rightarrow> bool" where
  "proceso_ok M gs \<longleftrightarrow> list_all residente gs \<or> list_all (en_disco M) gs"

definition inv_sis :: "t_memoria \<Rightarrow> bool" where
  "inv_sis M \<longleftrightarrow> mem_inv M \<and> swap_listo M \<and> ram (conx M) < 2 ^ 31 \<and> 0 \<le> swap_socket (conx M) \<and>
     distinct (map ce_pid (procesos M)) \<and> (\<forall>p \<in> set (procesos M). proceso_ok M (segmentos p))"

lemma swap_listo_igual:
  assumes "reserva M' = reserva M" "disco M' = disco M"
  shows "swap_listo M' = swap_listo M"
  unfolding swap_listo_def assms ..

lemma medidas_disco: "swap_listo M \<Longrightarrow> en_disco M g \<Longrightarrow> medidas (bs_de M) g"
  by (auto simp: swap_listo_def swap_de_def swap_ok_def medidas_def en_disco_def word_less_nat_alt)

lemma en_disco_bytes:
  "swap_listo M \<Longrightarrow> en_disco M g \<Longrightarrow> en_swap (bs_de M) (disco M) g (bytes_seg M g)"
  using bytes_swap_en_swap medidas_disco by (fastforce simp: en_disco_def bytes_seg_def)

text \<open>Suspended segments do not depend on the RAM, and survive while their blocks do.\<close>

lemma en_disco_marco:
  assumes sw: "swap_listo M" "en_disco M g"
    and m: "bs_de M' = bs_de M" "SWAP_CONFIG (disco M') = SWAP_CONFIG (disco M)"
      "unat (next_block (reserva M)) \<le> unat (next_block (reserva M'))"
      "\<And>b. b < next_block (reserva M) \<Longrightarrow> bloque_de (disco M') b = bloque_de (disco M) b"
  shows "en_disco M' g" "bytes_seg M' g = bytes_seg M g"
proof -
  have g: "unat (limite g) < 2 ^ 31" "\<not> residente g"
      "unat (swap_bloque_inicio g) + unat (n_bloques (bs_de M) (limite g)) \<le> unat (next_block (reserva M))"
    using sw(2) by (auto simp: en_disco_def)
  have e: "en_swap (bs_de M) (disco M') g (bytes_seg M g)"
    by (rule en_swap_marco [OF en_disco_bytes [OF sw] m(2) g(3) m(4)])
  with g m(1,3) show "en_disco M' g" by (auto simp: en_disco_def)
  show "bytes_seg M' g = bytes_seg M g"
    using bytes_swap_en_swap [OF e medidas_disco [OF sw]] g(2) m(1) by (simp add: bytes_seg_def)
qed

text \<open>
  \<open>vivo M g\<close> is what the invariant says of one segment; \<open>misma\<close>: the processes see no difference
  between two states.
\<close>

definition misma :: "t_memoria \<Rightarrow> t_memoria \<Rightarrow> bool" where
  "misma M M' \<longleftrightarrow> map ce_pid (procesos M') = map ce_pid (procesos M) \<and>
     posiciones (procesos M') = posiciones (procesos M) \<and>
     (\<forall>e \<in> set (posiciones (procesos M)). id_seg (seg_en (procesos M') e) = id_seg (seg_en (procesos M) e) \<and>
        bytes_seg M' (seg_en (procesos M') e) = bytes_seg M (seg_en (procesos M) e))"

lemma posiciones_largo:
  assumes "posiciones ps' = posiciones ps" "length ps' = length ps" "i < length ps"
  shows "length (segmentos (ps' ! i)) = length (segmentos (ps ! i))"
proof -
  have "{j. j < length (segmentos (ps' ! i))} = {j. j < length (segmentos (ps ! i))}"
    using arg_cong [OF assms(1), of "\<lambda>l. {j. (i, j) \<in> set l}"] assms(2,3) by (simp add: set_posiciones)
  then show ?thesis by (metis card_Collect_less_nat)
qed

lemma misma_abs: "misma M M' \<Longrightarrow> abs_mem M' = abs_mem M"
proof (rule nth_equalityI)
  assume m: "misma M M'"
  have pid: "map ce_pid (procesos M') = map ce_pid (procesos M)" and pos: "posiciones (procesos M') = posiciones (procesos M)"
    using m by (simp_all add: misma_def)
  have len: "length (procesos M') = length (procesos M)" using arg_cong [OF pid, of length] by simp
  then show "length (abs_mem M') = length (abs_mem M)" by (simp add: abs_mem_def)
  fix i
  assume "i < length (abs_mem M')"
  then have i: "i < length (procesos M)" "i < length (procesos M')" using len by (simp_all add: abs_mem_def)
  have "ce_pid (procesos M' ! i) = ce_pid (procesos M ! i)" using arg_cong [OF pid, of "\<lambda>l. l ! i"] i by simp
  moreover have "segs_abs M' (segmentos (procesos M' ! i)) = segs_abs M (segmentos (procesos M ! i))"
  proof (rule nth_equalityI)
    show l: "length (segs_abs M' (segmentos (procesos M' ! i))) = length (segs_abs M (segmentos (procesos M ! i)))"
      using posiciones_largo [OF pos len i(1)] by (simp add: segs_abs_def)
    fix j
    assume "j < length (segs_abs M' (segmentos (procesos M' ! i)))"
    then have j: "j < length (segmentos (procesos M' ! i))" "j < length (segmentos (procesos M ! i))"
      using l by (simp_all add: segs_abs_def)
    then have "(i, j) \<in> set (posiciones (procesos M))" using i by (simp add: set_posiciones)
    then show "segs_abs M' (segmentos (procesos M' ! i)) ! j = segs_abs M (segmentos (procesos M ! i)) ! j"
      using m j unfolding misma_def by (fastforce simp: segs_abs_def seg_en_def)
  qed
  ultimately show "abs_mem M' ! i = abs_mem M ! i" using i by (simp add: abs_mem_def)
qed

lemma proceso_ok_seg:
  "proceso_ok M (segmentos (ps ! i)) \<longleftrightarrow>
     (\<forall>j < length (segmentos (ps ! i)). residente (seg_en ps (i, j))) \<or>
     (\<forall>j < length (segmentos (ps ! i)). en_disco M (seg_en ps (i, j)))"
  by (simp add: proceso_ok_def list_all_length seg_en_def)

lemma inv_sis_seg:
  assumes "inv_sis M" "e \<in> set (posiciones (procesos M))"
  shows "residente (seg_en (procesos M) e) \<or> en_disco M (seg_en (procesos M) e)"
proof -
  obtain i j where e: "e = (i, j)" "i < length (procesos M)" "j < length (segmentos (procesos M ! i))"
    using assms(2) by (auto simp: set_posiciones)
  have "proceso_ok M (segmentos (procesos M ! i))" using assms(1) e(2) by (simp add: inv_sis_def)
  then show ?thesis using e unfolding proceso_ok_seg by blast
qed

text \<open>Processes whose segments stay where they are remain as the invariant wants them.\<close>

lemma proceso_ok_marco:
  assumes ok: "proceso_ok M (segmentos (procesos M ! i))"
    and len: "length (segmentos (procesos M' ! i)) = length (segmentos (procesos M ! i))"
    and res: "\<And>j. j < length (segmentos (procesos M ! i)) \<Longrightarrow> residente (seg_en (procesos M) (i, j)) \<Longrightarrow>
      residente (seg_en (procesos M') (i, j))"
    and dis: "\<And>j. j < length (segmentos (procesos M ! i)) \<Longrightarrow> en_disco M (seg_en (procesos M) (i, j)) \<Longrightarrow>
      en_disco M' (seg_en (procesos M') (i, j))"
  shows "proceso_ok M' (segmentos (procesos M' ! i))"
  using ok res dis unfolding proceso_ok_seg len by blast

lemma inv_sisI:
  assumes "mem_inv M" "swap_listo M" "ram (conx M) < 2 ^ 31" "0 \<le> swap_socket (conx M)" "distinct (map ce_pid (procesos M))"
    and "\<And>i. i < length (procesos M) \<Longrightarrow> proceso_ok M (segmentos (procesos M ! i))"
  shows "inv_sis M"
  using assms by (auto simp: inv_sis_def in_set_conv_nth)

lemma inv_sisD:
  assumes "inv_sis M"
  shows "mem_inv M" "swap_listo M" "ram (conx M) < 2 ^ 31" "0 \<le> swap_socket (conx M)" "distinct (map ce_pid (procesos M))"
    "i < length (procesos M) \<Longrightarrow> proceso_ok M (segmentos (procesos M ! i))"
  using assms by (simp_all add: inv_sis_def)

section \<open>Suspension and resumption are invisible\<close>

lemma sin_segmentos_pids: "sin_segmentos ps' = sin_segmentos ps \<Longrightarrow> map ce_pid ps' = map ce_pid ps"
proof -
  have "map ce_pid ps = map ce_pid (sin_segmentos ps)" for ps by (simp add: sin_segmentos_def comp_def)
  then show "sin_segmentos ps' = sin_segmentos ps \<Longrightarrow> map ce_pid ps' = map ce_pid ps" by metis
qed

lemma sin_bases_pids: "sin_bases ps' = sin_bases ps \<Longrightarrow> map ce_pid ps' = map ce_pid ps"
proof -
  have "map ce_pid ps = map ce_pid (sin_bases ps)" for ps by (simp add: sin_bases_def comp_def)
  then show "sin_bases ps' = sin_bases ps \<Longrightarrow> map ce_pid ps' = map ce_pid ps" by metis
qed

lemma suspendidas_sis:
  assumes inv: "inv_sis M" and p: "i < length (procesos M)" and n: "n = length (segmentos (procesos M ! i))"
    and res: "list_all residente (segmentos (procesos M ! i))" and sus: "suspendidas M i [0..<n] M'"
  shows "inv_sis M' \<and> misma M M'"
proof -
  note s = sus [unfolded suspendidas_def]
  note I = inv_sisD [OF inv]
  have pos: "posiciones (procesos M') = posiciones (procesos M)" and bs: "bs_de M' = bs_de M"
    and m: "memoria_de M' = memoria_de M" using s by auto
  have pid: "map ce_pid (procesos M') = map ce_pid (procesos M)" using s by (intro sin_segmentos_pids) blast
  have len: "length (procesos M') = length (procesos M)" using arg_cong [OF pid, of length] by simp
  have otro: "seg_en (procesos M') q = seg_en (procesos M) q" if "fst q \<noteq> i" for q using s that by blast
  have disco: "en_disco M' g \<and> bytes_seg M' g = bytes_seg M g" if "en_disco M g" for g
    using en_disco_marco [OF I(2) that, of M'] s by auto
  have ram: "bytes_seg M' g = bytes_seg M g" if "residente g" for g using that m by (simp add: bytes_seg_def)
  have propio: "en_disco M' (seg_en (procesos M') (i, j)) \<and> id_seg (seg_en (procesos M') (i, j)) = id_seg (seg_en (procesos M) (i, j)) \<and>
      bytes_seg M' (seg_en (procesos M') (i, j)) = bytes_seg M (seg_en (procesos M) (i, j))" if j: "j < n" for j
  proof -
    let ?g = "seg_en (procesos M) (i, j)" and ?g' = "seg_en (procesos M') (i, j)"
    have e: "(i, j) \<in> set (posiciones (procesos M))" "residente ?g"
      using p n j res by (auto simp: set_posiciones seg_en_def list_all_length)
    obtain b where g': "?g' = ?g\<lparr>swap_bloque_inicio := b, base := - 1\<rparr>" and en: "en_swap (bs_de M) (disco M') ?g' (contenido (memoria_de M) ?g)"
      using s j by fastforce
    have lim: "unat (limite ?g) < 2 ^ 31" using residente_cabe [OF I(1) e] I(3) by simp
    have top: "unat (swap_bloque_inicio ?g') + bloques_seg M (i, j) \<le> unat (next_block (reserva M'))" using s j by auto
    then have d: "en_disco M' ?g'" using en lim bs by (auto simp: en_disco_def g' residente_def bloques_seg_def)
    have "bytes_seg M' ?g' = contenido (memoria_de M) ?g"
      using bytes_swap_en_swap [OF en] medidas_disco [OF _ d] s bs d by (simp add: bytes_seg_def en_disco_def)
    then show ?thesis using d e(2) by (simp add: g' bytes_seg_def)
  qed
  have "proceso_ok M' (segmentos (procesos M' ! k))" if k: "k < length (procesos M)" for k
  proof (cases "k = i")
    case True
    then show ?thesis using propio posiciones_largo [OF pos len k] n by (simp add: proceso_ok_seg)
  next
    case False
    then show ?thesis
      using proceso_ok_marco [OF I(6) [OF k] posiciones_largo [OF pos len k]] otro disco by simp
  qed
  then have "inv_sis M'" using s I pid len by (intro inv_sisI) auto
  moreover have "misma M M'"
    unfolding misma_def
  proof (intro conjI ballI pid pos)
    fix e
    assume e: "e \<in> set (posiciones (procesos M))"
    have "e = (i, snd e) \<and> snd e < n \<or> fst e \<noteq> i" using e n unfolding set_posiciones by auto
    then show "id_seg (seg_en (procesos M') e) = id_seg (seg_en (procesos M) e)"
      "bytes_seg M' (seg_en (procesos M') e) = bytes_seg M (seg_en (procesos M) e)"
      using propio [of "snd e"] otro [of e] disco ram inv_sis_seg [OF inv e] by auto
  qed
  ultimately show ?thesis by blast
qed


lemma sin_bases_seg_en:
  assumes sb: "sin_bases ps' = sin_bases ps" and e: "e \<in> set (posiciones ps)"
  shows "seg_en ps' e = (seg_en ps e)\<lparr>base := base (seg_en ps' e)\<rparr>"
proof -
  obtain i j where ij: "e = (i, j)" "i < length ps" "j < length (segmentos (ps ! i))"
    using e by (auto simp: set_posiciones)
  have len: "length ps' = length ps" by (rule sin_bases_buscar(2) [OF sb])
  have "map (\<lambda>g. g\<lparr>base := 0\<rparr>) (segmentos (ps' ! i)) = map (\<lambda>g. g\<lparr>base := 0\<rparr>) (segmentos (ps ! i))"
    using arg_cong [OF sb, of "\<lambda>xs. segmentos (xs ! i)"] ij(2) len by (simp add: sin_bases_def)
  from arg_cong [OF this, of "\<lambda>xs. xs ! j"] arg_cong [OF this, of length] ij(3)
  have "(seg_en ps' e)\<lparr>base := 0\<rparr> = (seg_en ps e)\<lparr>base := 0\<rparr>" by (simp add: ij(1) seg_en_def)
  from arg_cong [OF this, of "\<lambda>g. g\<lparr>base := base (seg_en ps' e)\<rparr>"] show ?thesis by simp
qed

lemma restaurada_sis:
  assumes inv: "inv_sis M" and p: "i < length (procesos M)"
    and dis: "list_all (en_disco M) (segmentos (procesos M ! i))"
    and r: "restaurada M i (map (bytes_seg M) (segmentos (procesos M ! i))) M'"
  shows "inv_sis M' \<and> misma M M'"
proof -
  note s = r [unfolded restaurada_def]
  note I = inv_sisD [OF inv]
  have sb: "sin_bases (procesos M') = sin_bases (procesos M)" and sel: "conx M' = conx M" "reserva M' = reserva M"
      "disco M' = disco M" "config_memory M' = config_memory M" using s by auto
  have pid: "map ce_pid (procesos M') = map ce_pid (procesos M)" by (rule sin_bases_pids [OF sb])
  have len: "length (procesos M') = length (procesos M)" using sin_bases_buscar(2) [OF sb] .
  have seg: "seg_en (procesos M') q = (seg_en (procesos M) q)\<lparr>base := base (seg_en (procesos M') q)\<rparr>"
    if "q \<in> set (posiciones (procesos M))" for q
    by (rule sin_bases_seg_en [OF sb that])
  have largo: "length (segmentos (procesos M' ! k)) = length (segmentos (procesos M ! k))" if "k < length (procesos M)" for k
    using arg_cong [OF sb, of "\<lambda>xs. length (segmentos (xs ! k))"] that len by (simp add: sin_bases_def)
  have pos: "posiciones (procesos M') = posiciones (procesos M)"
    using largo unfolding posiciones_def len by (intro arg_cong [of _ _ concat] map_cong) auto
  have otro: "seg_en (procesos M') e = seg_en (procesos M) e \<and> bytes_seg M' (seg_en (procesos M) e) = bytes_seg M (seg_en (procesos M) e)"
    if "e \<in> set (posiciones (procesos M))" "fst e \<noteq> i" for e
    using s that sel by (auto simp: bytes_seg_def)
  have propio: "residente (seg_en (procesos M') (i, j)) \<and> bytes_seg M' (seg_en (procesos M') (i, j)) = bytes_seg M (seg_en (procesos M) (i, j))"
    if "j < length (segmentos (procesos M ! i))" for j
    using s that by (auto simp: list_all2_conv_all_nth seg_en_def bytes_seg_def)
  have disco: "en_disco M g \<Longrightarrow> en_disco M' g" for g by (simp add: en_disco_def sel)
  have "proceso_ok M' (segmentos (procesos M' ! k))" if k: "k < length (procesos M)" for k
  proof (cases "k = i")
    case True
    then show ?thesis using propio largo [OF k] by (simp add: proceso_ok_seg)
  next
    case False
    then show ?thesis
      using proceso_ok_marco [OF I(6) [OF k] largo [OF k]] otro k disco by (simp add: set_posiciones)
  qed
  moreover have "swap_listo M'" using I(2) unfolding swap_listo_def sel .
  ultimately have "inv_sis M'" using s I pid len sel by (intro inv_sisI) auto
  moreover have "misma M M'"
    unfolding misma_def
  proof (intro conjI ballI pid pos)
    fix e
    assume e: "e \<in> set (posiciones (procesos M))"
    show "id_seg (seg_en (procesos M') e) = id_seg (seg_en (procesos M) e)" using arg_cong [OF seg [OF e], of id_seg] by simp
    have "e = (i, snd e) \<and> snd e < length (segmentos (procesos M ! i)) \<or> fst e \<noteq> i" using e unfolding set_posiciones by auto
    then show "bytes_seg M' (seg_en (procesos M') e) = bytes_seg M (seg_en (procesos M) e)"
      using propio [of "snd e"] otro [OF e] by auto
  qed
  ultimately show ?thesis by blast
qed


text \<open>A state that differs only in flags and in what the processes cannot see.\<close>

lemma sis_igual:
  assumes inv: "inv_sis M" and mi: "mem_inv M'" and ps: "procesos M' = procesos M"
    and sel: "conx M' = conx M" "red_sticks M' = red_sticks M" "reserva M' = reserva M" "disco M' = disco M"
  shows "inv_sis M' \<and> misma M M'"
proof -
  have b: "bytes_seg M' = bytes_seg M" "en_disco M' = en_disco M"
    by (simp_all add: fun_eq_iff bytes_seg_def en_disco_def sel)
  have "swap_listo M'" using inv unfolding inv_sis_def swap_listo_def sel by blast
  then show ?thesis using inv mi b by (simp add: inv_sis_def misma_def proceso_ok_def ps sel)
qed

lemma suspender_sis:
  assumes inv: "inv_sis M" and p: "procesos_buscar pid (procesos M) = Some i"
    and n: "n = length (segmentos (procesos M ! i))" and res: "list_all residente (segmentos (procesos M ! i))"
    and hay: "unat (next_block (reserva M)) + (\<Sum>j\<leftarrow>[0..<n]. bloques_seg M (i, j)) \<le> unat (total_blocks (reserva M))"
    and paso: "atender_scheduler fopen M socket (enviar_suspender_proceso pid @ s) = (M', evs, s')"
  shows "inv_sis M' \<and> misma M M'"
proof -
  note I = inv_sisD [OF inv]
  have i: "i < length (procesos M)" using procesos_buscar_SomeD [OF p] by simp
  have "\<forall>j \<in> set [0..<n]. (i, j) \<in> set (posiciones (procesos M)) \<and> residente (seg_en (procesos M) (i, j))"
    using i n res by (auto simp: set_posiciones seg_en_def list_all_length)
  from suspender_bucle_ok [OF I(1-4) distinct_upt this hay, of pid]
  obtain M1 where "suspender_bucle i pid (swap_socket (conx M)) [0..<n] M = (M1, [], True)" "suspendidas M i [0..<n] M1"
    by blast
  moreover from this(1) have "M1 = M'" using paso n by (simp add: atender_suspender [OF p I(4)])
  ultimately show ?thesis using suspendidas_sis [OF inv i n res] by simp
qed

lemma des_suspender_sis:
  assumes inv: "inv_sis M" and p: "procesos_buscar pid (procesos M) = Some i"
    and dis: "list_all (en_disco M) (segmentos (procesos M ! i))"
    and paso: "atender_scheduler fopen M socket (enviar_des_suspender_proceso pid @ s) = (M', evs, s')"
  shows "inv_sis M' \<and> misma M M'"
proof -
  note I = inv_sisD [OF inv]
  let ?gs = "segmentos (procesos M ! i)"
  let ?n = "length ?gs"
  have i: "i < length (procesos M)" using procesos_buscar_SomeD [OF p] by simp
  have js: "\<forall>j \<in> set [0..<?n]. (i, j) \<in> set (posiciones (procesos M)) \<and> \<not> residente (seg_en (procesos M) (i, j))"
    using i dis by (auto simp: set_posiciones seg_en_def list_all_length en_disco_def)
  have xs: "list_all2 (en_swap (bs_de M) (disco M)) ?gs (map (bytes_seg M) ?gs)"
    using en_disco_bytes [OF I(2)] dis by (auto simp: list_all2_conv_all_nth list_all_length)
  obtain M1 hay where r: "reservar_bucle i [0..<?n] [] M = (M1, hay)" by (cases "reservar_bucle i [0..<?n] [] M")
  show ?thesis
  proof (cases hay)
    case True
    with r have "reservar_bucle i [0..<?n] [] M = (M1, True)" by simp
    from reanudar_hay [OF I(1-4) p refl js xs this, of fopen socket s]
    obtain M2 where "atender_scheduler fopen M socket (enviar_des_suspender_proceso pid @ s) =
        (M2, [Enviar socket (enviar_ok DES_SUSPENDER_PROCESO)], s)" "restaurada M i (map (bytes_seg M) ?gs) M2"
      by blast
    then show ?thesis using restaurada_sis [OF inv i dis] paso by simp
  next
    case False
    with r have f: "mem_inv M1" "rebasada i (set [0..<?n]) M M1" "procesos M1 = procesos M"
      using reanudar_no_hay [OF I(1) js, of M1] by auto
    have "M' = M1" using paso r False by (simp add: atender_des_suspender [OF p I(4)])
    then show ?thesis using sis_igual [OF inv f(1,3)] rebasada_sel [OF f(2)] by simp
  qed
qed

section \<open>Changes of one process\<close>

text \<open>
  \<open>N\<close> is the state after a compaction, or the same one, and \<open>M'\<close> differs from it in the
  segments of process \<open>i\<close>.
\<close>

lemma bytes_seg_procesos [simp]:
  "bytes_seg (M\<lparr>procesos := ps\<rparr>) = bytes_seg M" "segs_abs (M\<lparr>procesos := ps\<rparr>) = segs_abs M"
  by (simp_all add: fun_eq_iff segs_abs_def bytes_seg_def)

lemma bytes_seg_igual:
  assumes "memoria_de M' = memoria_de M" "reserva M' = reserva M" "disco M' = disco M"
  shows "bytes_seg M' = bytes_seg M" "segs_abs M' = segs_abs M"
proof -
  show b: "bytes_seg M' = bytes_seg M" unfolding bytes_seg_def [abs_def] assms ..
  show "segs_abs M' = segs_abs M" unfolding segs_abs_def [abs_def] b ..
qed

lemma abs_actualizado:
  assumes m: "misma M (M'\<lparr>procesos := ps\<rparr>)" and i: "i < length ps"
    and ps: "procesos M' = ps[i := (ps ! i)\<lparr>segmentos := gs\<rparr>]"
  shows "abs_mem M' = (abs_mem M)[i := (fst (abs_mem M ! i), segs_abs M' gs)]"
proof -
  let ?N = "M'\<lparr>procesos := ps\<rparr>"
  have "abs_mem ?N = abs_mem M" by (rule misma_abs [OF m])
  then have A: "abs_mem M = map (\<lambda>p. (ce_pid p, segs_abs M' (segmentos p))) ps" by (simp add: abs_mem_def)
  show ?thesis unfolding A using i by (simp add: abs_mem_def ps map_update)
qed

lemma distinct_abs: "inv_sis M \<Longrightarrow> distinct (map fst (abs_mem M))"
  by (simp add: inv_sis_def abs_mem_def comp_def)

lemma abs_pid: "procesos_buscar pid (procesos M) = Some i \<Longrightarrow> i < length (abs_mem M) \<and> fst (abs_mem M ! i) = pid"
  using procesos_buscar_SomeD by (fastforce simp: abs_mem_def)

lemma abs_en_proceso:
  assumes inv: "inv_sis M" and p: "procesos_buscar pid (procesos M) = Some i"
    and m: "misma M (M'\<lparr>procesos := ps\<rparr>)" and i: "i < length ps"
    and ps: "procesos M' = ps[i := (ps ! i)\<lparr>segmentos := gs\<rparr>]"
    and f: "segs_abs M' gs = f (snd (abs_mem M ! i))"
  shows "abs_mem M' = en_proceso pid f (abs_mem M)"
  using abs_actualizado [OF m i ps] en_proceso_nth [OF distinct_abs [OF inv], of i pid f] abs_pid [OF p] f by simp

text \<open>Moving the resident segments, as a compaction does.\<close>

lemma reubicada_sis:
  assumes inv: "inv_sis M" and r: "reubicada M M1" and mem: "memoria_de M1 = memoria_de M'"
    and sel: "reserva M' = reserva M" "disco M' = disco M"
  shows "misma M (M'\<lparr>procesos := procesos M1\<rparr>)"
    and "k < length (procesos M) \<Longrightarrow> proceso_ok M' (segmentos (procesos M1 ! k))"
proof -
  let ?N = "M'\<lparr>procesos := procesos M1\<rparr>"
  have sb: "sin_bases (procesos M1) = sin_bases (procesos M)" using r by (simp add: reubicada_def)
  have pid: "map ce_pid (procesos M1) = map ce_pid (procesos M)" by (rule sin_bases_pids [OF sb])
  have len: "length (procesos M1) = length (procesos M)" using sin_bases_buscar(2) [OF sb] .
  have largo: "length (segmentos (procesos M1 ! k)) = length (segmentos (procesos M ! k))" if "k < length (procesos M)" for k
    using arg_cong [OF sb, of "\<lambda>xs. length (segmentos (xs ! k))"] that len by (simp add: sin_bases_def)
  have pos: "posiciones (procesos M1) = posiciones (procesos M)"
    using largo unfolding posiciones_def len by (intro arg_cong [of _ _ concat] map_cong) auto
  have b: "bytes_seg ?N = bytes_seg M'" "en_disco M' = en_disco M" by (simp_all add: fun_eq_iff bytes_seg_def en_disco_def sel)
  have seg: "id_seg (seg_en (procesos M1) e) = id_seg (seg_en (procesos M) e) \<and>
      bytes_seg M' (seg_en (procesos M1) e) = bytes_seg M (seg_en (procesos M) e) \<and>
      (residente (seg_en (procesos M1) e) \<longleftrightarrow> residente (seg_en (procesos M) e)) \<and>
      (\<not> residente (seg_en (procesos M) e) \<longrightarrow> seg_en (procesos M1) e = seg_en (procesos M) e)"
    if e: "e \<in> set (posiciones (procesos M))" for e
  proof -
    note s = sin_bases_seg_en [OF sb e]
    have res: "residente (seg_en (procesos M1) e) \<longleftrightarrow> residente (seg_en (procesos M) e)"
      "residente (seg_en (procesos M) e) \<longrightarrow>
         contenido (memoria_de M') (seg_en (procesos M1) e) = contenido (memoria_de M) (seg_en (procesos M) e)"
      using r e mem by (simp_all add: reubicada_def)
    have no: "seg_en (procesos M1) e = seg_en (procesos M) e" if "\<not> residente (seg_en (procesos M) e)"
      using s res(1) that by (simp add: residente_def)
    show ?thesis using arg_cong [OF s, of id_seg] res no sel by (auto simp: bytes_seg_def)
  qed
  show "misma M ?N"
    unfolding misma_def b(1) using pid pos seg by simp
  show "proceso_ok M' (segmentos (procesos M1 ! k))" if k: "k < length (procesos M)"
  proof -
    have "proceso_ok M (segmentos (procesos M ! k))" using inv k by (simp add: inv_sis_def)
    then show ?thesis
      unfolding proceso_ok_seg largo [OF k] b(2) using seg k by (auto simp: set_posiciones en_disco_def)
  qed
qed


section \<open>Requests for segments\<close>

lemma compactar_memoria_marco:
  "compactar_memoria M = (M', evs) \<Longrightarrow>
   reserva M' = reserva M \<and> disco M' = disco M \<and> conx M' = conx M \<and> config_memory M' = config_memory M"
  by (auto simp: compactar_memoria_def Let_def split: if_splits prod.splits)

lemma compactar_y_reasignar_marco:
  assumes "compactar_y_reasignar M socket pid t s = (M', evs, r, s')"
  shows "reserva M' = reserva M \<and> disco M' = disco M \<and> conx M' = conx M"
proof -
  obtain M1 ev where c: "compactar_memoria (compactacion_marcar_inicio M) = (M1, ev)"
    by (cases "compactar_memoria (compactacion_marcar_inicio M)")
  note c = c [unfolded compactacion_marcar_inicio_def]
  show ?thesis
    using assms compactar_memoria_marco [OF c]
    by (auto simp: compactar_y_reasignar_def compactacion_marcar_inicio_def c compactacion_marcar_fin_def Let_def
        split: prod.splits sum.splits if_splits option.splits)
qed

lemma solicitar_marco:
  assumes "atender_scheduler fopen M socket (enviar_solicitar_segmento pid ident t @ s) = (M', evs, s')"
  shows "reserva M' = reserva M \<and> disco M' = disco M \<and> conx M' = conx M"
  using assms compactar_y_reasignar_marco
  by (fastforce simp: atender_solicitar agregar_segmento_a_def Let_def split: prod.splits if_splits option.splits)

text \<open>With no segment at all the compaction finds nothing to do and the request is refused.\<close>

lemma solicitar_vacio:
  assumes inv: "mem_inv M" and vacio: "posiciones (procesos M) = []" "\<forall>e \<in> set (bloques_libres M). b_tamanio e < t"
    and paso: "atender_scheduler fopen M socket (enviar_solicitar_segmento pid ident t @ enviar_ok INICIAR_COMPACTACION @ s) = (M', evs, s')"
  shows "mem_inv M' \<and> procesos M' = procesos M \<and> red_sticks M' = red_sticks M"
proof -
  have binv: "bloques_inv (ram (conx M)) (bloques_libres M)" using inv by (simp add: mem_inv_def)
  have a: "bloques_asignar w t (bloques_libres M) = (- 1, bloques_libres M)" for w
  proof -
    obtain b bl where ab: "bloques_asignar w t (bloques_libres M) = (b, bl)" by (cases "bloques_asignar w t (bloques_libres M)")
    then have "b = - 1" using bloques_asignar_fallo [OF binv, of w t] vacio(2) by auto
    then show ?thesis using memoria.asignar_falla [OF binv] ab by blast
  qed
  obtain s1 where ack: "recibir_codigo_operacion (enviar_ok INICIAR_COMPACTACION @ s) = (op_num INICIAR_COMPACTACION, s1)"
      "recibir_ok s1 = Inr ((), s)"
    by (rule recibir_ack)
  have "compactar_memoria (M\<lparr>bloques_libres := bloques_libres M, en_progreso := True\<rparr>) =
      (M\<lparr>bloques_libres := bloques_libres M, en_progreso := True\<rparr>, [])"
    using vacio(1) by (simp add: compactar_memoria_def)
  then show ?thesis
    using paso inv
    by (auto simp: atender_solicitar a compactar_y_reasignar_def ack compactacion_marcar_inicio_def compactacion_marcar_fin_def
        mem_inv_def Let_def split: if_splits option.splits prod.splits)
qed

lemma solicitar_sis:
  assumes inv: "inv_sis M" and t: "0 < t"
    and res: "\<And>i. procesos_buscar pid (procesos M) = Some i \<Longrightarrow> list_all residente (segmentos (procesos M ! i))"
    and paso: "atender_scheduler fopen M socket (enviar_solicitar_segmento pid ident t @ enviar_ok INICIAR_COMPACTACION @ s) = (M', evs, s')"
  shows "inv_sis M' \<and> (abs_mem M' = abs_mem M \<or>
    (\<exists>x. length x = unat t \<and> abs_mem M' = en_proceso pid (\<lambda>ss. ss @ [(ident, x)]) (abs_mem M)))"
proof (cases "segment_max_size (config_memory M) < t \<or> procesos_buscar pid (procesos M) = None")
  case True
  then have "M' = M" using paso by (cases "segment_max_size (config_memory M) < t") (simp_all add: atender_solicitar)
  then show ?thesis using inv by simp
next
  case False
  then obtain i where p: "procesos_buscar pid (procesos M) = Some i" by auto
  note I = inv_sisD [OF inv]
  have i: "i < length (procesos M)" using procesos_buscar_SomeD [OF p] by simp
  have max: "t \<le> segment_max_size (config_memory M)" using False by (simp add: not_less)
  note casos = solicitar_casos [OF I(1) p t max paso]
  have sel: "reserva M' = reserva M" "disco M' = disco M" "conx M' = conx M" using solicitar_marco [OF paso] by auto
  consider "bloques_calcular_espacio_libre (bloques_libres M) < t"
    | "posiciones (procesos M) = []" "\<forall>e \<in> set (bloques_libres M). b_tamanio e < t"
    | "t \<le> bloques_calcular_espacio_libre (bloques_libres M)"
      "posiciones (procesos M) \<noteq> [] \<or> (\<exists>e \<in> set (bloques_libres M). t \<le> b_tamanio e)"
    by (metis not_less)
  then show ?thesis
  proof cases
    case 1
    then show ?thesis using casos(1) inv by simp
  next
    case 2
    from solicitar_vacio [OF I(1) 2 paso] have "inv_sis M' \<and> misma M M'"
      using sis_igual [OF inv] sel by blast
    then show ?thesis using misma_abs by blast
  next
    case 3
    from casos(2) [OF 3] obtain M1 b where c: "mem_inv M'" "reubicada M M1" "memoria_de M1 = memoria_de M'" "b \<noteq> - 1"
      "procesos M' = (procesos M1)[i := (procesos M1 ! i)\<lparr>segmentos := segmentos (procesos M1 ! i) @
            [\<lparr>id_seg = ident, base = b, limite = t, swap_bloque_inicio = 0\<rparr>]\<rparr>]" "i < length (procesos M1)"
      by blast
    let ?g = "\<lparr>id_seg = ident, base = b, limite = t, swap_bloque_inicio = 0\<rparr>" and ?gs = "segmentos (procesos M1 ! i)"
    note r = reubicada_sis [OF inv c(2,3) sel(1,2)]
    have g: "residente ?g" using c(4) by (simp add: residente_def)
    have e: "(i, length ?gs) \<in> set (posiciones (procesos M'))" "seg_en (procesos M') (i, length ?gs) = ?g"
      using c(5,6) by (simp_all add: set_posiciones seg_en_def)
    have "unat b + unat t \<le> ram (conx M')" using residente_cabe [OF c(1) e(1)] e(2) g by simp
    then have largo: "length (bytes_seg M' ?g) = unat t"
      using mem_inv_ram [OF c(1)] g by (simp add: bytes_seg_def contenido_def)
    have "segs_abs M' ?gs = snd (abs_mem (M'\<lparr>procesos := procesos M1\<rparr>) ! i)" using c(6) by (simp add: abs_mem_def)
    then have "segs_abs M' ?gs = snd (abs_mem M ! i)" by (simp only: misma_abs [OF r(1)])
    then have "abs_mem M' = en_proceso pid (\<lambda>ss. ss @ [(ident, bytes_seg M' ?g)]) (abs_mem M)"
      by (intro abs_en_proceso [OF inv p r(1) c(6,5)]) (simp add: segs_abs_def)
    moreover have "inv_sis M'"
    proof (rule inv_sisI)
      have "map ce_pid (procesos M') = map ce_pid (procesos M1)" by (simp add: c(5) map_update_same)
      then show "distinct (map ce_pid (procesos M'))" using sin_bases_pids [of "procesos M1" "procesos M"] c(2) I(5) by (simp add: reubicada_def)
      fix k
      assume "k < length (procesos M')"
      then have k: "k < length (procesos M)" using c(5) sin_bases_buscar(2) [of "procesos M1" "procesos M"] c(2) by (simp add: reubicada_def)
      have "list_all residente ?gs"
      proof -
        have sb: "sin_bases (procesos M1) = sin_bases (procesos M)" using c(2) by (simp add: reubicada_def)
        have "length ?gs = length (segmentos (procesos M ! i))"
          using arg_cong [OF sb, of "\<lambda>xs. length (segmentos (xs ! i))"] i c(6) by (simp add: sin_bases_def)
        moreover have "residente (?gs ! j)" if "j < length (segmentos (procesos M ! i))" for j
          using c(2) res [OF p] i that unfolding reubicada_def
          by (auto simp: set_posiciones seg_en_def list_all_length)
        ultimately show ?thesis by (simp add: list_all_length)
      qed
      then show "proceso_ok M' (segmentos (procesos M' ! k))"
        using r(2) [OF k] r(2) [OF i] c(5,6) g by (cases "k = i") (auto simp: proceso_ok_def)
    qed (use c(1) I sel in \<open>auto simp: swap_listo_def\<close>)
    ultimately show ?thesis using largo by blast
  qed
qed


lemma atender_eliminar_nada:
  assumes "procesos_buscar pid (procesos M) = None \<or>
    (\<exists>i. procesos_buscar pid (procesos M) = Some i \<and> buscar_idx (\<lambda>g. id_seg g = ident) (segmentos (procesos M ! i)) = None)"
  shows "atender_scheduler fopen M socket (enviar_eliminar_segmento pid ident @ s) = (M, [Enviar socket (enviar_ok ELIMINAR_SEGMENTO)], s)"
  by (rule atender_mensaje [OF m_eliminar.ida_y_vuelta [of "(pid, ident)", simplified]])
    (use assms in \<open>auto simp: despachar_scheduler_def manejar_eliminar_segmento_def con_recv_Inr simp del: buscar_idx_None\<close>)

lemma atender_finalizar_nada:
  assumes "procesos_buscar pid (procesos M) = None"
  shows "atender_scheduler fopen M socket (enviar_finalizar_proceso_memory pid @ s) = (M, [Enviar socket (enviar_ok FINALIZAR_PROCESO)], s)"
  by (rule atender_mensaje [OF m_finalizar.ida_y_vuelta])
    (use assms in \<open>simp_all add: despachar_scheduler_def manejar_finalizar_proceso_def con_recv_Inr\<close>)

lemma finalizar_marco:
  assumes p: "procesos_buscar pid (procesos M) = Some i"
    and paso: "atender_scheduler fopen M socket (enviar_finalizar_proceso_memory pid @ s) = (M', evs, s')"
  shows "conx M' = conx M \<and> reserva M' = reserva M \<and> disco M' = disco M"
  using atender_finalizar [OF p refl, of fopen socket s] paso by (auto simp: Let_def)

text \<open>Changing the segments of one resident process in place, with the swap untouched.\<close>

lemma inv_sis_update:
  assumes inv: "inv_sis M" and mi: "mem_inv M'" and i: "i < length (procesos M)"
    and ps: "procesos M' = (procesos M)[i := p']" "ce_pid p' = ce_pid (procesos M ! i)" "list_all residente (segmentos p')"
    and sel: "conx M' = conx M" "reserva M' = reserva M" "disco M' = disco M"
  shows "inv_sis M'"
proof (rule inv_sisI)
  note I = inv_sisD [OF inv]
  have "map ce_pid (procesos M') = map ce_pid (procesos M)" using ps(1,2) by (simp add: map_update_same)
  then show "distinct (map ce_pid (procesos M'))" using I(5) by simp
  show "swap_listo M'" using I(2) unfolding swap_listo_def sel .
  show "ram (conx M') < 2 ^ 31" "0 \<le> swap_socket (conx M')" using I(3,4) by (simp_all add: sel)
  have "proceso_ok M' = proceso_ok M" by (simp add: fun_eq_iff proceso_ok_def en_disco_def [abs_def] sel)
  then show "proceso_ok M' (segmentos (procesos M' ! k))" if "k < length (procesos M')" for k
    using I(6) [of k] that ps(1,3) by (cases "k = i") (simp_all add: proceso_ok_def)
qed (rule mi)

lemma misma_refl_ram:
  assumes "\<And>g. residente g \<Longrightarrow> cabe_en (ram (conx M)) (tramo_seg g) \<Longrightarrow> contenido (memoria_de M') g = contenido (memoria_de M) g"
    and "mem_inv M" "reserva M' = reserva M" "disco M' = disco M"
  shows "misma M (M'\<lparr>procesos := procesos M\<rparr>)"
  using assms(1) residente_cabe [OF assms(2)] assms(3,4)
  by (auto simp: misma_def bytes_seg_def cabe_en_def)

lemma misma_igual_ram:
  assumes "memoria_de M' = memoria_de M" "reserva M' = reserva M" "disco M' = disco M"
  shows "misma M (M'\<lparr>procesos := procesos M\<rparr>)"
  using bytes_seg_igual(1) [OF assms] by (simp add: misma_def)

lemma buscar_idx_map_fst: "buscar_idx (\<lambda>s. fst s = ident) (segs_abs M gs) = buscar_idx (\<lambda>g. id_seg g = ident) gs"
  unfolding segs_abs_def buscar_idx_map by simp

lemma list_all_remove: "list_all P xs \<Longrightarrow> list_all P (list_remove xs j)"
  using set_list_remove_subset [of xs j] by (auto simp: list_all_iff)

lemma abs_nth: "i < length (procesos M) \<Longrightarrow> abs_mem M ! i = (ce_pid (procesos M ! i), segs_abs M (segmentos (procesos M ! i)))"
  by (simp add: abs_mem_def)

lemma eliminar_sis:
  assumes inv: "inv_sis M"
    and res: "\<And>i. procesos_buscar pid (procesos M) = Some i \<Longrightarrow> list_all residente (segmentos (procesos M ! i))"
    and paso: "atender_scheduler fopen M socket (enviar_eliminar_segmento pid ident @ s) = (M', evs, s')"
  shows "inv_sis M' \<and> abs_mem M' = en_proceso pid (quitar_seg ident) (abs_mem M)"
proof (cases "procesos_buscar pid (procesos M)")
  case None
  have "M' = M" using paso unfolding atender_eliminar_nada [OF disjI1 [OF None]] by simp
  moreover have "pid \<notin> fst ` set (abs_mem M)" using None by (auto simp: procesos_buscar_def abs_mem_def)
  ultimately show ?thesis using inv by (simp add: en_proceso_ajeno)
next
  case (Some i)
  note p = Some and I = inv_sisD [OF inv]
  let ?gs = "segmentos (procesos M ! i)"
  have i: "i < length (procesos M)" "ce_pid (procesos M ! i) = pid" using procesos_buscar_SomeD [OF p] by simp_all
  show ?thesis
  proof (cases "buscar_idx (\<lambda>g. id_seg g = ident) ?gs")
    case None
    have "M' = M" using paso p None by (subst (asm) atender_eliminar_nada) auto
    moreover have "quitar_seg ident (snd (abs_mem M ! i)) = snd (abs_mem M ! i)"
      using None i by (simp add: quitar_seg_def abs_nth buscar_idx_map_fst del: buscar_idx_None)
    moreover have "(pid, snd (abs_mem M ! i)) = abs_mem M ! i" using abs_pid [OF p] by (simp add: prod_eq_iff)
    ultimately show ?thesis
      using inv en_proceso_nth [OF distinct_abs [OF inv], of i pid "quitar_seg ident"] abs_pid [OF p] by simp
  next
    case (Some j)
    then have j: "j < length ?gs" using buscar_idx_SomeD by blast
    have g: "residente (seg_en (procesos M) (i, j))" using res [OF p] j by (simp add: seg_en_def list_all_length)
    from eliminar_segmento_correcto [OF I(1) p Some refl g paso]
    have r: "mem_inv M'" "memoria_de M' = memoria_de M" "procesos M' = (procesos M)[i := (procesos M ! i)\<lparr>segmentos := list_remove ?gs j\<rparr>]"
      by auto
    have sel: "conx M' = conx M" "reserva M' = reserva M" "disco M' = disco M"
      using paso atender_eliminar [OF p Some refl refl, of fopen socket s] by auto
    have "inv_sis M'" using inv_sis_update [OF inv r(1) i(1) r(3) _ _ sel] list_all_remove [OF res [OF p]] by simp
    moreover have "segs_abs M' (list_remove ?gs j) = quitar_seg ident (snd (abs_mem M ! i))"
    proof -
      have "segs_abs M' = segs_abs M" using r(2) sel(2,3) by (rule bytes_seg_igual)
      then show ?thesis
        using Some i by (simp add: quitar_seg_def abs_nth buscar_idx_map_fst) (simp add: segs_abs_def list_remove_def take_map drop_map)
    qed
    moreover have "misma M (M'\<lparr>procesos := procesos M\<rparr>)"
      using r(2) sel(2,3) by (rule misma_igual_ram)
    ultimately have "inv_sis M'" "abs_mem M' = en_proceso pid (quitar_seg ident) (abs_mem M)"
      using abs_en_proceso [OF inv p _ i(1) r(3)] by blast+
    then show ?thesis by blast
  qed
qed

lemma finalizar_sis:
  assumes inv: "inv_sis M"
    and paso: "atender_scheduler fopen M socket (enviar_finalizar_proceso_memory pid @ s) = (M', evs, s')"
  shows "inv_sis M' \<and> abs_mem M' = filter (\<lambda>a. fst a \<noteq> pid) (abs_mem M)"
proof (cases "procesos_buscar pid (procesos M)")
  case None
  have "M' = M" using paso None by (simp add: atender_finalizar_nada)
  moreover have "filter (\<lambda>a. fst a \<noteq> pid) (abs_mem M) = abs_mem M"
    using None by (auto simp: procesos_buscar_def abs_mem_def filter_id_conv)
  ultimately show ?thesis using inv by simp
next
  case (Some i)
  note p = Some and I = inv_sisD [OF inv]
  have i: "i < length (procesos M)" "ce_pid (procesos M ! i) = pid" using procesos_buscar_SomeD [OF p] by simp_all
  from finalizar_proceso_correcto [OF I(1) p refl paso]
  have r: "mem_inv M'" "memoria_de M' = memoria_de M" "procesos M' = procesos_quitar_en i (procesos M)" by auto
  have sel: "conx M' = conx M" "reserva M' = reserva M" "disco M' = disco M" using finalizar_marco [OF p paso] by auto
  have sp: "procesos M = take i (procesos M) @ procesos M ! i # drop (Suc i) (procesos M)" by (rule list_split_nth [OF i(1)])
  have ps: "procesos M' = take i (procesos M) @ drop (Suc i) (procesos M)" by (simp add: r(3) procesos_quitar_en_def list_remove_def)
  have "distinct (map ce_pid (take i (procesos M) @ procesos M ! i # drop (Suc i) (procesos M)))" using I(5) sp by simp
  then have d: "distinct (map ce_pid (procesos M'))" "pid \<notin> ce_pid ` set (procesos M')" unfolding ps using i(2) by auto
  have b: "segs_abs M' = segs_abs M" using r(2) sel(2,3) by (rule bytes_seg_igual)
  have dis: "en_disco M' = en_disco M" by (simp add: fun_eq_iff en_disco_def sel)
  have sub: "set (procesos M') \<subseteq> set (procesos M)" unfolding ps by (auto dest: in_set_takeD in_set_dropD)
  have "swap_listo M'" using I(2) unfolding swap_listo_def sel .
  then have "inv_sis M'" using r(1) I d(1) sub inv dis by (auto simp: inv_sis_def proceso_ok_def sel)
  moreover have "abs_mem M' = filter (\<lambda>a. fst a \<noteq> pid) (abs_mem M)"
  proof -
    have A: "abs_mem M = map (\<lambda>p. (ce_pid p, segs_abs M (segmentos p))) (take i (procesos M) @ procesos M ! i # drop (Suc i) (procesos M))"
      unfolding abs_mem_def using sp by simp
    have "filter (\<lambda>p. ce_pid p \<noteq> pid) (procesos M') = procesos M'" using d(2) by (auto simp: filter_id_conv)
    then have "filter (\<lambda>p. ce_pid p \<noteq> pid) (take i (procesos M) @ procesos M ! i # drop (Suc i) (procesos M)) = procesos M'"
      using i(2) by (simp add: ps)
    then have "filter (\<lambda>a. fst a \<noteq> pid) (abs_mem M) = map (\<lambda>p. (ce_pid p, segs_abs M (segmentos p))) (procesos M')"
      unfolding A filter_map comp_def fst_conv by simp
    then show ?thesis by (simp add: abs_mem_def b)
  qed
  ultimately show ?thesis by blast
qed


lemma tramos_disjuntos:
  assumes inv: "mem_inv M" and q: "q \<in> set (posiciones (procesos M))" "e \<in> set (posiciones (procesos M))" "q \<noteq> e"
    and res: "residente (seg_en (procesos M) q)" "residente (seg_en (procesos M) e)"
  shows "rango (base (seg_en (procesos M) q)) (limite (seg_en (procesos M) q)) \<inter>
    rango (base (seg_en (procesos M) e)) (limite (seg_en (procesos M) e)) = {}"
proof -
  let ?f = "\<lambda>e. tramo_seg (seg_en (procesos M) e)"
  have s: "separados (map ?f (entradas (procesos M)))"
    using inv unfolding mem_inv_def particion_def tramos_entradas by blast
  have en: "q \<in> set (entradas (procesos M))" "e \<in> set (entradas (procesos M))"
    using q res by (simp_all add: entradas_def residente_def)
  have sub: "b \<in> set es \<Longrightarrow> rango (base (seg_en (procesos M) b)) (limite (seg_en (procesos M) b)) \<subseteq> ocupadas (map ?f es)" for b es
    by (auto simp: ocupadas_def tramo_seg_def)
  have sep: "separados (map ?f es) \<Longrightarrow> a \<in> set es \<Longrightarrow> b \<in> set es \<Longrightarrow> a \<noteq> b \<Longrightarrow>
      rango (base (seg_en (procesos M) a)) (limite (seg_en (procesos M) a)) \<inter>
      rango (base (seg_en (procesos M) b)) (limite (seg_en (procesos M) b)) = {}" for es a b
  proof (induction es)
    case (Cons c es)
    have "rango (base (seg_en (procesos M) c)) (limite (seg_en (procesos M) c)) \<inter> ocupadas (map ?f es) = {}"
      using Cons.prems(1) by simp
    then show ?case using Cons sub [of a es] sub [of b es] by auto
  qed simp
  show ?thesis by (rule sep [OF s en q(3)])
qed

section \<open>Creation, contexts, sticks and accesses\<close>

lemma crear_sis:
  assumes inv: "inv_sis M" and nuevo: "pid \<notin> ce_pid ` set (procesos M)"
    and path: "cadena_ok path" "length path < 2 ^ 31 - 100"
    and paso: "atender_scheduler fopen M socket (enviar_crear_proceso pid path @ s) = (M', evs, s')"
  shows "inv_sis M' \<and> abs_mem M' = abs_mem M @ [(pid, [])]"
proof -
  let ?p = "\<lparr>ce_pid = pid, ce_registros = registros_cero, segmentos = [],
      instrucciones = cargar_script fopen (Some (resolver_path (config_memory M) path))\<rparr>"
  have M': "M' = M\<lparr>procesos := procesos M @ [?p]\<rparr>" using paso atender_crear [OF path, of fopen M socket pid s] by simp
  have "en_disco M' = en_disco M" by (simp add: fun_eq_iff en_disco_def M')
  then have "inv_sis M'" using inv nuevo by (auto simp: inv_sis_def M' mem_inv_def swap_listo_def proceso_ok_def)
  then show ?thesis by (simp add: M' abs_mem_def) (simp add: segs_abs_def)
qed

lemma contexto_sis:
  assumes inv: "inv_sis M" and p: "procesos_buscar (pid_ctx ctx) (procesos M) = Some i"
    and tabla: "tabla_segmentos ctx = segmentos (procesos M ! i)" "length (tabla_segmentos ctx) < 2 ^ 26"
    and paso: "atender_cpu M socket (enviar_actualizar_contexto ctx @ s) = (M', evs, s')"
  shows "inv_sis M' \<and> abs_mem M' = abs_mem M"
proof -
  have i: "i < length (procesos M)" using procesos_buscar_SomeD [OF p] by simp
  let ?p = "actualizar_proceso_desde_contexto (procesos M ! i) ctx"
  have M': "M' = M\<lparr>procesos := (procesos M)[i := ?p]\<rparr>"
    using paso atender_cpu_actualizar [OF p tabla(2), of socket s] by (simp add: actualizar_proceso_def)
  have mi: "misma M M'"
  proof -
    have "seg_en (procesos M') e = seg_en (procesos M) e" for e
      using tabla(1) i by (cases "fst e = i") (simp_all add: M' seg_en_def actualizar_proceso_desde_contexto_def)
    moreover have "length (segmentos ((procesos M)[i := ?p] ! k)) = length (segmentos (procesos M ! k))" for k
      using tabla(1) i by (cases "k = i") (simp_all add: actualizar_proceso_desde_contexto_def)
    then have "posiciones (procesos M') = posiciones (procesos M)" by (simp add: posiciones_def M')
    moreover have "map ce_pid (procesos M') = map ce_pid (procesos M)"
      by (simp add: M' map_update_same actualizar_proceso_desde_contexto_def)
    ultimately show ?thesis unfolding misma_def by (simp add: M')
  qed
  have "tramos (procesos M') = tramos (procesos M)"
    using tabla(1) tramos_split [OF i] i by (simp add: M' tramos_update actualizar_proceso_desde_contexto_def)
  then have "mem_inv M'" using inv by (simp add: inv_sis_def mem_inv_def M')
  moreover have "proceso_ok M' (segmentos (procesos M' ! k))" if "k < length (procesos M')" for k
  proof -
    have "segmentos (procesos M' ! k) = segmentos (procesos M ! k)"
      using tabla(1) i by (cases "k = i") (simp_all add: M' actualizar_proceso_desde_contexto_def)
    moreover have "en_disco M' = en_disco M" by (simp add: fun_eq_iff en_disco_def M')
    ultimately show ?thesis using inv_sisD(6) [OF inv, of k] that by (simp add: proceso_ok_def M')
  qed
  ultimately have "inv_sis M'" using inv mi by (intro inv_sisI) (auto simp: inv_sis_def swap_listo_def misma_def M')
  then show ?thesis using misma_abs [OF mi] by simp
qed

lemma contenido_append:
  "unat (base g) + unat (limite g) \<le> length m \<Longrightarrow> contenido (m @ m') g = contenido m g"
  by (simp add: contenido_def tramo_de_def)

lemma stick_sis:
  assumes inv: "inv_sis M" and ip: "cadena_ok ip" "cadena_ok puerto" "length ip + length puerto < 2 ^ 31 - 100"
    and hay: "length (sticks (conx M)) < MAX_MEMORY_STICKS" and tam: "ram (conx M) + unat tam < 2 ^ 31 - 100"
    and con: "conectar ip puerto = Some (out, st)" "0 \<le> out" "out \<notin> outbound_socket ` set (sticks (conx M))"
      "stick_ok st" "memoria_size st = tam"
    and paso: "memory_handshake_handler conectar otro M client (enviar_handshake_memory_stick tam ip puerto @ s) = (M', evs, s')"
  shows "inv_sis M' \<and> abs_mem M' = abs_mem M"
proof -
  note I = inv_sisD [OF inv]
  obtain idx b c where ag: "conexiones_agregar_stick client tam ip puerto (conx M) = (idx, Some b, c)"
    using hay by (auto simp: conexiones_agregar_stick_def Let_def)
  let ?c = "conexiones_stick_set_outbound_socket idx out c" and ?r = "(red_sticks M)(out := Some st)"
  have red: "red_ok (conx M) (red_sticks M)" using I(1) by (simp add: mem_inv_def)
  have t: "ram (conx M) + unat tam < 2 ^ 32 - 1" "unat tam < 2 ^ 31 - 100" using tam by simp_all
  note a = agregar_stick_conectado [OF red t ag con(2-5)]
  have M': "M' = M\<lparr>conx := ?c, bloques_libres := bloques_agregar b tam (bloques_libres M), red_sticks := ?r\<rparr>"
    using atender_handshake_stick [where conectar = conectar, OF ip ag con(1), of otro s] paso by simp
  have mi: "mem_inv M'" using mem_inv_crecer [OF I(1) a(1,2,3)] by (simp add: M')
  have mem: "memoria_de M' = memoria_de M @ memoria_buffer st" using a(4) by (simp add: M')
  have "misma M (M'\<lparr>procesos := procesos M\<rparr>)"
  proof (rule misma_refl_ram [OF _ I(1)])
    fix g
    assume "cabe_en (ram (conx M)) (tramo_seg g)"
    then show "contenido (memoria_de M') g = contenido (memoria_de M) g"
      unfolding mem using mem_inv_ram [OF I(1)] by (intro contenido_append) (simp add: cabe_en_def)
  qed (simp_all add: M')
  then have "misma M M'" by (simp add: M')
  moreover have "en_disco M' = en_disco M" by (simp add: fun_eq_iff en_disco_def M')
  moreover have "swap_listo M'" using swap_listo_igual [of M' M] I(2) by (simp add: M')
  ultimately have "misma M M'" "inv_sis M'" using inv mi a(2,7) tam by (simp_all add: inv_sis_def proceso_ok_def) (simp add: M')
  then show ?thesis using misma_abs by blast
qed

text \<open>
  A write inside a resident segment, whoever does it: only the bytes of that segment change.
\<close>

lemma escritura_sis:
  assumes inv: "inv_sis M" and p: "procesos_buscar pid (procesos M) = Some i"
    and j: "buscar_idx (\<lambda>g. id_seg g = ident) (segmentos (procesos M ! i)) = Some j"
    and g: "g = seg_en (procesos M) (i, j)" "residente g" and off: "off + length x \<le> unat (limite g)"
    and red: "red_ok (conx M) r'" "memoria_fisica (conx M) r' = copiar_en (memoria_de M) (unat (base g) + off) x"
  shows "inv_sis (M\<lparr>red_sticks := r'\<rparr>)"
    and "abs_mem (M\<lparr>red_sticks := r'\<rparr>) = en_proceso pid (escribir_seg ident off x) (abs_mem M)"
proof -
  let ?M = "M\<lparr>red_sticks := r'\<rparr>" and ?gs = "segmentos (procesos M ! i)"
  note I = inv_sisD [OF inv]
  have i: "i < length (procesos M)" "ce_pid (procesos M ! i) = pid" using procesos_buscar_SomeD [OF p] by simp_all
  have jj: "j < length ?gs" "id_seg g = ident" using buscar_idx_SomeD [OF j] g(1) by (simp_all add: seg_en_def)
  have e: "(i, j) \<in> set (posiciones (procesos M))" using i jj by (simp add: set_posiciones)
  have cabe: "unat (base g) + unat (limite g) \<le> ram (conx M)" using residente_cabe [OF I(1) e] g by simp
  have len: "length (memoria_de M) = ram (conx M)" using mem_inv_ram [OF I(1)] by simp
  have "mem_inv ?M" using I(1) red(1) by (simp add: mem_inv_def)
  moreover have "en_disco ?M = en_disco M" by (simp add: fun_eq_iff en_disco_def)
  moreover have "swap_listo ?M" using swap_listo_igual [of ?M M] I(2) by simp
  ultimately show "inv_sis ?M" using inv by (simp add: inv_sis_def proceso_ok_def)
  have propio: "bytes_seg ?M g = copiar_en (bytes_seg M g) off x"
    using g(2) off cabe len red(2)
    by (auto intro!: nth_equalityI simp: bytes_seg_def contenido_def nth_tramo_de nth_copiar_en)
  have lg: "length (bytes_seg M g) = unat (limite g)" using g(2) cabe len by (simp add: bytes_seg_def contenido_def)
  have otro: "bytes_seg ?M (seg_en (procesos M) q) = bytes_seg M (seg_en (procesos M) q)"
    if q: "q \<in> set (posiciones (procesos M))" "q \<noteq> (i, j)" for q
  proof (cases "residente (seg_en (procesos M) q)")
    case True
    let ?h = "seg_en (procesos M) q"
    have c: "cabe_en (length (memoria_de M)) (tramo_seg ?h)" using residente_cabe [OF I(1) q(1) True] len by (simp add: cabe_en_def)
    have "rango (base ?h) (limite ?h) \<inter> rango (base g) (limite g) = {}"
      using tramos_disjuntos [OF I(1) q(1) e q(2) True] g by simp
    then have "rango (base ?h) (limite ?h) \<inter> {unat (base g) + off ..< unat (base g) + off + length x} = {}"
      using off by (auto simp: rango_def)
    moreover have "unat (base g + of_nat off) = unat (base g) + off"
    proof -
      have "off < 2 ^ 32" using off unat_u32_less [of "limite g"] by simp
      then have "unat (of_nat off :: u32) = off" by (simp add: unat_of_nat)
      moreover have "unat (base g) + off < 2 ^ 32" using off cabe I(3) by simp
      ultimately show ?thesis by (simp add: unat_add_u32)
    qed
    ultimately have "contenido (copiar_en (memoria_de M) (unat (base g) + off) x) ?h = contenido (memoria_de M) ?h"
      using contenido_otro [OF _ c, of "base g + of_nat off" x] off cabe len by simp
    then show ?thesis using True red(2) by (simp add: bytes_seg_def)
  qed (simp add: bytes_seg_def)
  have "segs_abs ?M ?gs = escribir_seg ident off x (snd (abs_mem M ! i))"
  proof (rule nth_equalityI)
    have s: "escribir_seg ident off x (snd (abs_mem M ! i)) = (segs_abs M ?gs)[j := (ident, copiar_en (bytes_seg M g) off x)]"
      using j jj i off lg g(1) by (simp add: escribir_seg_def abs_nth buscar_idx_map_fst) (simp add: segs_abs_def seg_en_def)
    then show "length (segs_abs ?M ?gs) = length (escribir_seg ident off x (snd (abs_mem M ! i)))" by (simp add: segs_abs_def)
    fix k
    assume "k < length (segs_abs ?M ?gs)"
    then have k: "k < length ?gs" by (simp add: segs_abs_def)
    then show "segs_abs ?M ?gs ! k = escribir_seg ident off x (snd (abs_mem M ! i)) ! k"
      unfolding s using otro [of "(i, k)"] propio jj g(1) i by (cases "k = j") (simp_all add: segs_abs_def set_posiciones seg_en_def)
  qed
  moreover have "abs_mem ?M = (abs_mem M)[i := (pid, segs_abs ?M ?gs)]"
  proof (rule nth_equalityI)
    fix k
    assume "k < length (abs_mem ?M)"
    then have k: "k < length (procesos M)" by (simp add: abs_mem_def)
    have "segs_abs ?M (segmentos (procesos M ! k)) = segs_abs M (segmentos (procesos M ! k))" if "k \<noteq> i"
      using otro [of "(k, l)" for l] k that by (auto simp: segs_abs_def set_posiciones seg_en_def in_set_conv_nth)
    then show "abs_mem ?M ! k = (abs_mem M)[i := (pid, segs_abs ?M ?gs)] ! k"
      using k i by (cases "k = i") (simp_all add: abs_mem_def)
  qed (simp add: abs_mem_def)
  ultimately show "abs_mem ?M = en_proceso pid (escribir_seg ident off x) (abs_mem M)"
    using en_proceso_nth [OF distinct_abs [OF inv], of i pid] abs_pid [OF p] by simp
qed


lemma en_proceso_igual:
  assumes "inv_sis M" "procesos_buscar pid (procesos M) = Some i" "f (snd (abs_mem M ! i)) = snd (abs_mem M ! i)"
  shows "en_proceso pid f (abs_mem M) = abs_mem M"
proof -
  have "(pid, snd (abs_mem M ! i)) = abs_mem M ! i" using abs_pid [OF assms(2)] by (simp add: prod_eq_iff)
  then show ?thesis
    using en_proceso_nth [OF distinct_abs [OF assms(1)], of i pid f] abs_pid [OF assms(2)] assms(3) by simp
qed

lemma en_proceso_nadie:
  "procesos_buscar pid (procesos M) = None \<Longrightarrow> en_proceso pid f (abs_mem M) = abs_mem M"
  by (rule en_proceso_ajeno) (auto simp: procesos_buscar_def abs_mem_def)

text \<open>The bytes of a resident segment are as many as its limit; a write outside is no write.\<close>

lemma escribir_seg_fuera:
  assumes inv: "inv_sis M" and p: "procesos_buscar pid (procesos M) = Some i"
    and res: "list_all residente (segmentos (procesos M ! i))"
    and fuera: "\<And>g. find (\<lambda>g. id_seg g = ident) (segmentos (procesos M ! i)) = Some g \<Longrightarrow> unat (limite g) < off + length x"
  shows "en_proceso pid (escribir_seg ident off x) (abs_mem M) = abs_mem M"
proof (rule en_proceso_igual [OF inv p])
  let ?gs = "segmentos (procesos M ! i)"
  have i: "i < length (procesos M)" using procesos_buscar_SomeD [OF p] by simp
  show "escribir_seg ident off x (snd (abs_mem M ! i)) = snd (abs_mem M ! i)"
  proof (cases "buscar_idx (\<lambda>g. id_seg g = ident) ?gs")
    case (Some j)
    then have j: "j < length ?gs" using buscar_idx_SomeD by blast
    have e: "(i, j) \<in> set (posiciones (procesos M))" "residente (seg_en (procesos M) (i, j))"
      using i j res by (auto simp: set_posiciones seg_en_def list_all_length)
    have "unat (limite (?gs ! j)) < off + length x" using fuera [of "?gs ! j"] Some by (simp add: buscar_idx_find)
    moreover have "length (bytes_seg M (?gs ! j)) = unat (limite (?gs ! j))"
      using residente_cabe [OF inv_sisD(1) [OF inv] e] e(2) mem_inv_ram [OF inv_sisD(1) [OF inv]]
      by (simp add: bytes_seg_def contenido_def seg_en_def)
    ultimately show ?thesis
      using Some i j by (simp add: escribir_seg_def abs_nth buscar_idx_map_fst) (simp add: segs_abs_def)
  qed (simp add: escribir_seg_def abs_nth [OF i] buscar_idx_map_fst del: buscar_idx_None)
qed

lemma recv_bind_assoc: "recv_bind (recv_bind m f) g = recv_bind m (\<lambda>a. recv_bind (f a) g)"
  by (rule ext) (simp add: recv_bind_def split: sum.splits prod.splits)

interpretation m_escritura: mensaje ESCRITURA_MEMORIA
    "\<lambda>(pid, dir, tam, datos). bytes_int pid @ bytes_u32 dir @ bytes_u32 tam @ datos"
    "\<lambda>(pid, dir, tam, datos). enviar_escritura_memoria pid dir datos"
    "recv_bind recibir_pid_dir_tam (\<lambda>(pid, dir, tam). recv_bind (recv_bytes (unat tam)) (\<lambda>datos. recv_ret (pid, dir, tam, datos)))"
    "\<lambda>(pid, dir, tam, datos). tam = of_nat (length datos) \<and> length datos < 2 ^ 31 - 100"
proof (rule mensajeI [where r = "recv_bind recv_int (\<lambda>pid. recv_bind recv_u32 (\<lambda>dir. recv_bind recv_u32 (\<lambda>tam.
    recv_bind (recv_bytes (unat tam)) (\<lambda>datos. recv_ret (pid, dir, tam, datos)))))"], goal_cases)
  case (4 a s)
  obtain pid dir tam datos where a: "a = (pid, dir, tam, datos)" by (cases a)
  have "unat tam = length datos" using 4 by (simp add: a unat_of_nat)
  then show ?case by (simp add: a wire_simps)
qed (auto simp: enviar_escritura_memoria_def enviar_int_u32_u32_def recibir_pid_dir_tam_def recv_bind_assoc wire_simps corto_def
      fun_eq_iff recv_bind_def split: sum.splits prod.splits)


lemma atender_escritura_memoria:
  assumes "length datos < 2 ^ 31 - 100"
  shows "atender_scheduler fopen M socket (enviar_escritura_memoria pid dir datos @ s) =
    (case procesos_buscar pid (procesos M) of
       None \<Rightarrow> (M, [Enviar socket (enviar_ok SEGMENTATION_FAULT)], s)
     | Some i \<Rightarrow>
         let (f, ev) = traducir_dir_logica (segment_max_size (config_memory M)) (procesos M ! i) dir (of_nat (length datos)) socket
         in if f = - 1 then (M, ev, s)
            else let (r', ev', res) = memory_io_escribir (conx M) (red_sticks M) pid f (of_nat (length datos)) datos
                 in (M\<lparr>red_sticks := r'\<rparr>, ev @ ev' @ [Enviar socket (enviar_ok ESCRITURA_MEMORIA)], s))"
  by (rule atender_mensaje [OF m_escritura.ida_y_vuelta [of "(pid, dir, of_nat (length datos), datos)", simplified]])
    (use assms in \<open>simp_all add: despachar_scheduler_def manejar_escritura_memoria_def con_recv_Inr\<close>)

text \<open>The scheduler writes the input of a device to the memory of a process.\<close>

lemma escribir_sis:
  assumes inv: "inv_sis M" and len: "length datos < 2 ^ 31 - 100" "unat (dir mod segment_max_size (config_memory M)) + length datos < 2 ^ 32"
    and res: "\<And>i. procesos_buscar pid (procesos M) = Some i \<Longrightarrow> list_all residente (segmentos (procesos M ! i))"
    and paso: "atender_scheduler fopen M socket (enviar_escritura_memoria pid dir datos @ s) = (M', evs, s')"
  defines "smax \<equiv> segment_max_size (config_memory M)"
  shows "inv_sis M' \<and> abs_mem M' = en_proceso pid (escribir_seg (dir div smax) (unat (dir mod smax)) datos) (abs_mem M)"
proof (cases "procesos_buscar pid (procesos M)")
  case None
  then have "M' = M" using paso by (simp add: atender_escritura_memoria [OF len(1)])
  then show ?thesis using inv en_proceso_nadie [OF None] by simp
next
  case (Some i)
  note p = Some and I = inv_sisD [OF inv]
  let ?gs = "segmentos (procesos M ! i)" and ?tam = "of_nat (length datos) :: u32"
  have i: "i < length (procesos M)" using procesos_buscar_SomeD [OF p] by simp
  have tam: "unat ?tam = length datos" using len(1) by (simp add: unat_of_nat)
  note paso' = paso [unfolded atender_escritura_memoria [OF len(1)] p option.case]
  have suma: "unat (dir mod smax + ?tam) = unat (dir mod smax) + length datos"
    using len(2) tam by (subst unat_add_u32) (simp_all add: smax_def)
  show ?thesis
  proof (cases "\<exists>g. find (\<lambda>g. id_seg g = dir div smax) ?gs = Some g \<and> unat (dir mod smax) + length datos \<le> unat (limite g)")
    case False
    have "traducir_dir_logica smax (procesos M ! i) dir ?tam socket = (- 1, segfault_a socket)"
      using False suma by (auto simp: traducir_dir_logica_def Let_def word_less_nat_alt not_le split: option.splits)
    then have "M' = M" using paso' by (simp add: smax_def)
    moreover have "en_proceso pid (escribir_seg (dir div smax) (unat (dir mod smax)) datos) (abs_mem M) = abs_mem M"
      using False by (intro escribir_seg_fuera [OF inv p res [OF p]]) (auto simp: not_le)
    ultimately show ?thesis using inv by simp
  next
    case True
    then obtain g where g: "find (\<lambda>g. id_seg g = dir div smax) ?gs = Some g" "unat (dir mod smax) + length datos \<le> unat (limite g)"
      by blast
    then obtain j where j: "buscar_idx (\<lambda>g. id_seg g = dir div smax) ?gs = Some j" "g = seg_en (procesos M) (i, j)"
      by (auto simp: buscar_idx_find seg_en_def)
    have jl: "j < length ?gs" using buscar_idx_SomeD [OF j(1)] by blast
    have r: "residente g" using res [OF p] jl by (simp add: j(2) seg_en_def list_all_length)
    have cabe: "unat (base g) + unat (limite g) \<le> ram (conx M)"
      using residente_cabe [OF I(1), of "(i, j)"] r j(2) jl i by (simp add: set_posiciones)
    have f: "unat (base g + dir mod smax) = unat (base g) + unat (dir mod smax)"
      using cabe g(2) I(3) by (intro unat_add_u32) simp
    have nc: "base g + dir mod smax \<noteq> - 1"
    proof
      assume "base g + dir mod smax = - 1"
      then have "unat (base g) + unat (dir mod smax) = 4294967295" using f by simp
      then show False using cabe g(2) I(3) by simp
    qed
    have red: "red_ok (conx M) (red_sticks M)" using I(1) by (simp add: mem_inv_def)
    have "unat (base g + dir mod smax) + unat ?tam \<le> ram (conx M)" "unat ?tam \<le> length datos" "length datos < 2 ^ 32"
      using f cabe g(2) tam len(1) by simp_all
    from memory_io_escribir_ok [OF red this, of pid] obtain r' where r':
      "memory_io_escribir (conx M) (red_sticks M) pid (base g + dir mod smax) ?tam datos = (r', [], 0)" "red_ok (conx M) r'"
      "memoria_fisica (conx M) r' = copiar_en (memoria_de M) (unat (base g) + unat (dir mod smax)) datos"
      using f tam by (metis order_refl take_all)
    have "traducir_dir_logica smax (procesos M ! i) dir ?tam socket = (base g + dir mod smax, [])"
      using g suma r by (simp add: traducir_dir_logica_def Let_def word_less_nat_alt residente_def)
    then have "M' = M\<lparr>red_sticks := r'\<rparr>" using paso' nc r'(1) by (simp add: smax_def)
    then show ?thesis using escritura_sis [OF inv p j r g(2) r'(2,3)] by simp
  qed
qed

text \<open>
  A CPU writes with its MMU, on the table it got from Kernel Memory and over its own sockets to the
  same sticks: what it sees as RAM is the RAM.
\<close>

lemma cpu_sis:
  assumes inv: "inv_sis M" and p: "procesos_buscar (pid_ctx ctx) (procesos M) = Some i"
    and tabla: "tabla_segmentos ctx = segmentos (procesos M ! i)" "list_all residente (segmentos (procesos M ! i))"
    and ms: "red_ok (como_conexiones ms) r" "memoria_fisica (como_conexiones ms) r = memoria_de M"
    and len: "length x = unat tam" "unat (dir mod smax) + unat tam < 2 ^ 32"
    and paso: "mmu_escribir smax ms r ctx dir x tam = (r1, evs, res)"
    and red: "red_ok (conx M) r'" "memoria_fisica (conx M) r' = memoria_fisica (como_conexiones ms) r1"
  shows "inv_sis (M\<lparr>red_sticks := r'\<rparr>) \<and> abs_mem (M\<lparr>red_sticks := r'\<rparr>) =
    en_proceso (pid_ctx ctx) (escribir_seg (dir div smax) (unat (dir mod smax)) x) (abs_mem M)"
proof -
  note I = inv_sisD [OF inv]
  let ?gs = "segmentos (procesos M ! i)"
  have i: "i < length (procesos M)" using procesos_buscar_SomeD [OF p] by simp
  have ramc: "ram (como_conexiones ms) = ram (conx M)"
    using length_memoria_fisica [OF ms(1)] mem_inv_ram [OF I(1)] ms(2) by simp
  have suma: "unat (dir mod smax + tam) = unat (dir mod smax) + unat tam" using len(2) by (rule unat_add_u32)
  show ?thesis
  proof (cases "\<exists>g. find (\<lambda>g. id_seg g = dir div smax) ?gs = Some g \<and> unat (dir mod smax) + length x \<le> unat (limite g)")
    case False
    have "mmu_traducir_dir_logica smax ms ctx dir tam = None"
      using False suma len(1)
      by (auto simp: mmu_traducir_dir_logica_def mmu_descomponer_dir_logica_def mmu_traducir_def buscar_segmento_def tabla(1)
          word_less_nat_alt not_le Let_def split: option.splits)
    then have "r1 = r" using paso by (simp add: mmu_escribir_def)
    then have mem: "memoria_de (M\<lparr>red_sticks := r'\<rparr>) = memoria_de M" using red(2) ms(2) by simp
    have "mem_inv (M\<lparr>red_sticks := r'\<rparr>)" using I(1) red(1) by (simp add: mem_inv_def)
    moreover have "en_disco (M\<lparr>red_sticks := r'\<rparr>) = en_disco M" by (simp add: fun_eq_iff en_disco_def)
    moreover have "swap_listo (M\<lparr>red_sticks := r'\<rparr>)" using swap_listo_igual [of "M\<lparr>red_sticks := r'\<rparr>" M] I(2) by simp
    ultimately have "inv_sis (M\<lparr>red_sticks := r'\<rparr>)" using inv by (simp add: inv_sis_def proceso_ok_def)
    moreover have "abs_mem (M\<lparr>red_sticks := r'\<rparr>) = abs_mem M"
      using bytes_seg_igual(2) [OF mem] by (simp add: abs_mem_def)
    moreover have "en_proceso (pid_ctx ctx) (escribir_seg (dir div smax) (unat (dir mod smax)) x) (abs_mem M) = abs_mem M"
      using False by (intro escribir_seg_fuera [OF inv p tabla(2)]) (auto simp: not_le)
    ultimately show ?thesis by simp
  next
    case True
    then obtain g where g: "find (\<lambda>g. id_seg g = dir div smax) ?gs = Some g" "unat (dir mod smax) + length x \<le> unat (limite g)"
      by blast
    then obtain j where j: "buscar_idx (\<lambda>g. id_seg g = dir div smax) ?gs = Some j" "g = seg_en (procesos M) (i, j)"
      by (auto simp: buscar_idx_find seg_en_def)
    have jl: "j < length ?gs" using buscar_idx_SomeD [OF j(1)] by blast
    have res: "residente g" using tabla(2) jl by (simp add: j(2) seg_en_def list_all_length)
    have cabe: "unat (base g) + unat (limite g) \<le> ram (como_conexiones ms)"
      using residente_cabe [OF I(1), of "(i, j)"] res j(2) jl i ramc by (simp add: set_posiciones)
    have seg: "buscar_segmento ctx (dir div smax) = Some g" using g(1) by (simp add: buscar_segmento_def tabla(1))
    have lim: "unat (dir mod smax) + unat tam \<le> unat (limite g)" using g(2) len(1) by simp
    from mmu_escribir_leer [OF ms(1) seg lim cabe len(1)] paso
    have "memoria_fisica (como_conexiones ms) r1 = copiar_en (memoria_de M) (unat (base g) + unat (dir mod smax)) x"
      using ms(2) by auto
    then show ?thesis using escritura_sis [OF inv p j res g(2) red(1)] red(2) by simp
  qed
qed

end
