(* ===== verification/Memory_Sistema.thy ===== *)
theory Memory_Sistema
  imports Memory_Abstracta
begin

text \<open>
  Kernel Memory as a transition system: a step for each request that the scheduler and the CPUs
  make, and for each new stick. The clients keep to the rules that are listed before
  \<open>paso_memoria\<close> and that the handlers do not check. Then every reachable state is consistent, and
  every step does to the abstract memory exactly what its name says; suspension, resumption,
  compaction and new sticks are invisible to the processes. Two theorems show that without the
  rules it is not so: \<open>contexto_viejo_corrompe\<close> and, in \<open>Segmentos\<close>, \<open>eliminar_suspendido_corrompe\<close>.
\<close>

section \<open>Abstract steps\<close>

datatype accion =
    Crear i32 | Segmento i32 u32 u32 | Eliminar i32 u32 | Finalizar i32
  | Escribir i32 u32 nat "byte list" | Invisible

text \<open>
  A segment may be refused (\<open>solicitar_segmento_correcto\<close> says when) and its first bytes are
  whatever the RAM held.
\<close>

fun efecto :: "accion \<Rightarrow> t_abstracta \<Rightarrow> t_abstracta \<Rightarrow> bool" where
  "efecto (Crear pid) A A' \<longleftrightarrow> pid \<notin> fst ` set A \<and> A' = A @ [(pid, [])]"
| "efecto (Segmento pid ident t) A A' \<longleftrightarrow>
     A' = A \<or> (\<exists>x. length x = unat t \<and> A' = en_proceso pid (\<lambda>ss. ss @ [(ident, x)]) A)"
| "efecto (Eliminar pid ident) A A' \<longleftrightarrow> A' = en_proceso pid (quitar_seg ident) A"
| "efecto (Finalizar pid) A A' \<longleftrightarrow> A' = filter (\<lambda>a. fst a \<noteq> pid) A"
| "efecto (Escribir pid ident off x) A A' \<longleftrightarrow> A' = en_proceso pid (escribir_seg ident off x) A"
| "efecto Invisible A A' \<longleftrightarrow> A' = A"

section \<open>Steps of Kernel Memory\<close>

text \<open>
  The state after the swap module has connected, before the first stick, and the steps of clients
  that keep to these rules, none of which a handler checks:

  A CPU saves a context, and translates an access, with a segment table equal to the one that
  Kernel Memory has at that moment. \<open>manejar_actualizar_contexto_cpu\<close> overwrites the table with
  whatever the CPU sends, its bases included, so that a CPU that loaded its context before a
  compaction and saves it afterwards brings back the old bases: the corruption is
  \<open>contexto_viejo_corrompe\<close>.

  A process that asks for or removes a segment or writes through the scheduler is in RAM.
  Removing a segment that is in swap corrupts the free list, \<open>eliminar_suspendido_corrompe\<close>.

  The scheduler suspends processes in RAM and resumes processes in the swap, and suspends only
  while the swap has room (a swap that fills up leaves a process half copied, see
  \<open>manejar_suspender_proceso\<close>). A new pid is not in use. Accesses do not wrap 32 bits
  (\<open>traducir_desborda\<close> shows what happens when they do), and a new stick has the size that it
  announces and can be reached.

  The scheduler's acknowledgement of a compaction is on its socket; it is read only when there is
  one. A CPU writes over sockets \<open>r\<close> of its own to the same sticks.
\<close>

definition ini_memoria :: "t_memoria \<Rightarrow> bool" where
  "ini_memoria M \<longleftrightarrow> procesos M = procesos_init \<and> bloques_libres M = bloques_init \<and>
     sticks (conx M) = [] \<and> swap_listo M \<and> 0 \<le> swap_socket (conx M)"

abbreviation en_ram :: "t_memoria \<Rightarrow> i32 \<Rightarrow> bool" where
  "en_ram M pid \<equiv> (\<forall>i. procesos_buscar pid (procesos M) = Some i \<longrightarrow> list_all residente (segmentos (procesos M ! i)))"

inductive paso_memoria :: "t_memoria \<Rightarrow> accion \<Rightarrow> t_memoria \<Rightarrow> bool" where
  crear: "pid \<notin> ce_pid ` set (procesos M) \<Longrightarrow> cadena_ok path \<Longrightarrow> length path < 2 ^ 31 - 100 \<Longrightarrow>
    atender_scheduler fopen M socket (enviar_crear_proceso pid path @ s) = (M', evs, s') \<Longrightarrow>
    paso_memoria M (Crear pid) M'"
| solicitar: "0 < t \<Longrightarrow> en_ram M pid \<Longrightarrow>
    atender_scheduler fopen M socket (enviar_solicitar_segmento pid ident t @ enviar_ok INICIAR_COMPACTACION @ s) = (M', evs, s') \<Longrightarrow>
    paso_memoria M (Segmento pid ident t) M'"
| eliminar: "en_ram M pid \<Longrightarrow>
    atender_scheduler fopen M socket (enviar_eliminar_segmento pid ident @ s) = (M', evs, s') \<Longrightarrow>
    paso_memoria M (Eliminar pid ident) M'"
| finalizar: "atender_scheduler fopen M socket (enviar_finalizar_proceso_memory pid @ s) = (M', evs, s') \<Longrightarrow>
    paso_memoria M (Finalizar pid) M'"
| suspender: "procesos_buscar pid (procesos M) = Some i \<Longrightarrow> list_all residente (segmentos (procesos M ! i)) \<Longrightarrow>
    unat (next_block (reserva M)) + (\<Sum>j\<leftarrow>[0..<length (segmentos (procesos M ! i))]. bloques_seg M (i, j))
      \<le> unat (total_blocks (reserva M)) \<Longrightarrow>
    atender_scheduler fopen M socket (enviar_suspender_proceso pid @ s) = (M', evs, s') \<Longrightarrow>
    paso_memoria M Invisible M'"
| des_suspender: "procesos_buscar pid (procesos M) = Some i \<Longrightarrow>
    \<not> list_ex residente (segmentos (procesos M ! i)) \<Longrightarrow>
    atender_scheduler fopen M socket (enviar_des_suspender_proceso pid @ s) = (M', evs, s') \<Longrightarrow>
    paso_memoria M Invisible M'"
| escribir: "en_ram M pid \<Longrightarrow> length x < 2 ^ 31 - 100 \<Longrightarrow> smax = segment_max_size (config_memory M) \<Longrightarrow>
    smax \<noteq> 0 \<Longrightarrow> unat (dir mod smax) + length x < 2 ^ 32 \<Longrightarrow>
    atender_scheduler fopen M socket (enviar_escritura_memoria pid dir x @ s) = (M', evs, s') \<Longrightarrow>
    paso_memoria M (Escribir pid (dir div smax) (unat (dir mod smax)) x) M'"
| stick: "cadena_ok ip \<Longrightarrow> cadena_ok puerto \<Longrightarrow> length ip + length puerto < 2 ^ 31 - 100 \<Longrightarrow>
    length (sticks (conx M)) < MAX_MEMORY_STICKS \<Longrightarrow> ram (conx M) + unat tam < 2 ^ 31 - 100 \<Longrightarrow>
    conectar ip puerto = Some (out, st) \<Longrightarrow> 0 \<le> out \<Longrightarrow> out \<notin> outbound_socket ` set (sticks (conx M)) \<Longrightarrow>
    stick_ok st \<Longrightarrow> memoria_size st = tam \<Longrightarrow>
    memory_handshake_handler conectar otro M client (enviar_handshake_memory_stick tam ip puerto @ s) = (M', evs, s') \<Longrightarrow>
    paso_memoria M Invisible M'"
| contexto: "procesos_buscar (pid_ctx ctx) (procesos M) = Some i \<Longrightarrow>
    tabla_segmentos ctx = segmentos (procesos M ! i) \<Longrightarrow> length (tabla_segmentos ctx) < 2 ^ 26 \<Longrightarrow>
    atender_cpu M socket (enviar_actualizar_contexto ctx @ s) = (M', evs, s') \<Longrightarrow>
    paso_memoria M Invisible M'"
| cpu: "procesos_buscar (pid_ctx ctx) (procesos M) = Some i \<Longrightarrow>
    tabla_segmentos ctx = segmentos (procesos M ! i) \<Longrightarrow> list_all residente (segmentos (procesos M ! i)) \<Longrightarrow>
    red_ok (como_conexiones ms) r \<Longrightarrow> memoria_fisica (como_conexiones ms) r = memoria_de M \<Longrightarrow>
    length x = unat tam \<Longrightarrow> smax \<noteq> 0 \<Longrightarrow> unat (dir mod smax) + unat tam < 2 ^ 32 \<Longrightarrow>
    mmu_escribir smax ms r ctx dir x tam = (r1, evs, res) \<Longrightarrow>
    red_ok (conx M) r' \<Longrightarrow> memoria_fisica (conx M) r' = memoria_fisica (como_conexiones ms) r1 \<Longrightarrow>
    paso_memoria M (Escribir (pid_ctx ctx) (dir div smax) (unat (dir mod smax)) x) (M\<lparr>red_sticks := r'\<rparr>)"

section \<open>A context that is not up to date\<close>

text \<open>
  Process 1 is on a CPU, which has its context. Process 2 gets a segment, and Kernel Memory
  compacts to make room. When the CPU then saves the context of process 1, with the table that it
  was given, the segments of the two processes overlap.
\<close>

definition memoria_doble :: t_memoria where
  "memoria_doble = memoria_chica
     \<lparr>procesos := [proceso_ejemplo, \<lparr>ce_pid = 2, ce_registros = registros_cero, segmentos = [], instrucciones = []\<rparr>]\<rparr>"

lemma inv_sis_doble: "inv_sis memoria_doble"
proof (rule inv_sisI)
  show "mem_inv memoria_doble" using mem_inv_chica by (simp add: mem_inv_def memoria_doble_def memoria_chica_def)
  show "swap_listo memoria_doble" using swap_listo_igual [of memoria_doble memoria_chica] chica_lista(1) by (simp add: memoria_doble_def)
qed (use chica_lista in \<open>auto simp: memoria_doble_def memoria_chica_def proceso_ejemplo_def proceso_ok_def less_Suc_eq\<close>)

lemma sin_hueco:
  assumes "mem_inv M" "ram (conx M) = 5" "b \<noteq> - 1"
    and "map segmentos (procesos M) = [segmentos proceso_ejemplo, [\<lparr>id_seg = 0, base = b, limite = 2, swap_bloque_inicio = 0\<rparr>]]"
  shows False
proof -
  obtain p q where ps: "procesos M = [p, q]" "segmentos p = segmentos proceso_ejemplo"
      "segmentos q = [\<lparr>id_seg = 0, base = b, limite = 2, swap_bloque_inicio = 0\<rparr>]"
    using assms(4) by (auto simp: map_eq_Cons_conv)
  have t: "tramos (procesos M) = [(1, 2), (4, 1), (b, 2)]"
    using assms(3) by (simp add: ps) (simp add: proceso_ejemplo_def residente_def tramo_seg_def)
  have d: "unat b + 2 \<le> 5" "separados [(1, 2), (4, 1), (b, 2)]" using assms(1,2) by (auto simp: mem_inv_def particion_def cabe_en_def t)
  have "unat b \<in> rango b 2" "Suc (unat b) \<in> rango b 2" by (simp_all add: rango_def)
  then have "unat b \<notin> rango 1 2" "Suc (unat b) \<notin> rango 1 2" "Suc (unat b) \<notin> rango 4 1" using d(2) by auto
  then show False using d(1) by (simp add: rango_def)
qed

theorem contexto_viejo_corrompe:
  "inv_sis memoria_doble \<and>
   (\<exists>M' evs ctx. ctx = \<lparr>pid_ctx = 1, registros_ctx = registros_cero, tabla_segmentos = segmentos (procesos memoria_doble ! 0)\<rparr> \<and>
      atender_scheduler (\<lambda>_. None) memoria_doble 3 (enviar_solicitar_segmento 2 0 2 @ enviar_ok INICIAR_COMPACTACION @ []) = (M', evs, []) \<and>
      mem_inv M' \<and> \<not> mem_inv (fst (atender_cpu M' 4 (enviar_actualizar_contexto ctx @ []))))"
proof -
  let ?M = memoria_doble
  let ?ctx = "\<lparr>pid_ctx = 1, registros_ctx = registros_cero, tabla_segmentos = segmentos (procesos memoria_doble ! 0)\<rparr>"
  let ?flujo = "enviar_solicitar_segmento 2 0 2 @ enviar_ok INICIAR_COMPACTACION @ []"
  note inv = inv_sisD(1) [OF inv_sis_doble]
  obtain M' evs s' where r: "atender_scheduler (\<lambda>_. None) ?M 3 ?flujo = (M', evs, s')" by (metis prod_cases3)
  have p: "procesos_buscar 2 (procesos ?M) = Some 1" "procesos_buscar 1 (procesos ?M) = Some 0"
    by (simp_all add: memoria_doble_def proceso_ejemplo_def procesos_buscar_def)
  have t: "0 < (2 :: u32)" "2 \<le> segment_max_size (config_memory ?M)" by (simp_all add: memoria_doble_def memoria_chica_def)
  have e: "2 \<le> bloques_calcular_espacio_libre (bloques_libres ?M)" "\<not> (\<exists>e \<in> set (bloques_libres ?M). 2 \<le> b_tamanio e)"
    "posiciones (procesos ?M) \<noteq> []"
    by (simp_all add: memoria_doble_def memoria_chica_def bloques_calcular_espacio_libre_def not_le posiciones_def proceso_ejemplo_def upt_rec)
  obtain M1 b where c: "mem_inv M'" "reubicada ?M M1" "b \<noteq> - 1" "s' = []"
    "procesos M' = (procesos M1)[1 := (procesos M1 ! 1)\<lparr>segmentos := segmentos (procesos M1 ! 1) @
        [\<lparr>id_seg = 0, base = b, limite = 2, swap_bloque_inicio = 0\<rparr>]\<rparr>]"
    using solicitar_casos(2) [OF inv p(1) t r e(1)] e(2,3) by auto
  have s: "sin_bases (procesos M1) = sin_bases (procesos ?M)" using c(2) by (simp add: reubicada_def)
  have n: "length (procesos M1) = 2" using sin_bases_buscar(2) [OF s] by (simp add: memoria_doble_def)
  then obtain q0 q1 where q: "procesos M1 = [q0, q1]" by (auto simp: length_Suc_conv numeral_2_eq_2)
  have "segmentos q1 = []" "ce_pid q0 = 1" using s by (cases q0; cases q1; simp add: q sin_bases_def memoria_doble_def proceso_ejemplo_def)+
  then have M': "map segmentos (procesos M') = [segmentos q0, [\<lparr>id_seg = 0, base = b, limite = 2, swap_bloque_inicio = 0\<rparr>]]"
    "procesos_buscar 1 (procesos M') = Some 0" by (simp_all add: c(5) q procesos_buscar_def)
  have l: "length (tabla_segmentos ?ctx) < 2 ^ 26" by (simp add: memoria_doble_def proceso_ejemplo_def)
  let ?N = "fst (atender_cpu M' 4 (enviar_actualizar_contexto ?ctx @ []))"
  have N: "?N = actualizar_proceso 0 (\<lambda>p. actualizar_proceso_desde_contexto p ?ctx) M'"
    using atender_cpu_actualizar [of ?ctx M' 0 4 "[]"] M'(2) l by simp
  have "segmentos (procesos ?M ! 0) = segmentos proceso_ejemplo" by (simp add: memoria_doble_def)
  then have "map segmentos (procesos ?N) = [segmentos proceso_ejemplo, [\<lparr>id_seg = 0, base = b, limite = 2, swap_bloque_inicio = 0\<rparr>]]"
    unfolding N using M'(1) by (auto simp: actualizar_proceso_desde_contexto_def map_update map_eq_Cons_conv)
  moreover have "ram (conx ?N) = 5"
  proof -
    have "conx ?N = conx M'" unfolding N by (rule procesos_actualizar(2))
    also have "conx M' = conx ?M" using solicitar_marco [OF r] by blast
    also have "conx ?M = conexiones_ejemplo" by (simp add: memoria_doble_def memoria_chica_def)
    finally have "conx ?N = conexiones_ejemplo" .
    then show ?thesis using ram_ejemplo by metis
  qed
  ultimately have no: "\<not> mem_inv ?N" by (intro notI, elim sin_hueco [OF _ _ c(3)])
  have r': "atender_scheduler (\<lambda>_. None) ?M 3 ?flujo = (M', evs, [])" using r unfolding c(4) .
  show ?thesis
    by (rule conjI [OF inv_sis_doble]) (intro exI [of _ M'] exI [of _ evs] exI [of _ ?ctx] conjI refl r' c(1) no)
qed

section \<open>The invariant and the refinement\<close>

lemma paso_memoria_ok:
  assumes "inv_sis M" "paso_memoria M a M'"
  shows "inv_sis M' \<and> efecto a (abs_mem M) (abs_mem M')"
  using assms(2,1)
proof (cases rule: paso_memoria.cases)
  case (crear pid path fopen socket s evs s')
  have "pid \<notin> fst ` set (abs_mem M)" using crear(2) by (auto simp: abs_mem_def)
  then show ?thesis using crear_sis [OF assms(1) crear(2-5)] by (simp add: crear(1))
next
  case (solicitar t pid fopen socket ident s evs s')
  then show ?thesis using solicitar_sis [OF assms(1) solicitar(2) _ solicitar(4)] by simp
next
  case (eliminar pid fopen socket ident s evs s')
  then show ?thesis using eliminar_sis [OF assms(1) _ eliminar(3)] by simp
next
  case (finalizar fopen socket pid s evs s')
  then show ?thesis using finalizar_sis [OF assms(1) finalizar(2)] by simp
next
  case (suspender pid i fopen socket s evs s')
  then show ?thesis using suspender_sis [OF assms(1) suspender(2) refl suspender(3-5)] misma_abs by simp
next
  case (des_suspender pid i fopen socket s evs s')
  have "i < length (procesos M)" using procesos_buscar_SomeD [OF des_suspender(2)] by simp
  then have "proceso_ok M (segmentos (procesos M ! i))" by (rule inv_sisD(6) [OF assms(1)])
  then have "list_all (en_disco M) (segmentos (procesos M ! i))"
    using des_suspender(3) by (auto simp: proceso_ok_def list_all_iff list_ex_iff)
  then show ?thesis using des_suspender_sis [OF assms(1) des_suspender(2) _ des_suspender(4)] misma_abs by (simp add: des_suspender(1))
next
  case (escribir pid x smax dir fopen socket s evs s')
  note e = escribir_sis [OF assms(1) escribir(3) escribir(6) [unfolded escribir(4)] _ escribir(7)]
  show ?thesis unfolding escribir(1) escribir(4) efecto.simps by (rule e) (use escribir(2) in blast)
next
  case (stick ip puerto tam conectar out st otro client s evs s')
  then show ?thesis using stick_sis [OF assms(1) stick(2-12)] by simp
next
  case (contexto ctx i socket s evs s')
  then show ?thesis using contexto_sis [OF assms(1) contexto(2-5)] by simp
next
  case (cpu ctx i ms r x tam smax dir r1 evs res r')
  then show ?thesis using cpu_sis [OF assms(1) cpu(3-8) cpu(10-13)] by simp
qed

lemma inv_sis_inicio: "ini_memoria M \<Longrightarrow> inv_sis M"
  by (simp add: ini_memoria_def inv_sis_def mem_inv_def red_ok_def layout_def conectados_def bloques_inv_def bloques_init_def
      procesos_init_def particion_def ocupadas_def)

interpretation memoria_sis: con_invariante ini_memoria "\<lambda>M M'. \<exists>a. paso_memoria M a M'" inv_sis
  by unfold_locales (use inv_sis_inicio paso_memoria_ok in blast)+

interpretation memoria_ref: con_invariante ini_memoria "\<lambda>M M'. \<exists>a. paso_memoria M a M'"
  "\<lambda>M. inv_sis M \<and> alcanzable (\<lambda>A. A = []) (\<lambda>A A'. \<exists>a. efecto a A A') (abs_mem M)"
proof unfold_locales
  fix M :: t_memoria
  assume "ini_memoria M"
  then show "inv_sis M \<and> alcanzable (\<lambda>A. A = []) (\<lambda>A A'. \<exists>a. efecto a A A') (abs_mem M)"
    using inv_sis_inicio by (auto simp: ini_memoria_def abs_mem_def procesos_init_def intro: alcanzable.inicio)
next
  fix M M' :: t_memoria
  assume "inv_sis M \<and> alcanzable (\<lambda>A. A = []) (\<lambda>A A'. \<exists>a. efecto a A A') (abs_mem M)" "\<exists>a. paso_memoria M a M'"
  then show "inv_sis M' \<and> alcanzable (\<lambda>A. A = []) (\<lambda>A A'. \<exists>a. efecto a A A') (abs_mem M')"
    using paso_memoria_ok alcanzable.avance [of "\<lambda>A. A = []" "\<lambda>A A'. \<exists>a. efecto a A A'" "abs_mem M"] by blast
qed


section \<open>Properties\<close>

lemma libre_es_el_resto:
  "mem_inv M \<Longrightarrow> celdas (bloques_libres M) = {..<ram (conx M)} - ocupadas (tramos (procesos M))"
  unfolding mem_inv_def particion_def by blast

text \<open>
  C21. In every state that Kernel Memory can reach with the steps of \<open>paso_memoria\<close>, that is, while
  its clients keep to the rules listed there (a saved context carries the current segment table,
  segments are asked for and removed for processes in RAM, suspensions fit in the swap, accesses
  do not wrap), two different segments in RAM have no cell in
  common, each lies inside the RAM, the free list is exactly the rest of it, pids are not
  repeated, and a process is either wholly in RAM or wholly in the swap, in valid blocks that hold
  all the bytes of its segments and were reserved before.
\<close>

theorem memoria_segura:
  assumes "alcanzable ini_memoria (\<lambda>M M'. \<exists>a. paso_memoria M a M') M"
  shows "(\<forall>e \<in> set (posiciones (procesos M)). residente (seg_en (procesos M) e) \<longrightarrow>
       unat (base (seg_en (procesos M) e)) + unat (limite (seg_en (procesos M) e)) \<le> ram (conx M) \<and>
       (\<forall>q \<in> set (posiciones (procesos M)). q \<noteq> e \<and> residente (seg_en (procesos M) q) \<longrightarrow>
          rango (base (seg_en (procesos M) q)) (limite (seg_en (procesos M) q)) \<inter>
          rango (base (seg_en (procesos M) e)) (limite (seg_en (procesos M) e)) = {})) \<and>
    celdas (bloques_libres M) = {..<ram (conx M)} - ocupadas (tramos (procesos M)) \<and>
    distinct (map ce_pid (procesos M)) \<and>
    (\<forall>p \<in> set (procesos M). list_all residente (segmentos p) \<or>
       (\<forall>g \<in> set (segmentos p). \<not> residente g \<and> en_swap (bs_de M) (disco M) g (bytes_seg M g) \<and>
          unat (swap_bloque_inicio g) + unat (n_bloques (bs_de M) (limite g)) \<le> unat (next_block (reserva M))))"
proof -
  have inv: "inv_sis M" using assms by (rule memoria_sis.inv_alcanzable)
  note I = inv_sisD [OF inv]
  have "list_all residente (segmentos p) \<or>
       (\<forall>g \<in> set (segmentos p). \<not> residente g \<and> en_swap (bs_de M) (disco M) g (bytes_seg M g) \<and>
          unat (swap_bloque_inicio g) + unat (n_bloques (bs_de M) (limite g)) \<le> unat (next_block (reserva M)))"
    if "p \<in> set (procesos M)" for p
  proof -
    have "proceso_ok M (segmentos p)" using inv that by (simp add: inv_sis_def)
    then show ?thesis using en_disco_bytes [OF I(2)] by (auto simp: proceso_ok_def list_all_iff en_disco_def)
  qed
  moreover have "\<forall>e \<in> set (posiciones (procesos M)). residente (seg_en (procesos M) e) \<longrightarrow>
       unat (base (seg_en (procesos M) e)) + unat (limite (seg_en (procesos M) e)) \<le> ram (conx M) \<and>
       (\<forall>q \<in> set (posiciones (procesos M)). q \<noteq> e \<and> residente (seg_en (procesos M) q) \<longrightarrow>
          rango (base (seg_en (procesos M) q)) (limite (seg_en (procesos M) q)) \<inter>
          rango (base (seg_en (procesos M) e)) (limite (seg_en (procesos M) e)) = {})"
    using residente_cabe [OF I(1)] tramos_disjuntos [OF I(1)] by blast
  ultimately show ?thesis using libre_es_el_resto [OF I(1)] I(5) by blast
qed

text \<open>A small run: the first stick, a process and a segment.\<close>

definition memoria_inicial :: t_memoria where
  "memoria_inicial = memoria_chica
     \<lparr>conx := conexiones_set_swap_socket 5 conexiones_init, bloques_libres := bloques_init,
      procesos := procesos_init, red_sticks := Map.empty\<rparr>"

lemma ini_memoria_inicial: "ini_memoria memoria_inicial"
  using swap_listo_igual [of memoria_inicial memoria_chica] chica_lista(1)
  by (simp add: ini_memoria_def memoria_inicial_def conexiones_set_swap_socket_def conexiones_init_def)

abbreviation mem_alcanzable :: "t_memoria \<Rightarrow> bool" where
  "mem_alcanzable \<equiv> alcanzable ini_memoria (\<lambda>M M'. \<exists>a. paso_memoria M a M')"

lemma mem_alcanzable_inicial: "mem_alcanzable memoria_inicial"
  using ini_memoria_inicial by (rule alcanzable.inicio)

lemma mem_alcanzable_paso:
  assumes "mem_alcanzable M" "paso_memoria M a M'"
  shows "mem_alcanzable M'"
  using assms(1) by (rule alcanzable.avance) (use assms(2) in blast)

lemma memoria_corrida:
  obtains M1 M2 M3 where "paso_memoria memoria_inicial Invisible M1" "paso_memoria M1 (Crear 1) M2"
    "paso_memoria M2 (Segmento 1 0 2) M3" "map segmentos (procesos M3) = [[\<lparr>id_seg = 0, base = 0, limite = 2, swap_bloque_inicio = 0\<rparr>]]"
proof -
  let ?con = "\<lambda>_ _ :: string. Some (11, stick_nuevo)"
  obtain c where c: "conexiones_agregar_stick 10 2 ''a'' ''b'' (conx memoria_inicial) = (0, Some 0, c)"
    by (simp add: memoria_inicial_def conexiones_agregar_stick_def conexiones_set_swap_socket_def conexiones_init_def MAX_MEMORY_STICKS_def)
  have ip: "cadena_ok ''a''" "cadena_ok ''b''" "length ''a'' + length ''b'' < 2 ^ 31 - 100" by (simp_all add: cadena_ok_def)
  let ?h1 = "memory_handshake_handler ?con swap_ejemplo memoria_inicial 10 (enviar_handshake_memory_stick 2 ''a'' ''b'' @ [])"
  obtain M1 ev1 s1 where h1: "?h1 = (M1, ev1, s1)" by (metis prod_cases3)
  have "bloques_agregar 0 2 bloques_init = [\<lparr>b_base = 0, b_tamanio = 2\<rparr>]" by code_simp
  then have M1: "procesos M1 = []" "bloques_libres M1 = [\<lparr>b_base = 0, b_tamanio = 2\<rparr>]" "config_memory M1 = config_memory memoria_chica"
    using h1 atender_handshake_stick [where conectar = ?con, OF ip c refl, of swap_ejemplo "[]"]
    by (auto simp: memoria_inicial_def procesos_init_def)
  have p1: "paso_memoria memoria_inicial Invisible M1"
  proof (rule paso_memoria.stick [where out = 11 and st = stick_nuevo, OF ip _ _ _ _ _ _ _ h1])
    show "stick_ok stick_nuevo" "memoria_size stick_nuevo = 2"
      by (simp_all add: stick_nuevo_def inicializar_memoria_stick_def stick_ok_def)
  qed (simp_all add: memoria_inicial_def conexiones_set_swap_socket_def conexiones_init_def MAX_MEMORY_STICKS_def)
  let ?h2 = "atender_scheduler (\<lambda>_. None) M1 3 (enviar_crear_proceso 1 ''p'' @ [])"
  obtain M2 ev2 s2 where h2: "?h2 = (M2, ev2, s2)" by (metis prod_cases3)
  have pok: "cadena_ok ''p''" "length ''p'' < 2 ^ 31 - 100" by (simp_all add: cadena_ok_def)
  have p2: "paso_memoria M1 (Crear 1) M2" by (rule paso_memoria.crear [OF _ pok h2]) (simp add: M1)
  from h2 atender_crear [OF pok, of "\<lambda>_. None" M1 3 1 "[]"]
  have M2: "map segmentos (procesos M2) = [[]]" "map ce_pid (procesos M2) = [1]" "bloques_libres M2 = [\<lparr>b_base = 0, b_tamanio = 2\<rparr>]"
      "config_memory M2 = config_memory memoria_chica"
    by (auto simp: M1)
  let ?h3 = "atender_scheduler (\<lambda>_. None) M2 3 (enviar_solicitar_segmento 1 0 2 @ enviar_ok INICIAR_COMPACTACION @ [])"
  obtain M3 ev3 s3 where h3: "?h3 = (M3, ev3, s3)" by (metis prod_cases3)
  obtain q where q: "procesos M2 = [q]" "segmentos q = []" "ce_pid q = 1" using M2(1,2) by (cases "procesos M2") auto
  have b: "procesos_buscar 1 (procesos M2) = Some 0" by (simp add: q procesos_buscar_def)
  have "bloques_asignar False 2 [\<lparr>b_base = 0, b_tamanio = 2\<rparr>] = (0, [])" by code_simp
  moreover have "\<not> worst_fit M2" by (simp add: M2 memoria_chica_def es_worst_fit_def cstr_def)
  moreover have "\<not> segment_max_size (config_memory M2) < 2" by (simp add: M2 memoria_chica_def)
  ultimately have "M3 = agregar_segmento_a 0 0 0 2 (M2\<lparr>bloques_libres := []\<rparr>)"
    using h3 b by (simp add: atender_solicitar M2(3))
  then have M3: "map segmentos (procesos M3) = [[\<lparr>id_seg = 0, base = 0, limite = 2, swap_bloque_inicio = 0\<rparr>]]"
    by (simp add: agregar_segmento_a_def q)
  have ram: "en_ram M2 1"
  proof (intro allI impI)
    fix i
    assume "procesos_buscar 1 (procesos M2) = Some i"
    then have "i = 0" using b by simp
    then show "list_all residente (segmentos (procesos M2 ! i))" by (simp add: q)
  qed
  have p3: "paso_memoria M2 (Segmento 1 0 2) M3" by (rule paso_memoria.solicitar [OF _ ram h3]) simp
  show thesis by (rule that [OF p1 p2 p3 M3])
qed

lemma memoria_segura_witness:
  "\<exists>M :: t_memoria. map segmentos (procesos M) = [[\<lparr>id_seg = 0, base = 0, limite = 2, swap_bloque_inicio = 0\<rparr>]] \<and>
     celdas (bloques_libres M) = {..<ram (conx M)} - ocupadas (tramos (procesos M))"
proof -
  obtain M1 M2 M3 where m: "paso_memoria memoria_inicial Invisible M1" "paso_memoria M1 (Crear 1) M2"
    "paso_memoria M2 (Segmento 1 0 2) M3" "map segmentos (procesos M3) = [[\<lparr>id_seg = 0, base = 0, limite = 2, swap_bloque_inicio = 0\<rparr>]]"
    by (rule memoria_corrida)
  have "mem_alcanzable M3"
    using mem_alcanzable_paso [OF mem_alcanzable_paso [OF mem_alcanzable_paso [OF mem_alcanzable_inicial m(1)] m(2)] m(3)] .
  then have libre: "celdas (bloques_libres M3) = {..<ram (conx M3)} - ocupadas (tramos (procesos M3))"
    by (rule conjunct1 [OF conjunct2 [OF memoria_segura]])
  show ?thesis by (rule exI [of _ M3]) (rule conjI [OF m(4) libre])
qed

text \<open>
  C20. Kernel Memory refines the memory of private segments. From a state that is reachable with
  the steps of \<open>paso_memoria\<close>, each of these steps (of clients that keep to the rules listed
  there: a saved context carries the current segment table, segments are asked for and removed
  for processes in RAM, suspensions fit in the swap, accesses do not wrap) changes the abstract memory as its label says, so a process sees only its own requests: a new
  segment, a removed one, a write inside one. Suspending and resuming it or others, compactions
  (inside a request for a segment), new sticks and saved contexts change no byte of any segment,
  and the abstract memory is always one that the abstract steps can build from nothing.
\<close>

theorem memoria_refina:
  assumes "alcanzable ini_memoria (\<lambda>M M'. \<exists>a. paso_memoria M a M') M" "paso_memoria M a M'"
  shows "efecto a (abs_mem M) (abs_mem M') \<and>
    alcanzable (\<lambda>A. A = []) (\<lambda>A A'. \<exists>a. efecto a A A') (abs_mem M')"
proof -
  have "efecto a (abs_mem M) (abs_mem M')"
    using memoria_sis.inv_alcanzable [OF assms(1)] paso_memoria_ok assms(2) by blast
  moreover have "mem_alcanzable M'" using assms by (rule mem_alcanzable_paso)
  ultimately show ?thesis using memoria_ref.inv_alcanzable by blast
qed

lemma memoria_refina_witness:
  "\<exists>M M'. paso_memoria M (Segmento 1 0 2) M' \<and> efecto (Segmento 1 0 2) (abs_mem M) (abs_mem M') \<and> abs_mem M' \<noteq> abs_mem M"
proof -
  obtain M1 M2 M3 where m: "paso_memoria memoria_inicial Invisible M1" "paso_memoria M1 (Crear 1) M2"
    "paso_memoria M2 (Segmento 1 0 2) M3" "map segmentos (procesos M3) = [[\<lparr>id_seg = 0, base = 0, limite = 2, swap_bloque_inicio = 0\<rparr>]]"
    by (rule memoria_corrida)
  have M1: "mem_alcanzable M1" using mem_alcanzable_inicial m(1) by (rule mem_alcanzable_paso)
  then have M2: "mem_alcanzable M2" using m(2) by (rule mem_alcanzable_paso)
  have "efecto Invisible (abs_mem memoria_inicial) (abs_mem M1)"
    using memoria_refina [OF mem_alcanzable_inicial m(1)] by blast
  then have "abs_mem M1 = []" by (simp add: abs_mem_def memoria_inicial_def procesos_init_def)
  then have "abs_mem M2 = [(1, [])]" using memoria_refina [OF M1 m(2)] by simp
  moreover have "map (length \<circ> snd) (abs_mem M3) = [1]"
    using arg_cong [OF m(4), of "map length"] by (simp add: abs_mem_def segs_abs_def comp_def)
  ultimately have "abs_mem M3 \<noteq> abs_mem M2" by auto
  then show ?thesis using memoria_refina [OF M2 m(3)] m(3) by blast
qed

end
