(* ===== verification/Comp_Suspension.thy ===== *)
theory Comp_Suspension
  imports Composicion Memory_Sistema
begin

text \<open>
  A suspension and the resumption that follows it, through both kernels: the timer and the
  medium-term scheduler of the Kernel Scheduler at one end of the socket, the handlers of Kernel
  Memory at the other.
\<close>

section \<open>Kernel Memory\<close>

lemma suspender_responde:
  assumes inv: "inv_sis M" and p: "procesos_buscar pid (procesos M) = Some i" and n: "n = length (segmentos (procesos M ! i))"
    and res: "list_all residente (segmentos (procesos M ! i))"
    and hay: "unat (next_block (reserva M)) + (\<Sum>j\<leftarrow>[0..<n]. bloques_seg M (i, j)) \<le> unat (total_blocks (reserva M))"
  obtains M' where "atender_scheduler fopen M socket (enviar_suspender_proceso pid @ s) =
      (M', [Enviar socket (enviar_ok SUSPENDER_PROCESO)], s)" "inv_sis M'" "abs_mem M' = abs_mem M"
    "procesos_buscar pid (procesos M') = Some i" "list_all (en_disco M') (segmentos (procesos M' ! i))"
    "map limite (segmentos (procesos M' ! i)) = map limite (segmentos (procesos M ! i))"
proof -
  note I = inv_sisD [OF inv]
  have i: "i < length (procesos M)" using procesos_buscar_SomeD [OF p] by simp
  have "\<forall>j \<in> set [0..<n]. (i, j) \<in> set (posiciones (procesos M)) \<and> residente (seg_en (procesos M) (i, j))"
    using i n res by (auto simp: set_posiciones seg_en_def list_all_length)
  from suspender_bucle_ok [OF I(1-4) distinct_upt this hay, of pid]
  obtain M' where M': "suspender_bucle i pid (swap_socket (conx M)) [0..<n] M = (M', [], True)" "suspendidas M i [0..<n] M'"
    by blast
  have a: "atender_scheduler fopen M socket (enviar_suspender_proceso pid @ s) = (M', [Enviar socket (enviar_ok SUSPENDER_PROCESO)], s)"
    using M'(1) n by (simp add: atender_suspender [OF p I(4)])
  note sis = suspendidas_sis [OF inv i n res M'(2)]
  note l = suspendida_lista_para [OF M'(2) I(3,4) p n]
  have i': "i < length (procesos M')" using procesos_buscar_SomeD [OF l(5)] by simp
  have "\<not> residente g" if "g \<in> set (segmentos (procesos M' ! i))" for g
    using l(6,7) that by (auto simp: seg_en_def in_set_conv_nth)
  moreover have "proceso_ok M' (segmentos (procesos M' ! i))" using sis i' by (simp add: inv_sis_def)
  ultimately have "list_all (en_disco M') (segmentos (procesos M' ! i))"
    by (auto simp: proceso_ok_def list_all_iff)
  moreover have "map limite (segmentos (procesos M' ! i)) = map limite (segmentos (procesos M ! i))"
    using l(6,9) n by (auto simp: list_eq_iff_nth_eq seg_en_def)
  ultimately show thesis using that [OF a] sis misma_abs l(5) by blast
qed

lemma des_suspender_responde:
  assumes inv: "inv_sis M" and p: "procesos_buscar pid (procesos M) = Some i"
    and dis: "list_all (en_disco M) (segmentos (procesos M ! i))"
  obtains M' c where "atender_scheduler fopen M socket (enviar_des_suspender_proceso pid @ s) = (M', [Enviar socket (enviar_ok c)], s)"
    "inv_sis M'" "abs_mem M' = abs_mem M"
    "c = DES_SUSPENDER_PROCESO \<and> list_all residente (segmentos (procesos M' ! i)) \<or> c = SEGMENTATION_FAULT \<and> procesos M' = procesos M"
    "(\<exists>b \<in> set (bloques_libres M). (\<Sum>g\<leftarrow>segmentos (procesos M ! i). unat (limite g)) \<le> unat (b_tamanio b)) \<and>
     (\<forall>g \<in> set (segmentos (procesos M ! i)). limite g \<noteq> 0) \<longrightarrow> c = DES_SUSPENDER_PROCESO"
proof -
  note I = inv_sisD [OF inv]
  let ?gs = "segmentos (procesos M ! i)"
  let ?n = "length ?gs"
  have i: "i < length (procesos M)" using procesos_buscar_SomeD [OF p] by simp
  have js: "\<forall>j \<in> set [0..<?n]. (i, j) \<in> set (posiciones (procesos M)) \<and> \<not> residente (seg_en (procesos M) (i, j))"
    using i dis by (auto simp: set_posiciones seg_en_def list_all_length en_disco_def)
  have xs: "list_all2 (en_swap (bs_de M) (disco M)) ?gs (map (bytes_seg M) ?gs)"
    using en_disco_bytes [OF I(2)] dis by (auto simp: list_all2_conv_all_nth list_all_length)
  have sis: "inv_sis M' \<and> abs_mem M' = abs_mem M"
    if "atender_scheduler fopen M socket (enviar_des_suspender_proceso pid @ s) = (M', evs, s)" for M' evs
    using des_suspender_sis [OF inv p dis that] misma_abs by blast
  obtain M1 hay where r: "reservar_bucle i [0..<?n] [] M = (M1, hay)" by (cases "reservar_bucle i [0..<?n] [] M")
  show thesis
  proof (cases hay)
    case True
    with r have "reservar_bucle i [0..<?n] [] M = (M1, True)" by simp
    from reanudar_hay [OF I(1-4) p refl js xs this, of fopen socket s]
    obtain M2 where M2: "atender_scheduler fopen M socket (enviar_des_suspender_proceso pid @ s) =
        (M2, [Enviar socket (enviar_ok DES_SUSPENDER_PROCESO)], s)" "restaurada M i (map (bytes_seg M) ?gs) M2"
      by blast
    have "list_all residente (segmentos (procesos M2 ! i))"
      using M2(2) by (auto simp: restaurada_def list_all2_conv_all_nth list_all_length)
    then show thesis using that [OF M2(1)] sis [OF M2(1)] by blast
  next
    case False
    with r have f: "procesos M1 = procesos M" using reanudar_no_hay [OF I(1) js, of M1] by auto
    have a: "atender_scheduler fopen M socket (enviar_des_suspender_proceso pid @ s) = (M1, [Enviar socket (enviar_ok SEGMENTATION_FAULT)], s)"
      using r False by (simp add: atender_des_suspender [OF p I(4)])
    have T: "(\<Sum>j\<leftarrow>[0..<?n]. unat (limite (seg_en (procesos M) (i, j)))) = (\<Sum>g\<leftarrow>?gs. unat (limite g))"
      by (intro arg_cong [of _ _ sum_list] nth_equalityI) (simp_all add: seg_en_def)
    have "\<not> ((\<exists>b \<in> set (bloques_libres M). (\<Sum>g\<leftarrow>?gs. unat (limite g)) \<le> unat (b_tamanio b)) \<and> (\<forall>g \<in> set ?gs. limite g \<noteq> 0))"
    proof
      assume h: "(\<exists>b \<in> set (bloques_libres M). (\<Sum>g\<leftarrow>?gs. unat (limite g)) \<le> unat (b_tamanio b)) \<and> (\<forall>g \<in> set ?gs. limite g \<noteq> 0)"
      then have "\<forall>j \<in> set [0..<?n]. limite (seg_en (procesos M) (i, j)) \<noteq> 0" by (simp add: seg_en_def)
      from reservar_bucle_alcanza [OF I(1) distinct_upt js this, of "[]"] h show False using r False unfolding T by simp
    qed
    then show thesis using that [OF a] sis [OF a] f by blast
  qed
qed

section \<open>Kernel Scheduler\<close>

text \<open>The timer of the block episode in which the process still is, when Kernel Memory acknowledges.\<close>

definition tras_suspension :: "i32 \<Rightarrow> t_pcb \<Rightarrow> t_scheduler \<Rightarrow> t_scheduler" where
  "tras_suspension p b S = S\<lparr>timers_suspension := remove1 (p, block_epoch b) (timers_suspension S),
     pcbs := (pcbs S)(p := Some (b\<lparr>estado := SUSP_BLOCK, suspendido_en_swap := True\<rparr>)),
     lista_suspendidos := lista_suspendidos S @ [(p, reloj S)],
     volcados_en_vuelo := remove1 p (volcados_en_vuelo S @ [p]),
     sem_reevaluar_suspendidos := sem_reevaluar_suspendidos S + 1\<rparr>"

lemma timer_suspende:
  assumes b: "pcbs S p = Some b" "estado b = BLOCK" and cola: "p \<in> set (cola_procesos_block S)" "\<not> sistema_corrupto S"
  shows "suspension_timer_responde m p (suspension_timer_thread (p, block_epoch b) S) (enviar_ok SUSPENDER_PROCESO @ r) =
    Some (tras_suspension p b S, [Enviar m (enviar_suspender_proceso p)], r)"
proof -
  have "\<exists>q \<in> set (cola_procesos_block S). q = p \<and> (case pcbs S q of None \<Rightarrow> False | Some c \<Rightarrow> estado c = BLOCK \<and> block_epoch c = block_epoch b)"
    using b cola(1) by auto
  then show ?thesis
    using assms by (simp add: suspension_timer_thread_def suspension_timer_responde_def list_ex_iff Let_def agregar_a_lista_suspendidos_def
        actualizar_pcb_def pedir_ack es_notificacion_def notificar_reevaluar_suspendidos_def tras_suspension_def)
qed

lemma suspendido_listo:
  assumes "p \<in> set (cola_procesos_block S)"
  obtains S' where "desbloquear_proceso_por_io p (tras_suspension p b S) = Some (S', [])"
    "pcbs S' = (pcbs S)(p := Some (b\<lparr>suspendido_en_swap := True, estado := SUSP_READY\<rparr>))"
    "lista_suspendidos S' = lista_suspendidos S @ [(p, reloj S)]" "sistema_corrupto S' = sistema_corrupto S"
    "0 < sem_reevaluar_suspendidos S'"
proof -
  obtain k where "buscar_idx (\<lambda>q. q = p) (cola_procesos_block S) = Some k"
    using assms by (cases "buscar_idx (\<lambda>q. q = p) (cola_procesos_block S)") auto
  then show thesis
    using that by (simp add: desbloquear_proceso_por_io_def extraer_de_block_def tras_suspension_def notificar_reevaluar_suspendidos_def
        actualizar_pcb_def)
qed

lemma sin_otros_candidatos:
  assumes "p \<notin> fst ` set l" "\<forall>(q, t) \<in> set l. map_option estado (f q) \<noteq> Some SUSP_READY"
  shows "\<forall>(q, t) \<in> set l. map_option estado ((f(p := x)) q) \<noteq> Some SUSP_READY"
proof -
  have "q \<noteq> p" if "(q, t) \<in> set l" for q t using assms(1) that by (auto simp: image_iff)
  then show ?thesis using assms(2) by fastforce
qed

text \<open>The turn of the medium-term scheduler on the only process that can come back.\<close>

lemma turno_reanuda:
  assumes sem: "0 < sem_reevaluar_suspendidos S" "\<not> sistema_corrupto S"
    and lista: "lista_suspendidos S = l @ [(p, t0)]" "p \<notin> fst ` set l" "\<forall>(q, t) \<in> set l. map_option estado (pcbs S q) \<noteq> Some SUSP_READY"
    and b: "pcbs S p = Some b" "estado b = SUSP_READY" "stdin_pendiente b = None"
    and orden: "\<And>c x. ordenar c [x] = [x]"
  obtains S' ev where
      "planificadorMedianoPlazo ordenar m S (enviar_ok DES_SUSPENDER_PROCESO @ r) = Some (S', Enviar m (enviar_des_suspender_proceso p) # ev, r)"
      "map_option estado (pcbs S' p) = Some READY" "lista_suspendidos S' = l"
    and "planificadorMedianoPlazo ordenar m S (enviar_ok SEGMENTATION_FAULT @ r) =
      Some (S\<lparr>sem_reevaluar_suspendidos := sem_reevaluar_suspendidos S - 1\<rparr>, [Enviar m (enviar_des_suspender_proceso p)], r)"
proof -
  let ?S0 = "S\<lparr>sem_reevaluar_suspendidos := sem_reevaluar_suspendidos S - 1\<rparr>"
  have "candidatos ?S0 = [(p, t0)]"
    by (rule candidatos_uno [where l = l and l' = "[]"]) (use lista b in auto)
  then have turno: "planificadorMedianoPlazo ordenar m S x = des_suspender_bucle m [p] ?S0 x" for x
    using sem lista(1) orden by (simp add: planificadorMedianoPlazo_def intentar_des_suspender_susp_ready_def)
  have rem: "remover_de_lista_suspendidos p ?S0 = ?S0\<lparr>lista_suspendidos := l\<rparr>"
    using remover_unico [of ?S0 l p t0 "[]"] lista(1,2) by simp
  obtain S' ev where e: "encolar_en_ready_y_notificar p (?S0\<lparr>lista_suspendidos := l\<rparr>) = (S', ev)"
    by (cases "encolar_en_ready_y_notificar p (?S0\<lparr>lista_suspendidos := l\<rparr>)")
  have "reactivar m p ?S0 r = Some (S', ev, r)" unfolding reactivar_def Let_def rem using b e by simp
  then have "planificadorMedianoPlazo ordenar m S (enviar_ok DES_SUSPENDER_PROCESO @ r) = Some (S', Enviar m (enviar_des_suspender_proceso p) # ev, r)"
    using sem(2) by (simp add: turno pedir_ack es_notificacion_def)
  moreover have "map_option estado (pcbs S' p) = Some READY" "lista_suspendidos S' = l"
    using estado_encolado(1) [of "?S0\<lparr>lista_suspendidos := l\<rparr>" p b] estado_encolado(2) [of p "?S0\<lparr>lista_suspendidos := l\<rparr>"] b(1) e
    by simp_all
  moreover have "op_num SEGMENTATION_FAULT \<noteq> op_num DES_SUSPENDER_PROCESO" by simp
  then have "planificadorMedianoPlazo ordenar m S (enviar_ok SEGMENTATION_FAULT @ r) = Some (?S0, [Enviar m (enviar_des_suspender_proceso p)], r)"
    using sem(2) by (simp add: turno pedir_ack es_notificacion_def)
  ultimately show thesis using that by blast
qed


section \<open>From end to end\<close>

text \<open>
  C27. The suspension of a process through both kernels. The timer of a process in BLOCK fires: the
  scheduler marks it and asks Kernel Memory, in whatever consistent state, for the copy; its input
  ends while it is in the swap, so that it waits as SUSP\_READY; the next turn of the medium-term
  scheduler asks for it back. At every exchange each kernel reads exactly what the other one
  sends. Kernel Memory acknowledges the suspension, and no byte of any process changes from
  beginning to end. The process is READY with all its segments in RAM again, or the resumption was
  refused and both kernels still have it suspended: the scheduler keeps it in its list and Kernel
  Memory has not touched it. It is not refused when some free block can hold the whole process.
\<close>

theorem suspension_de_punta_a_punta:
  assumes mem: "inv_sis M" "procesos_buscar p (procesos M) = Some i" "list_all residente (segmentos (procesos M ! i))"
      "n = length (segmentos (procesos M ! i))"
      "unat (next_block (reserva M)) + (\<Sum>j\<leftarrow>[0..<n]. bloques_seg M (i, j)) \<le> unat (total_blocks (reserva M))"
    and b: "pcbs S p = Some b" "estado b = BLOCK" "stdin_pendiente b = None" "p \<in> set (cola_procesos_block S)" "\<not> sistema_corrupto S"
    and lista: "p \<notin> fst ` set (lista_suspendidos S)" "\<forall>(q, t) \<in> set (lista_suspendidos S). map_option estado (pcbs S q) \<noteq> Some SUSP_READY"
    and orden: "\<And>c x. ordenar c [x] = [x]"
  shows "\<exists>M1 ev1 S1 out1 S2 M2 ev2 S3 out2.
    atender_scheduler fopen M sock (enviar_suspender_proceso p) = (M1, ev1, []) \<and>
    suspension_timer_responde m p (suspension_timer_thread (p, block_epoch b) S) (respuesta_en sock ev1) = Some (S1, out1, []) \<and>
    respuesta_en m out1 = enviar_suspender_proceso p \<and>
    desbloquear_proceso_por_io p S1 = Some (S2, []) \<and> map_option estado (pcbs S2 p) = Some SUSP_READY \<and>
    atender_scheduler fopen M1 sock (enviar_des_suspender_proceso p) = (M2, ev2, []) \<and>
    planificadorMedianoPlazo ordenar m S2 (respuesta_en sock ev2) = Some (S3, Enviar m (enviar_des_suspender_proceso p) # out2, []) \<and>
    inv_sis M1 \<and> inv_sis M2 \<and> abs_mem M1 = abs_mem M \<and> abs_mem M2 = abs_mem M \<and>
    (map_option estado (pcbs S3 p) = Some READY \<and> lista_suspendidos S3 = lista_suspendidos S \<and>
       list_all residente (segmentos (procesos M2 ! i)) \<or>
     map_option estado (pcbs S3 p) = Some SUSP_READY \<and> p \<in> fst ` set (lista_suspendidos S3) \<and> out2 = [] \<and>
       procesos M2 = procesos M1 \<and> list_all (en_disco M1) (segmentos (procesos M1 ! i))) \<and>
    ((\<exists>l \<in> set (bloques_libres M1). (\<Sum>g\<leftarrow>segmentos (procesos M ! i). unat (limite g)) \<le> unat (b_tamanio l)) \<and>
     (\<forall>g \<in> set (segmentos (procesos M ! i)). limite g \<noteq> 0) \<longrightarrow> map_option estado (pcbs S3 p) = Some READY)"
proof -
  obtain M1 where M1: "atender_scheduler fopen M sock (enviar_suspender_proceso p @ []) = (M1, [Enviar sock (enviar_ok SUSPENDER_PROCESO)], [])"
      "inv_sis M1" "abs_mem M1 = abs_mem M" "procesos_buscar p (procesos M1) = Some i" "list_all (en_disco M1) (segmentos (procesos M1 ! i))"
      "map limite (segmentos (procesos M1 ! i)) = map limite (segmentos (procesos M ! i))"
    by (rule suspender_responde [OF mem(1,2,4,3,5), where socket = sock and s = "[]" and fopen = fopen])
  obtain M2 c where M2: "atender_scheduler fopen M1 sock (enviar_des_suspender_proceso p @ []) = (M2, [Enviar sock (enviar_ok c)], [])"
      "inv_sis M2" "abs_mem M2 = abs_mem M1"
      and c: "c = DES_SUSPENDER_PROCESO \<and> list_all residente (segmentos (procesos M2 ! i)) \<or> c = SEGMENTATION_FAULT \<and> procesos M2 = procesos M1"
        "(\<exists>b \<in> set (bloques_libres M1). (\<Sum>g\<leftarrow>segmentos (procesos M1 ! i). unat (limite g)) \<le> unat (b_tamanio b)) \<and>
         (\<forall>g \<in> set (segmentos (procesos M1 ! i)). limite g \<noteq> 0) \<longrightarrow> c = DES_SUSPENDER_PROCESO"
    by (rule des_suspender_responde [OF M1(2,4,5), where socket = sock and s = "[]" and fopen = fopen])
  have suma: "(\<Sum>g\<leftarrow>segmentos (procesos M1 ! i). unat (limite g)) = (\<Sum>g\<leftarrow>segmentos (procesos M ! i). unat (limite g))"
    using arg_cong [OF M1(6), of "\<lambda>l. \<Sum>x\<leftarrow>l. unat x"] by (simp add: comp_def)
  have ceros: "(\<forall>g \<in> set (segmentos (procesos M1 ! i)). limite g \<noteq> 0) \<longleftrightarrow> (\<forall>g \<in> set (segmentos (procesos M ! i)). limite g \<noteq> 0)"
    using arg_cong [OF M1(6), of "\<lambda>l. 0 \<in> set l"] by (metis (no_types, lifting) image_iff set_map)
  note t1 = timer_suspende [OF b(1,2,4,5), of m "[]", simplified]
  obtain S2 where S2: "desbloquear_proceso_por_io p (tras_suspension p b S) = Some (S2, [])"
      "pcbs S2 = (pcbs S)(p := Some (b\<lparr>suspendido_en_swap := True, estado := SUSP_READY\<rparr>))"
      "lista_suspendidos S2 = lista_suspendidos S @ [(p, reloj S)]" "sistema_corrupto S2 = sistema_corrupto S"
      "0 < sem_reevaluar_suspendidos S2"
    by (rule suspendido_listo [OF b(4)])
  note otros = sin_otros_candidatos [OF lista, of "Some (b\<lparr>suspendido_en_swap := True, estado := SUSP_READY\<rparr>)", folded S2(2)]
  obtain S3 out where S3:
      "planificadorMedianoPlazo ordenar m S2 (enviar_ok DES_SUSPENDER_PROCESO) = Some (S3, Enviar m (enviar_des_suspender_proceso p) # out, [])"
      "map_option estado (pcbs S3 p) = Some READY" "lista_suspendidos S3 = lista_suspendidos S"
    and no: "planificadorMedianoPlazo ordenar m S2 (enviar_ok SEGMENTATION_FAULT) =
      Some (S2\<lparr>sem_reevaluar_suspendidos := sem_reevaluar_suspendidos S2 - 1\<rparr>, [Enviar m (enviar_des_suspender_proceso p)], [])"
    using turno_reanuda [OF S2(5) _ S2(3) lista(1) otros, of "b\<lparr>suspendido_en_swap := True, estado := SUSP_READY\<rparr>" ordenar m "[]"]
      S2(2,4) b(3,5) orden by auto
  have r: "respuesta_en sock [Enviar sock x] = x" "respuesta_en m [Enviar m x] = x" for x by simp_all
  from c(1) show ?thesis
  proof (elim disjE conjE)
    assume "c = DES_SUSPENDER_PROCESO" "list_all residente (segmentos (procesos M2 ! i))"
    then show ?thesis
      using M1(1-3) M2 t1 S2(1,2) S3
      by (intro exI [of _ M1] exI [of _ "[Enviar sock (enviar_ok SUSPENDER_PROCESO)]"] exI [of _ "tras_suspension p b S"]
          exI [of _ "[Enviar m (enviar_suspender_proceso p)]"] exI [of _ S2] exI [of _ M2] exI [of _ "[Enviar sock (enviar_ok c)]"]
          exI [of _ S3] exI [of _ out]) (simp add: r)
  next
    assume n: "c = SEGMENTATION_FAULT" "procesos M2 = procesos M1"
    then have "\<not> ((\<exists>l \<in> set (bloques_libres M1). (\<Sum>g\<leftarrow>segmentos (procesos M ! i). unat (limite g)) \<le> unat (b_tamanio l)) \<and>
        (\<forall>g \<in> set (segmentos (procesos M ! i)). limite g \<noteq> 0))"
      using c(2) unfolding suma ceros by blast
    then show ?thesis
      using n M1(1-3,5) M2 t1 S2(1,2,3) no
      by (intro exI [of _ M1] exI [of _ "[Enviar sock (enviar_ok SUSPENDER_PROCESO)]"] exI [of _ "tras_suspension p b S"]
          exI [of _ "[Enviar m (enviar_suspender_proceso p)]"] exI [of _ S2] exI [of _ M2] exI [of _ "[Enviar sock (enviar_ok c)]"]
          exI [of _ "S2\<lparr>sem_reevaluar_suspendidos := sem_reevaluar_suspendidos S2 - 1\<rparr>"] exI [of _ "[]"]) (simp add: r)
  qed
qed

text \<open>The small memory and a scheduler whose process 1 is in BLOCK.\<close>

lemma inv_sis_chica: "inv_sis memoria_chica"
  using mem_inv_chica chica_lista
  by (intro inv_sisI) (simp_all add: memoria_chica_def proceso_ejemplo_def proceso_ok_def)

definition scheduler_bloqueado :: t_scheduler where
  "scheduler_bloqueado = scheduler_ejemplo\<lparr>cola_procesos_block := [1], timers_suspension := [(1, 0)],
     pcbs := (pcbs scheduler_ejemplo)(1 := Some (pcb_ejemplo\<lparr>estado := BLOCK\<rparr>))\<rparr>"

lemma suspension_de_punta_a_punta_witness:
  "\<exists>M1 ev1 S1 out1 M2 ev2. atender_scheduler (\<lambda>_. None) memoria_chica 3 (enviar_suspender_proceso 1) = (M1, ev1, []) \<and>
    atender_scheduler (\<lambda>_. None) M1 3 (enviar_des_suspender_proceso 1) = (M2, ev2, []) \<and>
    suspension_timer_responde 9 1 (suspension_timer_thread (1, 0) scheduler_bloqueado) (respuesta_en 3 ev1) = Some (S1, out1, []) \<and>
    respuesta_en 9 out1 = enviar_suspender_proceso 1 \<and> abs_mem M1 = abs_mem memoria_chica \<and> abs_mem M2 = abs_mem memoria_chica"
proof -
  let ?b = "pcb_ejemplo\<lparr>estado := BLOCK\<rparr>"
  have b: "pcbs scheduler_bloqueado 1 = Some ?b" "estado ?b = BLOCK" "stdin_pendiente ?b = None" "1 \<in> set (cola_procesos_block scheduler_bloqueado)"
    "\<not> sistema_corrupto scheduler_bloqueado" "1 \<notin> fst ` set (lista_suspendidos scheduler_bloqueado)"
    "\<forall>(q, t) \<in> set (lista_suspendidos scheduler_bloqueado). map_option estado (pcbs scheduler_bloqueado q) \<noteq> Some SUSP_READY" "block_epoch ?b = 0"
    by (simp_all add: scheduler_bloqueado_def scheduler_ejemplo_def pcb_ejemplo_def)
  from suspension_de_punta_a_punta [OF inv_sis_chica chica_lista(4,6) chica_lista(5) [symmetric] chica_lista(7) b(1-7),
      of "\<lambda>c xs. xs" "\<lambda>_. None" 3 9] b(8)
  show ?thesis by metis
qed

end
