(* ===== verification/Sockets.thy ===== *)
theory Sockets
  imports Serializacion
begin

text \<open>
  \<open>utils/src/utils/sockets.c\<close>: the loops that move a buffer through a socket, the packets of
  the old protocol, and the functions that open sockets. The kernel is a parameter: the answers of
  its calls are a list that a function consumes from the left. \<open>None\<close> is a call that does not
  return because no further answer comes, or one that uses memory it does not own. The hexadecimal
  trace of \<open>send_all\<close> is left out.
\<close>

section \<open>Moving a buffer through a socket\<close>

text \<open>
  \<open>send\<close> takes at most what it is offered, and says how much; an answer below 1 is a failure.
  The result is the return value, the bytes that are on the wire, and the answers that are left.
\<close>

fun send_all :: "int list \<Rightarrow> byte list \<Rightarrow> (int \<times> byte list \<times> int list) option" where
  "send_all rcs [] = Some (0, [], rcs)"
| "send_all [] (b # bs) = None"
| "send_all (rc # rcs) (b # bs) =
     (if rc \<le> 0 then Some (- 1, [], rcs)
      else map_option (\<lambda>(r, w, rcs'). (r, take (nat rc) (b # bs) @ w, rcs'))
             (send_all rcs (drop (nat rc) (b # bs))))"

text \<open>
  \<open>recv\<close> gives at most what is asked for and at most what has arrived; 0 is the end of the
  stream. The result is the return value, the bytes copied to the buffer, what is left on the
  socket, and the answers that are left.
\<close>

definition recv_kernel :: "int \<Rightarrow> nat \<Rightarrow> byte list \<Rightarrow> int" where
  "recv_kernel rc n s = min rc (int (min n (length s)))"

fun recv_all :: "int list \<Rightarrow> nat \<Rightarrow> byte list \<Rightarrow> (int \<times> byte list \<times> byte list \<times> int list) option" where
  "recv_all rcs 0 s = Some (0, [], s, rcs)"
| "recv_all [] (Suc n) s = None"
| "recv_all (rc # rcs) (Suc n) s =
     (let k = recv_kernel rc (Suc n) s
      in if k \<le> 0 then Some (- 1, [], s, rcs)
         else map_option (\<lambda>(r, w, s', rcs'). (r, take (nat k) s @ w, s', rcs'))
                (recv_all rcs (Suc n - nat k) (drop (nat k) s)))"

text \<open>A kernel that makes progress: enough answers, none of them a failure.\<close>

definition avanza :: "int list \<Rightarrow> nat \<Rightarrow> bool" where
  "avanza rcs n \<longleftrightarrow> n \<le> length rcs \<and> (\<forall>r \<in> set rcs. 0 < r)"

lemma avanza_Cons:
  assumes "avanza (rc # rcs) (Suc n)"
  shows "0 < rc" "avanza rcs n"
  using assms by (auto simp: avanza_def)

lemma avanza_menos: "avanza rcs n \<Longrightarrow> m \<le> n \<Longrightarrow> avanza rcs m"
  by (auto simp: avanza_def)

lemma send_all_completo:
  "avanza rcs (length bs) \<Longrightarrow> \<exists>rcs'. send_all rcs bs = Some (0, bs, rcs')"
proof (induction rcs bs rule: send_all.induct)
  case (2 b bs)
  then show ?case by (simp add: avanza_def)
next
  case (3 rc rcs b bs)
  have rc: "0 < rc" and av: "avanza rcs (length bs)"
    using 3(2) avanza_Cons [of rc rcs "length bs"] by simp_all
  have "avanza rcs (length (drop (nat rc) (b # bs)))"
    using av by (rule avanza_menos) (use rc in simp)
  then obtain rcs' where "send_all rcs (drop (nat rc) (b # bs)) = Some (0, drop (nat rc) (b # bs), rcs')"
    using 3(1) rc by auto
  then show ?case using rc by simp
qed simp

lemma send_all_prefijo:
  "send_all rcs bs = Some (r, w, rcs') \<Longrightarrow>
     (r = 0 \<and> w = bs) \<or> (r = - 1 \<and> (\<exists>v. v \<noteq> [] \<and> bs = w @ v))"
proof (induction rcs bs arbitrary: r w rcs' rule: send_all.induct)
  case (3 rc rcs b bs)
  show ?case
  proof (cases "rc \<le> 0")
    case False
    then obtain w' where rec: "send_all rcs (drop (nat rc) (b # bs)) = Some (r, w', rcs')"
      and w: "w = take (nat rc) (b # bs) @ w'"
      using 3(2) by (auto split: prod.splits)
    show ?thesis using 3(1) [OF False rec] unfolding w
      by (metis append_assoc append_take_drop_id)
  qed (use 3(2) in auto)
qed simp_all

lemma recv_all_completo:
  "avanza rcs (length bs) \<Longrightarrow> \<exists>rcs'. recv_all rcs (length bs) (bs @ s) = Some (0, bs, s, rcs')"
proof (induction rcs "length bs" "bs @ s" arbitrary: bs rule: recv_all.induct)
  case (1 rcs)
  then show ?case by simp
next
  case (2 n)
  then show ?case by (simp add: avanza_def)
next
  case (3 rc rcs n)
  let ?k = "recv_kernel rc (Suc n) (bs @ s)"
  note av = avanza_Cons [of rc rcs n]
  have rc: "0 < rc" and av: "avanza rcs n" using av 3 by simp_all
  have k: "0 < ?k" "nat ?k \<le> length bs" using rc 3(2) by (auto simp: recv_kernel_def)
  have "avanza rcs (length (drop (nat ?k) bs))"
    using av by (rule avanza_menos) (use k 3(2) in simp)
  then obtain rcs' where
    "recv_all rcs (length (drop (nat ?k) bs)) (drop (nat ?k) bs @ s)
       = Some (0, drop (nat ?k) bs, s, rcs')"
    using 3(1) [of ?k "drop (nat ?k) bs"] k 3(2) by auto
  then show ?case using k 3(2) [symmetric] by (simp add: Let_def)
qed

lemma recv_all_prefijo:
  "recv_all rcs n s = Some (r, w, s', rcs') \<Longrightarrow>
     s = w @ s' \<and> ((r = 0 \<and> length w = n) \<or> (r = - 1 \<and> length w < n))"
proof (induction rcs n s arbitrary: r w s' rcs' rule: recv_all.induct)
  case (3 rc rcs n s)
  let ?k = "recv_kernel rc (Suc n) s"
  show ?case
  proof (cases "?k \<le> 0")
    case False
    then obtain w' where rec: "recv_all rcs (Suc n - nat ?k) (drop (nat ?k) s) = Some (r, w', s', rcs')"
      and w: "w = take (nat ?k) s @ w'"
      using 3(2) by (auto simp: Let_def split: prod.splits)
    have "nat ?k \<le> length s" "nat ?k \<le> Suc n" using False by (auto simp: recv_kernel_def)
    moreover have "drop (nat ?k) s = w' @ s'" using 3(1) [OF refl False rec] by simp
    then have "s = w @ s'" unfolding w by (metis append_assoc append_take_drop_id)
    ultimately show ?thesis using 3(1) [OF refl False rec] False unfolding w by auto
  qed (use 3(2) in auto)
qed auto

text \<open>
  C14. A buffer crosses a socket unchanged however the kernel cuts it: while both ends make
  progress, \<open>send_all\<close> puts exactly its bytes on the wire and \<open>recv_all\<close>, asked for that many,
  returns exactly them and leaves what follows on the socket. Any other way in which \<open>send_all\<close>
  ends reports -1 with a proper prefix sent.
\<close>

theorem transporte_exacto:
  assumes "avanza rcs (length bs)" "avanza qs (length bs)"
  shows "(\<exists>rcs' qs'. send_all rcs bs = Some (0, bs, rcs') \<and>
            recv_all qs (length bs) (bs @ s) = Some (0, bs, s, qs')) \<and>
         (send_all ks bs = Some (r, w, ks') \<longrightarrow>
            (r = 0 \<and> w = bs) \<or> (r = - 1 \<and> (\<exists>v. v \<noteq> [] \<and> bs = w @ v)))"
proof (intro conjI impI)
  show "\<exists>rcs' qs'. send_all rcs bs = Some (0, bs, rcs') \<and>
          recv_all qs (length bs) (bs @ s) = Some (0, bs, s, qs')"
    using send_all_completo [OF assms(1)] recv_all_completo [OF assms(2), of s] by blast
qed (rule send_all_prefijo)

theorem transporte_exacto_witness:
  "\<exists>rcs' qs'. send_all [2, 1, 5] [1, 2, 3] = Some (0, [1, 2, 3], rcs') \<and>
     recv_all [1, 1, 1] 3 [1, 2, 3, 9] = Some (0, [1, 2, 3], [9], qs')"
proof -
  have "avanza [2, 1, 5] (length [1 :: byte, 2, 3])" "avanza [1, 1, 1] (length [1 :: byte, 2, 3])"
    by (simp_all add: avanza_def)
  from transporte_exacto [OF this, of "[9]" "[]" 0 "[]" "[]"] show ?thesis by (simp add: numeral_eq_Suc)
qed

section \<open>Packets of the old protocol\<close>

text \<open>
  The opcode and the size are \<open>int\<close>s; each value is preceded by its own size. The stream of a
  packet has as many bytes as its \<open>size\<close> says.
\<close>

record t_socket_buffer =
  sbuf_size :: i32
  sbuf_stream :: "byte list"

record t_socket_paquete =
  cod_operacion_s :: i32
  sbuffer :: t_socket_buffer

definition MENSAJE :: i32 where "MENSAJE = 0"
definition PAQUETE :: i32 where "PAQUETE = 1"

definition socket_crear_buffer :: t_socket_buffer where
  "socket_crear_buffer = \<lparr>sbuf_size = 0, sbuf_stream = []\<rparr>"

definition socket_crear_paquete :: t_socket_paquete where
  "socket_crear_paquete = \<lparr>cod_operacion_s = PAQUETE, sbuffer = socket_crear_buffer\<rparr>"

definition socket_agregar_a_paquete :: "t_socket_paquete \<Rightarrow> byte list \<Rightarrow> t_socket_paquete" where
  "socket_agregar_a_paquete p valor =
     (let tamanio = of_nat (length valor) :: i32; b = sbuffer p
      in p\<lparr>sbuffer :=
             \<lparr>sbuf_size = sbuf_size b + tamanio + 4,
              sbuf_stream = sbuf_stream b @ bytes_int tamanio @ valor\<rparr>\<rparr>)"

text \<open>The three copies must fit in the \<open>bytes\<close> that are allocated.\<close>

definition socket_serializar_paquete :: "t_socket_paquete \<Rightarrow> i32 \<Rightarrow> byte list option" where
  "socket_serializar_paquete p bytes =
     (if sint bytes < 0 \<or> nat (sint bytes) < 8 + length (sbuf_stream (sbuffer p)) then None
      else Some (bytes_int (cod_operacion_s p) @ bytes_int (sbuf_size (sbuffer p))
                   @ sbuf_stream (sbuffer p)))"

definition socket_enviar_paquete ::
  "int list \<Rightarrow> t_socket_paquete \<Rightarrow> (int \<times> byte list \<times> int list) option" where
  "socket_enviar_paquete rcs p =
     (let bytes = sbuf_size (sbuffer p) + 8
      in Option.bind (socket_serializar_paquete p bytes)
           (\<lambda>a_enviar. send_all rcs (take (nat (sint bytes)) a_enviar)))"

definition bytes_c :: "string \<Rightarrow> byte list" where
  "bytes_c s = map byte_of_char (s @ [NUL])"

text \<open>What \<open>send_all\<close> answered is lost: the function always returns 0.\<close>

definition socket_enviar_paquete_simple ::
  "int list \<Rightarrow> i32 \<Rightarrow> string \<Rightarrow> (int \<times> byte list \<times> int list) option" where
  "socket_enviar_paquete_simple rcs opcode instr =
     (let p = socket_crear_paquete\<lparr>cod_operacion_s := opcode\<rparr>;
          p = socket_agregar_a_paquete p (bytes_c instr)
      in map_option (\<lambda>(r, w, rcs'). (0, w, rcs')) (socket_enviar_paquete rcs p))"

text \<open>The flag is whether the error line was printed.\<close>

definition enviar_mensaje :: "int list \<Rightarrow> string \<Rightarrow> (bool \<times> byte list \<times> int list) option" where
  "enviar_mensaje rcs mensaje_c =
     (let p = \<lparr>cod_operacion_s = MENSAJE,
               sbuffer = \<lparr>sbuf_size = of_nat (length mensaje_c + 1),
                          sbuf_stream = bytes_c mensaje_c\<rparr>\<rparr>;
          bytes = sbuf_size (sbuffer p) + 8
      in Option.bind (socket_serializar_paquete p bytes)
           (\<lambda>a_enviar. map_option (\<lambda>(r, w, rcs'). (r \<noteq> 0, w, rcs'))
              (send_all rcs (take (nat (sint bytes)) a_enviar))))"

text \<open>
  Reading. A short read of a variable leaves it undefined, as in \<open>Serializacion\<close>; the end of the
  stream before the opcode closes the socket (the flag) and gives -1.
\<close>

definition recibir_operacion :: "byte list \<Rightarrow> wire_error + (i32 \<times> bool) \<times> byte list" where
  "recibir_operacion s =
     (if s = [] then Inr ((- 1, True), [])
      else recv_bind recv_int (\<lambda>cod_op. recv_ret (cod_op, False)) s)"

text \<open>A negative size is a huge one for \<open>malloc\<close>, and the data are read to a null pointer.\<close>

definition recibir_buffer :: "(i32 \<times> byte list) recv" where
  "recibir_buffer =
     recv_bind recv_int
       (\<lambda>n. if sint n < 0 then (\<lambda>s. Inl BufferInvalido)
            else recv_bind (recv_bytes (nat (sint n))) (\<lambda>bs. recv_ret (n, bs)))"

definition socket_recibir_mensaje :: "string recv" where
  "socket_recibir_mensaje =
     recv_bind recibir_buffer (\<lambda>(n, bs). recv_ret (cstr (map char_of_byte bs)))"

text \<open>
  The loop of \<open>recibir_paquete\<close> on what is left of the buffer. A size that is negative, cut or
  larger than what is left makes it read outside the buffer.
\<close>

function desempaquetar :: "byte list \<Rightarrow> byte list list option" where
  "desempaquetar bs =
     (if bs = [] then Some []
      else if length bs < 4 then None
      else let tamanio = sint (word_le (take 4 bs) :: i32); resto = drop 4 bs
           in if tamanio < 0 \<or> int (length resto) < tamanio then None
              else map_option ((#) (take (nat tamanio) resto)) (desempaquetar (drop (nat tamanio) resto)))"
  by pat_completeness auto
termination by (relation "measure length") auto

declare desempaquetar.simps [simp del]

definition recibir_paquete :: "byte list list recv" where
  "recibir_paquete =
     recv_bind recibir_buffer
       (\<lambda>(n, bs). case desempaquetar bs of
            None \<Rightarrow> (\<lambda>s. Inl BufferInvalido)
          | Some valores \<Rightarrow> recv_ret valores)"

lemma desempaquetar_agregado:
  assumes "length v < 2 ^ 31"
  shows "desempaquetar (bytes_int (of_nat (length v)) @ v @ bs) = map_option ((#) v) (desempaquetar bs)"
proof -
  have "sint (of_nat (length v) :: i32) = int (length v)"
    using assms by (simp add: sint_of_nat_small)
  then show ?thesis
    using length_bytes_le [of 4 "of_nat (length v) :: i32"]
    by (subst desempaquetar.simps) (auto simp: bytes_int_def Let_def simp del: length_bytes_le)
qed

text \<open>The packet of a list of values, and what its receiver reads.\<close>

definition bytes_valores :: "byte list list \<Rightarrow> byte list" where
  "bytes_valores vs = concat (map (\<lambda>v. bytes_int (of_nat (length v)) @ v) vs)"

lemma agregar_valores:
  "sbuf_stream (sbuffer (fold (\<lambda>v p. socket_agregar_a_paquete p v) vs p))
     = sbuf_stream (sbuffer p) @ bytes_valores vs"
  "sbuf_size (sbuffer p) = of_nat (length (sbuf_stream (sbuffer p))) \<Longrightarrow>
   sbuf_size (sbuffer (fold (\<lambda>v p. socket_agregar_a_paquete p v) vs p))
     = of_nat (length (sbuf_stream (sbuffer p) @ bytes_valores vs))"
  "cod_operacion_s (fold (\<lambda>v p. socket_agregar_a_paquete p v) vs p) = cod_operacion_s p"
proof (induction vs arbitrary: p)
  case (Cons v vs)
  { case 1 show ?case
      by (simp add: Cons.IH(1)) (simp add: bytes_valores_def socket_agregar_a_paquete_def Let_def)
  next
    case 2
    then have "sbuf_size (sbuffer (socket_agregar_a_paquete p v))
                 = of_nat (length (sbuf_stream (sbuffer (socket_agregar_a_paquete p v))))"
      by (simp add: socket_agregar_a_paquete_def Let_def bytes_int_def)
    from Cons.IH(2) [OF this] show ?case
      by (simp add: bytes_valores_def) (simp add: socket_agregar_a_paquete_def Let_def)
  next
    case 3 show ?case by (simp add: Cons.IH(3)) (simp add: socket_agregar_a_paquete_def Let_def)
  }
qed (simp_all add: bytes_valores_def)

lemma desempaquetar_valores:
  "\<forall>v \<in> set vs. length v < 2 ^ 31 \<Longrightarrow> desempaquetar (bytes_valores vs) = Some vs"
proof (induction vs)
  case Nil
  then show ?case by (simp add: bytes_valores_def desempaquetar.simps [of "[]"])
next
  case (Cons v vs)
  then show ?case by (simp add: bytes_valores_def desempaquetar_agregado)
qed

text \<open>
  A packet built by adding values and sent is read back as the same values: the receiver takes the
  opcode with \<open>recibir_operacion\<close> and the rest with \<open>recibir_paquete\<close>.
\<close>

theorem socket_paquete_ida_y_vuelta:
  assumes tam: "length (bytes_valores vs) + 8 < 2 ^ 31"
    and av: "avanza rcs (length (bytes_valores vs) + 8)"
  shows "\<exists>w rcs'. socket_enviar_paquete rcs
              (fold (\<lambda>v p. socket_agregar_a_paquete p v) vs socket_crear_paquete) = Some (0, w, rcs') \<and>
           recv_bind recibir_operacion (\<lambda>c. recv_bind recibir_paquete (\<lambda>vs. recv_ret (c, vs))) (w @ s)
             = Inr (((PAQUETE, False), vs), s)"
proof -
  let ?p = "fold (\<lambda>v p. socket_agregar_a_paquete p v) vs socket_crear_paquete"
  let ?n = "length (bytes_valores vs)"
  let ?w = "bytes_int PAQUETE @ bytes_int (of_nat ?n) @ bytes_valores vs"
  have p: "sbuf_stream (sbuffer ?p) = bytes_valores vs" "sbuf_size (sbuffer ?p) = of_nat ?n"
    "cod_operacion_s ?p = PAQUETE"
    using agregar_valores [where vs = vs and p = socket_crear_paquete]
    by (simp_all add: socket_crear_paquete_def socket_crear_buffer_def)
  have "sint (of_nat (?n + 8) :: i32) = int (?n + 8)"
    using tam by (intro sint_of_nat_small) simp
  then have n8: "sint (of_nat ?n + 8 :: i32) = int ?n + 8" by simp
  have len: "length ?w = ?n + 8" by (simp add: bytes_int_def)
  have "avanza rcs (length ?w)" unfolding len by (rule av)
  from send_all_completo [OF this] obtain rcs' where "send_all rcs ?w = Some (0, ?w, rcs')" ..
  then have env: "socket_enviar_paquete rcs ?p = Some (0, ?w, rcs')"
    using n8 len by (simp add: socket_enviar_paquete_def socket_serializar_paquete_def p Let_def
        nat_add_distrib bytes_int_def)
  have chico: "v \<in> set vs \<Longrightarrow> length v < 2 ^ 31" for v
  proof -
    assume "v \<in> set vs"
    then have "length v \<le> ?n"
      by (induction vs) (auto simp: bytes_valores_def bytes_int_def)
    then show ?thesis using tam by simp
  qed
  have n: "sint (of_nat ?n :: i32) = int ?n" using tam by (intro sint_of_nat_small) simp
  have "?w @ s \<noteq> []" using len by (metis Nil_is_append_conv length_0_conv add_is_0 zero_neq_numeral)
  then have "recibir_operacion (?w @ s) = Inr ((PAQUETE, False), bytes_int (of_nat ?n) @ bytes_valores vs @ s)"
    by (simp add: recibir_operacion_def wire_simps)
  moreover have "recibir_paquete (bytes_int (of_nat ?n) @ bytes_valores vs @ s) = Inr (vs, s)"
    using chico n by (simp add: recibir_paquete_def recibir_buffer_def recv_bind_def wire_simps
        desempaquetar_valores)
  ultimately have "recv_bind recibir_operacion (\<lambda>c. recv_bind recibir_paquete (\<lambda>vs. recv_ret (c, vs))) (?w @ s)
      = Inr (((PAQUETE, False), vs), s)"
    by (simp add: recv_bind_def wire_simps)
  with env show ?thesis by blast
qed

section \<open>Names of files\<close>

text \<open>\<open>"<file>:<tag>"\<close> is cut at the first colon; without one the answer is -1.\<close>

definition split_file_tag :: "string \<Rightarrow> (string \<times> string) option" where
  "split_file_tag filetag =
     (if CHR '':'' \<notin> set filetag then None
      else let len_file = length (takeWhile (\<lambda>c. c \<noteq> CHR '':'') filetag)
           in Some (take len_file filetag, drop (Suc len_file) filetag))"

theorem split_file_tag_correcto:
  "split_file_tag s = Some (f, t) \<longleftrightarrow> s = f @ CHR '':'' # t \<and> CHR '':'' \<notin> set f"
proof (cases "CHR '':'' \<in> set s")
  case True
  then obtain a b where s: "s = a @ CHR '':'' # b" "CHR '':'' \<notin> set a"
    by (meson split_list_first)
  then have "takeWhile (\<lambda>c. c \<noteq> CHR '':'') s = a" by (auto simp: takeWhile_append)
  moreover have "s = f @ CHR '':'' # t \<and> CHR '':'' \<notin> set f \<longleftrightarrow> f = a \<and> t = b"
    using s by (auto simp: append_eq_append_conv2 append_eq_Cons_conv Cons_eq_append_conv)
  ultimately show ?thesis using True s by (auto simp: split_file_tag_def)
qed (auto simp: split_file_tag_def)

section \<open>Opening sockets\<close>

text \<open>
  The descriptors of the process are part of the state: a list of the open ones. \<open>gai\<close> is the
  answer of \<open>getaddrinfo\<close>; when it fails the code follows an undefined pointer (\<open>None\<close>).
\<close>

record t_respuestas_red =
  r_gai :: int
  r_socket :: int
  r_bind :: int
  r_listen :: int
  r_connect :: int

text \<open>
  The error of \<open>bind\<close> is overwritten by the answer of \<open>listen\<close>; the socket is returned in any
  case. The flag is whether the error line was printed.
\<close>

definition iniciar_servidor :: "t_respuestas_red \<Rightarrow> int list \<Rightarrow> (int \<times> bool \<times> int list) option" where
  "iniciar_servidor r fds =
     (if r_gai r \<noteq> 0 then None
      else let socket_servidor = r_socket r;
               fds = (if socket_servidor = - 1 then fds else socket_servidor # fds);
               err = (0 :: int);
               err = r_bind r;
               err = r_listen r
           in Some (socket_servidor, err \<noteq> 0, fds))"

definition crear_conexion :: "t_respuestas_red \<Rightarrow> int list \<Rightarrow> (int \<times> int list) option" where
  "crear_conexion r fds =
     (if r_gai r \<noteq> 0 then None
      else let socket_cliente = r_socket r;
               fds = (if socket_cliente = - 1 then fds else socket_cliente # fds)
           in Some (if r_connect r < 0 then - 1 else socket_cliente, fds))"

definition liberar_conexion :: "int \<Rightarrow> int list \<Rightarrow> int list" where
  "liberar_conexion socket_cliente fds = filter (\<lambda>d. d \<noteq> socket_cliente) fds"

text \<open>A port that is taken is not noticed when \<open>listen\<close> succeeds.\<close>

lemma iniciar_servidor_oculta_bind:
  "r_gai r = 0 \<Longrightarrow> r_listen r = 0 \<Longrightarrow> r_socket r \<noteq> - 1 \<Longrightarrow>
   iniciar_servidor r fds = Some (r_socket r, False, r_socket r # fds)"
  by (simp add: iniciar_servidor_def Let_def)

text \<open>
  The retry loops \<open>while ((sock = crear_conexion(ip, puerto)) == -1) sleep(1)\<close> of
  \<open>conectar_a_memory\<close> (\<open>cpu_memory.c\<close>) and \<open>conectar_a_scheduler\<close> (\<open>cpu_scheduler.c\<close>), on the answers
  of the attempts.
\<close>

fun esperar_conexion :: "t_respuestas_red list \<Rightarrow> int list \<Rightarrow> (int \<times> int list) option" where
  "esperar_conexion [] fds = None"
| "esperar_conexion (r # rs) fds =
     (case crear_conexion r fds of
        None \<Rightarrow> None
      | Some (sock, fds) \<Rightarrow> if sock = - 1 then esperar_conexion rs fds else Some (sock, fds))"

text \<open>
  The loop ends with the first attempt that connects, and each attempt before it has left a
  descriptor open.
\<close>

theorem esperar_conexion_pierde_descriptores:
  assumes "\<forall>r \<in> set rs. r_gai r = 0 \<and> r_socket r \<noteq> - 1 \<and> r_connect r < 0"
    and "r_gai q = 0" "r_socket q \<noteq> - 1" "0 \<le> r_connect q"
  shows "esperar_conexion (rs @ q # qs) fds = Some (r_socket q, r_socket q # rev (map r_socket rs) @ fds)"
  using assms by (induction rs arbitrary: fds) (auto simp: crear_conexion_def Let_def)

theorem esperar_conexion_pierde_descriptores_witness:
  "esperar_conexion
     ([\<lparr>r_gai = 0, r_socket = 4, r_bind = 0, r_listen = 0, r_connect = - 1\<rparr>,
       \<lparr>r_gai = 0, r_socket = 5, r_bind = 0, r_listen = 0, r_connect = - 1\<rparr>]
      @ \<lparr>r_gai = 0, r_socket = 6, r_bind = 0, r_listen = 0, r_connect = 0\<rparr> # []) [3]
   = Some (6, 6 # rev (map r_socket
      [\<lparr>r_gai = 0, r_socket = 4, r_bind = 0, r_listen = 0, r_connect = - 1\<rparr>,
       \<lparr>r_gai = 0, r_socket = 5, r_bind = 0, r_listen = 0, r_connect = - 1\<rparr>]) @ [3])"
  using esperar_conexion_pierde_descriptores
    [of "[\<lparr>r_gai = 0, r_socket = 4, r_bind = 0, r_listen = 0, r_connect = - 1\<rparr>,
          \<lparr>r_gai = 0, r_socket = 5, r_bind = 0, r_listen = 0, r_connect = - 1\<rparr>]"
        "\<lparr>r_gai = 0, r_socket = 6, r_bind = 0, r_listen = 0, r_connect = 0\<rparr>" "[]" "[3]"]
  by simp

end
