(* ===== verification/Cpu_Ejecucion.thy ===== *)
theory Cpu_Ejecucion
  imports Cpu_Mmu
begin

text \<open>
  Decoding and executing one instruction, \<open>cpu/src/cpu_ciclo.c\<close>. The line is cut by
  \<open>string_split\<close> of the commons library, a parameter here; \<open>atoi\<close>, \<open>isspace\<close>, \<open>isdigit\<close> and the
  \<open>"%u"\<close> of \<open>snprintf\<close> are the C library's. \<open>cantidad_parametros\<close> is the length of the
  parameter list. Registers \<open>AX\<close> to \<open>DX\<close> have 8 bits, the others 32.
\<close>

section \<open>Decode\<close>

record t_instruccion =
  nombre :: string
  parametros :: "string list"
  requiere_mmu :: bool
  inst_es_syscall :: bool
  inst_es_syscall_memoria :: bool

definition es_instruccion_cpu_memoria :: "string \<Rightarrow> bool" where
  "es_instruccion_cpu_memoria n \<longleftrightarrow> n \<in> {''MOV_IN'', ''MOV_OUT'', ''COPY_MEM''}"

definition es_syscall :: "string \<Rightarrow> bool" where
  "es_syscall n \<longleftrightarrow> n \<in> {''SLEEP'', ''STDIN'', ''STDOUT'', ''INIT_PROC'', ''EXIT'', ''MEM_ALLOC'', ''MEM_FREE'',
     ''MUTEX_CREATE'', ''MUTEX_LOCK'', ''MUTEX_UNLOCK''}"

definition es_syscall_memoria :: "string \<Rightarrow> bool" where
  "es_syscall_memoria n \<longleftrightarrow> n \<in> {''STDIN'', ''STDOUT''}"

text \<open>Trailing blanks go, but never the first character.\<close>

definition recortar :: "string \<Rightarrow> string" where
  "recortar s = (case s of [] \<Rightarrow> [] | c # cs \<Rightarrow> c # rev (dropWhile es_espacio (rev cs)))"

text \<open>\<open>None\<close>: no token at all, and \<open>strdup(NULL)\<close> is undefined.\<close>

definition decode_instruccion :: "(string \<Rightarrow> string \<Rightarrow> string list) \<Rightarrow> string \<Rightarrow> t_instruccion option" where
  "decode_instruccion string_split linea =
     (case string_split (recortar linea) '' '' of
        [] \<Rightarrow> None
      | n # ps \<Rightarrow> Some \<lparr>nombre = n, parametros = ps, requiere_mmu = es_instruccion_cpu_memoria n,
                       inst_es_syscall = es_syscall n, inst_es_syscall_memoria = es_syscall_memoria n\<rparr>)"

section \<open>Registers\<close>

definition obtener_valor_registro :: "t_registros \<Rightarrow> string \<Rightarrow> u32" where
  "obtener_valor_registro reg n =
     (if n = ''AX'' then ucast (ax reg)
      else if n = ''BX'' then ucast (bx reg)
      else if n = ''CX'' then ucast (cx reg)
      else if n = ''DX'' then ucast (dx reg)
      else if n = ''EAX'' then eax reg
      else if n = ''EBX'' then ebx reg
      else if n = ''ECX'' then ecx reg
      else if n = ''EDX'' then edx reg
      else if n = ''SI'' then si reg
      else if n = ''DI'' then di reg
      else 0)"

definition asignar_valor_registro :: "t_registros \<Rightarrow> string \<Rightarrow> u32 \<Rightarrow> t_registros" where
  "asignar_valor_registro reg n valor =
     (if n = ''AX'' then reg\<lparr>ax := ucast valor\<rparr>
      else if n = ''BX'' then reg\<lparr>bx := ucast valor\<rparr>
      else if n = ''CX'' then reg\<lparr>cx := ucast valor\<rparr>
      else if n = ''DX'' then reg\<lparr>dx := ucast valor\<rparr>
      else if n = ''EAX'' then reg\<lparr>eax := valor\<rparr>
      else if n = ''EBX'' then reg\<lparr>ebx := valor\<rparr>
      else if n = ''ECX'' then reg\<lparr>ecx := valor\<rparr>
      else if n = ''EDX'' then reg\<lparr>edx := valor\<rparr>
      else if n = ''SI'' then reg\<lparr>si := valor\<rparr>
      else if n = ''DI'' then reg\<lparr>di := valor\<rparr>
      else reg)"

definition sizeof_registro :: "string \<Rightarrow> u32" where
  "sizeof_registro n = (if n \<in> {''AX'', ''BX'', ''CX'', ''DX''} then 1 else 4)"

section \<open>Execute\<close>

text \<open>
  What an instruction can touch: the context and the sticks. The flag of the outcome is
  \<open>pc_modificado\<close>.
\<close>

record t_maquina =
  mq_smax :: u32
  mq_sticks :: "t_cpu_stick list"
  mq_red :: red
  mq_ctx :: t_contexto

type_synonym t_salida = "t_maquina \<times> evento list \<times> t_resultado_execute \<times> bool"

definition con_registros :: "t_maquina \<Rightarrow> (t_registros \<Rightarrow> t_registros) \<Rightarrow> t_maquina" where
  "con_registros q f = q\<lparr>mq_ctx := (mq_ctx q)\<lparr>registros_ctx := f (registros_ctx (mq_ctx q))\<rparr>\<rparr>"

definition ejecutar_mov_in :: "t_instruccion \<Rightarrow> t_maquina \<Rightarrow> t_salida" where
  "ejecutar_mov_in instr q =
     (case parametros instr of
        [] \<Rightarrow> (q, [], ERROR, False)
      | reg # _ \<Rightarrow>
          let (r', ev, res, dato) = mmu_leer (mq_smax q) (mq_sticks q) (mq_red q) (mq_ctx q)
                (si (registros_ctx (mq_ctx q))) (sizeof_registro reg);
              q' = q\<lparr>mq_red := r'\<rparr>
          in if res \<noteq> CONTINUAR then (q', ev, res, False)
             else (con_registros q' (\<lambda>rs. asignar_valor_registro rs reg (word_le dato)), ev, CONTINUAR, False))"

definition ejecutar_mov_out :: "t_instruccion \<Rightarrow> t_maquina \<Rightarrow> t_salida" where
  "ejecutar_mov_out instr q =
     (case parametros instr of
        [] \<Rightarrow> (q, [], ERROR, False)
      | reg # _ \<Rightarrow>
          let tamanio = sizeof_registro reg;
              valor = obtener_valor_registro (registros_ctx (mq_ctx q)) reg;
              (r', ev, res) = mmu_escribir (mq_smax q) (mq_sticks q) (mq_red q) (mq_ctx q)
                (di (registros_ctx (mq_ctx q))) (take (unat tamanio) (bytes_u32 valor)) tamanio
          in (q\<lparr>mq_red := r'\<rparr>, ev, res, False))"

definition ejecutar_copy_mem :: "t_instruccion \<Rightarrow> t_maquina \<Rightarrow> t_salida" where
  "ejecutar_copy_mem instr q =
     (case parametros instr of
        [] \<Rightarrow> (q, [], ERROR, False)
      | reg # _ \<Rightarrow>
          let tamanio = obtener_valor_registro (registros_ctx (mq_ctx q)) reg;
              (r', ev, res, dato) = mmu_leer (mq_smax q) (mq_sticks q) (mq_red q) (mq_ctx q)
                (si (registros_ctx (mq_ctx q))) tamanio
          in if res \<noteq> CONTINUAR then (q\<lparr>mq_red := r'\<rparr>, ev, res, False)
             else
               let (r'', ev', res') = mmu_escribir (mq_smax q) (mq_sticks q) r' (mq_ctx q)
                     (di (registros_ctx (mq_ctx q))) dato tamanio
               in (q\<lparr>mq_red := r''\<rparr>, ev @ ev', res', False))"

definition ejecutar_instruccion_mmu :: "t_instruccion \<Rightarrow> t_maquina \<Rightarrow> t_salida" where
  "ejecutar_instruccion_mmu instr q =
     (if nombre instr = ''MOV_IN'' then ejecutar_mov_in instr q
      else if nombre instr = ''MOV_OUT'' then ejecutar_mov_out instr q
      else if nombre instr = ''COPY_MEM'' then ejecutar_copy_mem instr q
      else (q, [], ERROR, False))"

definition ejecutar_noop :: t_resultado_execute where
  "ejecutar_noop = CONTINUAR"

definition ejecutar_set :: "t_instruccion \<Rightarrow> t_maquina \<Rightarrow> t_salida" where
  "ejecutar_set instr q =
     (case parametros instr of
        reg # v # _ \<Rightarrow>
          let valor = atoi v
          in if reg = ''PC'' then (con_registros q (\<lambda>rs. rs\<lparr>pc := valor\<rparr>), [], CONTINUAR, True)
             else (con_registros q (\<lambda>rs. asignar_valor_registro rs reg valor), [], CONTINUAR, False)
      | _ \<Rightarrow> (q, [], ERROR, False))"

definition operando :: "t_registros \<Rightarrow> string \<Rightarrow> u32" where
  "operando rs orig = (if orig \<noteq> [] \<and> es_digito (hd orig) then atoi orig else obtener_valor_registro rs orig)"

definition ejecutar_sum :: "t_instruccion \<Rightarrow> t_maquina \<Rightarrow> t_salida" where
  "ejecutar_sum instr q =
     (case parametros instr of
        dest # orig # _ \<Rightarrow>
          (con_registros q (\<lambda>rs. asignar_valor_registro rs dest (obtener_valor_registro rs dest + operando rs orig)), [], CONTINUAR, False)
      | _ \<Rightarrow> (q, [], ERROR, False))"

definition ejecutar_sub :: "t_instruccion \<Rightarrow> t_maquina \<Rightarrow> t_salida" where
  "ejecutar_sub instr q =
     (case parametros instr of
        dest # orig # _ \<Rightarrow>
          (con_registros q (\<lambda>rs. asignar_valor_registro rs dest (obtener_valor_registro rs dest - operando rs orig)), [], CONTINUAR, False)
      | _ \<Rightarrow> (q, [], ERROR, False))"

definition ejecutar_jnz :: "t_instruccion \<Rightarrow> t_maquina \<Rightarrow> t_salida" where
  "ejecutar_jnz instr q =
     (case parametros instr of
        reg # nueva # _ \<Rightarrow>
          if obtener_valor_registro (registros_ctx (mq_ctx q)) reg \<noteq> 0
          then (con_registros q (\<lambda>rs. rs\<lparr>pc := atoi nueva\<rparr>), [], CONTINUAR, True)
          else (q, [], CONTINUAR, False)
      | _ \<Rightarrow> (q, [], ERROR, False))"

definition resolver_parametros_syscall_io :: "string \<Rightarrow> string list \<Rightarrow> t_registros \<Rightarrow> string list" where
  "resolver_parametros_syscall_io nombre_syscall params rs =
     (if nombre_syscall \<noteq> ''STDOUT'' \<and> nombre_syscall \<noteq> ''STDIN'' \<or> length params < 2 then params
      else map (\<lambda>p. digitos (unat (obtener_valor_registro rs p))) (take 2 params) @ drop 2 params)"

definition execute_instruccion :: "t_instruccion \<Rightarrow> t_maquina \<Rightarrow> t_maquina \<times> evento list \<times> t_resultado_execute" where
  "execute_instruccion instr q =
     (let n = nombre instr;
          salida = (if n = ''NOOP'' then Some (q, [], ejecutar_noop, False)
             else if n = ''SET'' then Some (ejecutar_set instr q)
             else if n = ''SUM'' then Some (ejecutar_sum instr q)
             else if n = ''SUB'' then Some (ejecutar_sub instr q)
             else if n = ''JNZ'' then Some (ejecutar_jnz instr q)
             else if requiere_mmu instr then Some (ejecutar_instruccion_mmu instr q)
             else if n = ''EXIT'' then Some (q, [], EXIT_PROCESO, False)
             else if inst_es_syscall instr then Some (q, [], SYSCALL, False)
             else None)
      in case salida of
           None \<Rightarrow> (q, [], ERROR)
         | Some (q', ev, res, pc_modificado) \<Rightarrow>
             (if pc_modificado then q' else con_registros q' (\<lambda>rs. rs\<lparr>pc := pc rs + 1\<rparr>), ev, res))"

section \<open>Decimal numbers\<close>

lemma of_char_digito: "k < 10 \<Longrightarrow> of_char (char_of (48 + k) :: char) = 48 + k" for k :: nat
  by simp

lemma digitos_ok:
  "digitos n \<noteq> [] \<and> list_all es_digito (digitos n) \<and> valor_digitos (digitos n) = int n"
proof (induction n rule: digitos.induct)
  case (1 n)
  show ?case
  proof (cases "n < 10")
    case True
    then show ?thesis by (simp add: digitos.simps [of n] es_digito_def valor_digitos_def of_char_digito Let_def)
  next
    case False
    have "int n = 10 * int (n div 10) + int (n mod 10)" by presburger
    then show ?thesis
      using 1 [OF False] False
      by (simp add: digitos.simps [of n] es_digito_def valor_digitos_def of_char_digito Let_def)
  qed
qed

lemma takeWhile_all: "list_all P xs \<Longrightarrow> takeWhile P xs = xs"
  by (induction xs) auto

lemma atoi_digitos:
  assumes "n < 2 ^ 32"
  shows "atoi (digitos n) = of_nat n"
proof -
  obtain c cs where c: "digitos n = c # cs" using digitos_ok [of n] by (cases "digitos n") auto
  then have d: "es_digito c" using digitos_ok [of n] by simp
  then have "\<not> es_espacio c" "c \<noteq> CHR ''-''" "c \<noteq> CHR ''+''" by (auto simp: es_digito_def es_espacio_def Let_def)
  moreover have t: "takeWhile es_digito (c # cs) = c # cs" "valor_digitos (c # cs) = int n"
    using c digitos_ok [of n] takeWhile_all [of es_digito "digitos n"] by simp_all
  ultimately show ?thesis
    using c assms by (simp add: atoi_def Let_def t del: takeWhile.simps)
qed

section \<open>Registers\<close>

definition registros_8 :: "string set" where
  "registros_8 = {''AX'', ''BX'', ''CX'', ''DX''}"

definition registros_32 :: "string set" where
  "registros_32 = {''EAX'', ''EBX'', ''ECX'', ''EDX'', ''SI'', ''DI''}"

text \<open>What a register keeps of a 32-bit value.\<close>

definition ancho :: "string \<Rightarrow> u32 \<Rightarrow> u32" where
  "ancho n v = (if n \<in> registros_8 then ucast (ucast v :: byte) else if n \<in> registros_32 then v else 0)"

lemma obtener_asignar:
  "obtener_valor_registro (asignar_valor_registro rs n v) m =
    (if m = n then ancho n v else obtener_valor_registro rs m)"
  by (auto simp: obtener_valor_registro_def asignar_valor_registro_def ancho_def registros_8_def registros_32_def)

lemma pc_asignar [simp]: "pc (asignar_valor_registro rs n v) = pc rs"
  by (simp add: asignar_valor_registro_def)

lemma obtener_pc [simp]: "obtener_valor_registro (rs\<lparr>pc := v\<rparr>) n = obtener_valor_registro rs n"
  by (simp add: obtener_valor_registro_def)

lemma ancho_obtener: "ancho n (obtener_valor_registro rs n) = obtener_valor_registro rs n"
  by (auto simp: ancho_def registros_8_def registros_32_def obtener_valor_registro_def)

text \<open>Addition and subtraction are exact modulo the width of the register.\<close>

lemma ancho_sub_sum: "ancho n (ancho n (v + w) - w) = ancho n v"
  by (auto simp: ancho_def ucast_byte_add ucast_byte_diff)

section \<open>Properties\<close>

text \<open>
  The registers of \<open>STDIN\<close> and \<open>STDOUT\<close> travel to the scheduler as decimal strings: the
  first two parameters of the returned syscall read back, with \<open>atoi\<close>, as the values of the
  registers they name; the number of parameters and the others are unchanged.
\<close>

theorem parametros_resueltos:
  assumes "n \<in> {''STDIN'', ''STDOUT''}" "2 \<le> length params"
  shows "length (resolver_parametros_syscall_io n params rs) = length params \<and>
    (\<forall>k < length params. if k < 2 then atoi (resolver_parametros_syscall_io n params rs ! k) = obtener_valor_registro rs (params ! k)
       else resolver_parametros_syscall_io n params rs ! k = params ! k)"
proof -
  have "resolver_parametros_syscall_io n params rs =
      map (\<lambda>p. digitos (unat (obtener_valor_registro rs p))) (take 2 params) @ drop 2 params"
    using assms by (auto simp: resolver_parametros_syscall_io_def)
  moreover have "Suc (Suc (k - 2)) = k" if "\<not> k < 2" for k using that by simp
  ultimately show ?thesis
    using assms(2) atoi_digitos [OF unat_u32_less] by (auto simp: nth_append min_def)
qed

lemma parametros_resueltos_witness:
  "atoi (resolver_parametros_syscall_io ''STDOUT'' [''SI'', ''AX''] (registros_ctx contexto_ejemplo\<lparr>si := 1234\<rparr>) ! 0) = 1234"
proof -
  have "''STDOUT'' \<in> {''STDIN'', ''STDOUT''}" "2 \<le> length [''SI'', ''AX'']" by simp_all
  from parametros_resueltos [OF this, of "registros_ctx contexto_ejemplo\<lparr>si := 1234\<rparr>"] show ?thesis
    by (simp add: obtener_valor_registro_def)
qed


section \<open>Register to memory and back\<close>

lemma bit_byte: "bit (b :: byte) k \<Longrightarrow> k < 8"
  using bit_imp_le_length [of b k] by simp

lemma word_le_byte: "word_le (take 1 (bytes_u32 (ucast (b :: byte) :: u32))) = (ucast b :: u32)"
  by (rule bit_word_eqI) (auto simp: bytes_u32_def bytes_le_def bit_simps upt_rec [of 0] dest: bit_byte)

lemma word_le_registro:
  "word_le (take (unat (sizeof_registro n)) (bytes_u32 (obtener_valor_registro rs n))) = obtener_valor_registro rs n"
proof (cases "n \<in> registros_8")
  case True
  then obtain b :: byte where "obtener_valor_registro rs n = ucast b"
    by (auto simp: registros_8_def obtener_valor_registro_def)
  then show ?thesis using True word_le_byte [of b] by (auto simp: sizeof_registro_def registros_8_def)
next
  case False
  then have "sizeof_registro n = 4" by (auto simp: sizeof_registro_def registros_8_def)
  then show ?thesis by (simp add: bytes_u32_def)
qed

lemma con_registros_sel [simp]:
  "registros_ctx (mq_ctx (con_registros q f)) = f (registros_ctx (mq_ctx q))"
  "pid_ctx (mq_ctx (con_registros q f)) = pid_ctx (mq_ctx q)"
  "tabla_segmentos (mq_ctx (con_registros q f)) = tabla_segmentos (mq_ctx q)"
  "mq_red (con_registros q f) = mq_red q" "mq_sticks (con_registros q f) = mq_sticks q" "mq_smax (con_registros q f) = mq_smax q"
  by (simp_all add: con_registros_def)

lemma asignar_si_di [simp]:
  "n \<noteq> ''SI'' \<Longrightarrow> si (asignar_valor_registro rs n v) = si rs" "n \<noteq> ''DI'' \<Longrightarrow> di (asignar_valor_registro rs n v) = di rs"
  by (auto simp: asignar_valor_registro_def)

text \<open>An access depends on the process and its segments, not on its registers.\<close>

lemma mmu_leer_contexto:
  "pid_ctx c = pid_ctx c' \<Longrightarrow> tabla_segmentos c = tabla_segmentos c' \<Longrightarrow> mmu_leer smax ms r c = mmu_leer smax ms r c'"
  by (intro ext) (simp add: mmu_leer_def mmu_traducir_dir_logica_def mmu_traducir_def buscar_segmento_def cong: option.case_cong)

lemma unat_sizeof: "unat (sizeof_registro n) = (if n \<in> registros_8 then 1 else 4)"
  by (auto simp: sizeof_registro_def registros_8_def)


text \<open>
  Register arithmetic. \<open>SUM\<close> leaves in the destination the sum modulo the width of the
  register (8 bits for \<open>AX\<close> to \<open>DX\<close>, 32 for the others), touches no other register and
  advances the program counter; a \<open>SUB\<close> of the same operand after it restores every
  register. The operand is an immediate when it starts with a digit, a register otherwise.
\<close>

theorem sum_y_sub:
  assumes "nombre i = ''SUM''" "parametros i = dest # orig # xs" "nombre j = ''SUB''" "parametros j = dest # orig # ys"
    and "dest \<in> registros_8 \<union> registros_32" "orig \<noteq> dest"
  shows "\<exists>q1 q2. execute_instruccion i q = (q1, [], CONTINUAR) \<and> execute_instruccion j q1 = (q2, [], CONTINUAR) \<and>
    (\<forall>m. obtener_valor_registro (registros_ctx (mq_ctx q1)) m =
       (if m = dest then ancho dest (obtener_valor_registro (registros_ctx (mq_ctx q)) dest + operando (registros_ctx (mq_ctx q)) orig)
        else obtener_valor_registro (registros_ctx (mq_ctx q)) m)) \<and>
    (\<forall>m. obtener_valor_registro (registros_ctx (mq_ctx q2)) m = obtener_valor_registro (registros_ctx (mq_ctx q)) m) \<and>
    pc (registros_ctx (mq_ctx q1)) = pc (registros_ctx (mq_ctx q)) + 1 \<and>
    pc (registros_ctx (mq_ctx q2)) = pc (registros_ctx (mq_ctx q)) + 2"
proof -
  let ?rs = "registros_ctx (mq_ctx q)" and ?o = "operando (registros_ctx (mq_ctx q)) orig"
  let ?r1 = "asignar_valor_registro ?rs dest (obtener_valor_registro ?rs dest + ?o)"
  have "operando (?r1\<lparr>pc := v\<rparr>) orig = ?o" for v
    using assms(6) by (auto simp: operando_def obtener_asignar)
  moreover have "ancho dest (ancho dest (obtener_valor_registro ?rs dest + ?o) - ?o) = obtener_valor_registro ?rs dest"
    by (simp add: ancho_sub_sum ancho_obtener)
  ultimately show ?thesis
    using assms(1-4,6) by (auto simp: execute_instruccion_def ejecutar_sum_def ejecutar_sub_def obtener_asignar Let_def)
qed

definition instruccion_de :: "string \<Rightarrow> string list \<Rightarrow> t_instruccion" where
  "instruccion_de n ps = \<lparr>nombre = n, parametros = ps, requiere_mmu = es_instruccion_cpu_memoria n,
     inst_es_syscall = es_syscall n, inst_es_syscall_memoria = es_syscall_memoria n\<rparr>"

lemma instruccion_de_sel [simp]:
  "nombre (instruccion_de n ps) = n" "parametros (instruccion_de n ps) = ps" "requiere_mmu (instruccion_de n ps) = es_instruccion_cpu_memoria n"
  by (simp_all add: instruccion_de_def)

definition maquina_ejemplo :: t_maquina where
  "maquina_ejemplo = \<lparr>mq_smax = 8, mq_sticks = sticks_cpu_ejemplo, mq_red = red_ejemplo,
     mq_ctx = contexto_ejemplo\<lparr>registros_ctx := (registros_ctx contexto_ejemplo)\<lparr>ax := 100\<rparr>\<rparr>\<rparr>"

lemma operando_ejemplo: "operando rs ''200'' = 200"
  by (simp add: operando_def es_digito_def atoi_def valor_digitos_def es_espacio_def)

lemma sum_y_sub_witness:
  "\<exists>q1. execute_instruccion (instruccion_de ''SUM'' [''AX'', ''200'']) maquina_ejemplo = (q1, [], CONTINUAR) \<and>
    obtener_valor_registro (registros_ctx (mq_ctx q1)) ''AX'' = 44"
proof -
  have a: "''AX'' \<in> registros_8 \<union> registros_32" "''200'' \<noteq> ''AX''" by (simp_all add: registros_8_def)
  have v: "ancho ''AX'' (obtener_valor_registro (registros_ctx (mq_ctx maquina_ejemplo)) ''AX'' + 200) = 44"
    by (simp add: ancho_def registros_8_def obtener_valor_registro_def maquina_ejemplo_def)
  obtain q1 where "execute_instruccion (instruccion_de ''SUM'' [''AX'', ''200'']) maquina_ejemplo = (q1, [], CONTINUAR)"
    "obtener_valor_registro (registros_ctx (mq_ctx q1)) ''AX'' =
      ancho ''AX'' (obtener_valor_registro (registros_ctx (mq_ctx maquina_ejemplo)) ''AX'' + operando (registros_ctx (mq_ctx maquina_ejemplo)) ''200'')"
    using sum_y_sub [of "instruccion_de ''SUM'' [''AX'', ''200'']" "''AX''" "''200''" "[]" "instruccion_de ''SUB'' [''AX'', ''200'']" "[]" maquina_ejemplo]
      a by auto
  then show ?thesis unfolding operando_ejemplo v by blast
qed

text \<open>
  C34. \<open>MOV_OUT\<close> then \<open>MOV_IN\<close>. With \<open>SI = DI\<close> pointing inside a segment that lies in the RAM,
  storing a register and loading another of the same size succeeds and leaves in the second
  the value of the first; the memory has changed only at the stored bytes, and the program
  counter has advanced by two.
\<close>

theorem mov_out_y_mov_in:
  assumes i: "nombre i = ''MOV_OUT''" "requiere_mmu i" "parametros i = ra # xs"
    and j: "nombre j = ''MOV_IN''" "requiere_mmu j" "parametros j = rb # ys"
    and r: "sizeof_registro ra = sizeof_registro rb" "rb \<in> registros_8 \<union> registros_32"
    and ok: "red_ok (como_conexiones (mq_sticks q)) (mq_red q)"
    and d: "si (registros_ctx (mq_ctx q)) = di (registros_ctx (mq_ctx q))" "d = di (registros_ctx (mq_ctx q))"
    and seg: "buscar_segmento (mq_ctx q) (d div mq_smax q) = Some g"
    and lim: "unat (d mod mq_smax q) + unat (sizeof_registro ra) \<le> unat (limite g)"
      "unat (base g) + unat (limite g) \<le> ram (como_conexiones (mq_sticks q))"
  shows "\<exists>q1 q2. execute_instruccion i q = (q1, [], CONTINUAR) \<and> execute_instruccion j q1 = (q2, [], CONTINUAR) \<and>
    obtener_valor_registro (registros_ctx (mq_ctx q2)) rb = obtener_valor_registro (registros_ctx (mq_ctx q)) ra \<and>
    memoria_fisica (como_conexiones (mq_sticks q)) (mq_red q2) =
      copiar_en (memoria_fisica (como_conexiones (mq_sticks q)) (mq_red q)) (unat (base g) + unat (d mod mq_smax q))
        (take (unat (sizeof_registro ra)) (bytes_u32 (obtener_valor_registro (registros_ctx (mq_ctx q)) ra))) \<and>
    pc (registros_ctx (mq_ctx q2)) = pc (registros_ctx (mq_ctx q)) + 2"
proof -
  let ?v = "obtener_valor_registro (registros_ctx (mq_ctx q)) ra" and ?t = "sizeof_registro ra"
  let ?x = "take (unat ?t) (bytes_u32 ?v)"
  have x: "length ?x = unat ?t" by (simp add: unat_sizeof)
  obtain r' where w: "mmu_escribir (mq_smax q) (mq_sticks q) (mq_red q) (mq_ctx q) d ?x ?t = (r', [], CONTINUAR)"
    "memoria_fisica (como_conexiones (mq_sticks q)) r' =
      copiar_en (memoria_fisica (como_conexiones (mq_sticks q)) (mq_red q)) (unat (base g) + unat (d mod mq_smax q)) ?x"
    "mmu_leer (mq_smax q) (mq_sticks q) r' (mq_ctx q) d ?t = (r', [], CONTINUAR, ?x)"
    using mmu_escribir_leer [OF ok seg lim x] by blast
  let ?q1 = "con_registros (q\<lparr>mq_red := r'\<rparr>) (\<lambda>rs. rs\<lparr>pc := pc rs + 1\<rparr>)"
  have q1: "execute_instruccion i q = (?q1, [], CONTINUAR)"
    using i w(1) d(2) by (simp add: execute_instruccion_def ejecutar_instruccion_mmu_def ejecutar_mov_out_def Let_def)
  have "mmu_leer (mq_smax q) (mq_sticks q) r' (mq_ctx ?q1) d (sizeof_registro rb) = (r', [], CONTINUAR, ?x)"
    using w(3) mmu_leer_contexto [of "mq_ctx ?q1" "mq_ctx q"] r(1) by simp
  then have "execute_instruccion j ?q1 =
      (con_registros (con_registros ?q1 (\<lambda>rs. asignar_valor_registro rs rb ?v)) (\<lambda>rs. rs\<lparr>pc := pc rs + 1\<rparr>), [], CONTINUAR)"
    using j d word_le_registro [of ra "registros_ctx (mq_ctx q)"]
    by (simp add: execute_instruccion_def ejecutar_instruccion_mmu_def ejecutar_mov_in_def Let_def con_registros_def)
  moreover have "ancho rb ?v = ?v"
    using r ancho_obtener [of ra "registros_ctx (mq_ctx q)"]
    by (auto simp: ancho_def unat_sizeof sizeof_registro_def registros_8_def split: if_splits)
  ultimately show ?thesis using q1 w(2) by (simp add: obtener_asignar)
qed


lemma mov_out_y_mov_in_witness:
  "\<exists>q1 q2. execute_instruccion (instruccion_de ''MOV_OUT'' [''EAX'']) maquina_ejemplo = (q1, [], CONTINUAR) \<and>
    execute_instruccion (instruccion_de ''MOV_IN'' [''EBX'']) q1 = (q2, [], CONTINUAR) \<and>
    obtener_valor_registro (registros_ctx (mq_ctx q2)) ''EBX'' = 513"
proof -
  let ?g = "\<lparr>id_seg = 0, base = 1, limite = 4, swap_bloque_inicio = 0\<rparr> :: t_segmento"
  have m [simp]: "mq_sticks maquina_ejemplo = sticks_cpu_ejemplo" "mq_red maquina_ejemplo = red_ejemplo" "mq_smax maquina_ejemplo = 8"
    "si (registros_ctx (mq_ctx maquina_ejemplo)) = 0" "di (registros_ctx (mq_ctx maquina_ejemplo)) = 0"
    "obtener_valor_registro (registros_ctx (mq_ctx maquina_ejemplo)) ''EAX'' = 513"
    "tabla_segmentos (mq_ctx maquina_ejemplo) = [?g]"
    by (simp_all add: maquina_ejemplo_def contexto_ejemplo_def obtener_valor_registro_def)
  have "\<exists>q1 q2. execute_instruccion (instruccion_de ''MOV_OUT'' [''EAX'']) maquina_ejemplo = (q1, [], CONTINUAR) \<and>
    execute_instruccion (instruccion_de ''MOV_IN'' [''EBX'']) q1 = (q2, [], CONTINUAR) \<and>
    obtener_valor_registro (registros_ctx (mq_ctx q2)) ''EBX'' = obtener_valor_registro (registros_ctx (mq_ctx maquina_ejemplo)) ''EAX'' \<and>
    memoria_fisica (como_conexiones (mq_sticks maquina_ejemplo)) (mq_red q2) =
      copiar_en (memoria_fisica (como_conexiones (mq_sticks maquina_ejemplo)) (mq_red maquina_ejemplo))
        (unat (base ?g) + unat ((0 :: u32) mod mq_smax maquina_ejemplo))
        (take (unat (sizeof_registro ''EAX'')) (bytes_u32 (obtener_valor_registro (registros_ctx (mq_ctx maquina_ejemplo)) ''EAX''))) \<and>
    pc (registros_ctx (mq_ctx q2)) = pc (registros_ctx (mq_ctx maquina_ejemplo)) + 2"
    using red_ok_cpu_ejemplo
    by (intro mov_out_y_mov_in [where ra = "''EAX''" and xs = "[]" and ys = "[]"])
      (simp_all add: es_instruccion_cpu_memoria_def sizeof_registro_def registros_32_def buscar_segmento_def)
  then show ?thesis by auto
qed

end
