(* ===== verification/Cpu_Ciclo.thy ===== *)
theory Cpu_Ciclo
  imports Cpu_Ejecucion Memory_Cpu
begin

text \<open>
  The instruction cycle of a CPU, its two listener threads and its requests to Kernel Memory:
  \<open>cpu/src/cpu_ciclo.c\<close>, \<open>cpu_memory.c\<close>, \<open>cpu_scheduler.c\<close>, \<open>main.c\<close>. Kernel Memory is the model
  of \<open>Memory_Cpu\<close>: a request is served by \<open>atender_cpu\<close> and the CPU's listener handles what it
  sent back. A semaphore is its counter; a \<open>sem_wait\<close> on 0 never returns, and neither does
  anything after an \<open>abort()\<close> or an \<open>exit()\<close>: \<open>None\<close>.

  Between two instructions the scheduler may send messages. The cycle gets, for each of its
  turns, the bytes that arrived since the previous check for interrupts; the listener only
  touches fields that the cycle reads at that check. The list of arrivals is also the bound of
  the loop: \<open>None\<close> at its end is a process still running.
\<close>

section \<open>State\<close>

record t_conexiones_cpu =
  cpu_segment_max_size :: u32
  memory_sticks :: "t_cpu_stick list"
  cpu_red :: red
  cpu_id_global :: i32
  respuesta_codigo :: u32
  instruccion_pendiente :: "string option"
  contexto_pendiente :: "(t_registros \<times> t_segmento list) option"
  respuesta_lista :: nat
  interrupcion_pendiente :: bool
  motivo_interrupcion :: i32
  pid_a_ejecutar :: i32
  sem_proceso_listo :: nat
  pid_en_ejecucion :: i32

text \<open>What the sockets lead to: \<open>crear_conexion\<close>, \<open>string_split\<close>, and the socket numbers.\<close>

record t_entorno =
  en_conectar :: "string \<Rightarrow> string \<Rightarrow> (sock \<times> t_stick) option"
  en_string_split :: "string \<Rightarrow> string \<Rightarrow> string list"
  en_memory_socket :: sock
  en_scheduler_socket :: sock

type_synonym t_mundo = "t_memoria \<times> t_conexiones_cpu"

section \<open>Listener of Kernel Memory\<close>

definition manejar_nueva_memoria :: "t_entorno \<Rightarrow> t_conexiones_cpu \<Rightarrow> byte list \<Rightarrow> (t_conexiones_cpu \<times> evento list \<times> byte list) option" where
  "manejar_nueva_memoria en st s =
     (case recibir_nueva_memoria_disponible s of
        Inl e \<Rightarrow> None
      | Inr ((tamanio_ms, base_ms, ip_ms, puerto_ms), s') \<Rightarrow>
          let ((ms, r), ev, ok) = conectar_a_memory_stick (en_conectar en) (cpu_id_global st) ip_ms puerto_ms base_ms tamanio_ms
                (memory_sticks st, cpu_red st)
          in Some (st\<lparr>memory_sticks := ms, cpu_red := r\<rparr>, ev, s'))"

definition manejar_instruccion :: "t_conexiones_cpu \<Rightarrow> byte list \<Rightarrow> (t_conexiones_cpu \<times> evento list \<times> byte list) option" where
  "manejar_instruccion st s =
     (case recibir_instruccion s of
        Inl e \<Rightarrow> None
      | Inr (instr, s') \<Rightarrow>
          Some (st\<lparr>instruccion_pendiente := Some instr, respuesta_codigo := op_num OBTENER_INSTRUCCION,
                   respuesta_lista := respuesta_lista st + 1\<rparr>, [], s'))"

definition manejar_contexto :: "t_conexiones_cpu \<Rightarrow> byte list \<Rightarrow> (t_conexiones_cpu \<times> evento list \<times> byte list) option" where
  "manejar_contexto st s =
     (case recibir_contexto s of
        Inl e \<Rightarrow> None
      | Inr (ctx, s') \<Rightarrow>
          Some (st\<lparr>contexto_pendiente := Some ctx, respuesta_codigo := op_num OBTENER_CONTEXTO,
                   respuesta_lista := respuesta_lista st + 1\<rparr>, [], s'))"

definition manejar_ack :: "u32 \<Rightarrow> t_conexiones_cpu \<Rightarrow> byte list \<Rightarrow> (t_conexiones_cpu \<times> evento list \<times> byte list) option" where
  "manejar_ack codigo st s =
     (case recibir_ok s of
        Inl e \<Rightarrow> None
      | Inr (u, s') \<Rightarrow> Some (st\<lparr>respuesta_codigo := codigo, respuesta_lista := respuesta_lista st + 1\<rparr>, [], s'))"

definition despachar_memoria :: "t_entorno \<Rightarrow> u32 \<Rightarrow> t_conexiones_cpu \<Rightarrow> byte list \<Rightarrow> (t_conexiones_cpu \<times> evento list \<times> byte list) option" where
  "despachar_memoria en codigo st s =
     (case op_de_num codigo of
        Some NUEVA_MEMORIA_DISPONIBLE \<Rightarrow> manejar_nueva_memoria en st s
      | Some OBTENER_INSTRUCCION \<Rightarrow> manejar_instruccion st s
      | Some OBTENER_CONTEXTO \<Rightarrow> manejar_contexto st s
      | Some ACTUALIZAR_CONTEXTO \<Rightarrow> manejar_ack codigo st s
      | _ \<Rightarrow> Some (st, [], s))"

lemma acorta_recibidos [simp]:
  "acorta recibir_nueva_memoria_disponible" "acorta recibir_instruccion" "acorta recibir_contexto" "acorta recibir_pid" "acorta recibir_interrupcion"
  unfolding recibir_nueva_memoria_disponible_def recibir_instruccion_def recibir_contexto_def recibir_pid_def recibir_un_int_def
    recibir_interrupcion_def recibir_registros_def recibir_segmento_def
  by (auto intro!: acorta_bind acorta_veces)

lemmas recibidos_acorta = acorta_recibidos [THEN acortaD] acorta_recibidas(2) [THEN acortaD]

lemma despachar_memoria_acorta: "despachar_memoria en codigo st s = Some (st', ev, s') \<Longrightarrow> length s' \<le> length s"
  by (auto simp: despachar_memoria_def manejar_nueva_memoria_def manejar_instruccion_def manejar_contexto_def manejar_ack_def Let_def
      split: option.splits op_code.splits sum.splits prod.splits dest: recibidos_acorta)

text \<open>
  The loop of \<open>cpu_memory_listener_thread\<close> on the bytes that have arrived: it ends when there
  are no more (the thread waits) or when less than an opcode is left (the peer closed).
\<close>

function cpu_memory_listener_thread :: "t_entorno \<Rightarrow> t_conexiones_cpu \<Rightarrow> byte list \<Rightarrow> (t_conexiones_cpu \<times> evento list) option" where
  "cpu_memory_listener_thread en st s =
     (let (codigo, s1) = recibir_codigo_operacion s
      in if codigo = - 1 then Some (st, [])
         else case despachar_memoria en codigo st s1 of
           None \<Rightarrow> None
         | Some (st', ev, s2) \<Rightarrow>
             map_option (\<lambda>(st'', ev'). (st'', ev @ ev')) (cpu_memory_listener_thread en st' s2))"
  by pat_completeness auto
termination
proof (relation "measure (\<lambda>(en, st, s). length s)", goal_cases)
  case (2 en st s x codigo s1 y st' z ev s2)
  then show ?case
    using recibir_codigo_acorta [of s codigo s1] despachar_memoria_acorta [of en codigo st s1 st' ev s2] by simp
qed simp

declare cpu_memory_listener_thread.simps [simp del]

section \<open>Requests to Kernel Memory\<close>

text \<open>Send, be served, and \<open>sem_wait\<close> on \<open>respuesta_lista\<close>.\<close>

definition pedir_y_esperar :: "t_entorno \<Rightarrow> byte list \<Rightarrow> t_mundo \<Rightarrow> (t_mundo \<times> evento list) option" where
  "pedir_y_esperar en pedido w =
     (let (M', evs, resto) = atender_cpu (fst w) (en_memory_socket en) pedido
      in case cpu_memory_listener_thread en (snd w) (respuesta_en (en_memory_socket en) evs) of
           None \<Rightarrow> None
         | Some (st, ev) \<Rightarrow>
             if respuesta_lista st = 0 then None
             else Some ((M', st\<lparr>respuesta_lista := respuesta_lista st - 1\<rparr>), ev))"

definition solicitar_contexto_a_memory :: "t_entorno \<Rightarrow> i32 \<Rightarrow> t_mundo \<Rightarrow> (t_mundo \<times> evento list \<times> t_contexto option) option" where
  "solicitar_contexto_a_memory en pid w =
     (case pedir_y_esperar en (enviar_solicitar_contexto pid) w of
        None \<Rightarrow> None
      | Some ((M, st), ev) \<Rightarrow>
          Some ((M, st\<lparr>contexto_pendiente := None\<rparr>), ev,
            if respuesta_codigo st \<noteq> op_num OBTENER_CONTEXTO then None
            else map_option (\<lambda>(rs, segs). \<lparr>pid_ctx = pid, registros_ctx = rs, tabla_segmentos = segs\<rparr>) (contexto_pendiente st)))"

definition actualizar_contexto_en_memory :: "t_entorno \<Rightarrow> t_contexto \<Rightarrow> t_mundo \<Rightarrow> (t_mundo \<times> evento list \<times> bool) option" where
  "actualizar_contexto_en_memory en contexto w =
     (case pedir_y_esperar en (enviar_actualizar_contexto contexto) w of
        None \<Rightarrow> None
      | Some ((M, st), ev) \<Rightarrow> Some ((M, st), ev, respuesta_codigo st = op_num ACTUALIZAR_CONTEXTO))"

text \<open>The inner option is the \<open>NULL\<close> that \<open>fetch_instruccion\<close> returns.\<close>

definition fetch_instruccion :: "t_entorno \<Rightarrow> t_contexto \<Rightarrow> t_mundo \<Rightarrow> (t_mundo \<times> evento list \<times> t_instruccion option) option" where
  "fetch_instruccion en contexto w =
     (case pedir_y_esperar en (enviar_obtener_instruccion (pid_ctx contexto) (pc (registros_ctx contexto))) w of
        None \<Rightarrow> None
      | Some ((M, st), ev) \<Rightarrow>
          let w' = (M, st\<lparr>instruccion_pendiente := None\<rparr>)
          in case instruccion_pendiente st of
               None \<Rightarrow> Some (w', ev, None)
             | Some linea \<Rightarrow>
                 (case decode_instruccion (en_string_split en) linea of
                    None \<Rightarrow> None
                  | Some instr \<Rightarrow> Some (w', ev, Some instr)))"

section \<open>Listener of the scheduler\<close>

text \<open>One message; \<open>None\<close> is \<open>exit(EXIT_FAILURE)\<close> (connection closed, unknown opcode) or \<open>abort()\<close>.\<close>

definition atender_scheduler_cpu :: "t_conexiones_cpu \<Rightarrow> byte list \<Rightarrow> (t_conexiones_cpu \<times> byte list) option" where
  "atender_scheduler_cpu st s =
     (let (codigo, s1) = recibir_codigo_operacion s
      in case op_de_num codigo of
           Some EJECUTAR_PROCESO \<Rightarrow>
             (case recibir_pid s1 of
                Inl e \<Rightarrow> None
              | Inr (pid, s2) \<Rightarrow> Some (st\<lparr>pid_a_ejecutar := pid, sem_proceso_listo := sem_proceso_listo st + 1\<rparr>, s2))
         | Some INTERRUPCION \<Rightarrow>
             (case recibir_interrupcion s1 of
                Inl e \<Rightarrow> None
              | Inr ((pid, motivo), s2) \<Rightarrow>
                  Some (if pid = pid_en_ejecucion st
                        then st\<lparr>interrupcion_pendiente := True, motivo_interrupcion := motivo\<rparr> else st, s2))
         | _ \<Rightarrow> None)"

lemma atender_scheduler_cpu_acorta: "atender_scheduler_cpu st s = Some (st', s') \<Longrightarrow> length s' < length s"
proof -
  assume a: "atender_scheduler_cpu st s = Some (st', s')"
  obtain codigo s1 where c: "recibir_codigo_operacion s = (codigo, s1)" by (cases "recibir_codigo_operacion s")
  then have "codigo \<noteq> - 1" using a by (auto simp: atender_scheduler_cpu_def)
  then have "length s1 < length s" using recibir_codigo_acorta c by blast
  moreover have "length s' \<le> length s1"
    using a c by (auto simp: atender_scheduler_cpu_def Let_def split: option.splits op_code.splits sum.splits dest: recibidos_acorta)
  ultimately show ?thesis by simp
qed

text \<open>The loop of the thread on the bytes that have arrived; on \<open>[]\<close> it waits for more.\<close>

function cpu_scheduler_listener_thread :: "t_conexiones_cpu \<Rightarrow> byte list \<Rightarrow> t_conexiones_cpu option" where
  "cpu_scheduler_listener_thread st s =
     (if s = [] then Some st
      else case atender_scheduler_cpu st s of
        None \<Rightarrow> None
      | Some (st', s') \<Rightarrow> cpu_scheduler_listener_thread st' s')"
  by pat_completeness auto
termination
  by (relation "measure (\<lambda>(st, s). length s)") (auto dest: atender_scheduler_cpu_acorta)

declare cpu_scheduler_listener_thread.simps [simp del]

definition esperar_pid_del_scheduler :: "t_conexiones_cpu \<Rightarrow> (i32 \<times> t_conexiones_cpu) option" where
  "esperar_pid_del_scheduler st =
     (if sem_proceso_listo st = 0 then None
      else Some (pid_a_ejecutar st, st\<lparr>sem_proceso_listo := sem_proceso_listo st - 1\<rparr>))"

section \<open>Connections\<close>

text \<open>
  \<open>esperar_conexion\<close> returns once the module accepts. \<open>respuesta\<close> are the bytes that Kernel
  Memory sends after the handshake: the size of the segments, read at once, and then what the
  listener gets.
\<close>

definition conectar_a_memory :: "t_entorno \<Rightarrow> i32 \<Rightarrow> byte list \<Rightarrow> t_conexiones_cpu \<Rightarrow> (t_conexiones_cpu \<times> evento list) option" where
  "conectar_a_memory en ident respuesta st =
     (let st0 = st\<lparr>cpu_id_global := ident\<rparr>; (cod, s1) = recibir_codigo_operacion respuesta;
          leido = (if cod = op_num CONFIG_MMU_CPU
                   then (case recibir_config_mmu_cpu s1 of Inl e \<Rightarrow> None | Inr (sms, s2) \<Rightarrow> Some (st0\<lparr>cpu_segment_max_size := sms\<rparr>, s2))
                   else Some (st0, s1))
      in case leido of
           None \<Rightarrow> None
         | Some (st1, s2) \<Rightarrow>
             map_option (\<lambda>(st2, ev). (st2, Enviar (en_memory_socket en) (enviar_handshake_cpu ident) # ev))
               (cpu_memory_listener_thread en (st1\<lparr>respuesta_lista := 0\<rparr>) s2))"

definition conectar_a_scheduler :: "t_entorno \<Rightarrow> i32 \<Rightarrow> t_conexiones_cpu \<Rightarrow> t_conexiones_cpu \<times> evento list" where
  "conectar_a_scheduler en ident st =
     (st\<lparr>sem_proceso_listo := 0, interrupcion_pendiente := False, motivo_interrupcion := motivo_num MOTIVO_QUANTUM,
         pid_en_ejecucion := - 1\<rparr>, [Enviar (en_scheduler_socket en) (enviar_handshake_cpu ident)])"

section \<open>The cycle\<close>

definition check_interrupt :: "t_conexiones_cpu \<Rightarrow> bool \<times> t_conexiones_cpu" where
  "check_interrupt st =
     (interrupcion_pendiente st, if interrupcion_pendiente st then st\<lparr>interrupcion_pendiente := False\<rparr> else st)"

text \<open>\<open>enviar_devolver_proceso\<close> without a syscall and with the reason as the \<open>int\<close> it is in C.\<close>

definition devolver_sin_syscall :: "i32 \<Rightarrow> i32 \<Rightarrow> byte list" where
  "devolver_sin_syscall pid motivo =
     enviar_paquete (agregar_a_paquete (agregar_a_paquete (crear_paquete DEVOLVER_PROCESO) (bytes_int pid)) (bytes_int motivo))"

definition manejar_error_fetch :: "t_entorno \<Rightarrow> i32 \<Rightarrow> evento list" where
  "manejar_error_fetch en pid = [Enviar (en_scheduler_socket en) (enviar_devolver_proceso pid MOTIVO_ERROR None [])]"

definition manejar_interrupcion :: "t_entorno \<Rightarrow> t_contexto \<Rightarrow> t_mundo \<Rightarrow> (t_mundo \<times> evento list) option" where
  "manejar_interrupcion en contexto w =
     (case actualizar_contexto_en_memory en contexto w of
        None \<Rightarrow> None
      | Some (w', ev, ok) \<Rightarrow>
          Some (w', ev @ [Enviar (en_scheduler_socket en) (devolver_sin_syscall (pid_ctx contexto) (motivo_interrupcion (snd w')))]))"

definition manejar_resultado_execute ::
  "t_entorno \<Rightarrow> t_contexto \<Rightarrow> t_instruccion \<Rightarrow> t_resultado_execute \<Rightarrow> t_mundo \<Rightarrow> (t_mundo \<times> evento list) option" where
  "manejar_resultado_execute en contexto instr resultado w =
     (if resultado = CONTINUAR then Some (w, [])
      else case actualizar_contexto_en_memory en contexto w of
        None \<Rightarrow> None
      | Some (w', ev, ok) \<Rightarrow>
          let devolver = enviar_devolver_proceso (pid_ctx contexto);
              msg = (case resultado of
                 SYSCALL \<Rightarrow>
                   devolver MOTIVO_SYSCALL (Some (nombre instr))
                     (if inst_es_syscall_memoria instr
                      then resolver_parametros_syscall_io (nombre instr) (parametros instr) (registros_ctx contexto)
                      else parametros instr)
               | EXIT_PROCESO \<Rightarrow> devolver MOTIVO_EXIT None []
               | SEG_FAULT \<Rightarrow> devolver MOTIVO_SEGFAULT None []
               | _ \<Rightarrow> devolver MOTIVO_ERROR None [])
          in Some (w', ev @ [Enviar (en_scheduler_socket en) msg]))"

definition limpiar_estado_cpu :: "t_conexiones_cpu \<Rightarrow> t_conexiones_cpu" where
  "limpiar_estado_cpu st = st\<lparr>pid_en_ejecucion := - 1, interrupcion_pendiente := False\<rparr>"

definition maquina :: "t_contexto \<Rightarrow> t_conexiones_cpu \<Rightarrow> t_maquina" where
  "maquina contexto st =
     \<lparr>mq_smax = cpu_segment_max_size st, mq_sticks = memory_sticks st, mq_red = cpu_red st, mq_ctx = contexto\<rparr>"

definition ejecutar_en :: "t_instruccion \<Rightarrow> t_contexto \<Rightarrow> t_conexiones_cpu \<Rightarrow> t_conexiones_cpu \<times> t_contexto \<times> evento list \<times> t_resultado_execute" where
  "ejecutar_en instr contexto st =
     (let (q, ev, res) = execute_instruccion instr (maquina contexto st)
      in (st\<lparr>cpu_red := mq_red q\<rparr>, mq_ctx q, ev, res))"

definition terminar :: "evento list \<Rightarrow> (t_mundo \<times> evento list) option \<Rightarrow> (t_mundo \<times> evento list) option" where
  "terminar ev r = map_option (\<lambda>((M, st), ev'). ((M, limpiar_estado_cpu st), ev @ ev')) r"

fun bucle_ciclo :: "t_entorno \<Rightarrow> byte list list \<Rightarrow> t_contexto \<Rightarrow> t_mundo \<Rightarrow> (t_mundo \<times> evento list) option" where
  "bucle_ciclo en [] contexto w = None"
| "bucle_ciclo en (llegada # llegadas) contexto w =
     (case fetch_instruccion en contexto w of
        None \<Rightarrow> None
      | Some (w1, ev1, None) \<Rightarrow> terminar ev1 (Some (w1, manejar_error_fetch en (pid_ctx contexto)))
      | Some ((M1, st1), ev1, Some instr) \<Rightarrow>
          let (st2, contexto', ev2, resultado) = ejecutar_en instr contexto st1
          in if Aborto \<in> set ev2 then None
             else if resultado \<noteq> CONTINUAR
             then terminar (ev1 @ ev2) (manejar_resultado_execute en contexto' instr resultado (M1, st2))
             else case cpu_scheduler_listener_thread st2 llegada of
               None \<Rightarrow> None
             | Some st3 \<Rightarrow>
                 let (tiene, st4) = check_interrupt st3
                 in if tiene then terminar (ev1 @ ev2) (manejar_interrupcion en contexto' (M1, st4))
                    else map_option (\<lambda>(w', ev). (w', ev1 @ ev2 @ ev)) (bucle_ciclo en llegadas contexto' (M1, st4)))"

definition ejecutar_ciclo_instruccion :: "t_entorno \<Rightarrow> byte list list \<Rightarrow> i32 \<Rightarrow> t_mundo \<Rightarrow> (t_mundo \<times> evento list) option" where
  "ejecutar_ciclo_instruccion en llegadas pid w =
     (case solicitar_contexto_a_memory en pid w of
        None \<Rightarrow> None
      | Some (w1, ev1, None) \<Rightarrow> Some (w1, ev1)
      | Some ((M1, st1), ev1, Some contexto) \<Rightarrow>
          map_option (\<lambda>(w', ev). (w', ev1 @ ev)) (bucle_ciclo en llegadas contexto (M1, st1\<lparr>pid_en_ejecucion := pid\<rparr>)))"

text \<open>One turn of the loop of \<open>main\<close>; the flag tells whether it goes on.\<close>

definition turno_cpu :: "t_entorno \<Rightarrow> byte list list \<Rightarrow> t_mundo \<Rightarrow> (t_mundo \<times> evento list \<times> bool) option" where
  "turno_cpu en llegadas w =
     (case esperar_pid_del_scheduler (snd w) of
        None \<Rightarrow> None
      | Some (pid, st) \<Rightarrow>
          if pid <s 0 then Some ((fst w, st), [], False)
          else map_option (\<lambda>(w', ev). (w', ev, True)) (ejecutar_ciclo_instruccion en llegadas pid (fst w, st)))"

section \<open>Messages and the listeners\<close>

lemma listener_Nil [simp]: "cpu_memory_listener_thread en st [] = Some (st, [])"
  by (simp add: cpu_memory_listener_thread.simps [of en st "[]"])

lemma listener_mensaje:
  assumes "recibir_mensaje r flujo = (op_num c, Inr (a, s))"
    and "\<And>s1. r s1 = Inr (a, s) \<Longrightarrow> despachar_memoria en (op_num c) st s1 = Some (st', ev, s)"
  shows "cpu_memory_listener_thread en st flujo = map_option (\<lambda>(st'', ev'). (st'', ev @ ev')) (cpu_memory_listener_thread en st' s)"
  using recibir_mensajeD [OF assms(1)] assms(2) by (auto simp: cpu_memory_listener_thread.simps [of en st flujo] Let_def)

lemma listener_instruccion:
  assumes "cadena_ok linea" "length linea < 2 ^ 31 - 100"
  shows "cpu_memory_listener_thread en st (enviar_paquete (agregar_cadena (crear_paquete OBTENER_INSTRUCCION) linea)) =
    Some (st\<lparr>instruccion_pendiente := Some linea, respuesta_codigo := op_num OBTENER_INSTRUCCION, respuesta_lista := respuesta_lista st + 1\<rparr>, [])"
  using listener_mensaje [OF m_instruccion.ida_y_vuelta [of linea "[]"], of en st] assms
  by (simp add: despachar_memoria_def manejar_instruccion_def)

lemma listener_contexto:
  assumes "length (segmentos p) < 2 ^ 26"
  shows "cpu_memory_listener_thread en st (enviar_contexto_proceso p) =
    Some (st\<lparr>contexto_pendiente := Some (ce_registros p, segmentos p), respuesta_codigo := op_num OBTENER_CONTEXTO, respuesta_lista := respuesta_lista st + 1\<rparr>, [])"
proof -
  have "recibir_mensaje recibir_contexto (enviar_contexto_proceso p @ []) =
      (op_num OBTENER_CONTEXTO, Inr ((ce_registros p, segmentos p), []))"
    using m_contexto.ida_y_vuelta [of "(ce_registros p, segmentos p)" "ce_pid p" "instrucciones p" "[]"] assms by (cases p) simp
  from listener_mensaje [OF this, of en st] show ?thesis by (simp add: despachar_memoria_def manejar_contexto_def)
qed

lemma listener_ack:
  "cpu_memory_listener_thread en st (enviar_ok ACTUALIZAR_CONTEXTO) =
    Some (st\<lparr>respuesta_codigo := op_num ACTUALIZAR_CONTEXTO, respuesta_lista := respuesta_lista st + 1\<rparr>, [])"
  using listener_mensaje [OF ida_y_vuelta_ok [of ACTUALIZAR_CONTEXTO "[]"], of en st]
  by (simp add: despachar_memoria_def manejar_ack_def)

text \<open>The three requests of the cycle, when Kernel Memory knows the process.\<close>

lemma fetch_ok:
  assumes "procesos_buscar (pid_ctx ctx) (procesos M) = Some i" "length (instrucciones (procesos M ! i)) < 2 ^ 32"
    and "unat (pc (registros_ctx ctx)) < length (instrucciones (procesos M ! i))"
    and "linea = instrucciones (procesos M ! i) ! unat (pc (registros_ctx ctx))" "cadena_ok linea" "length linea < 2 ^ 31 - 100"
    and "decode_instruccion (en_string_split en) linea = Some instr"
  shows "fetch_instruccion en ctx (M, st) =
    Some ((M, st\<lparr>instruccion_pendiente := None, respuesta_codigo := op_num OBTENER_INSTRUCCION\<rparr>), [], Some instr)"
  using atender_cpu_instruccion [OF assms(1,2), of "en_memory_socket en" "pc (registros_ctx ctx)" "[]"] assms(3-)
  by (simp add: fetch_instruccion_def pedir_y_esperar_def listener_instruccion)

lemma actualizar_ok:
  assumes "procesos_buscar (pid_ctx ctx) (procesos M) = Some i" "length (tabla_segmentos ctx) < 2 ^ 26"
  shows "actualizar_contexto_en_memory en ctx (M, st) =
    Some ((actualizar_proceso i (\<lambda>p. actualizar_proceso_desde_contexto p ctx) M, st\<lparr>respuesta_codigo := op_num ACTUALIZAR_CONTEXTO\<rparr>), [], True)"
  using atender_cpu_actualizar [OF assms, of "en_memory_socket en" "[]"]
  by (simp add: actualizar_contexto_en_memory_def pedir_y_esperar_def listener_ack)

lemma solicitar_ok:
  assumes "procesos_buscar pid (procesos M) = Some i" "length (segmentos (procesos M ! i)) < 2 ^ 26"
  shows "solicitar_contexto_a_memory en pid (M, st) =
    Some ((M, st\<lparr>contexto_pendiente := None, respuesta_codigo := op_num OBTENER_CONTEXTO\<rparr>), [],
      Some \<lparr>pid_ctx = pid, registros_ctx = ce_registros (procesos M ! i), tabla_segmentos = segmentos (procesos M ! i)\<rparr>)"
  using atender_cpu_contexto [OF assms(1), of "en_memory_socket en" "[]"] assms(2)
  by (simp add: solicitar_contexto_a_memory_def pedir_y_esperar_def listener_contexto)

section \<open>Interrupts\<close>

definition recibir_interrupciones :: "(i32 \<times> t_motivo_devolucion) list \<Rightarrow> t_conexiones_cpu \<Rightarrow> t_conexiones_cpu" where
  "recibir_interrupciones xs st =
     (case filter (\<lambda>x. fst x = pid_en_ejecucion st) xs of
        [] \<Rightarrow> st
      | ys \<Rightarrow> st\<lparr>interrupcion_pendiente := True, motivo_interrupcion := motivo_num (snd (last ys))\<rparr>)"

abbreviation mensajes_interrupcion :: "(i32 \<times> t_motivo_devolucion) list \<Rightarrow> byte list" where
  "mensajes_interrupcion xs \<equiv> concat (map (\<lambda>(pid, m). enviar_interrupcion pid (motivo_num m)) xs)"

lemma atender_interrupcion:
  "atender_scheduler_cpu st (enviar_interrupcion pid m @ s) =
    Some (if pid = pid_en_ejecucion st then st\<lparr>interrupcion_pendiente := True, motivo_interrupcion := m\<rparr> else st, s)"
  using recibir_mensajeD [OF m_interrupcion.ida_y_vuelta [of "(pid, m)" s]] by (auto simp: atender_scheduler_cpu_def)

lemma enviar_interrupcion_no_vacio [simp]: "enviar_interrupcion pid m \<noteq> []"
  using m_interrupcion.bytes_enviados [of "(pid, m)"] by auto

lemma escuchar_interrupciones:
  "cpu_scheduler_listener_thread st (mensajes_interrupcion xs) = Some (recibir_interrupciones xs st)"
proof (induction xs arbitrary: st)
  case Nil
  show ?case by (simp add: cpu_scheduler_listener_thread.simps [of st "[]"] recibir_interrupciones_def)
next
  case (Cons x xs)
  obtain pid m where x: "x = (pid, m)" by (cases x)
  let ?st = "if pid = pid_en_ejecucion st then st\<lparr>interrupcion_pendiente := True, motivo_interrupcion := motivo_num m\<rparr> else st"
  have "cpu_scheduler_listener_thread st (mensajes_interrupcion (x # xs)) = cpu_scheduler_listener_thread ?st (mensajes_interrupcion xs)"
    by (simp add: x cpu_scheduler_listener_thread.simps [of st "enviar_interrupcion pid (motivo_num m) @ mensajes_interrupcion xs"]
        atender_interrupcion)
  also have "\<dots> = Some (recibir_interrupciones xs ?st)" by (rule Cons.IH)
  also have "recibir_interrupciones xs ?st = recibir_interrupciones (x # xs) st"
    by (auto simp: x recibir_interrupciones_def split: list.splits)
  finally show ?case .
qed

lemma execute_conserva:
  "execute_instruccion instr q = (q', ev, res) \<Longrightarrow>
    pid_ctx (mq_ctx q') = pid_ctx (mq_ctx q) \<and> tabla_segmentos (mq_ctx q') = tabla_segmentos (mq_ctx q)"
  by (auto simp: execute_instruccion_def ejecutar_set_def ejecutar_sum_def ejecutar_sub_def ejecutar_jnz_def
      ejecutar_instruccion_mmu_def ejecutar_mov_in_def ejecutar_mov_out_def ejecutar_copy_mem_def Let_def
      split: if_splits list.splits prod.splits)

lemma devolver_sin_syscall_motivo: "devolver_sin_syscall pid (motivo_num m) = enviar_devolver_proceso pid m None []"
  by (simp add: devolver_sin_syscall_def enviar_devolver_proceso_def)


section \<open>Properties\<close>

lemma maquina_cong:
  "maquina ctx (st\<lparr>instruccion_pendiente := x\<rparr>) = maquina ctx st" "maquina ctx (st\<lparr>respuesta_codigo := c\<rparr>) = maquina ctx st"
  by (simp_all add: maquina_def)

lemma manejar_interrupcion_ok:
  assumes "procesos_buscar (pid_ctx ctx) (procesos M) = Some i" "length (tabla_segmentos ctx) < 2 ^ 26"
    and "motivo_interrupcion st = motivo_num m"
  shows "manejar_interrupcion en ctx (M, st) =
    Some ((actualizar_proceso i (\<lambda>p. actualizar_proceso_desde_contexto p ctx) M, st\<lparr>respuesta_codigo := op_num ACTUALIZAR_CONTEXTO\<rparr>),
      [Enviar (en_scheduler_socket en) (enviar_devolver_proceso (pid_ctx ctx) m None [])])"
  using actualizar_ok [OF assms(1,2), of en st] assms(3)
  by (simp add: manejar_interrupcion_def devolver_sin_syscall_motivo del: motivo_num.simps)

text \<open>
  C35. Preemption. A running process whose instruction succeeds goes on with the next one
  unless an \<open>INTERRUPCION\<close> for its own pid arrived: those for other pids are discarded. When
  one did, however many messages came with it, the cycle ends at this instruction boundary:
  Kernel Memory holds the registers as the instruction left them, and exactly one
  \<open>DEVOLVER_PROCESO\<close> goes to the scheduler, with the reason of the last interruption for the
  process; the CPU is idle with no interruption pending.
\<close>

theorem interrupcion_desaloja:
  assumes p: "procesos_buscar (pid_ctx ctx) (procesos M) = Some i" "length (instrucciones (procesos M ! i)) < 2 ^ 32"
      "unat (pc (registros_ctx ctx)) < length (instrucciones (procesos M ! i))"
    and l: "linea = instrucciones (procesos M ! i) ! unat (pc (registros_ctx ctx))" "cadena_ok linea" "length linea < 2 ^ 31 - 100"
      "decode_instruccion (en_string_split en) linea = Some instr"
    and x: "execute_instruccion instr (maquina ctx st) = (q, [], CONTINUAR)" "length (tabla_segmentos ctx) < 2 ^ 26"
    and st: "pid_en_ejecucion st = pid_ctx ctx" "\<not> interrupcion_pendiente st"
    and ys: "ys = filter (\<lambda>x. fst x = pid_ctx ctx) xs"
  shows "if ys = []
    then bucle_ciclo en (mensajes_interrupcion xs # ls) ctx (M, st) =
      bucle_ciclo en ls (mq_ctx q) (M, st\<lparr>instruccion_pendiente := None, respuesta_codigo := op_num OBTENER_INSTRUCCION, cpu_red := mq_red q\<rparr>)
    else \<exists>st'. bucle_ciclo en (mensajes_interrupcion xs # ls) ctx (M, st) =
        Some ((actualizar_proceso i (\<lambda>p. p\<lparr>ce_registros := registros_ctx (mq_ctx q), segmentos := tabla_segmentos ctx\<rparr>) M, st'),
          [Enviar (en_scheduler_socket en) (enviar_devolver_proceso (pid_ctx ctx) (snd (last ys)) None [])]) \<and>
      pid_en_ejecucion st' = - 1 \<and> \<not> interrupcion_pendiente st' \<and> respuesta_lista st' = respuesta_lista st"
proof -
  let ?st1 = "st\<lparr>instruccion_pendiente := None, respuesta_codigo := op_num OBTENER_INSTRUCCION\<rparr>"
  let ?st2 = "?st1\<lparr>cpu_red := mq_red q\<rparr>"
  have q: "pid_ctx (mq_ctx q) = pid_ctx ctx" "tabla_segmentos (mq_ctx q) = tabla_segmentos ctx"
    using execute_conserva [OF x(1)] by (simp_all add: maquina_def)
  have e: "ejecutar_en instr ctx ?st1 = (?st2, mq_ctx q, [], CONTINUAR)" using x(1) by (simp add: ejecutar_en_def maquina_cong)
  note paso = fetch_ok [OF p l, of st] e escuchar_interrupciones [of ?st2 xs]
  show ?thesis
  proof (cases ys)
    case Nil
    then have "recibir_interrupciones xs ?st2 = ?st2" using ys st(1) by (simp add: recibir_interrupciones_def)
    moreover have "map_option (\<lambda>(w', ev). (w', ev)) r = r" for r :: "(t_mundo \<times> evento list) option" by (cases r) auto
    ultimately show ?thesis using Nil paso st(2) by (simp add: check_interrupt_def)
  next
    case (Cons y zs)
    let ?st3 = "?st2\<lparr>interrupcion_pendiente := True, motivo_interrupcion := motivo_num (snd (last ys))\<rparr>"
    have "recibir_interrupciones xs ?st2 = ?st3" using Cons ys st(1) by (simp add: recibir_interrupciones_def del: motivo_num.simps)
    moreover have "manejar_interrupcion en (mq_ctx q) (M, ?st3\<lparr>interrupcion_pendiente := False\<rparr>) =
        Some ((actualizar_proceso i (\<lambda>p. actualizar_proceso_desde_contexto p (mq_ctx q)) M,
           ?st3\<lparr>interrupcion_pendiente := False, respuesta_codigo := op_num ACTUALIZAR_CONTEXTO\<rparr>),
          [Enviar (en_scheduler_socket en) (enviar_devolver_proceso (pid_ctx ctx) (snd (last ys)) None [])])"
      using manejar_interrupcion_ok [of "mq_ctx q" M i] p(1) x(2) q by (simp del: motivo_num.simps)
    ultimately show ?thesis
      using Cons paso q by (simp add: check_interrupt_def terminar_def limpiar_estado_cpu_def
          actualizar_proceso_desde_contexto_def del: motivo_num.simps)
  qed
qed


definition cpu_ejemplo :: t_conexiones_cpu where
  "cpu_ejemplo = \<lparr>cpu_segment_max_size = 8, memory_sticks = sticks_cpu_ejemplo, cpu_red = red_ejemplo, cpu_id_global = 1,
     respuesta_codigo = 0, instruccion_pendiente = None, contexto_pendiente = None, respuesta_lista = 0,
     interrupcion_pendiente = False, motivo_interrupcion = 0, pid_a_ejecutar = 1, sem_proceso_listo = 0, pid_en_ejecucion = 1\<rparr>"

definition entorno_ejemplo :: t_entorno where
  "entorno_ejemplo = \<lparr>en_conectar = (\<lambda>ip puerto. None), en_string_split = (\<lambda>s d. [s]), en_memory_socket = 3, en_scheduler_socket = 4\<rparr>"

definition memoria_cpu :: t_memoria where
  "memoria_cpu = memoria_chica\<lparr>procesos := [\<lparr>ce_pid = 1, ce_registros = registros_cero, segmentos = [], instrucciones = [''NOOP'', ''EXIT'']\<rparr>]\<rparr>"

lemma interrupcion_desaloja_witness:
  "\<exists>w. bucle_ciclo entorno_ejemplo [mensajes_interrupcion [(7, MOTIVO_EXIT), (1, MOTIVO_QUANTUM)]] \<lparr>pid_ctx = 1, registros_ctx = registros_cero, tabla_segmentos = []\<rparr>
      (memoria_cpu, cpu_ejemplo) = Some (w, [Enviar 4 (enviar_devolver_proceso 1 MOTIVO_QUANTUM None [])]) \<and>
    pc (ce_registros (procesos (fst w) ! 0)) = 1"
proof -
  let ?ctx = "\<lparr>pid_ctx = 1, registros_ctx = registros_cero, tabla_segmentos = []\<rparr>"
  let ?q = "con_registros (maquina ?ctx cpu_ejemplo) (\<lambda>rs. rs\<lparr>pc := pc rs + 1\<rparr>)"
  let ?xs = "[(7, MOTIVO_EXIT), (1, MOTIVO_QUANTUM)]"
  have i: "procesos_buscar (pid_ctx ?ctx) (procesos memoria_cpu) = Some 0" "procesos memoria_cpu ! 0 =
      \<lparr>ce_pid = 1, ce_registros = registros_cero, segmentos = [], instrucciones = [''NOOP'', ''EXIT'']\<rparr>" "length (procesos memoria_cpu) = 1"
    by (simp_all add: memoria_cpu_def procesos_buscar_def)
  have d: "decode_instruccion (en_string_split entorno_ejemplo) ''NOOP'' = Some (instruccion_de ''NOOP'' [])"
    by (simp add: decode_instruccion_def instruccion_de_def entorno_ejemplo_def recortar_def es_espacio_def)
  have e: "execute_instruccion (instruccion_de ''NOOP'' []) (maquina ?ctx cpu_ejemplo) = (?q, [], CONTINUAR)"
    by (simp add: execute_instruccion_def ejecutar_noop_def)
  have pc0: "pc registros_cero = 0" by (simp add: registros_cero_def)
  have a: "length (instrucciones (procesos memoria_cpu ! 0)) < 2 ^ 32"
      "unat (pc (registros_ctx ?ctx)) < length (instrucciones (procesos memoria_cpu ! 0))"
      "''NOOP'' = instrucciones (procesos memoria_cpu ! 0) ! unat (pc (registros_ctx ?ctx))"
      "cadena_ok ''NOOP''" "length ''NOOP'' < 2 ^ 31 - 100" "length (tabla_segmentos ?ctx) < 2 ^ 26"
    by (simp_all add: i(2) pc0 cadena_ok_def)
  have st: "pid_en_ejecucion cpu_ejemplo = pid_ctx ?ctx" "\<not> interrupcion_pendiente cpu_ejemplo" by (simp_all add: cpu_ejemplo_def)
  have ys: "[(1, MOTIVO_QUANTUM)] = filter (\<lambda>x. fst x = pid_ctx ?ctx) ?xs" and n: "[(1 :: i32, MOTIVO_QUANTUM)] \<noteq> []" by simp_all
  let ?M = "actualizar_proceso 0 (\<lambda>p. p\<lparr>ce_registros := registros_ctx (mq_ctx ?q), segmentos := tabla_segmentos ?ctx\<rparr>) memoria_cpu"
  from interrupcion_desaloja [OF i(1) a(1-5) d e a(6) st ys, of "[]", unfolded if_not_P [OF n]]
  obtain st' where "bucle_ciclo entorno_ejemplo [mensajes_interrupcion ?xs] ?ctx (memoria_cpu, cpu_ejemplo) =
        Some ((?M, st'),
          [Enviar (en_scheduler_socket entorno_ejemplo) (enviar_devolver_proceso (pid_ctx ?ctx) (snd (last [(1 :: i32, MOTIVO_QUANTUM)])) None [])])"
    by (elim exE conjE)
  moreover have "pc (ce_registros (procesos (?M) ! 0)) = 1"
    using i(3) by (simp add: maquina_def pc0)
  moreover have "en_scheduler_socket entorno_ejemplo = 4" by (simp add: entorno_ejemplo_def)
  ultimately show ?thesis by (intro exI [of _ "(?M, st')"] conjI) (simp_all del: bucle_ciclo.simps)
qed


section \<open>The table of a new CPU\<close>

definition cpu_de :: "(t_memory_stick_entry \<Rightarrow> sock) \<Rightarrow> t_memory_stick_entry \<Rightarrow> t_cpu_stick" where
  "cpu_de f e = \<lparr>cs_socket = f e, cs_base = base_fisica e, cs_size = st_tamanio e\<rparr>"

lemma cpu_de_sel [simp]: "cs_socket (cpu_de f e) = f e" "cs_base (cpu_de f e) = base_fisica e" "cs_size (cpu_de f e) = st_tamanio e"
  by (simp_all add: cpu_de_def)

definition enchufar :: "(t_memory_stick_entry \<Rightarrow> sock) \<Rightarrow> (t_memory_stick_entry \<Rightarrow> t_stick) \<Rightarrow> t_memory_stick_entry list \<Rightarrow> red \<Rightarrow> red" where
  "enchufar f g es r = fold (\<lambda>e r. r(f e := Some (g e))) es r"

abbreviation aviso :: "t_memory_stick_entry \<Rightarrow> byte list" where
  "aviso e \<equiv> enviar_nueva_memoria_disponible (st_tamanio e) (base_fisica e) (st_ip e) (st_puerto e)"

definition textos_ok :: "t_memory_stick_entry \<Rightarrow> bool" where
  "textos_ok e \<longleftrightarrow> cadena_ok (st_ip e) \<and> cadena_ok (st_puerto e) \<and> length (st_ip e) + length (st_puerto e) < 2 ^ 31 - 100"

lemma notificar_sticks: "notificar_sticks_a_cpu M s = map (\<lambda>e. Enviar s (aviso e)) (sticks (conx M))"
  by (rule nth_equalityI)
    (simp_all add: notificar_sticks_a_cpu_def conexiones_cantidad_sticks_def conexiones_stick_tamanio_def
      conexiones_stick_base_fisica_def conexiones_stick_ip_def conexiones_stick_puerto_def indice_valido_def texto_def)

lemma respuesta_en_avisos: "respuesta_en s (Enviar s b # map (\<lambda>e. Enviar s (aviso e)) es) = b @ concat (map aviso es)"
  by (simp add: respuesta_en_def comp_def)

lemma enchufar_nuevo: "f e \<notin> f ` set es \<Longrightarrow> enchufar f g es r (f e) = r (f e)"
  unfolding enchufar_def by (induction es arbitrary: r) auto

lemma enchufar_conectado: "distinct (map f es) \<Longrightarrow> e \<in> set es \<Longrightarrow> enchufar f g es r (f e) = Some (g e)"
proof (induction es arbitrary: r)
  case (Cons a es)
  show ?case
  proof (cases "e = a")
    case True
    then have "enchufar f g (a # es) r (f e) = (r(f a := Some (g a))) (f a)"
      using enchufar_nuevo [of f a es g "r(f a := Some (g a))"] Cons.prems(1) by (simp add: enchufar_def)
    then show ?thesis using True by simp
  next
    case False
    then show ?thesis using Cons by (simp add: enchufar_def)
  qed
qed simp

lemma listener_avisos:
  assumes "\<forall>e \<in> set es. textos_ok e \<and> en_conectar en (st_ip e) (st_puerto e) = Some (f e, g e)"
    and "length (memory_sticks st) + length es \<le> MAX_MEMORY_STICKS"
  shows "cpu_memory_listener_thread en st (concat (map aviso es)) =
    Some (st\<lparr>memory_sticks := memory_sticks st @ map (cpu_de f) es, cpu_red := enchufar f g es (cpu_red st)\<rparr>,
      map (\<lambda>e. Enviar (f e) (enviar_handshake_cpu (cpu_id_global st))) es)"
  using assms
proof (induction es arbitrary: st)
  case Nil
  then show ?case by (simp add: enchufar_def)
next
  case (Cons e es)
  let ?st = "st\<lparr>memory_sticks := memory_sticks st @ [cpu_de f e], cpu_red := (cpu_red st)(f e := Some (g e))\<rparr>"
  have "recibir_mensaje recibir_nueva_memoria_disponible (aviso e @ concat (map aviso es)) =
      (op_num NUEVA_MEMORIA_DISPONIBLE, Inr ((st_tamanio e, base_fisica e, st_ip e, st_puerto e), concat (map aviso es)))"
    using m_nueva_memoria.ida_y_vuelta [of "(st_tamanio e, base_fisica e, st_ip e, st_puerto e)"] Cons.prems(1)
    by (simp add: textos_ok_def)
  then have "cpu_memory_listener_thread en st (concat (map aviso (e # es))) =
      map_option (\<lambda>(st'', ev'). (st'', [Enviar (f e) (enviar_handshake_cpu (cpu_id_global st))] @ ev'))
        (cpu_memory_listener_thread en ?st (concat (map aviso es)))"
    using Cons.prems
    by (simp only: list.map concat.simps)
      (rule listener_mensaje, assumption, simp add: despachar_memoria_def manejar_nueva_memoria_def conectar_a_memory_stick_def Let_def cpu_de_def)
  then show ?case using Cons.IH [of ?st] Cons.prems by (simp add: enchufar_def fun_upd_def)
qed


lemma espejo:
  assumes red: "red_ok c r" and f: "\<forall>e \<in> set (sticks c). 0 \<le> f e" "distinct (map f (sticks c))"
    and r': "r' = enchufar f (\<lambda>e. the (r (outbound_socket e))) (sticks c) r0"
  shows "red_ok (como_conexiones (map (cpu_de f) (sticks c))) r'"
    "memoria_fisica (como_conexiones (map (cpu_de f) (sticks c))) r' = memoria_fisica c r"
proof -
  let ?e = "\<lambda>e. como_entrada (cpu_de f e)"
  have l: "stick_en_linea r e" "r' (f e) = r (outbound_socket e)" if "e \<in> set (sticks c)" for e
  proof -
    show "stick_en_linea r e" using red that by (simp add: red_ok_def)
    then have "r (outbound_socket e) = Some (the (r (outbound_socket e)))" by (auto simp: stick_en_linea_def split: option.splits)
    then show "r' (f e) = r (outbound_socket e)" using enchufar_conectado [OF f(2) that] r' by simp
  qed
  have suma: "suma_sticks (map ?e es) = suma_sticks es" for es by (induction es) simp_all
  have "layout (como_conexiones (map (cpu_de f) (sticks c)))"
    using red suma [of "sticks c"] suma [of "take i (sticks c)" for i]
    by (auto simp: red_ok_def layout_def take_map comp_def)
  moreover have "distinct (map (\<lambda>e. outbound_socket (?e e)) (sticks c))" using f(2) by simp
  ultimately show "red_ok (como_conexiones (map (cpu_de f) (sticks c))) r'"
    using f(1) l by (auto simp: red_ok_def conectados_def stick_en_linea_def comp_def cong: option.case_cong)
  have "map (buffer_de r' \<circ> ?e) (sticks c) = map (buffer_de r) (sticks c)"
    using l(2) by (intro map_cong refl) (simp add: buffer_de_def)
  then show "memoria_fisica (como_conexiones (map (cpu_de f) (sticks c))) r' = memoria_fisica c r"
    by (simp add: memoria_fisica_def comp_def cong: map_cong)
qed

lemma handshake_cpu:
  assumes "length (cpus (conx M)) < MAX_CPUS"
  shows "memory_handshake_handler conectar otro M s (enviar_handshake_cpu ident) =
    (M\<lparr>conx := (conx M)\<lparr>cpus := cpus (conx M) @ [\<lparr>cpu_socket = s, cpu_id = ident\<rparr>]\<rparr>\<rparr>,
     Enviar s (enviar_config_mmu_cpu (segment_max_size (config_memory M))) # map (\<lambda>e. Enviar s (aviso e)) (sticks (conx M)), [])"
proof -
  have "recibir_mensaje recibir_handshake_cpu (enviar_handshake_cpu ident) = (op_num HANDSHAKE_CPU, Inr (ident, []))"
    using m_handshake_cpu.ida_y_vuelta [of ident "[]"] by simp
  then obtain s1 where "recibir_codigo_operacion (enviar_handshake_cpu ident) = (op_num HANDSHAKE_CPU, s1)" "recibir_handshake_cpu s1 = Inr (ident, [])"
    by (auto dest: recibir_mensajeD)
  then show ?thesis
    using assms by (simp add: memory_handshake_handler_def registrar_cpu_def con_recv_Inr conexiones_agregar_cpu_def notificar_sticks)
qed

lemma conectar_config:
  "conectar_a_memory en ident (enviar_config_mmu_cpu sms @ s) st =
    map_option (\<lambda>(st2, ev). (st2, Enviar (en_memory_socket en) (enviar_handshake_cpu ident) # ev))
      (cpu_memory_listener_thread en (st\<lparr>cpu_id_global := ident, cpu_segment_max_size := sms, respuesta_lista := 0\<rparr>) s)"
  using recibir_mensajeD [OF m_config_mmu.ida_y_vuelta [of sms s]] by (auto simp: conectar_a_memory_def)

text \<open>
  C36. A CPU that connects to Kernel Memory ends with the segment size of Kernel Memory and a
  table of sticks with the same bases and sizes, in the same order; when each connection
  leads to the stick that Kernel Memory uses, the CPU sees exactly the same flat RAM, and its
  table fulfils what the accesses through the MMU rely on.
\<close>

theorem cpu_refleja_memoria:
  assumes red: "red_ok (conx M) (red_sticks M)" and cupo: "length (cpus (conx M)) < MAX_CPUS"
    and con: "\<forall>e \<in> set (sticks (conx M)). textos_ok e \<and> 0 \<le> f e \<and>
      en_conectar en (st_ip e) (st_puerto e) = Some (f e, the (red_sticks M (outbound_socket e)))"
    and dist: "distinct (map f (sticks (conx M)))" and vacia: "memory_sticks st = []"
    and hs: "memory_handshake_handler conectar otro M (en_memory_socket en) (enviar_handshake_cpu ident) = (M', evs, s')"
  shows "\<exists>st' ev. conectar_a_memory en ident (respuesta_en (en_memory_socket en) evs) st = Some (st', ev) \<and>
    cpu_segment_max_size st' = segment_max_size (config_memory M) \<and>
    map (\<lambda>m. (cs_base m, cs_size m)) (memory_sticks st') = map (\<lambda>e. (base_fisica e, st_tamanio e)) (sticks (conx M')) \<and>
    red_ok (como_conexiones (memory_sticks st')) (cpu_red st') \<and>
    memoria_fisica (como_conexiones (memory_sticks st')) (cpu_red st') = memoria_de M' \<and> memoria_de M' = memoria_de M"
proof -
  let ?ss = "sticks (conx M)" and ?st = "st\<lparr>cpu_id_global := ident, cpu_segment_max_size := segment_max_size (config_memory M), respuesta_lista := 0\<rparr>"
  let ?g = "\<lambda>e. the (red_sticks M (outbound_socket e))"
  let ?st' = "?st\<lparr>memory_sticks := map (cpu_de f) ?ss, cpu_red := enchufar f ?g ?ss (cpu_red st)\<rparr>"
  note h = handshake_cpu [OF cupo, of conectar otro "en_memory_socket en" ident]
  have M': "sticks (conx M') = ?ss" "red_sticks M' = red_sticks M" using h hs by auto
  have r: "respuesta_en (en_memory_socket en) evs = enviar_config_mmu_cpu (segment_max_size (config_memory M)) @ concat (map aviso ?ss)"
    using h hs respuesta_en_avisos by auto
  have "length ?ss \<le> MAX_MEMORY_STICKS" using red by (simp add: red_ok_def layout_def)
  then have "cpu_memory_listener_thread en ?st (concat (map aviso ?ss)) =
      Some (?st', map (\<lambda>e. Enviar (f e) (enviar_handshake_cpu ident)) ?ss)"
    using listener_avisos [of ?ss en f ?g ?st] con vacia by simp
  then have c: "\<exists>ev. conectar_a_memory en ident (respuesta_en (en_memory_socket en) evs) st = Some (?st', ev)"
    by (simp add: r conectar_config)
  have "\<forall>e \<in> set ?ss. 0 \<le> f e" using con by blast
  note e = espejo [OF red this dist refl, of "cpu_red st"]
  have "memoria_de M' = memoria_de M" by (simp add: memoria_fisica_def M')
  then show ?thesis using c e M'(1) by (intro exI [of _ ?st']) auto
qed


definition memoria_dos :: t_memoria where
  "memoria_dos = memoria_chica\<lparr>conx :=
     \<lparr>scheduler_socket = 3, cpus = [],
      sticks = [\<lparr>st_socket = 4, st_tamanio = 3, st_ip = ''a'', st_puerto = ''1'', outbound_socket = 5, base_fisica = 0\<rparr>,
                \<lparr>st_socket = 6, st_tamanio = 2, st_ip = ''b'', st_puerto = ''1'', outbound_socket = 7, base_fisica = 3\<rparr>],
      swap_socket = 8\<rparr>\<rparr>"

definition enchufe :: "t_memory_stick_entry \<Rightarrow> sock" where
  "enchufe e = (if st_ip e = ''a'' then 20 else 21)"

definition entorno_sticks :: t_entorno where
  "entorno_sticks = entorno_ejemplo\<lparr>en_conectar := (\<lambda>ip puerto. if ip = ''a'' then Some (20, the (red_ejemplo 5)) else Some (21, the (red_ejemplo 7)))\<rparr>"

lemma cpu_refleja_memoria_witness:
  "\<exists>st' ev. conectar_a_memory entorno_sticks 9 (respuesta_en 3 (fst (snd (memory_handshake_handler (\<lambda>_ _. None) swap_ejemplo memoria_dos 3
      (enviar_handshake_cpu 9))))) (cpu_ejemplo\<lparr>memory_sticks := []\<rparr>) = Some (st', ev) \<and> cpu_segment_max_size st' = 4 \<and>
    memoria_fisica (como_conexiones (memory_sticks st')) (cpu_red st') = [1, 2, 3, 4, 5]"
proof -
  let ?r = "memory_handshake_handler (\<lambda>_ _. None) swap_ejemplo memoria_dos (en_memory_socket entorno_sticks) (enviar_handshake_cpu 9)"
  have a: "red_sticks memoria_dos = red_ejemplo" "segment_max_size (config_memory memoria_dos) = 4" "en_memory_socket entorno_sticks = 3"
    by (simp_all add: memoria_dos_def memoria_chica_def entorno_sticks_def entorno_ejemplo_def)
  have red: "red_ok (conx memoria_dos) (red_sticks memoria_dos)"
    by (auto simp: memoria_chica_def memoria_dos_def red_ok_def layout_def conectados_def red_ejemplo_def stick_en_linea_def
        stick_ok_def MAX_MEMORY_STICKS_def less_Suc_eq)
  have m: "memoria_de memoria_dos = [1, 2, 3, 4, 5]" by (simp add: memoria_chica_def memoria_dos_def memoria_fisica_def buffer_de_def red_ejemplo_def)
  have c: "length (cpus (conx memoria_dos)) < MAX_CPUS" by (simp add: memoria_dos_def MAX_CPUS_def)
  have con: "\<forall>e \<in> set (sticks (conx memoria_dos)). textos_ok e \<and> 0 \<le> enchufe e \<and>
      en_conectar entorno_sticks (st_ip e) (st_puerto e) = Some (enchufe e, the (red_sticks memoria_dos (outbound_socket e)))"
    unfolding a(1) by (simp add: memoria_dos_def textos_ok_def cadena_ok_def enchufe_def entorno_sticks_def)
  have d: "distinct (map enchufe (sticks (conx memoria_dos)))" by (simp add: memoria_dos_def enchufe_def)
  have v: "memory_sticks (cpu_ejemplo\<lparr>memory_sticks := []\<rparr>) = []" by simp
  have r: "?r = (fst ?r, fst (snd ?r), snd (snd ?r))" by simp
  from cpu_refleja_memoria [OF red c con d v r] show ?thesis unfolding a(2,3) m by auto
qed

end
