(* ===== verification/Arranque.thy ===== *)
theory Arranque
  imports Sockets Cpu_Ciclo Memory_Sistema
begin

text \<open>
  The start of the modules around the kernels: configuration files, the \<open>main\<close> functions of the
  sticks, the swap, Kernel Memory and the CPUs up to their loops, the servers and their accept
  loops. What the C library, the kernel and the configuration library answer are parameters. A
  function that may fail gives a \<open>resultado\<close>: \<open>Indefinido\<close> is undefined behaviour, such as
  \<open>strdup\<close> of a null pointer; \<open>Fallo\<close> is \<open>false\<close>, or the end of the program with an error.
\<close>

datatype 'a resultado = Indefinido | Fallo | Exito 'a

fun luego :: "'a resultado \<Rightarrow> ('a \<Rightarrow> 'b resultado) \<Rightarrow> 'b resultado" where
  "luego Indefinido f = Indefinido"
| "luego Fallo f = Fallo"
| "luego (Exito a) f = f a"

lemma luego_Exito: "luego r f = Exito b \<longleftrightarrow> (\<exists>a. r = Exito a \<and> f a = Exito b)"
  by (cases r) simp_all

abbreviation exige :: "bool \<Rightarrow> 'a resultado \<Rightarrow> 'a resultado" where
  "exige b r \<equiv> (if b then r else Fallo)"

section \<open>Threads and accept loops\<close>

text \<open>\<open>rc\<close> is what \<open>pthread_create\<close> answers; the threads are known by their argument.\<close>

definition spawn_detached :: "int \<Rightarrow> 'a \<Rightarrow> 'a list \<Rightarrow> 'a list" where
  "spawn_detached rc arg hilos = (if rc \<noteq> 0 then hilos else hilos @ [arg])"

text \<open>An iteration of an accept loop: the answers of \<open>accept\<close>, \<open>malloc\<close> and \<open>pthread_create\<close>.\<close>

record t_llegada =
  r_accept :: int
  r_malloc :: bool
  r_hilo :: int

text \<open>
  The loops work on the descriptors that are open and the clients that have a thread. Kernel
  Memory's ends at the first failure of \<open>accept\<close>; a null \<open>malloc\<close> is followed.
\<close>

fun memory_listener_thread :: "t_llegada list \<Rightarrow> int list \<times> int list \<Rightarrow> (int list \<times> int list) resultado" where
  "memory_listener_thread [] st = Exito st"
| "memory_listener_thread (r # rs) (fds, hilos) =
     (let client_socket = r_accept r
      in if client_socket = - 1 then Exito (fds, hilos)
         else if \<not> r_malloc r then Indefinido
         else memory_listener_thread rs (client_socket # fds, spawn_detached (r_hilo r) client_socket hilos))"

text \<open>The loop of the scheduler is the same text in another file.\<close>

definition scheduler_listener_thread :: "t_llegada list \<Rightarrow> int list \<times> int list \<Rightarrow> (int list \<times> int list) resultado" where
  "scheduler_listener_thread = memory_listener_thread"

text \<open>The loop of a stick goes on after any failure and closes the client it cannot serve.\<close>

fun memory_stick_listener_thread :: "t_llegada list \<Rightarrow> int list \<times> int list \<Rightarrow> int list \<times> int list" where
  "memory_stick_listener_thread [] st = st"
| "memory_stick_listener_thread (r # rs) (fds, hilos) =
     (let client_socket = r_accept r
      in if client_socket = - 1 then memory_stick_listener_thread rs (fds, hilos)
         else if \<not> r_malloc r then memory_stick_listener_thread rs (liberar_conexion client_socket (client_socket # fds), hilos)
         else if r_hilo r \<noteq> 0 then memory_stick_listener_thread rs (liberar_conexion client_socket (client_socket # fds), hilos)
         else memory_stick_listener_thread rs (client_socket # fds, hilos @ [client_socket]))"

text \<open>
  A stick never keeps a client without a thread: what is open afterwards are the old descriptors
  and the clients that are served. The kernel gives a descriptor that is not in use
  (\<open>nuevos\<close>); it may be one that was closed before.
\<close>

abbreviation atendida :: "t_llegada \<Rightarrow> bool" where
  "atendida r \<equiv> r_accept r \<noteq> - 1 \<and> r_malloc r \<and> r_hilo r = 0"

fun nuevos :: "t_llegada list \<Rightarrow> int list \<Rightarrow> bool" where
  "nuevos [] fds \<longleftrightarrow> True"
| "nuevos (r # rs) fds \<longleftrightarrow> (r_accept r = - 1 \<or> r_accept r \<notin> set fds) \<and>
     nuevos rs (if atendida r then r_accept r # fds else fds)"

lemma liberar_nuevo [simp]: "d \<notin> set fds \<Longrightarrow> liberar_conexion d (d # fds) = fds"
  by (induction fds) (auto simp: liberar_conexion_def)

theorem escucha_del_stick:
  assumes "nuevos rs fds"
  shows "memory_stick_listener_thread rs (fds, hilos) =
    (rev (map r_accept (filter atendida rs)) @ fds, hilos @ map r_accept (filter atendida rs))"
  using assms by (induction rs arbitrary: fds hilos) (auto simp: Let_def)

theorem escucha_del_stick_witness:
  "memory_stick_listener_thread
     [\<lparr>r_accept = 5, r_malloc = True, r_hilo = 0\<rparr>, \<lparr>r_accept = - 1, r_malloc = True, r_hilo = 0\<rparr>,
      \<lparr>r_accept = 6, r_malloc = True, r_hilo = 11\<rparr>] ([3], []) = ([5, 3], [5])"
  by (subst escucha_del_stick) simp_all

text \<open>Kernel Memory and the scheduler keep the client that got no thread: open, and nobody reads it.\<close>

lemma escucha_abandona:
  "memory_listener_thread [\<lparr>r_accept = 5, r_malloc = True, r_hilo = 11\<rparr>] (fds, hilos) = Exito (5 # fds, hilos)"
  by (simp add: spawn_detached_def)

text \<open>
  The servers. Without a socket Kernel Memory and the scheduler end; a stick goes on, and registers
  itself all the same. \<open>Escucha\<close> has the socket and whether the accept loop runs.
\<close>

datatype t_servidor = Sin_Servidor | Escucha int bool

definition iniciar_servidor_memory :: "t_respuestas_red \<Rightarrow> int \<Rightarrow> int list \<Rightarrow> (t_servidor \<times> int list) resultado" where
  "iniciar_servidor_memory r hilo fds =
     (case iniciar_servidor r fds of
        None \<Rightarrow> Indefinido
      | Some (server_socket, error, fds) \<Rightarrow>
          if server_socket = - 1 then Fallo else Exito (Escucha server_socket (spawn_detached hilo () [] \<noteq> []), fds))"

definition iniciar_servidor_scheduler :: "t_respuestas_red \<Rightarrow> int \<Rightarrow> int list \<Rightarrow> (t_servidor \<times> int list) resultado" where
  "iniciar_servidor_scheduler = iniciar_servidor_memory"

definition iniciar_servidor_memory_stick :: "t_respuestas_red \<Rightarrow> int \<Rightarrow> int list \<Rightarrow> (t_servidor \<times> int list) resultado" where
  "iniciar_servidor_memory_stick r hilo fds =
     (case iniciar_servidor r fds of
        None \<Rightarrow> Indefinido
      | Some (server_socket, error, fds) \<Rightarrow>
          if server_socket = - 1 then Exito (Sin_Servidor, fds)
          else if hilo \<noteq> 0 then Exito (Sin_Servidor, liberar_conexion server_socket fds)
          else Exito (Escucha server_socket True, fds))"

section \<open>Configuration\<close>

text \<open>
  A configuration file as the library reads it: its strings, its numbers, and which entries it has.
  The string of an entry that is missing is a null pointer.
\<close>

type_synonym t_config = "(string \<Rightarrow> string option) \<times> (string \<Rightarrow> i32) \<times> (string \<Rightarrow> bool)"

definition con_cadenas :: "string list \<Rightarrow> (string \<Rightarrow> string option) \<Rightarrow> 'a resultado \<Rightarrow> 'a resultado" where
  "con_cadenas ks cad r = (if list_ex (\<lambda>k. cad k = None) ks then Indefinido else r)"

record t_config_cpu =
  ccpu_log_level :: string
  ccpu_scheduler_ip :: string
  ccpu_scheduler_port :: string
  ccpu_memory_ip :: string
  ccpu_memory_port :: string
  ccpu_segment_max_size :: u32

definition load_config_cpu :: "t_config option \<Rightarrow> t_config_cpu resultado" where
  "load_config_cpu archivo =
     (case archivo of None \<Rightarrow> Fallo
      | Some (cad, entero, tiene) \<Rightarrow>
          con_cadenas [''LOG_LEVEL'', ''SCHEDULER_IP'', ''SCHEDULER_PORT'', ''MEMORY_IP'', ''MEMORY_PORT''] cad
            (Exito \<lparr>ccpu_log_level = the (cad ''LOG_LEVEL''), ccpu_scheduler_ip = the (cad ''SCHEDULER_IP''),
                    ccpu_scheduler_port = the (cad ''SCHEDULER_PORT''), ccpu_memory_ip = the (cad ''MEMORY_IP''),
                    ccpu_memory_port = the (cad ''MEMORY_PORT''),
                    ccpu_segment_max_size = (if tiene ''SEGMENT_MAX_SIZE'' then entero ''SEGMENT_MAX_SIZE'' else 1024)\<rparr>))"

record t_config_memory_stick =
  cst_log_level :: string
  cst_kernel_memory_ip :: string
  cst_kernel_memory_port :: string
  cst_ip_propia :: string
  cst_puerto_propio :: string
  cst_memory_size :: u32
  cst_memory_delay :: u32

text \<open>The tests for null pointers come after the \<open>strdup\<close>s; only the one of the size can reject.\<close>

definition load_config_memory_stick :: "t_config option \<Rightarrow> t_config_memory_stick resultado" where
  "load_config_memory_stick archivo =
     (case archivo of None \<Rightarrow> Fallo
      | Some (cad, entero, tiene) \<Rightarrow>
          con_cadenas [''LOG_LEVEL'', ''MEMORY_IP'', ''MEMORY_PORT'', ''STICK_IP'', ''STICK_PORT''] cad
            (if entero ''MEMORY_SIZE'' = 0 then Fallo
             else Exito \<lparr>cst_log_level = the (cad ''LOG_LEVEL''), cst_kernel_memory_ip = the (cad ''MEMORY_IP''),
                    cst_kernel_memory_port = the (cad ''MEMORY_PORT''), cst_ip_propia = the (cad ''STICK_IP''),
                    cst_puerto_propio = the (cad ''STICK_PORT''), cst_memory_size = entero ''MEMORY_SIZE'',
                    cst_memory_delay = entero ''MEMORY_DELAY''\<rparr>))"

section \<open>A stick\<close>

text \<open>
  The log of a stick is named after its configuration file: without the directory, cut to the
  buffer of 256 bytes, with its extension replaced.
\<close>

definition desde_ultimo :: "char \<Rightarrow> string \<Rightarrow> string" where
  "desde_ultimo c s = rev (takeWhile (\<lambda>d. d \<noteq> c) (rev s))"

definition hasta_ultimo :: "char \<Rightarrow> string \<Rightarrow> string" where
  "hasta_ultimo c s = (if c \<in> set s then take (length s - length (desde_ultimo c s) - 1) s else s)"

definition log_path_de :: "string \<Rightarrow> string" where
  "log_path_de config_path =
     (let log_path = take 255 (desde_ultimo (CHR ''/'') config_path);
          log_path = hasta_ultimo (CHR ''.'') log_path
      in log_path @ take (256 - length log_path - 1) ''.log'')"

lemma log_path_acotado: "length (log_path_de s) \<le> 255"
  by (auto simp: log_path_de_def hasta_ultimo_def Let_def)

lemma desde_ultimo_corta: "c \<notin> set b \<Longrightarrow> desde_ultimo c (a @ c # b) = b"
  by (simp add: desde_ultimo_def takeWhile_append)

lemma log_path_correcto:
  assumes "CHR ''/'' \<notin> set base_n" "CHR ''/'' \<notin> set ext" "CHR ''.'' \<notin> set ext" "length base_n + length ext < 250"
  shows "log_path_de (dir @ CHR ''/'' # base_n @ CHR ''.'' # ext) = base_n @ ''.log''"
proof -
  have "desde_ultimo (CHR ''/'') (dir @ CHR ''/'' # base_n @ CHR ''.'' # ext) = base_n @ CHR ''.'' # ext"
    using assms(1,2) by (intro desde_ultimo_corta) auto
  moreover have "hasta_ultimo (CHR ''.'') (base_n @ CHR ''.'' # ext) = base_n"
    using assms(3) by (simp add: hasta_ultimo_def desde_ultimo_corta)
  ultimately show ?thesis using assms(4) by (simp add: log_path_de_def Let_def)
qed

text \<open>What the start of a stick gets from outside, and what it ends with.\<close>

record t_entorno_stick =
  as_config :: "string \<Rightarrow> t_config option"
  as_log :: "string \<Rightarrow> bool"
  as_calloc :: bool
  as_red :: t_respuestas_red
  as_hilo :: int
  as_conexion :: "sock option"

record t_stick_activo =
  sa_stick :: t_stick
  sa_servidor :: t_servidor
  sa_socket :: sock
  sa_enviado :: "byte list"

definition memory_stick_main :: "t_entorno_stick \<Rightarrow> string list \<Rightarrow> int list \<Rightarrow> t_stick_activo resultado" where
  "memory_stick_main en argv fds =
     exige (2 \<le> length argv)
       (luego (load_config_memory_stick (as_config en (argv ! 1))) (\<lambda>config.
          let tam = (if 3 \<le> length argv then atoi (argv ! 2) else cst_memory_size config)
          in exige (as_log en (log_path_de (argv ! 1))) (exige (as_calloc en)
               (let st = inicializar_memoria_stick (replicate (unat tam) 0) tam
                in luego (iniciar_servidor_memory_stick (as_red en) (as_hilo en) fds) (\<lambda>(servidor, fds).
                     case conectar_a_kernel_memory (as_conexion en) tam (cst_ip_propia config) (cst_puerto_propio config) of
                       None \<Rightarrow> Fallo
                     | Some (memory_socket, enviado) \<Rightarrow>
                         Exito \<lparr>sa_stick = st, sa_servidor = servidor, sa_socket = memory_socket, sa_enviado = enviado\<rparr>)))))"

lemma stick_arrancado:
  assumes "memory_stick_main en argv fds = Exito a" "as_config en (argv ! 1) = Some (c, e, t)"
    and "c ''STICK_IP'' = Some ip" "c ''STICK_PORT'' = Some puerto"
  shows "memoria_buffer (sa_stick a) = replicate (unat (memoria_size (sa_stick a))) 0"
    "sa_enviado a = enviar_handshake_memory_stick (memoria_size (sa_stick a)) ip puerto"
  using assms
  by (auto simp: memory_stick_main_def luego_Exito load_config_memory_stick_def con_cadenas_def Let_def
      conectar_a_kernel_memory_def inicializar_memoria_stick_def split: if_splits option.splits prod.splits)

section \<open>The swap, Kernel Memory and a CPU\<close>

definition swap_conectar_kernel_memory :: "sock \<Rightarrow> bool" where
  "swap_conectar_kernel_memory conexion \<longleftrightarrow> conexion \<noteq> - 1"

text \<open>Up to the loop that serves Kernel Memory: the module and the handshake it has sent.\<close>

definition swap_main ::
  "(string \<Rightarrow> t_config option) \<Rightarrow> string list \<Rightarrow> bool \<Rightarrow> bool \<Rightarrow> byte list option \<Rightarrow> sock \<Rightarrow> (t_swap \<times> byte list) resultado" where
  "swap_main archivos argv log sigint previo conexion =
     exige (2 \<le> length argv)
       (case archivos (argv ! 1) of None \<Rightarrow> Fallo
        | Some (cad, entero, tiene) \<Rightarrow>
            con_cadenas [''LOG_LEVEL'', ''MEMORY_IP'', ''MEMORY_PORT'', ''SWAP_FILE_PATH''] cad
              (case load_swap_config cad entero of None \<Rightarrow> Fallo
               | Some cfg \<Rightarrow> exige log (exige sigint
                   (case swap_abrir_archivo cfg previo of None \<Rightarrow> Fallo
                    | Some sw \<Rightarrow> exige (swap_conectar_kernel_memory conexion) (Exito (sw, swap_enviar_handshake cfg))))))"

definition inicializar_estructuras :: "t_memoria \<Rightarrow> t_memoria" where
  "inicializar_estructuras M = M\<lparr>procesos := procesos_init, bloques_libres := bloques_init, conx := conexiones_init\<rparr>"

definition memory_main ::
  "(string \<Rightarrow> t_config option) \<Rightarrow> string list \<Rightarrow> bool \<Rightarrow> t_respuestas_red \<Rightarrow> int \<Rightarrow> int list \<Rightarrow> t_memoria \<Rightarrow> (t_memoria \<times> t_servidor) resultado" where
  "memory_main archivos argv log r hilo fds M =
     exige (2 \<le> length argv)
       (case archivos (argv ! 1) of None \<Rightarrow> Fallo
        | Some (cad, entero, tiene) \<Rightarrow>
            con_cadenas [''LOG_LEVEL'', ''ALLOCATION_STRATEGY'', ''SCRIPTS_BASEPATH'', ''PUERTO_ESCUCHA''] cad
              (exige log
                (let M1 = inicializar_estructuras (M\<lparr>config_memory := load_config_memory cad entero\<rparr>)
                 in luego (iniciar_servidor_memory r hilo fds) (\<lambda>(servidor, fds). Exito (M1, servidor)))))"

text \<open>
  Up to the loop of \<open>turno_cpu\<close>. The two connections wait until they are accepted and always answer
  \<open>true\<close>; a message from Kernel Memory that is cut ends the program.
\<close>

definition cpu_main ::
  "(string \<Rightarrow> t_config option) \<Rightarrow> string list \<Rightarrow> bool \<Rightarrow> t_entorno \<Rightarrow> byte list \<Rightarrow> t_conexiones_cpu \<Rightarrow> (t_conexiones_cpu \<times> evento list) resultado" where
  "cpu_main archivos argv log en respuesta st =
     exige (3 \<le> length argv)
       (let cpu_id = atoi (argv ! 2)
        in exige (0 <s cpu_id)
             (luego (load_config_cpu (archivos (argv ! 1))) (\<lambda>config.
                exige log
                  (case conectar_a_memory en cpu_id respuesta (st\<lparr>cpu_segment_max_size := ccpu_segment_max_size config\<rparr>) of
                     None \<Rightarrow> Indefinido
                   | Some (st1, ev1) \<Rightarrow> let (st2, ev2) = conectar_a_scheduler en cpu_id st1 in Exito (st2, ev1 @ ev2)))))"

section \<open>The memory of a system that has started\<close>

text \<open>
  A stick that starts: the connection Kernel Memory has with it, the way back to the address that
  it announces, and the result of its \<open>main\<close>.
\<close>

record t_alta =
  al_client :: sock
  al_conectar :: "string \<Rightarrow> string \<Rightarrow> (sock \<times> t_stick) option"
  al_salida :: sock
  al_stick :: t_stick_activo

definition alta_ok :: "t_alta \<Rightarrow> bool" where
  "alta_ok x \<longleftrightarrow> (\<exists>en argv fds ip puerto c e t. memory_stick_main en argv fds = Exito (al_stick x) \<and>
     as_config en (argv ! 1) = Some (c, e, t) \<and> c ''STICK_IP'' = Some ip \<and> c ''STICK_PORT'' = Some puerto \<and>
     cadena_ok ip \<and> cadena_ok puerto \<and> length ip + length puerto < 2 ^ 31 - 100 \<and>
     al_conectar x ip puerto = Some (al_salida x, sa_stick (al_stick x)) \<and> 0 \<le> al_salida x)"

abbreviation tamanio_de :: "t_alta \<Rightarrow> nat" where
  "tamanio_de x \<equiv> unat (memoria_size (sa_stick (al_stick x)))"

fun conectar_sticks :: "t_swap \<Rightarrow> t_alta list \<Rightarrow> t_memoria \<Rightarrow> t_memoria" where
  "conectar_sticks otro [] M = M"
| "conectar_sticks otro (x # xs) M =
     conectar_sticks otro xs (fst (memory_handshake_handler (al_conectar x) otro M (al_client x) (sa_enviado (al_stick x))))"

lemma stick_conectado:
  fixes M :: t_memoria and x :: t_alta and otro :: t_swap
  assumes M: "mem_alcanzable M" and x: "alta_ok x"
    and hay: "length (sticks (conx M)) < MAX_MEMORY_STICKS" and tam: "ram (conx M) + tamanio_de x < 2 ^ 31 - 100"
    and out: "al_salida x \<notin> outbound_socket ` set (sticks (conx M))"
  defines "M' \<equiv> fst (memory_handshake_handler (al_conectar x) otro M (al_client x) (sa_enviado (al_stick x)))"
  shows "mem_alcanzable M'" "ram (conx M') = ram (conx M) + tamanio_de x" "procesos M' = procesos M"
    "memoria_de M' = memoria_de M @ replicate (tamanio_de x) 0" "length (sticks (conx M')) = Suc (length (sticks (conx M)))"
    "outbound_socket ` set (sticks (conx M')) = insert (al_salida x) (outbound_socket ` set (sticks (conx M)))"
proof -
  let ?st = "sa_stick (al_stick x)"
  obtain en argv fds ip puerto c e t where x': "memory_stick_main en argv fds = Exito (al_stick x)" "as_config en (argv ! 1) = Some (c, e, t)"
      "c ''STICK_IP'' = Some ip" "c ''STICK_PORT'' = Some puerto"
    and ip: "cadena_ok ip" "cadena_ok puerto" "length ip + length puerto < 2 ^ 31 - 100"
    and con: "al_conectar x ip puerto = Some (al_salida x, ?st)" "0 \<le> al_salida x"
    using x by (auto simp: alta_ok_def)
  note a = stick_arrancado [OF x']
  then have st: "stick_ok ?st" "memoria_buffer ?st = replicate (tamanio_de x) 0"
      "sa_enviado (al_stick x) = enviar_handshake_memory_stick (memoria_size ?st) ip puerto"
    by (simp_all add: stick_ok_def)
  obtain evs where paso: "memory_handshake_handler (al_conectar x) otro M (al_client x)
      (enviar_handshake_memory_stick (memoria_size ?st) ip puerto @ []) = (M', evs, [])"
    and M': "M' = fst (memory_handshake_handler (al_conectar x) otro M (al_client x)
      (enviar_handshake_memory_stick (memoria_size ?st) ip puerto @ []))"
  proof -
    obtain idx b k where "conexiones_agregar_stick (al_client x) (memoria_size ?st) ip puerto (conx M) = (idx, Some b, k)"
      using hay by (auto simp: conexiones_agregar_stick_def Let_def)
    from atender_handshake_stick [where conectar = "al_conectar x", OF ip this con(1), of otro "[]"] show thesis
      using that by (simp add: M'_def st(3))
  qed
  have "paso_memoria M Invisible M'"
    by (rule paso_memoria.stick [OF ip hay tam con(1,2) out st(1) refl paso])
  with M show "mem_alcanzable M'" by (rule mem_alcanzable_paso)
  have red: "red_ok (conx M) (red_sticks M)"
    using inv_sisD(1) [OF memoria_sis.inv_alcanzable [OF M]] by (simp add: mem_inv_def)
  obtain idx b k where ag: "conexiones_agregar_stick (al_client x) (memoria_size ?st) ip puerto (conx M) = (idx, Some b, k)"
    using hay by (auto simp: conexiones_agregar_stick_def Let_def)
  have t: "ram (conx M) + tamanio_de x < 2 ^ 32 - 1" "tamanio_de x < 2 ^ 31 - 100" using tam by simp_all
  note a = agregar_stick_conectado [OF red t ag con(2) out st(1) refl]
  have r: "M' = M\<lparr>conx := conexiones_stick_set_outbound_socket idx (al_salida x) k,
       bloques_libres := bloques_agregar b (memoria_size ?st) (bloques_libres M), red_sticks := (red_sticks M)(al_salida x := Some ?st)\<rparr>"
    using atender_handshake_stick [where conectar = "al_conectar x", OF ip ag con(1), of otro "[]"] by (simp add: M')
  show "ram (conx M') = ram (conx M) + tamanio_de x" "procesos M' = procesos M"
      "memoria_de M' = memoria_de M @ replicate (tamanio_de x) 0"
    using a(2,4) st(2) by (simp_all add: r)
  have k: "idx = int (length (sticks (conx M)))" "sticks k = sticks (conx M) @ [\<lparr>st_socket = al_client x, st_tamanio = memoria_size ?st,
      st_ip = ip, st_puerto = puerto, outbound_socket = - 1, base_fisica = b\<rparr>]"
    using ag by (auto simp: conexiones_agregar_stick_def Let_def split: if_splits)
  show "length (sticks (conx M')) = Suc (length (sticks (conx M)))"
      "outbound_socket ` set (sticks (conx M')) = insert (al_salida x) (outbound_socket ` set (sticks (conx M)))"
    by (auto simp: r conexiones_stick_set_outbound_socket_def indice_valido_def k)
qed

lemma sticks_conectados:
  fixes M :: t_memoria
  assumes "mem_alcanzable M" "\<forall>x \<in> set xs. alta_ok x" "distinct (map al_salida xs)"
    and "length (sticks (conx M)) + length xs \<le> MAX_MEMORY_STICKS" "ram (conx M) + (\<Sum>x\<leftarrow>xs. tamanio_de x) < 2 ^ 31 - 100"
    and "al_salida ` set xs \<inter> outbound_socket ` set (sticks (conx M)) = {}"
  shows "mem_alcanzable (conectar_sticks otro xs M) \<and> procesos (conectar_sticks otro xs M) = procesos M \<and>
    ram (conx (conectar_sticks otro xs M)) = ram (conx M) + (\<Sum>x\<leftarrow>xs. tamanio_de x) \<and>
    memoria_de (conectar_sticks otro xs M) = memoria_de M @ replicate (\<Sum>x\<leftarrow>xs. tamanio_de x) 0"
  using assms
proof (induction xs arbitrary: M)
  case (Cons x xs)
  let ?M = "fst (memory_handshake_handler (al_conectar x) otro M (al_client x) (sa_enviado (al_stick x)))"
  have "alta_ok x" "length (sticks (conx M)) < MAX_MEMORY_STICKS" "ram (conx M) + tamanio_de x < 2 ^ 31 - 100"
      "al_salida x \<notin> outbound_socket ` set (sticks (conx M))"
    using Cons.prems by auto
  note c = stick_conectado [OF Cons.prems(1) this, of otro]
  have "mem_alcanzable (conectar_sticks otro xs ?M) \<and> procesos (conectar_sticks otro xs ?M) = procesos ?M \<and>
      ram (conx (conectar_sticks otro xs ?M)) = ram (conx ?M) + (\<Sum>x\<leftarrow>xs. tamanio_de x) \<and>
      memoria_de (conectar_sticks otro xs ?M) = memoria_de ?M @ replicate (\<Sum>x\<leftarrow>xs. tamanio_de x) 0"
  proof (rule Cons.IH [OF c(1)])
    show "\<forall>x \<in> set xs. alta_ok x" "distinct (map al_salida xs)" using Cons.prems(2,3) by simp_all
    show "length (sticks (conx ?M)) + length xs \<le> MAX_MEMORY_STICKS" using Cons.prems(4) by (simp add: c(5))
    show "ram (conx ?M) + (\<Sum>x\<leftarrow>xs. tamanio_de x) < 2 ^ 31 - 100" using Cons.prems(5) by (simp add: c(2))
    show "al_salida ` set xs \<inter> outbound_socket ` set (sticks (conx ?M)) = {}"
      unfolding c(6) using Cons.prems(3,6) by auto
  qed
  then show ?case unfolding c(2,3,4) by (simp add: replicate_add)
qed simp

text \<open>The handshake of a swap that has started leaves Kernel Memory in an initial state.\<close>

lemma swap_conectado:
  assumes m: "memory_main am argv_m log_m r hilo fds M0 = Exito (M, servidor)"
    and s: "swap_main asw argv_s log_s sigint previo conexion = Exito (sw, enviado)"
    and bs: "unat (block_size (SWAP_CONFIG sw)) < 2 ^ 31 - 100"
    and tot: "unat (swap_file_size (SWAP_CONFIG sw) div block_size (SWAP_CONFIG sw)) < 2 ^ 31" and client: "0 \<le> client"
  obtains M1 where "memory_handshake_handler conectar sw M client enviado = (M1, [], [])" "ini_memoria M1"
proof -
  have M: "procesos M = procesos_init" "bloques_libres M = bloques_init" "conx M = conexiones_init"
    using m by (auto simp: memory_main_def con_cadenas_def luego_Exito inicializar_estructuras_def Let_def
        split: if_splits option.splits prod.splits)
  obtain cad entero cfg where cfg: "load_swap_config cad entero = Some cfg" "swap_abrir_archivo cfg previo = Some sw"
      "enviado = swap_enviar_handshake cfg"
    using s by (auto simp: swap_main_def con_cadenas_def split: if_splits option.splits prod.splits)
  then have c: "SWAP_CONFIG sw = cfg" by (auto simp: swap_abrir_archivo_def split: option.splits)
  have ok: "swap_ok sw" using load_abrir_ok [OF cfg(1,2)] bs c by simp
  let ?b = "block_size cfg" and ?t = "swap_file_size cfg"
  let ?M1 = "M\<lparr>reserva := swap_inicializar ?b (?t div ?b), conx := conexiones_set_swap_socket client (conx M), disco := sw\<rparr>"
  have b0: "?b \<noteq> 0" using ok by (auto simp: swap_ok_def c)
  have "recibir_mensaje recibir_handshake_swap (enviado @ []) = (op_num HANDSHAKE_SWAP, Inr ((?b, ?t), []))"
    using m_handshake_swap.ida_y_vuelta [of "(?b, ?t)" "[]"] by (simp add: cfg(3) swap_enviar_handshake_def)
  then obtain s1 where "recibir_codigo_operacion enviado = (op_num HANDSHAKE_SWAP, s1)" "recibir_handshake_swap s1 = Inr ((?b, ?t), [])"
    by (auto simp: recibir_mensaje_def Let_def split: prod.splits)
  then have h: "memory_handshake_handler conectar sw M client enviado = (?M1, [], [])"
    using b0 by (simp add: memory_handshake_handler_def registrar_swap_def con_recv_Inr)
  have "swap_listo ?M1"
    using ok tot by (simp add: swap_listo_def swap_de_def swap_inicializar_def reserva_ok_def c)
  then have "ini_memoria ?M1"
    using M client by (simp add: ini_memoria_def conexiones_set_swap_socket_def conexiones_init_def)
  with h show thesis by (rule that)
qed

text \<open>
  C25. The start of the system. When the \<open>main\<close> of Kernel Memory, the one of the swap and those of
  any number of sticks have come to their loops, and the handshakes they send have been served,
  Kernel Memory is in a reachable state of its transition system: consistent, without processes,
  its RAM as large as the sticks together, all of it zero and all of it free. The way back to the
  address that a stick announces leads to that stick.
\<close>

theorem arranque_consistente:
  assumes m: "memory_main am argv_m log_m r hilo fds M0 = Exito (M, servidor)"
    and s: "swap_main asw argv_s log_s sigint previo conexion = Exito (sw, enviado)"
    and swap: "unat (block_size (SWAP_CONFIG sw)) < 2 ^ 31 - 100"
      "unat (swap_file_size (SWAP_CONFIG sw) div block_size (SWAP_CONFIG sw)) < 2 ^ 31" "0 \<le> client"
    and xs: "\<forall>x \<in> set xs. alta_ok x" "distinct (map al_salida xs)" "length xs \<le> MAX_MEMORY_STICKS"
      "(\<Sum>x\<leftarrow>xs. tamanio_de x) < 2 ^ 31 - 100"
    and fin: "M1 = conectar_sticks otro xs (fst (memory_handshake_handler conectar sw M client enviado))"
  shows "mem_alcanzable M1 \<and> inv_sis M1 \<and> procesos M1 = [] \<and> ram (conx M1) = (\<Sum>x\<leftarrow>xs. tamanio_de x) \<and>
    memoria_de M1 = replicate (\<Sum>x\<leftarrow>xs. tamanio_de x) 0 \<and> celdas (bloques_libres M1) = {..<ram (conx M1)}"
proof -
  obtain N where N: "memory_handshake_handler conectar sw M client enviado = (N, [], [])" "ini_memoria N"
    by (rule swap_conectado [OF m s swap])
  have ini: "sticks (conx N) = []" "procesos N = []" using N(2) by (simp_all add: ini_memoria_def procesos_init_def)
  have "mem_alcanzable N" using N(2) by (rule alcanzable.inicio)
  then have c: "mem_alcanzable M1" "procesos M1 = []" "ram (conx M1) = (\<Sum>x\<leftarrow>xs. tamanio_de x)"
      "memoria_de M1 = replicate (\<Sum>x\<leftarrow>xs. tamanio_de x) 0"
    using sticks_conectados [of N xs otro] xs ini by (simp_all add: fin N(1) memoria_fisica_def)
  have inv: "inv_sis M1" using c(1) by (rule memoria_sis.inv_alcanzable)
  have "celdas (bloques_libres M1) = {..<ram (conx M1)}"
    using libre_es_el_resto [OF inv_sisD(1) [OF inv]] by (simp add: c(2) ocupadas_def)
  with c inv show ?thesis by blast
qed

text \<open>A memory of four bytes: one stick, and a swap of four blocks.\<close>

definition config_ejemplo :: "string \<Rightarrow> t_config option" where
  "config_ejemplo path = Some (\<lambda>_. Some ''x'', \<lambda>k. if k = ''SWAP_FILE_SIZE'' then 8 else if k = ''MEMORY_SIZE'' then 4 else 2, \<lambda>_. True)"

definition red_buena :: t_respuestas_red where
  "red_buena = \<lparr>r_gai = 0, r_socket = 7, r_bind = 0, r_listen = 0, r_connect = 0\<rparr>"

definition entorno_stick_ejemplo :: t_entorno_stick where
  "entorno_stick_ejemplo = \<lparr>as_config = config_ejemplo, as_log = (\<lambda>_. True), as_calloc = True, as_red = red_buena,
     as_hilo = 0, as_conexion = Some 3\<rparr>"

definition stick_activo_ejemplo :: t_stick_activo where
  "stick_activo_ejemplo = \<lparr>sa_stick = inicializar_memoria_stick (replicate 4 0) 4, sa_servidor = Escucha 7 True, sa_socket = 3,
     sa_enviado = enviar_handshake_memory_stick 4 ''x'' ''x''\<rparr>"

definition alta_ejemplo :: t_alta where
  "alta_ejemplo = \<lparr>al_client = 6, al_conectar = (\<lambda>_ _. Some (9, sa_stick stick_activo_ejemplo)), al_salida = 9, al_stick = stick_activo_ejemplo\<rparr>"

lemma stick_ejemplo_arranca: "memory_stick_main entorno_stick_ejemplo [''stick'', ''s.config''] [] = Exito stick_activo_ejemplo"
  by (simp add: memory_stick_main_def entorno_stick_ejemplo_def load_config_memory_stick_def config_ejemplo_def con_cadenas_def
      iniciar_servidor_memory_stick_def iniciar_servidor_def red_buena_def Let_def conectar_a_kernel_memory_def
      stick_activo_ejemplo_def)

lemma alta_ejemplo_ok: "alta_ok alta_ejemplo"
  unfolding alta_ok_def
  by (intro exI conjI, simp add: alta_ejemplo_def, rule stick_ejemplo_arranca)
    (auto simp: alta_ejemplo_def entorno_stick_ejemplo_def config_ejemplo_def cadena_ok_def)

definition km_ejemplo :: t_memoria where
  "km_ejemplo = inicializar_estructuras (memoria_chica\<lparr>config_memory := load_config_memory (\<lambda>_. Some ''x'') (\<lambda>_. 2)\<rparr>)"

definition swap_arrancado :: t_swap where
  "swap_arrancado = \<lparr>SWAP_CONFIG = \<lparr>log_level = ''x'', memory_ip = ''x'', memory_port = ''x'', swap_file_path = ''x'',
     swap_file_size = 8, block_size = 2\<rparr>, SWAP_FILE = replicate 8 0\<rparr>"

lemma arranque_consistente_witness:
  "let M1 = conectar_sticks swap_arrancado [alta_ejemplo]
     (fst (memory_handshake_handler (\<lambda>_ _. None) swap_arrancado km_ejemplo 5 (swap_enviar_handshake (SWAP_CONFIG swap_arrancado))))
   in mem_alcanzable M1 \<and> memoria_de M1 = replicate 4 0 \<and> celdas (bloques_libres M1) = {..<4}"
proof -
  have m: "memory_main config_ejemplo [''km'', ''c''] True red_buena 0 [] memoria_chica = Exito (km_ejemplo, Escucha 7 True)"
    by (simp add: memory_main_def config_ejemplo_def con_cadenas_def iniciar_servidor_memory_def iniciar_servidor_def red_buena_def
        spawn_detached_def Let_def km_ejemplo_def load_config_memory_def)
  have s: "swap_main config_ejemplo [''swap'', ''c''] True True (Some []) 4 =
      Exito (swap_arrancado, swap_enviar_handshake (SWAP_CONFIG swap_arrancado))"
    by (simp add: swap_main_def config_ejemplo_def con_cadenas_def load_swap_config_def swap_abrir_archivo_def ftruncate_def
        swap_conectar_kernel_memory_def swap_arrancado_def)
  have t: "tamanio_de alta_ejemplo = 4" by (simp add: alta_ejemplo_def stick_activo_ejemplo_def inicializar_memoria_stick_def)
  have sw: "block_size (SWAP_CONFIG swap_arrancado) = 2" "swap_file_size (SWAP_CONFIG swap_arrancado) = 8"
    by (simp_all add: swap_arrancado_def)
  show ?thesis
    using arranque_consistente [OF m s _ _ _ _ _ _ _ refl, of 5 "[alta_ejemplo]" swap_arrancado "\<lambda>_ _. None"] alta_ejemplo_ok
    by (simp add: sw t MAX_MEMORY_STICKS_def Let_def)
qed

end
