(* ===== verification/Sched_Lugares.thy ===== *)
theory Sched_Lugares
  imports Sched_Syscalls
begin

text \<open>
  Where a process is. The views of this theory forget everything of the state of the scheduler
  but the state of each process and the places that point to it: the queues, the CPUs, the
  mutexes, the list of suspended processes, the copies to swap under way and the requests to
  the devices. \<open>lugares_ok\<close>
  says that the places agree with the states and that no process is twice in one. An operation
  that holds a process in a local variable works in a state where that process counts as
  absent; the lemmas take a process out of a place and put it in another.
\<close>

section \<open>Places\<close>

type_synonym estados = "i32 \<Rightarrow> (t_estado \<times> bool) option"

text \<open>How many times a process is in each kind of place.\<close>

record puesto =
  en_new :: nat
  en_ready :: nat
  en_cpu :: nat
  en_block :: nat
  en_mutex :: nat
  en_susp :: nat
  en_swap :: nat
  en_io :: nat

type_synonym lugares = "i32 \<Rightarrow> puesto"

definition nadie :: puesto where
  "nadie = \<lparr>en_new = 0, en_ready = 0, en_cpu = 0, en_block = 0, en_mutex = 0, en_susp = 0, en_swap = 0, en_io = 0\<rparr>"

text \<open>
  A suspended process is in the list of suspended processes; while its copy to swap is under
  way it stays in BLOCK, with the flag that holds back the worker of its device. Only a process
  of the BLOCK queue has a request to a device, and at most one; it has none once its device hung
  up.
\<close>

fun puesto_ok :: "(t_estado \<times> bool) option \<Rightarrow> puesto \<Rightarrow> bool" where
  "puesto_ok None u \<longleftrightarrow> u = nadie"
| "puesto_ok (Some (NEW, x)) u \<longleftrightarrow> en_new u \<le> 1 \<and> u = nadie\<lparr>en_new := en_new u\<rparr>"
| "puesto_ok (Some (READY, x)) u \<longleftrightarrow> en_ready u \<le> 1 \<and> u = nadie\<lparr>en_ready := en_ready u\<rparr>"
| "puesto_ok (Some (EXEC, x)) u \<longleftrightarrow> en_cpu u \<le> 1 \<and> u = nadie\<lparr>en_cpu := en_cpu u\<rparr>"
| "puesto_ok (Some (BLOCK, x)) u \<longleftrightarrow>
     en_block u + en_mutex u \<le> 1 \<and> en_io u \<le> en_block u \<and> u = nadie\<lparr>en_block := en_block u, en_mutex := en_mutex u, en_io := en_io u\<rparr>"
| "puesto_ok (Some (SUSP_BLOCK, x)) u \<longleftrightarrow>
     en_swap u \<le> 1 \<and> (en_swap u = 1 \<longrightarrow> \<not> x) \<and> en_io u \<le> 1 \<and>
     u = nadie\<lparr>en_block := 1, en_susp := 1, en_swap := en_swap u, en_io := en_io u\<rparr>"
| "puesto_ok (Some (SUSP_READY, x)) u \<longleftrightarrow> u = nadie\<lparr>en_susp := 1\<rparr>"
| "puesto_ok (Some (EXIT_STATE, x)) u \<longleftrightarrow> u = nadie"

definition lugares_ok :: "estados \<Rightarrow> lugares \<Rightarrow> bool" where
  "lugares_ok e l \<longleftrightarrow> (\<forall>p. puesto_ok (e p) (l p))"

definition est :: "t_scheduler \<Rightarrow> estados" where
  "est S p = map_option (\<lambda>b. (estado b, suspendido_en_swap b)) (pcbs S p)"

definition cola :: "i32 list option \<Rightarrow> i32 list" where
  "cola q = (case q of None \<Rightarrow> [] | Some ps \<Rightarrow> ps)"

definition ocupante :: "t_cpu \<Rightarrow> i32 list" where
  "ocupante c = cola (map_option (\<lambda>p. [p]) (proceso_actual c))"

text \<open>The processes of the requests that a device has, queued or with its worker.\<close>

definition pedidos_de :: "t_interfaz_io \<Rightarrow> i32 list" where
  "pedidos_de io = map r_proceso (io_cola io) @ cola (map_option (\<lambda>req. [r_proceso req]) (en_curso io))"

definition lug :: "t_scheduler \<Rightarrow> lugares" where
  "lug S p =
     \<lparr>en_new = count_list (cola (cola_procesos_new S)) p,
      en_ready = count_list (cola (cola_procesos_ready S)) p + count_list (concat (colas_prioridad S)) p,
      en_cpu = count_list (concat (map ocupante (sc_cpus S))) p,
      en_block = count_list (cola_procesos_block S) p,
      en_mutex = count_list (concat (map cola_bloqueados (lista_mutexes S))) p,
      en_susp = count_list (map fst (lista_suspendidos S)) p,
      en_swap = count_list (volcados_en_vuelo S) p,
      en_io = count_list (concat (map pedidos_de (tabla_ios S))) p\<rparr>"

text \<open>
  Every live pid was handed out already, and the counter is not past the end of an \<open>int\<close>; the
  ids of the CPUs are positive, as the handshake demands.
\<close>

definition marco :: "t_scheduler \<Rightarrow> i32 \<times> i32 list" where
  "marco S = (contador_pids S, map c_id (sc_cpus S))"

definition frescos :: "estados \<Rightarrow> i32 \<times> i32 list \<Rightarrow> bool" where
  "frescos e m \<longleftrightarrow> (\<forall>p. e p \<noteq> None \<longrightarrow> unat p < unat (fst m)) \<and> unat (fst m) < 2 ^ 31 \<and> (\<forall>i \<in> set (snd m). 0 <s i)"

text \<open>The state while some thread holds the processes of \<open>P\<close> in local variables: they count as absent.\<close>

definition sin :: "i32 set \<Rightarrow> estados \<Rightarrow> estados" where
  "sin P e = (\<lambda>q. if q \<in> P then None else e q)"

definition sueltos :: "i32 set \<Rightarrow> t_scheduler \<Rightarrow> bool" where
  "sueltos P S \<longleftrightarrow> lugares_ok (sin P (est S)) (lug S) \<and> frescos (est S) (marco S)"

abbreviation sistema_ok :: "t_scheduler \<Rightarrow> bool" where
  "sistema_ok \<equiv> sueltos {}"

section \<open>Moving one process\<close>

lemma lugares_okI:
  assumes "lugares_ok e l" "\<And>q. q \<noteq> p \<Longrightarrow> e' q = e q" "\<And>q. q \<noteq> p \<Longrightarrow> l' q = l q" "puesto_ok (e' p) (l' p)"
  shows "lugares_ok e' l'"
  using assms unfolding lugares_ok_def by metis

lemma lugares_okD: "lugares_ok e l \<Longrightarrow> puesto_ok (e p) (l p)"
  by (simp add: lugares_ok_def)

definition menos_en :: "puesto \<Rightarrow> puesto \<Rightarrow> bool" where
  "menos_en u v \<longleftrightarrow> en_new u \<le> en_new v \<and> en_ready u \<le> en_ready v \<and> en_cpu u \<le> en_cpu v \<and> en_mutex u \<le> en_mutex v \<and> en_io u \<le> en_io v \<and>
     en_block u = en_block v \<and> en_susp u = en_susp v \<and> en_swap u = en_swap v"

lemma puesto_ok_menos: "puesto_ok x v \<Longrightarrow> menos_en u v \<Longrightarrow> puesto_ok x u"
  by (cases "(x, v)" rule: puesto_ok.cases; cases u; cases v) (auto simp: menos_en_def nadie_def)

lemma lugares_ok_menos: "lugares_ok e l \<Longrightarrow> (\<And>q. menos_en (l' q) (l q)) \<Longrightarrow> lugares_ok e l'"
  unfolding lugares_ok_def using puesto_ok_menos by blast

text \<open>Taking \<open>p\<close> out of the one place where its state says it is.\<close>

lemma puesto_nadie:
  "puesto_ok (Some (NEW, x)) v \<Longrightarrow> 0 < en_new v \<Longrightarrow> v\<lparr>en_new := en_new v - 1\<rparr> = nadie"
  "puesto_ok (Some (READY, x)) v \<Longrightarrow> 0 < en_ready v \<Longrightarrow> v\<lparr>en_ready := en_ready v - 1\<rparr> = nadie"
  "puesto_ok (Some (EXEC, x)) v \<Longrightarrow> 0 < en_cpu v \<Longrightarrow> v\<lparr>en_cpu := en_cpu v - 1\<rparr> = nadie"
  "puesto_ok (Some (BLOCK, x)) v \<Longrightarrow> 0 < en_block v \<Longrightarrow> en_io v = 0 \<Longrightarrow> v\<lparr>en_block := en_block v - 1\<rparr> = nadie"
  "puesto_ok (Some (BLOCK, x)) v \<Longrightarrow> 0 < en_mutex v \<Longrightarrow> v\<lparr>en_mutex := en_mutex v - 1\<rparr> = nadie"
  "puesto_ok (Some (SUSP_READY, x)) v \<Longrightarrow> v\<lparr>en_susp := en_susp v - 1\<rparr> = nadie"
  by (cases v; auto simp: nadie_def)+

lemma estado_de_puesto:
  "puesto_ok x v \<Longrightarrow> 0 < en_new v \<Longrightarrow> \<exists>y. x = Some (NEW, y)"
  "puesto_ok x v \<Longrightarrow> 0 < en_ready v \<Longrightarrow> \<exists>y. x = Some (READY, y)"
  "puesto_ok x v \<Longrightarrow> 0 < en_cpu v \<Longrightarrow> \<exists>y. x = Some (EXEC, y)"
  "puesto_ok x v \<Longrightarrow> 0 < en_mutex v \<Longrightarrow> \<exists>y. x = Some (BLOCK, y)"
  "puesto_ok x v \<Longrightarrow> 0 < en_block v \<Longrightarrow> \<exists>y. x = Some (BLOCK, y) \<or> x = Some (SUSP_BLOCK, y)"
  by (cases "(x, v)" rule: puesto_ok.cases; cases v; auto simp: nadie_def)+

lemma puesto_uno:
  "puesto_ok x v \<Longrightarrow> en_new v + en_ready v + en_cpu v + en_block v + en_mutex v + (en_susp v - en_block v) \<le> 1 \<and> en_susp v \<le> 1 \<and> en_swap v \<le> en_block v \<and> en_io v \<le> en_block v"
  by (cases "(x, v)" rule: puesto_ok.cases; cases v) (auto simp: nadie_def)

lemma puesto_susp: "puesto_ok (Some (s, x)) v \<Longrightarrow> s = SUSP_READY \<or> s = SUSP_BLOCK \<Longrightarrow> en_susp v = 1"
  by (cases v) (auto simp: nadie_def)

lemma puesto_susp_block: "puesto_ok (Some (SUSP_BLOCK, x)) v \<Longrightarrow> 0 < en_block v"
  by (cases v) (auto simp: nadie_def)

lemma puesto_estado_susp: "puesto_ok y v \<Longrightarrow> 0 < en_susp v \<longleftrightarrow> (\<exists>x. y = Some (SUSP_BLOCK, x) \<or> y = Some (SUSP_READY, x))"
  by (cases "(y, v)" rule: puesto_ok.cases; cases v) (auto simp: nadie_def)

lemma puesto_en_swap:
  "puesto_ok x v \<Longrightarrow> 0 < en_swap v \<Longrightarrow> x = Some (SUSP_BLOCK, False) \<and> en_io v \<le> 1 \<and>
     v = nadie\<lparr>en_block := 1, en_susp := 1, en_swap := 1, en_io := en_io v\<rparr>"
  by (cases "(x, v)" rule: puesto_ok.cases; cases v) (auto simp: nadie_def)

section \<open>Counting in lists\<close>

lemma count_concat_update:
  "i < length xs \<Longrightarrow> count_list (concat (xs[i := ys])) x + count_list (xs ! i) x = count_list (concat xs) x + count_list ys x"
  by (induction xs arbitrary: i) (auto split: nat.splits)

lemma count_list_remove:
  "i < length xs \<Longrightarrow> count_list xs x = count_list (list_remove xs i) x + (if xs ! i = x then 1 else 0)"
  by (subst id_take_nth_drop, assumption) (simp add: list_remove_def del: append_take_drop_id)

lemma count_concat_nth: "i < length xs \<Longrightarrow> count_list (xs ! i) x \<le> count_list (concat xs) x"
  by (induction xs arbitrary: i) (auto simp: nth_Cons split: nat.splits intro: trans_le_add2)

section \<open>Operations that move nobody\<close>

definition mengua :: "t_scheduler \<Rightarrow> t_scheduler \<Rightarrow> bool" where
  "mengua S S' \<longleftrightarrow> est S' = est S \<and> marco S' = marco S \<and> (\<forall>q. menos_en (lug S' q) (lug S q))"

lemma mengua_refl [simp, intro]: "mengua S S"
  by (simp add: mengua_def menos_en_def)

lemma mengua_trans: "mengua S S' \<Longrightarrow> mengua S' S'' \<Longrightarrow> mengua S S''"
  unfolding mengua_def menos_en_def by (metis order_trans)

lemma sueltos_mengua: "mengua S S' \<Longrightarrow> sueltos P S \<Longrightarrow> sueltos P S'"
  unfolding mengua_def sueltos_def by (metis lugares_ok_menos)

text \<open>The fields that the views read.\<close>

lemma mengua_campos:
  assumes "pcbs S' = pcbs S" "marco S' = marco S" "cola_procesos_new S' = cola_procesos_new S"
    "cola_procesos_ready S' = cola_procesos_ready S" "colas_prioridad S' = colas_prioridad S" "map ocupante (sc_cpus S') = map ocupante (sc_cpus S)"
    "cola_procesos_block S' = cola_procesos_block S" "concat (map cola_bloqueados (lista_mutexes S')) = concat (map cola_bloqueados (lista_mutexes S))"
    "lista_suspendidos S' = lista_suspendidos S" "volcados_en_vuelo S' = volcados_en_vuelo S"
    "concat (map pedidos_de (tabla_ios S')) = concat (map pedidos_de (tabla_ios S))"
  shows "mengua S S'"
  using assms by (simp add: mengua_def marco_def est_def lug_def menos_en_def fun_eq_iff)


lemma menos_en_refl [simp]: "menos_en u u"
  by (simp add: menos_en_def)

lemma est_actualizar: "est (actualizar_pcb p f S) = (est S)(p := map_option (\<lambda>b. (estado (f b), suspendido_en_swap (f b))) (pcbs S p))"
  by (auto simp: est_def actualizar_pcb_def option.map_comp comp_def fun_eq_iff)

lemma lug_actualizar [simp]: "lug (actualizar_pcb p f S) = lug S" "marco (actualizar_pcb p f S) = marco S"
  by (simp_all add: marco_def lug_def actualizar_pcb_def fun_eq_iff)

lemma mengua_pcb: "(\<And>b. estado (f b) = estado b \<and> suspendido_en_swap (f b) = suspendido_en_swap b) \<Longrightarrow> mengua S (actualizar_pcb p f S)"
  by (auto simp: mengua_def est_actualizar) (auto simp: est_def fun_eq_iff)

lemma map_update_igual: "f y = f (xs ! i) \<Longrightarrow> map f (xs[i := y]) = map f xs"
  by (simp add: map_update) (metis length_map list_update_beyond list_update_id not_le nth_map)

lemma ocupante_timer [simp]:
  "ocupante (c\<lparr>timer_activo := x\<rparr>) = ocupante c" "ocupante (c\<lparr>timer_pid := p\<rparr>) = ocupante c" "ocupante (c\<lparr>c_socket := k\<rparr>) = ocupante c"
  "ocupante (c\<lparr>disponible := x\<rparr>) = ocupante c" "ocupante (c\<lparr>proceso_actual := q\<rparr>) = cola (map_option (\<lambda>p. [p]) q)"
  by (simp_all add: ocupante_def)

lemma mengua_cpu: "(\<And>c. ocupante (f c) = ocupante c) \<Longrightarrow> (\<And>c. c_id (f c) = c_id c) \<Longrightarrow> mengua S (actualizar_cpu P f S)"
  by (rule mengua_campos) (simp_all add: marco_def actualizar_cpu_def map_update_igual split: option.split)

lemma mengua_avisos:
  "mengua S (notificar_reevaluar_suspendidos S)" "mengua S (manejar_compactacion_fin S)" "mengua S (fst (manejar_compactacion_inicio S))"
  "mengua S (notificar_proceso_en_block p ep S)" "mengua S (registrar_pcb p S)"
  by (rule mengua_campos; simp add: marco_def notificar_reevaluar_suspendidos_def manejar_compactacion_fin_def manejar_compactacion_inicio_def Let_def
      notificar_proceso_en_block_def registrar_pcb_def)+

lemma actualizar_io_fuera: "\<not> i < length (tabla_ios S) \<Longrightarrow> actualizar_io i g S = S"
  by (cases S) (simp add: actualizar_io_def not_less list_update_beyond)

lemma lug_actualizar_io:
  "i < length (tabla_ios S) \<Longrightarrow>
   en_io (lug (actualizar_io i g S) x) + count_list (pedidos_de (tabla_ios S ! i)) x =
   en_io (lug S x) + count_list (pedidos_de (g (tabla_ios S ! i))) x"
  using count_concat_update [of i "map pedidos_de (tabla_ios S)" "pedidos_de (g (tabla_ios S ! i))" x]
  by (simp add: lug_def actualizar_io_def map_update)

lemma vistas_io:
  "est (actualizar_io i g S) = est S" "marco (actualizar_io i g S) = marco S"
  "lug (actualizar_io i g S) x = (lug S x)\<lparr>en_io := en_io (lug (actualizar_io i g S) x)\<rparr>"
  by (simp_all add: est_def marco_def lug_def actualizar_io_def fun_eq_iff)

lemma mengua_io:
  assumes "\<And>x. count_list (pedidos_de (g (tabla_ios S ! i))) x \<le> count_list (pedidos_de (tabla_ios S ! i)) x"
  shows "mengua S (actualizar_io i g S)"
proof (cases "i < length (tabla_ios S)")
  case True
  have "menos_en (lug (actualizar_io i g S) x) (lug S x)" for x
    using lug_actualizar_io [OF True, of g x] assms [of x] by (subst vistas_io(3)) (simp add: menos_en_def)
  then show ?thesis by (simp add: mengua_def vistas_io(1,2))
next
  case False
  then show ?thesis by (simp add: actualizar_io_fuera)
qed

lemma mengua_cpus:
  "mengua S (fst (quantum_timer_thread ident p S))" "mengua S (iniciar_quantum_timer ident p S)"
  "mengua S (marcar_cpu_desconectada ident S)" "mengua S (liberar_cpu_reservada ident S)"
proof -
  show "mengua S (fst (quantum_timer_thread ident p S))"
    by (rule mengua_campos) (simp_all add: marco_def quantum_timer_thread_def map_update_igual split: option.split)
  have "mengua T (T\<lparr>sem_cpu_disponible := n\<rparr>)" for T n by (rule mengua_campos) (simp_all add: marco_def)
  then show "mengua S (liberar_cpu_reservada ident S)"
    using mengua_trans mengua_cpu [of "\<lambda>c. c\<lparr>disponible := True\<rparr>"] unfolding liberar_cpu_reservada_def by fastforce
qed (simp_all add: iniciar_quantum_timer_def marcar_cpu_desconectada_def mengua_cpu)

lemma mengua_mutexes:
  "mengua S (registrar_mutex (mutex_nuevo n) S)" "mengua S (actualizar_mutex k (\<lambda>m. m\<lparr>asignado_a_pid := q\<rparr>) S)"
  by (rule mengua_campos; simp add: marco_def registrar_mutex_def mutex_nuevo_def actualizar_mutex_def map_update_igual)+

lemma count_list_filter_le: "count_list (filter P xs) x \<le> count_list xs x"
  by (induction xs) auto

lemma soltar_menos: "count_list (concat (map cola_bloqueados (map (soltar p) ms))) x \<le> count_list (concat (map cola_bloqueados ms)) x"
proof (induction ms)
  case (Cons m ms)
  then show ?case using count_list_filter_le [of _ "cola_bloqueados m" x] by (auto simp: soltar_def intro: add_mono trans_le_add2)
qed simp

lemma mengua_liberar_mutexes: "liberar_mutexes_de_proceso p S = Some (S', ev) \<Longrightarrow> mengua S S' \<and> ev = []"
  using soltar_menos [of p "lista_mutexes S"]
  by (auto simp: liberar_mutexes_eq mengua_def marco_def est_def lug_def menos_en_def fun_eq_iff split: if_splits)

lemma count_poner_cola:
  "cola_de a S = Some q \<Longrightarrow>
   count_list (concat (colas_prioridad (poner_cola a r S))) x + count_list q x = count_list (concat (colas_prioridad S)) x + count_list r x"
  using count_concat_update [of "nat a" "colas_prioridad S" r x] by (auto simp: cola_de_def poner_cola_def split: if_splits)

lemma menos_en_ready:
  "\<exists>c. S' = S\<lparr>colas_prioridad := c\<rparr> \<Longrightarrow>
   (\<And>x. count_list (concat (colas_prioridad S')) x \<le> count_list (concat (colas_prioridad S)) x) \<Longrightarrow> mengua S S'"
  by (auto simp: mengua_def marco_def est_def lug_def menos_en_def fun_eq_iff)

lemma mengua_reubicar: "mengua S (reubicar_proceso_en_ready p a n S)"
proof (cases "reubicar_proceso_en_ready p a n S = S")
  case False
  then obtain q i where q: "cola_de a S = Some q" "buscar_idx (\<lambda>x. x = p) q = Some i"
    and r: "reubicar_proceso_en_ready p a n S =
       (let S' = poner_cola a (list_remove q i) S in case cola_de n S' of None \<Rightarrow> S' | Some q' \<Rightarrow> poner_cola n (q' @ [p]) S')"
    by (simp add: reubicar_proceso_en_ready_def split: option.splits if_splits)
  let ?S = "poner_cola a (list_remove q i) S" and ?R = "reubicar_proceso_en_ready p a n S"
  note i = buscar_idx_SomeD [OF q(2)]
  have quita: "count_list (concat (colas_prioridad ?S)) x + (if x = p then 1 else 0) = count_list (concat (colas_prioridad S)) x" for x
    using count_poner_cola [OF q(1), of "list_remove q i" x] count_list_remove [of i q x] i by auto
  have pone: "count_list (concat (colas_prioridad ?R)) x \<le> count_list (concat (colas_prioridad ?S)) x + (if x = p then 1 else 0)" for x
  proof (cases "cola_de n ?S")
    case (Some q')
    then show ?thesis using count_poner_cola [OF Some, of "q' @ [p]" x] by (simp add: r Let_def split: if_splits)
  qed (simp add: r Let_def)
  show ?thesis
  proof (rule menos_en_ready)
    show "\<exists>c. ?R = S\<lparr>colas_prioridad := c\<rparr>" by (auto simp: r Let_def poner_cola_def split: option.splits)
    show "count_list (concat (colas_prioridad ?R)) x \<le> count_list (concat (colas_prioridad S)) x" for x using quita [of x] pone [of x] by linarith
  qed
qed simp

lemma mengua_prioridad: "mengua S (poner_prioridad_dinamica p n S)"
proof (cases "pcbs S p")
  case (Some b)
  have "mengua S (actualizar_pcb p (\<lambda>b. b\<lparr>prioridad_dinamica := n\<rparr>) S)" by (rule mengua_pcb) simp
  then show ?thesis using Some mengua_reubicar mengua_trans by (simp add: poner_prioridad_dinamica_def)
qed (simp add: poner_prioridad_dinamica_def)

lemma mengua_recalcular: "mengua S (recalcular_prioridad_dinamica p S)"
  by (simp add: recalcular_prioridad_dinamica_def Let_def mengua_prioridad split: option.split)

lemma mengua_propagar: "mengua S (propagar_herencia_prioridad p h S)"
proof (induction p h S rule: propagar_herencia_prioridad.induct)
  case (1 p h S)
  show ?case
  proof (cases "poseedor_de p S")
    case (Some x)
    obtain q b where x: "x = (q, b)" by (cases x)
    have "mengua S (propagar_herencia_prioridad q h (poner_prioridad_dinamica q h S))"
      if "h < prioridad_dinamica b" "mutex_esperando b \<noteq> None"
      using 1 [OF Some x [symmetric] that(1) refl that(2)] mengua_prioridad mengua_trans by blast
    then show ?thesis using Some x mengua_prioridad by (simp add: propagar_herencia_prioridad.simps [of p h S] Let_def)
  qed (simp add: propagar_herencia_prioridad.simps [of p h S])
qed

lemma mengua_notificacion:
  "despachar_si_es_notificacion mem op S s = Some (Some (S', ev, s')) \<Longrightarrow> mengua S S'"
  using mengua_avisos(1,2) [of S] mengua_avisos(3) [of S]
  by (auto simp: despachar_si_es_notificacion_def Let_def split: option.splits op_code.splits sum.splits if_splits prod.splits)

lemma mengua_recibir: "recibir_respuesta_de_memoria mem S s = Some (S', ev, op, s') \<Longrightarrow> mengua S S'"
proof (induction mem S s arbitrary: S' ev op s' rule: recibir_respuesta_de_memoria.induct)
  case (1 mem S s)
  obtain o1 s1 where o: "recibir_codigo_operacion s = (o1, s1)" by fastforce
  note e = recibir_respuesta_de_memoria.simps [of mem S s]
  show ?case
  proof (cases "o1 = - 1 \<or> despachar_si_es_notificacion mem o1 S s1 = None")
    case True
    then show ?thesis using 1(2) o by (auto simp: e split: option.splits if_splits)
  next
    case False
    then obtain r where r: "despachar_si_es_notificacion mem o1 S s1 = Some r" and o1: "o1 \<noteq> - 1" by auto
    obtain T ev1 s2 where T: "r = Some (T, ev1, s2)" using 1(2) o r o1 by (auto simp: e split: option.splits)
    obtain ev2 where "recibir_respuesta_de_memoria mem T s2 = Some (S', ev2, op, s')" using 1(2) o r o1 T by (auto simp: e)
    then have "mengua T S'" using 1(1) [OF o [symmetric] refl o1 r T refl refl] by simp
    then show ?thesis using mengua_notificacion r T mengua_trans by blast
  qed
qed

lemma mengua_pedir:
  assumes "pedir_a_memoria mem m S s = Some (S', ev, ack, s')"
  shows "mengua S S'"
proof (cases "recibir_respuesta_de_memoria mem S s")
  case None
  then show ?thesis using assms by (simp add: pedir_a_memoria_def)
next
  case (Some x)
  obtain T e1 o1 s1 where x: "x = (T, e1, o1, s1)" by (cases x)
  have "T = S'"
  proof (cases "o1 = - 1")
    case True
    then show ?thesis using assms Some x by (simp add: pedir_a_memoria_def)
  next
    case False
    then show ?thesis using assms Some x by (cases "recibir_ok s1") (auto simp: pedir_a_memoria_def)
  qed
  then show ?thesis using mengua_recibir Some x by blast
qed

end
