(* ===== verification/Sched_Sueltos.thy ===== *)
theory Sched_Sueltos
  imports Sched_Lugares "HOL-Library.Multiset"
begin

text \<open>
  What each operation of the scheduler does to the places of \<open>Sched_Lugares\<close>. \<open>sueltos P S\<close> is
  the invariant while some thread holds the processes of \<open>P\<close> in local variables: the lemmas
  take a process out of a place, carry it through the calls of a handler and put it in the next.
\<close>

section \<open>Holding and putting back\<close>

lemma frescos_menos: "frescos e n \<Longrightarrow> (\<And>p. e' p \<noteq> None \<Longrightarrow> e p \<noteq> None) \<Longrightarrow> frescos e' n"
  by (auto simp: frescos_def)

lemma frescos_upd: "frescos e m \<Longrightarrow> e p \<noteq> None \<Longrightarrow> frescos (e(p := y)) m"
  by (auto simp: frescos_def split: if_splits)

lemma lug_campos [simp]:
  "lug (S\<lparr>sem_ready := n\<rparr>) = lug S" "lug (S\<lparr>sem_new := n\<rparr>) = lug S" "lug (S\<lparr>sem_cpu_disponible := n\<rparr>) = lug S"
  "lug (S\<lparr>sem_reevaluar_suspendidos := n\<rparr>) = lug S" "lug (S\<lparr>timers_suspension := ts\<rparr>) = lug S" "lug (S\<lparr>pcbs := ps\<rparr>) = lug S"
  "marco (S\<lparr>sem_ready := n\<rparr>) = marco S" "marco (S\<lparr>sem_new := n\<rparr>) = marco S" "marco (S\<lparr>sem_cpu_disponible := n\<rparr>) = marco S"
  "marco (S\<lparr>sem_reevaluar_suspendidos := n\<rparr>) = marco S" "marco (S\<lparr>timers_suspension := ts\<rparr>) = marco S" "marco (S\<lparr>pcbs := ps\<rparr>) = marco S"
  "est (S\<lparr>sem_ready := n\<rparr>) = est S" "est (S\<lparr>sem_new := n\<rparr>) = est S" "est (S\<lparr>sem_cpu_disponible := n\<rparr>) = est S"
  "est (S\<lparr>sem_reevaluar_suspendidos := n\<rparr>) = est S" "est (S\<lparr>timers_suspension := ts\<rparr>) = est S"
  by (simp_all add: lug_def est_def marco_def fun_eq_iff)

lemma sueltos_nadie: "sueltos P S \<Longrightarrow> p \<in> P \<Longrightarrow> lug S p = nadie"
  using lugares_okD [of "sin P (est S)" "lug S" p] by (simp add: sueltos_def sin_def)

lemma sueltos_puesto: "sueltos P S \<Longrightarrow> p \<notin> P \<Longrightarrow> puesto_ok (est S p) (lug S p)"
  using lugares_okD [of "sin P (est S)" "lug S" p] by (simp add: sueltos_def sin_def)

lemma sueltos_poner:
  assumes "sueltos P S" "p \<in> P" "est S p \<noteq> None" "est S' = (est S)(p := y)" "marco S' = marco S"
    and "\<And>q. q \<noteq> p \<Longrightarrow> menos_en (lug S' q) (lug S q)" "puesto_ok y (lug S' p)"
  shows "sueltos (P - {p}) S'"
proof -
  have "lugares_ok (sin (P - {p}) (est S')) (lug S')"
  proof (rule lugares_okI)
    show "lugares_ok (sin P (est S)) ((lug S')(p := nadie))"
      by (rule lugares_ok_menos [where l = "lug S"]) (use assms sueltos_nadie [OF assms(1,2)] in \<open>auto simp: sueltos_def\<close>)
  qed (use assms in \<open>auto simp: sin_def\<close>)
  moreover have "frescos (est S') (marco S')"
    using assms(1,3) unfolding assms(4,5) sueltos_def frescos_def by (auto split: if_splits)
  ultimately show ?thesis by (simp add: sueltos_def)
qed

lemma sueltos_sacar:
  assumes "sueltos P S" "est S' = est S" "marco S' = marco S" "\<And>q. q \<noteq> p \<Longrightarrow> lug S' q = lug S q" "lug S' p = nadie"
  shows "sueltos (insert p P) S'"
proof -
  have "lugares_ok (sin (insert p P) (est S')) (lug S')"
    by (rule lugares_okI [where e = "sin P (est S)" and l = "lug S" and p = p]) (use assms in \<open>auto simp: sueltos_def sin_def\<close>)
  then show ?thesis using assms by (simp add: sueltos_def)
qed

lemma lugares_ok_insertar:
  "lugares_ok (sin P e) l \<Longrightarrow> l p = nadie \<Longrightarrow> (\<And>q. q \<noteq> p \<Longrightarrow> e' q = e q) \<Longrightarrow> lugares_ok (sin (insert p P) e') l"
  unfolding lugares_ok_def sin_def by (metis insert_iff puesto_ok.simps(1))

lemma sueltos_pcb: "sueltos P S \<Longrightarrow> p \<in> P \<Longrightarrow> sueltos P (actualizar_pcb p f S)"
proof -
  assume a: "sueltos P S" "p \<in> P"
  have "sin P (est (actualizar_pcb p f S)) = sin P (est S)" using a(2) by (auto simp: sin_def est_actualizar)
  moreover have "frescos (est (actualizar_pcb p f S)) (marco S)"
    by (rule frescos_menos [of "est S"]) (use a in \<open>auto simp: sueltos_def est_actualizar est_def split: if_splits\<close>)
  ultimately show ?thesis using a(1) by (simp add: sueltos_def)
qed

text \<open>A process that changes its place without changing its state.\<close>

lemma sueltos_mover:
  assumes "sueltos P S" "est S' = est S" "marco S' = marco S" "\<And>q. q \<noteq> p \<Longrightarrow> lug S' q = lug S q" "puesto_ok (est S p) (lug S' p)" "p \<notin> P"
  shows "sueltos P S'"
proof -
  have "lugares_ok (sin P (est S')) (lug S')"
    by (rule lugares_okI [where e = "sin P (est S)" and l = "lug S" and p = p]) (use assms in \<open>auto simp: sueltos_def sin_def\<close>)
  then show ?thesis using assms by (simp add: sueltos_def)
qed

text \<open>A process that is dropped; the code does so when its priority has no queue.\<close>

lemma sueltos_perder:
  assumes "sueltos P S" "p \<in> P" "\<And>s x. est S p = Some (s, x) \<Longrightarrow> s \<noteq> SUSP_READY \<and> s \<noteq> SUSP_BLOCK"
  shows "sueltos (P - {p}) S"
proof (cases "est S p")
  case None
  then have "sin (P - {p}) (est S) = sin P (est S)" by (auto simp: sin_def)
  then show ?thesis using assms(1) by (simp add: sueltos_def)
next
  case (Some y)
  show ?thesis
  proof (rule sueltos_poner [OF assms(1,2)])
    show "puesto_ok (Some y) (lug S p)"
      using assms(3) Some sueltos_nadie [OF assms(1,2)] by (cases "(Some y, nadie)" rule: puesto_ok.cases) (auto simp: nadie_def)
  qed (use Some in \<open>auto simp: fun_upd_idem\<close>)
qed

lemma sueltos_liberar:
  assumes "sueltos P S" "p \<in> P"
  shows "sueltos (P - {p}) (liberar_pcb p S)"
proof -
  have e: "est (liberar_pcb p S) = (est S)(p := None)" "lug (liberar_pcb p S) = lug S" "marco (liberar_pcb p S) = marco S"
    by (auto simp: marco_def est_def liberar_pcb_def fun_eq_iff lug_def)
  have "sin (P - {p}) ((est S)(p := None)) = sin P (est S)" using assms(2) by (auto simp: sin_def)
  moreover have "frescos ((est S)(p := None)) (marco S)"
    by (rule frescos_menos [of "est S"]) (use assms in \<open>auto simp: sueltos_def split: if_splits\<close>)
  ultimately show ?thesis using assms(1) by (simp add: sueltos_def e)
qed

section \<open>READY\<close>

lemma lug_poner_cola:
  assumes "cola_de a S = Some q" "\<And>x. count_list r x = count_list q x + (if x = p then 1 else 0)"
  shows "lug (poner_cola a r S) = (lug S)(p := (lug S p)\<lparr>en_ready := en_ready (lug S p) + 1\<rparr>)"
  using count_poner_cola [OF assms(1), of r] assms(2) by (auto simp: lug_def fun_eq_iff poner_cola_def)

lemma sueltos_a_ready:
  assumes "sueltos P S" "p \<in> P" "est S p = Some (READY, x)" "est S' = est S" "marco S' = marco S"
    and "lug S' = (lug S)(p := (lug S p)\<lparr>en_ready := en_ready (lug S p) + 1\<rparr>)"
  shows "sueltos (P - {p}) S'"
  by (rule sueltos_poner [OF assms(1,2), where y = "Some (READY, x)"])
    (use assms(3-) sueltos_nadie [OF assms(1,2)] in \<open>auto simp: nadie_def fun_upd_idem\<close>)

lemma sueltos_reencolar:
  assumes "sueltos P S" "p \<in> P" "est S p = Some (READY, x)"
  shows "sueltos (P - {p}) (fst (reencolar_proceso_ready_final p prio S))" "sueltos (P - {p}) (reencolar_proceso_ready_inicio p prio S)"
proof -
  have perdido: "sueltos (P - {p}) S" by (rule sueltos_perder [OF assms(1,2)]) (use assms(3) in auto)
  have e: "est (poner_cola a r S) = est S" "marco (poner_cola a r S) = marco S" for a r by (simp_all add: marco_def est_def poner_cola_def fun_eq_iff)
  show "sueltos (P - {p}) (fst (reencolar_proceso_ready_final p prio S))"
  proof (cases "cola_de prio S")
    case (Some q)
    have "lug (poner_cola prio (q @ [p]) S) = (lug S)(p := (lug S p)\<lparr>en_ready := en_ready (lug S p) + 1\<rparr>)" by (rule lug_poner_cola [OF Some]) simp
    then show ?thesis
      using sueltos_a_ready [OF assms, of "(poner_cola prio (q @ [p]) S)\<lparr>sem_ready := sem_ready S + 1\<rparr>"] Some e
      by (simp add: reencolar_proceso_ready_final_def Let_def)
  qed (use perdido in \<open>simp add: reencolar_proceso_ready_final_def\<close>)
  show "sueltos (P - {p}) (reencolar_proceso_ready_inicio p prio S)"
  proof (cases "cola_de prio S")
    case (Some q)
    have "lug (poner_cola prio (p # q) S) = (lug S)(p := (lug S p)\<lparr>en_ready := en_ready (lug S p) + 1\<rparr>)" by (rule lug_poner_cola [OF Some]) simp
    then show ?thesis
      using sueltos_a_ready [OF assms, of "(poner_cola prio (p # q) S)\<lparr>sem_ready := sem_ready S + 1\<rparr>"] Some e
      by (simp add: reencolar_proceso_ready_inicio_def)
  qed (use perdido in \<open>simp add: reencolar_proceso_ready_inicio_def\<close>)
qed

lemma sueltos_cola_unica:
  assumes "sueltos P S" "p \<in> P" "est S p = Some (READY, x)" "cola_procesos_ready S = Some q"
    and "\<And>x. count_list r x = count_list q x + (if x = p then 1 else 0)"
  shows "sueltos (P - {p}) (S\<lparr>cola_procesos_ready := Some r, sem_ready := n\<rparr>)"
  by (rule sueltos_a_ready [OF assms(1-3)]) (use assms(4-) in \<open>auto simp: marco_def est_def lug_def cola_def fun_eq_iff\<close>)

lemma encolar_casos:
  "pcbs S p = Some b \<Longrightarrow> fst (encolar_en_ready_y_notificar p S) =
     (let S1 = actualizar_pcb p (\<lambda>b. b\<lparr>estado := READY\<rparr>) S
      in if cantidad_niveles_prioridad S > 0 then fst (reencolar_proceso_ready_final p (prioridad b) S1)
         else case cola_procesos_ready S1 of None \<Rightarrow> S1 | Some q \<Rightarrow> S1\<lparr>cola_procesos_ready := Some (q @ [p]), sem_ready := sem_ready S1 + 1\<rparr>)"
  by (simp add: encolar_en_ready_y_notificar_def Let_def split: option.split)

lemma sueltos_encolar:
  assumes "sueltos P S" "p \<in> P"
  shows "sueltos (P - {p}) (fst (encolar_en_ready_y_notificar p S))"
proof (cases "pcbs S p")
  case None
  then have "fst (encolar_en_ready_y_notificar p S) = S" by (simp add: encolar_en_ready_y_notificar_def)
  then show ?thesis using sueltos_perder [OF assms] None by (simp add: est_def)
next
  case (Some b)
  let ?S = "actualizar_pcb p (\<lambda>b. b\<lparr>estado := READY\<rparr>) S"
  have s: "sueltos P ?S" by (rule sueltos_pcb [OF assms])
  have r: "est ?S p = Some (READY, suspendido_en_swap b)" using Some by (simp add: est_actualizar)
  have "sueltos (P - {p}) ?S" by (rule sueltos_perder [OF s assms(2)]) (use r in auto)
  then show ?thesis
    using sueltos_reencolar(1) [OF s assms(2) r] sueltos_cola_unica [OF s assms(2) r] by (simp add: encolar_casos [OF Some] Let_def split: option.split)
qed

section \<open>CPUs\<close>

lemma lug_actualizar_cpu:
  assumes "buscar_idx Q (sc_cpus S) = Some i" and "c = sc_cpus S ! i"
  shows "lug (actualizar_cpu Q f S) x = (lug S x)\<lparr>en_cpu := en_cpu (lug S x) + count_list (ocupante (f c)) x - count_list (ocupante c) x\<rparr>"
proof -
  have i: "i < length (map ocupante (sc_cpus S))" using buscar_idx_SomeD [OF assms(1)] by simp
  have "count_list (concat (map ocupante ((sc_cpus S)[i := f c]))) x + count_list (ocupante c) x =
      count_list (concat (map ocupante (sc_cpus S))) x + count_list (ocupante (f c)) x"
    using count_concat_update [OF i, of "ocupante (f c)" x] i assms(2) by (simp add: map_update)
  then show ?thesis using assms by (simp add: lug_def actualizar_cpu_def)
qed

lemma cpu_cuenta:
  "buscar_idx Q (sc_cpus S) = Some i \<Longrightarrow> count_list (ocupante (sc_cpus S ! i)) x \<le> en_cpu (lug S x)"
  using count_concat_nth [of i "map ocupante (sc_cpus S)" x] buscar_idx_SomeD [of Q "sc_cpus S" i] by (simp add: lug_def)

lemma est_actualizar_cpu [simp]: "est (actualizar_cpu Q f S) = est S"
  "(\<And>c. c_id (f c) = c_id c) \<Longrightarrow> marco (actualizar_cpu Q f S) = marco S"
  by (auto simp: marco_def map_update_igual est_def actualizar_cpu_def fun_eq_iff split: option.split)

lemma retirar_sueltos:
  assumes ok: "sistema_ok S" and f: "\<And>c. ocupante (f c) = []" "\<And>c. c_id (f c) = c_id c"
    and r: "(case cpu_con_id ident S of None \<Rightarrow> None | Some c \<Rightarrow> proceso_actual c) = proceso"
  shows "case proceso of None \<Rightarrow> sistema_ok (actualizar_cpu (\<lambda>c. c_id c = ident) f S)
    | Some p \<Rightarrow> sueltos {p} (actualizar_cpu (\<lambda>c. c_id c = ident) f S) \<and> (\<exists>x. est S p = Some (EXEC, x))"
proof (cases "buscar_idx (\<lambda>c. c_id c = ident) (sc_cpus S)")
  case None
  then show ?thesis using ok r by (auto simp: cpu_con_id_def actualizar_cpu_def simp del: buscar_idx_None)
next
  case (Some i)
  let ?c = "sc_cpus S ! i" and ?S = "actualizar_cpu (\<lambda>c. c_id c = ident) f S"
  have c: "proceso_actual ?c = proceso" using Some r by (simp add: cpu_con_id_def)
  note l = lug_actualizar_cpu [OF Some refl, of f]
  show ?thesis
  proof (cases proceso)
    case None
    then have "mengua S ?S" using l c f by (simp add: mengua_def ocupante_def cola_def)
    then show ?thesis using None ok sueltos_mengua by simp
  next
    case (Some p)
    have o: "ocupante ?c = [p]" using c Some by (simp add: ocupante_def cola_def)
    have u: "0 < en_cpu (lug S p)" using cpu_cuenta [OF \<open>buscar_idx _ _ = Some i\<close>, of p] o by simp
    note ok_p = sueltos_puesto [OF ok, of p, simplified]
    obtain x where e: "est S p = Some (EXEC, x)" using estado_de_puesto(3) [OF ok_p u] by blast
    have "sueltos (insert p {}) ?S"
      by (rule sueltos_sacar [OF ok]) (use puesto_nadie(3) [OF ok_p [unfolded e] u] in \<open>simp_all add: l o f\<close>)
    then show ?thesis using Some e by simp
  qed
qed

lemma sueltos_a_cpu:
  assumes "sueltos P S" "p \<in> P" "est S p \<noteq> None" "est S' = (est S)(p := Some (EXEC, x))" "marco S' = marco S"
    and "\<And>q. lug S' q = (lug S q)\<lparr>en_cpu := en_cpu (lug S q) + (if q = p then 1 else 0) - n q\<rparr>"
  shows "sueltos (P - {p}) S'"
  by (rule sueltos_poner [OF assms(1-5)]) (use assms(6) sueltos_nadie [OF assms(1,2)] in \<open>auto simp: nadie_def menos_en_def\<close>)

lemma sueltos_devolver:
  assumes "sueltos P S" "p \<in> P" "est S p = Some (EXEC, x)" "devolver_proceso_a_misma_cpu ident p S = (S', ev, ok)"
  shows "sueltos (if ok then P - {p} else P) S'"
proof (cases "buscar_idx (\<lambda>c. c_id c = ident) (sc_cpus S)")
  case None
  then show ?thesis using assms by (auto simp: devolver_proceso_a_misma_cpu_def cpu_con_id_def simp del: buscar_idx_None)
next
  case (Some i)
  let ?S = "actualizar_cpu (\<lambda>c. c_id c = ident) (\<lambda>c. c\<lparr>proceso_actual := Some p\<rparr>) S"
  show ?thesis
  proof (cases ok)
    case True
    have "sueltos (P - {p}) ?S"
      by (rule sueltos_a_cpu [OF assms(1,2)]) (use assms(3) lug_actualizar_cpu [OF Some refl] in \<open>auto simp: cola_def fun_upd_idem\<close>)
    moreover have "mengua ?S S'"
      using assms(4) Some True mengua_cpus(2) [of ?S ident p] by (auto simp: devolver_proceso_a_misma_cpu_def cpu_con_id_def Let_def split: if_splits)
    ultimately show ?thesis using True sueltos_mengua by simp
  next
    case False
    then show ?thesis using assms Some by (auto simp: devolver_proceso_a_misma_cpu_def cpu_con_id_def Let_def split: if_splits)
  qed
qed

section \<open>The short-term and the long-term scheduler\<close>

lemma sueltos_sacar_ready:
  assumes "sistema_ok S" "0 < en_ready (lug S p)" "est S' = est S" "marco S' = marco S"
    and l: "\<And>q. lug S' q = (lug S q)\<lparr>en_ready := en_ready (lug S q) - (if q = p then 1 else 0)\<rparr>"
  shows "sueltos {p} S' \<and> (\<exists>x. est S' p = Some (READY, x))"
proof -
  note ok_p = sueltos_puesto [OF assms(1), of p, simplified]
  obtain x where e: "est S p = Some (READY, x)" using estado_de_puesto(2) [OF ok_p assms(2)] by blast
  have "sueltos (insert p {}) S'"
    by (rule sueltos_sacar [OF assms(1,3,4)]) (use puesto_nadie(2) [OF ok_p [unfolded e] assms(2)] l in simp_all)
  then show ?thesis using e assms(3) by simp
qed

lemma sueltos_proximo:
  assumes "sistema_ok S" "obtener_proximo_proceso_ready alg S = (Some p, S')"
  shows "sueltos {p} S' \<and> (\<exists>x. est S' p = Some (READY, x))"
proof (cases "alg = ALGORITMO_CMN")
  case True
  then have d: "desencolar_proceso_ready S = (Some p, S')"
    using assms(2) by (simp add: obtener_proximo_proceso_ready_def split: if_splits)
  then obtain i where i: "primera_cola (colas_prioridad S) = Some i" "p = hd (colas_prioridad S ! i)"
    "S' = S\<lparr>colas_prioridad := (colas_prioridad S)[i := tl (colas_prioridad S ! i)]\<rparr>"
    by (auto simp: desencolar_proceso_ready_def split: option.splits)
  have p: "colas_prioridad S ! i = p # tl (colas_prioridad S ! i)" "i < length (colas_prioridad S)" using i(1,2) by (auto simp: primera_cola_iff)
  have c: "count_list (concat ((colas_prioridad S)[i := tl (colas_prioridad S ! i)])) x + (if x = p then 1 else 0) = count_list (concat (colas_prioridad S)) x" for x
    using count_concat_update [OF p(2), of "tl (colas_prioridad S ! i)" x] arg_cong [OF p(1), of "\<lambda>q. count_list q x"] by (auto split: if_splits)
  have "lug S' x = (lug S x)\<lparr>en_ready := en_ready (lug S x) - (if x = p then 1 else 0)\<rparr>" for x using c [of x] i(3) by (auto simp: lug_def)
  moreover have "0 < en_ready (lug S p)" using c [of p] by (simp add: lug_def)
  ultimately show ?thesis by (intro sueltos_sacar_ready [OF assms(1)]) (simp_all add: i(3) marco_def est_def fun_eq_iff)
next
  case False
  then have "pop_ready S = (Some p, S')" using assms(2) by (simp add: obtener_proximo_proceso_ready_def)
  then obtain ps where p: "cola_procesos_ready S = Some (p # ps)" "S' = S\<lparr>cola_procesos_ready := Some ps\<rparr>"
    by (auto simp: pop_ready_def split: option.splits list.splits)
  show ?thesis by (rule sueltos_sacar_ready [OF assms(1)]) (auto simp: p marco_def lug_def cola_def est_def fun_eq_iff)
qed

lemma sueltos_enviar:
  assumes "sueltos P S" "p \<in> P" "enviar_proceso_a_cpu p S = (S1, ev, ident)" "\<not> ident <s 0" "est S p \<noteq> None"
  shows "sueltos (P - {p}) (actualizar_pcb p (\<lambda>b. b\<lparr>estado := EXEC, tiempo_inicio_ejecucion := f b, conteo_context_switch := g b, quantum_restante := h b\<rparr>) S1)"
proof -
  have "ident \<noteq> - 1" using assms(4) by (auto simp: word_sless_alt)
  then obtain i where i: "buscar_idx cpu_libre (sc_cpus S) = Some i"
    "S1 = actualizar_cpu cpu_libre (\<lambda>c. c\<lparr>disponible := False, proceso_actual := Some p\<rparr>) S"
    using assms(3) by (auto simp: enviar_proceso_a_cpu_def actualizar_cpu_def split: option.splits)
  obtain b where b: "pcbs S p = Some b" using assms(5) by (auto simp: est_def)
  have "pcbs S1 = pcbs S" by (simp add: i(2) actualizar_cpu_def split: option.split)
  then show ?thesis
    by (intro sueltos_a_cpu [OF assms(1,2,5)])
      (use b lug_actualizar_cpu [OF i(1) refl] in \<open>auto simp: i(2) est_actualizar est_actualizar_cpu cola_def\<close>)
qed

lemma sueltos_cola_ready:
  assumes "sueltos P S" "p \<in> P" "est S p = Some (READY, x)"
    and "\<And>q x. count_list (f q) x = count_list q x + (if x = p then 1 else 0)"
  shows "sueltos (P - {p}) (S\<lparr>cola_procesos_ready := map_option f (cola_procesos_ready S)\<rparr>)"
proof (cases "cola_procesos_ready S")
  case None
  then have "mengua S (S\<lparr>cola_procesos_ready := map_option f (cola_procesos_ready S)\<rparr>)" by (intro mengua_campos) (simp_all add: marco_def)
  moreover have "sueltos (P - {p}) S" by (rule sueltos_perder [OF assms(1,2)]) (use assms(3) in auto)
  ultimately show ?thesis by (rule sueltos_mengua)
next
  case (Some q)
  have "sueltos (P - {p}) (S\<lparr>cola_procesos_ready := Some (f q), sem_ready := sem_ready S\<rparr>)"
    by (rule sueltos_cola_unica [OF assms(1-3) Some assms(4)])
  then show ?thesis using Some by (simp add: sueltos_def est_def lug_def marco_def)
qed

lemma sueltos_fallo:
  assumes "sueltos P S" "p \<in> P" "est S p = Some (READY, x)"
  shows "sueltos (P - {p}) (reencolar_por_fallo_de_envio p alg S)"
proof (cases "pcbs S p")
  case None
  then show ?thesis using assms(3) by (simp add: est_def)
next
  case (Some b)
  then show ?thesis
    using sueltos_reencolar(2) [OF assms] sueltos_cola_ready [OF assms]
    by (simp add: reencolar_por_fallo_de_envio_def reencolar_ready_final_def reencolar_ready_inicio_def)
qed

lemma sistema_ok_despachar:
  assumes s: "sueltos {p} S" "est S p = Some (READY, x)" and d: "despachar alg p b S = Some (S', ev)"
  shows "sistema_ok S'"
proof (cases "alg = ALGORITMO_CMN \<and> (prioridad b < 0 \<or> prioridad b \<ge> cantidad_niveles_prioridad S)")
  case True
  then have "S' = S" using d by (simp add: despachar_def Let_def split: prod.splits)
  then show ?thesis using sueltos_perder [OF s(1), of p] s(2) by auto
next
  case False
  obtain S1 ev1 ident where e: "enviar_proceso_a_cpu p S = (S1, ev1, ident)" by (cases "enviar_proceso_a_cpu p S")
  show ?thesis
  proof (cases "ident <s 0")
    case True
    let ?F = "reencolar_por_fallo_de_envio p alg S1"
    have "mengua ?F (?F\<lparr>sem_ready := n\<rparr>)" for n by (rule mengua_campos) (simp_all add: marco_def)
    moreover have "S1 = S"
    proof (cases "buscar_idx cpu_libre (sc_cpus S)")
      case (Some i)
      then have "0 <s c_id (sc_cpus S ! i)" using s(1) buscar_idx_SomeD [OF Some] by (auto simp: sueltos_def frescos_def marco_def)
      then show ?thesis using e True Some by (auto simp: enviar_proceso_a_cpu_def word_sless_alt)
    qed (use e in \<open>simp add: enviar_proceso_a_cpu_def del: buscar_idx_None\<close>)
    moreover have "\<exists>n. S' = ?F\<lparr>sem_ready := n\<rparr>"
      using d True \<open>\<not> (alg = ALGORITMO_CMN \<and> _)\<close> e by (auto simp: despachar_def Let_def split: if_splits prod.splits)
    ultimately show ?thesis using sueltos_fallo [OF s(1) _ s(2), of alg] sueltos_mengua by auto
  next
    case False
    let ?S2 = "\<lambda>q. actualizar_pcb p (\<lambda>b. b\<lparr>estado := EXEC, tiempo_inicio_ejecucion := reloj S, conteo_context_switch := conteo_context_switch b + 1, quantum_restante := q\<rparr>) S1"
    obtain q where "S' = ?S2 q \<or> S' = iniciar_quantum_timer ident p (?S2 q)"
      using d False \<open>\<not> (alg = ALGORITMO_CMN \<and> _)\<close> e by (auto simp: despachar_def Let_def split: if_splits prod.splits)
    moreover have "sistema_ok (?S2 q)" using sueltos_enviar [OF s(1) _ e False] s(2) by auto
    ultimately show ?thesis using mengua_cpus(2) sueltos_mengua by blast
  qed
qed

lemma sistema_ok_corto:
  assumes "sistema_ok S" "planificadorCortoPlazo S = Some (S', ev)"
  shows "sistema_ok S'"
proof -
  have m: "sistema_ok (S\<lparr>sem_ready := n\<rparr>)" "sistema_ok (S\<lparr>sem_cpu_disponible := n\<rparr>)" for n
    using assms(1) by (simp_all add: sueltos_def)
  let ?S = "S\<lparr>sem_ready := sem_ready S - 1\<rparr>" and ?a = "algoritmo_del_planificador S"
  obtain pr S1 where o: "obtener_proximo_proceso_ready ?a ?S = (pr, S1)" by fastforce
  show ?thesis
  proof (cases "compactacion_activa S \<or> \<not> hay_cpu_libre S")
    case True
    then show ?thesis using assms m by (auto simp: planificadorCortoPlazo_def split: if_splits)
  next
    case libre: False
    show ?thesis
    proof (cases pr)
      case None
      then have "S1 = ?S" using o
        by (auto simp: obtener_proximo_proceso_ready_def desencolar_proceso_ready_def pop_ready_def split: if_splits option.splits list.splits)
      then show ?thesis using assms(2) libre None o m by (auto simp: planificadorCortoPlazo_def split: if_splits)
    next
      case (Some p)
      obtain x where p: "sueltos {p} S1" "est S1 p = Some (READY, x)" using sueltos_proximo [OF m(1)] o Some by blast
      then obtain b where "pcbs S1 p = Some b" by (auto simp: est_def)
      then have "despachar ?a p b S1 = Some (S', ev)" using assms(2) libre Some o by (auto simp: planificadorCortoPlazo_def split: if_splits)
      then show ?thesis using sistema_ok_despachar [OF p] by blast
    qed
  qed
qed

lemma sueltos_por_prioridad:
  assumes "sueltos P S" "p \<in> P" "est S p = Some (READY, x)"
  shows "sueltos (P - {p}) (fst (encolar_en_ready_por_prioridad p S))"
proof -
  obtain b where b: "pcbs S p = Some b" using assms(3) by (auto simp: est_def)
  let ?S = "actualizar_pcb p (\<lambda>b. b\<lparr>estado := READY\<rparr>) S"
  have s: "sueltos P ?S" "est ?S p = Some (READY, x)" using sueltos_pcb [OF assms(1,2)] assms(3) b by (auto simp: est_actualizar est_def)
  show ?thesis
  proof (cases "cola_de (prioridad b) S")
    case None
    then show ?thesis using sueltos_liberar [OF assms(1,2)] b by (simp add: encolar_en_ready_por_prioridad_def)
  next
    case (Some q)
    then have "fst (encolar_en_ready_por_prioridad p S) = fst (reencolar_proceso_ready_final p (prioridad b) ?S)"
      using b by (simp add: encolar_en_ready_por_prioridad_def reencolar_proceso_ready_final_def Let_def cola_de_def actualizar_pcb_def split: if_splits)
    then show ?thesis using sueltos_reencolar(1) [OF s(1) assms(2) s(2)] by simp
  qed
qed

lemma sistema_ok_largo:
  assumes "sistema_ok S" "planificadorLargoPlazo S = Some (S', ev)"
  shows "sistema_ok S'"
proof (cases "cola_procesos_new S = Some []")
  case True
  then show ?thesis using assms by (auto simp: planificadorLargoPlazo_def sueltos_def split: if_splits)
next
  case False
  then obtain p ps where q: "cola_procesos_new S = Some (p # ps)"
    using assms(2) by (auto simp: planificadorLargoPlazo_def Let_def split: if_splits option.splits list.splits)
  let ?S0 = "S\<lparr>sem_new := sem_new S - 1, cola_procesos_new := Some ps\<rparr>"
  let ?S1 = "actualizar_pcb p (\<lambda>b. b\<lparr>estado := READY, tiempo_llegada := reloj S\<rparr>) ?S0"
  have u: "0 < en_new (lug S p)" by (simp add: lug_def q cola_def)
  note ok_p = sueltos_puesto [OF assms(1), of p, simplified]
  obtain x where e: "est S p = Some (NEW, x)" using estado_de_puesto(1) [OF ok_p u] by blast
  have l: "lug ?S0 r = (lug S r)\<lparr>en_new := en_new (lug S r) - (if r = p then 1 else 0)\<rparr>" for r by (simp add: lug_def q cola_def)
  have "sueltos (insert p {}) ?S0"
    by (rule sueltos_sacar [OF assms(1)]) (use l puesto_nadie(1) [OF ok_p [unfolded e] u] in \<open>simp_all add: est_def marco_def fun_eq_iff\<close>)
  then have s: "sueltos {p} ?S1" "est ?S1 p = Some (READY, x)" using sueltos_pcb [of "{p}" ?S0 p] e by (auto simp: est_actualizar est_def)
  show ?thesis
  proof (cases "cantidad_niveles_prioridad ?S1 > 0")
    case True
    then have "S' = fst (encolar_en_ready_por_prioridad p ?S1)"
      using assms(2) q by (auto simp: planificadorLargoPlazo_def Let_def actualizar_pcb_def split: if_splits prod.splits)
    then show ?thesis using sueltos_por_prioridad [OF s(1) _ s(2)] by simp
  next
    case False
    have "sistema_ok (?S1\<lparr>cola_procesos_ready := map_option (\<lambda>q. q @ [p]) (cola_procesos_ready ?S1)\<rparr>)"
      using sueltos_cola_ready [OF s(1) _ s(2), of "\<lambda>q. q @ [p]"] by simp
    moreover have "S' = ?S1\<lparr>cola_procesos_ready := map_option (\<lambda>q. q @ [p]) (cola_procesos_ready ?S1), sem_ready := sem_ready ?S1 + 1\<rparr>"
      using assms(2) q False by (auto simp: planificadorLargoPlazo_def Let_def split: if_splits)
    ultimately show ?thesis by (simp add: sueltos_def)
  qed
qed

section \<open>Devices\<close>

lemma vistas_block:
  "est (S\<lparr>cola_procesos_block := c\<rparr>) = est S" "marco (S\<lparr>cola_procesos_block := c\<rparr>) = marco S"
  "lug (S\<lparr>cola_procesos_block := cola_procesos_block S @ [p]\<rparr>) = (lug S)(p := (lug S p)\<lparr>en_block := en_block (lug S p) + 1\<rparr>)"
  by (auto simp: est_def marco_def lug_def fun_eq_iff)

text \<open>A process of the BLOCK queue gets its request.\<close>

lemma sueltos_pedido:
  assumes "sueltos P S" "p \<notin> P" "est S p = Some (BLOCK, x)" "lug S p = nadie\<lparr>en_block := 1\<rparr>" "r_proceso req = p"
  shows "sueltos P (actualizar_io i (\<lambda>io. io\<lparr>io_cola := io_cola io @ [req], sem_cola := sem_cola io + 1\<rparr>) S)"
    (is "sueltos P (actualizar_io i ?f S)")
proof (cases "i < length (tabla_ios S)")
  case False
  then show ?thesis using assms(1) by (simp add: actualizar_io_fuera)
next
  case True
  have n: "en_io (lug (actualizar_io i ?f S) q) = en_io (lug S q) + (if q = p then 1 else 0)" for q
    using lug_actualizar_io [OF True, of ?f q] assms(5) by (auto simp: pedidos_de_def)
  then have l: "lug (actualizar_io i ?f S) q = (lug S q)\<lparr>en_io := en_io (lug S q) + (if q = p then 1 else 0)\<rparr>" for q
    using vistas_io(3) [of i ?f S q] by simp
  show ?thesis
  proof (rule sueltos_mover [OF assms(1)])
    show "puesto_ok (est S p) (lug (actualizar_io i ?f S) p)" unfolding l assms(3,4) by (simp add: nadie_def)
    show "lug (actualizar_io i ?f S) q = lug S q" if "q \<noteq> p" for q using that unfolding l by simp
  qed (simp_all add: vistas_io(1,2) assms(2))
qed

lemma sueltos_encolar_io:
  assumes "sueltos P S" "p \<in> P" "est S p = Some (EXEC, x)" "r_proceso req = p"
  shows "sueltos (P - {p}) (fst (encolar_io_request i req S))"
proof (cases "activa (tabla_ios S ! i)")
  case False
  then show ?thesis using sueltos_perder [OF assms(1,2)] assms(3) by (simp add: encolar_io_request_def)
next
  case True
  let ?S1 = "actualizar_pcb p (\<lambda>b. b\<lparr>estado := BLOCK, block_epoch := block_epoch b + 1\<rparr>) S"
  let ?S2 = "?S1\<lparr>cola_procesos_block := cola_procesos_block ?S1 @ [p]\<rparr>"
  let ?S3 = "case pcbs ?S2 p of None \<Rightarrow> ?S2 | Some b \<Rightarrow> notificar_proceso_en_block p (block_epoch b) ?S2"
  have "sueltos (P - {p}) ?S2"
    by (rule sueltos_poner [OF assms(1,2), where y = "Some (BLOCK, x)"])
      (use assms(3) sueltos_nadie [OF assms(1,2)] in \<open>auto simp: vistas_block est_actualizar nadie_def est_def\<close>)
  moreover have "mengua ?S2 ?S3" using mengua_avisos(4) by (simp split: option.split)
  ultimately have ok: "sueltos (P - {p}) ?S3" using sueltos_mengua by blast
  have "est ?S3 = est ?S2" "lug ?S3 = lug ?S2" by (simp_all add: notificar_proceso_en_block_def split: option.split)
  moreover have "est ?S2 p = Some (BLOCK, x)" unfolding vistas_block(1) est_actualizar using assms(3) by (auto simp: est_def)
  moreover have "lug ?S2 p = nadie\<lparr>en_block := 1\<rparr>" using sueltos_nadie [OF assms(1,2)] unfolding vistas_block(3) by (simp add: nadie_def)
  ultimately have e: "est ?S3 p = Some (BLOCK, x)" "lug ?S3 p = nadie\<lparr>en_block := 1\<rparr>" by simp_all
  have "sueltos (P - {p}) (actualizar_io i (\<lambda>io. io\<lparr>io_cola := io_cola io @ [req], sem_cola := sem_cola io + 1\<rparr>) ?S3)"
    by (rule sueltos_pedido [OF ok _ e assms(4)]) simp
  then show ?thesis using True assms(4) by (simp add: encolar_io_request_def Let_def)
qed

lemma extraer_casos:
  assumes "sistema_ok S" "extraer_de_block p S = Some (S1, True)" "en_io (lug S p) = 0"
  obtains (memoria) x where "est S1 p = Some (BLOCK, x)" "sueltos {p} S1"
    | (swap) "est S1 p = Some (SUSP_BLOCK, True)" "\<And>f. (\<And>b. estado (f b) = SUSP_READY) \<Longrightarrow> (\<And>b. suspendido_en_swap (f b) = suspendido_en_swap b) \<Longrightarrow>
        sistema_ok (actualizar_pcb p f S1)"
proof -
  obtain i b where i: "buscar_idx (\<lambda>q. q = p) (cola_procesos_block S) = Some i" "pcbs S p = Some b" "estado b = SUSP_BLOCK \<longrightarrow> suspendido_en_swap b"
    and S1: "S1 = S\<lparr>cola_procesos_block := list_remove (cola_procesos_block S) i\<rparr>"
    using assms(2) by (auto simp: extraer_de_block_def split: option.splits if_splits)
  have e: "est S1 = est S" "marco S1 = marco S" by (simp_all add: S1 est_def marco_def fun_eq_iff)
  have n: "count_list (cola_procesos_block S) q = count_list (list_remove (cola_procesos_block S) i) q + (if q = p then 1 else 0)" for q
    using count_list_remove [of i "cola_procesos_block S" q] buscar_idx_SomeD [OF i(1)] by auto
  have l: "lug S1 q = (lug S q)\<lparr>en_block := en_block (lug S q) - (if q = p then 1 else 0)\<rparr>" for q using n [of q] by (simp add: S1 lug_def)
  have u: "0 < en_block (lug S p)" using n [of p] by (simp add: lug_def)
  note ok_p = sueltos_puesto [OF assms(1), of p, simplified]
  obtain y where "est S p = Some (BLOCK, y) \<or> est S p = Some (SUSP_BLOCK, y)" using estado_de_puesto(5) [OF ok_p u] by blast
  then show thesis
  proof
    assume y: "est S p = Some (BLOCK, y)"
    have "sueltos (insert p {}) S1" by (rule sueltos_sacar [OF assms(1)]) (use e l puesto_nadie(4) [OF ok_p [unfolded y] u assms(3)] in simp_all)
    then show thesis using y e by (auto intro: memoria)
  next
    assume y: "est S p = Some (SUSP_BLOCK, y)"
    then have y': y using i(2,3) by (simp add: est_def)
    show thesis
    proof (rule swap)
      show "est S1 p = Some (SUSP_BLOCK, True)" using y y' e by simp
      fix f :: "t_pcb \<Rightarrow> t_pcb" assume f: "\<And>b. estado (f b) = SUSP_READY" "\<And>b. suspendido_en_swap (f b) = suspendido_en_swap b"
      have b: "pcbs S1 p = Some b" using i(2) by (simp add: S1)
      have lp: "lug S1 p = nadie\<lparr>en_susp := 1\<rparr>" using ok_p y' l [of p] assms(3) by (cases "lug S p") (auto simp: y nadie_def)
      have est': "est (actualizar_pcb p f S1) = (est S)(p := Some (SUSP_READY, True))"
        using y y' e b f i(2) by (simp add: est_actualizar) (simp add: est_def)
      have ok: "lugares_ok (est S) (lug S)" using assms(1) by (simp add: sueltos_def sin_def)
      have "lugares_ok (est (actualizar_pcb p f S1)) (lug S1)"
      proof (rule lugares_okI [OF ok, where p = p])
        show "puesto_ok (est (actualizar_pcb p f S1) p) (lug S1 p)" unfolding est' lp by simp
      qed (simp_all add: est' l)
      moreover have "frescos (est (actualizar_pcb p f S1)) (marco S1)"
        by (rule frescos_menos [of "est S"]) (use assms(1) e y in \<open>auto simp: sueltos_def est' split: if_splits\<close>)
      ultimately show "sistema_ok (actualizar_pcb p f S1)" by (simp add: sueltos_def sin_def)
    qed
  qed
qed

lemma extraer_no: "extraer_de_block p S = Some (S1, False) \<Longrightarrow> S1 = S"
  by (auto simp: extraer_de_block_def split: option.splits if_splits)

lemma mengua_eliminar: "mengua S (eliminar_pcb p S)"
proof (cases "buscar_idx (\<lambda>q. q = p) (todos_los_procesos S)")
  case (Some i)
  let ?S = "S\<lparr>todos_los_procesos := list_remove (todos_los_procesos S) i\<rparr>"
  have "mengua S ?S" by (rule mengua_campos) (simp_all add: marco_def)
  moreover have "mengua ?S (actualizar_pcb p (\<lambda>b. b\<lparr>segmentos_info := []\<rparr>) ?S)" by (rule mengua_pcb) simp
  ultimately show ?thesis using Some mengua_trans by (simp add: eliminar_pcb_def)
qed (simp add: eliminar_pcb_def del: buscar_idx_None)

lemma mengua_notificar_fin:
  assumes "notificar_fin_a_memoria mem p S s = Some (S', ev, s')"
  shows "mengua S S'"
  using assms mengua_pedir [of mem _ S s S'] by (fastforce simp: notificar_fin_a_memoria_def split: if_splits)

lemma sueltos_finalizar:
  assumes "sueltos P S" "p \<in> P" "finalizar_pcb mem p S s = Some (S', ev, s')"
  shows "sueltos (P - {p}) S'"
proof -
  obtain S1 ev1 where S1: "liberar_mutexes_de_proceso p S = Some (S1, ev1)" using assms(3) by (auto simp: finalizar_pcb_def split: option.splits)
  obtain S2 ev2 where S2: "notificar_fin_a_memoria mem p S1 s = Some (S2, ev2, s')" "S' = liberar_pcb p (eliminar_pcb p S2)"
    using assms(3) S1 by (auto simp: finalizar_pcb_def)
  have "sueltos P (eliminar_pcb p S2)"
    using assms(1) mengua_liberar_mutexes [OF S1] mengua_notificar_fin [OF S2(1)] mengua_eliminar sueltos_mengua by blast
  then show ?thesis using sueltos_liberar [OF _ assms(2)] S2(2) by simp
qed

lemma remover_nadie: "sueltos P S \<Longrightarrow> p \<in> P \<Longrightarrow> remover_de_lista_suspendidos p S = S"
proof -
  assume "sueltos P S" "p \<in> P"
  then have "count_list (map fst (lista_suspendidos S)) p = 0" using sueltos_nadie [of P S p] by (simp add: lug_def nadie_def)
  then have "buscar_idx (\<lambda>(q, t). q = p) (lista_suspendidos S) = None" by (force simp: count_list_0_iff)
  then show ?thesis by (simp add: remover_de_lista_suspendidos_def del: buscar_idx_None)
qed

lemma sueltos_finalizar_sf:
  assumes "sueltos P S" "p \<in> P" "finalizar_pcb_por_seg_fault mem p S s = Some (S', ev, s')"
  shows "sueltos (P - {p}) S'"
proof -
  have "sueltos P (actualizar_pcb p marcar_exit S)" by (rule sueltos_pcb [OF assms(1,2)])
  then show ?thesis using assms(3) remover_nadie [OF _ assms(2)] sueltos_finalizar [OF _ assms(2)] by (simp add: finalizar_pcb_por_seg_fault_def)
qed

lemma sueltos_escribir:
  assumes "sueltos P S" "escribir_stdin_en_memoria mem p dir datos S s = Some (S', ev, s', ok)"
  shows "sueltos P S'" "est S' = est S"
proof -
  obtain ack where "pedir_a_memoria mem (enviar_escritura_memoria p dir datos) S s = Some (S', ev, ack, s')"
    using assms(2) by (auto simp: escribir_stdin_en_memoria_def)
  then have "mengua S S'" by (rule mengua_pedir)
  then show "sueltos P S'" "est S' = est S" using assms(1) sueltos_mengua by (auto simp: mengua_def)
qed

lemma sistema_ok_desbloquear:
  assumes "sistema_ok S" "desbloquear_proceso_por_io p S = Some (S', ev)" "en_io (lug S p) = 0"
  shows "sistema_ok S'"
proof -
  obtain S1 esta where x: "extraer_de_block p S = Some (S1, esta)" using assms(2) by (auto simp: desbloquear_proceso_por_io_def split: option.splits)
  show ?thesis
  proof (cases esta)
    case False
    then show ?thesis using assms x extraer_no by (fastforce simp: desbloquear_proceso_por_io_def)
  next
    case True
    then have x': "extraer_de_block p S = Some (S1, True)" using x by simp
    show ?thesis
    proof (cases rule: extraer_casos [OF assms(1) x' assms(3)])
      case (1 y)
      then have "S' = fst (encolar_en_ready_y_notificar p S1)" using assms(2) x' by (auto simp: desbloquear_proceso_por_io_def est_def)
      then show ?thesis using sueltos_encolar [OF 1(2), of p] by simp
    next
      case 2
      then have "S' = notificar_reevaluar_suspendidos (actualizar_pcb p (\<lambda>b. b\<lparr>estado := SUSP_READY\<rparr>) S1)"
        using assms(2) x' by (auto simp: desbloquear_proceso_por_io_def est_def)
      then show ?thesis using 2(2) [of "\<lambda>b. b\<lparr>estado := SUSP_READY\<rparr>"] sueltos_mengua [OF mengua_avisos(1)] by simp
    qed
  qed
qed

lemma sistema_ok_entregar:
  assumes "sistema_ok S" "entregar_stdin mem req datos S s = Some (S', ev, s')" "en_io (lug S (r_proceso req)) = 0"
  shows "sistema_ok S'"
proof -
  let ?p = "r_proceso req"
  obtain S1 esta where x: "extraer_de_block ?p S = Some (S1, esta)" using assms(2) by (auto simp: entregar_stdin_def Let_def split: option.splits)
  show ?thesis
  proof (cases esta)
    case False
    then show ?thesis using assms x extraer_no by (fastforce simp: entregar_stdin_def)
  next
    case True
    then have x': "extraer_de_block ?p S = Some (S1, True)" using x by simp
    show ?thesis
    proof (cases rule: extraer_casos [OF assms(1) x' assms(3)])
      case (1 y)
      then have nb: "map_option estado (pcbs S1 ?p) \<noteq> Some SUSP_BLOCK" by (auto simp: est_def)
      obtain S2 ev2 s2 ok where e: "escribir_stdin_en_memoria mem ?p (stdin_dir_logica req) datos S1 s = Some (S2, ev2, s2, ok)"
        using assms(2) x' nb by (auto simp: entregar_stdin_def Let_def split: option.splits if_splits)
      note S2 = sueltos_escribir [OF 1(2) e]
      show ?thesis
      proof (cases ok)
        case True
        then have "S' = fst (encolar_en_ready_y_notificar ?p S2)"
          using assms(2) x' nb e by (auto simp: entregar_stdin_def Let_def split: prod.splits if_splits)
        then show ?thesis using sueltos_encolar [OF S2(1), of ?p] by simp
      next
        case False
        then obtain ev3 where "finalizar_pcb_por_seg_fault mem ?p S2 s2 = Some (S', ev3, s')"
          using assms(2) x' nb e by (auto simp: entregar_stdin_def Let_def split: if_splits)
        then show ?thesis using sueltos_finalizar_sf [OF S2(1), of ?p] by simp
      qed
    next
      case 2
      let ?f = "\<lambda>b. b\<lparr>stdin_pendiente := Some datos, stdin_pendiente_dir := stdin_dir_logica req, stdin_pendiente_size := stdin_size req, estado := SUSP_READY\<rparr>"
      have "S' = notificar_reevaluar_suspendidos (actualizar_pcb ?p ?f S1)"
        using assms(2) x' 2(1) by (auto simp: entregar_stdin_def est_def Let_def)
      then show ?thesis using 2(2) [of ?f] sueltos_mengua [OF mengua_avisos(1)] by simp
    qed
  qed
qed

lemma sistema_ok_tomar: "sistema_ok S \<Longrightarrow> io_worker_tomar i S = Some (S', ev) \<Longrightarrow> sistema_ok S'"
  by (auto simp: io_worker_tomar_def Let_def pedidos_de_def cola_def intro!: sueltos_mengua [OF mengua_io] split: if_splits list.splits)

text \<open>Once its worker has the answer, the process of a request has no request any more.\<close>

lemma sin_pedido:
  assumes "sistema_ok S" "i < length (tabla_ios S)" "en_curso (tabla_ios S ! i) = Some req"
  shows "en_io (lug (actualizar_io i (\<lambda>io. io\<lparr>en_curso := None\<rparr>) S) (r_proceso req)) = 0"
proof -
  have "en_io (lug S (r_proceso req)) \<le> 1" using puesto_uno [OF sueltos_puesto [OF assms(1)], of "r_proceso req"] by simp
  then show ?thesis
    using lug_actualizar_io [OF assms(2), of "\<lambda>io. io\<lparr>en_curso := None\<rparr>" "r_proceso req"] assms(3) by (simp add: pedidos_de_def cola_def)
qed

lemma sistema_ok_fin:
  assumes "sistema_ok S" "io_worker_fin mem i S t s = Some (S', ev, t', s')"
  shows "sistema_ok S'"
proof -
  obtain req where req: "i < length (tabla_ios S)" "en_curso (tabla_ios S ! i) = Some req"
    using assms(2) by (auto simp: io_worker_fin_def split: option.splits if_splits)
  let ?S = "actualizar_io i (\<lambda>io. io\<lparr>en_curso := None\<rparr>) S" and ?p = "r_proceso req"
  have ok: "sistema_ok ?S" by (rule sueltos_mengua [OF mengua_io assms(1)]) (simp add: pedidos_de_def cola_def)
  note z = sin_pedido [OF assms(1) req]
  have baja: "sistema_ok (actualizar_io i (\<lambda>io. io\<lparr>activa := False\<rparr>) ?S)" by (rule sueltos_mengua [OF mengua_io ok]) (simp add: pedidos_de_def)
  obtain resp t1 where "recibir_codigo_operacion t = (resp, t1)" by fastforce
  then consider "\<exists>ev'. desbloquear_proceso_por_io ?p ?S = Some (S', ev')" | "S' = actualizar_io i (\<lambda>io. io\<lparr>activa := False\<rparr>) ?S"
    | "\<exists>datos ev' s'. entregar_stdin mem req datos ?S s = Some (S', ev', s')"
    using assms(2) req by (auto simp: io_worker_fin_def Let_def split: if_splits sum.splits)
  then show ?thesis
    by cases (use sistema_ok_desbloquear [OF ok _ z] sistema_ok_entregar [OF ok _ z] baja in blast)+
qed

section \<open>Suspension and resumption\<close>

lemma vistas_susp:
  "est (S\<lparr>lista_suspendidos := c, volcados_en_vuelo := v\<rparr>) = est S" "marco (S\<lparr>lista_suspendidos := c, volcados_en_vuelo := v\<rparr>) = marco S"
  "lug (S\<lparr>lista_suspendidos := c, volcados_en_vuelo := v\<rparr>) q = (lug S q)\<lparr>en_susp := count_list (map fst c) q, en_swap := count_list v q\<rparr>"
  by (auto simp: est_def marco_def lug_def fun_eq_iff)

lemma sistema_ok_timer:
  assumes "sistema_ok S"
  shows "sistema_ok (suspension_timer_thread tm S)"
proof -
  let ?S0 = "S\<lparr>timers_suspension := remove1 tm (timers_suspension S)\<rparr>"
  obtain p ep where tm: "tm = (p, ep)" by (cases tm)
  have ok0: "sistema_ok ?S0" using assms by (simp add: sueltos_def)
  show ?thesis
  proof (cases "\<not> sistema_corrupto S \<and> p \<in> set (cola_procesos_block S) \<and> (\<exists>b. pcbs S p = Some b \<and> estado b = BLOCK \<and> block_epoch b = ep)")
    case False
    then have "suspension_timer_thread tm S = ?S0" by (auto simp: suspension_timer_thread_def tm Let_def list_ex_iff split: option.splits)
    then show ?thesis using ok0 by simp
  next
    case True
    then obtain b where b: "pcbs S p = Some b" "estado b = BLOCK" by blast
    let ?S1 = "actualizar_pcb p (\<lambda>b. b\<lparr>estado := SUSP_BLOCK, suspendido_en_swap := False\<rparr>) ?S0"
    let ?S2 = "?S1\<lparr>lista_suspendidos := lista_suspendidos S @ [(p, reloj S)], volcados_en_vuelo := volcados_en_vuelo S @ [p]\<rparr>"
    have eq: "suspension_timer_thread tm S = ?S2"
      using True by (auto simp: suspension_timer_thread_def tm Let_def list_ex_iff agregar_a_lista_suspendidos_def actualizar_pcb_def)
    have "0 < en_block (lug S p)" using True by (simp add: lug_def) (metis count_list_0_iff gr0I)
    moreover have "puesto_ok (Some (BLOCK, suspendido_en_swap b)) (lug S p)" using sueltos_puesto [OF assms, of p] b by (simp add: est_def)
    ultimately have lp: "lug S p = nadie\<lparr>en_block := 1, en_io := en_io (lug S p)\<rparr>" "en_io (lug S p) \<le> 1"
      by (cases "lug S p"; simp add: nadie_def)+
    have l: "lug ?S2 q = (lug S q)\<lparr>en_susp := en_susp (lug S q) + (if q = p then 1 else 0), en_swap := en_swap (lug S q) + (if q = p then 1 else 0)\<rparr>" for q
      unfolding vistas_susp by (auto simp: lug_def)
    have e: "est ?S2 = (est S)(p := Some (SUSP_BLOCK, False))" using b by (simp add: vistas_susp est_actualizar)
    have ok: "lugares_ok (est S) (lug S)" using assms by (simp add: sueltos_def sin_def)
    have "lugares_ok (est ?S2) (lug ?S2)"
    proof (rule lugares_okI [OF ok, where p = p])
      show "puesto_ok (est ?S2 p) (lug ?S2 p)" using lp unfolding e l by (cases "lug S p") (simp add: nadie_def)
    qed (simp_all add: e l)
    moreover have "frescos (est ?S2) (marco ?S2)"
      using frescos_upd [of "est S" "marco S" p] assms b unfolding e unfolding vistas_susp(2) by (simp add: sueltos_def) (simp add: est_def)
    ultimately show ?thesis using eq by (simp add: sueltos_def sin_def)
  qed
qed

lemma count_remove1: "count_list (remove1 p xs) q = count_list xs q - (if q = p then 1 else 0)"
  by (induction xs) auto

lemma sistema_ok_responde:
  assumes "sistema_ok S" "p \<in> set (volcados_en_vuelo S)" "suspension_timer_responde mem p S s = Some (S', ev, s')"
  shows "sistema_ok S'"
proof -
  obtain S1 ack where r: "pedir_a_memoria mem (enviar_suspender_proceso p) S s = Some (S1, ev, ack, s')"
    and S': "S' = notificar_reevaluar_suspendidos (let S2 = (if p \<in> set (cola_procesos_block S1) then actualizar_pcb p (\<lambda>b. b\<lparr>suspendido_en_swap := True\<rparr>) S1 else S1)
        in S2\<lparr>volcados_en_vuelo := remove1 p (volcados_en_vuelo S2)\<rparr>)"
    using assms(3) by (auto simp: suspension_timer_responde_def Let_def split: option.splits)
  have m: "mengua S S1" by (rule mengua_pedir [OF r])
  have ok: "sistema_ok S1" by (rule sueltos_mengua [OF m assms(1)])
  have "0 < en_swap (lug S p)" using assms(2) by (simp add: lug_def) (metis count_list_0_iff gr0I)
  then have "0 < en_swap (lug S1 p)" using m by (simp add: mengua_def menos_en_def)
  then have p: "est S1 p = Some (SUSP_BLOCK, False)" "lug S1 p = nadie\<lparr>en_block := 1, en_susp := 1, en_swap := 1, en_io := en_io (lug S1 p)\<rparr>"
    "en_io (lug S1 p) \<le> 1"
    using puesto_en_swap [OF sueltos_puesto [OF ok, of p]] by simp_all
  have "count_list (cola_procesos_block S1) p = 1" using arg_cong [OF p(2), of en_block] by (simp add: lug_def nadie_def)
  then have "p \<in> set (cola_procesos_block S1)" by (metis count_list_0_iff zero_neq_one)
  moreover obtain b where b: "pcbs S1 p = Some b" "estado b = SUSP_BLOCK" using p(1) by (auto simp: est_def)
  let ?S2 = "actualizar_pcb p (\<lambda>b. b\<lparr>suspendido_en_swap := True\<rparr>) S1"
  let ?S3 = "?S2\<lparr>volcados_en_vuelo := remove1 p (volcados_en_vuelo ?S2)\<rparr>"
  have e: "est ?S3 = (est S1)(p := Some (SUSP_BLOCK, True))" using b by (auto simp: est_def actualizar_pcb_def fun_eq_iff)
  have l: "lug ?S3 q = (lug S1 q)\<lparr>en_swap := en_swap (lug S1 q) - (if q = p then 1 else 0)\<rparr>" for q
    by (simp add: lug_def count_remove1 actualizar_pcb_def)
  have "marco ?S3 = marco S1" by (simp add: marco_def actualizar_pcb_def)
  moreover have "lugares_ok (est ?S3) (lug ?S3)"
  proof (rule lugares_okI [where p = p])
    show "lugares_ok (est S1) (lug S1)" using ok by (simp add: sueltos_def sin_def)
    show "puesto_ok (est ?S3 p) (lug ?S3 p)" using p(2,3) unfolding e l by (cases "lug S1 p") (simp add: nadie_def)
  qed (simp_all add: e l)
  moreover have "frescos (est ?S3) (marco S1)" using frescos_upd [of "est S1" "marco S1" p] ok p(1) unfolding e by (simp add: sueltos_def)
  ultimately have "sistema_ok ?S3" by (simp add: sueltos_def sin_def)
  then have "sistema_ok (notificar_reevaluar_suspendidos ?S3)" by (rule sueltos_mengua [OF mengua_avisos(1)])
  then show ?thesis using S' \<open>p \<in> set (cola_procesos_block S1)\<close> by (simp add: Let_def)
qed

lemma sueltos_remover:
  assumes "sistema_ok S" "est S p = Some (SUSP_READY, x)"
  shows "sueltos {p} (remover_de_lista_suspendidos p S)" "pcbs (remover_de_lista_suspendidos p S) = pcbs S"
proof -
  have lp: "lug S p = nadie\<lparr>en_susp := 1\<rparr>" using sueltos_puesto [OF assms(1), of p] assms(2) by simp
  then have "count_list (map fst (lista_suspendidos S)) p \<noteq> 0" by (simp add: lug_def nadie_def)
  then have "p \<in> fst ` set (lista_suspendidos S)" using count_list_0_iff [of "map fst (lista_suspendidos S)" p] by auto
  then have "buscar_idx (\<lambda>(q, t). q = p) (lista_suspendidos S) \<noteq> None" by auto
  then obtain i where i: "buscar_idx (\<lambda>(q, t). q = p) (lista_suspendidos S) = Some i" by blast
  let ?S = "S\<lparr>lista_suspendidos := list_remove (lista_suspendidos S) i\<rparr>"
  have S: "remover_de_lista_suspendidos p S = ?S" using i by (simp add: remover_de_lista_suspendidos_def)
  have n: "count_list (map fst (lista_suspendidos S)) q = count_list (map fst (list_remove (lista_suspendidos S) i)) q + (if q = p then 1 else 0)" for q
    using count_list_remove [of i "map fst (lista_suspendidos S)" q] buscar_idx_SomeD [OF i]
    by (auto simp: list_remove_def take_map drop_map split: if_splits prod.splits)
  have l: "lug ?S q = (lug S q)\<lparr>en_susp := en_susp (lug S q) - (if q = p then 1 else 0)\<rparr>" for q using n [of q] by (simp add: lug_def)
  have "sueltos (insert p {}) ?S"
    by (rule sueltos_sacar [OF assms(1)]) (simp_all add: l lp est_def marco_def fun_eq_iff, simp add: nadie_def)
  then show "sueltos {p} (remover_de_lista_suspendidos p S)" "pcbs (remover_de_lista_suspendidos p S) = pcbs S" by (simp_all add: S)
qed

lemma est_mengua: "mengua S S' \<Longrightarrow> est S' = est S"
  by (simp add: mengua_def)

lemma est_encolar: "q \<noteq> p \<Longrightarrow> est (fst (encolar_en_ready_y_notificar p S)) q = est S q"
  by (auto simp: encolar_en_ready_y_notificar_def reencolar_proceso_ready_final_def poner_cola_def est_def actualizar_pcb_def Let_def
      split: option.splits)

lemma est_finalizar:
  assumes "finalizar_pcb_por_seg_fault mem p S s = Some (S', ev, s')" "q \<noteq> p"
  shows "est S' q = est S q"
proof -
  let ?R = "remover_de_lista_suspendidos p (actualizar_pcb p marcar_exit S)"
  obtain S1 ev1 S2 ev2 where S1: "liberar_mutexes_de_proceso p ?R = Some (S1, ev1)"
    and S2: "notificar_fin_a_memoria mem p S1 s = Some (S2, ev2, s')" "S' = liberar_pcb p (eliminar_pcb p S2)"
    using assms(1) by (auto simp: finalizar_pcb_por_seg_fault_def finalizar_pcb_def split: option.splits)
  have "est (eliminar_pcb p S2) = est ?R"
    using est_mengua [OF conjunct1 [OF mengua_liberar_mutexes [OF S1]]] est_mengua [OF mengua_notificar_fin [OF S2(1)]] est_mengua [OF mengua_eliminar] by simp
  moreover have "est ?R q = est S q" using assms(2) by (simp add: remover_de_lista_suspendidos_def est_def actualizar_pcb_def split: option.split)
  moreover have "est (liberar_pcb p T) q = est T q" for T using assms(2) by (simp add: est_def liberar_pcb_def)
  ultimately show ?thesis using S2(2) by simp
qed

lemma sistema_ok_reactivar:
  assumes "sistema_ok S" "est S p = Some (SUSP_READY, x)" "reactivar mem p S s = Some (S', ev, s')"
  shows "sistema_ok S' \<and> (\<forall>q. q \<noteq> p \<longrightarrow> est S' q = est S q)"
proof -
  let ?S1 = "remover_de_lista_suspendidos p S"
  note r = sueltos_remover [OF assms(1,2)]
  have e1: "est ?S1 = est S" using r(2) by (simp add: est_def fun_eq_iff)
  obtain b where b: "pcbs ?S1 p = Some b" using assms(2) r(2) by (auto simp: est_def)
  show ?thesis
  proof (cases "stdin_pendiente b")
    case None
    then have "S' = fst (encolar_en_ready_y_notificar p ?S1)" using assms(3) b by (auto simp: reactivar_def Let_def split: prod.splits)
    then show ?thesis using sueltos_encolar [OF r(1), of p] e1 by (simp add: est_encolar)
  next
    case (Some datos)
    obtain S2 ev2 s2 ok where w: "escribir_stdin_en_memoria mem p (stdin_pendiente_dir b) datos ?S1 s = Some (S2, ev2, s2, ok)"
      using assms(3) b Some by (auto simp: reactivar_def Let_def split: option.splits)
    note S2 = sueltos_escribir [OF r(1) w]
    let ?S3 = "actualizar_pcb p (\<lambda>b. b\<lparr>stdin_pendiente := None\<rparr>) S2"
    have S3: "sueltos {p} ?S3" "\<And>q. q \<noteq> p \<Longrightarrow> est ?S3 q = est S q" using sueltos_pcb [OF S2(1)] S2(2) e1 by (simp_all add: est_actualizar)
    show ?thesis
    proof (cases ok)
      case True
      then have "S' = fst (encolar_en_ready_y_notificar p ?S3)" using assms(3) b Some w by (auto simp: reactivar_def Let_def split: prod.splits)
      then show ?thesis using sueltos_encolar [OF S3(1), of p] S3(2) by (simp add: est_encolar)
    next
      case False
      then obtain ev3 where f: "finalizar_pcb_por_seg_fault mem p ?S3 s2 = Some (S', ev3, s')"
        using assms(3) b Some w by (auto simp: reactivar_def Let_def)
      show ?thesis using sueltos_finalizar_sf [OF S3(1) _ f] est_finalizar [OF f] S3(2) by simp
    qed
  qed
qed

lemma sistema_ok_des_suspender:
  "sistema_ok S \<Longrightarrow> distinct ps \<Longrightarrow> (\<And>p. p \<in> set ps \<Longrightarrow> \<exists>x. est S p = Some (SUSP_READY, x)) \<Longrightarrow>
   des_suspender_bucle mem ps S s = Some (S', ev, s') \<Longrightarrow> sistema_ok S'"
proof (induction ps arbitrary: S s S' ev s')
  case (Cons p ps)
  show ?case
  proof (cases "sistema_corrupto S")
    case True
    then show ?thesis using Cons.prems by simp
  next
    case False
    obtain S1 ev1 ack s1 where r: "pedir_a_memoria mem (enviar_des_suspender_proceso p) S s = Some (S1, ev1, ack, s1)"
      using Cons.prems(4) False by (auto split: option.splits)
    have m: "mengua S S1" by (rule mengua_pedir [OF r])
    note ok1 = sueltos_mengua [OF m Cons.prems(1)] and e1 = est_mengua [OF m]
    obtain S2 ev2 s2 where t: "(if ack \<noteq> op_num DES_SUSPENDER_PROCESO then Some (S1, [], s1) else reactivar mem p S1 s1) = Some (S2, ev2, s2)"
      using Cons.prems(4) False r by (auto split: option.splits)
    then obtain ev3 where n: "des_suspender_bucle mem ps S2 s2 = Some (S', ev3, s')" using Cons.prems(4) False r by (auto split: option.splits if_splits)
    obtain x where x: "est S1 p = Some (SUSP_READY, x)" using Cons.prems(3) [of p] e1 by auto
    have S2: "sistema_ok S2" "\<forall>q. q \<noteq> p \<longrightarrow> est S2 q = est S1 q"
      using t ok1 sistema_ok_reactivar [OF ok1 x, of mem s1] by (auto split: if_splits)
    show ?thesis
    proof (rule Cons.IH [OF S2(1) _ _ n])
      fix q assume "q \<in> set ps"
      then show "\<exists>x. est S2 q = Some (SUSP_READY, x)" using Cons.prems(2) Cons.prems(3) [of q] S2(2) e1 by auto
    qed (use Cons.prems(2) in simp)
  qed
qed simp

lemma distinct_si_uno: "(\<And>p. count_list xs p \<le> 1) \<Longrightarrow> distinct xs"
proof (induction xs)
  case (Cons x xs)
  have "count_list xs p \<le> 1" for p using Cons.prems [of p] by (simp split: if_splits)
  moreover have "x \<notin> set xs" using Cons.prems [of x] count_list_0_iff [of xs x] by simp
  ultimately show ?case using Cons.IH by simp
qed simp

lemma sistema_ok_pmp:
  assumes ok: "sistema_ok S" and o: "\<And>c xs. mset (ordenar c xs) = mset xs"
    and m: "planificadorMedianoPlazo ordenar mem S s = Some (S', ev, s')"
  shows "sistema_ok S'"
proof -
  let ?S = "S\<lparr>sem_reevaluar_suspendidos := sem_reevaluar_suspendidos S - 1\<rparr>"
  let ?ps = "map fst (ordenar (comparar_suspendidos ?S) (candidatos ?S))"
  have ok': "sistema_ok ?S" using ok by (simp add: sueltos_def)
  have set_ps: "set ?ps = fst ` set (candidatos ?S)" using o by (metis list.set_map mset_eq_setD)
  have "count_list (map fst (lista_suspendidos S)) p \<le> 1" for p
    using puesto_uno [OF sueltos_puesto [OF ok, of p]] by (simp add: lug_def)
  then have "distinct (map fst (lista_suspendidos S))" by (rule distinct_si_uno)
  then have "distinct (map fst (candidatos ?S))" by (simp add: candidatos_def distinct_map_filter)
  then have d: "distinct ?ps" using o by (metis distinct_map mset_eq_imp_distinct_iff mset_map)
  have r: "\<exists>x. est ?S p = Some (SUSP_READY, x)" if "p \<in> set ?ps" for p
    using that unfolding set_ps by (auto simp: candidatos_def est_def)
  show ?thesis
    using m ok' sistema_ok_des_suspender [OF ok' d r] by (auto simp: planificadorMedianoPlazo_def intentar_des_suspender_susp_ready_def Let_def split: if_splits)
qed

section \<open>Mutexes and creation\<close>

lemma lug_mutex_en:
  assumes "i < length (lista_mutexes S)"
  shows "lug (actualizar_mutex i f S) x =
    (lug S x)\<lparr>en_mutex := en_mutex (lug S x) + count_list (cola_bloqueados (f (lista_mutexes S ! i))) x - count_list (cola_bloqueados (lista_mutexes S ! i)) x\<rparr>"
    "count_list (cola_bloqueados (lista_mutexes S ! i)) x \<le> en_mutex (lug S x)"
proof -
  have i: "i < length (map cola_bloqueados (lista_mutexes S))" using assms by simp
  show "lug (actualizar_mutex i f S) x =
    (lug S x)\<lparr>en_mutex := en_mutex (lug S x) + count_list (cola_bloqueados (f (lista_mutexes S ! i))) x - count_list (cola_bloqueados (lista_mutexes S ! i)) x\<rparr>"
    using count_concat_update [OF i, of "cola_bloqueados (f (lista_mutexes S ! i))" x] i by (simp add: lug_def actualizar_mutex_def map_update)
  show "count_list (cola_bloqueados (lista_mutexes S ! i)) x \<le> en_mutex (lug S x)"
    using count_concat_nth [OF i, of x] i by (simp add: lug_def)
qed

lemma buscar_mutex_indice: "buscar_mutex_por_nombre n S = Some i \<Longrightarrow> i < length (lista_mutexes S)"
  using buscar_idx_SomeD [of _ "lista_mutexes S" i] by (simp add: buscar_mutex_por_nombre_def)

lemmas lug_mutex = lug_mutex_en [OF buscar_mutex_indice]

lemma est_mutex [simp]: "est (actualizar_mutex i f S) = est S" "marco (actualizar_mutex i f S) = marco S" "pcbs (actualizar_mutex i f S) = pcbs S"
  by (simp_all add: est_def marco_def actualizar_mutex_def fun_eq_iff)

lemma mengua_con_mutex: "mengua S (con_mutex n S)"
  by (simp add: con_mutex_def mengua_mutexes)

lemma mengua_arrancar: "mengua S (arrancar_timer p S)"
proof -
  let ?S = "actualizar_pcb p (\<lambda>b. b\<lparr>block_epoch := block_epoch b + 1\<rparr>) S"
  have "mengua S ?S" by (rule mengua_pcb) simp
  then show ?thesis using mengua_avisos(4) mengua_trans by (auto simp: arrancar_timer_def Let_def split: option.split)
qed

lemma sueltos_lock:
  assumes "sueltos P S" "p \<in> P" "est S p = Some (EXEC, x)" "manejar_syscall_mutex_lock p params S = (S', bloqueado)"
  shows "sueltos (if bloqueado then P - {p} else P) S'"
proof (cases params)
  case Nil
  then show ?thesis using assms by (simp add: manejar_syscall_mutex_lock_def)
next
  case (Cons n xs)
  let ?S = "con_mutex n S"
  have ok: "sueltos P ?S" "est ?S = est S" using sueltos_mengua [OF mengua_con_mutex assms(1)] est_mengua [OF mengua_con_mutex] by auto
  obtain i where i: "buscar_mutex_por_nombre n ?S = Some i" using con_mutex_esta by blast
  obtain b where b: "pcbs S p = Some b" using assms(3) by (auto simp: est_def)
  show ?thesis
  proof (cases "asignado_a_pid (lista_mutexes ?S ! i) = - 1")
    case True
    then show ?thesis using lock_libre [OF i True, of p xs] assms(4) Cons sueltos_mengua [OF mengua_mutexes(2) ok(1)] by auto
  next
    case False
    let ?A = "actualizar_pcb p (\<lambda>b. b\<lparr>estado := BLOCK, mutex_esperando := Some n\<rparr>) ?S"
    have i': "buscar_mutex_por_nombre n ?A = Some i" using i by (simp add: buscar_mutex_por_nombre_def actualizar_pcb_def)
    have "pcbs ?S p = Some b" "suspendido_en_swap b = x" using b assms(3) by (simp_all add: con_mutex_def vistas) (simp add: est_def)
    then have e: "est (bloqueado_en i p n ?S) = (est ?S)(p := Some (BLOCK, x))" by (simp add: bloqueado_en_def est_actualizar)
    have "sueltos (P - {p}) (bloqueado_en i p n ?S)"
      by (rule sueltos_poner [OF ok(1) assms(2) _ e])
        (use assms(3) ok(2) sueltos_nadie [OF ok(1) assms(2)] in \<open>auto simp: bloqueado_en_def lug_mutex [OF i'] nadie_def menos_en_def\<close>)
    then have "sueltos (P - {p}) (arrancar_timer p (propagar_herencia_prioridad p (prioridad_dinamica b) (bloqueado_en i p n ?S)))"
      using mengua_propagar mengua_arrancar sueltos_mengua by blast
    then show ?thesis using lock_ocupado [OF i False b, of xs] assms(4) Cons by auto
  qed
qed

text \<open>A mutex goes to its first waiter, which leaves the queue of the mutex for READY.\<close>

lemma sueltos_traspaso:
  assumes "sueltos P S" "i < length (lista_mutexes S)" "cola_bloqueados (lista_mutexes S ! i) = q # qs"
  shows "sueltos P (traspaso i q qs S)"
proof -
  let ?M = "actualizar_mutex i (\<lambda>m. m\<lparr>asignado_a_pid := q, cola_bloqueados := qs\<rparr>) S"
  have m: "0 < en_mutex (lug S q)" using lug_mutex_en(2) [OF assms(2), of q] assms(3) by simp
  have q: "q \<notin> P" using sueltos_nadie [OF assms(1), of q] m by (auto simp: nadie_def)
  obtain y where y: "est S q = Some (BLOCK, y)" using estado_de_puesto(4) [OF sueltos_puesto [OF assms(1) q] m] by blast
  have "sueltos (insert q P) ?M"
    by (rule sueltos_sacar [OF assms(1)])
      (use puesto_nadie(5) [OF sueltos_puesto [OF assms(1) q, unfolded y] m] in \<open>simp_all add: lug_mutex_en(1) [OF assms(2)] assms(3)\<close>)
  then have "sueltos (insert q P - {q}) (traspaso i q qs S)" unfolding traspaso_def by (intro sueltos_encolar sueltos_pcb) simp_all
  then show ?thesis using q by simp
qed

lemma sueltos_unlock:
  assumes "sueltos P S"
  shows "sueltos P (fst (manejar_syscall_mutex_unlock p params S))"
proof (cases "\<exists>n xs i. params = n # xs \<and> buscar_mutex_por_nombre n S = Some i \<and> asignado_a_pid (lista_mutexes S ! i) = p")
  case False
  then have "fst (manejar_syscall_mutex_unlock p params S) = S" by (auto simp: manejar_syscall_mutex_unlock_def split: list.splits option.splits)
  then show ?thesis using assms by simp
next
  case True
  then obtain n xs i where i: "params = n # xs" "buscar_mutex_por_nombre n S = Some i" "asignado_a_pid (lista_mutexes S ! i) = p" by blast
  note u = unlock_casos [OF i(2,3), of xs]
  show ?thesis
  proof (cases "cola_bloqueados (lista_mutexes S ! i)")
    case Nil
    then show ?thesis using u i(1) assms mengua_mutexes(2) mengua_recalcular sueltos_mengua by simp blast
  next
    case (Cons q qs)
    have "sueltos P (traspaso i q qs S)" by (rule sueltos_traspaso [OF assms buscar_mutex_indice [OF i(2)] Cons])
    then show ?thesis using u i(1) Cons mengua_recalcular sueltos_mengua by simp blast
  qed
qed

text \<open>
  A clean-up that gets stuck on the lock of the mutex list leaves a state that the other threads
  go on with: the places still agree with the states, while the stuck thread holds its process.
\<close>

lemma sueltos_trabado:
  assumes "sueltos P S" "correr_liberar_mutexes p (False, S, ev) = Trabado (tomado, S', ev')"
  shows "sueltos P S'"
proof -
  have "\<exists>m \<in> set (lista_mutexes S). se_traba_en p m" using assms(2) correr_liberar_sigue [of S p ev] by auto
  then obtain ms m zs where m: "lista_mutexes S = ms @ m # zs" "\<forall>m \<in> set ms. \<not> se_traba_en p m" "se_traba_en p m"
    using split_list_first_prop [of "lista_mutexes S" "se_traba_en p"] by blast
  obtain q qs where q: "cola_bloqueados m = q # qs" using m(3) by (auto simp: se_traba_en_def neq_Nil_conv)
  let ?S = "S\<lparr>lista_mutexes := map (soltar p) ms @ m # zs\<rparr>"
  have "mengua S ?S"
    using soltar_menos [of p ms] by (simp add: mengua_def marco_def est_def lug_def menos_en_def fun_eq_iff m(1))
  then have "sueltos P ?S" using assms(1) by (rule sueltos_mengua)
  then have "sueltos P (traspaso (length ms) q qs ?S)" by (rule sueltos_traspaso) (simp_all add: nth_append q)
  moreover have "actualizar_mutex (length ms) (\<lambda>m. m\<lparr>asignado_a_pid := q, cola_bloqueados := tl (cola_bloqueados m)\<rparr>) ?S =
      actualizar_mutex (length ms) (\<lambda>m. m\<lparr>asignado_a_pid := q, cola_bloqueados := qs\<rparr>) ?S"
    by (simp add: actualizar_mutex_def nth_append q)
  then have "fst (traspasar q (length ms) ?S) = traspaso (length ms) q qs ?S" by (simp add: traspasar_def traspaso_def)
  ultimately show ?thesis using correr_liberar_traba [OF m, of ev] assms(2) q by (auto split: prod.splits)
qed

lemma mengua_creacion: "enviar_creacion_proceso_a_memory mem p path S s = Some (S', ev, s', ok) \<Longrightarrow> mengua S S'"
proof -
  assume a: "enviar_creacion_proceso_a_memory mem p path S s = Some (S', ev, s', ok)"
  show "mengua S S'"
  proof (cases "recibir_respuesta_de_memoria mem S s")
    case None
    then show ?thesis using a by (auto simp: enviar_creacion_proceso_a_memory_def split: if_splits)
  next
    case (Some y)
    obtain T e1 o1 s1 where y: "y = (T, e1, o1, s1)" by (cases y)
    have "mengua S T" using mengua_recibir Some y by blast
    then show ?thesis
      using a Some y by (cases "recibir_ok s1") (auto simp: enviar_creacion_proceso_a_memory_def Let_def split: if_splits)
  qed
qed

lemma sueltos_crear:
  assumes ok: "sueltos P S" and q: "\<And>q. q \<in> P \<Longrightarrow> est S q \<noteq> None" and n: "unat (contador_pids S) < 2 ^ 31 - 1"
    and c: "crear_proceso mem path prio S s = Some (S', ev, s', nuevo)"
  shows "sueltos P S' \<and> (\<forall>q \<in> P. est S' q = est S q)"
proof (cases "path = []")
  case True
  then show ?thesis using ok c by (simp add: crear_proceso_def)
next
  case False
  let ?p = "contador_pids S"
  let ?S1 = "S\<lparr>contador_pids := ?p + 1\<rparr>"
  let ?S2 = "registrar_pcb ?p (?S1\<lparr>pcbs := (pcbs ?S1)(?p := Some (pcb_nuevo prio (reloj ?S1)))\<rparr>)"
  obtain S3 ev3 s3 ok3 where S3: "enviar_creacion_proceso_a_memory mem ?p path ?S2 s = Some (S3, ev3, s3, ok3)"
    using c False by (auto simp: crear_proceso_def generar_pid_def Let_def split: option.splits)
  have fr: "frescos (est S) (marco S)" using ok by (simp add: sueltos_def)
  have np: "est S ?p = None" using fr unfolding frescos_def marco_def by (metis fst_conv less_irrefl)
  then have pP: "?p \<notin> P" using q by blast
  have e2: "est ?S2 = (est S)(?p := Some (NEW, False))" by (auto simp: est_def registrar_pcb_def pcb_nuevo_def fun_eq_iff)
  have l2: "lug ?S2 = lug S" by (simp add: lug_def registrar_pcb_def fun_eq_iff)
  have u: "unat (?p + 1) = unat ?p + 1" using n by (simp add: unat_add_lem [THEN iffD1])
  have fr2: "frescos (est ?S2) (marco ?S2)"
    using fr n unfolding e2 by (fastforce simp: frescos_def marco_def registrar_pcb_def u less_Suc_eq)
  have "lug S ?p = nadie" using sueltos_puesto [OF ok pP] np by simp
  then have "lugares_ok (sin (insert ?p P) (est ?S2)) (lug ?S2)"
    using ok e2 l2 lugares_ok_insertar [of P "est S" "lug S" ?p "est ?S2"] by (simp add: sueltos_def)
  then have "sueltos (insert ?p P) ?S2" using fr2 by (simp add: sueltos_def)
  then have s3: "sueltos (insert ?p P) S3" by (rule sueltos_mengua [OF mengua_creacion [OF S3]])
  have e3: "est S3 = (est S)(?p := Some (NEW, False))" using est_mengua [OF mengua_creacion [OF S3]] e2 by simp
  show ?thesis
  proof (cases "cola_procesos_new S3")
    case None
    then have "S' = liberar_pcb ?p S3" using c False S3 by (simp add: crear_proceso_def generar_pid_def Let_def)
    moreover have "est (liberar_pcb ?p S3) q = est S3 q" if "q \<noteq> ?p" for q using that by (simp add: est_def liberar_pcb_def)
    moreover have "q \<noteq> ?p" if "q \<in> P" for q using that pP by blast
    ultimately show ?thesis using sueltos_liberar [OF s3, of ?p] pP e3 by simp
  next
    case (Some w)
    let ?S4 = "S3\<lparr>cola_procesos_new := Some (w @ [?p]), sem_new := sem_new S3 + 1\<rparr>"
    have S4: "S' = ?S4" using c False S3 Some by (simp add: crear_proceso_def generar_pid_def Let_def)
    let ?N = "S3\<lparr>cola_procesos_new := Some (w @ [?p])\<rparr>"
    have v: "est ?N = est S3" "marco ?N = marco S3" by (simp_all add: est_def marco_def fun_eq_iff)
    have l: "lug ?N x = (lug S3 x)\<lparr>en_new := en_new (lug S3 x) + (if x = ?p then 1 else 0)\<rparr>" for x by (simp add: lug_def Some cola_def)
    have "sueltos (insert ?p P - {?p}) ?S4"
      by (rule sueltos_poner [OF s3, where y = "Some (NEW, False)"])
        (use sueltos_nadie [OF s3, of ?p] in \<open>auto simp: v l e3 nadie_def menos_en_def fun_upd_idem\<close>)
    then show ?thesis using S4 pP v e3 by auto
  qed
qed

section \<open>System calls\<close>

lemma a_ready_ok: "sueltos {p} S \<Longrightarrow> a_ready p S ev s = Some (S', ev', s') \<Longrightarrow> sistema_ok S'"
  using sueltos_encolar [of "{p}" S p] by (auto simp: a_ready_def Let_def split: prod.splits)

lemma a_dispositivo_ok:
  assumes "sueltos {p} S" "est S p = Some (EXEC, x)" "r_proceso req = p" "a_dispositivo p io req S s = Some (S', ev, s')"
  shows "sistema_ok S'"
proof (cases io)
  case None
  then show ?thesis using a_ready_ok [OF assms(1)] assms(4) by (auto simp: a_dispositivo_def)
next
  case (Some i)
  then show ?thesis using sueltos_encolar_io [OF assms(1) _ assms(2,3), of i] assms(4) by (simp add: a_dispositivo_def)
qed

lemma terminar_ok:
  assumes "sueltos {p} S" "terminar_y_liberar_cpu mem p cpu S ev s = Some (S', ev', s')"
  shows "sistema_ok S'"
proof -
  obtain S1 ev1 where f: "finalizar_pcb mem p (actualizar_pcb p marcar_exit S) s = Some (S1, ev1, s')" "S' = liberar_cpu_reservada cpu S1"
    using assms(2) by (auto simp: terminar_y_liberar_cpu_def)
  have "sueltos ({p} - {p}) S1" by (rule sueltos_finalizar [OF sueltos_pcb [OF assms(1)] _ f(1)]) simp_all
  then show ?thesis using f(2) sueltos_mengua [OF mengua_cpus(4)] by simp
qed

lemma volver_ok:
  assumes "sueltos {p} S" "est S p = Some (EXEC, x)" "volver_a_cpu p cpu S ev s = Some (S', ev', s')"
  shows "sistema_ok S'"
proof -
  obtain S1 ev1 ok where d: "devolver_proceso_a_misma_cpu cpu p S = (S1, ev1, ok)" by (cases "devolver_proceso_a_misma_cpu cpu p S")
  have "sueltos (if ok then {p} - {p} else {p}) S1" by (rule sueltos_devolver [OF assms(1) _ assms(2) d]) simp
  then show ?thesis using assms(3) d a_ready_ok [of p S1] by (cases ok) (auto simp: volver_a_cpu_def)
qed

lemma stdout_ok:
  assumes s: "sueltos {p} S" "est S p = Some (EXEC, x)" and c: "syscall_stdout mem p params S s = Some (S', ev, s')"
  shows "sistema_ok S'"
proof (cases "\<exists>d n xs i. params = d # n # xs \<and> buscar_interfaz_io_por_tipo IO_TYPE_STDOUT S = Some i")
  case False
  then have "a_ready p S [] s = Some (S', ev, s')" using c by (auto simp: syscall_stdout_def split: list.splits option.splits)
  then show ?thesis using a_ready_ok [OF s(1)] by blast
next
  case True
  then obtain d n xs i where d: "params = d # n # xs" "buscar_interfaz_io_por_tipo IO_TYPE_STDOUT S = Some i" by blast
  obtain S1 ev1 ack s1 where r: "recibir_respuesta_de_memoria mem S s = Some (S1, ev1, ack, s1)"
    using c d by (auto simp: syscall_stdout_def split: option.splits)
  have m: "sueltos {p} S1" "est S1 p = Some (EXEC, x)" using sueltos_mengua [OF mengua_recibir [OF r] s(1)] est_mengua [OF mengua_recibir [OF r]] s(2) by simp_all
  have e: "sistema_ok (fst (encolar_io_request i (crear_io_request_stdout p a b datos) S1))" for a b datos
    using sueltos_encolar_io [OF m(1) _ m(2)] by (simp add: crear_io_request_stdout_def)
  have f: "sistema_ok T" if "finalizar_pcb_por_seg_fault mem p S1 z = Some (T, ev, z')" for T z ev z'
    using sueltos_finalizar_sf [OF m(1) singletonI that] by simp
  show ?thesis using c d r e by (auto simp: syscall_stdout_def Let_def split: if_splits sum.splits intro: f a_ready_ok [OF m(1)])
qed

lemma mem_alloc_ok:
  assumes s: "sueltos {p} S" "est S p = Some (EXEC, x)" and c: "syscall_mem_alloc mem p params cpu S s = Some (S', ev, s')"
  shows "sistema_ok S'"
proof (cases "\<exists>i n xs. params = i # n # xs")
  case False
  then have "terminar_y_liberar_cpu mem p cpu S [] s = Some (S', ev, s')" using c by (auto simp: syscall_mem_alloc_def split: list.splits)
  then show ?thesis using terminar_ok [OF s(1)] by blast
next
  case True
  then obtain i n xs where d: "params = i # n # xs" by blast
  obtain S1 ev1 ack s1 where r: "recibir_respuesta_de_memoria mem S s = Some (S1, ev1, ack, s1)"
    using c d by (auto simp: syscall_mem_alloc_def split: option.splits)
  have m: "sueltos {p} S1" "est S1 p = Some (EXEC, x)" using sueltos_mengua [OF mengua_recibir [OF r] s(1)] est_mengua [OF mengua_recibir [OF r]] s(2) by simp_all
  have "est (actualizar_pcb p (registrar_segmento i l) S1) p = Some (EXEC, x)" for i l
    using m(2) by (auto simp: est_actualizar est_def registrar_segmento_def)
  note v = volver_ok [OF sueltos_pcb [OF m(1) singletonI] this]
  show ?thesis using c d r by (auto simp: syscall_mem_alloc_def Let_def split: if_splits sum.splits intro: terminar_ok [OF m(1)] v)
qed

lemma mem_free_ok:
  assumes s: "sueltos {p} S" "est S p = Some (EXEC, x)" and c: "syscall_mem_free mem p params cpu S s = Some (S', ev, s')"
  shows "sistema_ok S'"
proof (cases params)
  case Nil
  then show ?thesis using c terminar_ok [OF s(1)] by (auto simp: syscall_mem_free_def)
next
  case (Cons i xs)
  obtain S1 ev1 ack s1 where r: "pedir_a_memoria mem (enviar_eliminar_segmento p (atoi i)) S s = Some (S1, ev1, ack, s1)"
    using c Cons by (auto simp: syscall_mem_free_def split: option.splits)
  let ?S = "actualizar_pcb p (olvidar_segmento (atoi i)) S1"
  have "sueltos {p} S1" "est S1 p = Some (EXEC, x)" using sueltos_mengua [OF mengua_pedir [OF r] s(1)] est_mengua [OF mengua_pedir [OF r]] s(2) by simp_all
  moreover have "estado (olvidar_segmento i b) = estado b" "suspendido_en_swap (olvidar_segmento i b) = suspendido_en_swap b" for i b
    by (simp_all add: olvidar_segmento_def Let_def split: option.split)
  ultimately have "sueltos {p} ?S" "est ?S p = Some (EXEC, x)" using sueltos_pcb by (auto simp: est_actualizar est_def)
  then show ?thesis using c Cons r volver_ok by (auto simp: syscall_mem_free_def)
qed

lemma syscall_ok:
  assumes s: "sueltos {p} S" "est S p = Some (EXEC, x)" and n: "unat (contador_pids S) < 2 ^ 31 - 1"
    and c: "manejar_syscall_io mem p nombre params cpu S s = Some (S', ev, s')"
  shows "sistema_ok S'"
proof (cases nombre)
  case None
  then show ?thesis using c sueltos_perder [OF s(1), of p] s(2) by (auto simp: manejar_syscall_io_def)
next
  case (Some nm)
  note listo = a_ready_ok and disp = a_dispositivo_ok [OF s]
  have io: "sistema_ok S'" if "syscall_sleep p params S s = Some (S', ev, s') \<or> syscall_io_sleep p params S s = Some (S', ev, s') \<or>
      syscall_stdin p params S s = Some (S', ev, s')"
    using that
    by (auto simp: syscall_sleep_def syscall_io_sleep_def syscall_stdin_def crear_io_request_sleep_def crear_io_request_stdin_def
        split: list.splits intro: listo [OF s(1)] disp [rotated])
  have crear: "sistema_ok S'" if "a_ready p (manejar_syscall_mutex_create p params S) [] s = Some (S', ev, s')"
  proof (rule listo [OF _ that])
    show "sueltos {p} (manejar_syscall_mutex_create p params S)"
      using s(1) sueltos_mengua [OF mengua_mutexes(1)] by (auto simp: manejar_syscall_mutex_create_def split: list.split)
  qed
  have lock: "sistema_ok S'"
    if "(let (S', bloqueado) = manejar_syscall_mutex_lock p params S in if bloqueado then Some (S', [], s) else a_ready p S' [] s) = Some (S', ev, s')"
  proof -
    obtain T bl where l: "manejar_syscall_mutex_lock p params S = (T, bl)" by (cases "manejar_syscall_mutex_lock p params S")
    have "sueltos (if bl then {p} - {p} else {p}) T" by (rule sueltos_lock [OF s(1) _ s(2) l]) simp
    then show ?thesis using that l listo [of p T] by (cases bl) auto
  qed
  have unlock: "sistema_ok S'" if "(let (S', ev) = manejar_syscall_mutex_unlock p params S in a_ready p S' ev s) = Some (S', ev, s')"
    using that sueltos_unlock [OF s(1), of p params] listo by (auto split: prod.splits)
  have init: "sistema_ok S'"
    if i: "(case manejar_syscall_init_proc mem params S s of None \<Rightarrow> None | Some (S', ev, s') \<Rightarrow> a_ready p S' ev s') = Some (S', ev, s')"
  proof -
    obtain T ev1 s1 where t: "manejar_syscall_init_proc mem params S s = Some (T, ev1, s1)" "a_ready p T ev1 s1 = Some (S', ev, s')"
      using i by (auto split: option.splits)
    have "sueltos {p} T"
    proof (cases "\<exists>path prio xs. params = path # prio # xs")
      case True
      then obtain path prio xs nuevo where "crear_proceso mem path (sint (atoi prio)) S s = Some (T, ev1, s1, nuevo)"
        using t(1) by (auto simp: manejar_syscall_init_proc_def)
      then show ?thesis using sueltos_crear [OF s(1) _ n] s(2) by blast
    next
      case False
      then show ?thesis using t(1) s(1) by (auto simp: manejar_syscall_init_proc_def split: list.splits)
    qed
    then show ?thesis using listo t(2) by blast
  qed
  show ?thesis
    using c Some io crear lock unlock init stdout_ok [OF s] mem_alloc_ok [OF s] mem_free_ok [OF s] listo [OF s(1)]
    by (auto simp: manejar_syscall_io_def split: if_splits)
qed

lemma desalojado_ok:
  assumes "sueltos {p} S" "est S p = Some (EXEC, x)"
  shows "sistema_ok (reencolar_desalojado p S)"
proof -
  let ?S = "actualizar_pcb p (\<lambda>b. b\<lparr>estado := READY\<rparr>) S"
  obtain b where b: "pcbs ?S p = Some b" using assms(2) by (auto simp: est_def actualizar_pcb_def)
  have s: "sueltos {p} ?S" by (rule sueltos_pcb [OF assms(1)]) simp
  have e: "est ?S p = Some (READY, x)" using assms(2) by (auto simp: est_actualizar est_def)
  have "sistema_ok ?S" using sueltos_perder [OF s, of p] e by simp
  then show ?thesis
    using sueltos_reencolar(2) [OF s _ e] sueltos_cola_unica [OF s _ e] b by (simp add: reencolar_desalojado_def Let_def split: option.split)
qed

lemma devolucion_ok:
  assumes ok: "sistema_ok S" and n: "unat (contador_pids S) < 2 ^ 31 - 1"
    and d: "atender_devolucion mem cpu dev S s = Some (S', ev, s')"
  shows "sistema_ok S'"
proof -
  obtain pid motivo nombre params where dev: "dev = (pid, motivo, nombre, params)" by (cases dev)
  let ?m = "es_syscall_de_memoria motivo nombre"
  obtain pr S1 where r: "(if ?m then retirar_proceso_de_cpu_reservando cpu S else retirar_proceso_de_cpu cpu S) = (pr, S1)" by fastforce
  let ?f = "\<lambda>c. c\<lparr>proceso_actual := None, timer_activo := False, disponible := True\<rparr>" and ?g = "\<lambda>c. c\<lparr>proceso_actual := None, timer_activo := False\<rparr>"
  have S1: "S1 = (if ?m then actualizar_cpu (\<lambda>c. c_id c = cpu) ?g S
      else (actualizar_cpu (\<lambda>c. c_id c = cpu) ?f S)\<lparr>sem_cpu_disponible := sem_cpu_disponible S + 1\<rparr>)"
    and pr: "(case cpu_con_id cpu S of None \<Rightarrow> None | Some c \<Rightarrow> proceso_actual c) = pr"
    using r by (auto simp: retirar_proceso_de_cpu_reservando_def retirar_proceso_de_cpu_def split: if_splits)
  have e: "est S1 = est S" "contador_pids S1 = contador_pids S"
    by (auto simp: S1) (simp_all add: actualizar_cpu_def split: option.split)
  have ret: "case pr of None \<Rightarrow> sistema_ok S1 | Some p \<Rightarrow> sueltos {p} S1 \<and> (\<exists>x. est S p = Some (EXEC, x))"
    using retirar_sueltos [OF ok _ _ pr, of ?f] retirar_sueltos [OF ok _ _ pr, of ?g]
    by (auto simp: S1 cola_def sueltos_def split: option.splits)
  show ?thesis
  proof (cases "pid <s 0")
    case True
    then show ?thesis using d ok by (simp add: atender_devolucion_def dev)
  next
    case False
    show ?thesis
    proof (cases pr)
      case None
      then have "S' = (if ?m then liberar_cpu_reservada cpu S1 else S1)" using d False r by (auto simp: atender_devolucion_def dev split: if_splits)
      then show ?thesis using ret None sueltos_mengua [OF mengua_cpus(4)] by simp
    next
      case (Some p)
      then obtain x where p: "sueltos {p} S1" "est S1 p = Some (EXEC, x)" using ret e by auto
      have "despachar_motivo mem p motivo nombre params cpu S1 s = Some (S', ev, s')"
        using d False r Some by (auto simp: atender_devolucion_def dev split: if_splits)
      moreover have "sistema_ok T" if "finalizar_pcb mem p (actualizar_pcb p marcar_exit S1) s = Some (T, ev, s')" for T
        using sueltos_finalizar [OF sueltos_pcb [OF p(1)] _ that] by simp
      ultimately show ?thesis
        using syscall_ok [OF p, of mem nombre params cpu s] n e(2) a_ready_ok [OF p(1)] desalojado_ok [OF p]
        by (auto simp: despachar_motivo_def split: if_splits)
    qed
  qed
qed

end
