(* ===== verification/Sched_Arranque.thy ===== *)
theory Sched_Arranque
  imports Sched_Syscalls
begin

text \<open>
  Start of the Kernel Scheduler: its configuration (\<open>kernel_scheduler/src/scheduler_config.c\<close>),
  the initial state of the globals, \<open>inicializar_recursos_kernel_scheduler\<close> and the order of the
  initialisations in \<open>kernel_scheduler/src/main.c\<close>. The configuration library is a parameter:
  \<open>tiene\<close> is \<open>config_has_property\<close>, \<open>cadena\<close>, \<open>entero\<close> and \<open>arreglo\<close> are the lookups of the
  file, \<open>None\<close> for the null pointer. Log level, addresses and ports are not kept.
\<close>

section \<open>Configuration\<close>

definition MAX_QUEUES :: int where
  "MAX_QUEUES = 10"

definition contar_algoritmos :: "string list option \<Rightarrow> int" where
  "contar_algoritmos a = (case a of None \<Rightarrow> 0 | Some xs \<Rightarrow> int (length xs))"

definition cargar_algoritmos_legacy :: "(string \<Rightarrow> bool) \<Rightarrow> (string \<Rightarrow> string option) \<Rightarrow> string option \<Rightarrow> int \<Rightarrow> string option list" where
  "cargar_algoritmos_legacy tiene cadena planif n =
     map (\<lambda>i. let key = ''ALGORITMO_COLA_'' @ digitos i in if tiene key then cadena key else planif) [0..<nat n]"

definition cargar_algoritmos_moderno :: "string list option \<Rightarrow> string option \<Rightarrow> int \<Rightarrow> string option list" where
  "cargar_algoritmos_moderno algoritmos planif n =
     map (\<lambda>i. if int i < contar_algoritmos algoritmos then Some (the algoritmos ! i) else planif) [0..<nat n]"

definition propiedades_scheduler :: "string list" where
  "propiedades_scheduler = [''LOG_LEVEL'', ''PLANIFICATION_ALGORITHM'', ''QUEUE_PREEMPTION'', ''RR_QUANTUM'', ''SUSPENSION_TIMEOUT'',
     ''PUERTO_ESCUCHA'', ''MEMORY_IP'', ''MEMORY_PORT'']"

definition cantidad_colas :: "(string \<Rightarrow> bool) \<Rightarrow> (string \<Rightarrow> int) \<Rightarrow> (string \<Rightarrow> string list option) \<Rightarrow> int" where
  "cantidad_colas tiene entero arreglo =
     (if tiene ''CANTIDAD_COLAS'' then min (entero ''CANTIDAD_COLAS'') MAX_QUEUES
      else if tiene ''QUEUES_ALGORITHMS''
      then (let n = contar_algoritmos (arreglo ''QUEUES_ALGORITHMS'') in min (if n \<le> 0 then 1 else n) MAX_QUEUES)
      else 1)"

definition load_config_scheduler ::
  "(string \<Rightarrow> bool) \<Rightarrow> (string \<Rightarrow> string option) \<Rightarrow> (string \<Rightarrow> int) \<Rightarrow> (string \<Rightarrow> string list option) \<Rightarrow> t_config_scheduler option" where
  "load_config_scheduler tiene cadena entero arreglo =
     (if \<not> list_all tiene propiedades_scheduler then None
      else
        let planif = cadena ''PLANIFICATION_ALGORITHM''; n = cantidad_colas tiene entero arreglo
        in Some \<lparr>planification_algorithm = planif, queue_preemption = cadena ''QUEUE_PREEMPTION'', rr_quantum = entero ''RR_QUANTUM'',
                 suspension_timeout = entero ''SUSPENSION_TIMEOUT'',
                 algoritmos_colas = (if tiene ''QUEUES_ALGORITHMS'' then cargar_algoritmos_moderno (arreglo ''QUEUES_ALGORITHMS'') planif n
                                     else cargar_algoritmos_legacy tiene cadena planif n)\<rparr>)"

section \<open>Initial state\<close>

text \<open>The globals before \<open>main\<close>; \<open>sem_init\<close> of the threads and the lists that are created empty are part of it.\<close>

definition globales_scheduler :: "t_config_scheduler \<Rightarrow> t_scheduler" where
  "globales_scheduler cfg = \<lparr>config_scheduler = cfg, pcbs = (\<lambda>_. None), todos_los_procesos = [], lista_mutexes = [], cola_procesos_new = None,
     cola_procesos_ready = None, colas_prioridad = [], sem_new = 0, sem_ready = 0, sem_cpu_disponible = 0, sem_reevaluar_suspendidos = 0,
     sc_cpus = [], cola_procesos_block = [], lista_suspendidos = [], sistema_corrupto = False, compactacion_activa = False, contador_pids = 0,
     reloj = 0, tabla_ios = [], timers_suspension = [], volcados_en_vuelo = []\<rparr>"

definition inicializar_recursos_kernel_scheduler :: "t_scheduler \<Rightarrow> t_scheduler" where
  "inicializar_recursos_kernel_scheduler S =
     S\<lparr>cola_procesos_new := (case cola_procesos_new S of None \<Rightarrow> Some [] | q \<Rightarrow> q),
       cola_procesos_ready := (case cola_procesos_ready S of None \<Rightarrow> Some [] | q \<Rightarrow> q),
       sem_new := 0, sem_ready := 0, sem_cpu_disponible := 0\<rparr>"

text \<open>
  What \<open>main\<close> does between the start of the server and the first scheduler thread. The number of
  queues is the number of entries of \<open>algoritmos_colas\<close>.
\<close>

definition main_inicializar :: "t_scheduler \<Rightarrow> t_scheduler" where
  "main_inicializar S =
     (let S1 = inicializar_recursos_kernel_scheduler S;
          S2 = (if obtener_algoritmo_global S1 = ALGORITMO_CMN
                then inicializar_colas_multinivel (int (length (algoritmos_colas (config_scheduler S1)))) S1 else S1)
      in inicializar_tabla_ios S2)"

section \<open>Connection to Kernel Memory\<close>

text \<open>
  The attempts of \<open>conectar_a_kernel_memory\<close>, given as what \<open>crear_conexion\<close> returned and what
  Kernel Memory sent on that connection before it was closed or its timeout ran out. \<open>None\<close> is a
  loop that goes on past the last attempt. A stick has a function of the same name.
\<close>

fun sched_conectar_a_kernel_memory :: "(sock \<times> byte list) list \<Rightarrow> (sock \<times> evento list \<times> byte list) option" where
  "sched_conectar_a_kernel_memory [] = None"
| "sched_conectar_a_kernel_memory ((sk, s) # intentos) =
     (if sk = - 1 then sched_conectar_a_kernel_memory intentos
      else
        let ev = Enviar sk enviar_handshake_scheduler_a_memory; (ack, s1) = recibir_codigo_operacion s
        in if ack = - 1 \<or> ack \<noteq> op_num HANDSHAKE_SCHEDULER_A_MEMORY
           then map_option (\<lambda>(m, evs, r). (m, ev # evs, r)) (sched_conectar_a_kernel_memory intentos)
           else case recibir_ok s1 of Inl e \<Rightarrow> None | Inr (u, s2) \<Rightarrow> Some (sk, [ev], s2))"

text \<open>The first attempt that Kernel Memory acknowledges is the one that stays.\<close>

lemma sched_conecta:
  assumes "\<forall>(sk, s) \<in> set xs. sk = - 1" "sk \<noteq> - 1"
  shows "sched_conectar_a_kernel_memory (xs @ (sk, enviar_ok HANDSHAKE_SCHEDULER_A_MEMORY @ s) # ys) =
    Some (sk, [Enviar sk enviar_handshake_scheduler_a_memory], s)"
  using assms(1)
proof (induction xs)
  case Nil
  obtain s1 where "recibir_codigo_operacion (enviar_ok HANDSHAKE_SCHEDULER_A_MEMORY @ s) = (op_num HANDSHAKE_SCHEDULER_A_MEMORY, s1)"
      "recibir_ok s1 = Inr ((), s)" by (rule recibir_ack)
  then show ?case using assms(2) by simp
qed auto

section \<open>Number of queues\<close>

lemma cantidad_colas_acotada: "cantidad_colas tiene entero arreglo \<le> MAX_QUEUES"
  by (simp add: cantidad_colas_def MAX_QUEUES_def Let_def)

lemma colas_configuradas:
  assumes "load_config_scheduler tiene cadena entero arreglo = Some cfg"
  shows "length (algoritmos_colas cfg) = nat (cantidad_colas tiene entero arreglo)" "length (algoritmos_colas cfg) \<le> 10"
proof -
  show "length (algoritmos_colas cfg) = nat (cantidad_colas tiene entero arreglo)"
    using assms by (auto simp: load_config_scheduler_def Let_def cargar_algoritmos_moderno_def cargar_algoritmos_legacy_def split: if_splits)
  then show "length (algoritmos_colas cfg) \<le> 10" using cantidad_colas_acotada [of tiene entero arreglo] by (simp add: MAX_QUEUES_def)
qed

end
