(* ===== verification/Sched_Sistema.thy ===== *)
theory Sched_Sistema
  imports Sched_Sueltos Sched_Arranque
begin

text \<open>
  The Kernel Scheduler as a transition system: one rule per thing that a thread does between two
  waits, in any order. The invariant of \<open>Sched_Lugares\<close> holds in every reachable state.
\<close>

section \<open>The transition system\<close>

lemma handshake_ok:
  assumes "sistema_ok S"
  shows "sistema_ok (fst (scheduler_handshake_handler socket S t))"
proof -
  have io: "mengua S (fst (registrar_interfaz_io socket nombre S))" for nombre
    by (rule mengua_campos) (auto simp: registrar_interfaz_io_def marco_def pedidos_de_def cola_def)
  have cpu: "sistema_ok (registrar_cpu_sched socket cpu S)" if "0 <s cpu" for cpu
  proof -
    let ?c = "\<lparr>c_socket = socket, c_id = cpu, disponible = True, proceso_actual = None, timer_activo = False, timer_pid = 0\<rparr>"
    let ?S = "S\<lparr>sc_cpus := sc_cpus S @ [?c]\<rparr>"
    have "est ?S = est S" "lug ?S = lug S" by (simp_all add: est_def lug_def ocupante_def cola_def fun_eq_iff)
    then have "sistema_ok ?S" using assms that by (auto simp: sueltos_def frescos_def marco_def)
    then show ?thesis using assms by (auto simp: registrar_cpu_sched_def Let_def sueltos_def)
  qed
  have "0 <s c" if "\<not> c \<le>s 0" for c :: i32 using that by (simp add: word_sle_eq word_sless_alt)
  then show ?thesis
    using assms sueltos_mengua [OF io] cpu by (auto simp: scheduler_handshake_handler_def split: prod.splits sum.splits)
qed

text \<open>
  \<open>mem\<close> is the socket of Kernel Memory, \<open>s\<close> what arrives from it, \<open>t\<close> what arrives from a
  device or a client. \<open>ordenar\<close> is any function that permutes its list. A process can only be
  created while the counter of pids has not reached the end of an \<open>int\<close>. The turn of the
  medium-term scheduler is one rule, and one iteration of its loop is another, so that the runs in
  which other threads act between two candidates are covered too: only that scheduler takes a
  process out of SUSP\_READY, so a candidate stays one until its turn. An action that never returns has no rule: when the clean-up
  of a process gets stuck on the lock of the mutex list (\<open>correr_liberar_mutexes\<close>) the other threads go
  on from the state that it leaves; \<open>sueltos_trabado\<close> shows that the invariant holds in it, with the
  process in the hands of the stuck thread.
\<close>

inductive paso :: "t_scheduler \<Rightarrow> t_scheduler \<Rightarrow> bool" where
  proceso_inicial: "crear_proceso_inicial mem path S s = Some (S', ev, s', p) \<Longrightarrow> unat (contador_pids S) < 2 ^ 31 - 1 \<Longrightarrow> paso S S'"
| largo_plazo: "planificadorLargoPlazo S = Some (S', ev) \<Longrightarrow> paso S S'"
| corto_plazo: "planificadorCortoPlazo S = Some (S', ev) \<Longrightarrow> paso S S'"
| quantum: "paso S (fst (quantum_timer_thread ident p S))"
| devolucion: "atender_devolucion mem cpu dev S s = Some (S', ev, s') \<Longrightarrow> unat (contador_pids S) < 2 ^ 31 - 1 \<Longrightarrow> paso S S'"
| desconexion: "paso S (marcar_cpu_desconectada cpu S)"
| handshake: "paso S (fst (scheduler_handshake_handler socket S t))"
| io_pedido: "io_worker_tomar i S = Some (S', ev) \<Longrightarrow> paso S S'"
| io_fin: "io_worker_fin mem i S t s = Some (S', ev, t', s') \<Longrightarrow> paso S S'"
| suspension: "tm \<in> set (timers_suspension S) \<Longrightarrow> paso S (suspension_timer_thread tm S)"
| suspendido: "p \<in> set (volcados_en_vuelo S) \<Longrightarrow> suspension_timer_responde mem p S s = Some (S', ev, s') \<Longrightarrow> paso S S'"
| mediano_plazo: "(\<And>c xs. mset (ordenar c xs) = mset xs) \<Longrightarrow> planificadorMedianoPlazo ordenar mem S s = Some (S', ev, s') \<Longrightarrow> paso S S'"
| candidato: "p \<in> fst ` set (candidatos S) \<Longrightarrow> des_suspender_bucle mem [p] S s = Some (S', ev, s') \<Longrightarrow> paso S S'"
| tiempo: "paso S (S\<lparr>reloj := n\<rparr>)"

definition estado_inicial :: "t_scheduler \<Rightarrow> bool" where
  "estado_inicial S \<longleftrightarrow> (\<exists>cfg. S = main_inicializar (globales_scheduler cfg))"

lemma sistema_ok_inicial: "estado_inicial S \<Longrightarrow> sistema_ok S"
proof -
  assume "estado_inicial S"
  then obtain cfg where S: "S = main_inicializar (globales_scheduler cfg)" by (auto simp: estado_inicial_def)
  have "concat (replicate n []) = ([] :: i32 list)" for n by (induction n) auto
  then have "lug S = (\<lambda>_. nadie)" "est S = (\<lambda>_. None)" "marco S = (0, [])"
    by (auto simp: S main_inicializar_def inicializar_recursos_kernel_scheduler_def inicializar_tabla_ios_def inicializar_colas_multinivel_def
        globales_scheduler_def lug_def est_def marco_def nadie_def cola_def Let_def fun_eq_iff)
  then show ?thesis by (simp add: sueltos_def sin_def lugares_ok_def frescos_def)
qed

lemma sistema_ok_paso: "sistema_ok S \<Longrightarrow> paso S S' \<Longrightarrow> sistema_ok S'"
proof -
  assume ok: "sistema_ok S" and "paso S S'"
  from this(2) show "sistema_ok S'"
  proof cases
    case (proceso_inicial mem path s ev s' p)
    show ?thesis
    proof (cases "path = []")
      case True
      then show ?thesis using proceso_inicial ok by (simp add: crear_proceso_inicial_def)
    next
      case False
      then have "crear_proceso mem path 0 S s = Some (S', ev, s', p)" using proceso_inicial by (simp add: crear_proceso_inicial_def)
      then show ?thesis using sueltos_crear [OF ok _ proceso_inicial(2)] by blast
    qed
  next
    case largo_plazo
    then show ?thesis using sistema_ok_largo [OF ok] by blast
  next
    case corto_plazo
    then show ?thesis using sistema_ok_corto [OF ok] by blast
  next
    case quantum
    then show ?thesis using sueltos_mengua [OF mengua_cpus(1) ok] by simp
  next
    case devolucion
    then show ?thesis using devolucion_ok [OF ok] by blast
  next
    case desconexion
    then show ?thesis using sueltos_mengua [OF mengua_cpus(3) ok] by simp
  next
    case handshake
    then show ?thesis using handshake_ok [OF ok] by simp
  next
    case io_pedido
    then show ?thesis using sistema_ok_tomar [OF ok] by blast
  next
    case io_fin
    then show ?thesis using sistema_ok_fin [OF ok] by blast
  next
    case suspension
    then show ?thesis using sistema_ok_timer [OF ok] by simp
  next
    case suspendido
    then show ?thesis using sistema_ok_responde [OF ok] by blast
  next
    case mediano_plazo
    then show ?thesis using sistema_ok_pmp [OF ok] by blast
  next
    case (candidato p mem s ev s')
    then have "\<exists>x. est S p = Some (SUSP_READY, x)" by (auto simp: candidatos_def est_def)
    then show ?thesis using sistema_ok_des_suspender [OF ok _ _ candidato(2)] by simp
  next
    case (tiempo n)
    have "mengua S (S\<lparr>reloj := n\<rparr>)" by (rule mengua_campos) (simp_all add: marco_def)
    then show ?thesis using sueltos_mengua ok tiempo by blast
  qed
qed

interpretation planificacion: con_invariante estado_inicial paso sistema_ok
  by unfold_locales (auto intro: sistema_ok_inicial sistema_ok_paso)

lemma puesto_alcanzable: "alcanzable estado_inicial paso S \<Longrightarrow> puesto_ok (est S p) (lug S p)"
  using sueltos_puesto [OF planificacion.inv_alcanzable, of S p] by simp

section \<open>Properties\<close>

lemma count_candidatos:
  "count_list (map fst (candidatos S)) p = (if map_option estado (pcbs S p) = Some SUSP_READY then en_susp (lug S p) else 0)"
proof -
  have "count_list (map fst (filter (\<lambda>(p, t). P p) xs)) p = (if P p then count_list (map fst xs) p else 0)" for P and xs :: "(i32 \<times> int) list"
    by (induction xs) auto
  then show ?thesis unfolding candidatos_def by (auto simp: lug_def)
qed

lemma en_estado:
  "puesto_ok (est S p) (lug S p) \<Longrightarrow> p \<in> set (cola (cola_procesos_new S)) \<Longrightarrow> map_option estado (pcbs S p) = Some NEW"
  "puesto_ok (est S p) (lug S p) \<Longrightarrow> p \<in> set (cola (cola_procesos_ready S)) \<union> set (concat (colas_prioridad S)) \<Longrightarrow> map_option estado (pcbs S p) = Some READY"
  "puesto_ok (est S p) (lug S p) \<Longrightarrow> p \<in> set (concat (map ocupante (sc_cpus S))) \<Longrightarrow> map_option estado (pcbs S p) = Some EXEC"
  "puesto_ok (est S p) (lug S p) \<Longrightarrow> p \<in> set (concat (map cola_bloqueados (lista_mutexes S))) \<Longrightarrow> map_option estado (pcbs S p) = Some BLOCK"
  "puesto_ok (est S p) (lug S p) \<Longrightarrow> p \<in> set (cola_procesos_block S) \<Longrightarrow> map_option estado (pcbs S p) \<in> {Some BLOCK, Some SUSP_BLOCK}"
proof -
  have c: "p \<in> set xs \<Longrightarrow> 0 < count_list xs p" for xs by (metis count_list_0_iff gr0I)
  note d = estado_de_puesto [of "est S p" "lug S p"]
  show "puesto_ok (est S p) (lug S p) \<Longrightarrow> p \<in> set (cola (cola_procesos_new S)) \<Longrightarrow> map_option estado (pcbs S p) = Some NEW"
    using d(1) c by (fastforce simp: lug_def est_def)
  show "puesto_ok (est S p) (lug S p) \<Longrightarrow> p \<in> set (cola (cola_procesos_ready S)) \<union> set (concat (colas_prioridad S)) \<Longrightarrow> map_option estado (pcbs S p) = Some READY"
    using d(2) c [of "cola (cola_procesos_ready S)"] c [of "concat (colas_prioridad S)"] by (fastforce simp: lug_def est_def)
  show "puesto_ok (est S p) (lug S p) \<Longrightarrow> p \<in> set (concat (map ocupante (sc_cpus S))) \<Longrightarrow> map_option estado (pcbs S p) = Some EXEC"
    using d(3) c [of "concat (map ocupante (sc_cpus S))"] by (fastforce simp: lug_def est_def)
  show "puesto_ok (est S p) (lug S p) \<Longrightarrow> p \<in> set (concat (map cola_bloqueados (lista_mutexes S))) \<Longrightarrow> map_option estado (pcbs S p) = Some BLOCK"
    using d(4) c [of "concat (map cola_bloqueados (lista_mutexes S))"] by (fastforce simp: lug_def est_def)
  show "puesto_ok (est S p) (lug S p) \<Longrightarrow> p \<in> set (cola_procesos_block S) \<Longrightarrow> map_option estado (pcbs S p) \<in> {Some BLOCK, Some SUSP_BLOCK}"
    using d(5) c [of "cola_procesos_block S"] by (fastforce simp: lug_def est_def)
qed

text \<open>The list of suspended processes and the requests to the devices.\<close>

lemma en_suspendidos:
  assumes "puesto_ok (est S p) (lug S p)"
  shows "(p \<in> fst ` set (lista_suspendidos S)) = (map_option estado (pcbs S p) \<in> {Some SUSP_BLOCK, Some SUSP_READY})"
    "map_option estado (pcbs S p) = Some SUSP_BLOCK \<Longrightarrow> p \<in> set (cola_procesos_block S)"
    "p \<in> set (concat (map pedidos_de (tabla_ios S))) \<Longrightarrow> p \<in> set (cola_procesos_block S)"
proof -
  have c: "p \<in> set xs \<longleftrightarrow> 0 < count_list xs p" for xs by (metis count_list_0_iff gr0I less_irrefl)
  have s: "0 < en_susp (lug S p) \<longleftrightarrow> map_option estado (pcbs S p) \<in> {Some SUSP_BLOCK, Some SUSP_READY}"
    using puesto_estado_susp [OF assms] by (auto simp: est_def)
  then show "(p \<in> fst ` set (lista_suspendidos S)) = (map_option estado (pcbs S p) \<in> {Some SUSP_BLOCK, Some SUSP_READY})"
    using c [of "map fst (lista_suspendidos S)"] by (simp add: lug_def)
  show "map_option estado (pcbs S p) = Some SUSP_BLOCK \<Longrightarrow> p \<in> set (cola_procesos_block S)"
  proof -
    assume "map_option estado (pcbs S p) = Some SUSP_BLOCK"
    then obtain y where "est S p = Some (SUSP_BLOCK, y)" by (auto simp: est_def)
    then have "0 < en_block (lug S p)" using assms puesto_susp_block by metis
    then show "p \<in> set (cola_procesos_block S)" using c [of "cola_procesos_block S"] by (simp add: lug_def)
  qed
  show "p \<in> set (concat (map pedidos_de (tabla_ios S))) \<Longrightarrow> p \<in> set (cola_procesos_block S)"
    using puesto_uno [OF assms] c [of "concat (map pedidos_de (tabla_ios S))"] c [of "cola_procesos_block S"] unfolding lug_def by simp
qed

text \<open>
  A run of the scheduler for the examples: the initial process is created and queued, a CPU and a
  device connect, the process is dispatched, sleeps, and its suspension timer fires.
\<close>

definition cfg_demo :: t_config_scheduler where
  "cfg_demo = \<lparr>planification_algorithm = Some ''FIFO'', queue_preemption = None, rr_quantum = 100, suspension_timeout = 10, algoritmos_colas = [Some ''FIFO'']\<rparr>"

definition demo0 :: t_scheduler where "demo0 = main_inicializar (globales_scheduler cfg_demo)"

definition demo1 :: t_scheduler where "demo1 = fst (the (crear_proceso_inicial (- 1) ''a'' demo0 []))"

definition demo2 :: t_scheduler where "demo2 = fst (the (planificadorLargoPlazo demo1))"

definition demo3 :: t_scheduler where "demo3 = fst (scheduler_handshake_handler 5 demo2 (enviar_handshake_cpu 1))"

definition demo4 :: t_scheduler where "demo4 = fst (scheduler_handshake_handler 6 demo3 (enviar_handshake_io ''SLEEP1''))"

definition demo5 :: t_scheduler where "demo5 = fst (the (planificadorCortoPlazo demo4))"

definition demo6 :: t_scheduler where
  "demo6 = fst (the (atender_devolucion (- 1) 1 (0, motivo_num MOTIVO_SYSCALL, Some ''SLEEP'', [''100'']) demo5 []))"

definition demo7 :: t_scheduler where "demo7 = suspension_timer_thread (0, 1) demo6"

lemma algun: "x \<noteq> None \<Longrightarrow> \<exists>r. x = Some (fst (the x), r)"
  by (cases "the x") auto

lemma demo_alcanzable: "alcanzable estado_inicial paso demo5" "alcanzable estado_inicial paso demo7" "alcanzable estado_inicial paso demo6"
proof -
  have a0: "alcanzable estado_inicial paso demo0" by (rule inicio) (auto simp: estado_inicial_def demo0_def)
  have "crear_proceso_inicial (- 1) ''a'' demo0 [] \<noteq> None" by code_simp
  then obtain r1 where "crear_proceso_inicial (- 1) ''a'' demo0 [] = Some (demo1, r1)" using algun unfolding demo1_def by blast
  moreover have "contador_pids demo0 = 0" by code_simp
  ultimately have "paso demo0 demo1" using proceso_inicial [of "- 1" "''a''" demo0 "[]"] by (cases r1) simp
  then have a1: "alcanzable estado_inicial paso demo1" by (rule avance [OF a0])
  have "planificadorLargoPlazo demo1 \<noteq> None" by code_simp
  then obtain r2 where "planificadorLargoPlazo demo1 = Some (demo2, r2)" using algun unfolding demo2_def by blast
  then have a2: "alcanzable estado_inicial paso demo2" by (intro avance [OF a1] largo_plazo)
  have a3: "alcanzable estado_inicial paso demo3" unfolding demo3_def by (intro avance [OF a2] handshake)
  have a4: "alcanzable estado_inicial paso demo4" unfolding demo4_def by (intro avance [OF a3] handshake)
  have "planificadorCortoPlazo demo4 \<noteq> None" by code_simp
  then obtain r5 where "planificadorCortoPlazo demo4 = Some (demo5, r5)" using algun unfolding demo5_def by blast
  then show a5: "alcanzable estado_inicial paso demo5" by (intro avance [OF a4] corto_plazo)
  let ?d = "(0, motivo_num MOTIVO_SYSCALL, Some ''SLEEP'', [''100''])"
  have "atender_devolucion (- 1) 1 ?d demo5 [] \<noteq> None" by code_simp
  then obtain r6 where "atender_devolucion (- 1) 1 ?d demo5 [] = Some (demo6, r6)" using algun unfolding demo6_def by blast
  moreover have "contador_pids demo5 = 1" by code_simp
  ultimately have "paso demo5 demo6" using devolucion [of "- 1" 1 ?d demo5 "[]"] by (cases r6) simp
  then show a6: "alcanzable estado_inicial paso demo6" by (rule avance [OF a5])
  have "(0, 1) \<in> set (timers_suspension demo6)" by code_simp
  then show "alcanzable estado_inicial paso demo7" unfolding demo7_def by (intro avance [OF a6] suspension)
qed

text \<open>
  C2. In every state that the scheduler can reach, whatever the order in which its threads, timers,
  devices and CPUs act, a process is in at most one place: the NEW queue, a READY queue, a CPU,
  the BLOCK queue, the queue of a mutex, or the suspended processes that wait for memory
  (\<open>candidatos\<close>, those of \<open>lista_suspendidos\<close> in SUSP\_READY). So no process runs on two CPUs, and
  none is both running and queued. The state of a process is the one of its place: NEW, READY,
  EXEC, BLOCK in the queue of a mutex, BLOCK or SUSP\_BLOCK in the BLOCK queue. The list of
  suspended processes overlaps with the BLOCK queue: it holds, once each, exactly the processes
  in SUSP\_BLOCK, which stay in the BLOCK queue, and those in SUSP\_READY. And no process has two
  requests to the devices, and one that has a request is in the BLOCK queue.
\<close>

theorem un_proceso_un_lugar:
  assumes "alcanzable estado_inicial paso S"
  shows "distinct (cola (cola_procesos_new S) @ cola (cola_procesos_ready S) @ concat (colas_prioridad S) @ concat (map ocupante (sc_cpus S)) @
      cola_procesos_block S @ concat (map cola_bloqueados (lista_mutexes S)) @ map fst (candidatos S)) \<and>
    (p \<in> set (cola (cola_procesos_new S)) \<longrightarrow> map_option estado (pcbs S p) = Some NEW) \<and>
    (p \<in> set (cola (cola_procesos_ready S)) \<union> set (concat (colas_prioridad S)) \<longrightarrow> map_option estado (pcbs S p) = Some READY) \<and>
    (p \<in> set (concat (map ocupante (sc_cpus S))) \<longrightarrow> map_option estado (pcbs S p) = Some EXEC) \<and>
    (p \<in> set (concat (map cola_bloqueados (lista_mutexes S))) \<longrightarrow> map_option estado (pcbs S p) = Some BLOCK) \<and>
    (p \<in> set (cola_procesos_block S) \<longrightarrow> map_option estado (pcbs S p) \<in> {Some BLOCK, Some SUSP_BLOCK}) \<and>
    distinct (map fst (lista_suspendidos S)) \<and>
    (p \<in> fst ` set (lista_suspendidos S)) = (map_option estado (pcbs S p) \<in> {Some SUSP_BLOCK, Some SUSP_READY}) \<and>
    (map_option estado (pcbs S p) = Some SUSP_BLOCK \<longrightarrow> p \<in> set (cola_procesos_block S)) \<and>
    distinct (concat (map pedidos_de (tabla_ios S))) \<and>
    (p \<in> set (concat (map pedidos_de (tabla_ios S))) \<longrightarrow> p \<in> set (cola_procesos_block S))"
    (is "distinct ?l \<and> _")
proof -
  note u = puesto_alcanzable [OF assms]
  note n = puesto_uno [OF u]
  have "count_list ?l q \<le> 1" for q
  proof -
    have "en_susp (lug S q) = en_susp (lug S q) - en_block (lug S q)" if "map_option estado (pcbs S q) = Some SUSP_READY"
      using u [of q] that by (auto simp: est_def nadie_def)
    then show ?thesis using n [of q] unfolding count_list_append count_candidatos by (auto simp: lug_def)
  qed
  then have "distinct ?l" by (rule distinct_si_uno)
  moreover have "distinct (map fst (lista_suspendidos S))" by (rule distinct_si_uno) (use n in \<open>simp add: lug_def\<close>)
  moreover have "distinct (concat (map pedidos_de (tabla_ios S)))"
  proof (rule distinct_si_uno)
    show "count_list (concat (map pedidos_de (tabla_ios S))) q \<le> 1" for q using n [of q] unfolding lug_def by simp
  qed
  ultimately show ?thesis using en_estado [OF u] en_suspendidos [OF u] by blast
qed

lemma un_proceso_un_lugar_witness:
  "concat (map ocupante (sc_cpus demo5)) = [0] \<and> map_option estado (pcbs demo5 0) = Some EXEC \<and>
   lista_suspendidos demo7 = [(0, 0)] \<and> map_option estado (pcbs demo7 0) \<in> {Some SUSP_BLOCK, Some SUSP_READY}"
proof -
  have "concat (map ocupante (sc_cpus demo5)) = [0]" "lista_suspendidos demo7 = [(0, 0)]" by code_simp+
  then show ?thesis using un_proceso_un_lugar [OF demo_alcanzable(1), of 0] un_proceso_un_lugar [OF demo_alcanzable(2), of 0] by auto
qed

text \<open>
  C9. While Kernel Memory copies a process to swap the process cannot leave BLOCK: it stays there,
  SUSP\_BLOCK, with the flag that makes the worker of its device wait, so that the copy and the
  resumption cannot overlap. And a suspended process is always in the list that the medium-term
  scheduler looks at, so that it is not forgotten in swap.
\<close>

theorem volcado_protegido:
  assumes "alcanzable estado_inicial paso S"
  shows "(p \<in> set (volcados_en_vuelo S) \<longrightarrow>
      p \<in> set (cola_procesos_block S) \<and> extraer_de_block p S = None \<and> (\<exists>b. pcbs S p = Some b \<and> estado b = SUSP_BLOCK \<and> \<not> suspendido_en_swap b)) \<and>
    (pcbs S p = Some b \<and> (estado b = SUSP_READY \<or> estado b = SUSP_BLOCK) \<longrightarrow> p \<in> fst ` set (lista_suspendidos S))"
proof (intro conjI impI)
  note u = puesto_alcanzable [OF assms, of p]
  have c: "p \<in> set xs \<longleftrightarrow> 0 < count_list xs p" for xs by (metis count_list_0_iff gr0I less_irrefl)
  {
    assume "p \<in> set (volcados_en_vuelo S)"
    then have e: "est S p = Some (SUSP_BLOCK, False)" using puesto_en_swap [OF u] c by (simp add: lug_def)
    show b: "p \<in> set (cola_procesos_block S)" by (rule en_suspendidos(2) [OF u]) (use e in \<open>auto simp: est_def\<close>)
    show "\<exists>b. pcbs S p = Some b \<and> estado b = SUSP_BLOCK \<and> \<not> suspendido_en_swap b" using e by (auto simp: est_def)
    then show "extraer_de_block p S = None" using b by (auto simp: extraer_de_block_def split: option.split)
  }
  assume "pcbs S p = Some b \<and> (estado b = SUSP_READY \<or> estado b = SUSP_BLOCK)"
  then have "en_susp (lug S p) = 1" using u puesto_susp [of "estado b"] by (auto simp: est_def)
  then show "p \<in> fst ` set (lista_suspendidos S)" using c [of "map fst (lista_suspendidos S)"] by (simp add: lug_def)
qed

lemma volcado_protegido_witness: "0 \<in> set (cola_procesos_block demo7) \<and> extraer_de_block 0 demo7 = None \<and> 0 \<in> fst ` set (lista_suspendidos demo7)"
proof -
  have "0 \<in> set (volcados_en_vuelo demo7)" by code_simp
  then show ?thesis using volcado_protegido [OF demo_alcanzable(2), of 0] by blast
qed

text \<open>
  C16. No queue, CPU, mutex, list of suspended processes, copy under way or request to a device,
  queued or with the worker of the device, points to a block that was freed: in a reachable state
  every one of them leads to a live block. (The table \<open>todos_los_procesos\<close> is not among them:
  \<open>encolar_en_ready_por_prioridad\<close> leaves a freed block in it.)
\<close>

theorem sin_punteros_colgantes:
  assumes "alcanzable estado_inicial paso S"
    and "p \<in> set (cola (cola_procesos_new S)) \<union> set (cola (cola_procesos_ready S)) \<union> \<Union> (set ` set (colas_prioridad S)) \<union>
      {p. \<exists>c \<in> set (sc_cpus S). proceso_actual c = Some p} \<union> set (cola_procesos_block S) \<union>
      \<Union> ((set \<circ> cola_bloqueados) ` set (lista_mutexes S)) \<union> fst ` set (lista_suspendidos S) \<union> set (volcados_en_vuelo S) \<union>
      {r_proceso req | req io. io \<in> set (tabla_ios S) \<and> (req \<in> set (io_cola io) \<or> en_curso io = Some req)}"
  shows "pcbs S p \<noteq> None"
proof
  assume "pcbs S p = None"
  then have "lug S p = nadie" using puesto_alcanzable [OF assms(1), of p] by (simp add: est_def)
  then show False
    using assms(2) by (auto simp: lug_def nadie_def count_list_0_iff ocupante_def cola_def pedidos_de_def)
qed

lemma sin_punteros_colgantes_witness: "pcbs demo7 0 \<noteq> None \<and> pcbs demo5 0 \<noteq> None \<and> map (map r_proceso \<circ> io_cola) (tabla_ios demo6) = [[0]] \<and> pcbs demo6 0 \<noteq> None"
proof -
  have "0 \<in> set (volcados_en_vuelo demo7)" "map proceso_actual (sc_cpus demo5) = [Some 0]"
    and d: "map (map r_proceso \<circ> io_cola) (tabla_ios demo6) = [[0]]" by code_simp+
  moreover from this(2) obtain c where "c \<in> set (sc_cpus demo5)" "proceso_actual c = Some 0" by (auto simp: map_eq_Cons_conv)
  moreover obtain io req where "io \<in> set (tabla_ios demo6)" "req \<in> set (io_cola io)" "0 = r_proceso req" using d by (auto simp: map_eq_Cons_conv)
  then have "pcbs demo6 0 \<noteq> None" by (intro sin_punteros_colgantes [OF demo_alcanzable(3), of 0]) blast
  ultimately show ?thesis using sin_punteros_colgantes [OF demo_alcanzable(2), of 0] sin_punteros_colgantes [OF demo_alcanzable(1), of 0] by blast
qed

end
