(* ===== verification/Sched_Main.thy ===== *)
theory Sched_Main
  imports Arranque Sched_Sistema Composicion
begin

text \<open>
  \<open>kernel_scheduler/src/main.c\<close>: the whole start of the Kernel Scheduler, from its arguments to the
  first process, and what Kernel Memory does at the other end.
\<close>

section \<open>The main function\<close>

text \<open>The thread of the medium-term scheduler is started after its list and its semaphore are new.\<close>

definition iniciar_planificador_mediano_plazo :: "t_scheduler \<Rightarrow> t_scheduler" where
  "iniciar_planificador_mediano_plazo S = S\<lparr>lista_suspendidos := [], sem_reevaluar_suspendidos := 0\<rparr>"

text \<open>A configuration file of the scheduler: the lookups of \<open>load_config_scheduler\<close>.\<close>

type_synonym t_config_archivo =
  "(string \<Rightarrow> bool) \<times> (string \<Rightarrow> string option) \<times> (string \<Rightarrow> int) \<times> (string \<Rightarrow> string list option)"

definition path_config_por_defecto :: string where
  "path_config_por_defecto = ''/home/utnso/tp-2026-1c-La-Serpiente-Shnissugah/kernel_scheduler/kernel_scheduler.conf''"

definition path_proceso_por_defecto :: string where
  "path_proceso_por_defecto = ''/home/utnso/tp-2026-1c-La-Serpiente-Shnissugah/kernel_scheduler/src/1.script''"

text \<open>
  Up to the endless wait. \<open>intentos\<close> are the attempts to reach Kernel Memory, each with what it
  sends; the bytes of the last one also answer the creation of the first process. \<open>Indefinido\<close> is a
  start that waits for ever or aborts. That the first process was not created is not looked at.
\<close>

definition scheduler_main ::
  "(string \<Rightarrow> t_config_archivo option) \<Rightarrow> string list \<Rightarrow> bool \<Rightarrow> (sock \<times> byte list) list \<Rightarrow> t_respuestas_red \<Rightarrow> int \<Rightarrow> int list \<Rightarrow>
    (t_scheduler \<times> evento list \<times> byte list) resultado" where
  "scheduler_main archivos argv log intentos r hilo fds =
     (let path_config = (if 2 \<le> length argv then argv ! 1 else path_config_por_defecto);
          path_proceso_inicial = (if 3 \<le> length argv then argv ! 2 else path_proceso_por_defecto)
      in case archivos path_config of None \<Rightarrow> Fallo
         | Some (tiene, cad, entero, arreglo) \<Rightarrow>
             (case load_config_scheduler tiene cad entero arreglo of None \<Rightarrow> Fallo
              | Some cfg \<Rightarrow> exige log
                  (case sched_conectar_a_kernel_memory intentos of None \<Rightarrow> Indefinido
                   | Some (mem, evs, s) \<Rightarrow>
                       luego (iniciar_servidor_scheduler r hilo fds) (\<lambda>(servidor, fds).
                         let S = iniciar_planificador_mediano_plazo (main_inicializar (globales_scheduler cfg))
                         in case crear_proceso_inicial mem path_proceso_inicial S s of None \<Rightarrow> Indefinido
                            | Some (S', ev, s', p) \<Rightarrow> Exito (S', evs @ ev, s')))))"

section \<open>Both kernels\<close>

lemma inicializado:
  defines "S \<equiv> \<lambda>cfg. main_inicializar (globales_scheduler cfg)"
  shows "iniciar_planificador_mediano_plazo (S cfg) = S cfg" "contador_pids (S cfg) = 0" "cola_procesos_new (S cfg) = Some []"
    "pcbs (S cfg) = (\<lambda>_. None)"
  by (simp_all add: S_def iniciar_planificador_mediano_plazo_def main_inicializar_def inicializar_recursos_kernel_scheduler_def
      inicializar_tabla_ios_def inicializar_colas_multinivel_def globales_scheduler_def Let_def)

lemma crea_confirmado:
  assumes "path \<noteq> []" "mem \<noteq> - 1" "cola_procesos_new S = Some q"
  shows "\<exists>S'. crear_proceso_inicial mem path S (enviar_ok CREAR_PROCESO @ s) =
      Some (S', [Enviar mem (enviar_crear_proceso (contador_pids S) path)], s, Some (contador_pids S)) \<and>
    cola_procesos_new S' = Some (q @ [contador_pids S]) \<and> map_option estado (pcbs S' (contador_pids S)) = Some NEW"
proof -
  obtain s1 where s1: "recibir_codigo_operacion (enviar_ok CREAR_PROCESO @ s) = (op_num CREAR_PROCESO, s1)" "recibir_ok s1 = Inr ((), s)"
    by (rule recibir_ack)
  then have "recibir_respuesta_de_memoria mem T (enviar_ok CREAR_PROCESO @ s) = Some (T, [], op_num CREAR_PROCESO, s1)" for T
    by (simp add: recibir_respuesta_de_memoria.simps [of mem T "enviar_ok CREAR_PROCESO @ s"] despachar_si_es_notificacion_def)
  then show ?thesis
    using assms s1(2)
    by (simp add: crear_proceso_inicial_def crear_proceso_def generar_pid_def enviar_creacion_proceso_a_memory_def registrar_pcb_def
        Let_def pcb_nuevo_def)
qed

lemma scheduler_registrado:
  fixes M :: t_memoria and sock :: sock
  assumes "inv_sis M"
  defines "M1 \<equiv> M\<lparr>conx := conexiones_set_scheduler_socket sock (conx M)\<rparr>"
  shows "memory_handshake_handler conectar otro M sock (enviar_handshake_scheduler_a_memory @ s) =
      (M1, [Enviar sock (enviar_ok HANDSHAKE_SCHEDULER_A_MEMORY)], s)"
    "inv_sis M1" "abs_mem M1 = abs_mem M"
proof -
  obtain s1 where "recibir_codigo_operacion (enviar_handshake_scheduler_a_memory @ s) = (op_num HANDSHAKE_SCHEDULER_A_MEMORY, s1)"
      "recibir_ok s1 = Inr ((), s)" unfolding enviar_handshake_scheduler_a_memory_def by (rule recibir_ack)
  then show "memory_handshake_handler conectar otro M sock (enviar_handshake_scheduler_a_memory @ s) =
      (M1, [Enviar sock (enviar_ok HANDSHAKE_SCHEDULER_A_MEMORY)], s)"
    by (simp add: memory_handshake_handler_def registrar_scheduler_def con_recv_Inr M1_def)
  have m: "memoria_de M1 = memoria_de M" by (simp add: M1_def conexiones_set_scheduler_socket_def memoria_fisica_def)
  have d: "en_disco M1 = en_disco M" by (simp add: M1_def fun_eq_iff en_disco_def)
  have p: "proceso_ok M1 = proceso_ok M" by (intro ext) (simp only: proceso_ok_def d)
  have f: "sticks (conx M1) = sticks (conx M)" "swap_socket (conx M1) = swap_socket (conx M)" "procesos M1 = procesos M"
      "bloques_libres M1 = bloques_libres M" "red_sticks M1 = red_sticks M" "reserva M1 = reserva M" "disco M1 = disco M"
    by (simp_all add: M1_def conexiones_set_scheduler_socket_def)
  have "mem_inv M1" using inv_sisD(1) [OF assms(1)] by (simp add: mem_inv_def red_ok_def layout_def conectados_def f)
  moreover have "swap_listo M1" using inv_sisD(2) [OF assms(1)] swap_listo_igual f(6,7) by blast
  ultimately show "inv_sis M1" using assms(1) by (simp add: inv_sis_def f p)
  have "bytes_seg M1 = bytes_seg M" using m by (simp add: fun_eq_iff bytes_seg_def) (simp add: M1_def)
  then show "abs_mem M1 = abs_mem M" by (simp add: abs_mem_def segs_abs_def) (simp add: M1_def)
qed

text \<open>
  C6. The start of the two kernels together. Kernel Memory, consistent and without a process of
  pid 0, serves the handshake of the scheduler and its first request; the scheduler, which may
  have to try several times before it gets a connection, reads exactly those two answers. When
  its \<open>main\<close> comes to its endless wait, the scheduler is in a reachable state of its transition
  system with process 0 in NEW, and Kernel Memory, still consistent, has process 0 with no segments
  and has touched no other.
\<close>

theorem sistema_arranca:
  assumes inv: "inv_sis M" "0 \<notin> ce_pid ` set (procesos M)"
    and path: "path \<noteq> []" "cadena_ok path" "length path < 2 ^ 31 - 100"
    and cfg: "archivos conf = Some (tiene, cad, entero, arreglo)" "load_config_scheduler tiene cad entero arreglo = Some cfg"
    and red: "iniciar_servidor_scheduler r hilo fds = Exito (servidor, fds')"
    and intentos: "\<forall>(sk, s) \<in> set xs. sk = - 1" "mem \<noteq> - 1"
    and h: "memory_handshake_handler conectar otro M sock enviar_handshake_scheduler_a_memory = (M1, ev1, s1)"
    and c: "atender_scheduler fopen M1 sock (enviar_crear_proceso 0 path) = (M2, ev2, s2)"
  shows "\<exists>S. scheduler_main archivos [prog, conf, path] True (xs @ [(mem, respuesta_en sock ev1 @ respuesta_en sock ev2)]) r hilo fds =
      Exito (S, [Enviar mem enviar_handshake_scheduler_a_memory, Enviar mem (enviar_crear_proceso 0 path)], []) \<and>
    alcanzable estado_inicial paso S \<and> cola_procesos_new S = Some [0] \<and> map_option estado (pcbs S 0) = Some NEW \<and>
    inv_sis M2 \<and> abs_mem M2 = abs_mem M @ [(0, [])]"
proof -
  note reg = scheduler_registrado [OF inv(1), where sock = sock]
  have 1: "M1 = M\<lparr>conx := conexiones_set_scheduler_socket sock (conx M)\<rparr>" "ev1 = [Enviar sock (enviar_ok HANDSHAKE_SCHEDULER_A_MEMORY)]"
    using reg(1) [of conectar otro "[]"] h by simp_all
  then have M1: "inv_sis M1" "abs_mem M1 = abs_mem M" "0 \<notin> ce_pid ` set (procesos M1)" using reg(2,3) inv(2) by simp_all
  have ev2: "ev2 = [Enviar sock (enviar_ok CREAR_PROCESO)]"
    using atender_crear [OF path(2,3), of fopen M1 sock 0 "[]"] c by simp
  have M2: "inv_sis M2 \<and> abs_mem M2 = abs_mem M @ [(0, [])]"
    using crear_sis [OF M1(1,3) path(2,3), of fopen sock "[]"] c M1(2) by simp
  let ?S = "main_inicializar (globales_scheduler cfg)"
  note ini = inicializado [of cfg]
  from crea_confirmado [OF path(1) intentos(2) ini(3), of "[]"]
  obtain S where S: "crear_proceso_inicial mem path ?S (enviar_ok CREAR_PROCESO) = Some (S, [Enviar mem (enviar_crear_proceso 0 path)], [], Some 0)"
      "cola_procesos_new S = Some [0]" "map_option estado (pcbs S 0) = Some NEW"
    unfolding ini(2) by auto
  have "sched_conectar_a_kernel_memory (xs @ [(mem, enviar_ok HANDSHAKE_SCHEDULER_A_MEMORY @ enviar_ok CREAR_PROCESO)]) =
      Some (mem, [Enviar mem enviar_handshake_scheduler_a_memory], enviar_ok CREAR_PROCESO)"
    by (rule sched_conecta [OF intentos])
  then have "scheduler_main archivos [prog, conf, path] True (xs @ [(mem, respuesta_en sock ev1 @ respuesta_en sock ev2)]) r hilo fds =
      Exito (S, [Enviar mem enviar_handshake_scheduler_a_memory, Enviar mem (enviar_crear_proceso 0 path)], [])"
    using cfg red S(1) by (simp add: scheduler_main_def 1(2) ev2 ini(1) Let_def)
  moreover have "alcanzable estado_inicial paso S"
  proof (rule alcanzable.avance)
    show "alcanzable estado_inicial paso ?S" by (rule alcanzable.inicio) (auto simp: estado_inicial_def)
    show "paso ?S S" by (rule paso.proceso_inicial [OF S(1)]) (simp add: ini(2))
  qed
  ultimately show ?thesis using S(2,3) M2 by blast
qed

text \<open>The initial memory and a scheduler whose first attempt finds nobody.\<close>

lemma sistema_arranca_witness:
  "\<exists>S M2. scheduler_main (\<lambda>_. Some (\<lambda>_. True, \<lambda>_. Some ''FIFO'', \<lambda>_. 1, \<lambda>_. None)) [''ks'', ''c'', ''a''] True
      ([(- 1, [])] @ [(9, enviar_ok HANDSHAKE_SCHEDULER_A_MEMORY @ enviar_ok CREAR_PROCESO)]) red_buena 0 [] =
      Exito (S, [Enviar 9 enviar_handshake_scheduler_a_memory, Enviar 9 (enviar_crear_proceso 0 ''a'')], []) \<and>
    alcanzable estado_inicial paso S \<and> cola_procesos_new S = Some [0] \<and> inv_sis M2 \<and> abs_mem M2 = [(0, [])]"
proof -
  have inv: "inv_sis memoria_inicial" "0 \<notin> ce_pid ` set (procesos memoria_inicial)" "abs_mem memoria_inicial = []"
    using inv_sis_inicio [OF ini_memoria_inicial] by (simp_all add: memoria_inicial_def procesos_init_def abs_mem_def)
  have a: "''a'' \<noteq> ([] :: string)" "cadena_ok ''a''" "length ''a'' < 2 ^ 31 - 100" by (simp_all add: cadena_ok_def)
  obtain cfg where cfg: "load_config_scheduler (\<lambda>_. True) (\<lambda>_. Some ''FIFO'') (\<lambda>_. 1) (\<lambda>_. None) = Some cfg"
    by (simp add: load_config_scheduler_def Let_def list_all_iff)
  have red: "iniciar_servidor_scheduler red_buena 0 [] = Exito (Escucha 7 True, [7])"
    by (simp add: iniciar_servidor_scheduler_def iniciar_servidor_memory_def iniciar_servidor_def red_buena_def spawn_detached_def Let_def)
  let ?M1 = "memoria_inicial\<lparr>conx := conexiones_set_scheduler_socket 3 (conx memoria_inicial)\<rparr>"
  have h: "memory_handshake_handler (\<lambda>_ _. None) swap_ejemplo memoria_inicial 3 enviar_handshake_scheduler_a_memory =
      (?M1, [Enviar 3 (enviar_ok HANDSHAKE_SCHEDULER_A_MEMORY)], [])"
    using scheduler_registrado(1) [OF inv(1), where sock = 3 and s = "[]"] by simp
  obtain M2 where c: "atender_scheduler (\<lambda>_. None) ?M1 3 (enviar_crear_proceso 0 ''a'') = (M2, [Enviar 3 (enviar_ok CREAR_PROCESO)], [])"
    using atender_crear [OF a(2,3), of "\<lambda>_. None" ?M1 3 0 "[]"] by simp
  show ?thesis
    using sistema_arranca [where archivos = "\<lambda>_. Some (\<lambda>_. True, \<lambda>_. Some ''FIFO'', \<lambda>_. 1, \<lambda>_. None)" and conf = "''c''" and
        prog = "''ks''" and xs = "[(- 1, [])]" and mem = 9, OF inv(1,2) a refl cfg red _ _ h c] inv(3)
    by auto
qed

end
