(* ===== verification/Spec2Isabelle.thy ===== *)
theory Spec2Isabelle
  imports Comp_Suspension Sched_Main
begin

text \<open>
  Verification library of PlugAndPlay, a simulated operating system made of processes that talk
  over sockets: Kernel Scheduler, Kernel Memory, CPUs, Memory Sticks, Swap and IO devices (each a
  directory of \<open>src/PlugAndPlay.main\<close>, with the shared \<open>utils\<close>). The model is a shallow embedding:
  C structs are records, enums are datatypes with the code's constructors, \<open>int\<close>, \<open>uint32_t\<close> and
  \<open>uint8_t\<close> are words that wrap (comparisons of \<open>int\<close> are signed), and every handler is a function
  from the state, and the bytes that arrive, to the new state, the bytes that are sent (\<open>evento\<close>)
  and the bytes that are left. Names are those of the source; a name that two modules share has a
  prefix or suffix that its theory explains.

  \<^bold>\<open>The program.\<close> A CPU asks Kernel Memory for the context and the instructions of a process,
  executes them, and reads and writes memory directly on the sticks with its MMU. The scheduler
  sends a pid to a CPU and gets it back with a reason (end, quantum, system call, eviction). The
  system calls allocate memory through Kernel Memory, use mutexes, create processes, and block on
  IO devices; a process that stays blocked is copied to swap by Kernel Memory and brought back
  later. Kernel Memory keeps the segments of every process in the RAM that the sticks provide, and
  compacts it when it is too fragmented.

  \<^bold>\<open>Theories.\<close>
  \<^item> \<open>Prelude\<close>: theorem collections, lemmas on lists, little-endian words, partitions, the decimal
    functions of the C library, \<open>alcanzable\<close> and the locale \<open>con_invariante\<close>.
  \<^item> \<open>Serializacion\<close>, \<open>Mensajes\<close> (\<open>utils/src/utils/serializacion.c\<close>, \<open>mensajes.c\<close>): packets as byte
    lists, the receive primitives as parsers, every \<open>enviar_X\<close> and \<open>recibir_X\<close>. The locale \<open>mensaje\<close>
    is the contract of a pair; each pair that has both ends is an interpretation of it.
    \<open>Sockets\<close> (\<open>sockets.c\<close>): the transfer loops under those byte lists, the packets of the old
    protocol, the opening of sockets and the retry loop of the CPU.
  \<^item> \<open>Bloques\<close> (\<open>memory_bloques.c\<close>), with the locale \<open>asignador\<close> for what compaction and the segment
    handlers use of the allocator; \<open>Conexiones\<close> (\<open>memory_conexiones.c\<close>); \<open>Memory_Stick\<close>
    (\<open>utils_memory_stick.c\<close>); \<open>Memory_IO\<close> (\<open>memory_io.c\<close>), with the locale \<open>memoria_plana\<close>, the
    sticks seen as one array; \<open>Swap_Disco\<close> (\<open>swap/src\<close>) and \<open>Memory_Swap\<close> (\<open>memory_swap.c\<close>), with the
    locale \<open>disco_bloques\<close>; \<open>Procesos\<close> (\<open>memory_procesos.c\<close>).
  \<^item> \<open>Memoria\<close>: the state of Kernel Memory and \<open>memory_config.c\<close>; \<open>Compactacion\<close>
    (\<open>memory_compactacion.c\<close>); \<open>Memory_Scheduler\<close> (\<open>memory_scheduler.c\<close>) with its properties in
    \<open>Segmentos\<close>, \<open>Suspension\<close> and \<open>Reanudacion\<close>; \<open>Memory_Cpu\<close> (\<open>memory_cpu.c\<close>, \<open>memory_servidor.c\<close>).
  \<^item> \<open>Memory_Abstracta\<close>, \<open>Memory_Sistema\<close>: the memory that the processes see, a list of private
    segments with their bytes wherever they lie, and Kernel Memory as a transition system
    \<open>paso_memoria\<close> that refines it.
  \<^item> \<open>Cpu_Mmu\<close> (\<open>cpu_mmu.c\<close>, the table of sticks of \<open>cpu_memory.c\<close>), \<open>Cpu_Ejecucion\<close> (decode and
    execute of \<open>cpu_ciclo.c\<close>), \<open>Cpu_Ciclo\<close> (the cycle, \<open>cpu_memory.c\<close>, \<open>cpu_scheduler.c\<close>, the turn of
    \<open>main.c\<close>).
  \<^item> \<open>Sched_Estado\<close> (\<open>globalesKernelScheduler.c\<close> and the READY queues), \<open>Sched_Mutex\<close>, \<open>Sched_Pcp\<close>
    (\<open>planificadorCortoPlazo.c\<close>, the CPUs, compaction), \<open>Sched_Memoria\<close> (\<open>memory_protocol.c\<close>,
    \<open>crearProceso.c\<close>, \<open>planificadorLargoPlazo.c\<close>), \<open>Sched_IO\<close> (\<open>colaIO.c\<close>), \<open>Sched_Pmp\<close>
    (\<open>planificadorMedianoPlazo.c\<close>), \<open>Sched_Syscalls\<close> (the rest of \<open>utils_kernel_scheduler.c\<close>),
    \<open>Sched_Arranque\<close> (\<open>scheduler_config.c\<close>, \<open>main.c\<close>).
  \<^item> \<open>Sched_Lugares\<close>, \<open>Sched_Sueltos\<close>, \<open>Sched_Sistema\<close>: the scheduler as a transition system \<open>paso\<close>
    with one rule per action of a thread, and its global invariant.
  \<^item> \<open>Io_Modulo\<close> (\<open>io/src\<close>); \<open>Composicion\<close> and \<open>Comp_Suspension\<close>: the scheduler together with Kernel
    Memory and with the devices.
  \<^item> \<open>Arranque\<close>: the configurations, the \<open>main\<close> functions and the servers of the modules, and the
    memory of a system that has started; \<open>Sched_Main\<close>: the \<open>main\<close> of the scheduler, with Kernel
    Memory at the other end.
\<close>

text \<open>
  \<^bold>\<open>What the properties show.\<close>
  \<^item> Messages: C1 a message is read back as it was sent (the interpretations of \<open>mensaje\<close> say so for
    the other pairs, with streams of messages); C14 the bytes cross the socket unchanged however the
    kernel cuts them.
  \<^item> Scheduler as a whole: C2, C9, C16 hold in every reachable state for any interleaving of its
    threads, timers, devices and CPUs: a process is in one place, with the state of that place
    (the list of suspended processes overlaps with the BLOCK queue, as C2 says); a copy to swap cannot
    be overtaken; there are no dangling pointers, the requests to the devices included.
  \<^item> Kernel Memory as a whole: C20, C21 hold in every state that is reachable while the clients keep
    to the rules listed before \<open>paso_memoria\<close>, which the handlers do not check: above all, a CPU
    returns a context with the segment table that Kernel Memory has at that moment, and segments are
    removed for processes in RAM. \<open>contexto_viejo_corrompe\<close> and \<open>eliminar_suspendido_corrompe\<close> show the
    corruption that follows when they do not. Under those rules each request does to the
    private segments what its name says and nothing else; suspension, resumption, compaction and new
    sticks cannot be seen; no two segments share a cell or a block.
  \<^item> Start: C25 the modules around Kernel Memory start it in a reachable state; C6 both kernels start
    with the first process.
  \<^item> Free list and RAM: C3 to C5, C7, C8, C10, C11 allocation, release, the server of a stick, and
    the refinement of the sticks to one flat array.
  \<^item> Kernel Memory, by component: C12, C13 swap; C15 translation; C17, C18 compaction; C19 segments;
    C23, C24 suspension and resumption; C26, C28 sticks and instructions.
  \<^item> CPU: C29, C30 the MMU agrees with Kernel Memory (a 32-bit sum that wraps passes its check, as
    in C8 for the sticks and C15 for Kernel Memory); C34 MOV through MMU and sticks; C35 an
    interruption evicts; C36 the mirror of the table of sticks.
  \<^item> Scheduler, by component: C31 priority inheritance ends; C32 a STDIN that ends during a
    suspension; C37, C38 mutexes; C39 the deadlock that ending a process runs into, over an
    explicit lock; C40 the
    dispatch of the short-term scheduler.
  \<^item> Two programs at once: C22 MEM\_ALLOC through both kernels, C27 a suspension and the resumption
    after it through both kernels, C33 a request to a device.

  Theorems outside that list keep smaller results (\<open>buscar_stick_correcto\<close>, \<open>cargar_script_lineas\<close>,
  \<open>finalizar_proceso_correcto\<close>, \<open>eliminar_segmento_correcto\<close>, \<open>suspender_y_reanudar\<close>,
  \<open>contexto_guardado\<close>, \<open>socket_paquete_ida_y_vuelta\<close>, \<open>split_file_tag_correcto\<close>, \<open>log_path_correcto\<close>,
  \<open>escucha_del_stick\<close>, \<open>sondeo_correcto\<close>) and known defects: \<open>iniciar_servidor_oculta_bind\<close>,
  \<open>esperar_conexion_pierde_descriptores\<close>, \<open>escucha_abandona\<close>, \<open>stick_lectura_desborda\<close>,
  \<open>traducir_desborda\<close>, \<open>eliminar_suspendido_corrompe\<close>, \<open>contexto_viejo_corrompe\<close>, \<open>io_no_responde_stdin\<close>,
  \<open>sum_y_sub\<close>,
  \<open>parametros_resueltos\<close>, \<open>mmu_traducciones_acotadas\<close>, \<open>nueva_memoria_flujo\<close>.

  \<^bold>\<open>Interfaces.\<close> \<open>mensaje\<close>, \<open>asignador\<close>, \<open>memoria_plana\<close>, \<open>disco_bloques\<close> and \<open>con_invariante\<close> are
  interpreted on the definitions of the model, in the theory that provides them; the clients use
  the facts of the interpretations.

  \<^bold>\<open>Steps, fuel and bounds.\<close> What a thread does between two waits, under its locks, is one step.
  The lock of the mutex list is explicit in the clean-up of a process (\<open>hilo\<close>, \<open>corrida\<close>), which takes
  it twice.
  Threads that wait in the middle of their work are split there: the worker of a device
  (\<open>io_worker_tomar\<close>, \<open>io_worker_fin\<close>) and the suspension timer (\<open>suspension_timer_thread\<close>,
  \<open>suspension_timer_responde\<close>). An exchange of the scheduler with Kernel Memory holds
  \<open>mutex_memory_socket\<close> and is inside its step. A system call is one step with its
  exchanges; the loop of the medium-term scheduler is a step, and so is each of its iterations. \<open>None\<close> is a step that waits, aborts or never returns;
  each theory says which. The loops over a socket recurse on the bytes that are left, and end with
  them. \<open>bucle_ciclo\<close>, the cycle of a CPU, takes the list of what arrives before each instruction and
  ends with it. All other functions are total, by structural recursion or a measure;
  \<open>propagar_con_tope\<close> is the recursion with a depth counter that C31 bounds. In \<open>paso\<close> a process is
  created only while the counter of pids is below the largest \<open>int\<close>. Messages are shorter than
  \<open>2 ^ 31 - 100\<close> bytes where a theorem reads them back.

  \<^bold>\<open>Parameters.\<close> Code outside the repository is an argument: \<open>string_split\<close>, \<open>list_sort\<close> (\<open>ordenar\<close>;
  that it permutes its list is a premise), the lookups of the configuration library, \<open>fopen\<close> of a
  script, the answers of the kernel to socket and thread calls. The handlers take what an outgoing
  connection leads to (\<open>conectar\<close>); \<open>Sockets\<close> models \<open>crear_conexion\<close> itself.

  \<^bold>\<open>Not modelled.\<close> The logs, the wire trace of \<open>send_all\<close>, the signal handler of the swap, the
  release of memory (\<open>free\<close>, \<open>eliminar_paquete\<close>, \<open>destroy_X\<close>) but where it leaves a pointer behind,
  the peek that only feeds a log line. The receive timeout of the
  socket to Kernel Memory and the delays (\<open>usleep\<close>). Failures of \<open>malloc\<close>, but where a size from
  the wire makes them certain and in the accept loops. Interleavings inside a step: accesses without
  a lock are taken as atomic, and no other thread runs between the request to Kernel Memory and
  what the same thread does with the answer, except in the two threads that are split.
  \<open>paso_memoria\<close> has no step for a stick that disappears (the scheduler then stops) nor for a
  suspension that runs out of swap, which leaves a process half copied.
\<close>

end
